(* ===== verification/Prelude.thy ===== *)
theory Prelude
  imports "HOL-Library.Word"
begin

text \<open>
  Shared vocabulary of the development: the integer types of
  \<^verbatim>\<open>Framework/BaseCommon/OurDef.h\<close> as words, the little-endian image of an
  integer in memory (what \<^verbatim>\<open>memcpy\<close> from or to a C integer copies on the x86
  servers this code runs on), and an ordered association list with the operations of
  \<^verbatim>\<open>std::map\<close> that the code calls.
  The collection \<^verbatim>\<open>wire\<close> holds the rewrite rules of byte-level reasoning and
  \<^verbatim>\<open>smap\<close> those of the ordered maps.
\<close>

named_theorems wire
named_theorems smap

section \<open>Integer types of OurDef.h\<close>

type_synonym u8 = "8 word"
type_synonym u16 = "16 word"
type_synonym u32 = "32 word"
type_synonym u64 = "64 word"

text \<open>
  The signed types \<^verbatim>\<open>Int16\<close>, \<^verbatim>\<open>Int32\<close> and \<^verbatim>\<open>Int64\<close> are
  words of the same width read through \<open>sint\<close>.
\<close>

type_synonym i16 = "16 word"
type_synonym i32 = "32 word"
type_synonym i64 = "64 word"

section \<open>Integers in memory\<close>

primrec bytes_of_nat :: "nat \<Rightarrow> nat \<Rightarrow> u8 list" where
  "bytes_of_nat 0 n = []"
| "bytes_of_nat (Suc k) n = of_nat n # bytes_of_nat k (n div 256)"

primrec nat_of_bytes :: "u8 list \<Rightarrow> nat" where
  "nat_of_bytes [] = 0"
| "nat_of_bytes (b # bs) = unat b + 256 * nat_of_bytes bs"

lemma length_bytes_of_nat [simp, wire]: "length (bytes_of_nat k n) = k"
  by (induction k arbitrary: n) auto

lemma unat_of_nat_u8: "unat (of_nat n :: u8) = n mod 256"
  by (simp add: unat_of_nat)

lemma nat_of_bytes_of_nat: "nat_of_bytes (bytes_of_nat k n) = n mod 256 ^ k"
proof (induction k arbitrary: n)
  case 0
  then show ?case by simp
next
  case (Suc k)
  have "n mod 256 ^ Suc k = 256 * (n div 256 mod 256 ^ k) + n mod 256"
    by (simp add: mod_mult2_eq)
  with Suc show ?case by (simp add: unat_of_nat_u8)
qed

lemma bytes_of_nat_of_bytes: "bytes_of_nat (length bs) (nat_of_bytes bs) = bs"
proof (induction bs)
  case Nil
  then show ?case by simp
next
  case (Cons b bs)
  have "unat b < 2 ^ LENGTH(8)"
    by (rule unsigned_less)
  then have b: "unat b < 256"
    by simp
  have "of_nat (unat b + 256 * nat_of_bytes bs) = b"
    by (rule word_unat_eq_iff [THEN iffD2]) (simp only: unat_of_nat_u8, use b in simp)
  moreover have "(unat b + 256 * nat_of_bytes bs) div 256 = nat_of_bytes bs"
    using b by simp
  ultimately show ?case
    using Cons by simp
qed

lemma nat_of_bytes_bound: "nat_of_bytes bs < 256 ^ length bs"
  by (metis bytes_of_nat_of_bytes mod_less_divisor nat_of_bytes_of_nat zero_less_numeral zero_less_power)

text \<open>The bytes of a word, lowest address first, and the word those bytes make.\<close>

definition bytes_of_word :: "nat \<Rightarrow> 'a::len word \<Rightarrow> u8 list" where
  "bytes_of_word k w = bytes_of_nat k (unat w)"

definition word_of_bytes :: "u8 list \<Rightarrow> 'a::len word" where
  "word_of_bytes bs = of_nat (nat_of_bytes bs)"

lemma length_bytes_of_word [simp, wire]: "length (bytes_of_word k w) = k"
  by (simp add: bytes_of_word_def)

lemma word_of_bytes_of_word:
  assumes "LENGTH('a) \<le> 8 * k"
  shows "word_of_bytes (bytes_of_word k w) = (w :: 'a::len word)"
proof -
  have "(2::nat) ^ LENGTH('a) \<le> 2 ^ (8 * k)"
    using assms by simp
  also have "\<dots> = 256 ^ k"
    by (simp add: power_mult)
  finally have "(2::nat) ^ LENGTH('a) \<le> 256 ^ k" .
  moreover have "unat w < 2 ^ LENGTH('a)"
    by (rule unsigned_less)
  ultimately have "unat w < 256 ^ k"
    by linarith
  then show ?thesis
    by (simp add: word_of_bytes_def bytes_of_word_def nat_of_bytes_of_nat)
qed

lemma word_of_bytes_u8 [wire]: "word_of_bytes (bytes_of_word (Suc 0) w) = (w :: u8)"
  by (rule word_of_bytes_of_word) simp

lemma word_of_bytes_u16 [wire]: "word_of_bytes (bytes_of_word 2 w) = (w :: u16)"
  by (rule word_of_bytes_of_word) simp

lemma word_of_bytes_u32 [wire]: "word_of_bytes (bytes_of_word 4 w) = (w :: u32)"
  by (rule word_of_bytes_of_word) simp

lemma word_of_bytes_u64 [wire]: "word_of_bytes (bytes_of_word 8 w) = (w :: u64)"
  by (rule word_of_bytes_of_word) simp

lemma bytes_of_word_of_bytes:
  assumes "8 * length bs \<le> LENGTH('a)"
  shows "bytes_of_word (length bs) (word_of_bytes bs :: 'a::len word) = bs"
proof -
  have "nat_of_bytes bs < 2 ^ (8 * length bs)"
    using nat_of_bytes_bound [of bs] by (simp add: power_mult)
  also have "\<dots> \<le> 2 ^ LENGTH('a)"
    using assms by simp
  finally have "unat (of_nat (nat_of_bytes bs) :: 'a word) = nat_of_bytes bs"
    by (simp add: unat_of_nat)
  then show ?thesis
    by (simp add: bytes_of_word_def word_of_bytes_def bytes_of_nat_of_bytes)
qed

lemma u16_of_nat_pos: "n < 65536 \<Longrightarrow> (0 < (of_nat n :: u16)) = (0 < n)"
  by (simp add: word_less_nat_alt unat_of_nat)

lemma unat_u16_of_nat: "n < 65536 \<Longrightarrow> unat (of_nat n :: u16) = n"
  by (simp add: unat_of_nat)

section \<open>Signed integers as unsigned ones\<close>

lemma uint_i32: "uint (i :: i32) = sint i mod 4294967296"
  by (simp add: uint_sint take_bit_eq_mod)

lemma sint_i32_bounds: "sint (i :: i32) < 2147483648" "- 2147483648 \<le> sint (i :: i32)"
  using sint_lt [of i] sint_ge [of i] by simp_all

lemma uint_minus_i32: "uint (- i :: i32) = - sint i mod 4294967296"
proof -
  have "uint (- i) = - uint i mod 4294967296"
    by (simp add: uint_word_ariths)
  then show ?thesis
    by (simp only: uint_i32 mod_minus_eq)
qed

lemma uint_plus_i32: "uint (v + i :: u32) = (uint v + sint i) mod 4294967296"
proof -
  have "uint (v + i) = (uint v + uint i) mod 4294967296"
    by (simp add: uint_word_ariths)
  then show ?thesis
    by (simp only: uint_i32 mod_add_right_eq)
qed

lemma negative_wraps: "uint (v :: u32) + sint (i :: i32) < 0 \<Longrightarrow>
    (uint v + sint i) mod 4294967296 = uint v + sint i + 4294967296"
proof -
  assume a: "uint v + sint i < 0"
  have "0 \<le> uint v + sint i + 4294967296"
    using sint_i32_bounds (2) [of i] uint_ge_0 [of v] by linarith
  moreover have "uint v + sint i + 4294967296 < 4294967296"
    using a by linarith
  ultimately have "(uint v + sint i + 4294967296) mod 4294967296 = uint v + sint i + 4294967296"
    by (rule mod_pos_pos_trivial)
  then show ?thesis
    by (simp only: mod_add_self2)
qed

lemma sint_diff_u16:
  assumes "\<bar>uint a - uint b\<bar> < 2 ^ 15"
  shows "sint (a - b :: u16) = uint a - uint b"
proof -
  have "uint (a - b) = take_bit 16 (uint a - uint b)"
    by (simp only: uint_word_ariths take_bit_eq_mod) simp
  then have "sint (a - b) = signed_take_bit 15 (uint a - uint b)"
    by (simp add: sint_uint signed_take_bit_take_bit)
  then show ?thesis
    using assms by (simp add: signed_take_bit_int_eq_self)
qed

section \<open>Writing a run of bytes into memory\<close>

text \<open>\<open>blit xs i ys\<close> is the memory \<open>xs\<close> after \<^verbatim>\<open>memcpy(xs + i, ys, length ys)\<close>,
  for a copy that stays inside \<open>xs\<close>.\<close>

definition blit :: "'a list \<Rightarrow> nat \<Rightarrow> 'a list \<Rightarrow> 'a list" where
  "blit xs i ys = take i xs @ ys @ drop (i + length ys) xs"

lemma length_blit [simp]: "i + length ys \<le> length xs \<Longrightarrow> length (blit xs i ys) = length xs"
  by (simp add: blit_def)

lemma take_blit: "i + length ys \<le> length xs \<Longrightarrow> take (i + length ys) (blit xs i ys) = take i xs @ ys"
  by (simp add: blit_def)

lemma take_blit_before: "j \<le> i \<Longrightarrow> i \<le> length xs \<Longrightarrow> take j (blit xs i ys) = take j xs"
  by (simp add: blit_def min_absorb1)

lemma drop_blit: "i + length ys \<le> length xs \<Longrightarrow> drop (i + length ys) (blit xs i ys) = drop (i + length ys) xs"
  by (simp add: blit_def)

lemma drop_take_blit:
  assumes "i \<le> j" and "j + length ys \<le> n" and "n \<le> length xs"
  shows "drop i (take n (blit xs j ys)) = blit (drop i (take n xs)) (j - i) ys"
proof -
  have "take n (blit xs j ys) = take j xs @ ys @ drop (j + length ys) (take n xs)"
    using assms by (simp add: blit_def min_absorb2 drop_take)
  moreover have "take (j - i) (drop i (take n xs)) = drop i (take j xs)"
    using assms by (simp add: drop_take min_absorb1)
  ultimately show ?thesis
    using assms by (simp add: blit_def min_absorb2)
qed

lemma blit_Nil [simp]: "blit xs i [] = xs"
  by (simp add: blit_def)

text \<open>The length of a number as \<^verbatim>\<open>%d\<close> writes it, and what \<^verbatim>\<open>c_str\<close> shows of a
  string to a function that reads up to the first zero byte.\<close>

fun digits :: "nat \<Rightarrow> nat" where
  "digits n = (if n < 10 then 1 else Suc (digits (n div 10)))"

declare digits.simps [simp del]

lemma digits_one [simp]: "n < 10 \<Longrightarrow> digits n = 1"
  by (subst digits.simps) simp

definition dec_len :: "int \<Rightarrow> nat" where
  "dec_len n = (if n < 0 then 1 else 0) + digits (nat \<bar>n\<bar>)"

definition c_str :: "'a::zero list \<Rightarrow> 'a list" where
  "c_str s = takeWhile (\<lambda>b. b \<noteq> 0) s"

lemma c_str_idem [simp]: "c_str (c_str s) = c_str s"
  by (simp add: c_str_def)

lemma set_c_str: "set (c_str s) \<subseteq> set s"
  by (auto simp: c_str_def dest: set_takeWhileD)

section \<open>The ordered maps\<close>

text \<open>
  A \<^verbatim>\<open>std::map\<close> is the list of its pairs in key order, which is the order its
  iterator visits. \<open>smap_put\<close> is \<^verbatim>\<open>m[k] = v\<close>, \<open>smap_insert\<close> is
  \<^verbatim>\<open>m.insert(make_pair(k, v))\<close>, which leaves an existing entry as it is,
  \<open>smap_erase\<close> is \<^verbatim>\<open>m.erase(k)\<close> and \<open>smap_find\<close> is
  \<^verbatim>\<open>m.find(k)\<close> with \<^verbatim>\<open>m.end()\<close> as \<open>None\<close>.
\<close>

type_synonym ('k, 'v) smap = "('k \<times> 'v) list"

definition smap_find :: "'k \<Rightarrow> ('k, 'v) smap \<Rightarrow> 'v option" where
  "smap_find k m = map_of m k"

fun smap_put :: "'k::linorder \<Rightarrow> 'v \<Rightarrow> ('k, 'v) smap \<Rightarrow> ('k, 'v) smap" where
  "smap_put k v [] = [(k, v)]"
| "smap_put k v ((a, b) # m) =
     (if k < a then (k, v) # (a, b) # m
      else if k = a then (k, v) # m
      else (a, b) # smap_put k v m)"

definition smap_insert :: "'k::linorder \<Rightarrow> 'v \<Rightarrow> ('k, 'v) smap \<Rightarrow> ('k, 'v) smap" where
  "smap_insert k v m = (case smap_find k m of None \<Rightarrow> smap_put k v m | Some _ \<Rightarrow> m)"

definition smap_erase :: "'k \<Rightarrow> ('k, 'v) smap \<Rightarrow> ('k, 'v) smap" where
  "smap_erase k m = filter (\<lambda>p. fst p \<noteq> k) m"

definition smap_ok :: "('k::linorder, 'v) smap \<Rightarrow> bool" where
  "smap_ok m = sorted_wrt (<) (map fst m)"

lemma smap_find_Nil [simp, smap]: "smap_find k [] = None"
  by (simp add: smap_find_def)

lemma smap_find_put [smap]: "smap_find k (smap_put a v m) = (if k = a then Some v else smap_find k m)"
  by (induction a v m rule: smap_put.induct) (auto simp: smap_find_def)

lemma smap_find_insert [smap]:
  "smap_find k (smap_insert a v m) = (if k = a \<and> smap_find a m = None then Some v else smap_find k m)"
  by (auto simp: smap_insert_def smap_find_put split: option.splits)

lemma smap_find_erase [smap]: "smap_find k (smap_erase a m) = (if k = a then None else smap_find k m)"
  by (induction m) (auto simp: smap_find_def smap_erase_def)

lemma keys_smap_put: "fst ` set (smap_put k v m) = insert k (fst ` set m)"
  by (induction k v m rule: smap_put.induct) auto

lemma smap_ok_Nil [simp, smap]: "smap_ok []"
  by (simp add: smap_ok_def)

lemma smap_ok_put [smap]: "smap_ok m \<Longrightarrow> smap_ok (smap_put k v m)"
proof (induction k v m rule: smap_put.induct)
  case (1 k v)
  then show ?case by (simp add: smap_ok_def)
next
  case (2 k v a b m)
  have "k = a \<or> k < a \<or> a < k"
    by auto
  then show ?case
    using 2 by (auto simp: smap_ok_def keys_smap_put dest: less_trans)
qed

lemma smap_ok_insert [smap]: "smap_ok m \<Longrightarrow> smap_ok (smap_insert k v m)"
  by (simp add: smap_insert_def smap_ok_put split: option.splits)

lemma smap_ok_erase [smap]: "smap_ok m \<Longrightarrow> smap_ok (smap_erase k m)"
  unfolding smap_ok_def smap_erase_def sorted_wrt_map by (rule sorted_wrt_filter)

lemma smap_find_in_set: "smap_ok m \<Longrightarrow> (smap_find k m = Some v) = ((k, v) \<in> set m)"
  by (simp add: smap_ok_def smap_find_def strict_sorted_iff)

text \<open>What the tables of the servers rely on of a map, and what follows for a run of
  operations on one.\<close>

locale std_map =
  fixes look :: "'k \<Rightarrow> 'm \<Rightarrow> 'v option"
    and put :: "'k \<Rightarrow> 'v \<Rightarrow> 'm \<Rightarrow> 'm"
    and ins :: "'k \<Rightarrow> 'v \<Rightarrow> 'm \<Rightarrow> 'm"
    and del :: "'k \<Rightarrow> 'm \<Rightarrow> 'm"
  assumes look_put: "look k (put a v m) = (if k = a then Some v else look k m)"
    and look_ins: "look k (ins a v m) = (if k = a \<and> look a m = None then Some v else look k m)"
    and look_del: "look k (del a m) = (if k = a then None else look k m)"
begin

lemma look_fold_del: "look k (fold del ks m) = (if k \<in> set ks then None else look k m)"
  by (induction ks arbitrary: m) (auto simp: look_del)

lemma look_fold_put:
  "look k (fold (\<lambda>(a, v). put a v) ps m) =
    (case map_of (rev ps) k of None \<Rightarrow> look k m | Some v \<Rightarrow> Some v)"
  by (induction ps arbitrary: m) (auto simp: look_put map_add_def split: option.splits)

lemma look_put_same: "look a (put a v m) = Some v"
  by (simp add: look_put)

lemma look_del_same: "look a (del a m) = None"
  by (simp add: look_del)

lemma ins_twice: "look k (ins a w (ins a v m)) = look k (ins a v m)"
  by (simp add: look_ins)

lemma dom_put: "{k. look k (put a v m) \<noteq> None} = insert a {k. look k m \<noteq> None}"
  by (auto simp: look_put)

lemma dom_del: "{k. look k (del a m) \<noteq> None} = {k. look k m \<noteq> None} - {a}"
  by (auto simp: look_del)

end

interpretation sm: std_map smap_find smap_put smap_insert smap_erase
  by unfold_locales (auto simp: smap_find_put smap_find_insert smap_find_erase)

end
