(* ===== verification/Data_Buffer.thy ===== *)
theory Data_Buffer
  imports Prelude
begin

text \<open>
  \<^verbatim>\<open>Framework/BaseCommon/DataBuffer.h\<close>: the byte buffer with a read and a write
  pointer that every message of the servers is packed into and parsed from. The pointers are
  offsets from \<^verbatim>\<open>_pData\<close>; the memory \<^verbatim>\<open>_pData\<close> points to is a list of
  bytes as long as \<^verbatim>\<open>_size\<close>. A \<^verbatim>\<open>memcpy\<close> that leaves that memory is
  the result \<open>None\<close>. \<open>unread\<close> and \<open>written\<close> are the abstract content,
  a queue of bytes, that the lemmas relate the pointer operations to.
\<close>

record data_buffer =
  db_size :: u32
  db_data :: "u8 list"
  db_read :: nat
  db_write :: nat

text \<open>\<^verbatim>\<open>DataBuffer(unsigned int)\<close>: \<open>mem\<close> is the memory \<^verbatim>\<open>malloc\<close>
  returns, whose bytes are not initialised.\<close>

definition DataBuffer_new :: "u32 \<Rightarrow> u8 list \<Rightarrow> data_buffer" where
  "DataBuffer_new sz mem =
     \<lparr>db_size = sz, db_data = mem, db_read = 0, db_write = 0\<rparr>"

text \<open>\<^verbatim>\<open>DataBuffer(char*, unsigned int)\<close>: a buffer over the caller's memory.\<close>

definition DataBuffer_attach :: "u8 list \<Rightarrow> u32 \<Rightarrow> data_buffer" where
  "DataBuffer_attach data sz =
     \<lparr>db_size = sz, db_data = data, db_read = 0, db_write = 0\<rparr>"

definition GetBufferSize :: "data_buffer \<Rightarrow> u32" where
  "GetBufferSize b = db_size b"

text \<open>The difference of the pointers, converted to \<^verbatim>\<open>unsigned int\<close>.\<close>

definition GetDataSize :: "data_buffer \<Rightarrow> u32" where
  "GetDataSize b = of_int (int (db_write b) - int (db_read b))"

text \<open>The guard of \<^verbatim>\<open>Write\<close> is computed in 32-bit unsigned arithmetic, so
  \<^verbatim>\<open>_size - length\<close> wraps when the record is longer than the buffer. The result is
  the returned code with the buffer, or \<open>None\<close> when \<^verbatim>\<open>memcpy\<close> runs past the
  end of the memory.\<close>

definition Write :: "u8 list \<Rightarrow> data_buffer \<Rightarrow> (int \<times> data_buffer) option" where
  "Write src b =
     (if db_size b - of_nat (length src) < of_nat (db_write b) then Some (- 1, b)
      else if db_write b + length src \<le> length (db_data b)
      then Some (0, b\<lparr>db_data := blit (db_data b) (db_write b) src,
                      db_write := db_write b + length src\<rparr>)
      else None)"

text \<open>\<^verbatim>\<open>Read\<close> copies the next bytes out; \<open>None\<close> is the return value
  \<^verbatim>\<open>-1\<close>, which leaves the destination and the buffer as they were.\<close>

definition Read :: "nat \<Rightarrow> data_buffer \<Rightarrow> (u8 list \<times> data_buffer) option" where
  "Read len b =
     (if db_write b < db_read b + len then None
      else Some (take len (drop (db_read b) (db_data b)), b\<lparr>db_read := db_read b + len\<rparr>))"

definition MoveReadPtr :: "int \<Rightarrow> data_buffer \<Rightarrow> int \<times> data_buffer" where
  "MoveReadPtr offset b =
     (if 0 \<le> int (db_read b) + offset \<and> int (db_read b) + offset \<le> int (db_write b)
      then (0, b\<lparr>db_read := nat (int (db_read b) + offset)\<rparr>)
      else (- 1, b))"

definition MoveWritePtr :: "int \<Rightarrow> data_buffer \<Rightarrow> int \<times> data_buffer" where
  "MoveWritePtr offset b =
     (if 0 \<le> int (db_write b) + offset \<and> int (db_write b) + offset \<le> uint (db_size b)
      then (0, b\<lparr>db_write := nat (int (db_write b) + offset)\<rparr>)
      else (- 1, b))"

definition Reset :: "data_buffer \<Rightarrow> data_buffer" where
  "Reset b = b\<lparr>db_read := 0, db_write := 0\<rparr>"

section \<open>Invariant and abstract content\<close>

definition db_inv :: "data_buffer \<Rightarrow> bool" where
  "db_inv b = (length (db_data b) = unat (db_size b) \<and>
               db_read b \<le> unat (db_size b) \<and> db_write b \<le> unat (db_size b))"

text \<open>The bytes between the pointers, and the bytes before the write pointer.\<close>

definition unread :: "data_buffer \<Rightarrow> u8 list" where
  "unread b = drop (db_read b) (take (db_write b) (db_data b))"

definition written :: "data_buffer \<Rightarrow> u8 list" where
  "written b = take (db_write b) (db_data b)"

text \<open>The free bytes behind the write pointer.\<close>

definition space :: "data_buffer \<Rightarrow> nat" where
  "space b = unat (db_size b) - db_write b"

lemma unat_u32_of_nat: "n < 2 ^ 32 \<Longrightarrow> unat (of_nat n :: u32) = n"
  by (simp add: unat_of_nat)

lemma unat_u32_less: "unat (w :: u32) < 2 ^ 32"
proof -
  have "unat w < 2 ^ LENGTH(32)"
    by (rule unsigned_less)
  then show ?thesis by simp
qed

lemma db_inv_new: "length mem = unat sz \<Longrightarrow> db_inv (DataBuffer_new sz mem)"
  by (simp add: db_inv_def DataBuffer_new_def)

lemma db_inv_attach: "length mem = unat sz \<Longrightarrow> db_inv (DataBuffer_attach mem sz)"
  by (simp add: db_inv_def DataBuffer_attach_def)

lemma db_inv_Reset: "db_inv b \<Longrightarrow> db_inv (Reset b)"
  by (simp add: db_inv_def Reset_def)

lemma written_Reset [simp]: "written (Reset b) = []"
  by (simp add: written_def Reset_def)

lemma space_Reset: "space (Reset b) = unat (db_size b)"
  by (simp add: space_def Reset_def)

text \<open>The guard of \<^verbatim>\<open>Write\<close> without wrap-around.\<close>

lemma Write_guard:
  assumes "db_inv b" and "length src \<le> unat (db_size b)"
  shows "(db_size b - of_nat (length src) < of_nat (db_write b)) = (space b < length src)"
proof -
  have small: "length src < 2 ^ 32" "db_write b < 2 ^ 32"
    using assms unat_u32_less [of "db_size b"] by (auto simp: db_inv_def)
  then have "of_nat (length src) \<le> db_size b"
    using assms by (simp add: word_le_nat_alt unat_u32_of_nat)
  then have "unat (db_size b - of_nat (length src)) = unat (db_size b) - length src"
    using small by (simp add: unat_sub unat_u32_of_nat)
  then show ?thesis
    using assms small by (auto simp: word_less_nat_alt unat_u32_of_nat space_def db_inv_def)
qed

lemma Write_fits:
  assumes "db_inv b" and "length src \<le> space b"
  shows "Write src b = Some (0, b\<lparr>db_data := blit (db_data b) (db_write b) src,
                                  db_write := db_write b + length src\<rparr>)"
proof -
  have "length src \<le> unat (db_size b)"
    using assms by (simp add: space_def)
  then show ?thesis
    using assms Write_guard [of b src] by (auto simp: Write_def space_def db_inv_def)
qed

lemma Write_refused:
  assumes "db_inv b" and "space b < length src" and "length src \<le> unat (db_size b)"
  shows "Write src b = Some (- 1, b)"
  using assms Write_guard [of b src] by (simp add: Write_def)

lemma mod_int_below_0: "x < 0 \<Longrightarrow> - m \<le> x \<Longrightarrow> x mod m = x + m" for x m :: int
  by (metis add.commute mod_add_self1 mod_pos_pos_trivial add_less_same_cancel2
      diff_ge_0_iff_ge diff_minus_eq_add)

text \<open>A record longer than the buffer passes the wrapped guard.\<close>

lemma Write_overrun:
  assumes "db_inv b" and "unat (db_size b) < length src" and "length src < 2 ^ 32"
  shows "Write src b = None"
proof -
  have len: "unat (of_nat (length src) :: u32) = length src"
    using assms by (simp add: unat_u32_of_nat)
  have "int (unat (db_size b - of_nat (length src))) =
      (int (unat (db_size b)) - int (length src)) mod 2 ^ 32"
    by (simp add: uint_word_ariths of_nat_mod flip: uint_nat)
      (metis len uint_nat)
  moreover have "(int (unat (db_size b)) - int (length src)) mod 2 ^ 32 =
      int (unat (db_size b)) - int (length src) + 2 ^ 32"
  proof (rule mod_int_below_0)
    show "int (unat (db_size b)) - int (length src) < 0"
      using assms by linarith
    have "int (length src) \<le> 2 ^ 32"
      using assms by simp
    then show "- (2 ^ 32) \<le> int (unat (db_size b)) - int (length src)"
      by linarith
  qed
  moreover have "unat (of_nat (db_write b) :: u32) = db_write b"
    using assms unat_u32_less [of "db_size b"] by (simp add: db_inv_def unat_u32_of_nat)
  moreover have "int (length src) < 2 ^ 32" and "db_write b \<le> unat (db_size b)"
    using assms by (simp_all add: db_inv_def)
  ultimately have "db_write b \<le> unat (db_size b - of_nat (length src))"
    and "unat (of_nat (db_write b) :: u32) = db_write b"
    by linarith+
  then have "\<not> db_size b - of_nat (length src) < of_nat (db_write b)"
    by (simp add: word_less_nat_alt)
  then show ?thesis
    using assms by (auto simp: Write_def db_inv_def)
qed

lemma db_inv_Write: "db_inv b \<Longrightarrow> Write src b = Some (r, b') \<Longrightarrow> db_inv b'"
  by (auto simp: Write_def db_inv_def split: if_splits)

lemma db_inv_Read: "db_inv b \<Longrightarrow> Read n b = Some (bs, b') \<Longrightarrow> db_inv b'"
  by (auto simp: Read_def db_inv_def split: if_splits)

lemma db_inv_MoveReadPtr: "db_inv b \<Longrightarrow> db_inv (snd (MoveReadPtr n b))"
  by (auto simp: MoveReadPtr_def db_inv_def)

lemma db_inv_MoveWritePtr: "db_inv b \<Longrightarrow> db_inv (snd (MoveWritePtr n b))"
  by (auto simp: MoveWritePtr_def db_inv_def nat_le_iff)

section \<open>The buffer as a queue of bytes\<close>

text \<open>\<open>append_db src b\<close> and \<open>advance_db n b\<close> are what a successful
  \<^verbatim>\<open>Write\<close> and \<^verbatim>\<open>Read\<close> make of the buffer.\<close>

definition append_db :: "u8 list \<Rightarrow> data_buffer \<Rightarrow> data_buffer" where
  "append_db src b = b\<lparr>db_data := blit (db_data b) (db_write b) src,
                        db_write := db_write b + length src\<rparr>"

definition advance_db :: "nat \<Rightarrow> data_buffer \<Rightarrow> data_buffer" where
  "advance_db n b = b\<lparr>db_read := db_read b + n\<rparr>"

lemma Write_append:
  "db_inv b \<Longrightarrow> length src \<le> space b \<Longrightarrow> Write src b = Some (0, append_db src b)"
  by (simp add: Write_fits append_db_def)

lemma db_inv_append [wire]: "db_inv b \<Longrightarrow> length src \<le> space b \<Longrightarrow> db_inv (append_db src b)"
  by (auto simp: db_inv_def append_db_def space_def)

lemma space_append [wire]: "space (append_db src b) = space b - length src"
  by (simp add: space_def append_db_def)

lemma written_append [wire]:
  "db_inv b \<Longrightarrow> length src \<le> space b \<Longrightarrow> written (append_db src b) = written b @ src"
  by (auto simp: written_def append_db_def db_inv_def space_def take_blit)

lemma unread_append [wire]:
  assumes "db_inv b" "length src \<le> space b" "db_read b \<le> db_write b"
  shows "unread (append_db src b) = unread b @ src"
proof -
  have "unread (append_db src b) = drop (db_read b) (written (append_db src b))"
    by (simp add: unread_def written_def append_db_def)
  then show ?thesis
    using assms by (simp add: written_append) (simp add: written_def unread_def db_inv_def)
qed

lemma append_append [wire]:
  assumes "db_inv b" "length xs + length ys \<le> space b"
  shows "append_db ys (append_db xs b) = append_db (xs @ ys) b"
  using assms
  by (simp add: append_db_def blit_def db_inv_def space_def min_absorb1 ac_simps)

lemma append_Nil [simp, wire]: "append_db [] b = b"
  by (simp add: append_db_def)

lemma size_append [simp]: "db_size (append_db xs b) = db_size b"
  by (simp add: append_db_def)

lemma read_append [simp]: "db_read (append_db xs b) = db_read b"
  by (simp add: append_db_def)

lemma write_append [simp]: "db_write (append_db xs b) = db_write b + length xs"
  by (simp add: append_db_def)

lemma Read_unread:
  assumes "db_inv b" and "db_read b \<le> db_write b" and "unread b = bs @ rest"
  shows "Read (length bs) b = Some (bs, advance_db (length bs) b)"
proof -
  have len: "length (unread b) = db_write b - db_read b"
    using assms(1) by (simp add: unread_def db_inv_def)
  have "take (length bs) (unread b) = bs"
    using assms by simp
  moreover have "length bs \<le> db_write b - db_read b"
    using len assms(3) by simp
  ultimately show ?thesis
    using assms(2) by (simp add: unread_def drop_take min_absorb1 Read_def advance_db_def)
qed

lemma Read_short: "db_inv b \<Longrightarrow> length (unread b) < n \<Longrightarrow> Read n b = None"
  by (auto simp: Read_def unread_def db_inv_def)

lemma db_inv_advance [wire]: "db_inv b \<Longrightarrow> n \<le> length (unread b) \<Longrightarrow> db_inv (advance_db n b)"
  by (auto simp: db_inv_def advance_db_def unread_def)

lemma unread_advance [wire]: "unread (advance_db n b) = drop n (unread b)"
  by (simp add: unread_def advance_db_def add.commute)

lemma advance_advance [wire]: "advance_db n (advance_db m b) = advance_db (m + n) b"
  by (simp add: advance_db_def add.assoc)

text \<open>\<open>holds b xs\<close>: a well-formed buffer whose unread bytes are \<open>xs\<close>.\<close>

definition holds :: "data_buffer \<Rightarrow> u8 list \<Rightarrow> bool" where
  "holds b xs = (db_inv b \<and> db_read b \<le> db_write b \<and> unread b = xs)"

lemma length_unread: "db_inv b \<Longrightarrow> length (unread b) = db_write b - db_read b"
  by (simp add: unread_def db_inv_def)

lemma holds_Read: "holds b (bs @ rest) \<Longrightarrow> Read (length bs) b = Some (bs, advance_db (length bs) b)"
  by (simp add: holds_def Read_unread)

lemma holds_advance:
  assumes "holds b (bs @ rest)"
  shows "holds (advance_db (length bs) b) rest"
proof -
  have "length bs \<le> db_write b - db_read b"
    using assms length_unread [of b] by (simp add: holds_def)
  then show ?thesis
    using assms by (auto simp: holds_def wire) (simp add: advance_db_def)
qed

lemma holds_Read_short: "holds b xs \<Longrightarrow> length xs < n \<Longrightarrow> Read n b = None"
  by (auto simp: holds_def intro: Read_short)

lemma holds_append:
  "holds b xs \<Longrightarrow> length bs \<le> space b \<Longrightarrow> holds (append_db bs b) (xs @ bs)"
  by (simp add: holds_def wire)

lemma holds_Reset: "db_inv b \<Longrightarrow> holds (Reset b) []"
  by (simp add: holds_def db_inv_Reset) (simp add: Reset_def unread_def)

lemma holds_unread_written: "holds b xs \<Longrightarrow> db_read b = 0 \<Longrightarrow> written b = xs"
  by (simp add: holds_def unread_def written_def)

lemma advance_0 [simp]: "advance_db 0 b = b"
  by (simp add: advance_db_def)

section \<open>The buffer implements a bounded queue\<close>

text \<open>A sequence of calls on a buffer, with the code each returns and the bytes it reads.\<close>

datatype db_op = OpWrite "u8 list" | OpRead nat | OpReset

definition db_step :: "db_op \<Rightarrow> data_buffer \<Rightarrow> ((int \<times> u8 list) \<times> data_buffer) option" where
  "db_step p b =
     (case p of
        OpWrite bs \<Rightarrow> map_option (\<lambda>(r, b'). ((r, []), b')) (Write bs b)
      | OpRead n \<Rightarrow> (case Read n b of None \<Rightarrow> Some ((- 1, []), b) | Some (bs, b') \<Rightarrow> Some ((0, bs), b'))
      | OpReset \<Rightarrow> Some ((0, []), Reset b))"

primrec db_run :: "db_op list \<Rightarrow> data_buffer \<Rightarrow> ((int \<times> u8 list) list \<times> data_buffer) option" where
  "db_run [] b = Some ([], b)"
| "db_run (p # ps) b =
     (case db_step p b of
        None \<Rightarrow> None
      | Some (x, b') \<Rightarrow> map_option (\<lambda>(xs, b''). (x # xs, b'')) (db_run ps b'))"

text \<open>The specification: a queue of bytes and the number of bytes that may still be put into it
  before the next reset. Nothing is specified for a record longer than the whole buffer.\<close>

definition queue_step :: "nat \<Rightarrow> db_op \<Rightarrow> u8 list \<times> nat \<Rightarrow> ((int \<times> u8 list) \<times> u8 list \<times> nat) option" where
  "queue_step sz p = (\<lambda>(q, room).
     case p of
       OpWrite bs \<Rightarrow> (if sz < length bs then None
                      else if room < length bs then Some ((- 1, []), q, room)
                      else Some ((0, []), q @ bs, room - length bs))
     | OpRead n \<Rightarrow> Some (if n \<le> length q then ((0, take n q), drop n q, room) else ((- 1, []), q, room))
     | OpReset \<Rightarrow> Some ((0, []), [], sz))"

primrec queue_run :: "nat \<Rightarrow> db_op list \<Rightarrow> u8 list \<times> nat \<Rightarrow> ((int \<times> u8 list) list \<times> u8 list \<times> nat) option" where
  "queue_run sz [] q = Some ([], q)"
| "queue_run sz (p # ps) q =
     (case queue_step sz p q of
        None \<Rightarrow> None
      | Some (x, q') \<Rightarrow> map_option (\<lambda>(xs, q''). (x # xs, q'')) (queue_run sz ps q'))"

definition op_ok :: "db_op \<Rightarrow> bool" where
  "op_ok p = (case p of OpWrite bs \<Rightarrow> length bs < 2 ^ 32 | _ \<Rightarrow> True)"

definition db_abs :: "data_buffer \<Rightarrow> u8 list \<times> nat" where
  "db_abs b = (unread b, space b)"

definition db_ok :: "nat \<Rightarrow> data_buffer \<Rightarrow> bool" where
  "db_ok sz b = (db_inv b \<and> db_read b \<le> db_write b \<and> unat (db_size b) = sz)"

lemma db_step_refines:
  assumes b: "db_ok sz b" and p: "op_ok p"
  shows "map_option (\<lambda>(x, b'). (x, db_abs b')) (db_step p b) = queue_step sz p (db_abs b) \<and>
    (\<forall>x b'. db_step p b = Some (x, b') \<longrightarrow> db_ok sz b')"
proof (cases p)
  case (OpWrite bs)
  consider "sz < length bs" | "length bs \<le> sz" "space b < length bs" | "length bs \<le> space b"
    by linarith
  then show ?thesis
  proof cases
    case 1
    then have "Write bs b = None"
      using b p Write_overrun [of b bs] by (simp add: db_ok_def op_ok_def OpWrite)
    then show ?thesis
      using 1 by (simp add: db_step_def queue_step_def OpWrite db_abs_def)
  next
    case 2
    then have "Write bs b = Some (- 1, b)"
      using b by (intro Write_refused) (simp_all add: db_ok_def)
    then show ?thesis
      using 2 b by (simp add: db_step_def queue_step_def OpWrite db_abs_def)
  next
    case 3
    then have "Write bs b = Some (0, append_db bs b)"
      using b by (intro Write_append) (simp_all add: db_ok_def)
    moreover have "length bs \<le> sz"
      using 3 b by (simp add: db_ok_def space_def)
    ultimately show ?thesis
      using 3 b by (auto simp: db_step_def queue_step_def OpWrite db_abs_def db_ok_def wire)
  qed
next
  case (OpRead n)
  show ?thesis
  proof (cases "n \<le> length (unread b)")
    case True
    then have "Read n b = Some (take n (unread b), advance_db n b)"
      using Read_unread [of b "take n (unread b)" "drop n (unread b)"] b by (simp add: db_ok_def min_absorb2)
    moreover have "db_ok sz (advance_db n b)"
      using True b length_unread [of b] by (auto simp: db_ok_def wire) (simp_all add: advance_db_def)
    moreover have "space (advance_db n b) = space b"
      by (simp add: space_def advance_db_def)
    ultimately show ?thesis
      using True by (simp add: db_step_def queue_step_def OpRead db_abs_def wire)
  next
    case False
    then have "Read n b = None"
      using b by (intro Read_short) (simp_all add: db_ok_def)
    then show ?thesis
      using False b by (simp add: db_step_def queue_step_def OpRead db_abs_def)
  qed
next
  case OpReset
  have "unread (Reset b) = []" "db_read (Reset b) \<le> db_write (Reset b)"
    by (simp_all add: unread_def Reset_def)
  then show ?thesis
    using b by (simp add: db_step_def queue_step_def OpReset db_abs_def db_ok_def db_inv_Reset space_Reset)
      (simp add: Reset_def)
qed

lemma db_run_refines:
  "db_ok sz b \<Longrightarrow> list_all op_ok ps \<Longrightarrow>
   map_option (\<lambda>(xs, b'). (xs, db_abs b')) (db_run ps b) = queue_run sz ps (db_abs b)"
proof (induction ps arbitrary: b)
  case Nil
  then show ?case by simp
next
  case (Cons p ps)
  then have step: "map_option (\<lambda>(x, b'). (x, db_abs b')) (db_step p b) = queue_step sz p (db_abs b)"
    "\<And>x b'. db_step p b = Some (x, b') \<Longrightarrow> db_ok sz b'"
    using db_step_refines [of sz b p] by simp_all
  show ?case
  proof (cases "db_step p b")
    case None
    then show ?thesis
      using step(1) by (simp flip: step(1))
  next
    case (Some a)
    obtain x b' where a: "a = (x, b')" by (cases a)
    have "map_option (\<lambda>(xs, b'). (xs, db_abs b')) (db_run ps b') = queue_run sz ps (db_abs b')"
      using Cons step(2) Some a by simp
    then show ?thesis
      using Some a by (simp flip: step(1)) (simp add: option.map_comp comp_def case_prod_unfold flip: \<open>_ = queue_run sz ps (db_abs b')\<close>)
  qed
qed

text \<open>
  C37: the buffer is a bounded first-in first-out queue of bytes. Any sequence of writes, reads and
  resets on a fresh buffer returns what the queue returns: the bytes come out in the order they went
  in, a read of more bytes than are there fails and takes nothing, a write that no longer fits fails
  and changes nothing. The sequence is undefined exactly where it writes a record longer than the
  whole buffer.
\<close>

theorem buffer_is_queue:
  assumes "length mem = unat sz" and "list_all op_ok ps"
  shows "map_option (\<lambda>(xs, b). (xs, unread b, space b)) (db_run ps (DataBuffer_new sz mem)) =
    queue_run (unat sz) ps ([], unat sz)"
proof -
  have ok: "db_ok (unat sz) (DataBuffer_new sz mem)"
    using db_inv_new [OF assms(1)] by (simp add: db_ok_def DataBuffer_new_def)
  have start: "db_abs (DataBuffer_new sz mem) = ([], unat sz)"
    by (simp add: db_abs_def DataBuffer_new_def unread_def space_def)
  from db_run_refines [OF ok assms(2), unfolded start] show ?thesis
    by (simp only: db_abs_def)
qed

theorem buffer_is_queue_witness:
  "map_option (\<lambda>(xs, b). (xs, unread b, space b))
     (db_run [OpWrite [5, 6, 7], OpRead 2, OpWrite [8, 9], OpRead 3, OpRead 1] (DataBuffer_new 4 [0, 0, 0, 0])) =
   Some ([(0, []), (0, [5, 6]), (- 1, []), (- 1, []), (0, [7])], [], 1)"
  using buffer_is_queue [of "[0, 0, 0, 0]" 4 "[OpWrite [5, 6, 7], OpRead 2, OpWrite [8, 9], OpRead 3, OpRead 1]"]
  by (simp add: op_ok_def queue_step_def)

text \<open>
  A record longer than the whole buffer passes the length check of \<^verbatim>\<open>Write\<close>,
  because \<^verbatim>\<open>_size - length\<close> wraps around, and \<^verbatim>\<open>memcpy\<close> runs past the
  end of the memory; a record that is too long for the free bytes but not for the buffer is refused.
\<close>

lemma write_check_wraps:
  assumes "db_inv b" and "length src < 2 ^ 32" and "space b < length src"
  shows "Write src b = (if unat (db_size b) < length src then None else Some (- 1, b))"
  using assms Write_overrun [of b src] Write_refused [of b src] by simp

lemma write_check_wraps_witness:
  "Write [1, 2, 3] (DataBuffer_new 2 [0, 0]) = None \<and>
   Write [3] (append_db [1, 2] (DataBuffer_new 2 [0, 0])) = Some (- 1, append_db [1, 2] (DataBuffer_new 2 [0, 0]))"
proof -
  have "db_inv (DataBuffer_new 2 [0, 0])" "db_inv (append_db [1, 2] (DataBuffer_new 2 [0, 0]))"
    by (simp_all add: db_inv_def DataBuffer_new_def append_db_def blit_def)
  from write_check_wraps [OF this(1), of "[1, 2, 3]"] write_check_wraps [OF this(2), of "[3]"]
  show ?thesis
    by (simp add: space_def DataBuffer_new_def append_db_def)
qed

end
