(* ===== verification/Packet_Header.thy ===== *)
theory Packet_Header
  imports Data_Buffer "HOL-Library.Monad_Syntax"
begin

text \<open>
  \<^verbatim>\<open>Framework/BaseServer/Packet.h\<close> and \<^verbatim>\<open>Packet.cpp\<close>: the message with
  its fifteen byte header and the buffer it is packed into. The header fields are written and
  read one by one with \<^verbatim>\<open>sizeof\<close> of the field, lowest byte first.
\<close>

record packet =
  p_Length :: u16
  p_Direction :: u8
  p_SvrType :: u8
  p_SvrSeq :: u8
  p_MsgType :: u16
  p_UniqID :: u32
  p_RoleID :: u32
  p_buffer :: data_buffer

definition SetBuffer :: "data_buffer \<Rightarrow> packet \<Rightarrow> packet" where
  "SetBuffer b p = p\<lparr>p_buffer := b\<rparr>"

text \<open>\<^verbatim>\<open>MakeHeader\<close> leaves \<^verbatim>\<open>Length\<close> alone and the role id too when the
  argument is zero.\<close>

definition MakeHeader :: "u16 \<Rightarrow> u8 \<Rightarrow> u8 \<Rightarrow> u8 \<Rightarrow> u32 \<Rightarrow> u32 \<Rightarrow> packet \<Rightarrow> packet" where
  "MakeHeader mid dir type seq roleID tsn p =
     (let q = p\<lparr>p_Direction := dir, p_SvrType := type, p_SvrSeq := seq,
               p_MsgType := mid, p_UniqID := tsn\<rparr>
      in if roleID \<noteq> 0 then q\<lparr>p_RoleID := roleID\<rparr> else q)"

text \<open>\<^verbatim>\<open>PackHeader\<close> ignores the codes its writes return.\<close>

definition write_field :: "nat \<Rightarrow> 'a::len word \<Rightarrow> data_buffer \<Rightarrow> data_buffer option" where
  "write_field k w b = map_option snd (Write (bytes_of_word k w) b)"

definition PackHeader :: "packet \<Rightarrow> (bool \<times> packet) option" where
  "PackHeader p = do {
     b1 \<leftarrow> write_field 2 (p_Length p) (Reset (p_buffer p));
     b2 \<leftarrow> write_field 1 (p_Direction p) b1;
     b3 \<leftarrow> write_field 1 (p_SvrType p) b2;
     b4 \<leftarrow> write_field 1 (p_SvrSeq p) b3;
     b5 \<leftarrow> write_field 2 (p_MsgType p) b4;
     b6 \<leftarrow> write_field 4 (p_UniqID p) b5;
     b7 \<leftarrow> write_field 4 (p_RoleID p) b6;
     Some (True, p\<lparr>p_buffer := b7\<rparr>)
   }"

text \<open>\<^verbatim>\<open>UpdatePacketLength\<close>: the distance of the pointers is stored in sixteen bits,
  and the write pointer goes back by that field, not by the distance.\<close>

definition UpdatePacketLength :: "packet \<Rightarrow> (bool \<times> packet) option" where
  "UpdatePacketLength p =
     (let len = of_nat (db_write (p_buffer p)) :: u16;
          p1 = p\<lparr>p_Length := len\<rparr>;
          (r, b1) = MoveWritePtr (- uint len) (p_buffer p)
      in if r \<noteq> 0 then Some (False, p1\<lparr>p_buffer := b1\<rparr>)
         else do {
           (e, b2) \<leftarrow> Write (bytes_of_word 2 len) b1;
           if e \<noteq> 0 then Some (False, p1\<lparr>p_buffer := b2\<rparr>)
           else Some (True, p1\<lparr>p_buffer := snd (MoveWritePtr (uint len - 2) b2)\<rparr>)
         })"

definition read_field :: "nat \<Rightarrow> 'a::len word \<Rightarrow> data_buffer \<Rightarrow> 'a word \<times> data_buffer" where
  "read_field k old b =
     (case Read k b of None \<Rightarrow> (old, b) | Some (bs, b') \<Rightarrow> (word_of_bytes bs, b'))"

definition UnpackHeader :: "packet \<Rightarrow> bool \<times> packet" where
  "UnpackHeader p =
     (let (len, b1) = read_field 2 (p_Length p) (p_buffer p);
          (dir, b2) = read_field 1 (p_Direction p) b1;
          (ty, b3) = read_field 1 (p_SvrType p) b2;
          (sq, b4) = read_field 1 (p_SvrSeq p) b3;
          (mt, b5) = read_field 2 (p_MsgType p) b4;
          (un, b6) = read_field 4 (p_UniqID p) b5;
          (ro, b7) = read_field 4 (p_RoleID p) b6
      in (True, \<lparr>p_Length = len, p_Direction = dir, p_SvrType = ty, p_SvrSeq = sq,
                 p_MsgType = mt, p_UniqID = un, p_RoleID = ro, p_buffer = b7\<rparr>))"

definition CopyHeader :: "packet \<Rightarrow> packet \<Rightarrow> packet" where
  "CopyHeader src p =
     p\<lparr>p_Length := p_Length src, p_Direction := p_Direction src, p_SvrType := p_SvrType src,
       p_SvrSeq := p_SvrSeq src, p_MsgType := p_MsgType src, p_UniqID := p_UniqID src,
       p_RoleID := p_RoleID src\<rparr>"

section \<open>The header on the wire\<close>

definition header_bytes :: "packet \<Rightarrow> u8 list" where
  "header_bytes p =
     bytes_of_word 2 (p_Length p) @ bytes_of_word 1 (p_Direction p) @
     bytes_of_word 1 (p_SvrType p) @ bytes_of_word 1 (p_SvrSeq p) @
     bytes_of_word 2 (p_MsgType p) @ bytes_of_word 4 (p_UniqID p) @
     bytes_of_word 4 (p_RoleID p)"

lemma length_header_bytes [simp, wire]: "length (header_bytes p) = 15"
  by (simp add: header_bytes_def)

lemma write_field_fits [wire]:
  "db_inv b \<Longrightarrow> k \<le> space b \<Longrightarrow> write_field k w b = Some (append_db (bytes_of_word k w) b)"
  by (simp add: write_field_def Write_append)

lemma PackHeader_append:
  assumes "db_inv (p_buffer p)" and "15 \<le> unat (db_size (p_buffer p))"
  shows "PackHeader p = Some (True, p\<lparr>p_buffer := append_db (header_bytes p) (Reset (p_buffer p))\<rparr>)"
  using assms
  by (simp add: PackHeader_def header_bytes_def wire space_Reset db_inv_Reset Let_def)

lemma read_field_holds:
  assumes "holds b (bytes_of_word k w @ rest)" and "word_of_bytes (bytes_of_word k w) = w"
  shows "read_field k old b = (w, advance_db k b)" and "holds (advance_db k b) rest"
  using assms holds_Read [of b "bytes_of_word k w" rest] holds_advance [of b "bytes_of_word k w" rest]
  by (simp_all add: read_field_def)

lemma UnpackHeader_holds:
  assumes h: "holds (p_buffer p) (header_bytes q @ rest)"
  shows "UnpackHeader p = (True, CopyHeader q (p\<lparr>p_buffer := advance_db 15 (p_buffer p)\<rparr>))"
    and "holds (advance_db 15 (p_buffer p)) rest"
proof -
  note h0 = h [unfolded header_bytes_def append_assoc]
  note f1 = read_field_holds [OF h0 word_of_bytes_u16]
  note f2 = read_field_holds [OF f1(2) word_of_bytes_u8 [folded One_nat_def]]
  note f3 = read_field_holds [OF f2(2) word_of_bytes_u8 [folded One_nat_def]]
  note f4 = read_field_holds [OF f3(2) word_of_bytes_u8 [folded One_nat_def]]
  note f5 = read_field_holds [OF f4(2) word_of_bytes_u16]
  note f6 = read_field_holds [OF f5(2) word_of_bytes_u32]
  note f7 = read_field_holds [OF f6(2) word_of_bytes_u32]
  show "UnpackHeader p = (True, CopyHeader q (p\<lparr>p_buffer := advance_db 15 (p_buffer p)\<rparr>))"
    using f1(1) f2(1) f3(1) f4(1) f5(1) f6(1) f7(1)
    by (simp add: UnpackHeader_def CopyHeader_def wire)
  show "holds (advance_db 15 (p_buffer p)) rest"
    using f7(2) by (simp add: wire)
qed

lemma PackHeader_holds:
  assumes "db_inv (p_buffer p)" and "15 \<le> unat (db_size (p_buffer p))"
    and "PackHeader p = Some (ok, p')"
  shows "ok" and "holds (p_buffer p') (header_bytes p)"
  using assms PackHeader_append [of p] holds_append [OF holds_Reset, of "p_buffer p" "header_bytes p"]
  by (auto simp: space_Reset)

text \<open>
  Packing a header into a buffer of at least fifteen bytes and unpacking that buffer, in any
  packet object, gives back every header field; the body that follows is left unread, and the
  pack succeeds whatever the buffer held before.
\<close>

lemma header_roundtrip:
  assumes "db_inv (p_buffer p)" and "15 + length body \<le> unat (db_size (p_buffer p))"
  shows "\<exists>p'. PackHeader p = Some (True, p') \<and>
    (\<forall>q. p_buffer q = append_db body (p_buffer p') \<longrightarrow>
      UnpackHeader q = (True, CopyHeader p (q\<lparr>p_buffer := advance_db 15 (p_buffer q)\<rparr>)) \<and>
      unread (p_buffer (snd (UnpackHeader q))) = body)"
proof -
  let ?b = "append_db (header_bytes p) (Reset (p_buffer p))"
  have pack: "PackHeader p = Some (True, p\<lparr>p_buffer := ?b\<rparr>)"
    using assms by (simp add: PackHeader_append)
  have h: "holds (append_db body ?b) (header_bytes p @ body)"
    using assms holds_append [OF holds_append [OF holds_Reset], of "p_buffer p" "header_bytes p" body]
    by (simp add: wire space_Reset)
  have "UnpackHeader q = (True, CopyHeader p (q\<lparr>p_buffer := advance_db 15 (p_buffer q)\<rparr>)) \<and>
      unread (p_buffer (snd (UnpackHeader q))) = body" if "p_buffer q = append_db body ?b" for q
    using UnpackHeader_holds [of q p body] h that by (simp add: holds_def CopyHeader_def)
  moreover have "p_buffer (p\<lparr>p_buffer := ?b\<rparr>) = ?b"
    by simp
  ultimately show ?thesis
    using pack by metis
qed

definition demo_packet :: packet where
  "demo_packet = \<lparr>p_Length = 0, p_Direction = 1, p_SvrType = 2, p_SvrSeq = 3, p_MsgType = 0x104,
     p_UniqID = 7, p_RoleID = 0x12345678, p_buffer = DataBuffer_new 20 (replicate 20 0)\<rparr>"

lemma db_inv_demo: "db_inv (p_buffer demo_packet)" "unat (db_size (p_buffer demo_packet)) = 20"
  by (simp_all add: demo_packet_def DataBuffer_new_def db_inv_def)

lemma header_roundtrip_witness:
  "\<exists>p'. PackHeader demo_packet = Some (True, p') \<and>
    (\<forall>q. p_buffer q = append_db [1, 2, 3] (p_buffer p') \<longrightarrow>
      UnpackHeader q = (True, CopyHeader demo_packet (q\<lparr>p_buffer := advance_db 15 (p_buffer q)\<rparr>)) \<and>
      unread (p_buffer (snd (UnpackHeader q))) = [1, 2, 3])"
  by (rule header_roundtrip [of demo_packet "[1, 2, 3]"]) (simp_all add: db_inv_demo)

section \<open>Stamping the length\<close>

lemma blit_0_append: "length a = length b \<Longrightarrow> take n (blit (a @ c) 0 b) = take n (b @ c)"
  by (simp add: blit_def)

lemma UpdatePacketLength_in_place:
  assumes inv: "db_inv (p_buffer p)" and w: "2 \<le> db_write (p_buffer p)" "db_write (p_buffer p) < 65536"
  shows "UpdatePacketLength p = Some (True, p\<lparr>p_Length := of_nat (db_write (p_buffer p)),
    p_buffer := (p_buffer p)\<lparr>db_data :=
      bytes_of_word 2 (of_nat (db_write (p_buffer p)) :: u16) @ drop 2 (db_data (p_buffer p))\<rparr>\<rparr>)"
proof -
  let ?b = "p_buffer p" and ?len = "of_nat (db_write (p_buffer p)) :: u16"
  have len: "uint ?len = int (db_write ?b)"
    using w by (simp add: uint_nat unat_of_nat)
  have rewind: "MoveWritePtr (- uint ?len) ?b = (0, ?b\<lparr>db_write := 0\<rparr>)"
    by (simp add: MoveWritePtr_def len)
  have fit: "2 \<le> space (?b\<lparr>db_write := 0\<rparr>)" "db_inv (?b\<lparr>db_write := 0\<rparr>)"
    using inv w by (simp_all add: space_def db_inv_def)
  then have wr: "Write (bytes_of_word 2 ?len) (?b\<lparr>db_write := 0\<rparr>) =
      Some (0, ?b\<lparr>db_data := bytes_of_word 2 ?len @ drop 2 (db_data ?b), db_write := 2\<rparr>)"
    by (simp add: Write_fits blit_def numeral_2_eq_2)
  have "int (db_write ?b) \<le> int (unat (db_size ?b))"
    using inv by (simp only: of_nat_le_iff db_inv_def)
  then have fwd: "MoveWritePtr (uint ?len - 2)
      (?b\<lparr>db_data := bytes_of_word 2 ?len @ drop 2 (db_data ?b), db_write := 2\<rparr>) =
      (0, ?b\<lparr>db_data := bytes_of_word 2 ?len @ drop 2 (db_data ?b)\<rparr>)"
    by (simp add: MoveWritePtr_def len del: of_nat_le_iff)
  show ?thesis
    unfolding UpdatePacketLength_def Let_def rewind split_conv wr bind.bind_lunit if_False
      not_not simp_thms fwd snd_conv refl by simp
qed

text \<open>A complete message: the header with the length of the whole, and the body.\<close>

definition frame :: "packet \<Rightarrow> u8 list \<Rightarrow> u8 list" where
  "frame p body = header_bytes (p\<lparr>p_Length := of_nat (15 + length body)\<rparr>) @ body"

lemma length_frame [simp]: "length (frame p body) = 15 + length body"
  by (simp add: frame_def)

lemma UpdatePacketLength_holds:
  assumes h: "holds (p_buffer q) (header_bytes p @ body)" and r: "db_read (p_buffer q) = 0"
    and len: "15 + length body < 65536"
  shows "\<exists>b. UpdatePacketLength q = Some (True, q\<lparr>p_Length := of_nat (15 + length body), p_buffer := b\<rparr>) \<and>
    holds b (frame p body) \<and> db_read b = 0"
proof -
  let ?b = "p_buffer q" and ?len = "of_nat (15 + length body) :: u16"
  have w: "db_write ?b = 15 + length body" and inv: "db_inv ?b"
    using h r length_unread [of ?b] by (simp_all add: holds_def)
  have take: "take (15 + length body) (db_data ?b) = header_bytes p @ body"
    using h r w by (simp add: holds_def unread_def)
  let ?b' = "?b\<lparr>db_data := bytes_of_word 2 ?len @ drop 2 (db_data ?b)\<rparr>"
  have upd: "UpdatePacketLength q = Some (True, q\<lparr>p_Length := ?len, p_buffer := ?b'\<rparr>)"
    using UpdatePacketLength_in_place [OF inv] w len by simp
  have "take (13 + length body) (drop 2 (db_data ?b)) = drop 2 (header_bytes p @ body)"
    by (simp flip: take add: drop_take)
  then have "unread ?b' = frame p body"
    using r w by (simp add: unread_def frame_def header_bytes_def)
  moreover have "db_inv ?b'"
    using inv w by (simp add: db_inv_def) arith
  ultimately show ?thesis
    using upd r by (auto simp: holds_def)
qed

text \<open>
  A message built the way every sender builds it, header first, then the body, then
  \<^verbatim>\<open>UpdatePacketLength\<close>, carries exactly the header and the body it was built from
  and the length of the whole, as long as the whole stays under 65536 bytes.
\<close>

lemma packed_message:
  assumes "db_inv (p_buffer p)" and "15 + length body \<le> unat (db_size (p_buffer p))"
    and "15 + length body < 65536"
    and "PackHeader p = Some (True, p')"
  shows "\<exists>q. UpdatePacketLength (p'\<lparr>p_buffer := append_db body (p_buffer p')\<rparr>) = Some (True, q) \<and>
    written (p_buffer q) = frame p body \<and> p_Length q = of_nat (15 + length body)"
proof -
  have p': "p' = p\<lparr>p_buffer := append_db (header_bytes p) (Reset (p_buffer p))\<rparr>"
    using assms PackHeader_append [of p] by simp
  have "holds (append_db body (p_buffer p')) (header_bytes p @ body)"
    using assms(1,2) holds_append [OF holds_append [OF holds_Reset], of "p_buffer p" "header_bytes p" body]
    by (simp add: p' wire space_Reset)
  moreover have "db_read (append_db body (p_buffer p')) = 0"
    by (simp add: p' Reset_def)
  ultimately obtain b where b: "UpdatePacketLength (p'\<lparr>p_buffer := append_db body (p_buffer p')\<rparr>) =
      Some (True, p'\<lparr>p_buffer := append_db body (p_buffer p'), p_Length := of_nat (15 + length body),
        p_buffer := b\<rparr>)" and "holds b (frame p body)" "db_read b = 0"
    using UpdatePacketLength_holds [of "p'\<lparr>p_buffer := append_db body (p_buffer p')\<rparr>" p body] assms(3)
    by auto
  then show ?thesis
    by (simp add: holds_unread_written)
qed

lemma packed_message_witness:
  "\<exists>q. UpdatePacketLength (demo_packet\<lparr>p_buffer := append_db [1, 2, 3]
      (append_db (header_bytes demo_packet) (Reset (p_buffer demo_packet)))\<rparr>) = Some (True, q) \<and>
    written (p_buffer q) = frame demo_packet [1, 2, 3] \<and> p_Length q = 18"
proof -
  have pack: "PackHeader demo_packet = Some (True, demo_packet\<lparr>p_buffer :=
      append_db (header_bytes demo_packet) (Reset (p_buffer demo_packet))\<rparr>)"
    by (rule PackHeader_append) (simp_all add: db_inv_demo)
  show ?thesis
    using packed_message [of demo_packet "[1, 2, 3]", OF _ _ _ pack] by (simp add: db_inv_demo)
qed

end
