(* ===== verification/Serializer_Ops.thy ===== *)
theory Serializer_Ops
  imports Packet_Header
begin

text \<open>
  \<^verbatim>\<open>Framework/BaseServer/Serializer.cpp\<close>, \<^verbatim>\<open>List.h\<close> and the macros of
  \<^verbatim>\<open>BaseArchive.h\<close>: the typed reads and writes of message bodies. Every operator
  stores the code of its own buffer operation in \<^verbatim>\<open>_iError\<close>; \<open>put_\<close> is
  \<^verbatim>\<open>operator<<\<close>, with \<open>None\<close> when a write leaves the buffer's memory, and
  \<open>get_\<close> is \<^verbatim>\<open>operator>>\<close>, whose first argument is the value of the variable
  before the read. \<^verbatim>\<open>Single\<close> and \<^verbatim>\<open>Double\<close> are the words of their bit
  patterns. The locale \<open>codec\<close> states what a pair of operators of one type promises and
  the list of such a type inherits it.
\<close>

record serializer =
  ser_buf :: data_buffer
  ser_err :: int

definition Serializer_new :: "data_buffer \<Rightarrow> serializer" where
  "Serializer_new b = \<lparr>ser_buf = b, ser_err = 0\<rparr>"

definition SetDataBuffer :: "data_buffer \<Rightarrow> serializer \<Rightarrow> serializer" where
  "SetDataBuffer b s = s\<lparr>ser_buf := b\<rparr>"

definition GetErrorCode :: "serializer \<Rightarrow> int" where
  "GetErrorCode s = ser_err s"

text \<open>\<^verbatim>\<open>_iError = _pBuffer->Write(...)\<close> and \<^verbatim>\<open>_iError = _pBuffer->Read(...)\<close>.\<close>

definition ser_put :: "u8 list \<Rightarrow> serializer \<Rightarrow> serializer option" where
  "ser_put bs s = do {
     (e, b) \<leftarrow> Write bs (ser_buf s);
     Some (s\<lparr>ser_buf := b, ser_err := e\<rparr>)
   }"

definition ser_get :: "nat \<Rightarrow> 'a::len word \<Rightarrow> serializer \<Rightarrow> 'a word \<times> serializer" where
  "ser_get k old s =
     (case Read k (ser_buf s) of
        None \<Rightarrow> (old, s\<lparr>ser_err := - 1\<rparr>)
      | Some (bs, b) \<Rightarrow> (word_of_bytes bs, s\<lparr>ser_buf := b, ser_err := 0\<rparr>))"

section \<open>The scalar operators\<close>

definition put_Bool :: "bool \<Rightarrow> serializer \<Rightarrow> serializer option" where
  "put_Bool v s = ser_put [of_bool v] s"

text \<open>\<open>junk\<close> is the uninitialised local of \<^verbatim>\<open>operator>>(Bool&)\<close>, which becomes
  the value when the read fails.\<close>

definition get_Bool :: "bool \<Rightarrow> bool \<Rightarrow> serializer \<Rightarrow> bool \<times> serializer" where
  "get_Bool junk old s =
     (let (v, s') = ser_get 1 (of_bool junk :: u8) s in (v \<noteq> 0, s'))"

definition put_Byte :: "u8 \<Rightarrow> serializer \<Rightarrow> serializer option" where
  "put_Byte v s = ser_put (bytes_of_word 1 v) s"

definition get_Byte :: "u8 \<Rightarrow> serializer \<Rightarrow> u8 \<times> serializer" where
  "get_Byte old s = ser_get 1 old s"

definition put_SByte :: "u8 \<Rightarrow> serializer \<Rightarrow> serializer option" where
  "put_SByte v s = ser_put (bytes_of_word 1 v) s"

definition get_SByte :: "u8 \<Rightarrow> serializer \<Rightarrow> u8 \<times> serializer" where
  "get_SByte old s = ser_get 1 old s"

definition put_Int16 :: "i16 \<Rightarrow> serializer \<Rightarrow> serializer option" where
  "put_Int16 v s = ser_put (bytes_of_word 2 v) s"

definition get_Int16 :: "i16 \<Rightarrow> serializer \<Rightarrow> i16 \<times> serializer" where
  "get_Int16 old s = ser_get 2 old s"

definition put_UInt16 :: "u16 \<Rightarrow> serializer \<Rightarrow> serializer option" where
  "put_UInt16 v s = ser_put (bytes_of_word 2 v) s"

definition get_UInt16 :: "u16 \<Rightarrow> serializer \<Rightarrow> u16 \<times> serializer" where
  "get_UInt16 old s = ser_get 2 old s"

definition put_Int32 :: "i32 \<Rightarrow> serializer \<Rightarrow> serializer option" where
  "put_Int32 v s = ser_put (bytes_of_word 4 v) s"

definition get_Int32 :: "i32 \<Rightarrow> serializer \<Rightarrow> i32 \<times> serializer" where
  "get_Int32 old s = ser_get 4 old s"

definition put_UInt32 :: "u32 \<Rightarrow> serializer \<Rightarrow> serializer option" where
  "put_UInt32 v s = ser_put (bytes_of_word 4 v) s"

definition get_UInt32 :: "u32 \<Rightarrow> serializer \<Rightarrow> u32 \<times> serializer" where
  "get_UInt32 old s = ser_get 4 old s"

definition put_Int64 :: "i64 \<Rightarrow> serializer \<Rightarrow> serializer option" where
  "put_Int64 v s = ser_put (bytes_of_word 8 v) s"

definition get_Int64 :: "i64 \<Rightarrow> serializer \<Rightarrow> i64 \<times> serializer" where
  "get_Int64 old s = ser_get 8 old s"

definition put_UInt64 :: "u64 \<Rightarrow> serializer \<Rightarrow> serializer option" where
  "put_UInt64 v s = ser_put (bytes_of_word 8 v) s"

definition get_UInt64 :: "u64 \<Rightarrow> serializer \<Rightarrow> u64 \<times> serializer" where
  "get_UInt64 old s = ser_get 8 old s"

definition put_Single :: "u32 \<Rightarrow> serializer \<Rightarrow> serializer option" where
  "put_Single v s = ser_put (bytes_of_word 4 v) s"

definition get_Single :: "u32 \<Rightarrow> serializer \<Rightarrow> u32 \<times> serializer" where
  "get_Single old s = ser_get 4 old s"

definition put_Double :: "u64 \<Rightarrow> serializer \<Rightarrow> serializer option" where
  "put_Double v s = ser_put (bytes_of_word 8 v) s"

definition get_Double :: "u64 \<Rightarrow> serializer \<Rightarrow> u64 \<times> serializer" where
  "get_Double old s = ser_get 8 old s"

section \<open>Strings and lists\<close>

text \<open>The length of a string is stored in sixteen bits; that many of its bytes follow.\<close>

definition put_string :: "u8 list \<Rightarrow> serializer \<Rightarrow> serializer option" where
  "put_string v s = do {
     let len = (of_nat (length v) :: u16);
     s1 \<leftarrow> ser_put (bytes_of_word 2 len) s;
     if 0 < len then ser_put (take (unat len) v) s1 else Some s1
   }"

definition get_string :: "u8 list \<Rightarrow> serializer \<Rightarrow> u8 list \<times> serializer" where
  "get_string old s =
     (let (len, s1) = ser_get 2 (0 :: u16) s;
          b = ser_buf s1
      in if 0 < len then
           if GetDataSize b < of_nat (unat len) then (old, s1\<lparr>ser_err := - 1\<rparr>)
           else let (e, b') = MoveReadPtr (uint len) b
                in (take (unat len) (drop (db_read b) (db_data b)), s1\<lparr>ser_buf := b', ser_err := e\<rparr>)
         else ([], s1))"

text \<open>\<^verbatim>\<open>List<Type>::Serialize\<close>. The size is stored in sixteen bits, and all elements
  follow unless that field is zero. A load appends to the list it is given and reads every
  element into the same variable, which starts as \<open>t0\<close>.\<close>

fun put_all :: "('a \<Rightarrow> serializer \<Rightarrow> serializer option) \<Rightarrow> 'a list \<Rightarrow> serializer \<Rightarrow> serializer option" where
  "put_all put [] s = Some s"
| "put_all put (x # xs) s = do { s' \<leftarrow> put x s; put_all put xs s' }"

definition put_List :: "('a \<Rightarrow> serializer \<Rightarrow> serializer option) \<Rightarrow> 'a list \<Rightarrow> serializer \<Rightarrow> serializer option" where
  "put_List put xs s = do {
     let size = (of_nat (length xs) :: u16);
     s1 \<leftarrow> put_UInt16 size s;
     if 0 < size then put_all put xs s1 else Some s1
   }"

primrec get_times :: "nat \<Rightarrow> ('a \<Rightarrow> serializer \<Rightarrow> 'a \<times> serializer) \<Rightarrow> 'a \<Rightarrow> 'a list \<Rightarrow> serializer \<Rightarrow> 'a list \<times> serializer" where
  "get_times 0 get t xs s = (xs, s)"
| "get_times (Suc n) get t xs s =
     (let (t', s') = get t s in get_times n get t' (xs @ [t']) s')"

definition get_List :: "('a \<Rightarrow> serializer \<Rightarrow> 'a \<times> serializer) \<Rightarrow> 'a \<Rightarrow> 'a list \<Rightarrow> serializer \<Rightarrow> 'a list \<times> serializer" where
  "get_List get t0 xs s =
     (let (size, s1) = get_UInt16 0 s
      in if 0 < size then get_times (unat size) get t0 xs s1 else (xs, s1))"

text \<open>\<^verbatim>\<open>SERIAL_ENTRY\<close>: a field is skipped once an error is recorded.\<close>

definition put_entry :: "(serializer \<Rightarrow> serializer option) \<Rightarrow> serializer \<Rightarrow> serializer option" where
  "put_entry put s = (if GetErrorCode s = 0 then put s else Some s)"

definition get_entry :: "('a \<Rightarrow> serializer \<Rightarrow> 'a \<times> serializer) \<Rightarrow> 'a \<Rightarrow> serializer \<Rightarrow> 'a \<times> serializer" where
  "get_entry get old s = (if GetErrorCode s = 0 then get old s else (old, s))"

section \<open>What the operators do to the unread bytes\<close>

definition ser_ok :: "serializer \<Rightarrow> bool" where
  "ser_ok s = (ser_err s = 0 \<and> db_inv (ser_buf s) \<and> db_read (ser_buf s) \<le> db_write (ser_buf s))"

definition remaining :: "serializer \<Rightarrow> u8 list" where
  "remaining s = unread (ser_buf s)"

definition room :: "serializer \<Rightarrow> nat" where
  "room s = space (ser_buf s)"

definition ser_append :: "u8 list \<Rightarrow> serializer \<Rightarrow> serializer" where
  "ser_append bs s = s\<lparr>ser_buf := append_db bs (ser_buf s)\<rparr>"

definition ser_advance :: "nat \<Rightarrow> serializer \<Rightarrow> serializer" where
  "ser_advance n s = s\<lparr>ser_buf := advance_db n (ser_buf s)\<rparr>"

lemma ser_ok_err: "ser_ok s \<Longrightarrow> ser_err s = 0"
  by (simp add: ser_ok_def)

lemma ser_ok_append [wire]: "ser_ok s \<Longrightarrow> length bs \<le> room s \<Longrightarrow> ser_ok (ser_append bs s)"
  by (simp add: ser_ok_def ser_append_def room_def wire)

lemma room_append [wire]: "room (ser_append bs s) = room s - length bs"
  by (simp add: room_def ser_append_def wire)

lemma ser_append_append [wire]:
  "ser_ok s \<Longrightarrow> length xs + length ys \<le> room s \<Longrightarrow>
   ser_append ys (ser_append xs s) = ser_append (xs @ ys) s"
  by (simp add: ser_append_def ser_ok_def room_def wire)

lemma remaining_append [wire]:
  "ser_ok s \<Longrightarrow> length bs \<le> room s \<Longrightarrow> remaining (ser_append bs s) = remaining s @ bs"
  by (simp add: remaining_def ser_append_def ser_ok_def room_def wire)

lemma ser_ok_advance [wire]: "ser_ok s \<Longrightarrow> n \<le> length (remaining s) \<Longrightarrow> ser_ok (ser_advance n s)"
  using length_unread [of "ser_buf s"]
  by (simp add: ser_ok_def ser_advance_def remaining_def wire) (simp add: advance_db_def, arith)

lemma remaining_advance [wire]: "remaining (ser_advance n s) = drop n (remaining s)"
  by (simp add: remaining_def ser_advance_def wire)

lemma advance_advance_ser [wire]: "ser_advance n (ser_advance m s) = ser_advance (m + n) s"
  by (simp add: ser_advance_def wire)

lemma ser_advance_0 [simp]: "ser_advance 0 s = s"
  by (simp add: ser_advance_def)

lemma ser_append_Nil [simp]: "ser_append [] s = s"
  by (simp add: ser_append_def)

lemma ser_put_append [wire]:
  "ser_ok s \<Longrightarrow> length bs \<le> room s \<Longrightarrow> ser_put bs s = Some (ser_append bs s)"
  by (cases s) (simp add: ser_put_def ser_append_def ser_ok_def room_def Write_append)

lemma ser_get_remaining [wire]:
  assumes "ser_ok s" and "k \<le> length (remaining s)"
  shows "ser_get k old s = (word_of_bytes (take k (remaining s)), ser_advance k s)"
proof -
  have "holds (ser_buf s) (take k (remaining s) @ drop k (remaining s))"
    using assms by (simp add: holds_def ser_ok_def remaining_def)
  from holds_Read [OF this] show ?thesis
    using assms by (cases s) (simp add: ser_get_def ser_advance_def min_absorb2 ser_ok_def)
qed

lemma ser_get_short:
  assumes "ser_ok s" and "length (remaining s) < k"
  shows "ser_get k old s = (old, s\<lparr>ser_err := - 1\<rparr>)"
  using assms Read_short [of "ser_buf s" k] by (simp add: ser_get_def ser_ok_def remaining_def)

lemma get_scalar_remaining [wire]:
  assumes "ser_ok s"
  shows "1 \<le> length (remaining s) \<Longrightarrow> get_Byte b s = (word_of_bytes (take 1 (remaining s)), ser_advance 1 s)"
    and "2 \<le> length (remaining s) \<Longrightarrow> get_UInt16 h s = (word_of_bytes (take 2 (remaining s)), ser_advance 2 s)"
    and "4 \<le> length (remaining s) \<Longrightarrow> get_UInt32 w s = (word_of_bytes (take 4 (remaining s)), ser_advance 4 s)"
  using assms by (simp_all add: get_Byte_def get_UInt16_def get_UInt32_def ser_get_remaining)

lemma put_scalar_append [wire]:
  assumes "ser_ok s"
  shows "1 \<le> room s \<Longrightarrow> put_Byte b s = Some (ser_append (bytes_of_word 1 b) s)"
    and "2 \<le> room s \<Longrightarrow> put_UInt16 h s = Some (ser_append (bytes_of_word 2 h) s)"
    and "4 \<le> room s \<Longrightarrow> put_UInt32 w s = Some (ser_append (bytes_of_word 4 w) s)"
  using assms by (simp_all add: put_Byte_def put_UInt16_def put_UInt32_def ser_put_append)

lemma get_scalar_short [wire]:
  assumes "ser_ok s"
  shows "length (remaining s) < 1 \<Longrightarrow> get_Byte b s = (b, s\<lparr>ser_err := - 1\<rparr>)"
    and "length (remaining s) < 2 \<Longrightarrow> get_UInt16 h s = (h, s\<lparr>ser_err := - 1\<rparr>)"
    and "length (remaining s) < 4 \<Longrightarrow> get_UInt32 w s = (w, s\<lparr>ser_err := - 1\<rparr>)"
  using assms by (simp_all add: get_Byte_def get_UInt16_def get_UInt32_def ser_get_short)

lemma put_entry_ok [wire]: "ser_ok s \<Longrightarrow> put_entry p s = p s"
  by (simp add: put_entry_def GetErrorCode_def ser_ok_err)

lemma get_entry_ok [wire]: "ser_ok s \<Longrightarrow> get_entry g old s = g old s"
  by (simp add: get_entry_def GetErrorCode_def ser_ok_err)

lemma get_entry_err [wire]: "ser_err s \<noteq> 0 \<Longrightarrow> get_entry g old s = (old, s)"
  by (simp add: get_entry_def GetErrorCode_def)

section \<open>The contract of a serialized type\<close>

text \<open>\<open>enc\<close> is the image of a value, \<open>ok\<close> says which values have one, and
  \<open>fresh\<close> says into which variables a load is exact. The first law is what a sender
  relies on, the second what a receiver does.\<close>

locale codec =
  fixes put :: "'a \<Rightarrow> serializer \<Rightarrow> serializer option"
    and get :: "'a \<Rightarrow> serializer \<Rightarrow> 'a \<times> serializer"
    and enc :: "'a \<Rightarrow> u8 list"
    and ok :: "'a \<Rightarrow> bool"
    and fresh :: "'a \<Rightarrow> bool"
  assumes put_enc: "ser_ok s \<Longrightarrow> ok v \<Longrightarrow> length (enc v) \<le> room s \<Longrightarrow> put v s = Some (ser_append (enc v) s)"
    and get_enc: "ser_ok s \<Longrightarrow> ok v \<Longrightarrow> fresh old \<Longrightarrow> remaining s = enc v @ rest \<Longrightarrow>
      get old s = (v, ser_advance (length (enc v)) s)"
begin

lemma roundtrip:
  assumes "ser_ok s" "remaining s = []" "ok v" "fresh old" "length (enc v) \<le> room s"
  shows "\<exists>s'. put v s = Some s' \<and> get old s' = (v, ser_advance (length (enc v)) s') \<and>
    remaining (snd (get old s')) = [] \<and> GetErrorCode (snd (get old s')) = 0"
proof -
  let ?s = "ser_append (enc v) s"
  have "ser_ok ?s" "remaining ?s = enc v @ []"
    using assms by (simp_all add: wire)
  then show ?thesis
    using assms get_enc [of ?s v old "[]"] put_enc [of s v] ser_ok_advance [of ?s "length (enc v)"]
    by (simp add: remaining_advance GetErrorCode_def ser_ok_err)
qed

lemma put_step: "ser_ok s \<Longrightarrow> ok v \<Longrightarrow> length (enc v) \<le> room s \<Longrightarrow>
    put_entry (put v) s = Some (ser_append (enc v) s)"
  by (simp add: put_entry_ok put_enc)

lemma get_step:
  "ser_ok s \<Longrightarrow> remaining s = enc v @ rest \<Longrightarrow> ok v \<Longrightarrow> fresh old \<Longrightarrow>
   get_entry get old s = (v, ser_advance (length (enc v)) s)"
  by (simp add: get_entry_ok get_enc)

lemma rest_step:
  assumes "ser_ok s" "remaining s = enc v @ rest"
  shows "ser_ok (ser_advance (length (enc v)) s)"
    and "remaining (ser_advance (length (enc v)) s) = rest"
  using assms by (simp_all add: wire)

lemma put_all_enc:
  "ser_ok s \<Longrightarrow> list_all ok xs \<Longrightarrow> length (concat (map enc xs)) \<le> room s \<Longrightarrow>
   put_all put xs s = Some (ser_append (concat (map enc xs)) s)"
  by (induction xs arbitrary: s) (simp_all add: put_enc wire)

end

text \<open>A type whose values may be loaded over one another can be the element of a list;
  \<open>t0\<close> is the element variable before the first load.\<close>

locale list_element = codec +
  fixes t0 :: 'a
  assumes ok_fresh: "ok v \<Longrightarrow> fresh v" and fresh_t0: "fresh t0"
begin

lemma get_times_enc:
  "ser_ok s \<Longrightarrow> list_all ok xs \<Longrightarrow> fresh t \<Longrightarrow> remaining s = concat (map enc xs) @ rest \<Longrightarrow>
   get_times (length xs) get t acc s = (acc @ xs, ser_advance (length (concat (map enc xs))) s)"
proof (induction xs arbitrary: s t acc)
  case Nil
  then show ?case by simp
next
  case (Cons x xs)
  then have "get t s = (x, ser_advance (length (enc x)) s)"
    by (intro get_enc) auto
  moreover have "ser_ok (ser_advance (length (enc x)) s)"
    "remaining (ser_advance (length (enc x)) s) = concat (map enc xs) @ rest"
    using Cons.prems by (simp_all add: wire)
  ultimately show ?case
    using Cons by (simp add: ok_fresh wire)
qed

end

definition enc_List :: "('a \<Rightarrow> u8 list) \<Rightarrow> 'a list \<Rightarrow> u8 list" where
  "enc_List enc xs = bytes_of_word 2 (of_nat (length xs) :: u16) @ concat (map enc xs)"

text \<open>The list of such a type keeps the contract, for lists of fewer than 65536 elements
  loaded into an empty list.\<close>

sublocale list_element \<subseteq> lst: codec "put_List put" "get_List get t0" "enc_List enc"
  "\<lambda>xs. list_all ok xs \<and> length xs < 65536" "\<lambda>old. old = []"
proof unfold_locales
  fix s :: serializer and v :: "'a list"
  assume a: "ser_ok s" "list_all ok v \<and> length v < 65536" "length (enc_List enc v) \<le> room s"
  then show "put_List put v s = Some (ser_append (enc_List enc v) s)"
    using put_all_enc [of "ser_append (bytes_of_word 2 (of_nat (length v) :: u16)) s" v]
    by (auto simp: put_List_def put_UInt16_def enc_List_def u16_of_nat_pos Let_def wire)
next
  fix s :: serializer and v old :: "'a list" and rest
  assume a: "ser_ok s" "list_all ok v \<and> length v < 65536" "old = []"
    "remaining s = enc_List enc v @ rest"
  have size: "get_UInt16 0 s = (of_nat (length v), ser_advance 2 s)"
    using a by (simp add: enc_List_def wire)
  have "ser_ok (ser_advance 2 s)" "remaining (ser_advance 2 s) = concat (map enc v) @ rest"
    using a by (simp_all add: enc_List_def wire)
  then show "get_List get t0 old s = (v, ser_advance (length (enc_List enc v)) s)"
    using a get_times_enc [of "ser_advance 2 s" v t0 rest "[]"]
    by (auto simp: get_List_def size u16_of_nat_pos unat_u16_of_nat fresh_t0 enc_List_def wire)
qed

section \<open>The types that keep the contract\<close>

interpretation ser_byte: list_element put_Byte get_Byte "bytes_of_word 1" "\<lambda>_. True" "\<lambda>_. True" 0
  by unfold_locales (simp_all add: put_Byte_def wire)

interpretation ser_u16: list_element put_UInt16 get_UInt16 "bytes_of_word 2" "\<lambda>_. True" "\<lambda>_. True" 0
  by unfold_locales (simp_all add: put_UInt16_def wire)

interpretation ser_u32: list_element put_UInt32 get_UInt32 "bytes_of_word 4" "\<lambda>_. True" "\<lambda>_. True" 0
  by unfold_locales (simp_all add: put_UInt32_def wire)

definition enc_string :: "u8 list \<Rightarrow> u8 list" where
  "enc_string v = bytes_of_word 2 (of_nat (length v) :: u16) @ v"

lemma put_string_enc:
  assumes "ser_ok s" "length v < 65536" "length (enc_string v) \<le> room s"
  shows "put_string v s = Some (ser_append (enc_string v) s)"
  using assms by (simp add: put_string_def enc_string_def Let_def u16_of_nat_pos unat_u16_of_nat wire)

lemma get_string_enc:
  assumes ok: "ser_ok s" and len: "length v < 65536" and rem: "remaining s = enc_string v @ rest"
  shows "get_string old s = (v, ser_advance (length (enc_string v)) s)"
proof -
  let ?s = "ser_advance 2 s" and ?n = "of_nat (length v) :: u16"
  let ?b = "ser_buf ?s"
  have size: "ser_get 2 (0 :: u16) s = (?n, ?s)"
    using ok rem by (simp add: enc_string_def wire)
  have ok2: "ser_ok ?s" and rem2: "remaining ?s = v @ rest"
    using ok rem by (simp_all add: enc_string_def wire)
  then have h: "holds ?b (v @ rest)"
    by (simp add: holds_def ser_ok_def remaining_def)
  then have dist: "db_write ?b = db_read ?b + (length v + length rest)"
    using length_unread [of ?b] by (simp add: holds_def)
  have "db_write ?b < 2 ^ 32"
    using h unat_u32_less [of "db_size ?b"] by (simp add: holds_def db_inv_def)
  moreover have "GetDataSize ?b = of_nat (length v + length rest)"
    by (simp only: GetDataSize_def dist of_nat_add add_diff_cancel_left' of_int_of_nat_eq of_int_add)
  ultimately have "unat (GetDataSize ?b) = length v + length rest"
    using dist unat_u32_of_nat [of "length v + length rest"] by simp
  then have fits: "\<not> GetDataSize ?b < of_nat (unat ?n)"
    using len by (simp add: word_less_nat_alt unat_of_nat)
  have move: "MoveReadPtr (uint ?n) ?b = (0, advance_db (length v) ?b)"
    using dist len by (simp add: MoveReadPtr_def advance_db_def uint_nat unat_of_nat nat_add_distrib
      flip: of_nat_add)
  have "take (length v) (drop (db_read ?b) (db_data ?b)) = v"
    using holds_Read [OF h] by (simp add: Read_def split: if_splits)
  moreover have "?s\<lparr>ser_buf := advance_db (length v) ?b, ser_err := 0\<rparr> = ser_advance (length v) ?s"
    using ok2 by (simp add: ser_advance_def ser_ok_def)
  ultimately show ?thesis
    using len fits by (auto simp: get_string_def size u16_of_nat_pos unat_u16_of_nat move
      enc_string_def Let_def wire) (simp add: numeral_2_eq_2)
qed

interpretation ser_string: list_element put_string get_string enc_string
  "\<lambda>v. length v < 65536" "\<lambda>_. True" "[]"
  by unfold_locales (simp_all add: put_string_enc get_string_enc)

end
