(* ===== verification/Archives.thy ===== *)
theory Archives
  imports Serializer_Ops
begin

text \<open>
  The serialized messages of \<^verbatim>\<open>MainServer/ArchvMap.h\<close>,
  \<^verbatim>\<open>ArchvBagItemCell.h\<close>, \<^verbatim>\<open>ArchvRole.h\<close> and \<^verbatim>\<open>ArchvPK.h\<close>: one
  record per class, its constructor, and the two directions its \<^verbatim>\<open>BEGIN_SERIAL_MAP\<close>
  block expands to. Each class is shown to keep the contract \<open>codec\<close>; the classes without a
  list inside may be list elements too.
\<close>

text \<open>The element variable of \<^verbatim>\<open>List<UInt32>\<close> is not initialised.\<close>

interpretation ser_u32_junk: list_element put_UInt32 get_UInt32 "bytes_of_word 4" "\<lambda>_. True" "\<lambda>_. True" junk
  for junk
  by unfold_locales simp_all

record ArchvPosition =
  pos_X :: "u16"
  pos_Y :: "u16"

definition ArchvPosition_new :: ArchvPosition where
  "ArchvPosition_new = \<lparr>pos_X = 0, pos_Y = 0\<rparr>"

definition put_ArchvPosition :: "ArchvPosition \<Rightarrow> serializer \<Rightarrow> serializer option" where
  "put_ArchvPosition a s0 = do {
     s1 \<leftarrow> put_entry (put_UInt16 (pos_X a)) s0;
     s2 \<leftarrow> put_entry (put_UInt16 (pos_Y a)) s1;
     Some s2
   }"

definition get_ArchvPosition :: "ArchvPosition \<Rightarrow> serializer \<Rightarrow> ArchvPosition \<times> serializer" where
  "get_ArchvPosition a s0 =
     (let (v1, s1) = get_entry get_UInt16 (pos_X a) s0;
          (v2, s2) = get_entry get_UInt16 (pos_Y a) s1
      in (\<lparr>pos_X = v1, pos_Y = v2\<rparr>, s2))"

definition enc_ArchvPosition :: "ArchvPosition \<Rightarrow> u8 list" where
  "enc_ArchvPosition a = bytes_of_word 2 (pos_X a) @
     bytes_of_word 2 (pos_Y a)"

interpretation arch_pos: list_element put_ArchvPosition get_ArchvPosition enc_ArchvPosition "\<lambda>_. True" "\<lambda>_. True" ArchvPosition_new
  by unfold_locales (simp_all add: put_ArchvPosition_def get_ArchvPosition_def enc_ArchvPosition_def wire)

record ArchvRoute =
  rt_time :: "u32"
  rt_listPos :: "ArchvPosition list"

definition ArchvRoute_new :: ArchvRoute where
  "ArchvRoute_new = \<lparr>rt_time = 0, rt_listPos = []\<rparr>"

definition put_ArchvRoute :: "ArchvRoute \<Rightarrow> serializer \<Rightarrow> serializer option" where
  "put_ArchvRoute a s0 = do {
     s1 \<leftarrow> put_entry (put_UInt32 (rt_time a)) s0;
     s2 \<leftarrow> put_entry (put_List put_ArchvPosition (rt_listPos a)) s1;
     Some s2
   }"

definition get_ArchvRoute :: "ArchvRoute \<Rightarrow> serializer \<Rightarrow> ArchvRoute \<times> serializer" where
  "get_ArchvRoute a s0 =
     (let (v1, s1) = get_entry get_UInt32 (rt_time a) s0;
          (v2, s2) = get_entry (get_List get_ArchvPosition ArchvPosition_new) (rt_listPos a) s1
      in (\<lparr>rt_time = v1, rt_listPos = v2\<rparr>, s2))"

definition enc_ArchvRoute :: "ArchvRoute \<Rightarrow> u8 list" where
  "enc_ArchvRoute a = bytes_of_word 4 (rt_time a) @
     enc_List enc_ArchvPosition (rt_listPos a)"

definition ok_ArchvRoute :: "ArchvRoute \<Rightarrow> bool" where
  "ok_ArchvRoute a = (length (rt_listPos a) < 65536)"

definition fresh_ArchvRoute :: "ArchvRoute \<Rightarrow> bool" where
  "fresh_ArchvRoute a = (rt_listPos a = [])"

interpretation arch_rt: codec put_ArchvRoute get_ArchvRoute enc_ArchvRoute ok_ArchvRoute fresh_ArchvRoute
proof unfold_locales
  fix s :: serializer and v :: ArchvRoute
  assume a: "ser_ok s" "ok_ArchvRoute v" "length (enc_ArchvRoute v) \<le> room s"
  show "put_ArchvRoute v s = Some (ser_append (enc_ArchvRoute v) s)"
    using a by (simp add: put_ArchvRoute_def enc_ArchvRoute_def ok_ArchvRoute_def list.pred_True wire
      ser_u32.put_enc arch_pos.lst.put_enc)
next
  fix s :: serializer and v old :: ArchvRoute and rest
  assume a: "ser_ok s" "ok_ArchvRoute v" "fresh_ArchvRoute old" "remaining s = enc_ArchvRoute v @ rest"
  note r0 = a(4) [unfolded enc_ArchvRoute_def append_assoc]
  note g1 = ser_u32.get_step [OF a(1) r0, where old = "rt_time old"]
  note f1 = ser_u32.rest_step [OF a(1) r0]
  note g2 = arch_pos.lst.get_step [OF f1(1) f1(2), where old = "rt_listPos old"]
  note f2 = arch_pos.lst.rest_step [OF f1(1) f1(2)]
  show "get_ArchvRoute old s = (v, ser_advance (length (enc_ArchvRoute v)) s)"
    using a(2,3) g1 g2
    by (simp add: get_ArchvRoute_def enc_ArchvRoute_def ok_ArchvRoute_def fresh_ArchvRoute_def list.pred_True wire)
qed

record ArchvRoleMoveDesc =
  mv_roleID :: "u32"
  mv_speed :: "u32"
  mv_route :: "ArchvRoute"

definition ArchvRoleMoveDesc_new :: ArchvRoleMoveDesc where
  "ArchvRoleMoveDesc_new = \<lparr>mv_roleID = 0, mv_speed = 0, mv_route = ArchvRoute_new\<rparr>"

definition put_ArchvRoleMoveDesc :: "ArchvRoleMoveDesc \<Rightarrow> serializer \<Rightarrow> serializer option" where
  "put_ArchvRoleMoveDesc a s0 = do {
     s1 \<leftarrow> put_entry (put_UInt32 (mv_roleID a)) s0;
     s2 \<leftarrow> put_entry (put_UInt32 (mv_speed a)) s1;
     s3 \<leftarrow> put_entry (put_ArchvRoute (mv_route a)) s2;
     Some s3
   }"

definition get_ArchvRoleMoveDesc :: "ArchvRoleMoveDesc \<Rightarrow> serializer \<Rightarrow> ArchvRoleMoveDesc \<times> serializer" where
  "get_ArchvRoleMoveDesc a s0 =
     (let (v1, s1) = get_entry get_UInt32 (mv_roleID a) s0;
          (v2, s2) = get_entry get_UInt32 (mv_speed a) s1;
          (v3, s3) = get_entry get_ArchvRoute (mv_route a) s2
      in (\<lparr>mv_roleID = v1, mv_speed = v2, mv_route = v3\<rparr>, s3))"

definition enc_ArchvRoleMoveDesc :: "ArchvRoleMoveDesc \<Rightarrow> u8 list" where
  "enc_ArchvRoleMoveDesc a = bytes_of_word 4 (mv_roleID a) @
     bytes_of_word 4 (mv_speed a) @
     enc_ArchvRoute (mv_route a)"

definition ok_ArchvRoleMoveDesc :: "ArchvRoleMoveDesc \<Rightarrow> bool" where
  "ok_ArchvRoleMoveDesc a = (ok_ArchvRoute (mv_route a))"

definition fresh_ArchvRoleMoveDesc :: "ArchvRoleMoveDesc \<Rightarrow> bool" where
  "fresh_ArchvRoleMoveDesc a = (fresh_ArchvRoute (mv_route a))"

interpretation arch_mv: codec put_ArchvRoleMoveDesc get_ArchvRoleMoveDesc enc_ArchvRoleMoveDesc ok_ArchvRoleMoveDesc fresh_ArchvRoleMoveDesc
proof unfold_locales
  fix s :: serializer and v :: ArchvRoleMoveDesc
  assume a: "ser_ok s" "ok_ArchvRoleMoveDesc v" "length (enc_ArchvRoleMoveDesc v) \<le> room s"
  show "put_ArchvRoleMoveDesc v s = Some (ser_append (enc_ArchvRoleMoveDesc v) s)"
    using a by (simp add: put_ArchvRoleMoveDesc_def enc_ArchvRoleMoveDesc_def ok_ArchvRoleMoveDesc_def list.pred_True wire
      ser_u32.put_enc arch_rt.put_enc)
next
  fix s :: serializer and v old :: ArchvRoleMoveDesc and rest
  assume a: "ser_ok s" "ok_ArchvRoleMoveDesc v" "fresh_ArchvRoleMoveDesc old" "remaining s = enc_ArchvRoleMoveDesc v @ rest"
  note r0 = a(4) [unfolded enc_ArchvRoleMoveDesc_def append_assoc]
  note g1 = ser_u32.get_step [OF a(1) r0, where old = "mv_roleID old"]
  note f1 = ser_u32.rest_step [OF a(1) r0]
  note g2 = ser_u32.get_step [OF f1(1) f1(2), where old = "mv_speed old"]
  note f2 = ser_u32.rest_step [OF f1(1) f1(2)]
  note g3 = arch_rt.get_step [OF f2(1) f2(2), where old = "mv_route old"]
  note f3 = arch_rt.rest_step [OF f2(1) f2(2)]
  show "get_ArchvRoleMoveDesc old s = (v, ser_advance (length (enc_ArchvRoleMoveDesc v)) s)"
    using a(2,3) g1 g2 g3
    by (simp add: get_ArchvRoleMoveDesc_def enc_ArchvRoleMoveDesc_def ok_ArchvRoleMoveDesc_def fresh_ArchvRoleMoveDesc_def list.pred_True wire)
qed

record ArchvCreatureStatus =
  cst_creatureFlag :: "u8"
  cst_creatureType :: "u32"
  cst_ID :: "u32"
  cst_status :: "u8"

definition ArchvCreatureStatus_new :: ArchvCreatureStatus where
  "ArchvCreatureStatus_new = \<lparr>cst_creatureFlag = 0, cst_creatureType = 0, cst_ID = 0, cst_status = 0\<rparr>"

definition put_ArchvCreatureStatus :: "ArchvCreatureStatus \<Rightarrow> serializer \<Rightarrow> serializer option" where
  "put_ArchvCreatureStatus a s0 = do {
     s1 \<leftarrow> put_entry (put_Byte (cst_creatureFlag a)) s0;
     s2 \<leftarrow> put_entry (put_UInt32 (cst_creatureType a)) s1;
     s3 \<leftarrow> put_entry (put_UInt32 (cst_ID a)) s2;
     s4 \<leftarrow> put_entry (put_Byte (cst_status a)) s3;
     Some s4
   }"

definition get_ArchvCreatureStatus :: "ArchvCreatureStatus \<Rightarrow> serializer \<Rightarrow> ArchvCreatureStatus \<times> serializer" where
  "get_ArchvCreatureStatus a s0 =
     (let (v1, s1) = get_entry get_Byte (cst_creatureFlag a) s0;
          (v2, s2) = get_entry get_UInt32 (cst_creatureType a) s1;
          (v3, s3) = get_entry get_UInt32 (cst_ID a) s2;
          (v4, s4) = get_entry get_Byte (cst_status a) s3
      in (\<lparr>cst_creatureFlag = v1, cst_creatureType = v2, cst_ID = v3, cst_status = v4\<rparr>, s4))"

definition enc_ArchvCreatureStatus :: "ArchvCreatureStatus \<Rightarrow> u8 list" where
  "enc_ArchvCreatureStatus a = bytes_of_word 1 (cst_creatureFlag a) @
     bytes_of_word 4 (cst_creatureType a) @
     bytes_of_word 4 (cst_ID a) @
     bytes_of_word 1 (cst_status a)"

interpretation arch_cst: list_element put_ArchvCreatureStatus get_ArchvCreatureStatus enc_ArchvCreatureStatus "\<lambda>_. True" "\<lambda>_. True" ArchvCreatureStatus_new
  by unfold_locales (simp_all add: put_ArchvCreatureStatus_def get_ArchvCreatureStatus_def enc_ArchvCreatureStatus_def wire)

record ItemCell =
  cell_celIndex :: "u16"
  cell_ItemID :: "u32"
  cell_EntityID :: "u32"
  cell_cdTime :: "u16"
  cell_num :: "u16"
  cell_durability :: "u16"
  cell_bindStatus :: "u8"

definition ItemCell_new :: ItemCell where
  "ItemCell_new = \<lparr>cell_celIndex = 0, cell_ItemID = 0, cell_EntityID = 0, cell_cdTime = 0, cell_num = 0, cell_durability = 0, cell_bindStatus = 0\<rparr>"

definition put_ItemCell :: "ItemCell \<Rightarrow> serializer \<Rightarrow> serializer option" where
  "put_ItemCell a s0 = do {
     s1 \<leftarrow> put_entry (put_UInt16 (cell_celIndex a)) s0;
     s2 \<leftarrow> put_entry (put_UInt32 (cell_ItemID a)) s1;
     s3 \<leftarrow> put_entry (put_UInt32 (cell_EntityID a)) s2;
     s4 \<leftarrow> put_entry (put_UInt16 (cell_cdTime a)) s3;
     s5 \<leftarrow> put_entry (put_UInt16 (cell_num a)) s4;
     s6 \<leftarrow> put_entry (put_UInt16 (cell_durability a)) s5;
     s7 \<leftarrow> put_entry (put_Byte (cell_bindStatus a)) s6;
     Some s7
   }"

definition get_ItemCell :: "ItemCell \<Rightarrow> serializer \<Rightarrow> ItemCell \<times> serializer" where
  "get_ItemCell a s0 =
     (let (v1, s1) = get_entry get_UInt16 (cell_celIndex a) s0;
          (v2, s2) = get_entry get_UInt32 (cell_ItemID a) s1;
          (v3, s3) = get_entry get_UInt32 (cell_EntityID a) s2;
          (v4, s4) = get_entry get_UInt16 (cell_cdTime a) s3;
          (v5, s5) = get_entry get_UInt16 (cell_num a) s4;
          (v6, s6) = get_entry get_UInt16 (cell_durability a) s5;
          (v7, s7) = get_entry get_Byte (cell_bindStatus a) s6
      in (\<lparr>cell_celIndex = v1, cell_ItemID = v2, cell_EntityID = v3, cell_cdTime = v4, cell_num = v5, cell_durability = v6, cell_bindStatus = v7\<rparr>, s7))"

definition enc_ItemCell :: "ItemCell \<Rightarrow> u8 list" where
  "enc_ItemCell a = bytes_of_word 2 (cell_celIndex a) @
     bytes_of_word 4 (cell_ItemID a) @
     bytes_of_word 4 (cell_EntityID a) @
     bytes_of_word 2 (cell_cdTime a) @
     bytes_of_word 2 (cell_num a) @
     bytes_of_word 2 (cell_durability a) @
     bytes_of_word 1 (cell_bindStatus a)"

interpretation arch_cell: list_element put_ItemCell get_ItemCell enc_ItemCell "\<lambda>_. True" "\<lambda>_. True" ItemCell_new
  by unfold_locales (simp_all add: put_ItemCell_def get_ItemCell_def enc_ItemCell_def wire)

record ItemList =
  il_ItemID :: "u32"
  il_num :: "u16"

definition ItemList_new :: ItemList where
  "ItemList_new = \<lparr>il_ItemID = 0, il_num = 0\<rparr>"

definition put_ItemList :: "ItemList \<Rightarrow> serializer \<Rightarrow> serializer option" where
  "put_ItemList a s0 = do {
     s1 \<leftarrow> put_entry (put_UInt32 (il_ItemID a)) s0;
     s2 \<leftarrow> put_entry (put_UInt16 (il_num a)) s1;
     Some s2
   }"

definition get_ItemList :: "ItemList \<Rightarrow> serializer \<Rightarrow> ItemList \<times> serializer" where
  "get_ItemList a s0 =
     (let (v1, s1) = get_entry get_UInt32 (il_ItemID a) s0;
          (v2, s2) = get_entry get_UInt16 (il_num a) s1
      in (\<lparr>il_ItemID = v1, il_num = v2\<rparr>, s2))"

definition enc_ItemList :: "ItemList \<Rightarrow> u8 list" where
  "enc_ItemList a = bytes_of_word 4 (il_ItemID a) @
     bytes_of_word 2 (il_num a)"

interpretation arch_il: list_element put_ItemList get_ItemList enc_ItemList "\<lambda>_. True" "\<lambda>_. True" ItemList_new
  by unfold_locales (simp_all add: put_ItemList_def get_ItemList_def enc_ItemList_def wire)

record TeamRole =
  tr_roleId :: "u32"
  tr_status :: "u8"

definition TeamRole_new :: TeamRole where
  "TeamRole_new = \<lparr>tr_roleId = 0, tr_status = 0\<rparr>"

definition put_TeamRole :: "TeamRole \<Rightarrow> serializer \<Rightarrow> serializer option" where
  "put_TeamRole a s0 = do {
     s1 \<leftarrow> put_entry (put_UInt32 (tr_roleId a)) s0;
     s2 \<leftarrow> put_entry (put_Byte (tr_status a)) s1;
     Some s2
   }"

definition get_TeamRole :: "TeamRole \<Rightarrow> serializer \<Rightarrow> TeamRole \<times> serializer" where
  "get_TeamRole a s0 =
     (let (v1, s1) = get_entry get_UInt32 (tr_roleId a) s0;
          (v2, s2) = get_entry get_Byte (tr_status a) s1
      in (\<lparr>tr_roleId = v1, tr_status = v2\<rparr>, s2))"

definition enc_TeamRole :: "TeamRole \<Rightarrow> u8 list" where
  "enc_TeamRole a = bytes_of_word 4 (tr_roleId a) @
     bytes_of_word 1 (tr_status a)"

interpretation arch_tr: list_element put_TeamRole get_TeamRole enc_TeamRole "\<lambda>_. True" "\<lambda>_. True" TeamRole_new
  by unfold_locales (simp_all add: put_TeamRole_def get_TeamRole_def enc_TeamRole_def wire)

record RoleRune =
  rr_runeID :: "u32"
  rr_remainderTime :: "u32"

definition RoleRune_new :: RoleRune where
  "RoleRune_new = \<lparr>rr_runeID = 0, rr_remainderTime = 0\<rparr>"

definition put_RoleRune :: "RoleRune \<Rightarrow> serializer \<Rightarrow> serializer option" where
  "put_RoleRune a s0 = do {
     s1 \<leftarrow> put_entry (put_UInt32 (rr_runeID a)) s0;
     s2 \<leftarrow> put_entry (put_UInt32 (rr_remainderTime a)) s1;
     Some s2
   }"

definition get_RoleRune :: "RoleRune \<Rightarrow> serializer \<Rightarrow> RoleRune \<times> serializer" where
  "get_RoleRune a s0 =
     (let (v1, s1) = get_entry get_UInt32 (rr_runeID a) s0;
          (v2, s2) = get_entry get_UInt32 (rr_remainderTime a) s1
      in (\<lparr>rr_runeID = v1, rr_remainderTime = v2\<rparr>, s2))"

definition enc_RoleRune :: "RoleRune \<Rightarrow> u8 list" where
  "enc_RoleRune a = bytes_of_word 4 (rr_runeID a) @
     bytes_of_word 4 (rr_remainderTime a)"

interpretation arch_rr: list_element put_RoleRune get_RoleRune enc_RoleRune "\<lambda>_. True" "\<lambda>_. True" RoleRune_new
  by unfold_locales (simp_all add: put_RoleRune_def get_RoleRune_def enc_RoleRune_def wire)

record ArchvRoleBriefInfo =
  rb_roleId :: "u32"
  rb_roleName :: "u8 list"
  rb_level :: "u32"
  rb_proID :: "u8"
  rb_hp :: "u32"
  rb_mp :: "u32"
  rb_mapID :: "u32"
  rb_lastX :: "u16"
  rb_lastY :: "u16"

definition ArchvRoleBriefInfo_new :: ArchvRoleBriefInfo where
  "ArchvRoleBriefInfo_new = \<lparr>rb_roleId = 0, rb_roleName = [], rb_level = 0, rb_proID = 0, rb_hp = 0, rb_mp = 0, rb_mapID = 0, rb_lastX = 0, rb_lastY = 0\<rparr>"

definition put_ArchvRoleBriefInfo :: "ArchvRoleBriefInfo \<Rightarrow> serializer \<Rightarrow> serializer option" where
  "put_ArchvRoleBriefInfo a s0 = do {
     s1 \<leftarrow> put_entry (put_UInt32 (rb_roleId a)) s0;
     s2 \<leftarrow> put_entry (put_string (rb_roleName a)) s1;
     s3 \<leftarrow> put_entry (put_UInt32 (rb_level a)) s2;
     s4 \<leftarrow> put_entry (put_Byte (rb_proID a)) s3;
     s5 \<leftarrow> put_entry (put_UInt32 (rb_hp a)) s4;
     s6 \<leftarrow> put_entry (put_UInt32 (rb_mp a)) s5;
     s7 \<leftarrow> put_entry (put_UInt32 (rb_mapID a)) s6;
     s8 \<leftarrow> put_entry (put_UInt16 (rb_lastX a)) s7;
     s9 \<leftarrow> put_entry (put_UInt16 (rb_lastY a)) s8;
     Some s9
   }"

definition get_ArchvRoleBriefInfo :: "ArchvRoleBriefInfo \<Rightarrow> serializer \<Rightarrow> ArchvRoleBriefInfo \<times> serializer" where
  "get_ArchvRoleBriefInfo a s0 =
     (let (v1, s1) = get_entry get_UInt32 (rb_roleId a) s0;
          (v2, s2) = get_entry get_string (rb_roleName a) s1;
          (v3, s3) = get_entry get_UInt32 (rb_level a) s2;
          (v4, s4) = get_entry get_Byte (rb_proID a) s3;
          (v5, s5) = get_entry get_UInt32 (rb_hp a) s4;
          (v6, s6) = get_entry get_UInt32 (rb_mp a) s5;
          (v7, s7) = get_entry get_UInt32 (rb_mapID a) s6;
          (v8, s8) = get_entry get_UInt16 (rb_lastX a) s7;
          (v9, s9) = get_entry get_UInt16 (rb_lastY a) s8
      in (\<lparr>rb_roleId = v1, rb_roleName = v2, rb_level = v3, rb_proID = v4, rb_hp = v5, rb_mp = v6, rb_mapID = v7, rb_lastX = v8, rb_lastY = v9\<rparr>, s9))"

definition enc_ArchvRoleBriefInfo :: "ArchvRoleBriefInfo \<Rightarrow> u8 list" where
  "enc_ArchvRoleBriefInfo a = bytes_of_word 4 (rb_roleId a) @
     enc_string (rb_roleName a) @
     bytes_of_word 4 (rb_level a) @
     bytes_of_word 1 (rb_proID a) @
     bytes_of_word 4 (rb_hp a) @
     bytes_of_word 4 (rb_mp a) @
     bytes_of_word 4 (rb_mapID a) @
     bytes_of_word 2 (rb_lastX a) @
     bytes_of_word 2 (rb_lastY a)"

definition ok_ArchvRoleBriefInfo :: "ArchvRoleBriefInfo \<Rightarrow> bool" where
  "ok_ArchvRoleBriefInfo a = (length (rb_roleName a) < 65536)"

definition fresh_ArchvRoleBriefInfo :: "ArchvRoleBriefInfo \<Rightarrow> bool" where
  "fresh_ArchvRoleBriefInfo a = (True)"

interpretation arch_rb: list_element put_ArchvRoleBriefInfo get_ArchvRoleBriefInfo enc_ArchvRoleBriefInfo ok_ArchvRoleBriefInfo fresh_ArchvRoleBriefInfo ArchvRoleBriefInfo_new
proof unfold_locales
  fix s :: serializer and v :: ArchvRoleBriefInfo
  assume a: "ser_ok s" "ok_ArchvRoleBriefInfo v" "length (enc_ArchvRoleBriefInfo v) \<le> room s"
  show "put_ArchvRoleBriefInfo v s = Some (ser_append (enc_ArchvRoleBriefInfo v) s)"
    using a by (simp add: put_ArchvRoleBriefInfo_def enc_ArchvRoleBriefInfo_def ok_ArchvRoleBriefInfo_def list.pred_True wire
      ser_u32.put_enc ser_string.put_enc ser_byte.put_enc ser_u16.put_enc)
next
  fix s :: serializer and v old :: ArchvRoleBriefInfo and rest
  assume a: "ser_ok s" "ok_ArchvRoleBriefInfo v" "fresh_ArchvRoleBriefInfo old" "remaining s = enc_ArchvRoleBriefInfo v @ rest"
  note r0 = a(4) [unfolded enc_ArchvRoleBriefInfo_def append_assoc]
  note g1 = ser_u32.get_step [OF a(1) r0, where old = "rb_roleId old"]
  note f1 = ser_u32.rest_step [OF a(1) r0]
  note g2 = ser_string.get_step [OF f1(1) f1(2), where old = "rb_roleName old"]
  note f2 = ser_string.rest_step [OF f1(1) f1(2)]
  note g3 = ser_u32.get_step [OF f2(1) f2(2), where old = "rb_level old"]
  note f3 = ser_u32.rest_step [OF f2(1) f2(2)]
  note g4 = ser_byte.get_step [OF f3(1) f3(2), where old = "rb_proID old"]
  note f4 = ser_byte.rest_step [OF f3(1) f3(2)]
  note g5 = ser_u32.get_step [OF f4(1) f4(2), where old = "rb_hp old"]
  note f5 = ser_u32.rest_step [OF f4(1) f4(2)]
  note g6 = ser_u32.get_step [OF f5(1) f5(2), where old = "rb_mp old"]
  note f6 = ser_u32.rest_step [OF f5(1) f5(2)]
  note g7 = ser_u32.get_step [OF f6(1) f6(2), where old = "rb_mapID old"]
  note f7 = ser_u32.rest_step [OF f6(1) f6(2)]
  note g8 = ser_u16.get_step [OF f7(1) f7(2), where old = "rb_lastX old"]
  note f8 = ser_u16.rest_step [OF f7(1) f7(2)]
  note g9 = ser_u16.get_step [OF f8(1) f8(2), where old = "rb_lastY old"]
  note f9 = ser_u16.rest_step [OF f8(1) f8(2)]
  show "get_ArchvRoleBriefInfo old s = (v, ser_advance (length (enc_ArchvRoleBriefInfo v)) s)"
    using a(2,3) g1 g2 g3 g4 g5 g6 g7 g8 g9
    by (simp add: get_ArchvRoleBriefInfo_def enc_ArchvRoleBriefInfo_def ok_ArchvRoleBriefInfo_def fresh_ArchvRoleBriefInfo_def list.pred_True wire)
qed (simp_all add: fresh_ArchvRoleBriefInfo_def)

record ArchvPKEndInfo =
  pke_creatureFlag :: "u8"
  pke_creatureType :: "u32"
  pke_roleID :: "u32"
  pke_opposition :: "u8"
  pke_live :: "u8"
  pke_hp :: "u16"
  pke_mp :: "u16"

definition ArchvPKEndInfo_new :: ArchvPKEndInfo where
  "ArchvPKEndInfo_new = \<lparr>pke_creatureFlag = 0, pke_creatureType = 0, pke_roleID = 0, pke_opposition = 0, pke_live = 0, pke_hp = 0, pke_mp = 0\<rparr>"

definition put_ArchvPKEndInfo :: "ArchvPKEndInfo \<Rightarrow> serializer \<Rightarrow> serializer option" where
  "put_ArchvPKEndInfo a s0 = do {
     s1 \<leftarrow> put_entry (put_Byte (pke_creatureFlag a)) s0;
     s2 \<leftarrow> put_entry (put_UInt32 (pke_creatureType a)) s1;
     s3 \<leftarrow> put_entry (put_UInt32 (pke_roleID a)) s2;
     s4 \<leftarrow> put_entry (put_Byte (pke_opposition a)) s3;
     s5 \<leftarrow> put_entry (put_Byte (pke_live a)) s4;
     s6 \<leftarrow> put_entry (put_UInt16 (pke_hp a)) s5;
     s7 \<leftarrow> put_entry (put_UInt16 (pke_mp a)) s6;
     Some s7
   }"

definition get_ArchvPKEndInfo :: "ArchvPKEndInfo \<Rightarrow> serializer \<Rightarrow> ArchvPKEndInfo \<times> serializer" where
  "get_ArchvPKEndInfo a s0 =
     (let (v1, s1) = get_entry get_Byte (pke_creatureFlag a) s0;
          (v2, s2) = get_entry get_UInt32 (pke_creatureType a) s1;
          (v3, s3) = get_entry get_UInt32 (pke_roleID a) s2;
          (v4, s4) = get_entry get_Byte (pke_opposition a) s3;
          (v5, s5) = get_entry get_Byte (pke_live a) s4;
          (v6, s6) = get_entry get_UInt16 (pke_hp a) s5;
          (v7, s7) = get_entry get_UInt16 (pke_mp a) s6
      in (\<lparr>pke_creatureFlag = v1, pke_creatureType = v2, pke_roleID = v3, pke_opposition = v4, pke_live = v5, pke_hp = v6, pke_mp = v7\<rparr>, s7))"

definition enc_ArchvPKEndInfo :: "ArchvPKEndInfo \<Rightarrow> u8 list" where
  "enc_ArchvPKEndInfo a = bytes_of_word 1 (pke_creatureFlag a) @
     bytes_of_word 4 (pke_creatureType a) @
     bytes_of_word 4 (pke_roleID a) @
     bytes_of_word 1 (pke_opposition a) @
     bytes_of_word 1 (pke_live a) @
     bytes_of_word 2 (pke_hp a) @
     bytes_of_word 2 (pke_mp a)"

interpretation arch_pke: list_element put_ArchvPKEndInfo get_ArchvPKEndInfo enc_ArchvPKEndInfo "\<lambda>_. True" "\<lambda>_. True" ArchvPKEndInfo_new
  by unfold_locales (simp_all add: put_ArchvPKEndInfo_def get_ArchvPKEndInfo_def enc_ArchvPKEndInfo_def wire)

record ArchvPKReward =
  pkr_pkType :: "u8"
  pkr_glory :: "u32"
  pkr_exp :: "u32"
  pkr_money :: "u32"
  pkr_items :: "u32 list"

definition ArchvPKReward_new :: ArchvPKReward where
  "ArchvPKReward_new = \<lparr>pkr_pkType = 0, pkr_glory = 0, pkr_exp = 0, pkr_money = 0, pkr_items = []\<rparr>"

definition put_ArchvPKReward :: "ArchvPKReward \<Rightarrow> serializer \<Rightarrow> serializer option" where
  "put_ArchvPKReward a s0 = do {
     s1 \<leftarrow> put_entry (put_Byte (pkr_pkType a)) s0;
     s2 \<leftarrow> put_entry (put_UInt32 (pkr_glory a)) s1;
     s3 \<leftarrow> put_entry (put_UInt32 (pkr_exp a)) s2;
     s4 \<leftarrow> put_entry (put_UInt32 (pkr_money a)) s3;
     s5 \<leftarrow> put_entry (put_List put_UInt32 (pkr_items a)) s4;
     Some s5
   }"

definition get_ArchvPKReward :: "u32 \<Rightarrow> ArchvPKReward \<Rightarrow> serializer \<Rightarrow> ArchvPKReward \<times> serializer" where
  "get_ArchvPKReward junk a s0 =
     (let (v1, s1) = get_entry get_Byte (pkr_pkType a) s0;
          (v2, s2) = get_entry get_UInt32 (pkr_glory a) s1;
          (v3, s3) = get_entry get_UInt32 (pkr_exp a) s2;
          (v4, s4) = get_entry get_UInt32 (pkr_money a) s3;
          (v5, s5) = get_entry (get_List get_UInt32 junk) (pkr_items a) s4
      in (\<lparr>pkr_pkType = v1, pkr_glory = v2, pkr_exp = v3, pkr_money = v4, pkr_items = v5\<rparr>, s5))"

definition enc_ArchvPKReward :: "ArchvPKReward \<Rightarrow> u8 list" where
  "enc_ArchvPKReward a = bytes_of_word 1 (pkr_pkType a) @
     bytes_of_word 4 (pkr_glory a) @
     bytes_of_word 4 (pkr_exp a) @
     bytes_of_word 4 (pkr_money a) @
     enc_List (bytes_of_word 4) (pkr_items a)"

definition ok_ArchvPKReward :: "ArchvPKReward \<Rightarrow> bool" where
  "ok_ArchvPKReward a = (length (pkr_items a) < 65536)"

definition fresh_ArchvPKReward :: "ArchvPKReward \<Rightarrow> bool" where
  "fresh_ArchvPKReward a = (pkr_items a = [])"

interpretation arch_pkr: codec put_ArchvPKReward "get_ArchvPKReward junk" enc_ArchvPKReward ok_ArchvPKReward fresh_ArchvPKReward for junk
proof unfold_locales
  fix s :: serializer and v :: ArchvPKReward
  assume a: "ser_ok s" "ok_ArchvPKReward v" "length (enc_ArchvPKReward v) \<le> room s"
  show "put_ArchvPKReward v s = Some (ser_append (enc_ArchvPKReward v) s)"
    using a by (simp add: put_ArchvPKReward_def enc_ArchvPKReward_def ok_ArchvPKReward_def list.pred_True wire
      ser_byte.put_enc ser_u32.put_enc ser_u32_junk.lst.put_enc)
next
  fix s :: serializer and v old :: ArchvPKReward and rest
  assume a: "ser_ok s" "ok_ArchvPKReward v" "fresh_ArchvPKReward old" "remaining s = enc_ArchvPKReward v @ rest"
  note r0 = a(4) [unfolded enc_ArchvPKReward_def append_assoc]
  note g1 = ser_byte.get_step [OF a(1) r0, where old = "pkr_pkType old"]
  note f1 = ser_byte.rest_step [OF a(1) r0]
  note g2 = ser_u32.get_step [OF f1(1) f1(2), where old = "pkr_glory old"]
  note f2 = ser_u32.rest_step [OF f1(1) f1(2)]
  note g3 = ser_u32.get_step [OF f2(1) f2(2), where old = "pkr_exp old"]
  note f3 = ser_u32.rest_step [OF f2(1) f2(2)]
  note g4 = ser_u32.get_step [OF f3(1) f3(2), where old = "pkr_money old"]
  note f4 = ser_u32.rest_step [OF f3(1) f3(2)]
  note g5 = ser_u32_junk.lst.get_step [OF f4(1) f4(2), where old = "pkr_items old"]
  note f5 = ser_u32_junk.lst.rest_step [OF f4(1) f4(2)]
  show "get_ArchvPKReward junk old s = (v, ser_advance (length (enc_ArchvPKReward v)) s)"
    using a(2,3) g1 g2 g3 g4 g5
    by (simp add: get_ArchvPKReward_def enc_ArchvPKReward_def ok_ArchvPKReward_def fresh_ArchvPKReward_def list.pred_True wire)
qed

section \<open>Properties of the messages\<close>

text \<open>A serializer over an empty buffer of \<open>n\<close> bytes.\<close>

definition ser_empty :: "nat \<Rightarrow> serializer" where
  "ser_empty n = Serializer_new (DataBuffer_new (of_nat n) (replicate n 0))"

lemma ser_empty_ok:
  "n < 2 ^ 32 \<Longrightarrow> ser_ok (ser_empty n)" "remaining (ser_empty n) = []"
  "n < 2 ^ 32 \<Longrightarrow> room (ser_empty n) = n"
  by (simp_all add: ser_empty_def Serializer_new_def DataBuffer_new_def ser_ok_def db_inv_def
      unat_u32_of_nat remaining_def unread_def room_def space_def)

lemma length_enc_ItemCell [simp]: "length (enc_ItemCell c) = 17"
  by (simp add: enc_ItemCell_def)

lemma length_concat_const: "(\<And>x. length (f x) = k) \<Longrightarrow> length (concat (map f xs)) = k * length xs"
  by (induction xs) auto

text \<open>
  C38: a bag listing survives the wire: a \<^verbatim>\<open>List<ItemCell>\<close> of fewer than 65536 cells,
  written where seventeen bytes per cell and two for the size are free, loads into an empty list as
  exactly the cells that were written, in order, consuming all bytes, without an error.
\<close>

theorem ItemCell_list_roundtrip:
  assumes "ser_ok s" and "remaining s = []" and "length cells < 65536"
    and "2 + 17 * length cells \<le> room s"
  shows "\<exists>s' s''. put_List put_ItemCell cells s = Some s' \<and>
    get_List get_ItemCell ItemCell_new [] s' = (cells, s'') \<and>
    remaining s'' = [] \<and> GetErrorCode s'' = 0"
  using assms arch_cell.lst.roundtrip [of s cells "[]"]
  by (force simp: list.pred_True enc_List_def length_concat_const)

theorem ItemCell_list_roundtrip_witness:
  "\<exists>s' s''. put_List put_ItemCell [ItemCell_new\<lparr>cell_ItemID := 7\<rparr>, ItemCell_new] (ser_empty 100) = Some s' \<and>
    get_List get_ItemCell ItemCell_new [] s' = ([ItemCell_new\<lparr>cell_ItemID := 7\<rparr>, ItemCell_new], s'') \<and>
    remaining s'' = [] \<and> GetErrorCode s'' = 0"
  by (rule ItemCell_list_roundtrip) (simp_all add: ser_empty_ok)

text \<open>
  A role's movement, with its route, loads into a fresh object as it was written, for a route
  of fewer than 65536 points and a buffer that holds it.
\<close>

lemma RoleMoveDesc_roundtrip:
  assumes "ser_ok s" and "remaining s = []" and "length (rt_listPos (mv_route m)) < 65536"
    and "14 + 4 * length (rt_listPos (mv_route m)) \<le> room s"
  shows "\<exists>s'. put_ArchvRoleMoveDesc m s = Some s' \<and>
    get_ArchvRoleMoveDesc ArchvRoleMoveDesc_new s' = (m, ser_advance (14 + 4 * length (rt_listPos (mv_route m))) s')"
proof -
  have len: "length (enc_ArchvRoleMoveDesc m) = 14 + 4 * length (rt_listPos (mv_route m))"
    by (simp add: enc_ArchvRoleMoveDesc_def enc_ArchvRoute_def enc_List_def
        enc_ArchvPosition_def length_concat_const)
  have fresh: "fresh_ArchvRoleMoveDesc ArchvRoleMoveDesc_new"
    by (simp add: fresh_ArchvRoleMoveDesc_def fresh_ArchvRoute_def ArchvRoleMoveDesc_new_def ArchvRoute_new_def)
  show ?thesis
    using assms arch_mv.roundtrip [OF assms(1,2) _ fresh, of m]
    by (auto simp: len ok_ArchvRoleMoveDesc_def ok_ArchvRoute_def)
qed

definition demo_move :: ArchvRoleMoveDesc where
  "demo_move = \<lparr>mv_roleID = 9, mv_speed = 400, mv_route = \<lparr>rt_time = 1,
     rt_listPos = [\<lparr>pos_X = 1, pos_Y = 2\<rparr>, \<lparr>pos_X = 3, pos_Y = 4\<rparr>]\<rparr>\<rparr>"

lemma RoleMoveDesc_roundtrip_witness:
  "\<exists>s'. put_ArchvRoleMoveDesc demo_move (ser_empty 100) = Some s' \<and>
    get_ArchvRoleMoveDesc ArchvRoleMoveDesc_new s' =
      (demo_move, ser_advance (14 + 4 * length (rt_listPos (mv_route demo_move))) s')"
  by (rule RoleMoveDesc_roundtrip) (simp_all add: ser_empty_ok demo_move_def)

text \<open>
  A load reuses one element for the whole list, so a list of routes does not survive the
  wire: the second route of a list of two arrives with the points of the first in front of its own.
\<close>

lemma route_list_accumulates:
  assumes "ser_ok s" and "length (rt_listPos r1) < 65536" and "length (rt_listPos r2) < 65536"
    and "remaining s = enc_List enc_ArchvRoute [r1, r2] @ rest"
  shows "fst (get_List get_ArchvRoute ArchvRoute_new [] s) =
    [r1, r2\<lparr>rt_listPos := rt_listPos r1 @ rt_listPos r2\<rparr>]"
proof -
  have r0: "remaining s = bytes_of_word 2 (2 :: u16) @ enc_ArchvRoute r1 @ enc_ArchvRoute r2 @ rest"
    using assms by (simp add: enc_List_def)
  have size: "get_UInt16 0 s = (2, ser_advance 2 s)"
    using assms(1) r0 by (simp add: wire)
  let ?s1 = "ser_advance 2 s"
  have s1: "ser_ok ?s1" "remaining ?s1 = enc_ArchvRoute r1 @ enc_ArchvRoute r2 @ rest"
    using assms(1) r0 by (simp_all add: wire)
  have g1: "get_ArchvRoute ArchvRoute_new ?s1 = (r1, ser_advance (length (enc_ArchvRoute r1)) ?s1)"
    using assms(2) by (intro arch_rt.get_enc [OF s1(1) _ _ s1(2)])
      (simp_all add: ok_ArchvRoute_def fresh_ArchvRoute_def ArchvRoute_new_def)
  let ?s2 = "ser_advance (length (enc_ArchvRoute r1)) ?s1"
  have s2: "ser_ok ?s2" "remaining ?s2 = bytes_of_word 4 (rt_time r2) @
      bytes_of_word 2 (of_nat (length (rt_listPos r2)) :: u16) @
      concat (map enc_ArchvPosition (rt_listPos r2)) @ rest"
    using arch_rt.rest_step [OF s1] by (simp_all add: enc_ArchvRoute_def enc_List_def)
  let ?s3 = "ser_advance 4 ?s2"
  have s3: "ser_ok ?s3" "remaining ?s3 = bytes_of_word 2 (of_nat (length (rt_listPos r2)) :: u16) @
      concat (map enc_ArchvPosition (rt_listPos r2)) @ rest"
    using ser_u32.rest_step [OF s2] by (simp_all only: length_bytes_of_word)
  let ?s4 = "ser_advance 2 ?s3"
  have s4: "ser_ok ?s4" "remaining ?s4 = concat (map enc_ArchvPosition (rt_listPos r2)) @ rest"
    using ser_u16.rest_step [OF s3] by (simp_all only: length_bytes_of_word)
  have t: "get_entry get_UInt32 w ?s2 = (rt_time r2, ?s3)" for w
    using s2 by (simp add: get_entry_ok get_scalar_remaining word_of_bytes_u32)
  have n: "get_UInt16 0 ?s3 = (of_nat (length (rt_listPos r2)), ?s4)"
    using s3 by (simp add: get_scalar_remaining word_of_bytes_u16)
  have l: "fst (get_List get_ArchvPosition ArchvPosition_new acc ?s3) = acc @ rt_listPos r2" for acc
    using assms(3) arch_pos.get_times_enc [OF s4(1) _ _ s4(2), of ArchvPosition_new acc]
    by (auto simp: get_List_def n u16_of_nat_pos unat_u16_of_nat list.pred_True)
  have "fst (get_ArchvRoute r1 ?s2) = r2\<lparr>rt_listPos := rt_listPos r1 @ rt_listPos r2\<rparr>"
    using l [of "rt_listPos r1"] by (simp add: get_ArchvRoute_def t get_entry_ok s3(1) case_prod_unfold)
  moreover have "unat (2 :: u16) = Suc (Suc 0)"
    by simp
  ultimately show ?thesis
    by (simp only: get_List_def size g1 case_prod_unfold get_times.simps fst_conv snd_conv Let_def)
      simp
qed

lemma route_list_accumulates_witness:
  "fst (get_List get_ArchvRoute ArchvRoute_new []
     (ser_append (enc_List enc_ArchvRoute [mv_route demo_move, mv_route demo_move]) (ser_empty 100))) =
   [mv_route demo_move, (mv_route demo_move)\<lparr>rt_listPos :=
      rt_listPos (mv_route demo_move) @ rt_listPos (mv_route demo_move)\<rparr>]"
  using route_list_accumulates [of "ser_append (enc_List enc_ArchvRoute
      [mv_route demo_move, mv_route demo_move]) (ser_empty 100)"
      "mv_route demo_move" "mv_route demo_move" "[]"]
  by (simp add: wire ser_empty_ok demo_move_def enc_List_def enc_ArchvRoute_def enc_ArchvPosition_def)

text \<open>
  A truncated item cell is always reported: when fewer than the seventeen bytes of a cell are
  left, the load ends with a nonzero error code, whatever the bytes and the object it loads into.
\<close>

lemma ItemCell_truncated:
  assumes "ser_ok s" and "length (remaining s) < 17"
  shows "GetErrorCode (snd (get_ItemCell old s)) \<noteq> 0"
proof -
  have get: "get_entry g v (ser_advance n s) =
      (if n + k \<le> length (remaining s) then (word_of_bytes (take k (drop n (remaining s))), ser_advance (n + k) s)
       else (v, (ser_advance n s)\<lparr>ser_err := - 1\<rparr>))"
    if "n \<le> length (remaining s)" "g = ser_get k" for g :: "'a::len word \<Rightarrow> serializer \<Rightarrow> 'a word \<times> serializer" and v n k
    using that assms(1) by (auto simp: wire ser_get_short)
  have f: "get_UInt16 = ser_get 2" "get_UInt32 = ser_get 4" "get_Byte = ser_get 1"
    by (simp_all add: fun_eq_iff get_UInt16_def get_UInt32_def get_Byte_def)
  have start: "get_entry g v s = get_entry g v (ser_advance 0 s)"
    for g :: "u16 \<Rightarrow> serializer \<Rightarrow> u16 \<times> serializer" and v
    by simp
  show ?thesis
    unfolding get_ItemCell_def start
    using assms(2) by (auto simp: f get get_entry_err GetErrorCode_def Let_def simp del: ser_advance_0)
qed

lemma ItemCell_truncated_witness:
  "GetErrorCode (snd (get_ItemCell ItemCell_new (ser_append [1, 2, 3, 4, 5, 6, 7] (ser_empty 100)))) \<noteq> 0"
  by (rule ItemCell_truncated) (simp_all add: wire ser_empty_ok)

text \<open>
  The error of a read is lost when a later one succeeds: with two or three bytes left, reading
  a \<^verbatim>\<open>UInt32\<close> and then a \<^verbatim>\<open>UInt16\<close>, the way the handlers chain
  \<^verbatim>\<open>>>\<close>, ends with error code zero and the first variable unchanged.
\<close>

lemma error_code_not_sticky:
  assumes "ser_ok s" and "2 \<le> length (remaining s)" and "length (remaining s) < 4"
    and "(a', s1) = get_UInt32 a s" and "(b', s2) = get_UInt16 b s1"
  shows "GetErrorCode s1 \<noteq> 0 \<and> a' = a \<and> GetErrorCode s2 = 0 \<and>
    b' = word_of_bytes (take 2 (remaining s))"
proof -
  have s1: "s1 = s\<lparr>ser_err := - 1\<rparr>" "a' = a"
    using assms by (simp_all add: wire)
  have "holds (ser_buf s) (take 2 (remaining s) @ drop 2 (remaining s))"
    using assms(1) by (simp add: holds_def ser_ok_def remaining_def)
  from holds_Read [OF this] have "get_UInt16 b s1 =
      (word_of_bytes (take 2 (remaining s)), s1\<lparr>ser_buf := advance_db 2 (ser_buf s), ser_err := 0\<rparr>)"
    using assms(2) by (simp add: get_UInt16_def ser_get_def s1 min_absorb2)
  then show ?thesis
    using s1 assms(5) by (simp add: GetErrorCode_def)
qed

lemma error_code_not_sticky_witness:
  "let s = ser_append [1, 2, 3] (ser_empty 100); (a', s1) = get_UInt32 5 s; (b', s2) = get_UInt16 6 s1
   in GetErrorCode s1 \<noteq> 0 \<and> a' = 5 \<and> GetErrorCode s2 = 0 \<and> b' = word_of_bytes [1, 2]"
  using error_code_not_sticky [of "ser_append [1, 2, 3] (ser_empty 100)", OF _ _ _ surjective_pairing [symmetric] surjective_pairing [symmetric], of 5 6]
  by (simp add: wire ser_empty_ok Let_def case_prod_unfold)

end
