(* ===== verification/Timer_Wheel.thy ===== *)
theory Timer_Wheel
  imports Prelude "HOL-Library.Signed_Division"
begin

text \<open>
  \<^verbatim>\<open>Framework/BaseServer/NewTimer.cpp\<close> and \<^verbatim>\<open>TimerManager.cpp\<close>: the
  pool of timers and the wheel of \<^verbatim>\<open>MAXSLOTNUM\<close> slots whose hand moves one slot a
  second. A \<^verbatim>\<open>NewTimer*\<close> is a number, zero for \<^verbatim>\<open>NULL\<close>; the store
  \<open>w_timers\<close> holds the objects. A callback that a timeout starts in a detached thread is an
  entry of \<open>w_calls\<close>. \<^verbatim>\<open>_tm\<close>, which is either null or the one manager, is a
  boolean. The \<^verbatim>\<open>int\<close> fields hold values in the range of the type.
\<close>

datatype timer_type = LoopTimer | OnceTimer | TimeTypeNum

record new_timer =
  nt_callBack :: nat
  nt_obj :: nat
  nt_arg :: "u8 list"
  nt_argLen :: int
  nt_type :: timer_type
  nt_ID :: u32
  nt_interval :: int
  nt_ticks :: int
  nt_round :: int
  nt_tm :: bool

definition NewTimer_new :: new_timer where
  "NewTimer_new = \<lparr>nt_callBack = 0, nt_obj = 0, nt_arg = [], nt_argLen = 0, nt_type = OnceTimer,
     nt_ID = 0, nt_interval = 0, nt_ticks = 0, nt_round = 0, nt_tm = False\<rparr>"

record timer_call =
  call_fun :: nat
  call_obj :: nat
  call_arg :: "u8 list"
  call_argLen :: int

record wheel =
  w_timers :: "nat \<Rightarrow> new_timer"
  w_slots :: "nat \<Rightarrow> (u32, nat) smap"
  w_last :: u32
  w_stop :: u8
  w_curr :: u32
  w_calls :: "timer_call list"

definition MAXTIMERNUM :: u32 where "MAXTIMERNUM = 3000"
definition MAXSLOTNUM :: nat where "MAXSLOTNUM = 3000"
definition TIMERTIMESLOT :: int where "TIMERTIMESLOT = 1"
definition MAXARGLEN :: int where "MAXARGLEN = 128"

section \<open>TimerPool\<close>

record timer_pool =
  tp_free :: "nat list"
  tp_used :: "nat list"

definition TimerPool_init :: "nat list \<Rightarrow> timer_pool \<Rightarrow> timer_pool" where
  "TimerPool_init timers pool = pool\<lparr>tp_free := tp_free pool @ timers\<rparr>"

definition newTimer :: "timer_pool \<Rightarrow> nat \<times> timer_pool" where
  "newTimer pool =
     (case tp_free pool of
        [] \<Rightarrow> (0, pool)
      | t # ts \<Rightarrow> (t, pool\<lparr>tp_used := tp_used pool @ [t], tp_free := ts\<rparr>))"

definition delTimer :: "nat \<Rightarrow> timer_pool \<Rightarrow> timer_pool" where
  "delTimer t pool =
     (if t \<in> set (tp_used pool)
      then pool\<lparr>tp_used := filter (\<lambda>x. x \<noteq> t) (tp_used pool), tp_free := tp_free pool @ [t]\<rparr>
      else pool)"

section \<open>NewTimer\<close>

definition upd_timer :: "nat \<Rightarrow> (new_timer \<Rightarrow> new_timer) \<Rightarrow> wheel \<Rightarrow> wheel" where
  "upd_timer p f w = w\<lparr>w_timers := (w_timers w)(p := f (w_timers w p))\<rparr>"

definition SetCallbackFun :: "nat \<Rightarrow> nat \<Rightarrow> nat \<Rightarrow> u8 list \<Rightarrow> int \<Rightarrow> wheel \<Rightarrow> int \<times> wheel" where
  "SetCallbackFun p cb obj arg argLen w =
     (let w1 = upd_timer p (\<lambda>t. t\<lparr>nt_callBack := cb, nt_obj := obj\<rparr>) w
      in if argLen < 0 \<or> MAXARGLEN < argLen then (- 1, w1)
         else (0, upd_timer p (\<lambda>t. t\<lparr>nt_argLen := argLen,
                nt_arg := take (nat argLen) arg @ drop (nat argLen) (nt_arg t)\<rparr>) w1))"

definition set_Interval :: "nat \<Rightarrow> int \<Rightarrow> wheel \<Rightarrow> wheel" where
  "set_Interval p i w = upd_timer p (\<lambda>t. t\<lparr>nt_interval := i\<rparr>) w"

definition get_ID :: "nat \<Rightarrow> wheel \<Rightarrow> u32" where
  "get_ID p w = nt_ID (w_timers w p)"

definition get_Type :: "nat \<Rightarrow> wheel \<Rightarrow> timer_type" where
  "get_Type p w = nt_type (w_timers w p)"

definition set_Type :: "nat \<Rightarrow> timer_type \<Rightarrow> wheel \<Rightarrow> wheel" where
  "set_Type p ty w = upd_timer p (\<lambda>t. t\<lparr>nt_type := ty\<rparr>) w"

definition IsRunning :: "nat \<Rightarrow> wheel \<Rightarrow> bool" where
  "IsRunning p w = nt_tm (w_timers w p)"

text \<open>\<^verbatim>\<open>SelfDeleteCallback\<close>: the new thread calls back when both pointers are set.\<close>

definition DetachProcess :: "new_timer \<Rightarrow> wheel \<Rightarrow> wheel" where
  "DetachProcess t w =
     (if nt_callBack t \<noteq> 0 \<and> nt_obj t \<noteq> 0
      then w\<lparr>w_calls := w_calls w @ [\<lparr>call_fun = nt_callBack t, call_obj = nt_obj t,
               call_arg = take (nat (nt_argLen t)) (nt_arg t), call_argLen = nt_argLen t\<rparr>]\<rparr>
      else w)"

definition OnTimeout :: "nat \<Rightarrow> wheel \<Rightarrow> wheel" where
  "OnTimeout p w = upd_timer p (\<lambda>t. t\<lparr>nt_tm := False\<rparr>) (DetachProcess (w_timers w p) w)"

definition NewTimer_OnTick :: "nat \<Rightarrow> wheel \<Rightarrow> int \<times> wheel" where
  "NewTimer_OnTick p w =
     (let w1 = upd_timer p (\<lambda>t. t\<lparr>nt_round := nt_round t - 1\<rparr>) w
      in if nt_round (w_timers w1 p) \<le> 0 then (1, OnTimeout p w1) else (0, w1))"

section \<open>Slot\<close>

definition Slot_AddTimer :: "nat \<Rightarrow> nat \<Rightarrow> wheel \<Rightarrow> wheel" where
  "Slot_AddTimer s p w =
     w\<lparr>w_slots := (w_slots w)(s := smap_insert (get_ID p w) p (w_slots w s))\<rparr>"

definition Slot_DelTimer :: "nat \<Rightarrow> nat \<Rightarrow> wheel \<Rightarrow> bool \<times> wheel" where
  "Slot_DelTimer s p w =
     (case smap_find (get_ID p w) (w_slots w s) of
        None \<Rightarrow> (False, w)
      | Some _ \<Rightarrow> (True, w\<lparr>w_slots := (w_slots w)(s := smap_erase (get_ID p w) (w_slots w s))\<rparr>))"

text \<open>The first loop of \<^verbatim>\<open>Slot::OnTick\<close>: every timer of the slot in ID order.\<close>

fun tick_entries :: "(u32 \<times> nat) list \<Rightarrow> nat list \<Rightarrow> nat list \<Rightarrow> wheel \<Rightarrow> nat list \<times> nat list \<times> wheel" where
  "tick_entries [] all loop w = (all, loop, w)"
| "tick_entries ((k, p) # es) all loop w =
     (if p \<noteq> 0 then
        let (iTimeout, w1) = NewTimer_OnTick p w
        in if iTimeout \<noteq> 0
           then tick_entries es (all @ [p]) (if get_Type p w1 = LoopTimer then loop @ [p] else loop) w1
           else tick_entries es all loop w1
      else tick_entries es all loop w)"

definition erase_timer :: "nat \<Rightarrow> nat \<Rightarrow> wheel \<Rightarrow> wheel" where
  "erase_timer s p w =
     w\<lparr>w_slots := (w_slots w)(s := smap_erase (get_ID p w) (w_slots w s))\<rparr>"

definition Slot_OnTick :: "nat \<Rightarrow> wheel \<Rightarrow> nat list \<times> wheel" where
  "Slot_OnTick s w =
     (let (all, loop, w1) = tick_entries (w_slots w s) [] [] w
      in (loop, fold (erase_timer s) all w1))"

section \<open>TimerManager\<close>

definition TimerManager_new :: "(nat \<Rightarrow> new_timer) \<Rightarrow> wheel" where
  "TimerManager_new timers = \<lparr>w_timers = timers, w_slots = \<lambda>_. [], w_last = 0, w_stop = 0,
     w_curr = 0, w_calls = []\<rparr>"

definition IsStop :: "wheel \<Rightarrow> u8" where
  "IsStop w = w_stop w"

definition Stop :: "wheel \<Rightarrow> wheel" where
  "Stop w = w\<lparr>w_stop := 1\<rparr>"

text \<open>The slot number is computed in \<^verbatim>\<open>unsigned int\<close>, which \<^verbatim>\<open>_currSlot\<close>
  is; the remainder of the ticks is C's, with the sign of the ticks.\<close>

definition AttachTimer :: "nat \<Rightarrow> bool \<Rightarrow> wheel \<Rightarrow> wheel" where
  "AttachTimer p isNewTimer w =
     (if p = 0 then w
      else let w1 = (if isNewTimer
                     then (upd_timer p (\<lambda>t. t\<lparr>nt_ID := w_last w + 1\<rparr>) w)\<lparr>w_last := w_last w + 1\<rparr>
                     else w);
               ticks = nt_interval (w_timers w1 p) sdiv TIMERTIMESLOT;
               round = ticks sdiv int MAXSLOTNUM;
               slotNum = unat ((w_curr w1 + of_int (ticks smod int MAXSLOTNUM)) mod of_nat MAXSLOTNUM);
               w2 = upd_timer p (\<lambda>t. t\<lparr>nt_ticks := ticks, nt_round := round, nt_tm := True\<rparr>) w1
           in Slot_AddTimer slotNum p w2)"

definition AddTimer :: "nat \<Rightarrow> bool \<Rightarrow> wheel \<Rightarrow> int \<times> wheel" where
  "AddTimer p isNewTimer w =
     (if p = 0 then (- 1, w)
      else if MAXTIMERNUM \<le> w_last w then (- 1, w)
      else if nt_interval (w_timers w p) \<le> 0 then (- 1, w)
      else (0, AttachTimer p isNewTimer w))"

fun del_from :: "nat \<Rightarrow> nat list \<Rightarrow> wheel \<Rightarrow> wheel" where
  "del_from p [] w = w"
| "del_from p (s # ss) w =
     (let (found, w1) = Slot_DelTimer s p w in if found then w1 else del_from p ss w1)"

definition DelTimer :: "nat \<Rightarrow> wheel \<Rightarrow> int \<times> wheel" where
  "DelTimer p w = (1, del_from p [0..<MAXSLOTNUM] w)"

definition TimerManager_OnTick :: "wheel \<Rightarrow> wheel" where
  "TimerManager_OnTick w =
     (let (loop, w1) = Slot_OnTick (unat (w_curr w)) w;
          w2 = fold (\<lambda>p. AttachTimer p False) loop w1;
          curr = w_curr w2 + 1
      in w2\<lparr>w_curr := if MAXTIMERNUM \<le> curr then 0 else curr\<rparr>)"

text \<open>\<^verbatim>\<open>cancel\<close>, \<^verbatim>\<open>start\<close> and \<^verbatim>\<open>reStart\<close>. The results are the
  C++ \<^verbatim>\<open>int\<close>s converted to \<^verbatim>\<open>bool\<close>; \<^verbatim>\<open>start\<close> ends without a
  \<^verbatim>\<open>return\<close>, so it has no result.\<close>

definition cancel :: "nat \<Rightarrow> wheel \<Rightarrow> bool \<times> wheel" where
  "cancel p w =
     (if nt_tm (w_timers w p) then
        let (r, w1) = DelTimer p w
        in (r \<noteq> 0, if r \<noteq> 0 then upd_timer p (\<lambda>t. t\<lparr>nt_tm := False\<rparr>) w1 else w1)
      else (True, w))"

definition start :: "nat \<Rightarrow> wheel \<Rightarrow> wheel" where
  "start p w = snd (AddTimer p (get_ID p w = 0) w)"

definition reStart :: "nat \<Rightarrow> wheel \<Rightarrow> bool \<times> wheel" where
  "reStart p w =
     (if nt_tm (w_timers w p) then
        let (r, w1) = DelTimer p w
        in if r \<noteq> 0 then let (a, w2) = AddTimer p False w1 in (a \<noteq> 0, w2) else (False, w1)
      else (False, w))"

text \<open>\<^verbatim>\<open>TickThreadProcess\<close>: a tick a second until the manager is stopped; \<open>n\<close>
  bounds the seconds looked at.\<close>

primrec TickThreadProcess :: "nat \<Rightarrow> wheel \<Rightarrow> wheel" where
  "TickThreadProcess 0 w = w"
| "TickThreadProcess (Suc n) w =
     (if w_stop w = 0 then TickThreadProcess n (TimerManager_OnTick w) else w)"

section \<open>One pass over a slot\<close>

named_theorems wheel_simps

lemma upd_timer_simps [wheel_simps]:
  "w_timers (upd_timer p f w) = (w_timers w)(p := f (w_timers w p))"
  "w_slots (upd_timer p f w) = w_slots w" "w_last (upd_timer p f w) = w_last w"
  "w_stop (upd_timer p f w) = w_stop w" "w_curr (upd_timer p f w) = w_curr w"
  "w_calls (upd_timer p f w) = w_calls w"
  by (simp_all add: upd_timer_def)

definition calls_of :: "new_timer \<Rightarrow> timer_call list" where
  "calls_of t = (if nt_callBack t \<noteq> 0 \<and> nt_obj t \<noteq> 0
     then [\<lparr>call_fun = nt_callBack t, call_obj = nt_obj t,
            call_arg = take (nat (nt_argLen t)) (nt_arg t), call_argLen = nt_argLen t\<rparr>] else [])"

definition due_now :: "new_timer \<Rightarrow> bool" where
  "due_now t = (nt_round t \<le> 1)"

definition ticked :: "new_timer \<Rightarrow> new_timer" where
  "ticked t = t\<lparr>nt_round := nt_round t - 1, nt_tm := (if due_now t then False else nt_tm t)\<rparr>"

lemma NewTimer_OnTick_eq:
  "NewTimer_OnTick p w =
     (if due_now (w_timers w p) then 1 else 0,
      (upd_timer p ticked w)\<lparr>w_calls := w_calls w @
         (if due_now (w_timers w p) then calls_of (w_timers w p) else [])\<rparr>)"
  by (auto simp: NewTimer_OnTick_def OnTimeout_def DetachProcess_def due_now_def ticked_def calls_of_def
      upd_timer_def Let_def)

lemma tick_entries_eq:
  assumes "distinct (map snd es)" and "0 \<notin> snd ` set es"
  shows "tick_entries es all loop w =
    (let due = filter (\<lambda>p. due_now (w_timers w p)) (map snd es)
     in (all @ due, loop @ filter (\<lambda>p. nt_type (w_timers w p) = LoopTimer) due,
         w\<lparr>w_timers := \<lambda>p. if p \<in> snd ` set es then ticked (w_timers w p) else w_timers w p,
           w_calls := w_calls w @ concat (map (\<lambda>p. calls_of (w_timers w p)) due)\<rparr>))"
  using assms
proof (induction es arbitrary: all loop w)
  case Nil
  then show ?case by (simp add: Let_def)
next
  case (Cons e es)
  obtain k p where e: "e = (k, p)" by (cases e)
  let ?w = "snd (NewTimer_OnTick p w)"
  have p: "p \<noteq> 0" "p \<notin> snd ` set es" "distinct (map snd es)" "0 \<notin> snd ` set es"
    using Cons.prems by (auto simp: e)
  have same: "w_timers ?w q = w_timers w q" if "q \<noteq> p" for q
    using that by (simp add: NewTimer_OnTick_eq wheel_simps)
  have neq: "q \<noteq> p" if "(j, q) \<in> set es" for j q
    using p(2) that by force
  have due: "filter (\<lambda>q. due_now (w_timers ?w q)) (map snd es) = filter (\<lambda>q. due_now (w_timers w q)) (map snd es)"
    by (intro filter_cong) (auto simp: same dest: neq)
  have loops: "filter (\<lambda>q. P q \<and> nt_type (w_timers ?w q) = LoopTimer) (map snd es) =
      filter (\<lambda>q. P q \<and> nt_type (w_timers w q) = LoopTimer) (map snd es)" for P
    by (intro filter_cong) (auto simp: same dest: neq)
  have calls: "map (\<lambda>q. calls_of (w_timers ?w q)) (filter P (map snd es)) =
      map (\<lambda>q. calls_of (w_timers w q)) (filter P (map snd es))" for P
    by (intro map_cong) (auto simp: same dest: neq)
  have ty: "get_Type p ?w = nt_type (w_timers w p)"
    by (simp add: NewTimer_OnTick_eq wheel_simps get_Type_def ticked_def)
  have timers: "(\<lambda>q. if q \<in> snd ` set es then ticked (w_timers ?w q) else w_timers ?w q) =
      (\<lambda>q. if q \<in> snd ` set (e # es) then ticked (w_timers w q) else w_timers w q)"
    using p(2) by (auto simp: fun_eq_iff e NewTimer_OnTick_eq wheel_simps)
  have rest: "w_slots ?w = w_slots w" "w_last ?w = w_last w" "w_stop ?w = w_stop w" "w_curr ?w = w_curr w"
    "w_calls ?w = w_calls w @ (if due_now (w_timers w p) then calls_of (w_timers w p) else [])"
    by (simp_all add: NewTimer_OnTick_eq wheel_simps)
  have "fst (NewTimer_OnTick p w) = (if due_now (w_timers w p) then 1 else 0)"
    by (simp add: NewTimer_OnTick_eq)
  then have step: "tick_entries (e # es) all loop w =
      (if due_now (w_timers w p)
       then tick_entries es (all @ [p]) (if nt_type (w_timers w p) = LoopTimer then loop @ [p] else loop) ?w
       else tick_entries es all loop ?w)"
    using p(1) by (simp add: e ty [symmetric] case_prod_unfold)
  show ?case
    unfolding step
    by (simp add: Cons.IH [OF p(3,4)] Let_def due loops calls timers rest e)
qed

section \<open>The invariant of the wheel\<close>

text \<open>The hand is on a slot; every entry of a slot is a timer under its own ID; no ID is in two
  slots, no two timers share an ID, and no ID is beyond the last one given out.\<close>

definition wheel_inv :: "wheel \<Rightarrow> bool" where
  "wheel_inv w \<longleftrightarrow>
     unat (w_curr w) < MAXSLOTNUM \<and> w_last w \<le> MAXTIMERNUM \<and>
     (\<forall>s. smap_ok (w_slots w s)) \<and>
     (\<forall>s k p. smap_find k (w_slots w s) = Some p \<longrightarrow>
        s < MAXSLOTNUM \<and> p \<noteq> 0 \<and> k \<noteq> 0 \<and> nt_ID (w_timers w p) = k) \<and>
     (\<forall>s s' k. smap_find k (w_slots w s) \<noteq> None \<and> smap_find k (w_slots w s') \<noteq> None \<longrightarrow> s = s') \<and>
     (\<forall>p q. nt_ID (w_timers w p) = nt_ID (w_timers w q) \<and> nt_ID (w_timers w p) \<noteq> 0 \<longrightarrow> p = q) \<and>
     (\<forall>p. nt_ID (w_timers w p) \<le> w_last w)"

lemma wheel_invI:
  assumes "unat (w_curr w) < MAXSLOTNUM" "w_last w \<le> MAXTIMERNUM" "\<And>s. smap_ok (w_slots w s)"
    "\<And>s k p. smap_find k (w_slots w s) = Some p \<Longrightarrow>
       s < MAXSLOTNUM \<and> p \<noteq> 0 \<and> k \<noteq> 0 \<and> nt_ID (w_timers w p) = k"
    "\<And>s s' k p q. smap_find k (w_slots w s) = Some p \<Longrightarrow> smap_find k (w_slots w s') = Some q \<Longrightarrow> s = s'"
    "\<And>p q. nt_ID (w_timers w p) = nt_ID (w_timers w q) \<Longrightarrow> nt_ID (w_timers w p) \<noteq> 0 \<Longrightarrow> p = q"
    "\<And>p. nt_ID (w_timers w p) \<le> w_last w"
  shows "wheel_inv w"
  using assms unfolding wheel_inv_def by blast

lemma wheel_invD:
  assumes "wheel_inv w"
  shows "unat (w_curr w) < MAXSLOTNUM" "w_last w \<le> MAXTIMERNUM" "smap_ok (w_slots w s)"
    and "smap_find k (w_slots w s) = Some p \<Longrightarrow> s < MAXSLOTNUM \<and> p \<noteq> 0 \<and> k \<noteq> 0 \<and> nt_ID (w_timers w p) = k"
    and "smap_find k (w_slots w s) = Some p \<Longrightarrow> smap_find k (w_slots w s') = Some q \<Longrightarrow> s = s'"
    and "nt_ID (w_timers w p) = nt_ID (w_timers w q) \<Longrightarrow> nt_ID (w_timers w p) \<noteq> 0 \<Longrightarrow> p = q"
    and "nt_ID (w_timers w p) \<le> w_last w"
  using assms unfolding wheel_inv_def by blast+

text \<open>\<open>attached p s w\<close>: the timer hangs in slot \<open>s\<close>; \<open>idle p w\<close>: in none.\<close>

definition attached :: "nat \<Rightarrow> nat \<Rightarrow> wheel \<Rightarrow> bool" where
  "attached p s w = (smap_find (nt_ID (w_timers w p)) (w_slots w s) = Some p)"

definition idle :: "nat \<Rightarrow> wheel \<Rightarrow> bool" where
  "idle p w = (\<forall>s k. smap_find k (w_slots w s) \<noteq> Some p)"

definition slot_of :: "int \<Rightarrow> u32 \<Rightarrow> nat" where
  "slot_of interval c = unat ((c + of_int (interval smod int MAXSLOTNUM)) mod of_nat MAXSLOTNUM)"

lemma slot_of_less: "slot_of i c < MAXSLOTNUM"
  by (simp add: slot_of_def MAXSLOTNUM_def unat_mod_distrib)

lemma sdiv_one [simp]: "x sdiv (1::int) = x"
  by (simp add: signed_divide_int_def abs_mult_sgn sgn_mult_abs)

text \<open>Hanging a timer that has an ID and is in no slot.\<close>

lemma AttachTimer_old:
  assumes "p \<noteq> 0"
  shows "AttachTimer p False w =
    (let i = nt_interval (w_timers w p); s = slot_of i (w_curr w)
     in w\<lparr>w_timers := (w_timers w)(p := (w_timers w p)\<lparr>nt_ticks := i,
            nt_round := i sdiv int MAXSLOTNUM, nt_tm := True\<rparr>),
          w_slots := (w_slots w)(s := smap_insert (nt_ID (w_timers w p)) p (w_slots w s))\<rparr>)"
  using assms
  by (simp add: AttachTimer_def Let_def slot_of_def TIMERTIMESLOT_def Slot_AddTimer_def get_ID_def upd_timer_def)

lemma smap_find_insert_Some:
  "smap_find k (smap_insert a v m) = Some x \<Longrightarrow> k = a \<and> v = x \<or> smap_find k m = Some x"
  by (auto simp: smap_find_insert split: if_splits)

lemma wheel_inv_attach:
  assumes inv: "wheel_inv w" and p: "p \<noteq> 0" "nt_ID (w_timers w p) \<noteq> 0" "idle p w"
  shows "wheel_inv (AttachTimer p False w)"
proof -
  let ?i = "nt_interval (w_timers w p)" and ?ID = "nt_ID (w_timers w p)"
  let ?s = "slot_of ?i (w_curr w)"
  let ?w = "AttachTimer p False w"
  have w: "w_slots ?w = (w_slots w)(?s := smap_insert ?ID p (w_slots w ?s))"
    "nt_ID (w_timers ?w q) = nt_ID (w_timers w q)" "w_curr ?w = w_curr w" "w_last ?w = w_last w" for q
    using p(1) by (simp_all add: AttachTimer_old Let_def)
  have none: "smap_find ?ID (w_slots w t) = None" for t
  proof (rule ccontr)
    assume "smap_find ?ID (w_slots w t) \<noteq> None"
    then obtain q where q: "smap_find ?ID (w_slots w t) = Some q" by blast
    then have "nt_ID (w_timers w q) = ?ID"
      using wheel_invD(4) [OF inv] by blast
    then have "q = p"
      using wheel_invD(6) [OF inv, of q p] p(2) by simp
    then show False
      using q p(3) by (simp add: idle_def)
  qed
  have find: "smap_find k (w_slots ?w t) = (if k = ?ID \<and> t = ?s then Some p else smap_find k (w_slots w t))" for k t
    by (simp add: w smap_find_insert none)
  show ?thesis
  proof (rule wheel_invI)
    show "smap_ok (w_slots ?w t)" for t
      using wheel_invD(3) [OF inv] by (simp add: w smap_ok_insert)
    show "t < MAXSLOTNUM \<and> q \<noteq> 0 \<and> k \<noteq> 0 \<and> nt_ID (w_timers ?w q) = k"
      if "smap_find k (w_slots ?w t) = Some q" for t k q
      using that wheel_invD(4) [OF inv, of k t q] p slot_of_less [of ?i "w_curr w"]
      by (auto simp: find w(2) split: if_splits)
    show "t = t'" if "smap_find k (w_slots ?w t) = Some q" "smap_find k (w_slots ?w t') = Some q'" for t t' k q q'
      using that wheel_invD(5) [OF inv, of k t q t' q'] none [of t] none [of t'] by (auto simp: find split: if_splits)
    show "q = q'" if "nt_ID (w_timers ?w q) = nt_ID (w_timers ?w q')" "nt_ID (w_timers ?w q) \<noteq> 0" for q q'
      using that wheel_invD(6) [OF inv, of q q'] by (simp add: w)
    show "nt_ID (w_timers ?w q) \<le> w_last ?w" for q
      using wheel_invD(7) [OF inv, of q] by (simp add: w)
  qed (use wheel_invD(1,2) [OF inv] in \<open>simp_all add: w\<close>)
qed

lemma attached_iff:
  "wheel_inv w \<Longrightarrow> (\<exists>k. smap_find k (w_slots w s) = Some p) = attached p s w"
  using wheel_invD(4) unfolding attached_def by blast

lemma idle_iff: "wheel_inv w \<Longrightarrow> idle p w = (\<forall>s. \<not> attached p s w)"
  using attached_iff [of w] unfolding idle_def by blast

lemma attached_unique: "wheel_inv w \<Longrightarrow> attached p s w \<Longrightarrow> attached p t w \<Longrightarrow> s = t"
  unfolding attached_def by (rule wheel_invD(5))

lemma entries_attached:
  assumes "wheel_inv w"
  shows "snd ` set (w_slots w s) = {p. attached p s w}" and "distinct (map snd (w_slots w s))"
    and "0 \<notin> snd ` set (w_slots w s)"
proof -
  have mem: "((k, p) \<in> set (w_slots w s)) = (smap_find k (w_slots w s) = Some p)" for k p
    using smap_find_in_set [OF wheel_invD(3) [OF assms]] by blast
  show eq: "snd ` set (w_slots w s) = {p. attached p s w}"
    by (auto simp: attached_iff [OF assms, symmetric] mem image_iff) (metis mem snd_conv)
  have "distinct (map fst (w_slots w s))"
    using wheel_invD(3) [OF assms, of s] by (simp add: smap_ok_def strict_sorted_iff)
  moreover have "fst e = nt_ID (w_timers w (snd e))" if "e \<in> set (w_slots w s)" for e
    using that wheel_invD(4) [OF assms, of "fst e" s "snd e"] mem [of "fst e" "snd e"] by simp
  then have "map fst (w_slots w s) = map (\<lambda>p. nt_ID (w_timers w p)) (map snd (w_slots w s))"
    by simp
  ultimately have "distinct (map (\<lambda>p. nt_ID (w_timers w p)) (map snd (w_slots w s)))"
    by simp
  then show "distinct (map snd (w_slots w s))"
    by (rule distinct_map [THEN iffD1, THEN conjunct1])
  show "0 \<notin> snd ` set (w_slots w s)"
    using wheel_invD(4) [OF assms] by (auto simp: eq attached_def)
qed

lemma fold_erase_timer:
  "fold (erase_timer s) ps w = w\<lparr>w_slots := (w_slots w)(s :=
     fold smap_erase (map (\<lambda>p. nt_ID (w_timers w p)) ps) (w_slots w s))\<rparr>"
  by (induction ps arbitrary: w) (simp_all add: erase_timer_def get_ID_def)

lemma smap_ok_fold_erase: "smap_ok m \<Longrightarrow> smap_ok (fold smap_erase ks m)"
  by (induction ks arbitrary: m) (simp_all add: smap_ok_erase)

text \<open>What one slot's tick does, under the invariant.\<close>

lemma Slot_OnTick_facts:
  assumes inv: "wheel_inv w" and eq: "Slot_OnTick s w = (loop, w')"
  shows "set loop = {p. attached p s w \<and> due_now (w_timers w p) \<and> nt_type (w_timers w p) = LoopTimer}"
    and "distinct loop"
    and "w_timers w' p = (if attached p s w then ticked (w_timers w p) else w_timers w p)"
    and "attached p t w' = (attached p t w \<and> \<not> (t = s \<and> due_now (w_timers w p)))"
    and "w_curr w' = w_curr w" and "wheel_inv w'"
    and "set (w_calls w') = set (w_calls w) \<union> (\<Union>p\<in>{p. attached p s w \<and> due_now (w_timers w p)}. set (calls_of (w_timers w p)))"
    and "\<exists>ps. distinct ps \<and> set ps = {p. attached p s w \<and> due_now (w_timers w p)} \<and>
      w_calls w' = w_calls w @ concat (map (\<lambda>p. calls_of (w_timers w p)) ps)"
proof -
  let ?es = "w_slots w s"
  let ?due = "filter (\<lambda>p. due_now (w_timers w p)) (map snd ?es)"
  note es = entries_attached [OF inv, of s]
  note tick = tick_entries_eq [OF es(2,3), of "[]" "[]" w, unfolded Let_def append_Nil]
  have loop: "loop = filter (\<lambda>p. nt_type (w_timers w p) = LoopTimer) ?due"
    and timers: "w_timers w' = (\<lambda>p. if p \<in> snd ` set ?es then ticked (w_timers w p) else w_timers w p)"
    and rest: "w_curr w' = w_curr w" "w_last w' = w_last w"
    and calls: "w_calls w' = w_calls w @ concat (map (\<lambda>p. calls_of (w_timers w p)) ?due)"
    using eq by (auto simp: Slot_OnTick_def tick fold_erase_timer)
  have ID: "nt_ID (w_timers w' p) = nt_ID (w_timers w p)" for p
    by (simp add: timers ticked_def)
  have IDs: "map (\<lambda>p. nt_ID (if p \<in> snd ` set ?es then ticked (w_timers w p) else w_timers w p)) ?due =
      map (\<lambda>p. nt_ID (w_timers w p)) ?due"
    by (simp add: ticked_def)
  have slots: "w_slots w' = (w_slots w)(s := fold smap_erase (map (\<lambda>p. nt_ID (w_timers w p)) ?due) ?es)"
    using eq by (auto simp: Slot_OnTick_def tick fold_erase_timer IDs)
  have due: "set ?due = {p. attached p s w \<and> due_now (w_timers w p)}"
    using es(1) by auto
  show "set loop = {p. attached p s w \<and> due_now (w_timers w p) \<and> nt_type (w_timers w p) = LoopTimer}"
    using es(1) by (auto simp: loop)
  show "distinct loop"
    using es(2) by (simp add: loop)
  show "w_timers w' p = (if attached p s w then ticked (w_timers w p) else w_timers w p)"
    by (simp add: timers es(1))
  show "w_curr w' = w_curr w"
    by (rule rest)
  show "set (w_calls w') = set (w_calls w) \<union> (\<Union>p\<in>{p. attached p s w \<and> due_now (w_timers w p)}. set (calls_of (w_timers w p)))"
    using due by (simp add: calls)
  show "\<exists>ps. distinct ps \<and> set ps = {p. attached p s w \<and> due_now (w_timers w p)} \<and>
      w_calls w' = w_calls w @ concat (map (\<lambda>p. calls_of (w_timers w p)) ps)"
    using es(2) due calls by (intro exI [of _ ?due]) simp
  have find: "smap_find k (w_slots w' t) =
      (if t = s \<and> k \<in> (\<lambda>p. nt_ID (w_timers w p)) ` {p. attached p s w \<and> due_now (w_timers w p)}
       then None else smap_find k (w_slots w t))" for k t
    unfolding due [symmetric] by (cases "t = s") (simp_all only: slots fun_upd_apply sm.look_fold_del set_map if_True if_False simp_thms)
  have only: "p = q" if "attached q s w" "nt_ID (w_timers w p) = nt_ID (w_timers w q)" for p q
    using wheel_invD(6) [OF inv, of p q] wheel_invD(4) [OF inv, of "nt_ID (w_timers w q)" s q] that
    by (auto simp: attached_def)
  show "attached p t w' = (attached p t w \<and> \<not> (t = s \<and> due_now (w_timers w p)))"
    using only [of _ p] by (auto simp: attached_def [of p t w'] ID find attached_def [of p t w, symmetric])
  have sub: "smap_find k (w_slots w t) = Some q" if "smap_find k (w_slots w' t) = Some q" for k t q
    using that by (simp add: find split: if_splits)
  show "wheel_inv w'"
  proof (rule wheel_invI)
    show "smap_ok (w_slots w' t)" for t
      using wheel_invD(3) [OF inv] by (simp add: slots smap_ok_fold_erase)
    show "t < MAXSLOTNUM \<and> q \<noteq> 0 \<and> k \<noteq> 0 \<and> nt_ID (w_timers w' q) = k"
      if "smap_find k (w_slots w' t) = Some q" for t k q
      using wheel_invD(4) [OF inv sub [OF that]] by (simp add: ID)
    show "t = t'" if "smap_find k (w_slots w' t) = Some q" "smap_find k (w_slots w' t') = Some q'" for t t' k q q'
      using wheel_invD(5) [OF inv sub [OF that(1)] sub [OF that(2)]] .
    show "q = q'" if "nt_ID (w_timers w' q) = nt_ID (w_timers w' q')" "nt_ID (w_timers w' q) \<noteq> 0" for q q'
      using that wheel_invD(6) [OF inv, of q q'] by (simp add: ID)
    show "nt_ID (w_timers w' q) \<le> w_last w'" for q
      using wheel_invD(7) [OF inv, of q] by (simp add: ID rest)
  qed (use wheel_invD(1,2) [OF inv] in \<open>simp_all add: rest\<close>)
qed

text \<open>Hanging the loop timers of a tick again.\<close>

lemma attach_facts:
  assumes inv: "wheel_inv w" and p: "p \<noteq> 0" "nt_ID (w_timers w p) \<noteq> 0" "idle p w"
  shows "attached q t (AttachTimer p False w) =
      (if q = p then t = slot_of (nt_interval (w_timers w p)) (w_curr w) else attached q t w)"
    and "nt_ID (w_timers (AttachTimer p False w) q) = nt_ID (w_timers w q)"
    and "idle q (AttachTimer p False w) = (q \<noteq> p \<and> idle q w)"
proof -
  let ?w = "AttachTimer p False w" and ?s = "slot_of (nt_interval (w_timers w p)) (w_curr w)"
  show ID: "nt_ID (w_timers ?w q) = nt_ID (w_timers w q)" for q
    using p(1) by (simp add: AttachTimer_old Let_def)
  have none: "smap_find (nt_ID (w_timers w p)) (w_slots w t) = None" for t
  proof (cases "smap_find (nt_ID (w_timers w p)) (w_slots w t)")
    case (Some r)
    with wheel_invD(4) [OF inv Some] wheel_invD(6) [OF inv, of r p] p show ?thesis
      by (auto simp: idle_def)
  qed
  have other: "nt_ID (w_timers w q) \<noteq> nt_ID (w_timers w p)" if "q \<noteq> p" for q
    using that wheel_invD(6) [OF inv, of p q] p(2) by auto
  show att: "attached q t ?w = (if q = p then t = ?s else attached q t w)" for q t
    using none other [of q] p(1)
    by (auto simp: attached_def ID) (auto simp: AttachTimer_old Let_def smap_find_insert split: if_splits)
  show "idle q ?w = (q \<noteq> p \<and> idle q w)"
    by (auto simp: idle_iff [OF inv] idle_iff [OF wheel_inv_attach [OF inv p]] att)
qed

definition reset_timer :: "new_timer \<Rightarrow> new_timer" where
  "reset_timer t = t\<lparr>nt_ticks := nt_interval t, nt_round := nt_interval t sdiv int MAXSLOTNUM, nt_tm := True\<rparr>"

lemma fold_attach_facts:
  assumes "wheel_inv w" and "distinct ps"
    and "\<And>p. p \<in> set ps \<Longrightarrow> p \<noteq> 0 \<and> nt_ID (w_timers w p) \<noteq> 0 \<and> idle p w"
  shows "wheel_inv (fold (\<lambda>p. AttachTimer p False) ps w) \<and>
    w_curr (fold (\<lambda>p. AttachTimer p False) ps w) = w_curr w \<and>
    w_calls (fold (\<lambda>p. AttachTimer p False) ps w) = w_calls w \<and>
    (\<forall>q. w_timers (fold (\<lambda>p. AttachTimer p False) ps w) q =
       (if q \<in> set ps then reset_timer (w_timers w q) else w_timers w q)) \<and>
    (\<forall>q t. attached q t (fold (\<lambda>p. AttachTimer p False) ps w) =
       (if q \<in> set ps then t = slot_of (nt_interval (w_timers w q)) (w_curr w) else attached q t w))"
  using assms
proof (induction ps arbitrary: w)
  case Nil
  then show ?case by simp
next
  case (Cons p ps)
  let ?w = "AttachTimer p False w"
  have p: "p \<noteq> 0" "nt_ID (w_timers w p) \<noteq> 0" "idle p w" "p \<notin> set ps" "distinct ps"
    using Cons.prems by auto
  note att = attach_facts [OF Cons.prems(1) p(1-3)]
  have w: "w_timers ?w q = (if q = p then reset_timer (w_timers w p) else w_timers w q)"
    "w_curr ?w = w_curr w" "w_calls ?w = w_calls w" for q
    using p(1) by (simp_all add: AttachTimer_old Let_def reset_timer_def)
  have "q \<noteq> 0 \<and> nt_ID (w_timers ?w q) \<noteq> 0 \<and> idle q ?w" if "q \<in> set ps" for q
    using that Cons.prems(3) [of q] p(4) by (auto simp: att)
  note IH = Cons.IH [OF wheel_inv_attach [OF Cons.prems(1) p(1-3)] p(5) this]
  have same: "w_timers ?w q = w_timers w q" if "q \<in> set ps" for q
    using that p(4) by (auto simp: w)
  show ?case
    using IH p(4) by (auto simp: att w same)
qed

lemma wheel_inv_curr:
  assumes inv: "wheel_inv w" and c: "unat c < MAXSLOTNUM"
  shows "wheel_inv (w\<lparr>w_curr := c\<rparr>)"
proof (rule wheel_invI)
  show "s < MAXSLOTNUM \<and> p \<noteq> 0 \<and> k \<noteq> 0 \<and> nt_ID (w_timers (w\<lparr>w_curr := c\<rparr>) p) = k"
    if "smap_find k (w_slots (w\<lparr>w_curr := c\<rparr>) s) = Some p" for s k p
    using wheel_invD(4) [OF inv, of k s p] that by simp
  show "s = s'" if "smap_find k (w_slots (w\<lparr>w_curr := c\<rparr>) s) = Some p"
    "smap_find k (w_slots (w\<lparr>w_curr := c\<rparr>) s') = Some q" for s s' k p q
    using wheel_invD(5) [OF inv, of k s p s' q] that by simp
  show "p = q" if "nt_ID (w_timers (w\<lparr>w_curr := c\<rparr>) p) = nt_ID (w_timers (w\<lparr>w_curr := c\<rparr>) q)"
    "nt_ID (w_timers (w\<lparr>w_curr := c\<rparr>) p) \<noteq> 0" for p q
    using wheel_invD(6) [OF inv, of p q] that by simp
qed (use wheel_invD(1-3,7) [OF inv] c in simp_all)

text \<open>One tick of the manager.\<close>

lemma OnTick_facts:
  assumes inv: "wheel_inv w"
  defines "s \<equiv> unat (w_curr w)"
  shows "wheel_inv (TimerManager_OnTick w)"
    and "w_curr (TimerManager_OnTick w) = (if w_curr w = 2999 then 0 else w_curr w + 1)"
    and "attached p s w \<Longrightarrow> due_now (w_timers w p) \<Longrightarrow> nt_type (w_timers w p) = LoopTimer \<Longrightarrow>
      w_timers (TimerManager_OnTick w) p = reset_timer (ticked (w_timers w p)) \<and>
      attached p (slot_of (nt_interval (w_timers w p)) (w_curr w)) (TimerManager_OnTick w)"
    and "attached p s w \<Longrightarrow> due_now (w_timers w p) \<Longrightarrow> nt_type (w_timers w p) \<noteq> LoopTimer \<Longrightarrow>
      idle p (TimerManager_OnTick w)"
    and "attached p s w \<Longrightarrow> \<not> due_now (w_timers w p) \<Longrightarrow>
      w_timers (TimerManager_OnTick w) p = ticked (w_timers w p) \<and> attached p s (TimerManager_OnTick w)"
    and "attached p t w \<Longrightarrow> t \<noteq> s \<Longrightarrow>
      w_timers (TimerManager_OnTick w) p = w_timers w p \<and> attached p t (TimerManager_OnTick w)"
    and "set (w_calls (TimerManager_OnTick w)) = set (w_calls w) \<union>
      (\<Union>p\<in>{p. attached p s w \<and> due_now (w_timers w p)}. set (calls_of (w_timers w p)))"
    and "\<exists>ps. distinct ps \<and> set ps = {p. attached p s w \<and> due_now (w_timers w p)} \<and>
      w_calls (TimerManager_OnTick w) = w_calls w @ concat (map (\<lambda>p. calls_of (w_timers w p)) ps)"
    and "calls_of (w_timers (TimerManager_OnTick w) q) = calls_of (w_timers w q)"
proof -
  obtain loop w1 where so: "Slot_OnTick s w = (loop, w1)" by fastforce
  note slot = Slot_OnTick_facts [OF inv so]
  have pre: "p \<noteq> 0 \<and> nt_ID (w_timers w1 p) \<noteq> 0 \<and> idle p w1" if "p \<in> set loop" for p
  proof -
    have a: "attached p s w" "due_now (w_timers w p)"
      using that slot(1) by auto
    then have "p \<noteq> 0" "nt_ID (w_timers w p) \<noteq> 0"
      using wheel_invD(4) [OF inv, of "nt_ID (w_timers w p)" s p] by (simp_all add: attached_def)
    moreover have "\<not> attached p t w1" for t
      using a attached_unique [OF inv a(1), of t] by (auto simp: slot(4))
    ultimately show ?thesis
      using a by (simp add: slot(3) ticked_def idle_iff [OF slot(6)])
  qed
  let ?w2 = "fold (\<lambda>p. AttachTimer p False) loop w1"
  note f = fold_attach_facts [OF slot(6) slot(2) pre, simplified slot(5)]
  have tick: "TimerManager_OnTick w =
      ?w2\<lparr>w_curr := if MAXTIMERNUM \<le> w_curr w + 1 then 0 else w_curr w + 1\<rparr>"
    using so f by (simp add: TimerManager_OnTick_def s_def Let_def)
  have c: "unat (w_curr w) < 3000"
    using wheel_invD(1) [OF inv] by (simp add: MAXSLOTNUM_def)
  have plus: "unat (w_curr w + 1) = Suc (unat (w_curr w))"
    using c by (subst unat_add_lem [THEN iffD1]) simp_all
  have last: "(w_curr w = 2999) = (unat (w_curr w) = 2999)"
    by (simp add: word_unat_eq_iff)
  have wrap: "(MAXTIMERNUM \<le> w_curr w + 1) = (w_curr w = 2999)"
    using c unfolding last by (simp add: MAXTIMERNUM_def word_le_nat_alt plus) arith
  show curr: "w_curr (TimerManager_OnTick w) = (if w_curr w = 2999 then 0 else w_curr w + 1)"
    by (simp add: tick wrap)
  have att: "attached q t (TimerManager_OnTick w) = attached q t ?w2" for q t
    by (simp add: tick attached_def)
  have timers: "w_timers (TimerManager_OnTick w) = w_timers ?w2"
    and calls: "w_calls (TimerManager_OnTick w) = w_calls ?w2"
    by (simp_all add: tick)
  have f_inv: "wheel_inv ?w2"
    and f_timers: "w_timers ?w2 q = (if q \<in> set loop then reset_timer (w_timers w1 q) else w_timers w1 q)"
    and f_att: "attached q t ?w2 = (if q \<in> set loop then t = slot_of (nt_interval (w_timers w1 q)) (w_curr w)
        else attached q t w1)" for q t
    using f by blast+
  show inv': "wheel_inv (TimerManager_OnTick w)"
    unfolding tick using c by (intro wheel_inv_curr f_inv) (simp add: wrap last MAXSLOTNUM_def plus)
  show "w_timers (TimerManager_OnTick w) p = reset_timer (ticked (w_timers w p)) \<and>
      attached p (slot_of (nt_interval (w_timers w p)) (w_curr w)) (TimerManager_OnTick w)"
    if "attached p s w" "due_now (w_timers w p)" "nt_type (w_timers w p) = LoopTimer"
    using that by (simp add: att timers f_att f_timers slot(1,3)) (simp add: ticked_def)
  show "idle p (TimerManager_OnTick w)"
    if "attached p s w" "due_now (w_timers w p)" "nt_type (w_timers w p) \<noteq> LoopTimer"
  proof -
    have "\<not> attached p t (TimerManager_OnTick w)" for t
      using that attached_unique [OF inv that(1), of t] by (simp add: att f_att slot(1,4))
    then show ?thesis
      by (simp add: idle_iff [OF inv'])
  qed
  show "w_timers (TimerManager_OnTick w) p = ticked (w_timers w p) \<and> attached p s (TimerManager_OnTick w)"
    if "attached p s w" "\<not> due_now (w_timers w p)"
    using that by (simp add: att timers f_att f_timers slot(1,3,4))
  show "w_timers (TimerManager_OnTick w) p = w_timers w p \<and> attached p t (TimerManager_OnTick w)"
    if "attached p t w" "t \<noteq> s"
  proof -
    have "\<not> attached p s w"
      using that attached_unique [OF inv that(1), of s] by blast
    then show ?thesis
      using that by (simp add: att timers f_att f_timers slot(1,3,4))
  qed
  show "set (w_calls (TimerManager_OnTick w)) = set (w_calls w) \<union>
      (\<Union>p\<in>{p. attached p s w \<and> due_now (w_timers w p)}. set (calls_of (w_timers w p)))"
    using f by (simp add: calls slot(7))
  show "\<exists>ps. distinct ps \<and> set ps = {p. attached p s w \<and> due_now (w_timers w p)} \<and>
      w_calls (TimerManager_OnTick w) = w_calls w @ concat (map (\<lambda>p. calls_of (w_timers w p)) ps)"
    using f slot(8) by (simp add: calls)
  show "calls_of (w_timers (TimerManager_OnTick w) q) = calls_of (w_timers w q)"
    by (simp add: timers f_timers slot(3) calls_of_def reset_timer_def ticked_def)
qed

section \<open>When a timer fires\<close>

text \<open>The ticks an attached timer survives: the way of the hand to its slot, and a turn for every
  round after the first.\<close>

definition ticks_left :: "nat \<Rightarrow> nat \<Rightarrow> wheel \<Rightarrow> nat" where
  "ticks_left p s w = (s + MAXSLOTNUM - unat (w_curr w)) mod MAXSLOTNUM +
     MAXSLOTNUM * (nat (nt_round (w_timers w p)) - 1)"

lemma slot_distance:
  assumes "s < 3000" "c < (3000::nat)" "s \<noteq> c"
  shows "(s + 3000 - c) mod 3000 = Suc ((s + 3000 - (if c = 2999 then 0 else Suc c)) mod 3000)"
  using assms by (cases "c < s") (auto simp: mod_if)

lemma slot_distance_here:
  "c < (3000::nat) \<Longrightarrow> (c + 3000 - (if c = 2999 then 0 else Suc c)) mod 3000 = 2999"
  by (auto simp: mod_if)

lemma mod_3000: "v < 6000 \<Longrightarrow> v mod 3000 = (if v < 3000 then v else v - 3000)" for v :: nat
  by (simp add: mod_if)

lemma reattach_distance:
  assumes "c < 3000" "m < (3000::nat)"
  shows "((c + m) mod 3000 + 3000 - (if c = 2999 then 0 else Suc c)) mod 3000 = (if m = 0 then 2999 else m - 1)"
  using assms by (cases "c = 2999"; cases "c + m < 3000"; cases "m = 0") (simp_all add: mod_3000)

lemma curr_after_tick:
  assumes "wheel_inv w"
  shows "unat (w_curr (TimerManager_OnTick w)) = (if unat (w_curr w) = 2999 then 0 else Suc (unat (w_curr w)))"
proof -
  have "unat (w_curr w) < 3000"
    using wheel_invD(1) [OF assms] by (simp add: MAXSLOTNUM_def)
  then have "unat (w_curr w + 1) = Suc (unat (w_curr w))"
    by (subst unat_add_lem [THEN iffD1]) simp_all
  then show ?thesis
    by (simp add: OnTick_facts(2) [OF assms] word_unat_eq_iff)
qed

lemma ticks_left_Suc:
  assumes inv: "wheel_inv w" and att: "attached p s w" and left: "ticks_left p s w = Suc n"
  shows "attached p s (TimerManager_OnTick w)" "ticks_left p s (TimerManager_OnTick w) = n"
    and "\<exists>r. w_timers (TimerManager_OnTick w) p = (w_timers w p)\<lparr>nt_round := r\<rparr>"
proof -
  let ?c = "unat (w_curr w)" and ?r = "nt_round (w_timers w p)"
  have c: "?c < 3000" and s: "s < 3000"
    using wheel_invD(1) [OF inv] wheel_invD(4) [OF inv, of "nt_ID (w_timers w p)" s p] att
    by (simp_all add: MAXSLOTNUM_def attached_def)
  note curr = curr_after_tick [OF inv]
  have "attached p s (TimerManager_OnTick w) \<and> ticks_left p s (TimerManager_OnTick w) = n \<and>
    (\<exists>r. w_timers (TimerManager_OnTick w) p = (w_timers w p)\<lparr>nt_round := r\<rparr>)"
  proof (cases "s = ?c")
    case True
    then have r: "2 \<le> ?r"
      using left c by (simp add: ticks_left_def MAXSLOTNUM_def split: if_splits)
    then have "\<not> due_now (w_timers w p)"
      by (simp add: due_now_def)
    then have tick: "w_timers (TimerManager_OnTick w) p = ticked (w_timers w p)"
        "attached p s (TimerManager_OnTick w)"
      using OnTick_facts(5) [OF inv] att True by auto
    have "nat ?r - 1 = Suc (nat (?r - 1) - 1)"
      using r by simp
    then show ?thesis
      using left tick r c slot_distance_here [OF c]
      by (simp add: True ticks_left_def curr MAXSLOTNUM_def ticked_def due_now_def) force
  next
    case False
    then have tick: "w_timers (TimerManager_OnTick w) p = w_timers w p"
        "attached p s (TimerManager_OnTick w)"
      using OnTick_facts(6) [OF inv att] by auto
    then have "\<exists>r. w_timers (TimerManager_OnTick w) p = (w_timers w p)\<lparr>nt_round := r\<rparr>"
      by (intro exI [of _ ?r]) simp
    then show ?thesis
      using left tick slot_distance [OF s c False]
      by (simp add: ticks_left_def curr MAXSLOTNUM_def)
  qed
  then show "attached p s (TimerManager_OnTick w)" "ticks_left p s (TimerManager_OnTick w) = n"
    "\<exists>r. w_timers (TimerManager_OnTick w) p = (w_timers w p)\<lparr>nt_round := r\<rparr>" by auto
qed

lemma ticks_left_0:
  assumes "wheel_inv w" and "attached p s w" and "ticks_left p s w = 0"
  shows "s = unat (w_curr w)" and "due_now (w_timers w p)"
proof -
  have "unat (w_curr w) < 3000" "s < 3000"
    using wheel_invD(1) [OF assms(1)] wheel_invD(4) [OF assms(1), of "nt_ID (w_timers w p)" s p] assms(2)
    by (simp_all add: MAXSLOTNUM_def attached_def)
  then show "s = unat (w_curr w)"
    using assms(3) by (cases "unat (w_curr w) \<le> s") (auto simp: ticks_left_def MAXSLOTNUM_def mod_if split: if_splits)
  show "due_now (w_timers w p)"
    using assms(3) by (simp add: ticks_left_def MAXSLOTNUM_def due_now_def nat_le_iff)
qed

lemma survives:
  assumes "wheel_inv w" and "attached p s w" and "k \<le> ticks_left p s w"
  shows "wheel_inv ((TimerManager_OnTick ^^ k) w) \<and> attached p s ((TimerManager_OnTick ^^ k) w) \<and>
    ticks_left p s ((TimerManager_OnTick ^^ k) w) = ticks_left p s w - k \<and>
    (\<exists>r. w_timers ((TimerManager_OnTick ^^ k) w) p = (w_timers w p)\<lparr>nt_round := r\<rparr>)"
  using assms(3)
proof (induction k)
  case 0
  have "w_timers w p = (w_timers w p)\<lparr>nt_round := nt_round (w_timers w p)\<rparr>"
    by simp
  then have "\<exists>r. w_timers w p = (w_timers w p)\<lparr>nt_round := r\<rparr>"
    by (rule exI)
  then show ?case
    using assms by simp
next
  case (Suc k)
  let ?w = "(TimerManager_OnTick ^^ k) w"
  obtain r where IH: "wheel_inv ?w" "attached p s ?w" "ticks_left p s ?w = Suc (ticks_left p s w - Suc k)"
    "w_timers ?w p = (w_timers w p)\<lparr>nt_round := r\<rparr>"
    using Suc by auto
  from ticks_left_Suc [OF IH(1-3)] OnTick_facts(1) [OF IH(1)] show ?case
    by (auto simp: IH(4))
qed

section \<open>Properties\<close>

lemma slot_of_pos:
  assumes "0 < i" "i < 2 ^ 31" "unat c < 3000"
  shows "slot_of i c = (unat c + nat i mod 3000) mod 3000"
proof -
  have "i smod 3000 = int (nat i mod 3000)"
    using assms by (simp add: signed_modulo_int_def zmod_int)
  then have "slot_of i c = unat ((c + of_nat (nat i mod 3000)) mod 3000)"
    by (simp add: slot_of_def MAXSLOTNUM_def)
  moreover have "unat (c + of_nat (nat i mod 3000)) = unat c + nat i mod 3000"
  proof -
    have "nat i mod 3000 < 3000"
      by simp
    then have small: "unat (of_nat (nat i mod 3000) :: u32) = nat i mod 3000"
      by (simp add: unat_of_nat)
    then have "unat c + unat (of_nat (nat i mod 3000) :: u32) < 2 ^ LENGTH(32)"
      using assms \<open>nat i mod 3000 < 3000\<close> by simp
    then show ?thesis
      using small by (subst unat_add_lem [THEN iffD1]) simp_all
  qed
  ultimately show ?thesis
    by (simp add: unat_mod_distrib)
qed

text \<open>How many ticks a timer of an interval waits, at its first start and between the rounds of a
  loop timer.\<close>

definition wait_ticks :: "int \<Rightarrow> nat" where
  "wait_ticks i = (if i < 3000 then nat i else nat i - 3000)"

lemma sdiv_pos: "0 < i \<Longrightarrow> i sdiv int MAXSLOTNUM = i div 3000"
  by (simp add: signed_divide_int_def MAXSLOTNUM_def)

lemma wait_rounds: "0 < i \<Longrightarrow> nat i mod 3000 + 3000 * (nat (i div 3000) - 1) = wait_ticks i"
proof -
  assume "0 < i"
  then have "nat (i div 3000) = nat i div 3000"
    by (simp add: nat_div_distrib)
  moreover have "nat i mod 3000 + 3000 * (nat i div 3000) = nat i"
    by simp
  moreover have "nat i div 3000 = 0 \<longleftrightarrow> i < 3000"
    using \<open>0 < i\<close> by (simp add: div_eq_0_iff) arith
  ultimately show ?thesis
    using \<open>0 < i\<close> by (cases "nat i div 3000") (auto simp: wait_ticks_def, linarith)
qed

text \<open>Giving a timer a fresh ID keeps the invariant.\<close>

lemma wheel_inv_new_ID:
  assumes inv: "wheel_inv w" and last: "w_last w < 3000" and idle: "idle p w"
  defines "w1 \<equiv> (upd_timer p (\<lambda>t. t\<lparr>nt_ID := w_last w + 1\<rparr>) w)\<lparr>w_last := w_last w + 1\<rparr>"
  shows "wheel_inv w1" and "nt_ID (w_timers w1 p) \<noteq> 0" and "idle p w1"
proof -
  have l: "unat (w_last w) < 3000"
    using last by (simp add: word_less_nat_alt)
  then have u: "unat (w_last w + 1) = Suc (unat (w_last w))"
    by (subst unat_add_lem [THEN iffD1]) simp_all
  have bound: "nt_ID (w_timers w q) < w_last w + 1" for q
    using wheel_invD(7) [OF inv, of q] by (simp add: word_less_nat_alt word_le_nat_alt u)
  have slots: "w_slots w1 = w_slots w" and curr: "w_curr w1 = w_curr w" and lst: "w_last w1 = w_last w + 1"
    and ID: "nt_ID (w_timers w1 q) = (if q = p then w_last w + 1 else nt_ID (w_timers w q))" for q
    by (simp_all add: w1_def wheel_simps)
  show idle1: "idle p w1"
    using idle by (simp add: idle_def slots)
  show nz: "nt_ID (w_timers w1 p) \<noteq> 0"
    using u by (auto simp: ID word_unat_eq_iff)
  show "wheel_inv w1"
  proof (rule wheel_invI)
    show "w_last w1 \<le> MAXTIMERNUM"
      using l by (simp add: lst MAXTIMERNUM_def word_le_nat_alt u)
    show "s < MAXSLOTNUM \<and> q \<noteq> 0 \<and> k \<noteq> 0 \<and> nt_ID (w_timers w1 q) = k"
      if "smap_find k (w_slots w1 s) = Some q" for s k q
      using that wheel_invD(4) [OF inv, of k s q] idle by (auto simp: slots ID idle_def)
    show "s = s'" if "smap_find k (w_slots w1 s) = Some q" "smap_find k (w_slots w1 s') = Some q'" for s s' k q q'
      using that wheel_invD(5) [OF inv, of k s q s' q'] by (simp add: slots)
    show "q = q'" if "nt_ID (w_timers w1 q) = nt_ID (w_timers w1 q')" "nt_ID (w_timers w1 q) \<noteq> 0" for q q'
      using that wheel_invD(6) [OF inv, of q q'] bound [of q] bound [of q'] by (auto simp: ID split: if_splits)
    show "nt_ID (w_timers w1 q) \<le> w_last w1" for q
      using less_imp_le [OF bound [of q]] by (simp add: ID lst)
  qed (use wheel_invD(1,3) [OF inv] in \<open>simp_all add: slots curr\<close>)
qed

text \<open>What a timer looks like when \<^verbatim>\<open>AddTimer\<close> has hung it up.\<close>

lemma AddTimer_attached:
  assumes inv: "wheel_inv w" and idle: "idle p w" and ID: "isNew \<or> nt_ID (w_timers w p) \<noteq> 0"
    and small: "nt_interval (w_timers w p) < 2 ^ 31" and add: "AddTimer p isNew w = (0, w')"
  shows "\<exists>s. wheel_inv w' \<and> attached p s w' \<and> ticks_left p s w' = wait_ticks (nt_interval (w_timers w p)) \<and>
    (\<exists>id tk r. w_timers w' p = (w_timers w p)\<lparr>nt_ID := id, nt_ticks := tk, nt_round := r, nt_tm := True\<rparr>)"
proof -
  let ?i = "nt_interval (w_timers w p)"
  have p: "p \<noteq> 0" and last: "w_last w < 3000" and pos: "0 < ?i" and w': "w' = AttachTimer p isNew w"
    using add by (auto simp: AddTimer_def MAXTIMERNUM_def not_le split: if_splits)
  define w1 where "w1 = (if isNew
    then (upd_timer p (\<lambda>t. t\<lparr>nt_ID := w_last w + 1\<rparr>) w)\<lparr>w_last := w_last w + 1\<rparr> else w)"
  have w1: "wheel_inv w1" "nt_ID (w_timers w1 p) \<noteq> 0" "idle p w1"
    using wheel_inv_new_ID [OF inv last idle] inv ID idle by (auto simp: w1_def)
  have t1: "\<exists>id. w_timers w1 p = (w_timers w p)\<lparr>nt_ID := id\<rparr>"
    by (cases "w_timers w p") (auto simp: w1_def wheel_simps)
  then have i1: "nt_interval (w_timers w1 p) = ?i" and c1: "w_curr w1 = w_curr w"
    by (auto simp: w1_def wheel_simps)
  have w'1: "w' = AttachTimer p False w1"
    using p by (simp add: w' w1_def AttachTimer_def Let_def)
  let ?s = "slot_of ?i (w_curr w)"
  have c: "unat (w_curr w) < 3000"
    using wheel_invD(1) [OF inv] by (simp add: MAXSLOTNUM_def)
  have s: "?s = (unat (w_curr w) + nat ?i mod 3000) mod 3000"
    using pos small c by (rule slot_of_pos)
  have att: "attached p ?s w'"
    by (simp add: w'1 attach_facts [OF w1(1) p w1(2,3)] i1 c1)
  have tp: "w_timers w' p = reset_timer (w_timers w1 p)" "w_curr w' = w_curr w"
    using p by (simp_all add: w'1 AttachTimer_old Let_def reset_timer_def c1)
  have "nt_round (w_timers w' p) = ?i div 3000"
    using pos by (simp add: tp reset_timer_def i1 sdiv_pos)
  moreover have "((unat (w_curr w) + m) mod 3000 + 3000 - unat (w_curr w)) mod 3000 = m" if "m < 3000" for m
    using that c by (auto simp: mod_if)
  ultimately have "ticks_left p ?s w' = nat ?i mod 3000 + 3000 * (nat (?i div 3000) - 1)"
    by (simp add: ticks_left_def tp(2) s MAXSLOTNUM_def)
  then have "ticks_left p ?s w' = wait_ticks ?i"
    using wait_rounds [OF pos] by simp
  moreover have "wheel_inv w'"
    unfolding w'1 by (rule wheel_inv_attach [OF w1(1) p w1(2,3)])
  moreover have "\<exists>id tk r. w_timers w' p = (w_timers w p)\<lparr>nt_ID := id, nt_ticks := tk, nt_round := r, nt_tm := True\<rparr>"
    using t1 by (auto simp: tp reset_timer_def) blast
  ultimately show ?thesis
    using att by blast
qed

text \<open>
  C39: a timer added to the wheel fires exactly once its wait is over and not before: it hangs in its
  slot for \<open>wait_ticks\<close> of its interval ticks, and in the next one its callback is started. For an
  interval under 3000 seconds the wait is the interval; a longer one is cut short by 3000 seconds,
  because a timer due in the current turn and one due a turn later both have their turn count
  decremented to at most zero at the first pass. A once timer is then in no slot any more.
\<close>

theorem timer_fires_after_wait:
  assumes "wheel_inv w" and "idle p w" and "isNew \<or> nt_ID (w_timers w p) \<noteq> 0"
    and "nt_interval (w_timers w p) < 2 ^ 31"
    and "AddTimer p isNew w = (0, w')"
  shows "\<exists>s. (\<forall>k \<le> wait_ticks (nt_interval (w_timers w p)). attached p s ((TimerManager_OnTick ^^ k) w')) \<and>
    (let w2 = (TimerManager_OnTick ^^ Suc (wait_ticks (nt_interval (w_timers w p)))) w'
     in set (calls_of (w_timers w p)) \<subseteq> set (w_calls w2) \<and>
       (nt_type (w_timers w p) \<noteq> LoopTimer \<longrightarrow> idle p w2))"
proof -
  let ?n = "wait_ticks (nt_interval (w_timers w p))"
  obtain s where a: "wheel_inv w'" "attached p s w'" "ticks_left p s w' = ?n"
    and t: "\<exists>id tk r. w_timers w' p = (w_timers w p)\<lparr>nt_ID := id, nt_ticks := tk, nt_round := r, nt_tm := True\<rparr>"
    using AddTimer_attached [OF assms] by blast
  let ?w = "(TimerManager_OnTick ^^ ?n) w'"
  have n: "wheel_inv ?w" "attached p s ?w" "ticks_left p s ?w = 0"
    and tn: "\<exists>r. w_timers ?w p = (w_timers w' p)\<lparr>nt_round := r\<rparr>"
    using survives [OF a(1,2), of ?n] a(3) by auto
  note due = ticks_left_0 [OF n]
  have here: "attached p (unat (w_curr ?w)) ?w"
    using n(2) due(1) by simp
  have same: "calls_of (w_timers ?w p) = calls_of (w_timers w p)" "nt_type (w_timers ?w p) = nt_type (w_timers w p)"
    using t tn by (auto simp: calls_of_def)
  have "set (calls_of (w_timers w p)) \<subseteq> set (w_calls (TimerManager_OnTick ?w))"
    using here due(2) by (auto simp: OnTick_facts(7) [OF n(1)] same [symmetric])
  moreover have "nt_type (w_timers w p) \<noteq> LoopTimer \<longrightarrow> idle p (TimerManager_OnTick ?w)"
    using OnTick_facts(4) [OF n(1) here due(2)] by (simp add: same)
  moreover have "\<forall>k \<le> ?n. attached p s ((TimerManager_OnTick ^^ k) w')"
    using survives [OF a(1,2)] a(3) by simp
  ultimately show ?thesis
    by (auto simp: Let_def)
qed

definition demo_wheel :: "int \<Rightarrow> timer_type \<Rightarrow> wheel" where
  "demo_wheel i ty = TimerManager_new (\<lambda>_. NewTimer_new\<lparr>nt_callBack := 5, nt_obj := 6, nt_interval := i, nt_type := ty\<rparr>)"

lemma demo_wheel_inv: "wheel_inv (demo_wheel i ty)" "idle p (demo_wheel i ty)"
  by (auto simp: wheel_inv_def idle_def demo_wheel_def TimerManager_new_def NewTimer_new_def
      MAXSLOTNUM_def MAXTIMERNUM_def)

theorem timer_fires_after_wait_witness:
  "\<exists>s. (\<forall>k \<le> 4200. attached 7 s ((TimerManager_OnTick ^^ k) (AttachTimer 7 True (demo_wheel 7200 OnceTimer)))) \<and>
    \<lparr>call_fun = 5, call_obj = 6, call_arg = [], call_argLen = 0\<rparr> \<in>
      set (w_calls ((TimerManager_OnTick ^^ Suc 4200) (AttachTimer 7 True (demo_wheel 7200 OnceTimer))))"
proof -
  let ?w = "demo_wheel 7200 OnceTimer"
  have t: "nt_interval (w_timers ?w 7) = 7200"
    "calls_of (w_timers ?w 7) = [\<lparr>call_fun = 5, call_obj = 6, call_arg = [], call_argLen = 0\<rparr>]"
    by (simp_all add: demo_wheel_def TimerManager_new_def NewTimer_new_def calls_of_def)
  have add: "AddTimer 7 True ?w = (0, AttachTimer 7 True ?w)"
    by (simp add: AddTimer_def t MAXTIMERNUM_def) (simp add: demo_wheel_def TimerManager_new_def)
  have n: "wait_ticks (nt_interval (w_timers ?w 7)) = 4200"
    by (simp add: t wait_ticks_def)
  have "nt_interval (w_timers ?w 7) < 2 ^ 31"
    by (simp add: t)
  from timer_fires_after_wait [OF demo_wheel_inv _ this add, unfolded n t(2) Let_def]
  show ?thesis
    by auto
qed

text \<open>A loop timer that fires is hung up again; the ticks that remain after the tick that fires it.\<close>

definition loop_period :: "int \<Rightarrow> nat" where
  "loop_period i = (if i \<le> 3000 \<or> i mod 3000 = 0 then nat i else nat i - 3000)"

lemma loop_period_pos: "0 < i \<Longrightarrow> 0 < loop_period i"
  by (auto simp: loop_period_def)

lemma fired_again:
  assumes "wheel_inv w" and "attached p (unat (w_curr w)) w" and "due_now (w_timers w p)"
    and "nt_type (w_timers w p) = LoopTimer"
    and "0 < nt_interval (w_timers w p)" and "nt_interval (w_timers w p) < 2 ^ 31"
  shows "\<exists>s. attached p s (TimerManager_OnTick w) \<and>
    Suc (ticks_left p s (TimerManager_OnTick w)) = loop_period (nt_interval (w_timers w p))"
proof -
  let ?i = "nt_interval (w_timers w p)" and ?c = "unat (w_curr w)"
  let ?w = "TimerManager_OnTick w" and ?m = "nat ?i mod 3000" and ?d = "nat ?i div 3000"
  have c: "?c < 3000"
    using wheel_invD(1) [OF assms(1)] by (simp add: MAXSLOTNUM_def)
  note tick = OnTick_facts(3) [OF assms(1-4)]
  have s: "slot_of ?i (w_curr w) = (?c + ?m) mod 3000"
    using assms(5,6) c by (rule slot_of_pos)
  have round: "nat (nt_round (w_timers ?w p)) = ?d"
    using tick assms(5) by (simp add: reset_timer_def ticked_def sdiv_pos nat_div_distrib)
  have dist: "((?c + ?m) mod 3000 + 3000 - (if ?c = 2999 then 0 else Suc ?c)) mod 3000 =
      (if ?m = 0 then 2999 else ?m - 1)"
    using c by (intro reattach_distance) simp_all
  have left: "ticks_left p (slot_of ?i (w_curr w)) ?w = (if ?m = 0 then 2999 else ?m - 1) + 3000 * (?d - 1)"
    by (simp only: ticks_left_def s round curr_after_tick [OF assms(1)] MAXSLOTNUM_def dist)
  have i: "nat ?i = ?m + 3000 * ?d" "0 < nat ?i"
    using assms(5) by simp_all
  have "Suc (ticks_left p (slot_of ?i (w_curr w)) ?w) =
      (if nat ?i \<le> 3000 \<or> ?m = 0 then nat ?i else nat ?i - 3000)"
    unfolding left using i by (cases "?d") (auto, linarith)
  moreover have "int ?m = ?i mod 3000"
    using assms(5) by (simp add: zmod_int)
  then have "(?i mod 3000 = 0) = (?m = 0)"
    by linarith
  moreover have "(?i \<le> 3000) = (nat ?i \<le> 3000)"
    by (simp add: nat_le_iff)
  ultimately show ?thesis
    using tick by (auto simp: loop_period_def)
qed

text \<open>One tick starts a callback once, when its timer is due, if no other timer starts the same.\<close>

definition only_caller :: "nat \<Rightarrow> timer_call \<Rightarrow> wheel \<Rightarrow> bool" where
  "only_caller p c w \<longleftrightarrow> calls_of (w_timers w p) = [c] \<and> (\<forall>q. q \<noteq> p \<longrightarrow> c \<notin> set (calls_of (w_timers w q)))"

lemma count_calls:
  assumes "only_caller p c w" and "distinct ps"
  shows "count_list (concat (map (\<lambda>q. calls_of (w_timers w q)) ps)) c = (if p \<in> set ps then 1 else 0)"
  using assms(2)
proof (induction ps)
  case (Cons q ps)
  have "count_list (calls_of (w_timers w q)) c = (if q = p then 1 else 0)"
    using assms(1) by (auto simp: only_caller_def count_list_0_iff)
  with Cons show ?case
    by (auto simp: count_list_append)
qed simp

lemma tick_counts:
  assumes "wheel_inv w" and "only_caller p c w"
  shows "only_caller p c (TimerManager_OnTick w)"
    and "count_list (w_calls (TimerManager_OnTick w)) c = count_list (w_calls w) c +
      (if attached p (unat (w_curr w)) w \<and> due_now (w_timers w p) then 1 else 0)"
proof -
  show "only_caller p c (TimerManager_OnTick w)"
    using assms(2) by (simp add: only_caller_def OnTick_facts(9) [OF assms(1)])
  obtain ps where "distinct ps" "set ps = {q. attached q (unat (w_curr w)) w \<and> due_now (w_timers w q)}"
    "w_calls (TimerManager_OnTick w) = w_calls w @ concat (map (\<lambda>q. calls_of (w_timers w q)) ps)"
    using OnTick_facts(8) [OF assms(1)] by blast
  then show "count_list (w_calls (TimerManager_OnTick w)) c = count_list (w_calls w) c +
      (if attached p (unat (w_curr w)) w \<and> due_now (w_timers w p) then 1 else 0)"
    using count_calls [OF assms(2), of ps] by (simp add: count_list_append)
qed

lemma waiting_counts:
  assumes "wheel_inv w" and "attached p s w" and "only_caller p c w" and "k \<le> ticks_left p s w"
  shows "only_caller p c ((TimerManager_OnTick ^^ k) w) \<and>
    count_list (w_calls ((TimerManager_OnTick ^^ k) w)) c = count_list (w_calls w) c"
  using assms(4)
proof (induction k)
  case (Suc k)
  let ?w = "(TimerManager_OnTick ^^ k) w"
  have w: "wheel_inv ?w" "attached p s ?w" "ticks_left p s ?w = Suc (ticks_left p s w - Suc k)"
    using survives [OF assms(1,2), of k] Suc.prems by auto
  have "\<not> (attached p (unat (w_curr ?w)) ?w \<and> due_now (w_timers ?w p))"
  proof
    assume now: "attached p (unat (w_curr ?w)) ?w \<and> due_now (w_timers ?w p)"
    then have "s = unat (w_curr ?w)"
      using attached_unique [OF w(1,2)] by blast
    moreover have "nat (nt_round (w_timers ?w p)) - 1 = 0"
      using now unfolding due_now_def by linarith
    ultimately have "ticks_left p s ?w = 0"
      unfolding ticks_left_def by (simp only:) simp
    then show False
      using w(3) by simp
  qed
  then show ?case
    using Suc tick_counts [OF w(1), of p c] by simp
qed (use assms(3) in simp)

lemma loop_calls:
  assumes "wheel_inv w" and "attached p s w" and "only_caller p c w" and "nt_type (w_timers w p) = LoopTimer"
    and "0 < nt_interval (w_timers w p)" and "nt_interval (w_timers w p) < 2 ^ 31"
  shows "count_list (w_calls ((TimerManager_OnTick ^^ k) w)) c = count_list (w_calls w) c +
    (if k \<le> ticks_left p s w then 0 else Suc ((k - Suc (ticks_left p s w)) div loop_period (nt_interval (w_timers w p))))"
  using assms
proof (induction k arbitrary: w s rule: less_induct)
  case (less k)
  let ?n = "ticks_left p s w" and ?i = "nt_interval (w_timers w p)"
  show ?case
  proof (cases "k \<le> ?n")
    case True
    then show ?thesis
      using waiting_counts [OF less.prems(1-3)] by simp
  next
    case False
    let ?w = "(TimerManager_OnTick ^^ ?n) w" and ?v = "(TimerManager_OnTick ^^ Suc ?n) w"
    have w: "wheel_inv ?w" "attached p s ?w" "ticks_left p s ?w = 0"
      and t: "\<exists>r. w_timers ?w p = (w_timers w p)\<lparr>nt_round := r\<rparr>"
      using survives [OF less.prems(1,2), of ?n] by auto
    have c: "only_caller p c ?w" "count_list (w_calls ?w) c = count_list (w_calls w) c"
      using waiting_counts [OF less.prems(1-3), of ?n] by simp_all
    note due = ticks_left_0 [OF w]
    have here: "attached p (unat (w_curr ?w)) ?w"
      using w(2) due(1) by simp
    have same: "nt_type (w_timers ?w p) = LoopTimer" "nt_interval (w_timers ?w p) = ?i"
      using t less.prems(4) by auto
    obtain s' where s': "attached p s' ?v" "Suc (ticks_left p s' ?v) = loop_period ?i"
      using fired_again [OF w(1) here due(2) same(1)] less.prems(5,6) same(2) by auto
    have v: "wheel_inv ?v" "only_caller p c ?v" "count_list (w_calls ?v) c = Suc (count_list (w_calls w) c)"
      using OnTick_facts(1) [OF w(1)] tick_counts [OF w(1) c(1)] here due(2) c(2) by simp_all
    have vt: "w_timers ?v p = reset_timer (ticked (w_timers ?w p))"
      using OnTick_facts(3) [OF w(1) here due(2) same(1)] by simp
    have vs: "nt_type (w_timers ?v p) = LoopTimer" "nt_interval (w_timers ?v p) = ?i"
      using same unfolding vt by (simp_all add: reset_timer_def ticked_def)
    let ?k = "k - Suc ?n"
    have "(TimerManager_OnTick ^^ k) w = (TimerManager_OnTick ^^ ?k) ?v"
      using False by (simp add: funpow_add [symmetric, THEN fun_cong, unfolded comp_def] del: funpow.simps)
    moreover have "count_list (w_calls ((TimerManager_OnTick ^^ ?k) ?v)) c = count_list (w_calls ?v) c +
        (if ?k \<le> ticks_left p s' ?v then 0 else Suc ((?k - Suc (ticks_left p s' ?v)) div loop_period ?i))"
      using less.IH [of ?k ?v s'] False v(1,2) s'(1) vs less.prems(5,6) by (simp only: vs)
    moreover have "(if ?k \<le> ticks_left p s' ?v then 0 else Suc ((?k - Suc (ticks_left p s' ?v)) div loop_period ?i)) =
        ?k div loop_period ?i"
      using s'(2) by (cases "?k < loop_period ?i") (auto simp: le_div_geq)
    ultimately show ?thesis
      using False v(3) by simp
  qed
qed

text \<open>
  C40: the callback of a loop timer is started again and again.  After any number \<open>k\<close> of ticks it has
  been started once for the first wait, if that is over, and once more for every period since then, and not
  more often.  The period is the interval for an interval of at most 3000 seconds and for multiples of
  3000 seconds, and 3000 seconds less than the interval otherwise.  So that its calls can be counted, the
  callback is assumed to be no other timer's.
\<close>

theorem loop_timer_period:
  assumes "wheel_inv w" and "idle p w" and "isNew \<or> nt_ID (w_timers w p) \<noteq> 0"
    and "nt_interval (w_timers w p) < 2 ^ 31" and "AddTimer p isNew w = (0, w')"
    and "nt_type (w_timers w p) = LoopTimer" and "calls_of (w_timers w p) = [c]"
    and "\<forall>q. q \<noteq> p \<longrightarrow> c \<notin> set (calls_of (w_timers w q))"
  shows "count_list (w_calls ((TimerManager_OnTick ^^ k) w')) c = count_list (w_calls w) c +
    (let i = nt_interval (w_timers w p); first = wait_ticks i;
         period = (if i \<le> 3000 \<or> i mod 3000 = 0 then nat i else nat i - 3000)
     in if k \<le> first then 0 else Suc ((k - Suc first) div period))"
proof -
  let ?i = "nt_interval (w_timers w p)"
  obtain s where a: "wheel_inv w'" "attached p s w'" "ticks_left p s w' = wait_ticks ?i"
    and t: "\<exists>id tk r. w_timers w' p = (w_timers w p)\<lparr>nt_ID := id, nt_ticks := tk, nt_round := r, nt_tm := True\<rparr>"
    using AddTimer_attached [OF assms(1-5)] by blast
  have pos: "0 < ?i"
    using assms(5) by (auto simp: AddTimer_def not_le split: if_splits)
  have w': "w' = AttachTimer p isNew w"
    using assms(5) by (auto simp: AddTimer_def split: if_splits)
  have other: "q \<noteq> p \<Longrightarrow> w_timers w' q = w_timers w q" "w_calls w' = w_calls w" for q
    by (simp_all add: w' AttachTimer_def Slot_AddTimer_def Let_def wheel_simps)
  have "calls_of (w_timers w' p) = [c]"
    using t assms(7) by (auto simp: calls_of_def split: if_splits)
  then have "only_caller p c w'"
    using assms(8) other(1) by (simp add: only_caller_def)
  moreover have "nt_type (w_timers w' p) = LoopTimer" "nt_interval (w_timers w' p) = ?i"
    using t assms(6) by auto
  ultimately show ?thesis
    using loop_calls [OF a(1,2), of c k] pos assms(4) by (simp add: a(3) other(2) loop_period_def Let_def)
qed

text \<open>A loop timer of two seconds on a wheel whose other timers have no callback: in seven ticks it fires at
  the third, the fifth and the seventh.\<close>

definition demo_loop :: wheel where
  "demo_loop = TimerManager_new (\<lambda>q. if q = 7
     then NewTimer_new\<lparr>nt_callBack := 5, nt_obj := 6, nt_interval := 2, nt_type := LoopTimer\<rparr> else NewTimer_new)"

theorem loop_timer_period_witness:
  "count_list (w_calls ((TimerManager_OnTick ^^ 7) (AttachTimer 7 True demo_loop)))
     \<lparr>call_fun = 5, call_obj = 6, call_arg = [], call_argLen = 0\<rparr> = 3"
proof -
  let ?c = "\<lparr>call_fun = 5, call_obj = 6, call_arg = [], call_argLen = 0\<rparr>"
  have t: "nt_interval (w_timers demo_loop 7) = 2" "nt_type (w_timers demo_loop 7) = LoopTimer"
    "calls_of (w_timers demo_loop 7) = [?c]" "w_calls demo_loop = []"
    "\<forall>q. q \<noteq> 7 \<longrightarrow> ?c \<notin> set (calls_of (w_timers demo_loop q))"
    by (simp_all add: demo_loop_def TimerManager_new_def NewTimer_new_def calls_of_def)
  have inv: "wheel_inv demo_loop" "idle 7 demo_loop"
    by (auto simp: wheel_inv_def idle_def demo_loop_def TimerManager_new_def NewTimer_new_def
        MAXSLOTNUM_def MAXTIMERNUM_def)
  have add: "AddTimer 7 True demo_loop = (0, AttachTimer 7 True demo_loop)"
    by (simp add: AddTimer_def t MAXTIMERNUM_def) (simp add: demo_loop_def TimerManager_new_def)
  from loop_timer_period [OF inv _ _ add t(2,3,5), of 7] show ?thesis
    by (simp add: t(1,4) wait_ticks_def Let_def)
qed

text \<open>
  \<^verbatim>\<open>reStart\<close> of a running timer with a positive interval takes it off its slot
  and hangs it up again, and returns \<^verbatim>\<open>false\<close>, the result it has when nothing was
  running; it returns \<^verbatim>\<open>true\<close> exactly when the timer was taken off and not hung up.
\<close>

lemma reStart_result_inverted:
  assumes "IsRunning p w"
  shows "reStart p w = (\<not> (p \<noteq> 0 \<and> w_last w < MAXTIMERNUM \<and> 0 < nt_interval (w_timers w p)),
    if p \<noteq> 0 \<and> w_last w < MAXTIMERNUM \<and> 0 < nt_interval (w_timers w p)
    then AttachTimer p False (snd (DelTimer p w)) else snd (DelTimer p w))"
proof -
  have del: "w_timers (del_from p ss w) = w_timers w \<and> w_last (del_from p ss w) = w_last w" for ss
    by (induction ss) (auto simp: Slot_DelTimer_def split: option.splits)
  show ?thesis
    using assms by (auto simp: reStart_def IsRunning_def DelTimer_def AddTimer_def del not_le not_less)
qed

lemma reStart_result_inverted_witness:
  "fst (reStart 7 (AttachTimer 7 True (demo_wheel 2 OnceTimer))) = False"
proof -
  have "IsRunning 7 (AttachTimer 7 True (demo_wheel 2 OnceTimer))"
    by (simp add: IsRunning_def AttachTimer_def Slot_AddTimer_def Let_def wheel_simps)
  from reStart_result_inverted [OF this] show ?thesis
    by (simp add: AttachTimer_def Slot_AddTimer_def Let_def wheel_simps demo_wheel_def
        TimerManager_new_def NewTimer_new_def MAXTIMERNUM_def)
qed

end
