(* ===== verification/Pkg_Buff.thy ===== *)
theory Pkg_Buff
  imports Packet_Header
begin

text \<open>
  \<^verbatim>\<open>Gateway/PkgHead.cpp\<close>, \<^verbatim>\<open>PkgBuff.cpp\<close> and the connection numbers of
  \<^verbatim>\<open>System.cpp\<close> and \<^verbatim>\<open>System.h\<close>: the gateway's own view of a message
  header, a packed struct of fifteen bytes, the growing buffer it composes messages in, and the
  64-bit number that names a connection. A null \<^verbatim>\<open>_buff\<close> is the empty list.
\<close>

record pkg_head =
  usPkgLen :: u16
  ucDirection :: u8
  ucSrvType :: u8
  ucSrvSeq :: u8
  usMsgType :: u16
  uiUniqID :: u32
  uiRoleID :: u32

text \<open>\<^verbatim>\<open>PkgHead::packet\<close>, the bytes it stores, and \<^verbatim>\<open>PkgHead::unpacket\<close>.\<close>

definition pkg_packet :: "pkg_head \<Rightarrow> u8 list" where
  "pkg_packet h =
     bytes_of_word 2 (usPkgLen h) @ bytes_of_word 1 (ucDirection h) @
     bytes_of_word 1 (ucSrvType h) @ bytes_of_word 1 (ucSrvSeq h) @
     bytes_of_word 2 (usMsgType h) @ bytes_of_word 4 (uiUniqID h) @
     bytes_of_word 4 (uiRoleID h)"

definition pkg_unpacket :: "u8 list \<Rightarrow> pkg_head" where
  "pkg_unpacket b =
     \<lparr>usPkgLen = word_of_bytes (take 2 b),
      ucDirection = word_of_bytes (take 1 (drop 2 b)),
      ucSrvType = word_of_bytes (take 1 (drop 3 b)),
      ucSrvSeq = word_of_bytes (take 1 (drop 4 b)),
      usMsgType = word_of_bytes (take 2 (drop 5 b)),
      uiUniqID = word_of_bytes (take 4 (drop 7 b)),
      uiRoleID = word_of_bytes (take 4 (drop 11 b))\<rparr>"

lemma length_pkg_packet [simp, wire]: "length (pkg_packet h) = 15"
  by (simp add: pkg_packet_def)

lemma pkg_unpacket_packet [wire]: "pkg_unpacket (pkg_packet h @ body) = h"
  by (cases h) (simp add: pkg_unpacket_def pkg_packet_def wire)

lemma pkg_unpacket_take [wire]: "15 \<le> n \<Longrightarrow> pkg_unpacket (take n b) = pkg_unpacket b"
  by (simp add: pkg_unpacket_def min_absorb1 drop_take)

lemma pkg_unpacket_append [wire]: "15 \<le> length b \<Longrightarrow> pkg_unpacket (b @ c) = pkg_unpacket b"
  by (simp add: pkg_unpacket_def)

section \<open>PkgBuff\<close>

type_synonym pkg_buff = "u8 list"

definition PkgBuff_new :: pkg_buff where
  "PkgBuff_new = []"

definition PkgBuff_from :: "u8 list \<Rightarrow> nat \<Rightarrow> pkg_buff" where
  "PkgBuff_from input len = take len input"

definition PkgBuff_Clear :: "pkg_buff \<Rightarrow> pkg_buff" where
  "PkgBuff_Clear b = []"

definition PkgBuff_Append :: "u8 list \<Rightarrow> nat \<Rightarrow> pkg_buff \<Rightarrow> pkg_buff" where
  "PkgBuff_Append input len b = (if len = 0 then b else b @ take len input)"

definition PkgBuff_GetSize :: "pkg_buff \<Rightarrow> int" where
  "PkgBuff_GetSize b = int (length b)"

text \<open>\<^verbatim>\<open>EncodeLength\<close> stores \<^verbatim>\<open>_size\<close> in the first two bytes; every caller
  has appended a header before.\<close>

definition PkgBuff_EncodeLength :: "pkg_buff \<Rightarrow> pkg_buff" where
  "PkgBuff_EncodeLength b = blit b 0 (bytes_of_word 2 (of_nat (length b) :: u16))"

lemma EncodeLength_head:
  "PkgBuff_EncodeLength (pkg_packet h @ body) =
   pkg_packet (h\<lparr>usPkgLen := of_nat (15 + length body)\<rparr>) @ body"
  by (simp add: PkgBuff_EncodeLength_def pkg_packet_def blit_def)

text \<open>The composition every handler uses: clear, append a header and a body, set the length.\<close>

definition pkg_message :: "pkg_head \<Rightarrow> u8 list \<Rightarrow> u8 list" where
  "pkg_message h body = pkg_packet (h\<lparr>usPkgLen := of_nat (15 + length body)\<rparr>) @ body"

lemma EncodeLength_Append [wire]:
  "PkgBuff_EncodeLength (PkgBuff_Append body (length body)
     (PkgBuff_Append (pkg_packet h) 15 (PkgBuff_Clear b))) = pkg_message h body"
  by (simp add: PkgBuff_Append_def PkgBuff_Clear_def EncodeLength_head pkg_message_def
      flip: length_greater_0_conv) (use EncodeLength_head [of h "[]"] in simp)

lemma length_pkg_message [simp]: "length (pkg_message h body) = 15 + length body"
  by (simp add: pkg_message_def)

lemma drop_pkg_message [simp]: "drop 15 (pkg_message h body) = body"
  by (simp add: pkg_message_def)

lemma unpacket_message [simp]: "pkg_unpacket (pkg_message h body @ rest) = h\<lparr>usPkgLen := of_nat (15 + length body)\<rparr>"
  by (simp add: pkg_message_def wire)

section \<open>Connection numbers\<close>

definition CONNECTION_ID :: "i32 \<Rightarrow> u16 \<Rightarrow> i32 \<Rightarrow> i64" where
  "CONNECTION_ID ip port fd =
     (let pf = or (push_bit 16 (and 0xFFFF (ucast port))) (scast fd);
          tmp = scast ip
      in or (push_bit 32 tmp) pf)"

definition CONNECTION_FD :: "i64 \<Rightarrow> int" where
  "CONNECTION_FD x = sint (ucast (and x 0xFFFF) :: i32)"

definition CONNECTION_IP :: "i64 \<Rightarrow> i64" where
  "CONNECTION_IP x = signed_drop_bit 32 x"

definition CONNECTION_PORT :: "i64 \<Rightarrow> int" where
  "CONNECTION_PORT x = sint (ucast (and (signed_drop_bit 16 x) 0xFFFF) :: i32)"

lemma ucast_id_parts:
  assumes "unat fd < 65536"
  shows "ucast (and (CONNECTION_ID ip port fd) 0xFFFF) = fd"
    and "ucast (and (signed_drop_bit 16 (CONNECTION_ID ip port fd)) 0xFFFF) = (ucast port :: i32)"
    and "ucast (CONNECTION_IP (CONNECTION_ID ip port fd)) = ip"
proof -
  have fd: "\<not> bit fd n" if "16 \<le> n" for n
  proof -
    have "unat (take_bit 16 fd) = unat fd"
      using assms by (simp add: unsigned_take_bit_eq take_bit_nat_eq_self)
    then have "take_bit 16 fd = fd"
      by (simp only: word_unat_eq_iff)
    then show ?thesis
      using that by (metis bit_take_bit_iff not_le)
  qed
  have "(0xFFFF :: i64) = mask 16"
    by (simp add: mask_eq_exp_minus_1)
  then have low: "and x 0xFFFF = take_bit 16 x" "and 0xFFFF x = take_bit 16 x" for x :: i64
    by (simp_all only: take_bit_eq_mask and.commute)
  note defs = CONNECTION_ID_def CONNECTION_IP_def Let_def low
  show "ucast (and (CONNECTION_ID ip port fd) 0xFFFF) = fd"
    unfolding defs by (rule bit_word_eqI) (use fd in \<open>auto simp: bit_simps not_le\<close>)
  show "ucast (and (signed_drop_bit 16 (CONNECTION_ID ip port fd)) 0xFFFF) = (ucast port :: i32)"
    unfolding defs by (rule bit_word_eqI)
      (auto simp: bit_simps fd min_def not_le dest: bit_imp_le_length)
  have top: "n = 31" if "31 \<le> n" "n < 32" for n :: nat
    using that by simp
  show "ucast (CONNECTION_IP (CONNECTION_ID ip port fd)) = ip"
    unfolding defs by (rule bit_word_eqI)
      (auto simp: bit_simps fd min_def not_le dest: bit_imp_le_length top)
qed

lemma sint_small_i32:
  assumes "unat (w :: i32) < 65536"
  shows "sint w = int (unat w)"
proof -
  have "int (unat w) < 65536"
    using assms by linarith
  moreover have "- (2 ^ 31) \<le> (0 :: int)" "65536 \<le> (2 ^ 31 :: int)"
    by simp_all
  ultimately have "- (2 ^ 31) \<le> int (unat w)" "int (unat w) < 2 ^ 31"
    by linarith+
  from signed_take_bit_int_eq_self [OF this] show ?thesis
    by (simp add: sint_uint)
qed

lemma connection_id_fd: "unat fd < 65536 \<Longrightarrow> CONNECTION_FD (CONNECTION_ID ip port fd) = int (unat fd)"
  by (simp add: CONNECTION_FD_def ucast_id_parts(1) sint_small_i32)

text \<open>
  A connection number gives back what it was composed of: for a descriptor under 65536 the
  three macros return the descriptor, the port and, in its low 32 bits, the address.
\<close>

lemma connection_id_parts:
  assumes "unat fd < 65536"
  shows "CONNECTION_FD (CONNECTION_ID ip port fd) = int (unat fd) \<and>
    CONNECTION_PORT (CONNECTION_ID ip port fd) = uint port \<and>
    ucast (CONNECTION_IP (CONNECTION_ID ip port fd)) = ip"
proof -
  have "unat port < 2 ^ LENGTH(16)"
    by (rule unsigned_less)
  then have "sint (ucast port :: i32) = int (unat (ucast port :: i32))" "unat (ucast port :: i32) = unat port"
    by (simp_all add: unsigned_ucast_eq take_bit_nat_eq_self sint_small_i32)
  then show ?thesis
    by (simp add: CONNECTION_FD_def CONNECTION_PORT_def ucast_id_parts [OF assms] sint_small_i32 [OF assms])
qed

lemma connection_id_parts_witness:
  "CONNECTION_FD (CONNECTION_ID (- 5) 8080 77) = 77 \<and> CONNECTION_PORT (CONNECTION_ID (- 5) 8080 77) = 8080"
  using connection_id_parts [of 77 "- 5" 8080] by simp

end
