(* ===== verification/Connect_Session.thy ===== *)
theory Connect_Session
  imports Pkg_Buff
begin

text \<open>
  \<^verbatim>\<open>Gateway/ConnectSession.cpp\<close>: one TCP connection of the gateway, with the bytes
  received and not yet taken out as messages. \<open>cs_recv\<close> is the first \<^verbatim>\<open>_recvLen\<close>
  bytes of \<^verbatim>\<open>_recvBuff\<close>; the bytes behind them are never read. The kernel's part is
  an argument: the result of \<^verbatim>\<open>recv\<close>, the clock, and for \<^verbatim>\<open>SendMsg\<close> the
  list of results of its \<^verbatim>\<open>send\<close> calls, behind whose end \<^verbatim>\<open>send\<close> takes all
  it is given. \<^verbatim>\<open>SendMsg\<close> also returns the bytes the kernel took.
\<close>

definition INSIDE_TCP_STREAM :: u8 where "INSIDE_TCP_STREAM = 0"
definition OUTSIDE_TCP_STREAM :: u8 where "OUTSIDE_TCP_STREAM = 1"
definition MAXSOCKBUFF :: nat where "MAXSOCKBUFF = 65535"
definition SESSION_TRYSENDNUM :: int where "SESSION_TRYSENDNUM = 20"

record session =
  cs_trySendNum :: int
  cs_connType :: u8
  cs_connID :: i64
  cs_recv :: "u8 list"
  cs_stamp :: u32
  cs_loginStatus :: u8
  cs_roleID :: u32
  cs_isSameUser :: u8
  cs_srvType :: u8
  cs_srvSeq :: u8
  cs_closeFlag :: u8
  cs_closedNum :: u8
  cs_ip :: u32
  cs_port :: u16
  cs_fd :: int

text \<open>The constructor; \<open>cs_ip\<close> is the \<^verbatim>\<open>s_addr\<close> the text \<^verbatim>\<open>_ip\<close> is
  printed from, and \<^verbatim>\<open>ntohs\<close> swaps the two bytes of the port.\<close>

definition ntohs :: "u16 \<Rightarrow> u16" where
  "ntohs w = word_of_bytes (rev (bytes_of_word 2 w))"

definition ConnectSession_new :: "u32 \<Rightarrow> i64 \<Rightarrow> u8 \<Rightarrow> session" where
  "ConnectSession_new now llInputConId cInputConnType =
     \<lparr>cs_trySendNum = 0, cs_connType = cInputConnType, cs_connID = llInputConId, cs_recv = [],
      cs_stamp = now, cs_loginStatus = 0, cs_roleID = 0, cs_isSameUser = 0, cs_srvType = 0,
      cs_srvSeq = 0, cs_closeFlag = 0, cs_closedNum = 0,
      cs_ip = ucast (CONNECTION_IP llInputConId),
      cs_port = ntohs (of_int (CONNECTION_PORT llInputConId)),
      cs_fd = CONNECTION_FD llInputConId\<rparr>"

definition GetFd :: "session \<Rightarrow> int" where
  "GetFd s = CONNECTION_FD (cs_connID s)"

definition SetStamp :: "u32 \<Rightarrow> session \<Rightarrow> session" where
  "SetStamp now s = s\<lparr>cs_stamp := now\<rparr>"

definition SetLoginStatus :: "u8 \<Rightarrow> session \<Rightarrow> session" where
  "SetLoginStatus v s = s\<lparr>cs_loginStatus := v\<rparr>"

definition SetRoleID :: "u32 \<Rightarrow> session \<Rightarrow> session" where
  "SetRoleID v s = s\<lparr>cs_roleID := v\<rparr>"

definition SetIsSameUser :: "u8 \<Rightarrow> session \<Rightarrow> session" where
  "SetIsSameUser v s = s\<lparr>cs_isSameUser := v\<rparr>"

definition SetSrvType :: "u8 \<Rightarrow> session \<Rightarrow> session" where
  "SetSrvType v s = s\<lparr>cs_srvType := v\<rparr>"

definition SetSrvSeq :: "u8 \<Rightarrow> session \<Rightarrow> session" where
  "SetSrvSeq v s = s\<lparr>cs_srvSeq := v\<rparr>"

text \<open>\<^verbatim>\<open>CloseConnNoLock\<close>, which \<^verbatim>\<open>CloseConn\<close> calls under the lock.\<close>

definition CloseConnNoLock :: "session \<Rightarrow> session" where
  "CloseConnNoLock s =
     (let s1 = (if cs_closeFlag s = 0 \<and> 0 < cs_fd s then s\<lparr>cs_fd := - 1\<rparr> else s);
          s2 = s1\<lparr>cs_closeFlag := 1\<rparr>
      in if cs_closedNum s2 = 0 \<or> cs_closedNum s2 = 1
         then s2\<lparr>cs_closedNum := cs_closedNum s2 + 1\<rparr> else s2)"

definition CloseConn :: "session \<Rightarrow> session" where
  "CloseConn s = CloseConnNoLock s"

section \<open>Receiving\<close>

datatype recv_result = RecvError bool | RecvBytes "u8 list"

text \<open>\<open>RecvError True\<close> is \<^verbatim>\<open>-1\<close> with \<^verbatim>\<open>EWOULDBLOCK\<close> or
  \<^verbatim>\<open>EAGAIN\<close>; \<^verbatim>\<open>recv\<close> returns at most the bytes asked for, and no bytes when
  the peer has closed or when there is no room.\<close>

definition RecvMsg :: "recv_result \<Rightarrow> u32 \<Rightarrow> session \<Rightarrow> int \<times> session" where
  "RecvMsg r now s =
     (if cs_closeFlag s \<noteq> 0 then (- 1, s)
      else case r of
        RecvError again \<Rightarrow> if again then (0, s) else (- 1, CloseConnNoLock s)
      | RecvBytes all \<Rightarrow>
          let bs = take (MAXSOCKBUFF - length (cs_recv s)) all
          in if bs = [] then (- 1, CloseConnNoLock s)
             else (int (length bs), s\<lparr>cs_recv := cs_recv s @ bs, cs_stamp := now\<rparr>))"

text \<open>\<^verbatim>\<open>CheckDataPack\<close> copies a complete message to the start of \<open>data\<close>, the
  caller's buffer, and returns its length; \<open>iLen\<close> is the caller's variable.\<close>

definition CheckDataPack :: "u8 list \<Rightarrow> int \<Rightarrow> session \<Rightarrow> int \<times> u8 list \<times> int \<times> session" where
  "CheckDataPack data iLen s =
     (if length (cs_recv s) < 15 then (0, data, iLen, s)
      else let n = unat (usPkgLen (pkg_unpacket (cs_recv s)))
           in if n < 15 \<or> (if MAXSOCKBUFF < 65535 - 1 then MAXSOCKBUFF else 65535 - 1) < n
              then (- 1, data, iLen, s)
              else if length (cs_recv s) < n then (0, data, iLen, s)
              else (1, blit data 0 (take n (cs_recv s)), int n, s\<lparr>cs_recv := drop n (cs_recv s)\<rparr>))"

definition GetDataPack :: "u8 list \<Rightarrow> int \<Rightarrow> session \<Rightarrow> int \<times> u8 list \<times> int \<times> session" where
  "GetDataPack data iLen s =
     (if cs_connType s = INSIDE_TCP_STREAM \<or> cs_connType s = OUTSIDE_TCP_STREAM
      then CheckDataPack data iLen s else (- 1, data, iLen, s))"

section \<open>Sending\<close>

datatype send_result = SendBytes nat | SendAgain | SendFail

text \<open>The loop of \<^verbatim>\<open>SendMsg\<close> over the results of \<^verbatim>\<open>send\<close>; \<open>SendAgain\<close> is
  \<^verbatim>\<open>EAGAIN\<close> or \<^verbatim>\<open>EINTR\<close>. The result says whether all was sent, with the bytes
  sent, the retry counter and the results left.\<close>

fun send_loop :: "send_result list \<Rightarrow> u8 list \<Rightarrow> int \<Rightarrow> bool \<times> u8 list \<times> send_result list" where
  "send_loop [] p tries = (True, p, [])"
| "send_loop (SendAgain # rs) p tries =
     (if tries + 1 \<le> SESSION_TRYSENDNUM then send_loop rs p (tries + 1) else (False, [], rs))"
| "send_loop (SendFail # rs) p tries = (False, [], rs)"
| "send_loop (SendBytes n # rs) p tries =
     (if length p \<le> n then (True, p, rs)
      else let (ok, sent, rs') = send_loop rs (drop n p) tries in (ok, take n p @ sent, rs'))"

definition SendMsg :: "send_result list \<Rightarrow> u8 list \<Rightarrow> session \<Rightarrow> int \<times> u8 list \<times> send_result list \<times> session" where
  "SendMsg rs buffer s =
     (if cs_closeFlag s \<noteq> 0 then
        if cs_closedNum s < 2 then (- 1, [], rs, s) else (- 2, [], rs, s)
      else let (ok, sent, rs') = send_loop rs buffer (cs_trySendNum s);
               s1 = s\<lparr>cs_trySendNum := 0\<rparr>
           in if ok then (int (length buffer), sent, rs', s1)
              else (- 1, sent, rs', CloseConnNoLock s1))"

text \<open>\<^verbatim>\<open>_recvBuff\<close> is allocated by the constructor, where a failure throws.\<close>

definition BuffInitCheck :: "session \<Rightarrow> int" where
  "BuffInitCheck s = 0"

section \<open>What SendMsg promises\<close>

lemma send_loop_sent:
  "send_loop rs p tries = (ok, sent, rs') \<Longrightarrow>
   (if ok then sent = p else \<exists>rest. p = sent @ rest \<and> (p \<noteq> [] \<longrightarrow> rest \<noteq> []))"
proof (induction rs p tries arbitrary: ok sent rs' rule: send_loop.induct)
  case (4 n rs p tries)
  show ?case
  proof (cases "length p \<le> n")
    case True
    with 4(2) show ?thesis by simp
  next
    case False
    obtain sent' where rec: "send_loop rs (drop n p) tries = (ok, sent', rs')" and sent: "sent = take n p @ sent'"
      using 4(2) False by (auto split: prod.splits)
    show ?thesis
    proof (cases ok)
      case True
      with 4(1) [OF False rec] show ?thesis by (simp add: sent)
    next
      case notok: False
      obtain rest where "drop n p = sent' @ rest" "rest \<noteq> []"
        using 4(1) [OF False rec] notok False by auto
      then have "p = sent @ rest"
        by (metis append.assoc append_take_drop_id sent)
      then show ?thesis
        using notok \<open>rest \<noteq> []\<close> by auto
    qed
  qed
qed (auto split: if_splits)

lemma send_loop_calls:
  "send_loop rs p tries = (ok, sent, rs') \<Longrightarrow> \<forall>n. SendBytes n \<in> set rs \<longrightarrow> 0 < n \<Longrightarrow> 0 \<le> tries \<Longrightarrow> tries \<le> 20 \<Longrightarrow>
   length rs' \<le> length rs \<and> length rs - length rs' \<le> length p + nat (21 - tries) + 1"
proof (induction rs p tries arbitrary: ok sent rs' rule: send_loop.induct)
  case (2 rs p tries)
  show ?case
  proof (cases "tries + 1 \<le> SESSION_TRYSENDNUM")
    case True
    then have "send_loop rs p (tries + 1) = (ok, sent, rs')" "tries + 1 \<le> 20" "0 \<le> tries + 1"
      using 2 by (auto simp: SESSION_TRYSENDNUM_def)
    from 2(1) [OF True this(1) _ this(3,2)] 2(3) have
      "length rs' \<le> length rs \<and> length rs - length rs' \<le> length p + nat (21 - (tries + 1)) + 1"
      by simp
    moreover have "nat (21 - tries) = Suc (nat (21 - (tries + 1)))"
      using True by (simp add: SESSION_TRYSENDNUM_def)
    ultimately show ?thesis
      by auto
  next
    case False
    then show ?thesis using 2 by simp
  qed
next
  case (4 n rs p tries)
  show ?case
  proof (cases "length p \<le> n")
    case True
    with 4(2) show ?thesis by simp
  next
    case False
    obtain sent' where rec: "send_loop rs (drop n p) tries = (ok, sent', rs')"
      using 4(2) False by (auto split: prod.splits)
    have "length rs' \<le> length rs \<and> length rs - length rs' \<le> length (drop n p) + nat (21 - tries) + 1"
      using 4(1) [OF False rec] 4(3-5) by simp
    moreover have "0 < n"
      using 4(3) by simp
    ultimately show ?thesis
      using False by auto
  qed
qed auto

text \<open>
  \<^verbatim>\<open>SendMsg\<close> is all or nothing for the caller: on an open session it returns the
  length exactly when the kernel took the whole message, which leaves the session open with its
  retry counter reset; otherwise it returns -1, the kernel took only a proper prefix of a nonempty
  message, and the session is closed, so nothing is ever sent behind a torn message. On a closed
  session nothing is sent, and the result is -1 after the first close and -2 from the second on.
\<close>

lemma SendMsg_all_or_closed:
  assumes "SendMsg rs buffer s = (r, sent, rs', s')"
  shows "(cs_closeFlag s \<noteq> 0 \<longrightarrow> sent = [] \<and> s' = s \<and> r = (if cs_closedNum s < 2 then - 1 else - 2)) \<and>
    (cs_closeFlag s = 0 \<longrightarrow>
      (r = int (length buffer) \<and> sent = buffer \<and> s' = s\<lparr>cs_trySendNum := 0\<rparr>) \<or>
      (r = - 1 \<and> (\<exists>rest. buffer = sent @ rest \<and> (buffer \<noteq> [] \<longrightarrow> rest \<noteq> [])) \<and>
       cs_closeFlag s' = 1 \<and> cs_fd s' = (if 0 < cs_fd s then - 1 else cs_fd s) \<and> cs_trySendNum s' = 0))"
proof -
  obtain ok sent' rs'' where loop: "send_loop rs buffer (cs_trySendNum s) = (ok, sent', rs'')"
    using prod_cases3 by blast
  show ?thesis
  proof (cases "cs_closeFlag s = 0")
    case False
    with assms show ?thesis
      by (simp add: SendMsg_def split: if_splits)
  next
    case True
    then have "(r, sent, rs', s') = (if ok then (int (length buffer), sent', rs'', s\<lparr>cs_trySendNum := 0\<rparr>)
        else (- 1, sent', rs'', CloseConnNoLock (s\<lparr>cs_trySendNum := 0\<rparr>)))"
      using assms by (simp add: SendMsg_def loop Let_def split: if_splits)
    moreover have "cs_closeFlag (CloseConnNoLock t) = 1" "cs_trySendNum (CloseConnNoLock t) = cs_trySendNum t"
      "cs_closeFlag t = 0 \<Longrightarrow> cs_fd (CloseConnNoLock t) = (if 0 < cs_fd t then - 1 else cs_fd t)" for t
      by (simp_all add: CloseConnNoLock_def Let_def)
    ultimately show ?thesis
      using True send_loop_sent [OF loop] by (cases ok) simp_all
  qed
qed

definition demo_session :: session where
  "demo_session = ConnectSession_new 0 (CONNECTION_ID 5 80 9) OUTSIDE_TCP_STREAM"

lemma SendMsg_all_or_closed_witness:
  "\<exists>s'. SendMsg [SendBytes 2, SendAgain, SendFail] [1, 2, 3] demo_session = (- 1, [1, 2], [], s') \<and>
     cs_closeFlag s' = 1"
proof -
  obtain r sent rs' s' where e: "SendMsg [SendBytes 2, SendAgain, SendFail] [1, 2, 3] demo_session = (r, sent, rs', s')"
    using prod_cases4 by blast
  have "cs_closeFlag demo_session = 0" "cs_trySendNum demo_session = 0"
    by (simp_all add: demo_session_def ConnectSession_new_def)
  then have "r = - 1" "sent = [1, 2]" "rs' = []"
    using e by (simp_all add: SendMsg_def SESSION_TRYSENDNUM_def)
  with SendMsg_all_or_closed [OF e] \<open>cs_closeFlag demo_session = 0\<close> e show ?thesis
    by auto
qed

text \<open>
  \<^verbatim>\<open>SendMsg\<close> returns: as long as every successful \<^verbatim>\<open>send\<close> takes at least one
  byte, it makes at most one call per byte, 21 calls that are told to try again and one more.
\<close>

lemma SendMsg_calls_bounded:
  assumes "SendMsg rs buffer s = (r, sent, rs', s')" and "\<forall>n. SendBytes n \<in> set rs \<longrightarrow> 0 < n"
    and "0 \<le> cs_trySendNum s" and "cs_trySendNum s \<le> 20"
  shows "length rs - length rs' \<le> length buffer + 22"
proof (cases "cs_closeFlag s = 0")
  case True
  obtain ok sent' rs'' where loop: "send_loop rs buffer (cs_trySendNum s) = (ok, sent', rs'')"
    using prod_cases3 by blast
  moreover have "rs'' = rs'"
    using assms(1) True loop by (auto simp: SendMsg_def Let_def split: if_splits)
  moreover have "nat (21 - cs_trySendNum s) \<le> 21"
    using assms(3) by simp
  ultimately show ?thesis
    using send_loop_calls [OF loop assms(2-4)] by auto
next
  case False
  then show ?thesis
    using assms(1) by (auto simp: SendMsg_def split: if_splits)
qed

lemma SendMsg_calls_bounded_witness:
  "\<exists>r sent rs' s'. SendMsg (replicate 100 SendAgain) [1, 2, 3] demo_session = (r, sent, rs', s') \<and>
    length (replicate 100 SendAgain) - length rs' \<le> length [1, 2, 3 :: u8] + 22"
proof -
  obtain r sent rs' s' where e: "SendMsg (replicate 100 SendAgain) [1, 2, 3] demo_session = (r, sent, rs', s')"
    using prod_cases4 by blast
  have "0 \<le> cs_trySendNum demo_session" "cs_trySendNum demo_session \<le> 20"
    by (simp_all add: demo_session_def ConnectSession_new_def)
  from SendMsg_calls_bounded [OF e _ this] e show ?thesis
    by auto
qed

section \<open>Cutting the byte stream into messages\<close>

text \<open>The specification: the complete messages at the front of a byte stream, and what is left.\<close>

definition frame_len :: "u8 list \<Rightarrow> nat" where
  "frame_len bs = unat (usPkgLen (pkg_unpacket bs))"

function split_frames :: "u8 list \<Rightarrow> u8 list list \<times> u8 list" where
  "split_frames bs =
     (if length bs < 15 \<or> frame_len bs < 15 \<or> 65534 < frame_len bs \<or> length bs < frame_len bs
      then ([], bs)
      else let (ms, r) = split_frames (drop (frame_len bs) bs) in (take (frame_len bs) bs # ms, r))"
  by pat_completeness auto
termination
  by (relation "measure length") auto

declare split_frames.simps [simp del]

text \<open>The loop of \<^verbatim>\<open>HandleProcessPkg\<close> around \<^verbatim>\<open>GetDataPack\<close>, without the
  handlers: the messages it gets, the buffer and the code that ended it.\<close>

function drain_packs :: "u8 list \<Rightarrow> session \<Rightarrow> u8 list list \<times> u8 list \<times> int \<times> session" where
  "drain_packs data s =
     (let (r, data', n, s') = GetDataPack data 0 s
      in if r \<le> 0 then ([], data', r, s')
         else let (ms, data'', r', s'') = drain_packs data' s' in (take (nat n) data' # ms, data'', r', s''))"
  by pat_completeness auto
termination
proof (relation "measure (\<lambda>(data, s). length (cs_recv s))")
  fix data s x r x' data' x'' n s'
  assume "x = GetDataPack data 0 s" "(r, x') = x" "(data', x'') = x'" "(n, s') = x''" "\<not> r \<le> (0::int)"
  then show "((data', s'), data, s) \<in> measure (\<lambda>(data, s). length (cs_recv s))"
    by (auto simp: GetDataPack_def CheckDataPack_def Let_def split: if_splits)
qed auto

declare drain_packs.simps [simp del]

lemma GetDataPack_cases:
  assumes "cs_connType s = INSIDE_TCP_STREAM \<or> cs_connType s = OUTSIDE_TCP_STREAM"
  shows "GetDataPack data n s =
    (let bs = cs_recv s; k = frame_len bs
     in if length bs < 15 then (0, data, n, s)
        else if k < 15 \<or> 65534 < k then (- 1, data, n, s)
        else if length bs < k then (0, data, n, s)
        else (1, blit data 0 (take k bs), int k, s\<lparr>cs_recv := drop k bs\<rparr>))"
  using assms by (auto simp: GetDataPack_def CheckDataPack_def MAXSOCKBUFF_def frame_len_def Let_def)

lemma drain_split_frames:
  assumes "cs_connType s = INSIDE_TCP_STREAM \<or> cs_connType s = OUTSIDE_TCP_STREAM"
  shows "\<exists>data' r. drain_packs data s =
    (fst (split_frames (cs_recv s)), data', r, s\<lparr>cs_recv := snd (split_frames (cs_recv s))\<rparr>) \<and>
    (r < 0 \<longleftrightarrow> (let bs = snd (split_frames (cs_recv s))
       in 15 \<le> length bs \<and> (frame_len bs < 15 \<or> 65534 < frame_len bs)))"
  using assms
proof (induction data s rule: drain_packs.induct)
  case (1 data s)
  let ?bs = "cs_recv s" and ?k = "frame_len (cs_recv s)"
  note step = GetDataPack_cases [OF 1(2), of data 0, unfolded Let_def]
  show ?case
  proof (cases "length ?bs < 15 \<or> ?k < 15 \<or> 65534 < ?k \<or> length ?bs < ?k")
    case True
    then have sp: "split_frames ?bs = ([], ?bs)"
      by (subst split_frames.simps) simp
    have s: "s\<lparr>cs_recv := ?bs\<rparr> = s"
      by simp
    show ?thesis
      using True by (subst drain_packs.simps) (auto simp: step sp Let_def simp del: s)
  next
    case False
    let ?s = "s\<lparr>cs_recv := drop ?k ?bs\<rparr>" and ?data = "blit data 0 (take ?k ?bs)"
    have g: "GetDataPack data 0 s = (1, ?data, int ?k, ?s)"
      using False by (simp add: step)
    have ty: "cs_connType ?s = INSIDE_TCP_STREAM \<or> cs_connType ?s = OUTSIDE_TCP_STREAM"
      using 1(2) by simp
    obtain data' r where IH: "drain_packs ?data ?s =
        (fst (split_frames (drop ?k ?bs)), data', r, ?s\<lparr>cs_recv := snd (split_frames (drop ?k ?bs))\<rparr>)"
      "r < 0 \<longleftrightarrow> (let bs = snd (split_frames (drop ?k ?bs))
         in 15 \<le> length bs \<and> (frame_len bs < 15 \<or> 65534 < frame_len bs))"
      using 1(1) [OF g [symmetric] refl refl refl _ ty] by auto
    have sp: "split_frames ?bs = (take ?k ?bs # fst (split_frames (drop ?k ?bs)), snd (split_frames (drop ?k ?bs)))"
      using False by (subst split_frames.simps) (simp add: case_prod_unfold Let_def)
    have "take ?k ?data = take ?k ?bs"
      using False by (simp add: blit_def)
    then show ?thesis
      using IH by (subst drain_packs.simps) (auto simp: g sp)
  qed
qed

lemma frame_len_append: "15 \<le> length bs \<Longrightarrow> frame_len (bs @ c) = frame_len bs"
  by (simp add: frame_len_def pkg_unpacket_append)

text \<open>Cutting what is left together with the bytes that follow gives the rest of the cut of the
  whole: the cut does not depend on how the stream arrives.\<close>

lemma split_frames_append:
  "split_frames (bs @ c) =
    (fst (split_frames bs) @ fst (split_frames (snd (split_frames bs) @ c)),
     snd (split_frames (snd (split_frames bs) @ c)))"
proof (induction bs rule: split_frames.induct)
  case (1 bs)
  let ?k = "frame_len bs"
  show ?case
  proof (cases "length bs < 15 \<or> ?k < 15 \<or> 65534 < ?k \<or> length bs < ?k")
    case True
    then have "split_frames bs = ([], bs)"
      by (subst split_frames.simps) simp
    then show ?thesis
      by simp
  next
    case False
    have sp: "split_frames bs = (take ?k bs # fst (split_frames (drop ?k bs)), snd (split_frames (drop ?k bs)))"
      using False by (subst split_frames.simps) (simp add: case_prod_unfold Let_def)
    have "split_frames (bs @ c) = (take ?k bs # fst (split_frames (drop ?k bs @ c)), snd (split_frames (drop ?k bs @ c)))"
      using False by (subst split_frames.simps) (simp add: case_prod_unfold Let_def frame_len_append)
    then show ?thesis
      using 1 [OF False] by (simp add: sp)
  qed
qed

lemma split_frames_message:
  assumes "length body < 65520"
  shows "split_frames (pkg_message h body @ rest) =
    (pkg_message h body # fst (split_frames rest), snd (split_frames rest))"
proof -
  have "frame_len (pkg_message h body @ rest) = 15 + length body"
    using assms unat_u16_of_nat [of "15 + length body"] by (simp add: frame_len_def)
  then show ?thesis
    using assms by (subst split_frames.simps) (simp add: case_prod_unfold Let_def)
qed

lemma split_frames_messages:
  "\<forall>(h, body) \<in> set ms. length body < 65520 \<Longrightarrow>
   split_frames (concat (map (\<lambda>(h, body). pkg_message h body) ms)) = (map (\<lambda>(h, body). pkg_message h body) ms, [])"
proof (induction ms)
  case Nil
  then show ?case
    by (subst split_frames.simps) simp
next
  case (Cons m ms)
  obtain h body where m: "m = (h, body)" by (cases m)
  have len: "length body < 65520"
    using Cons.prems by (simp add: m)
  then show ?case
    using Cons split_frames_message [OF len] by (simp add: m)
qed

lemma concat_split_frames: "concat (fst (split_frames bs)) @ snd (split_frames bs) = bs"
proof (induction bs rule: split_frames.induct)
  case (1 bs)
  then show ?case
    by (subst (1 2) split_frames.simps) (auto simp: case_prod_unfold Let_def)
qed

lemma split_frames_idem: "split_frames (snd (split_frames bs)) = ([], snd (split_frames bs))"
proof (induction bs rule: split_frames.induct)
  case (1 bs)
  let ?k = "frame_len bs"
  show ?case
  proof (cases "length bs < 15 \<or> ?k < 15 \<or> 65534 < ?k \<or> length bs < ?k")
    case True
    then have "split_frames bs = ([], bs)"
      by (subst split_frames.simps) simp
    then show ?thesis
      by simp
  next
    case False
    then have "snd (split_frames bs) = snd (split_frames (drop ?k bs))"
      by (subst split_frames.simps) (simp add: case_prod_unfold Let_def)
    then show ?thesis
      using 1 [OF False] by simp
  qed
qed

text \<open>A run of the receive handler on one session: \<open>bs\<close> has arrived, in whatever pieces, and
  \<open>ms\<close> has been handed to the handlers.\<close>

inductive recv_run :: "session \<Rightarrow> u8 list \<Rightarrow> u8 list list \<Rightarrow> session \<Rightarrow> bool" for s0 where
  recv_start: "recv_run s0 [] [] s0"
| recv_again: "recv_run s0 bs ms s \<Longrightarrow> RecvMsg (RecvError True) now s = (0, s1) \<Longrightarrow> recv_run s0 bs ms s1"
| recv_bytes: "recv_run s0 bs ms s \<Longrightarrow> c \<noteq> [] \<Longrightarrow> RecvMsg (RecvBytes c) now s = (int (length c), s1) \<Longrightarrow>
    drain_packs data s1 = (ms', data', r, s2) \<Longrightarrow> recv_run s0 (bs @ c) (ms @ ms') s2"

lemma RecvMsg_bytes:
  assumes "RecvMsg (RecvBytes c) now s = (int (length c), s1)"
  shows "s1 = s\<lparr>cs_recv := cs_recv s @ c, cs_stamp := now\<rparr>"
proof -
  let ?m = "MAXSOCKBUFF - length (cs_recv s)"
  have "length (take ?m c) = length c"
    using assms by (auto simp: RecvMsg_def Let_def split: if_splits)
  then have "take ?m c = c"
    by simp
  then show ?thesis
    using assms by (auto simp: RecvMsg_def Let_def split: if_splits)
qed

lemma recv_run_split:
  assumes "recv_run s0 bs ms s" and "cs_recv s0 = []"
    and "cs_connType s0 = INSIDE_TCP_STREAM \<or> cs_connType s0 = OUTSIDE_TCP_STREAM"
  shows "split_frames bs = (ms, cs_recv s) \<and> cs_connType s = cs_connType s0"
  using assms
proof (induction rule: recv_run.induct)
  case recv_start
  then show ?case
    by (subst split_frames.simps) simp
next
  case (recv_again bs ms s now s1)
  then show ?case
    by (auto simp: RecvMsg_def split: if_splits)
next
  case (recv_bytes bs ms s c now s1 data ms' data' r s2)
  then have IH: "split_frames bs = (ms, cs_recv s)" "cs_connType s = cs_connType s0"
    by simp_all
  have s1: "s1 = s\<lparr>cs_recv := cs_recv s @ c, cs_stamp := now\<rparr>"
    using recv_bytes by (intro RecvMsg_bytes)
  have "cs_connType s1 = INSIDE_TCP_STREAM \<or> cs_connType s1 = OUTSIDE_TCP_STREAM"
    using recv_bytes.prems IH by (simp add: s1)
  from drain_split_frames [OF this, of data] recv_bytes.hyps
  have "ms' = fst (split_frames (cs_recv s1))" "s2 = s1\<lparr>cs_recv := snd (split_frames (cs_recv s1))\<rparr>"
    by auto
  then show ?case
    using split_frames_append [of bs c] IH by (simp add: s1)
qed

text \<open>Whatever front part of a stream of messages is cut gives its first messages, and what is left
  is the beginning of the next one.\<close>

lemma split_frames_prefix:
  assumes sp: "split_frames bs = (ms, rest)"
    and small: "\<forall>(h, body) \<in> set l. length body < 65520"
    and stream: "bs @ tail = concat (map (\<lambda>(h, body). pkg_message h body) l)"
  shows "\<exists>n. ms = map (\<lambda>(h, body). pkg_message h body) (take n l) \<and>
    rest @ tail = concat (map (\<lambda>(h, body). pkg_message h body) (drop n l)) \<and>
    (if n < length l then length rest < 15 + length (snd (l ! n)) else rest = [] \<and> tail = [])"
proof -
  let ?msg = "\<lambda>(h, body). pkg_message h body"
  have "split_frames (bs @ tail) = (map ?msg l, [])"
    using split_frames_messages [OF small] stream by simp
  then have l: "map ?msg l = ms @ fst (split_frames (rest @ tail))"
    and nil: "snd (split_frames (rest @ tail)) = []"
    using split_frames_append [of bs tail] sp by simp_all
  let ?n = "length ms"
  have ms: "ms = map ?msg (take ?n l)" and drop: "map ?msg (drop ?n l) = fst (split_frames (rest @ tail))"
    using l by (simp_all flip: take_map drop_map)
  have conc: "rest @ tail = concat (map ?msg (drop ?n l))"
    using concat_split_frames [of "rest @ tail"] nil drop by simp
  have "length rest < 15 + length (snd (l ! ?n))" if n: "?n < length l"
  proof (rule ccontr)
    assume long: "\<not> length rest < 15 + length (snd (l ! ?n))"
    obtain h body where m: "l ! ?n = (h, body)" by fastforce
    have len: "length body < 65520"
      using small n m by (metis (mono_tags, lifting) case_prodD nth_mem)
    have "rest @ tail = pkg_message h body @ concat (map ?msg (drop (Suc ?n) l))"
      using conc Cons_nth_drop_Suc [OF n] m by (metis (no_types, lifting) case_prod_conv concat.simps(2) list.simps(9))
    then have "\<exists>r. rest = pkg_message h body @ r"
      using long m by (auto simp: append_eq_append_conv2) (metis append_Nil2 append_eq_append_conv_if
        length_append le_add1 length_pkg_message linorder_not_less snd_conv)
    then obtain r where "rest = pkg_message h body @ r" ..
    then have "fst (split_frames rest) \<noteq> []"
      using split_frames_message [OF len] by simp
    moreover have "split_frames rest = ([], rest)"
      using split_frames_idem [of bs] sp by simp
    ultimately show False
      by simp
  qed
  moreover have "rest = [] \<and> tail = []" if "\<not> ?n < length l"
    using conc that by simp
  ultimately show ?thesis
    using ms conc by (intro exI [of _ ?n]) auto
qed

text \<open>The same with the count bounded: what is missing of the next message is still to come.\<close>

lemma split_frames_count:
  assumes "split_frames bs = (ms, rest)" and "\<forall>(h, body) \<in> set l. length body < 65520"
    and "bs @ tail = concat (map (\<lambda>(h, body). pkg_message h body) l)"
  shows "\<exists>n \<le> length l. ms = map (\<lambda>(h, body). pkg_message h body) (take n l) \<and>
    rest @ tail = concat (map (\<lambda>(h, body). pkg_message h body) (drop n l)) \<and>
    (if n < length l then length rest < 15 + length (snd (l ! n)) \<and> tail \<noteq> [] else rest = [] \<and> tail = [])"
proof -
  obtain n where n: "ms = map (\<lambda>(h, body). pkg_message h body) (take n l)"
      "rest @ tail = concat (map (\<lambda>(h, body). pkg_message h body) (drop n l))"
      "if n < length l then length rest < 15 + length (snd (l ! n)) else rest = [] \<and> tail = []"
    using split_frames_prefix [OF assms] by blast
  have "tail \<noteq> []" if less: "n < length l"
  proof
    assume "tail = []"
    moreover obtain h body where m: "l ! n = (h, body)"
      by fastforce
    moreover have "rest @ tail = pkg_message h body @ concat (map (\<lambda>(h, body). pkg_message h body) (drop (Suc n) l))"
      using n(2) Cons_nth_drop_Suc [OF less, symmetric] m by simp
    ultimately have "15 + length body \<le> length rest"
      by simp
    then show False
      using n(3) less m by simp
  qed
  then show ?thesis
    using n by (intro exI [of _ "min n (length l)"]) (auto simp: min_def)
qed

text \<open>
  C19: messages come out of a connection as they went in, however TCP cuts the stream. When the peer
  sends the messages \<open>l\<close>, each of at most 65534 bytes, and some front part of that stream has
  arrived, the handlers have been given exactly the first of those messages, unchanged and in order;
  what is held back is the beginning of the next one and shorter than it.
\<close>

theorem stream_reassembly:
  assumes "recv_run s0 bs ms s" and "cs_recv s0 = []"
    and "cs_connType s0 = INSIDE_TCP_STREAM \<or> cs_connType s0 = OUTSIDE_TCP_STREAM"
    and "\<forall>(h, body) \<in> set l. length body < 65520"
    and "bs @ tail = concat (map (\<lambda>(h, body). pkg_message h body) l)"
  shows "\<exists>n. ms = map (\<lambda>(h, body). pkg_message h body) (take n l) \<and>
    cs_recv s @ tail = concat (map (\<lambda>(h, body). pkg_message h body) (drop n l)) \<and>
    (if n < length l then length (cs_recv s) < 15 + length (snd (l ! n)) else cs_recv s = [] \<and> tail = [])"
  using split_frames_prefix [OF conjunct1 [OF recv_run_split [OF assms(1-3)]] assms(4,5)] .

definition demo_head :: pkg_head where
  "demo_head = \<lparr>usPkgLen = 0, ucDirection = 1, ucSrvType = 1, ucSrvSeq = 1, usMsgType = 300,
     uiUniqID = 4, uiRoleID = 0\<rparr>"

text \<open>Whatever arrives first on a fresh session makes a run.\<close>

lemma demo_recv:
  assumes "c \<noteq> []" and "length c \<le> 65535"
  shows "\<exists>ms s. recv_run demo_session c ms s"
proof -
  let ?s = "demo_session\<lparr>cs_recv := c, cs_stamp := 1\<rparr>"
  obtain ms data r' s where d: "drain_packs [] ?s = (ms, data, r', s)"
    using prod_cases4 by blast
  have r: "RecvMsg (RecvBytes c) 1 demo_session = (int (length c), ?s)"
    using assms by (simp add: RecvMsg_def demo_session_def ConnectSession_new_def MAXSOCKBUFF_def Let_def)
  from recv_bytes [OF recv_start assms(1) r d] show ?thesis
    by auto
qed

text \<open>Two messages of which the first and five bytes of the second have arrived.\<close>

lemma demo_run:
  "\<exists>ms s. recv_run demo_session (pkg_message demo_head [7, 8] @ take 5 (pkg_message demo_head [9])) ms s"
  by (rule demo_recv) (simp_all flip: length_greater_0_conv)

theorem stream_reassembly_witness:
  "\<exists>ms s n. recv_run demo_session (pkg_message demo_head [7, 8] @ take 5 (pkg_message demo_head [9])) ms s \<and>
    ms = map (\<lambda>(h, body). pkg_message h body) (take n [(demo_head, [7, 8]), (demo_head, [9])]) \<and> n \<le> 2"
proof -
  let ?l = "[(demo_head, [7, 8]), (demo_head, [9])] :: (pkg_head \<times> u8 list) list"
  obtain ms s where run: "recv_run demo_session
      (pkg_message demo_head [7, 8] @ take 5 (pkg_message demo_head [9])) ms s"
    using demo_run by blast
  have "cs_recv demo_session = []" "cs_connType demo_session = OUTSIDE_TCP_STREAM"
    by (simp_all add: demo_session_def ConnectSession_new_def)
  then obtain n where n: "ms = map (\<lambda>(h, body). pkg_message h body) (take n ?l)"
    using stream_reassembly [OF run, of ?l "drop 5 (pkg_message demo_head [9])"] by auto
  have "take n ?l = take (min n 2) ?l"
    by (cases "n \<le> 2") (auto simp: min_def)
  then show ?thesis
    using run n by (intro exI [of _ ms] exI [of _ s] exI [of _ "min n 2"]) auto
qed

text \<open>The servers' messages are the gateway's messages.\<close>

definition head_of_packet :: "packet \<Rightarrow> pkg_head" where
  "head_of_packet p = \<lparr>usPkgLen = p_Length p, ucDirection = p_Direction p, ucSrvType = p_SvrType p,
     ucSrvSeq = p_SvrSeq p, usMsgType = p_MsgType p, uiUniqID = p_UniqID p, uiRoleID = p_RoleID p\<rparr>"

lemma frame_is_message: "frame p body = pkg_message (head_of_packet p) body"
  by (simp add: frame_def pkg_message_def header_bytes_def pkg_packet_def head_of_packet_def)

end
