(* ===== verification/Our_Def.thy ===== *)
theory Our_Def
  imports Prelude
begin

text \<open>
  The constants of \<^verbatim>\<open>Framework/BaseCommon/OurDef.h\<close> that the protocol between
  gateway, servers and clients uses: server types, message types, directions and error codes.
\<close>

definition SVRTYPE_MAIN :: u8 where "SVRTYPE_MAIN = 1"
definition SVRSEQ_MAIN :: u8 where "SVRSEQ_MAIN = 1"
definition MSGTYPE_GW_SVRCONNECT :: u16 where "MSGTYPE_GW_SVRCONNECT = 101"
definition MSGTYPE_GW_CLOSECLIENT :: u16 where "MSGTYPE_GW_CLOSECLIENT = 102"
definition MSGTYPE_CS_ROLELOGIN :: u16 where "MSGTYPE_CS_ROLELOGIN = 101"
definition MSGTYPE_CS_ROLELOGOUT :: u16 where "MSGTYPE_CS_ROLELOGOUT = 104"
definition DIRECT_C_S_REQ :: u8 where "DIRECT_C_S_REQ = 1"
definition DIRECT_C_S_RESP :: u8 where "DIRECT_C_S_RESP = 2"
definition DIRECT_S_C_REQ :: u8 where "DIRECT_S_C_REQ = 3"
definition DIRECT_S_C_RESP :: u8 where "DIRECT_S_C_RESP = 4"
definition DIRECT_S_S_REQ :: u8 where "DIRECT_S_S_REQ = 5"
definition DIRECT_S_S_RESP :: u8 where "DIRECT_S_S_RESP = 6"
definition ERR_SYSTEM_SVRNOTSTART :: u32 where "ERR_SYSTEM_SVRNOTSTART = 4"
definition ERR_SYSTEM_DBNORECORD :: u32 where "ERR_SYSTEM_DBNORECORD = 6"
definition ERR_SYSTEM_SERERROR :: u32 where "ERR_SYSTEM_SERERROR = 7"
definition ERR_SYSTEM_SVRLOGINED :: u32 where "ERR_SYSTEM_SVRLOGINED = 8"
definition ERR_SYSTEM_SVRACCESS :: u32 where "ERR_SYSTEM_SVRACCESS = 9"
definition ERR_SYSTEM_ROLENOTLOGIN :: u32 where "ERR_SYSTEM_ROLENOTLOGIN = 10"
definition ERR_SYSTEM_PARAM :: u32 where "ERR_SYSTEM_PARAM = 12"
definition GW_CONNCLOSe_INTERNAL :: int where "GW_CONNCLOSe_INTERNAL = 1"
definition PACKET_HEADER_LENGTH :: u32 where "PACKET_HEADER_LENGTH = 15"

end
