(* ===== verification/App_Gateway.thy ===== *)
theory App_Gateway
  imports Connect_Session Our_Def
begin

text \<open>
  \<^verbatim>\<open>Gateway/AppGwSvc.cpp\<close>: the tables of the gateway and the handlers that route
  messages between clients and servers. A \<^verbatim>\<open>ConnectSession*\<close> is a number, zero for
  \<^verbatim>\<open>NULL\<close>, and \<open>gw_heap\<close> holds the objects. What the kernel does is part of the
  state: \<open>gw_sends\<close> are the results the next \<^verbatim>\<open>send\<close> calls will have and
  \<open>gw_out\<close> is what each connection was sent, by connection number. \<open>now\<close> is
  \<^verbatim>\<open>time(NULL)\<close>. The handlers run one after the other; registering with
  \<^verbatim>\<open>epoll\<close> and logging have no part in the state.  \<open>gw_freed\<close> are the sessions
  that have been deleted.  \<open>gw_srv\<close> is the memory of the array \<^verbatim>\<open>_iSrvFd\<close> of 255 rows
  and columns, by offset; a write before its start has no result (\<open>None\<close>).
\<close>

record gateway =
  gw_heap :: "nat \<Rightarrow> session"
  gw_next :: nat
  gw_fds :: "(int, nat) smap"
  gw_roles :: "(u32, int) smap"
  gw_ips :: "(u32, int) smap"
  gw_srv :: "int \<Rightarrow> int"
  gw_freed :: "nat list"
  gw_queue :: "i64 list"
  gw_listenIn :: int
  gw_listenOut :: int
  gw_limit :: int
  gw_sends :: "send_result list"
  gw_out :: "(i64 \<times> u8 list) list"

text \<open>The constructor: all server slots are -1. \<open>limit\<close> is \<^verbatim>\<open>ini.ip_connect_limit\<close>.\<close>

definition AppGwSvc_new :: "int \<Rightarrow> gateway" where
  "AppGwSvc_new limit = \<lparr>gw_heap = \<lambda>_. ConnectSession_new 0 0 0, gw_next = 1, gw_fds = [],
     gw_roles = [], gw_ips = [], gw_srv = \<lambda>_. - 1, gw_freed = [], gw_queue = [], gw_listenIn = 0,
     gw_listenOut = 0, gw_limit = limit, gw_sends = [], gw_out = []\<rparr>"

definition sess :: "nat \<Rightarrow> gateway \<Rightarrow> session" where
  "sess p g = gw_heap g p"

definition upd_sess :: "nat \<Rightarrow> (session \<Rightarrow> session) \<Rightarrow> gateway \<Rightarrow> gateway" where
  "upd_sess p f g = g\<lparr>gw_heap := (gw_heap g)(p := f (gw_heap g p))\<rparr>"

text \<open>\<^verbatim>\<open>s->SendMsg(buf, size)\<close> on a session of the heap.\<close>

definition gw_send :: "nat \<Rightarrow> u8 list \<Rightarrow> gateway \<Rightarrow> int \<times> gateway" where
  "gw_send p buf g =
     (let (r, sent, rs, s) = SendMsg (gw_sends g) buf (sess p g)
      in (r, g\<lparr>gw_heap := (gw_heap g)(p := s), gw_sends := rs,
               gw_out := gw_out g @ [(cs_connID (sess p g), sent)]\<rparr>))"

section \<open>The tables\<close>

definition FindFdConnSession :: "int \<Rightarrow> gateway \<Rightarrow> nat" where
  "FindFdConnSession fd g = (case smap_find fd (gw_fds g) of None \<Rightarrow> 0 | Some p \<Rightarrow> p)"

definition FindUserFd :: "u32 \<Rightarrow> gateway \<Rightarrow> int" where
  "FindUserFd roleid g = (case smap_find roleid (gw_roles g) of None \<Rightarrow> 0 | Some fd \<Rightarrow> fd)"

definition FindRoleConnSession :: "u32 \<Rightarrow> gateway \<Rightarrow> nat" where
  "FindRoleConnSession roleid g =
     (let fd = FindUserFd roleid g in if fd = 0 then 0 else FindFdConnSession fd g)"

definition UpdateUserFdMap :: "u32 \<Rightarrow> int \<Rightarrow> gateway \<Rightarrow> gateway" where
  "UpdateUserFdMap roleid fd g =
     (case smap_find roleid (gw_roles g) of
        None \<Rightarrow> g
      | Some _ \<Rightarrow> g\<lparr>gw_roles := smap_put roleid fd (gw_roles g)\<rparr>)"

definition InsertUserFdMap :: "u32 \<Rightarrow> int \<Rightarrow> gateway \<Rightarrow> gateway" where
  "InsertUserFdMap roleid fd g = g\<lparr>gw_roles := smap_insert roleid fd (gw_roles g)\<rparr>"

definition RemoveRoleFdMap :: "u32 \<Rightarrow> gateway \<Rightarrow> int \<times> gateway" where
  "RemoveRoleFdMap roleid g =
     (if roleid = 0 then (0, g)
      else case smap_find roleid (gw_roles g) of
        None \<Rightarrow> (- 1, g)
      | Some _ \<Rightarrow> (0, g\<lparr>gw_roles := smap_erase roleid (gw_roles g)\<rparr>))"

definition InsertConnSession :: "nat \<Rightarrow> gateway \<Rightarrow> gateway" where
  "InsertConnSession p g =
     g\<lparr>gw_fds := smap_insert (CONNECTION_FD (cs_connID (sess p g))) p (gw_fds g)\<rparr>"

definition CheckIpCount :: "u32 \<Rightarrow> gateway \<Rightarrow> int \<times> gateway" where
  "CheckIpCount ip g =
     (case smap_find ip (gw_ips g) of
        None \<Rightarrow> (0, g\<lparr>gw_ips := smap_put ip 1 (gw_ips g)\<rparr>)
      | Some n \<Rightarrow> if gw_limit g < n then (- 1, g)
                  else (0, g\<lparr>gw_ips := smap_put ip (n + 1) (gw_ips g)\<rparr>))"

definition check_srv_scope :: "u8 \<Rightarrow> u8 \<Rightarrow> int" where
  "check_srv_scope ty sq = (if ty = 0 \<or> sq = 0 then - 1 else 0)"

definition srv_offset :: "u8 \<Rightarrow> u8 \<Rightarrow> int" where
  "srv_offset ty sq = 255 * (uint ty - 1) + (uint sq - 1)"

definition srv_fd :: "u8 \<Rightarrow> u8 \<Rightarrow> gateway \<Rightarrow> int" where
  "srv_fd ty sq g = gw_srv g (srv_offset ty sq)"

definition set_srv_fd :: "u8 \<Rightarrow> u8 \<Rightarrow> int \<Rightarrow> gateway \<Rightarrow> gateway" where
  "set_srv_fd ty sq fd g =
     g\<lparr>gw_srv := (gw_srv g)(srv_offset ty sq := fd)\<rparr>"

definition CloseMarkConnSession :: "u32 \<Rightarrow> nat \<Rightarrow> gateway \<Rightarrow> gateway" where
  "CloseMarkConnSession now p g =
     (let g1 = upd_sess p (\<lambda>s. CloseConn (SetStamp now s)) g
      in g1\<lparr>gw_queue := gw_queue g1 @ [cs_connID (sess p g1)]\<rparr>)"

definition check_timeout :: "u32 \<Rightarrow> nat \<Rightarrow> int \<Rightarrow> gateway \<Rightarrow> gateway" where
  "check_timeout now p timeout g =
     (if cs_connType (sess p g) \<noteq> OUTSIDE_TCP_STREAM then g
      else let difftime = sint (now - cs_stamp (sess p g))
           in if timeout < difftime \<or> difftime < 0 then CloseMarkConnSession now p g else g)"

section \<open>Composing messages\<close>

definition compose :: "pkg_head \<Rightarrow> u8 list \<Rightarrow> pkg_buff" where
  "compose h body =
     PkgBuff_EncodeLength (PkgBuff_Append body (length body) (PkgBuff_Append (pkg_packet h) 15 (PkgBuff_Clear [])))"

lemma compose_message: "compose h body = pkg_message h body"
  unfolding compose_def by (rule EncodeLength_Append)

definition MakeClientAckPkg :: "pkg_head \<Rightarrow> u32 \<Rightarrow> pkg_buff" where
  "MakeClientAckPkg h uiRetCode = compose h (bytes_of_word 4 uiRetCode)"

text \<open>An answer to the requesting client, whose connection is closed when it cannot be sent.\<close>

definition send_or_close :: "u32 \<Rightarrow> nat \<Rightarrow> pkg_buff \<Rightarrow> gateway \<Rightarrow> gateway" where
  "send_or_close now p buf g =
     (let (iSend, g1) = gw_send p buf g in if iSend < 0 then CloseMarkConnSession now p g1 else g1)"

section \<open>Server to gateway\<close>

definition ProcessS2G :: "u32 \<Rightarrow> nat \<Rightarrow> u8 list \<Rightarrow> gateway \<Rightarrow> gateway" where
  "ProcessS2G now req pkg g =
     (let h = pkg_unpacket pkg
      in if usMsgType h = MSGTYPE_GW_SVRCONNECT \<and> ucDirection h = DIRECT_S_S_REQ then
           let ty = word_of_bytes (take 1 (drop 15 pkg)) :: u8;
               sq = word_of_bytes (take 1 (drop 16 pkg)) :: u8
           in if check_srv_scope ty sq \<noteq> 0 then g
              else let srvfd = srv_fd ty sq g;
                       uiRetCode = (if 0 < srvfd then ERR_SYSTEM_SVRLOGINED else 0);
                       buf = compose (h\<lparr>ucDirection := DIRECT_S_S_RESP\<rparr>) (bytes_of_word 4 uiRetCode);
                       (iSend, g1) = gw_send req buf g
                   in if iSend < 0 then CloseMarkConnSession now req g1
                      else if PkgBuff_GetSize buf = iSend then
                        if 0 < srvfd then g1
                        else upd_sess req (\<lambda>s. SetLoginStatus 1 (SetSrvSeq sq (SetSrvType ty s)))
                               (set_srv_fd ty sq (CONNECTION_FD (cs_connID (sess req g1))) g1)
                      else g1
         else if usMsgType h = MSGTYPE_GW_CLOSECLIENT \<and> ucDirection h = DIRECT_S_S_REQ then
           let client = FindRoleConnSession (uiRoleID h) g
           in if client \<noteq> 0 then CloseMarkConnSession now client g else g
         else g)"

section \<open>Client to server\<close>

text \<open>The login request of the inner network: the outer body of 44 bytes and the connection number.\<close>

definition login_request :: "pkg_head \<Rightarrow> u8 list \<Rightarrow> session \<Rightarrow> pkg_buff" where
  "login_request h pkg s =
     compose (h\<lparr>uiRoleID := word_of_bytes (take 4 (drop 15 pkg))\<rparr>)
       (take 44 (drop 15 pkg) @ bytes_of_word 8 (cs_connID s))"

definition relayed_request :: "pkg_head \<Rightarrow> u8 list \<Rightarrow> session \<Rightarrow> pkg_buff" where
  "relayed_request h pkg s =
     compose (h\<lparr>uiRoleID := cs_roleID s\<rparr>) (take (unat (usPkgLen h) - 15) (drop 15 pkg))"

definition ProcessC2S :: "u32 \<Rightarrow> nat \<Rightarrow> u8 list \<Rightarrow> gateway \<Rightarrow> gateway" where
  "ProcessC2S now req pkg g =
     (let h = pkg_unpacket pkg
      in if check_srv_scope (ucSrvType h) (ucSrvSeq h) \<noteq> 0 then g
         else let srvfd = srv_fd (ucSrvType h) (ucSrvSeq h) g
              in if srvfd \<le> 0 then
                   send_or_close now req
                     (MakeClientAckPkg (h\<lparr>ucDirection := DIRECT_C_S_RESP\<rparr>) ERR_SYSTEM_SVRNOTSTART) g
                 else let srv = FindFdConnSession srvfd g
                      in if srv = 0 then g
                         else if ucDirection h \<noteq> DIRECT_C_S_REQ then g
                         else let login = (ucSrvType h = SVRTYPE_MAIN \<and> usMsgType h = MSGTYPE_CS_ROLELOGIN)
                              in if \<not> login \<and> cs_loginStatus (sess req g) = 0 then
                                   send_or_close now req
                                     (MakeClientAckPkg (h\<lparr>ucDirection := DIRECT_C_S_RESP, uiRoleID := 0\<rparr>)
                                        ERR_SYSTEM_ROLENOTLOGIN) g
                                 else let buf = (if login then login_request h pkg (sess req g)
                                                 else relayed_request h pkg (sess req g));
                                          (iSend, g1) = gw_send srv buf g
                                      in if iSend < 0 then
                                           send_or_close now req
                                             (MakeClientAckPkg (h\<lparr>ucDirection := DIRECT_C_S_RESP\<rparr>) ERR_SYSTEM_SVRACCESS)
                                             (CloseMarkConnSession now srv g1)
                                         else g1)"

section \<open>Server to client\<close>

text \<open>The role login answer of the main server: return code, role and connection number.\<close>

definition login_answer :: "u32 \<Rightarrow> nat \<Rightarrow> nat \<Rightarrow> u32 \<Rightarrow> i64 \<Rightarrow> gateway \<Rightarrow> gateway" where
  "login_answer now client logined roleID llClientId g =
     (let g1 = (if logined \<noteq> 0 \<and> cs_loginStatus (sess logined g) \<noteq> 0 \<and> logined \<noteq> client
                then CloseMarkConnSession now logined
                       (upd_sess logined (SetIsSameUser 1)
                         (UpdateUserFdMap roleID (CONNECTION_FD llClientId) g))
                else InsertUserFdMap roleID (CONNECTION_FD llClientId) g)
      in upd_sess client (\<lambda>s. SetRoleID roleID (SetLoginStatus 1 (SetSrvType 0 s))) g1)"

definition send_to_client :: "u32 \<Rightarrow> nat \<Rightarrow> pkg_buff \<Rightarrow> gateway \<Rightarrow> gateway" where
  "send_to_client now client buf g =
     (let (iSend, g1) = gw_send client buf g
      in if iSend = - 1 then CloseMarkConnSession now client g1 else g1)"

definition ProcessS2C :: "u32 \<Rightarrow> nat \<Rightarrow> u8 list \<Rightarrow> gateway \<Rightarrow> gateway" where
  "ProcessS2C now req pkg g =
     (let h = pkg_unpacket pkg; tran = h\<lparr>uiRoleID := 0\<rparr>
      in if check_srv_scope (ucSrvType h) (ucSrvSeq h) \<noteq> 0 then g
         else if ucDirection h = DIRECT_C_S_RESP \<and> ucSrvType h = SVRTYPE_MAIN \<and>
                 usMsgType h = MSGTYPE_CS_ROLELOGIN then
           let retcode = word_of_bytes (take 4 (drop 15 pkg)) :: u32;
               roleID = word_of_bytes (take 4 (drop 19 pkg)) :: u32;
               llClientId = word_of_bytes (take 8 (drop 23 pkg)) :: i64;
               client = FindFdConnSession (CONNECTION_FD llClientId) g
           in if client = 0 then g
              else let g1 = (if retcode = 0
                             then login_answer now client (FindRoleConnSession roleID g) roleID llClientId g
                             else g)
                   in send_to_client now client
                        (compose tran (bytes_of_word 4 retcode @ bytes_of_word 4 roleID)) g1
         else let client = FindRoleConnSession (uiRoleID h) g
              in if client = 0 then g
                 else send_to_client now client
                        (compose tran (take (unat (usPkgLen h) - 15) (drop 15 pkg))) g)"

section \<open>Closing connections\<close>

definition NotifyClientClosed :: "nat \<Rightarrow> gateway \<Rightarrow> gateway" where
  "NotifyClientClosed p g =
     (let srvfd = srv_fd SVRTYPE_MAIN SVRSEQ_MAIN g
      in if srvfd = - 1 then g
         else case smap_find srvfd (gw_fds g) of
           None \<Rightarrow> g
         | Some ol \<Rightarrow>
             if cs_isSameUser (sess p g) \<noteq> 0 then g
             else if cs_roleID (sess p g) = 0 then g
             else snd (gw_send ol (compose
                    \<lparr>usPkgLen = 0, ucDirection = DIRECT_C_S_REQ, ucSrvType = SVRTYPE_MAIN, ucSrvSeq = 1,
                     usMsgType = MSGTYPE_CS_ROLELOGOUT, uiUniqID = 111,
                     uiRoleID = cs_roleID (sess p g)\<rparr> []) g))"

definition drop_ip_count :: "u32 \<Rightarrow> gateway \<Rightarrow> gateway" where
  "drop_ip_count ip g =
     (case smap_find ip (gw_ips g) of
        None \<Rightarrow> g
      | Some n \<Rightarrow> if n - 1 \<le> 0 then g\<lparr>gw_ips := smap_erase ip (gw_ips g)\<rparr>
                  else g\<lparr>gw_ips := smap_put ip (n - 1) (gw_ips g)\<rparr>)"

text \<open>One turn of the loop of \<^verbatim>\<open>RemoveConnSession\<close>.  A session of a server that is marked
  as logged in may have type and number 0 (a login answer that names its descriptor sets them); its slot then
  is before the array.\<close>

definition remove_one :: "u32 \<Rightarrow> i64 \<Rightarrow> gateway \<Rightarrow> gateway option" where
  "remove_one now llConId g =
     (let fd = CONNECTION_FD llConId
      in case smap_find fd (gw_fds g) of
           None \<Rightarrow> Some g
         | Some p \<Rightarrow>
             if uint now - uint (cs_stamp (sess p g)) < GW_CONNCLOSe_INTERNAL
             then Some (g\<lparr>gw_queue := gw_queue g @ [llConId]\<rparr>)
             else do {
               let s = sess p g;
               g1 \<leftarrow> (if cs_connType s = INSIDE_TCP_STREAM then
                       if cs_loginStatus s \<noteq> 0 then
                         if srv_offset (cs_srvType s) (cs_srvSeq s) < 0 then None
                         else Some (set_srv_fd (cs_srvType s) (cs_srvSeq s) (- 1) g)
                       else Some g
                     else if cs_connType s = OUTSIDE_TCP_STREAM then
                       Some (drop_ip_count (ucast (CONNECTION_IP (cs_connID s)))
                         (if cs_isSameUser s = 0
                          then snd (RemoveRoleFdMap (cs_roleID s) (NotifyClientClosed p g)) else g))
                     else Some g);
               Some (g1\<lparr>gw_fds := smap_erase fd (gw_fds g1), gw_freed := p # gw_freed g1\<rparr>)
             })"

primrec remove_loop :: "nat \<Rightarrow> u32 \<Rightarrow> gateway \<Rightarrow> gateway option" where
  "remove_loop 0 now g = Some g"
| "remove_loop (Suc n) now g =
     (case gw_queue g of
        [] \<Rightarrow> Some g
      | c # cs \<Rightarrow> remove_one now c (g\<lparr>gw_queue := cs\<rparr>) \<bind> remove_loop n now)"

definition RemoveConnSession :: "u32 \<Rightarrow> gateway \<Rightarrow> gateway option" where
  "RemoveConnSession now g = remove_loop (length (gw_queue g)) now g"

section \<open>New connections\<close>

text \<open>The results of \<^verbatim>\<open>accept\<close>: a descriptor with the peer's address and port, no more
  connections or no more descriptors, another error.\<close>

datatype accept_result = AcceptConn i32 u32 u16 | AcceptStop | AcceptError

definition accept_one :: "u32 \<Rightarrow> int \<Rightarrow> i32 \<Rightarrow> u32 \<Rightarrow> u16 \<Rightarrow> gateway \<Rightarrow> gateway" where
  "accept_one now lsfd connFd ip port g =
     (let (r, g1) = (if lsfd = gw_listenOut g then CheckIpCount ip g else (0, g))
      in if r \<noteq> 0 then g1
         else let ty = (if lsfd = gw_listenIn g then INSIDE_TCP_STREAM else OUTSIDE_TCP_STREAM);
                  p = gw_next g1;
                  s = ConnectSession_new now (CONNECTION_ID ip port connFd) ty
              in if BuffInitCheck s \<noteq> 0 then g1
                 else InsertConnSession p (g1\<lparr>gw_heap := (gw_heap g1)(p := s), gw_next := p + 1\<rparr>))"

fun HandleAccept :: "u32 \<Rightarrow> int \<Rightarrow> accept_result list \<Rightarrow> gateway \<Rightarrow> gateway" where
  "HandleAccept now lsfd [] g = g"
| "HandleAccept now lsfd (AcceptStop # rs) g = g"
| "HandleAccept now lsfd (AcceptError # rs) g = HandleAccept now lsfd rs g"
| "HandleAccept now lsfd (AcceptConn fd ip port # rs) g =
     HandleAccept now lsfd rs (accept_one now lsfd fd ip port g)"

section \<open>A readable connection\<close>

definition dispatch :: "u32 \<Rightarrow> nat \<Rightarrow> u8 list \<Rightarrow> gateway \<Rightarrow> gateway" where
  "dispatch now p buf g =
     (let dir = ucDirection (pkg_unpacket buf); ty = cs_connType (sess p g)
      in if ty = INSIDE_TCP_STREAM then
           if dir = DIRECT_C_S_RESP \<or> dir = DIRECT_S_C_REQ then ProcessS2C now p buf g
           else if dir = DIRECT_S_S_REQ then ProcessS2G now p buf g
           else g
         else if ty = OUTSIDE_TCP_STREAM then
           if dir = DIRECT_C_S_REQ \<or> dir = DIRECT_S_C_RESP then ProcessC2S now p buf g else g
         else CloseMarkConnSession now p g)"

text \<open>The loop over the complete messages; \<open>None\<close> when the fuel is used up.\<close>

primrec handle_packs :: "nat \<Rightarrow> u32 \<Rightarrow> nat \<Rightarrow> u8 list \<Rightarrow> gateway \<Rightarrow> (u8 list \<times> gateway) option" where
  "handle_packs 0 now p buf g = None"
| "handle_packs (Suc k) now p buf g =
     (let (r, buf1, n, s) = GetDataPack buf 0 (sess p g); g1 = upd_sess p (\<lambda>_. s) g
      in if r = 0 then Some (buf1, g1)
         else if r < 0 then Some (buf1, CloseMarkConnSession now p g1)
         else handle_packs k now p buf1 (dispatch now p buf1 g1))"

definition HandleProcessPkg :: "u32 \<Rightarrow> int \<Rightarrow> recv_result \<Rightarrow> u8 list \<Rightarrow> gateway \<Rightarrow> (u8 list \<times> gateway) option" where
  "HandleProcessPkg now fd res buf g =
     (let p = FindFdConnSession fd g
      in if p = 0 then Some (buf, g)
         else if cs_closeFlag (sess p g) \<noteq> 0 then Some (buf, g)
         else let (r, s) = RecvMsg res now (sess p g); g1 = upd_sess p (\<lambda>_. s) g
              in if r = 0 then Some (buf, g1)
                 else if r < 0 then Some (buf, CloseMarkConnSession now p g1)
                 else handle_packs (Suc (length (cs_recv s))) now p buf g1)"

section \<open>What the building blocks leave alone\<close>

named_theorems gw

lemma sess_upd [gw]: "sess q (upd_sess p f g) = (if q = p then f (sess p g) else sess q g)"
  by (simp add: sess_def upd_sess_def)

lemma upd_sess_tables [gw]:
  "gw_next (upd_sess p f g) = gw_next g" "gw_fds (upd_sess p f g) = gw_fds g"
  "gw_roles (upd_sess p f g) = gw_roles g" "gw_ips (upd_sess p f g) = gw_ips g"
  "gw_srv (upd_sess p f g) = gw_srv g" "gw_queue (upd_sess p f g) = gw_queue g"
  "gw_limit (upd_sess p f g) = gw_limit g" "gw_out (upd_sess p f g) = gw_out g"
  "gw_sends (upd_sess p f g) = gw_sends g" "gw_freed (upd_sess p f g) = gw_freed g"
  "gw_listenIn (upd_sess p f g) = gw_listenIn g" "gw_listenOut (upd_sess p f g) = gw_listenOut g"
  by (simp_all add: upd_sess_def)

text \<open>\<open>same_session\<close>: the sessions agree on everything but the state of the socket.\<close>

definition same_session :: "session \<Rightarrow> session \<Rightarrow> bool" where
  "same_session s t = (cs_connType s = cs_connType t \<and> cs_connID s = cs_connID t \<and> cs_recv s = cs_recv t \<and>
     cs_loginStatus s = cs_loginStatus t \<and> cs_roleID s = cs_roleID t \<and> cs_isSameUser s = cs_isSameUser t \<and>
     cs_srvType s = cs_srvType t \<and> cs_srvSeq s = cs_srvSeq t)"

lemma same_session_refl [simp]: "same_session s s"
  by (simp add: same_session_def)

lemma same_session_trans: "same_session s t \<Longrightarrow> same_session t u \<Longrightarrow> same_session s u"
  by (simp add: same_session_def)

lemma same_CloseConnNoLock: "same_session (CloseConnNoLock s) s"
  by (simp add: same_session_def CloseConnNoLock_def Let_def)

lemma same_SendMsg: "SendMsg rs b s = (r, sent, rs', s') \<Longrightarrow> same_session s' s"
  using same_CloseConnNoLock [of "s\<lparr>cs_trySendNum := 0\<rparr>"]
  by (auto simp: SendMsg_def Let_def same_session_def split: if_splits prod.splits)

lemma gw_send_facts:
  "sess q (snd (gw_send p b g)) = (if q = p then snd (snd (snd (SendMsg (gw_sends g) b (sess p g)))) else sess q g)"
  "gw_next (snd (gw_send p b g)) = gw_next g" "gw_fds (snd (gw_send p b g)) = gw_fds g"
  "gw_roles (snd (gw_send p b g)) = gw_roles g" "gw_ips (snd (gw_send p b g)) = gw_ips g"
  "gw_srv (snd (gw_send p b g)) = gw_srv g" "gw_limit (snd (gw_send p b g)) = gw_limit g"
  "gw_listenIn (snd (gw_send p b g)) = gw_listenIn g" "gw_listenOut (snd (gw_send p b g)) = gw_listenOut g"
  "gw_queue (snd (gw_send p b g)) = gw_queue g" "gw_freed (snd (gw_send p b g)) = gw_freed g"
  by (auto simp: gw_send_def sess_def split: prod.splits)

lemma same_gw_send: "same_session (sess q (snd (gw_send p b g))) (sess q g)"
  using same_SendMsg [of "gw_sends g" b "sess p g"]
  by (cases "SendMsg (gw_sends g) b (sess p g)") (auto simp: gw_send_facts)

lemma gw_send_out:
  "\<exists>sent rest. gw_out (snd (gw_send p b g)) = gw_out g @ [(cs_connID (sess p g), sent)] \<and> b = sent @ rest"
proof -
  obtain r sent rs s' where e: "SendMsg (gw_sends g) b (sess p g) = (r, sent, rs, s')"
    using prod_cases4 by blast
  obtain ok snt rs' where l: "send_loop (gw_sends g) b (cs_trySendNum (sess p g)) = (ok, snt, rs')"
    using prod_cases3 by blast
  have "\<exists>rest. b = sent @ rest"
  proof (cases "cs_closeFlag (sess p g) = 0")
    case True
    then have "sent = snt"
      using e l by (auto simp: SendMsg_def Let_def split: if_splits)
    then show ?thesis
      using send_loop_sent [OF l] by (cases ok) auto
  next
    case False
    then show ?thesis
      using e by (auto simp: SendMsg_def split: if_splits)
  qed
  then show ?thesis
    by (auto simp: gw_send_def e)
qed

lemma CloseMark_facts:
  "same_session (sess q (CloseMarkConnSession now p g)) (sess q g)"
  "gw_next (CloseMarkConnSession now p g) = gw_next g" "gw_fds (CloseMarkConnSession now p g) = gw_fds g"
  "gw_roles (CloseMarkConnSession now p g) = gw_roles g" "gw_ips (CloseMarkConnSession now p g) = gw_ips g"
  "gw_srv (CloseMarkConnSession now p g) = gw_srv g" "gw_limit (CloseMarkConnSession now p g) = gw_limit g"
  "gw_out (CloseMarkConnSession now p g) = gw_out g"
  "gw_listenIn (CloseMarkConnSession now p g) = gw_listenIn g"
  "gw_listenOut (CloseMarkConnSession now p g) = gw_listenOut g"
  "gw_freed (CloseMarkConnSession now p g) = gw_freed g"
  using same_CloseConnNoLock [of "SetStamp now (sess p g)"]
  by (auto simp: CloseMarkConnSession_def Let_def gw CloseConn_def SetStamp_def same_session_def)
    (auto simp: upd_sess_def sess_def)

text \<open>\<open>same_tables\<close>: nothing but sockets, the close queue and the kernel's part has changed.\<close>

definition same_tables :: "gateway \<Rightarrow> gateway \<Rightarrow> bool" where
  "same_tables g' g = ((\<forall>q. same_session (sess q g') (sess q g)) \<and> gw_next g' = gw_next g \<and>
     gw_fds g' = gw_fds g \<and> gw_roles g' = gw_roles g \<and> gw_ips g' = gw_ips g \<and> gw_srv g' = gw_srv g \<and>
     gw_limit g' = gw_limit g \<and> gw_listenIn g' = gw_listenIn g \<and> gw_listenOut g' = gw_listenOut g \<and>
     gw_freed g' = gw_freed g)"

lemma same_tables_refl [simp]: "same_tables g g"
  by (simp add: same_tables_def)

lemma same_tables_trans: "same_tables g2 g1 \<Longrightarrow> same_tables g1 g \<Longrightarrow> same_tables g2 g"
  using same_session_trans by (auto simp: same_tables_def) blast

lemma same_tables_send: "same_tables (snd (gw_send p b g)) g"
  by (simp add: same_tables_def gw_send_facts(2-) same_gw_send)

lemma same_tables_close: "same_tables (CloseMarkConnSession now p g) g"
  by (simp add: same_tables_def CloseMark_facts)

lemma same_tables_send_or_close: "same_tables (send_or_close now p b g) g"
  using same_tables_trans [OF same_tables_close same_tables_send, of now p p b g] same_tables_send [of p b g]
  by (auto simp: send_or_close_def split: prod.splits)

lemma same_tables_send_to_client: "same_tables (send_to_client now p b g) g"
  using same_tables_trans [OF same_tables_close same_tables_send, of now p p b g] same_tables_send [of p b g]
  by (auto simp: send_to_client_def split: prod.splits)

lemma same_tables_C2S: "same_tables (ProcessC2S now req pkg g) g"
proof -
  have relay: "same_tables (let (r, g1) = gw_send p b g in if r < 0 then send_or_close now req c (CloseMarkConnSession now p g1) else g1) g"
    for p b c
    using same_tables_trans [OF same_tables_send_or_close same_tables_trans [OF same_tables_close same_tables_send], of now req c now p p b g]
      same_tables_send [of p b g]
    by (auto split: prod.splits)
  show ?thesis
    using same_tables_send_or_close relay by (simp add: ProcessC2S_def Let_def)
qed

text \<open>\<open>keeps\<close>: what every message handler keeps, logins and registrations included.\<close>

definition keeps :: "gateway \<Rightarrow> gateway \<Rightarrow> bool" where
  "keeps g' g = ((\<forall>q. cs_connID (sess q g') = cs_connID (sess q g) \<and> cs_connType (sess q g') = cs_connType (sess q g) \<and>
       cs_recv (sess q g') = cs_recv (sess q g)) \<and>
     gw_next g' = gw_next g \<and> gw_fds g' = gw_fds g \<and> gw_ips g' = gw_ips g \<and> gw_limit g' = gw_limit g \<and>
     gw_listenIn g' = gw_listenIn g \<and> gw_listenOut g' = gw_listenOut g \<and> gw_freed g' = gw_freed g \<and>
     (smap_ok (gw_roles g) \<longrightarrow> smap_ok (gw_roles g')))"

lemma keeps_refl: "keeps g g"
  by (simp add: keeps_def)

lemma keeps_trans: "keeps g2 g1 \<Longrightarrow> keeps g1 g \<Longrightarrow> keeps g2 g"
  by (simp add: keeps_def)

lemma same_tables_keeps: "same_tables g' g \<Longrightarrow> keeps g' g"
  by (simp add: same_tables_def keeps_def same_session_def)

lemma keeps_upd:
  assumes "\<And>s. cs_connID (f s) = cs_connID s \<and> cs_connType (f s) = cs_connType s \<and> cs_recv (f s) = cs_recv s"
  shows "keeps (upd_sess p f g) g"
  using assms by (simp add: keeps_def gw)

lemma keeps_roles: "(smap_ok (gw_roles g) \<Longrightarrow> smap_ok m) \<Longrightarrow> keeps (g\<lparr>gw_roles := m\<rparr>) g"
  by (simp add: keeps_def sess_def)

lemma keeps_srv: "keeps (set_srv_fd ty sq fd g) g"
  by (simp add: keeps_def sess_def set_srv_fd_def)

lemma keeps_UpdateUserFdMap: "keeps (UpdateUserFdMap r fd g) g"
  by (auto simp: UpdateUserFdMap_def keeps_refl intro!: keeps_roles smap_ok_put split: option.splits)

lemma keeps_InsertUserFdMap: "keeps (InsertUserFdMap r fd g) g"
  by (auto simp: InsertUserFdMap_def intro!: keeps_roles smap_ok_insert)

lemma keeps_RemoveRoleFdMap: "keeps (snd (RemoveRoleFdMap r g)) g"
  by (auto simp: RemoveRoleFdMap_def keeps_refl intro!: keeps_roles smap_ok_erase split: option.splits)

lemmas keeps_close = same_tables_keeps [OF same_tables_close]
lemmas keeps_send = same_tables_keeps [OF same_tables_send]

lemma keeps_S2G: "keeps (ProcessS2G now req pkg g) g"
proof -
  have reg: "keeps (upd_sess req (\<lambda>s. SetLoginStatus 1 (SetSrvSeq sq (SetSrvType ty s)))
      (set_srv_fd ty sq fd (snd (gw_send req b g)))) g" for ty sq fd b
    by (rule keeps_trans [OF keeps_upd keeps_trans [OF keeps_srv keeps_send]])
      (simp add: SetLoginStatus_def SetSrvSeq_def SetSrvType_def)
  have "keeps (CloseMarkConnSession now req (snd (gw_send req b g))) g" for b
    by (rule keeps_trans [OF keeps_close keeps_send])
  then show ?thesis
    using reg keeps_send keeps_close [of now _ g] keeps_refl [of g]
    by (simp add: ProcessS2G_def Let_def case_prod_unfold)
qed

lemma keeps_login_answer: "keeps (login_answer now client logined r cid g) g"
proof -
  have kick: "keeps (CloseMarkConnSession now logined (upd_sess logined (SetIsSameUser 1) (UpdateUserFdMap r fd g))) g" for fd
    by (rule keeps_trans [OF keeps_close keeps_trans [OF keeps_upd keeps_UpdateUserFdMap]])
      (simp add: SetIsSameUser_def)
  have "keeps (upd_sess client (\<lambda>s. SetRoleID r (SetLoginStatus 1 (SetSrvType 0 s))) g') g" if "keeps g' g" for g'
    by (rule keeps_trans [OF keeps_upd that]) (simp add: SetRoleID_def SetLoginStatus_def SetSrvType_def)
  then show ?thesis
    using kick keeps_InsertUserFdMap by (simp add: login_answer_def Let_def)
qed

lemma keeps_S2C: "keeps (ProcessS2C now req pkg g) g"
proof -
  have "keeps (send_to_client now p b g') g" if "keeps g' g" for p b g'
    using keeps_trans [OF same_tables_keeps [OF same_tables_send_to_client] that] .
  then show ?thesis
    using keeps_login_answer keeps_refl [of g] by (simp add: ProcessS2C_def Let_def)
qed

lemma keeps_dispatch: "keeps (dispatch now p buf g) g"
  using keeps_S2C keeps_S2G same_tables_keeps [OF same_tables_C2S] keeps_close keeps_refl
  by (simp add: dispatch_def Let_def)

section \<open>The invariant of the tables\<close>

definition gw_inv :: "gateway \<Rightarrow> bool" where
  "gw_inv g \<longleftrightarrow> smap_ok (gw_fds g) \<and> smap_ok (gw_roles g) \<and> smap_ok (gw_ips g) \<and> 0 < gw_next g \<and>
     (\<forall>p \<in> set (gw_freed g). p < gw_next g) \<and>
     (\<forall>fd p. smap_find fd (gw_fds g) = Some p \<longrightarrow> 0 < p \<and> p < gw_next g \<and> p \<notin> set (gw_freed g) \<and>
        CONNECTION_FD (cs_connID (sess p g)) = fd \<and>
        (cs_connType (sess p g) = INSIDE_TCP_STREAM \<or> cs_connType (sess p g) = OUTSIDE_TCP_STREAM)) \<and>
     (\<forall>ip n. smap_find ip (gw_ips g) = Some n \<longrightarrow> 1 \<le> n \<and> n \<le> max 0 (gw_limit g) + 1)"

lemma gw_inv_keeps: "keeps g' g \<Longrightarrow> gw_inv g \<Longrightarrow> gw_inv g'"
  unfolding gw_inv_def keeps_def by metis

lemma gw_inv_recv: "cs_connID s = cs_connID (sess p g) \<Longrightarrow> cs_connType s = cs_connType (sess p g) \<Longrightarrow>
   gw_inv g \<Longrightarrow> gw_inv (upd_sess p (\<lambda>_. s) g)"
  by (simp add: gw_inv_def gw)

lemma gw_inv_CheckIpCount:
  "gw_inv g \<Longrightarrow> gw_inv (snd (CheckIpCount ip g)) \<and> gw_next (snd (CheckIpCount ip g)) = gw_next g \<and>
   gw_listenIn (snd (CheckIpCount ip g)) = gw_listenIn g \<and> gw_heap (snd (CheckIpCount ip g)) = gw_heap g \<and>
   gw_fds (snd (CheckIpCount ip g)) = gw_fds g"
  unfolding CheckIpCount_def gw_inv_def sess_def
  by (auto simp: smap_find_put smap_ok_put max_def split: option.splits if_splits) fastforce+

lemma gw_inv_new_session:
  assumes "gw_inv g" and "ty = INSIDE_TCP_STREAM \<or> ty = OUTSIDE_TCP_STREAM"
  shows "gw_inv (InsertConnSession (gw_next g)
    (g\<lparr>gw_heap := (gw_heap g)(gw_next g := ConnectSession_new now cid ty), gw_next := gw_next g + 1\<rparr>))"
  using assms unfolding InsertConnSession_def gw_inv_def sess_def
  by (auto simp: smap_find_insert smap_ok_insert ConnectSession_new_def less_Suc_eq split: if_splits)

lemma gw_inv_accept_one: "gw_inv g \<Longrightarrow> gw_inv (accept_one now lsfd fd ip port g)"
  using gw_inv_new_session [of g] gw_inv_CheckIpCount [of g ip] gw_inv_new_session [of "snd (CheckIpCount ip g)"]
  by (auto simp: accept_one_def Let_def BuffInitCheck_def case_prod_unfold)

lemma gw_inv_HandleAccept: "gw_inv g \<Longrightarrow> gw_inv (HandleAccept now lsfd rs g)"
  by (induction now lsfd rs g rule: HandleAccept.induct) (simp_all add: gw_inv_accept_one)

lemma gw_inv_drop_ip: "gw_inv g \<Longrightarrow> gw_inv (drop_ip_count ip g)"
  unfolding drop_ip_count_def gw_inv_def sess_def
  by (auto simp: smap_find_put smap_find_erase smap_ok_put smap_ok_erase split: option.splits if_splits) force+

lemma keeps_NotifyClientClosed: "keeps (NotifyClientClosed p g) g"
  using keeps_send keeps_refl [of g] by (simp add: NotifyClientClosed_def Let_def split: option.splits)

lemma gw_inv_erase:
  assumes "gw_inv g" and "gw_fds g = m" and "smap_find fd m = Some p"
  shows "gw_inv (g\<lparr>gw_fds := smap_erase fd m, gw_freed := p # gw_freed g\<rparr>)"
proof -
  have "q \<noteq> p" if "smap_find k (gw_fds g) = Some q" "k \<noteq> fd" for k q
    using assms that unfolding gw_inv_def by blast
  then show ?thesis
    using assms unfolding gw_inv_def sess_def by (auto simp: smap_find_erase smap_ok_erase split: if_splits)
qed

lemma fds_drop_ip [simp]: "gw_fds (drop_ip_count ip g) = gw_fds g"
  by (simp add: drop_ip_count_def split: option.splits)

lemma gw_inv_remove_one:
  assumes inv: "gw_inv g" and run: "remove_one now c g = Some g'"
  shows "gw_inv g'"
proof -
  have requeue: "gw_inv (g\<lparr>gw_queue := q\<rparr>)" for q
    using inv by (simp add: gw_inv_def sess_def)
  have out: "keeps (snd (RemoveRoleFdMap r (NotifyClientClosed p g))) g" for r p
    by (rule keeps_trans [OF keeps_RemoveRoleFdMap keeps_NotifyClientClosed])
  then have "gw_inv (snd (RemoveRoleFdMap r (NotifyClientClosed p g)))" for r p
    using gw_inv_keeps inv by blast
  moreover have "gw_fds (snd (RemoveRoleFdMap r (NotifyClientClosed p g))) = gw_fds g" for r p
    using out by (simp add: keeps_def)
  moreover have "gw_inv (set_srv_fd ty sq fd g)" "gw_fds (set_srv_fd ty sq fd g) = gw_fds g" for ty sq fd
    using gw_inv_keeps [OF keeps_srv inv] by (simp_all add: set_srv_fd_def)
  ultimately show ?thesis
    using inv requeue run
    by (auto simp: remove_one_def Let_def gw_inv_drop_ip intro!: gw_inv_erase split: option.splits if_splits)
qed

lemma gw_inv_remove_loop: "gw_inv g \<Longrightarrow> remove_loop n now g = Some g' \<Longrightarrow> gw_inv g'"
proof (induction n arbitrary: g)
  case (Suc n)
  have "gw_inv (g\<lparr>gw_queue := q\<rparr>)" for q
    using Suc.prems(1) by (simp add: gw_inv_def sess_def)
  then show ?case
    using Suc gw_inv_remove_one by (fastforce split: list.splits Option.bind_splits)
qed simp

lemma GetDataPack_facts:
  assumes "GetDataPack buf 0 s = (r, buf1, n, s1)"
  shows "cs_connID s1 = cs_connID s" "cs_connType s1 = cs_connType s" "0 < r \<Longrightarrow> length (cs_recv s1) < length (cs_recv s)"
  using assms by (auto simp: GetDataPack_def CheckDataPack_def Let_def split: if_splits)

lemma RecvMsg_facts:
  assumes "RecvMsg res now s = (r, s1)"
  shows "cs_connID s1 = cs_connID s" "cs_connType s1 = cs_connType s"
  using assms by (auto simp: RecvMsg_def CloseConnNoLock_def Let_def split: if_splits recv_result.splits)

text \<open>The fuel of the loop, one more than the bytes held, is enough, and the invariant is kept.\<close>

lemma handle_packs_ok:
  "gw_inv g \<Longrightarrow> length (cs_recv (sess p g)) < k \<Longrightarrow>
   \<exists>b g'. handle_packs k now p buf g = Some (b, g') \<and> gw_inv g' \<and>
     (\<forall>q. cs_connID (sess q g') = cs_connID (sess q g))"
proof (induction k arbitrary: buf g)
  case (Suc k)
  obtain r buf1 n s where get: "GetDataPack buf 0 (sess p g) = (r, buf1, n, s)"
    using prod_cases4 by blast
  note facts = GetDataPack_facts [OF get]
  let ?g = "upd_sess p (\<lambda>_. s) g"
  have inv: "gw_inv ?g"
    by (rule gw_inv_recv [OF facts(1,2) Suc.prems(1)])
  have ids: "cs_connID (sess q ?g) = cs_connID (sess q g)" for q
    using facts(1) by (simp add: gw)
  consider "r = 0" | "r < 0" | "0 < r" by linarith
  then show ?case
  proof cases
    case 1
    then show ?thesis using inv ids by (simp add: get)
  next
    case 2
    then show ?thesis
      using gw_inv_keeps [OF keeps_close inv] keeps_close [of now p ?g] ids by (simp add: get keeps_def)
  next
    case 3
    let ?d = "dispatch now p buf1 ?g"
    have k: "keeps ?d ?g"
      by (rule keeps_dispatch)
    then have "length (cs_recv (sess p ?d)) < k"
      using facts(3) [OF 3] Suc.prems(2) by (simp add: keeps_def gw)
    from Suc.IH [OF gw_inv_keeps [OF k inv] this, of buf1] show ?thesis
      using 3 k ids by (auto simp: get keeps_def)
  qed
qed simp

lemma HandleProcessPkg_ok:
  assumes "gw_inv g"
  shows "\<exists>b g'. HandleProcessPkg now fd res buf g = Some (b, g') \<and> gw_inv g' \<and>
    (\<forall>q. cs_connID (sess q g') = cs_connID (sess q g))"
proof -
  define p where "p = FindFdConnSession fd g"
  obtain r s where recv: "RecvMsg res now (sess p g) = (r, s)"
    by fastforce
  note facts = RecvMsg_facts [OF recv]
  let ?g = "upd_sess p (\<lambda>_. s) g"
  have inv: "gw_inv ?g"
    by (rule gw_inv_recv [OF facts assms])
  have ids: "cs_connID (sess q ?g) = cs_connID (sess q g)" for q
    using facts(1) by (simp add: gw)
  have "length (cs_recv (sess p ?g)) < Suc (length (cs_recv s))"
    by (simp add: gw)
  then obtain b g' where "handle_packs (Suc (length (cs_recv s))) now p buf ?g = Some (b, g')" "gw_inv g'"
    "\<forall>q. cs_connID (sess q g') = cs_connID (sess q ?g)"
    using handle_packs_ok [OF inv] by blast
  moreover have "gw_inv (CloseMarkConnSession now p ?g)"
    "cs_connID (sess q (CloseMarkConnSession now p ?g)) = cs_connID (sess q ?g)" for q
    using gw_inv_keeps [OF keeps_close inv] keeps_close [of now p ?g] by (simp_all add: keeps_def)
  ultimately show ?thesis
    using assms inv ids by (simp add: HandleProcessPkg_def Let_def recv flip: p_def)
qed

section \<open>Every state of a running gateway\<close>

inductive gw_reach :: "int \<Rightarrow> gateway \<Rightarrow> bool" for limit where
  reach_start: "gw_reach limit ((AppGwSvc_new limit)\<lparr>gw_listenIn := a, gw_listenOut := b\<rparr>)"
| reach_kernel: "gw_reach limit g \<Longrightarrow> gw_reach limit (g\<lparr>gw_sends := rs\<rparr>)"
| reach_accept: "gw_reach limit g \<Longrightarrow> lsfd = gw_listenIn g \<or> lsfd = gw_listenOut g \<Longrightarrow>
    gw_reach limit (HandleAccept now lsfd rs g)"
| reach_packet: "gw_reach limit g \<Longrightarrow> HandleProcessPkg now fd res buf g = Some (buf', g') \<Longrightarrow> gw_reach limit g'"
| reach_remove: "gw_reach limit g \<Longrightarrow> RemoveConnSession now g = Some g' \<Longrightarrow> gw_reach limit g'"
| reach_timeout: "gw_reach limit g \<Longrightarrow> gw_reach limit (check_timeout now p t g)"

lemma keeps_limit: "keeps g' g \<Longrightarrow> gw_limit g' = gw_limit g"
  by (simp add: keeps_def)

lemma gw_inv_reach: "gw_reach limit g \<Longrightarrow> gw_inv g"
proof (induction rule: gw_reach.induct)
  case (reach_start a b)
  then show ?case by (simp add: gw_inv_def AppGwSvc_new_def)
next
  case (reach_kernel g rs)
  then show ?case by (simp add: gw_inv_def sess_def)
next
  case (reach_accept g lsfd now rs)
  then show ?case by (simp add: gw_inv_HandleAccept)
next
  case (reach_packet g now fd res buf buf' g')
  then show ?case using HandleProcessPkg_ok [of g now fd res buf] by auto
next
  case (reach_remove g now g')
  then show ?case using gw_inv_remove_loop by (simp add: RemoveConnSession_def)
next
  case (reach_timeout g now p t)
  then show ?case
    using gw_inv_keeps [OF keeps_close] by (simp add: check_timeout_def Let_def)
qed

lemma limit_CheckIpCount [simp]: "gw_limit (snd (CheckIpCount ip g)) = gw_limit g"
  by (simp add: CheckIpCount_def split: option.splits)

lemma limit_accept_one [simp]: "gw_limit (accept_one now lsfd fd ip port g) = gw_limit g"
  by (simp add: accept_one_def Let_def InsertConnSession_def case_prod_unfold)

lemma limit_HandleAccept [simp]: "gw_limit (HandleAccept now lsfd rs g) = gw_limit g"
  by (induction now lsfd rs g rule: HandleAccept.induct) simp_all

lemma limit_remove_one: "remove_one now c g = Some g' \<Longrightarrow> gw_limit g' = gw_limit g"
proof -
  assume run: "remove_one now c g = Some g'"
  have "gw_limit (snd (RemoveRoleFdMap r (NotifyClientClosed p g))) = gw_limit g" for r p
    by (rule keeps_limit [OF keeps_trans [OF keeps_RemoveRoleFdMap keeps_NotifyClientClosed]])
  then show ?thesis
    using run by (auto simp: remove_one_def Let_def drop_ip_count_def set_srv_fd_def split: option.splits if_splits)
qed

lemma limit_remove_loop: "remove_loop n now g = Some g' \<Longrightarrow> gw_limit g' = gw_limit g"
proof (induction n arbitrary: g)
  case (Suc n)
  then show ?case
    using limit_remove_one by (fastforce split: list.splits Option.bind_splits)
qed simp

lemma limit_handle_packs: "handle_packs k now p buf g = Some (b, g') \<Longrightarrow> gw_limit g' = gw_limit g"
proof (induction k arbitrary: buf g)
  case (Suc k)
  obtain r buf1 n s where get: "GetDataPack buf 0 (sess p g) = (r, buf1, n, s)"
    using prod_cases4 by blast
  show ?case
    using Suc.prems Suc.IH [of buf1 "dispatch now p buf1 (upd_sess p (\<lambda>_. s) g)"]
      keeps_limit [OF keeps_dispatch] by (auto simp: get gw CloseMark_facts Let_def split: if_splits)
qed simp

lemma limit_reach: "gw_reach limit g \<Longrightarrow> gw_limit g = limit"
proof (induction rule: gw_reach.induct)
  case (reach_packet g now fd res buf buf' g')
  then show ?case
    by (auto simp: HandleProcessPkg_def Let_def gw CloseMark_facts
        simp del: handle_packs.simps dest!: limit_handle_packs split: if_splits prod.splits)
qed (simp_all add: AppGwSvc_new_def RemoveConnSession_def limit_remove_loop check_timeout_def Let_def CloseMark_facts)

section \<open>Properties\<close>

text \<open>
  C5: in every state the gateway can reach, whatever the kernel and the peers do and in whatever
  order the handlers run, the tables are sound.  All three are ordered by their keys.  Every descriptor of
  the session table leads to a live session object, one that was created and has not been deleted, which
  carries this descriptor in its connection number and is marked as inside or outside connection.  A role
  that is looked up leads to nothing or to a live session on the descriptor that the role table has for
  it (the table may still have descriptors whose session is gone).  The count of connections of an
  address is at least one and never exceeds the configured limit by more than one.
\<close>

theorem gateway_tables_sound:
  assumes "gw_reach limit g" and "0 \<le> limit"
  shows "smap_ok (gw_fds g) \<and> smap_ok (gw_roles g) \<and> smap_ok (gw_ips g) \<and>
    (\<forall>fd p. smap_find fd (gw_fds g) = Some p \<longrightarrow> 0 < p \<and> p < gw_next g \<and> p \<notin> set (gw_freed g) \<and>
      CONNECTION_FD (cs_connID (sess p g)) = fd \<and>
      (cs_connType (sess p g) = INSIDE_TCP_STREAM \<or> cs_connType (sess p g) = OUTSIDE_TCP_STREAM)) \<and>
    (\<forall>roleid p. FindRoleConnSession roleid g = p \<longrightarrow> p \<noteq> 0 \<longrightarrow> p < gw_next g \<and> p \<notin> set (gw_freed g) \<and>
      smap_find roleid (gw_roles g) = Some (CONNECTION_FD (cs_connID (sess p g)))) \<and>
    (\<forall>ip n. smap_find ip (gw_ips g) = Some n \<longrightarrow> 1 \<le> n \<and> n \<le> limit + 1)"
proof -
  have inv: "gw_inv g"
    by (rule gw_inv_reach [OF assms(1)])
  have "p < gw_next g \<and> p \<notin> set (gw_freed g) \<and> smap_find roleid (gw_roles g) = Some (CONNECTION_FD (cs_connID (sess p g)))"
    if found: "FindRoleConnSession roleid g = p" "p \<noteq> 0" for roleid p
  proof -
    obtain fd where "smap_find roleid (gw_roles g) = Some fd" "smap_find fd (gw_fds g) = Some p"
      using found by (auto simp: FindRoleConnSession_def FindUserFd_def FindFdConnSession_def Let_def
          split: if_splits option.splits)
    then show ?thesis
      using inv unfolding gw_inv_def by auto
  qed
  then show ?thesis
    using inv limit_reach [OF assms(1)] assms(2) unfolding gw_inv_def by (simp add: max_def)
qed

definition demo_gateway :: gateway where
  "demo_gateway = HandleAccept 100 8 [AcceptConn 12 0x0100007F 80, AcceptConn 13 0x0200007F 81]
     (HandleAccept 100 7 [AcceptConn 11 5 90] ((AppGwSvc_new 3)\<lparr>gw_listenIn := 7, gw_listenOut := 8\<rparr>))"

lemma demo_gateway_reach: "gw_reach 3 demo_gateway"
proof -
  have 1: "gw_reach 3 (HandleAccept 100 7 [AcceptConn 11 5 90] ((AppGwSvc_new 3)\<lparr>gw_listenIn := 7, gw_listenOut := 8\<rparr>))"
    by (rule reach_accept [OF reach_start]) simp
  have "gw_listenOut (HandleAccept 100 7 [AcceptConn 11 5 90] ((AppGwSvc_new 3)\<lparr>gw_listenIn := 7, gw_listenOut := 8\<rparr>)) = 8"
    by (simp add: accept_one_def InsertConnSession_def Let_def BuffInitCheck_def)
  then show ?thesis
    unfolding demo_gateway_def by (intro reach_accept [OF 1] disjI2) (rule sym)
qed

lemma demo_gateway_tables:
  "gw_fds demo_gateway = [(11, 1), (12, 2), (13, 3)]" "gw_ips demo_gateway = [(0x0100007F, 1), (0x0200007F, 1)]"
  by (simp_all add: demo_gateway_def AppGwSvc_new_def accept_one_def CheckIpCount_def InsertConnSession_def
      BuffInitCheck_def Let_def smap_find_def sess_def ConnectSession_new_def smap_insert_def connection_id_fd)

theorem gateway_tables_sound_witness:
  "\<exists>n p. smap_find 0x0200007F (gw_ips demo_gateway) = Some n \<and> 1 \<le> n \<and> n \<le> 4 \<and>
    smap_find 13 (gw_fds demo_gateway) = Some p \<and> p \<notin> set (gw_freed demo_gateway) \<and>
    CONNECTION_FD (cs_connID (sess p demo_gateway)) = 13"
proof -
  have "smap_find 13 (gw_fds demo_gateway) = Some 3" "smap_find 0x0200007F (gw_ips demo_gateway) = Some 1"
    by (simp_all add: demo_gateway_tables smap_find_def)
  then show ?thesis
    using gateway_tables_sound [OF demo_gateway_reach] by auto
qed

text \<open>
  C6: a client's request cannot speak for another role. Whatever \<^verbatim>\<open>ProcessC2S\<close> sends on
  a connection other than the client's own is, in full or torn off, one inner message: a role login
  to the main server, which carries the client's own connection number behind the 44 bytes of the
  request, or, only for a client that has logged in, the request's body unchanged under a header
  whose role is the role of the client's session, never the one in the request.
\<close>

theorem C2S_role_is_sessions:
  assumes "(cid, bytes) \<in> set (drop (length (gw_out g)) (gw_out (ProcessC2S now req pkg g)))"
    and "cid \<noteq> cs_connID (sess req g)" and "59 \<le> length pkg"
  shows "\<exists>m rest. m = bytes @ rest \<and>
    (if ucSrvType (pkg_unpacket pkg) = SVRTYPE_MAIN \<and> usMsgType (pkg_unpacket pkg) = MSGTYPE_CS_ROLELOGIN
     then drop 15 m = take 44 (drop 15 pkg) @ bytes_of_word 8 (cs_connID (sess req g))
     else cs_loginStatus (sess req g) \<noteq> 0 \<and> uiRoleID (pkg_unpacket m) = cs_roleID (sess req g) \<and>
       drop 15 m = take (unat (usPkgLen (pkg_unpacket pkg)) - 15) (drop 15 pkg))"
proof -
  let ?h = "pkg_unpacket pkg" and ?s = "sess req g"
  let ?login = "ucSrvType ?h = SVRTYPE_MAIN \<and> usMsgType ?h = MSGTYPE_CS_ROLELOGIN"
  let ?buf = "if ?login then login_request ?h pkg ?s else relayed_request ?h pkg ?s"
  have soc: "\<exists>x. gw_out (send_or_close now req b g') = gw_out g' @ [(cs_connID (sess req g'), x)]" for b g'
    using gw_send_out [of req b g'] CloseMark_facts(8) by (auto simp: send_or_close_def split: prod.splits)
  have sent: "\<exists>srv x rest ys. gw_out (ProcessC2S now req pkg g) = gw_out g @ (cs_connID (sess srv g), x) # ys \<and>
      ?buf = x @ rest \<and> (\<not> ?login \<longrightarrow> cs_loginStatus ?s \<noteq> 0) \<and> (\<forall>y \<in> set ys. fst y = cs_connID ?s)"
    if relayed: "\<not> (\<exists>x. gw_out (ProcessC2S now req pkg g) = gw_out g @ [(cs_connID ?s, x)])"
      "gw_out (ProcessC2S now req pkg g) \<noteq> gw_out g"
  proof -
    define srv where "srv = FindFdConnSession (srv_fd (ucSrvType ?h) (ucSrvSeq ?h) g) g"
    obtain r g1 where send: "gw_send srv ?buf g = (r, g1)"
      by fastforce
    have "ProcessC2S now req pkg g = (if r < 0 then send_or_close now req
        (MakeClientAckPkg (?h\<lparr>ucDirection := DIRECT_C_S_RESP\<rparr>) ERR_SYSTEM_SVRACCESS)
        (CloseMarkConnSession now srv g1) else g1) \<and> (\<not> ?login \<longrightarrow> cs_loginStatus ?s \<noteq> 0)"
    proof -
      define G where "G = ProcessC2S now req pkg g"
      have ne: "G \<noteq> send_or_close now req b g" "G \<noteq> g" for b
        using relayed soc [of b g] by (auto simp: G_def)
      note eq = G_def [unfolded ProcessC2S_def Let_def, folded srv_def]
      show ?thesis
        unfolding G_def [symmetric] using eq ne send by (auto split: if_splits)
    qed
    moreover obtain x rest where x: "gw_out g1 = gw_out g @ [(cs_connID (sess srv g), x)]" "?buf = x @ rest"
      using gw_send_out [of srv ?buf g] send by auto
    moreover have "same_session (sess req (CloseMarkConnSession now srv g1)) (sess req g)"
      using same_session_trans [OF CloseMark_facts(1) same_gw_send [of req srv ?buf g]] send by simp
    then have "cs_connID (sess req (CloseMarkConnSession now srv g1)) = cs_connID ?s"
      by (simp add: same_session_def)
    ultimately show ?thesis
      using soc [of _ "CloseMarkConnSession now srv g1"]
      by (cases "r < 0") (fastforce simp: CloseMark_facts)+
  qed
  have "\<exists>rest. ?buf = bytes @ rest \<and> (\<not> ?login \<longrightarrow> cs_loginStatus ?s \<noteq> 0)"
    using assms(1,2) sent by fastforce
  then obtain rest where m: "?buf = bytes @ rest" and logged: "\<not> ?login \<longrightarrow> cs_loginStatus ?s \<noteq> 0"
    by blast
  have "drop 15 (login_request ?h pkg ?s) = take 44 (drop 15 pkg) @ bytes_of_word 8 (cs_connID ?s)"
    by (simp add: login_request_def compose_message)
  moreover have "uiRoleID (pkg_unpacket (relayed_request ?h pkg ?s)) = cs_roleID ?s"
    "drop 15 (relayed_request ?h pkg ?s) = take (unat (usPkgLen ?h) - 15) (drop 15 pkg)"
    using unpacket_message [of "?h\<lparr>uiRoleID := cs_roleID ?s\<rparr>" "take (unat (usPkgLen ?h) - 15) (drop 15 pkg)" "[]"]
    by (simp_all add: relayed_request_def compose_message)
  ultimately show ?thesis
    using m logged by (intro exI [of _ ?buf] exI [of _ rest]) auto
qed

lemma demo_head_simps:
  "ucDirection demo_head = 1" "ucSrvType demo_head = 1" "ucSrvSeq demo_head = 1" "usMsgType demo_head = 300"
  by (simp_all add: demo_head_def)

text \<open>A gateway with the main server on descriptor 11 and a client, logged in as role 77, on 12.\<close>

definition demo_routed :: gateway where
  "demo_routed = (AppGwSvc_new 3)\<lparr>
     gw_heap := (\<lambda>p. if p = 5 then ConnectSession_new 100 (CONNECTION_ID 5 90 11) INSIDE_TCP_STREAM
       else SetRoleID 77 (SetLoginStatus 1 (ConnectSession_new 100 (CONNECTION_ID 6 80 12) OUTSIDE_TCP_STREAM))),
     gw_next := 7, gw_fds := [(11, 5), (12, 6)], gw_roles := [(77, 12)], gw_srv := (\<lambda>_. 11)\<rparr>"

lemma demo_routed_facts:
  "cs_connID (sess 5 demo_routed) = CONNECTION_ID 5 90 11" "cs_connID (sess 6 demo_routed) = CONNECTION_ID 6 80 12"
  "cs_roleID (sess 6 demo_routed) = 77" "cs_loginStatus (sess 6 demo_routed) = 1"
  "cs_closeFlag (sess p demo_routed) = 0" "srv_fd ty sq demo_routed = 11"
  "FindFdConnSession 11 demo_routed = 5" "FindFdConnSession 12 demo_routed = 6"
  "FindRoleConnSession 77 demo_routed = 6" "FindRoleConnSession 78 demo_routed = 0"
  "gw_sends demo_routed = []" "gw_out demo_routed = []"
  by (simp_all add: demo_routed_def sess_def ConnectSession_new_def SetRoleID_def SetLoginStatus_def
      srv_fd_def FindFdConnSession_def FindRoleConnSession_def FindUserFd_def smap_find_def AppGwSvc_new_def)

lemma demo_ids: "CONNECTION_ID 5 90 11 \<noteq> CONNECTION_ID 6 80 12"
proof
  assume "CONNECTION_ID 5 90 11 = CONNECTION_ID 6 80 12"
  then have "CONNECTION_FD (CONNECTION_ID 5 90 11) = CONNECTION_FD (CONNECTION_ID 6 80 12)"
    by simp
  then show False
    using ucast_id_parts(1) [of 11 5 90] ucast_id_parts(1) [of 12 6 80] by (simp add: CONNECTION_FD_def)
qed

lemma gw_send_demo: "gw_send p b demo_routed = (int (length b), demo_routed\<lparr>gw_heap := (gw_heap demo_routed)(p := (sess p demo_routed)\<lparr>cs_trySendNum := 0\<rparr>),
   gw_out := [(cs_connID (sess p demo_routed), b)]\<rparr>)"
  using demo_routed_facts(5) [of p] by (simp add: gw_send_def SendMsg_def demo_routed_facts(11,12) Let_def)

definition demo_request :: "u8 list" where
  "demo_request = pkg_message (demo_head\<lparr>uiRoleID := 99\<rparr>) (replicate 50 1)"

lemma demo_request_facts: "pkg_unpacket demo_request = demo_head\<lparr>uiRoleID := 99, usPkgLen := 65\<rparr>" "length demo_request = 65"
  using unpacket_message [of "demo_head\<lparr>uiRoleID := 99\<rparr>" "replicate 50 1" "[]"]
  by (simp_all add: demo_request_def)

theorem C2S_role_is_sessions_witness:
  "\<exists>m. (CONNECTION_ID 5 90 11, m) \<in> set (gw_out (ProcessC2S 100 6 demo_request demo_routed)) \<and>
    (\<exists>m' rest. m' = m @ rest \<and> uiRoleID (pkg_unpacket m') = 77)"
proof -
  let ?m = "relayed_request (pkg_unpacket demo_request) demo_request (sess 6 demo_routed)"
  have "gw_out (ProcessC2S 100 6 demo_request demo_routed) = [(CONNECTION_ID 5 90 11, ?m)]"
    by (simp add: ProcessC2S_def Let_def demo_request_facts demo_routed_facts demo_head_simps check_srv_scope_def
        DIRECT_C_S_REQ_def MSGTYPE_CS_ROLELOGIN_def gw_send_demo)
  moreover from this have "\<exists>m' rest. m' = ?m @ rest \<and> uiRoleID (pkg_unpacket m') = 77"
    using C2S_role_is_sessions [of "CONNECTION_ID 5 90 11" ?m demo_routed 100 6 demo_request] demo_ids
    by (auto simp: demo_routed_facts demo_request_facts demo_head_simps MSGTYPE_CS_ROLELOGIN_def)
  ultimately show ?thesis
    by auto
qed



lemma offset_unique:
  fixes a b a' b' :: int
  assumes "255 * (a - 1) + (b - 1) = 255 * (a' - 1) + (b' - 1)"
    and "1 \<le> b" "b \<le> 255" "1 \<le> b'" "b' \<le> 255"
  shows "a = a'"
proof -
  have "(255 * (a - 1) + (b - 1)) div 255 = a - 1" "(255 * (a' - 1) + (b' - 1)) div 255 = a' - 1"
    using assms by simp_all
  then show ?thesis
    using assms(1) by simp
qed

lemma srv_offset_inj:
  assumes "ty \<noteq> 0" "sq \<noteq> 0" "ty' \<noteq> 0" "sq' \<noteq> 0" "srv_offset ty sq = srv_offset ty' sq'"
  shows "ty = ty' \<and> sq = sq'"
proof -
  have range: "1 \<le> uint x \<and> uint x \<le> 255" if "x \<noteq> 0" for x :: u8
  proof -
    have "uint x \<noteq> 0"
      using that by (simp add: uint_0_iff)
    moreover have "0 \<le> uint x" "uint x < 256"
      using uint_lt2p [of x] by simp_all
    ultimately show ?thesis
      by linarith
  qed
  note bounds = range [OF assms(2), THEN conjunct1] range [OF assms(2), THEN conjunct2]
    range [OF assms(4), THEN conjunct1] range [OF assms(4), THEN conjunct2]
  have eq: "255 * (uint ty - 1) + (uint sq - 1) = 255 * (uint ty' - 1) + (uint sq' - 1)"
    using assms(5) by (simp only: srv_offset_def)
  have "uint ty = uint ty'"
    using bounds by (rule offset_unique [OF eq])
  moreover have "uint sq = uint sq'"
    using eq calculation by simp
  ultimately show ?thesis
    using word_of_int_uint by metis
qed

lemma srv_fd_set:
  "ty \<noteq> 0 \<Longrightarrow> sq \<noteq> 0 \<Longrightarrow> ty' \<noteq> 0 \<Longrightarrow> sq' \<noteq> 0 \<Longrightarrow>
   srv_fd ty sq (set_srv_fd ty' sq' fd g) = (if ty = ty' \<and> sq = sq' then fd else srv_fd ty sq g)"
  using srv_offset_inj [of ty sq ty' sq'] by (auto simp: srv_fd_def set_srv_fd_def)

text \<open>
  A server slot is taken at most once. A server's request never changes a slot that holds a
  descriptor; a slot that changes was free and now holds the requesting connection's descriptor, and
  that connection is marked as logged in with the slot's type and sequence number.
\<close>

lemma registration_exclusive:
  assumes "ty \<noteq> 0" and "sq \<noteq> 0"
    and "srv_fd ty sq (ProcessS2G now req pkg g) \<noteq> srv_fd ty sq g"
  shows "srv_fd ty sq g \<le> 0 \<and>
    srv_fd ty sq (ProcessS2G now req pkg g) = CONNECTION_FD (cs_connID (sess req g)) \<and>
    cs_loginStatus (sess req (ProcessS2G now req pkg g)) = 1 \<and>
    cs_srvType (sess req (ProcessS2G now req pkg g)) = ty \<and> cs_srvSeq (sess req (ProcessS2G now req pkg g)) = sq"
proof -
  define t where "t = (word_of_bytes (take 1 (drop 15 pkg)) :: u8)"
  define q where "q = (word_of_bytes (take 1 (drop 16 pkg)) :: u8)"
  let ?done = "\<lambda>b. upd_sess req (\<lambda>s. SetLoginStatus 1 (SetSrvSeq q (SetSrvType t s)))
    (set_srv_fd t q (CONNECTION_FD (cs_connID (sess req (snd (gw_send req b g))))) (snd (gw_send req b g)))"
  have quiet: "srv_fd ty sq (snd (gw_send req b g)) = srv_fd ty sq g"
    "srv_fd ty sq (CloseMarkConnSession now p g') = srv_fd ty sq g'" for b p g'
    by (simp_all add: srv_fd_def gw_send_facts CloseMark_facts)
  have "\<exists>b. ProcessS2G now req pkg g = ?done b \<and> t \<noteq> 0 \<and> q \<noteq> 0 \<and> srv_fd t q g \<le> 0"
    using assms(3) quiet
    unfolding ProcessS2G_def Let_def case_prod_unfold t_def [symmetric] q_def [symmetric] check_srv_scope_def
    by (simp split: if_splits) blast
  then obtain b where G: "ProcessS2G now req pkg g = ?done b" and tq: "t \<noteq> 0" "q \<noteq> 0" "srv_fd t q g \<le> 0"
    by blast
  have id: "cs_connID (sess req (snd (gw_send req b g))) = cs_connID (sess req g)"
    using same_gw_send [of req req b g] by (simp add: same_session_def)
  have slot: "srv_fd ty sq (?done b) =
      (if ty = t \<and> sq = q then CONNECTION_FD (cs_connID (sess req g)) else srv_fd ty sq g)"
    using srv_fd_set [OF assms(1,2) tq(1,2)] quiet(1) id by (simp add: srv_fd_def gw)
  then have "ty = t" "sq = q"
    using assms(3) by (auto simp: G split: if_splits)
  then show ?thesis
    using slot tq by (simp add: G gw SetLoginStatus_def SetSrvSeq_def SetSrvType_def)
qed

lemma registration_exclusive_witness:
  "srv_fd 1 1 (ProcessS2G 100 5 (pkg_message (demo_head\<lparr>ucDirection := 5, usMsgType := 101\<rparr>) [1, 1])
     (demo_routed\<lparr>gw_srv := \<lambda>_. - 1\<rparr>)) = 11"
proof -
  let ?pkg = "pkg_message (demo_head\<lparr>ucDirection := 5, usMsgType := 101\<rparr>) [1, 1]"
  let ?g = "demo_routed\<lparr>gw_srv := \<lambda>_. - 1\<rparr>"
  have h: "pkg_unpacket ?pkg = demo_head\<lparr>ucDirection := 5, usMsgType := 101, usPkgLen := 17\<rparr>"
    using unpacket_message [of "demo_head\<lparr>ucDirection := 5, usMsgType := 101\<rparr>" "[1, 1]" "[]"] by simp
  have body: "drop 15 ?pkg = [1, 1]" "drop 16 ?pkg = [1]"
    by (simp, simp add: pkg_message_def)
  have one: "(word_of_bytes [1] :: u8) = 1"
    by (simp add: word_of_bytes_def)
  have s: "sess 5 ?g = ConnectSession_new 100 (CONNECTION_ID 5 90 11) INSIDE_TCP_STREAM"
    by (simp add: demo_routed_def sess_def)
  have snd: "gw_send 5 b ?g = (int (length b), ?g\<lparr>gw_heap := (gw_heap ?g)(5 := (sess 5 ?g)\<lparr>cs_trySendNum := 0\<rparr>),
      gw_out := [(CONNECTION_ID 5 90 11, b)]\<rparr>)" for b
    unfolding gw_send_def s by (simp add: SendMsg_def Let_def ConnectSession_new_def)
      (simp add: demo_routed_def AppGwSvc_new_def)
  have changed: "srv_fd 1 1 (ProcessS2G 100 5 ?pkg ?g) \<noteq> srv_fd 1 1 ?g"
    using connection_id_fd [of 11 5 90]
    by (simp add: ProcessS2G_def Let_def h body one MSGTYPE_GW_SVRCONNECT_def DIRECT_S_S_REQ_def
        check_srv_scope_def snd PkgBuff_GetSize_def compose_message srv_fd_def set_srv_fd_def gw)
      (simp add: sess_def demo_routed_def ConnectSession_new_def)
  from registration_exclusive [OF _ _ this] connection_id_fd [of 11 5 90] show ?thesis
    by (simp add: s) (simp add: ConnectSession_new_def)
qed

text \<open>
  C7: a successful role login makes the role reachable and pushes out the connection that had it.
  When the route of the role was absent, or led to a session that is the client or is logged in,
  then after the answer the role leads to the client, whose session is logged in under the role; a
  different session that had the role is closed and marked so that its end sends no logout.
\<close>

theorem login_routes_to_client:
  assumes "client = FindFdConnSession (CONNECTION_FD cid) g" and "client \<noteq> 0" and "CONNECTION_FD cid \<noteq> 0"
    and "logined = FindRoleConnSession roleID g"
    and "smap_find roleID (gw_roles g) = None \<or> logined = client \<or>
      logined \<noteq> 0 \<and> cs_loginStatus (sess logined g) \<noteq> 0"
    and "g' = login_answer now client logined roleID cid g"
  shows "FindRoleConnSession roleID g' = client \<and> cs_roleID (sess client g') = roleID \<and>
    cs_loginStatus (sess client g') = 1 \<and>
    (logined \<noteq> 0 \<and> logined \<noteq> client \<longrightarrow>
      cs_closeFlag (sess logined g') = 1 \<and> cs_isSameUser (sess logined g') = 1)"
proof -
  let ?k = "logined \<noteq> 0 \<and> cs_loginStatus (sess logined g) \<noteq> 0 \<and> logined \<noteq> client"
  have fds: "gw_fds g' = gw_fds g"
    using keeps_login_answer [of now client logined roleID cid g] by (simp add: assms(6) keeps_def)
  have role: "\<exists>fd. smap_find roleID (gw_roles g) = Some fd" if "logined \<noteq> 0"
    using that assms(4) by (auto simp: FindRoleConnSession_def FindUserFd_def Let_def split: option.splits if_splits)
  have roles: "gw_roles g' = (if ?k then smap_put roleID (CONNECTION_FD cid) (gw_roles g)
      else smap_insert roleID (CONNECTION_FD cid) (gw_roles g))"
    using role by (auto simp: assms(6) login_answer_def Let_def gw CloseMark_facts UpdateUserFdMap_def
        InsertUserFdMap_def)
  have route: "FindRoleConnSession roleID g' = client"
  proof (cases "?k \<or> smap_find roleID (gw_roles g) = None")
    case True
    then have "smap_find roleID (gw_roles g') = Some (CONNECTION_FD cid)"
      using role by (auto simp: roles smap_find_put smap_find_insert)
    then show ?thesis
      using assms(1,3) fds by (simp add: FindRoleConnSession_def FindUserFd_def FindFdConnSession_def)
  next
    case False
    then have "logined = client" "FindUserFd roleID g' = FindUserFd roleID g"
      using assms(5) by (auto simp: roles smap_find_insert FindUserFd_def)
    moreover have "FindFdConnSession fd g' = FindFdConnSession fd g" for fd
      using fds by (simp add: FindFdConnSession_def)
    ultimately show ?thesis
      using assms(4) by (auto simp: FindRoleConnSession_def Let_def)
  qed
  have "cs_closeFlag (sess logined g') = 1 \<and> cs_isSameUser (sess logined g') = 1"
    if "logined \<noteq> 0" "logined \<noteq> client"
  proof -
    have k: ?k
      using that role assms(5) by auto
    have close: "cs_closeFlag (CloseConnNoLock t) = 1" "cs_isSameUser (CloseConnNoLock t) = cs_isSameUser t" for t
      by (simp_all add: CloseConnNoLock_def Let_def)
    have queue: "sess q (x\<lparr>gw_queue := cs\<rparr>) = sess q x" for q x cs
      by (simp add: sess_def)
    show ?thesis
      using that
      by (simp add: assms(6) login_answer_def k Let_def gw CloseMarkConnSession_def queue CloseConn_def
          SetStamp_def SetIsSameUser_def close)
  qed
  moreover have "cs_roleID (sess client g') = roleID" "cs_loginStatus (sess client g') = 1"
    by (simp_all add: assms(6) login_answer_def Let_def gw SetRoleID_def SetLoginStatus_def)
  ultimately show ?thesis
    using route by blast
qed

lemma demo_fd12: "CONNECTION_FD (CONNECTION_ID 6 80 12) = 12"
  using connection_id_fd [of 12 6 80] by simp

text \<open>Role 77 logs in again from a second connection, on descriptor 14.\<close>

definition demo_second :: gateway where
  "demo_second = demo_routed\<lparr>gw_heap := (gw_heap demo_routed)(8 :=
     ConnectSession_new 100 (CONNECTION_ID 9 80 14) OUTSIDE_TCP_STREAM), gw_fds := [(11, 5), (12, 6), (14, 8)]\<rparr>"

lemma demo_second_facts:
  "FindFdConnSession 14 demo_second = 8" "FindFdConnSession 12 demo_second = 6"
  "FindRoleConnSession 77 demo_second = 6" "cs_loginStatus (sess 6 demo_second) = 1"
  by (simp_all add: demo_second_def demo_routed_def sess_def ConnectSession_new_def SetRoleID_def
      SetLoginStatus_def FindFdConnSession_def FindRoleConnSession_def FindUserFd_def smap_find_def)

theorem login_routes_to_client_witness:
  "FindRoleConnSession 77 (login_answer 200 8 6 77 (CONNECTION_ID 9 80 14) demo_second) = 8 \<and>
   cs_closeFlag (sess 6 (login_answer 200 8 6 77 (CONNECTION_ID 9 80 14) demo_second)) = 1"
  using login_routes_to_client [of 8 "CONNECTION_ID 9 80 14" demo_second 6 77, OF _ _ _ _ _ refl, of 200]
    connection_id_fd [of 14 9 80] by (simp add: demo_second_facts)

text \<open>
  A connection that logs in under a second role strands the first. When role \<open>r1\<close> leads to
  the descriptor of a session whose current role is another one, and that outside session is removed,
  the route of \<open>r1\<close> stays in the table with no session behind it; a later successful login of
  \<open>r1\<close> on another connection leaves that route as it is, so that no message reaches the role,
  until the descriptor is given to a new connection, which then receives the messages of \<open>r1\<close>.
\<close>

lemma stale_role_route:
  assumes "smap_find r1 (gw_roles g) = Some (CONNECTION_FD c)" and "CONNECTION_FD c \<noteq> 0"
    and "smap_find (CONNECTION_FD c) (gw_fds g) = Some p"
    and "cs_connType (sess p g) = OUTSIDE_TCP_STREAM" and "cs_roleID (sess p g) \<noteq> r1"
    and "1 \<le> uint now - uint (cs_stamp (sess p g))"
    and "remove_one now c g = Some g1" and "g2 = login_answer now client (FindRoleConnSession r1 g1) r1 cid g1"
  shows "FindRoleConnSession r1 g1 = 0 \<and> FindRoleConnSession r1 g2 = 0 \<and>
    (\<forall>q. FindRoleConnSession r1 (g2\<lparr>gw_fds := smap_insert (CONNECTION_FD c) q (gw_fds g2)\<rparr>) = q)"
proof -
  have notify: "gw_roles (NotifyClientClosed p g) = gw_roles g"
    by (simp add: NotifyClientClosed_def Let_def gw_send_facts split: option.splits)
  have ips: "gw_roles (drop_ip_count ip g') = gw_roles g'" for ip g'
    by (simp add: drop_ip_count_def split: option.splits)
  have "smap_find r1 (gw_roles (snd (RemoveRoleFdMap (cs_roleID (sess p g)) (NotifyClientClosed p g)))) =
      Some (CONNECTION_FD c)"
    using assms(1,5) by (simp add: RemoveRoleFdMap_def notify smap_find_erase split: option.splits)
  then have roles: "smap_find r1 (gw_roles g1) = Some (CONNECTION_FD c)"
    using assms(1,3,4,6,7) by (auto simp: remove_one_def Let_def GW_CONNCLOSe_INTERNAL_def ips
        INSIDE_TCP_STREAM_def OUTSIDE_TCP_STREAM_def split: if_splits)
  have fds: "smap_find (CONNECTION_FD c) (gw_fds g1) = None"
    using assms(3,6,7) by (auto simp: remove_one_def Let_def GW_CONNCLOSe_INTERNAL_def smap_find_erase split: if_splits Option.bind_splits)
  have none: "FindRoleConnSession r1 g1 = 0"
    using roles fds by (simp add: FindRoleConnSession_def FindUserFd_def FindFdConnSession_def Let_def)
  then have "gw_roles g2 = smap_insert r1 (CONNECTION_FD cid) (gw_roles g1)" "gw_fds g2 = gw_fds g1"
    by (simp_all add: assms(8) login_answer_def Let_def gw InsertUserFdMap_def)
  then have roles2: "smap_find r1 (gw_roles g2) = Some (CONNECTION_FD c)" and "smap_find (CONNECTION_FD c) (gw_fds g2) = None"
    using roles fds by (simp_all add: smap_find_insert)
  then show ?thesis
    using none assms(2)
    by (simp add: FindRoleConnSession_def FindUserFd_def FindFdConnSession_def smap_find_insert Let_def)
qed

text \<open>The session of descriptor 12 logged in as role 55 and then as role 77.\<close>

definition demo_stale :: gateway where
  "demo_stale = demo_routed\<lparr>gw_roles := [(55, 12), (77, 12)]\<rparr>"

lemma demo_stale_facts:
  "smap_find 55 (gw_roles demo_stale) = Some (CONNECTION_FD (CONNECTION_ID 6 80 12))"
  "CONNECTION_FD (CONNECTION_ID 6 80 12) \<noteq> 0"
  "smap_find (CONNECTION_FD (CONNECTION_ID 6 80 12)) (gw_fds demo_stale) = Some 6"
  "cs_connType (sess 6 demo_stale) = OUTSIDE_TCP_STREAM" "cs_roleID (sess 6 demo_stale) \<noteq> 55"
  "1 \<le> uint (200 :: i32) - uint (cs_stamp (sess 6 demo_stale))"
  unfolding demo_fd12
  by (simp_all add: demo_stale_def demo_routed_def sess_def ConnectSession_new_def SetRoleID_def
      SetLoginStatus_def smap_find_def)

lemma stale_role_route_witness:
  "\<exists>g1. remove_one 200 (CONNECTION_ID 6 80 12) demo_stale = Some g1 \<and>
    FindRoleConnSession 55 (login_answer 200 8 (FindRoleConnSession 55 g1) 55 (CONNECTION_ID 9 80 14) g1) = 0"
proof -
  obtain g1 where "remove_one 200 (CONNECTION_ID 6 80 12) demo_stale = Some g1"
    using demo_stale_facts(3,4) unfolding remove_one_def Let_def
    by (cases "uint (200 :: i32) - uint (cs_stamp (sess 6 demo_stale)) < GW_CONNCLOSe_INTERNAL")
      (simp_all add: INSIDE_TCP_STREAM_def OUTSIDE_TCP_STREAM_def)
  with stale_role_route [OF demo_stale_facts this refl] show ?thesis
    by blast
qed

text \<open>
  A descriptor that the kernel gives out again before the clean-up thread has run loses its
  new connection: accepting an outside connection whose descriptor is still in the session table
  leaves the table as it was, so the descriptor leads to the old session, while the address of the
  new connection has been counted.
\<close>

lemma reused_descriptor_lost:
  assumes "smap_find (int (unat fd)) (gw_fds g) = Some q" and "unat fd < 65536"
    and "lsfd = gw_listenOut g"
    and "CheckIpCount ip g = (0, g1)"
  shows "gw_fds (accept_one now lsfd fd ip port g) = gw_fds g \<and>
    FindFdConnSession (int (unat fd)) (accept_one now lsfd fd ip port g) = q \<and>
    smap_find ip (gw_ips (accept_one now lsfd fd ip port g)) =
       Some (1 + (case smap_find ip (gw_ips g) of None \<Rightarrow> 0 | Some m \<Rightarrow> m))"
proof -
  have g1: "gw_fds g1 = gw_fds g"
    "smap_find ip (gw_ips g1) = Some (1 + (case smap_find ip (gw_ips g) of None \<Rightarrow> 0 | Some m \<Rightarrow> m))"
    using assms(4) by (auto simp: CheckIpCount_def smap_find_put split: option.splits if_splits)
  have "CONNECTION_FD (CONNECTION_ID ip port fd) = int (unat fd)"
    using connection_id_fd [OF assms(2)] .
  then have "gw_fds (accept_one now lsfd fd ip port g) = gw_fds g"
    "gw_ips (accept_one now lsfd fd ip port g) = gw_ips g1"
    using assms(1,3,4) g1(1)
    by (simp_all add: accept_one_def Let_def BuffInitCheck_def InsertConnSession_def sess_def
        ConnectSession_new_def smap_insert_def)
  then show ?thesis
    using assms(1) g1(2) by (simp add: FindFdConnSession_def)
qed

lemma reused_descriptor_lost_witness:
  "FindFdConnSession 12 (accept_one 200 0 12 9 80 demo_routed) = 6"
proof -
  have "smap_find (int (unat (12 :: i32))) (gw_fds demo_routed) = Some 6" "gw_listenOut demo_routed = 0"
    "CheckIpCount 9 demo_routed = (0, demo_routed\<lparr>gw_ips := smap_put 9 1 (gw_ips demo_routed)\<rparr>)"
    by (simp_all add: demo_routed_def AppGwSvc_new_def smap_find_def CheckIpCount_def)
  from reused_descriptor_lost [OF this(1) _ _ this(3), of 0 200 80] this(2) show ?thesis
    by simp
qed

end
