(* ===== verification/GW_Proxy.thy ===== *)
theory GW_Proxy
  imports Connect_Session Our_Def
begin

text \<open>
  \<^verbatim>\<open>Framework/BaseServer/Session.cpp\<close> and \<^verbatim>\<open>GWProxy.h\<close>: the side of
  an application server towards its gateways. A connection (\<^verbatim>\<open>class Gateway\<close>, a
  \<^verbatim>\<open>Session\<close>) collects the bytes of one message in its input buffer; the proxy
  queues complete messages for the service, registers the server, broadcasts to roles and asks
  for clients to be closed. A pointer to a connection is its index in \<^verbatim>\<open>_gateways\<close>.
  The kernel is an argument: the results of \<^verbatim>\<open>send\<close>, \<^verbatim>\<open>poll\<close>,
  \<^verbatim>\<open>recv\<close>, \<^verbatim>\<open>socket\<close> and \<^verbatim>\<open>connect\<close>. The result \<open>None\<close>
  is a call that does not return (it waits for results the lists do not hold) or that leaves the
  memory of its buffer.
\<close>

section \<open>Sending on a session\<close>

datatype sock_errno = EAGAIN | EINTR | EOTHER

datatype sock_send = Sent nat | SendErr sock_errno

datatype sock_poll = PollEvents | PollTimeout | PollErr sock_errno

text \<open>\<^verbatim>\<open>WaitSend\<close> with the value of \<^verbatim>\<open>errno\<close>: the loop goes on as long as
  \<^verbatim>\<open>poll\<close> returns something other than 0 and \<^verbatim>\<open>errno\<close> is
  \<^verbatim>\<open>EINTR\<close>.\<close>

fun WaitSend :: "sock_errno \<Rightarrow> sock_poll list \<Rightarrow> (int \<times> sock_poll list) option" where
  "WaitSend e [] = None"
| "WaitSend e (PollTimeout # ps) = Some (0, ps)"
| "WaitSend e (PollEvents # ps) = (if e \<noteq> EINTR then Some (- 1, ps) else WaitSend e ps)"
| "WaitSend e (PollErr e' # ps) = (if e' \<noteq> EINTR then Some (- 1, ps) else WaitSend e' ps)"

text \<open>The loop of \<^verbatim>\<open>SendProc\<close>; besides the code, the bytes the kernel took.
  \<^verbatim>\<open>send\<close> takes at most the bytes it is given.\<close>

fun send_chunks :: "sock_send list \<Rightarrow> sock_poll list \<Rightarrow> nat \<Rightarrow> data_buffer \<Rightarrow>
    (int \<times> u8 list \<times> data_buffer \<times> sock_send list \<times> sock_poll list) option" where
  "send_chunks [] ps n b = None"
| "send_chunks (Sent k # ss) ps n b =
     (let bytes = min k n; chunk = take bytes (drop (db_read b) (db_data b))
      in if bytes = n then Some (0, chunk, b, ss, ps)
         else map_option (\<lambda>(r, out, rest). (r, chunk @ out, rest))
                (send_chunks ss ps (n - bytes) (snd (MoveReadPtr (int bytes) b))))"
| "send_chunks (SendErr e # ss) ps n b =
     (if e = EAGAIN \<or> e = EINTR
      then case WaitSend e ps of
             None \<Rightarrow> None
           | Some (r, ps') \<Rightarrow> if r < 0 then Some (- 1, [], b, ss, ps') else send_chunks ss ps' n b
      else Some (- 1, [], b, ss, ps))"

text \<open>The size is an \<^verbatim>\<open>int\<close>; a negative one would be handed to
  \<^verbatim>\<open>send\<close> as a length beyond the memory.\<close>

definition SendProc :: "sock_send list \<Rightarrow> sock_poll list \<Rightarrow> data_buffer \<Rightarrow>
    (int \<times> u8 list \<times> data_buffer \<times> sock_send list \<times> sock_poll list) option" where
  "SendProc ss ps b =
     (let size = sint (GetDataSize b) in if size < 0 then None else send_chunks ss ps (nat size) b)"

section \<open>Connections and the proxy\<close>

record gw_conn =
  gc_ID :: u16
  gc_Handle :: int
  gc_EventIndex :: int
  gc_Connected :: bool
  gc_PacketLength :: u16
  gc_in :: data_buffer
  gc_out :: data_buffer
  gc_Registered :: bool

record gw_proxy =
  px_gateways :: "gw_conn list"
  px_packets :: "(nat \<times> packet) list"
  px_stoped :: bool
  px_pfds :: "int list"
  px_needconns :: int
  px_pollsize :: int
  px_lastconn :: int
  px_svrType :: u8
  px_svrSeq :: u8
  px_maxMsgSize :: u32

definition gw_at :: "nat \<Rightarrow> gw_proxy \<Rightarrow> gw_conn" where
  "gw_at i p = px_gateways p ! i"

definition upd_gw :: "nat \<Rightarrow> gw_conn \<Rightarrow> gw_proxy \<Rightarrow> gw_proxy" where
  "upd_gw i c p = p\<lparr>px_gateways := (px_gateways p)[i := c]\<rparr>"

definition FindSession :: "int \<Rightarrow> gw_proxy \<Rightarrow> nat option" where
  "FindSession fd p = find (\<lambda>i. gc_Handle (gw_at i p) = fd) [0..<length (px_gateways p)]"

definition FindSessionByID :: "int \<Rightarrow> gw_proxy \<Rightarrow> nat option" where
  "FindSessionByID ident p = find (\<lambda>i. uint (gc_ID (gw_at i p)) = ident) [0..<length (px_gateways p)]"

definition PushPacket :: "nat \<Rightarrow> packet \<Rightarrow> gw_proxy \<Rightarrow> gw_proxy" where
  "PushPacket i pkt p = p\<lparr>px_packets := px_packets p @ [(i, pkt)]\<rparr>"

definition Shutdown :: "gw_conn \<Rightarrow> gw_conn" where
  "Shutdown c = c\<lparr>gc_Connected := False, gc_in := Reset (gc_in c), gc_out := Reset (gc_out c)\<rparr>"

text \<open>\<^verbatim>\<open>Open\<close>: the descriptor \<^verbatim>\<open>socket\<close> returns and whether every call
  succeeded.\<close>

definition Open :: "int \<times> bool \<Rightarrow> gw_conn \<Rightarrow> int \<times> gw_conn" where
  "Open = (\<lambda>(h, ok) c. (if ok then 0 else - 1, c\<lparr>gc_Handle := h\<rparr>))"

definition CloseSession :: "int \<times> bool \<Rightarrow> nat \<Rightarrow> gw_proxy \<Rightarrow> int \<times> gw_proxy" where
  "CloseSession opened i p =
     (let c = Shutdown (gw_at i p);
          p1 = (upd_gw i c p)\<lparr>px_pollsize := px_pollsize p - 1\<rparr>;
          last = px_pfds p1 ! nat (px_pollsize p1);
          p2 = p1\<lparr>px_pfds := (px_pfds p1)[nat (gc_EventIndex c) := last]\<rparr>;
          moved = (if gc_EventIndex c < px_pollsize p1
                   then case FindSession last p2 of
                          None \<Rightarrow> Inl (p2\<lparr>px_stoped := True\<rparr>)
                        | Some j \<Rightarrow> Inr (upd_gw j ((gw_at j p2)\<lparr>gc_EventIndex := gc_EventIndex c\<rparr>) p2)
                   else Inr p1)
      in case moved of
           Inl p3 \<Rightarrow> (- 1, p3)
         | Inr p3 \<Rightarrow>
             if px_stoped p3 then (0, p3)
             else let (r, c') = Open opened (gw_at i p3); p4 = upd_gw i c' p3
                  in if r \<noteq> 0 then (- 1, p4) else (0, p4\<lparr>px_needconns := px_needconns p4 + 1\<rparr>))"

section \<open>Receiving\<close>

text \<open>\<^verbatim>\<open>recv\<close> into the buffer behind its write pointer, which then moves.\<close>

definition recv_up_to :: "int \<Rightarrow> recv_result \<Rightarrow> recv_result" where
  "recv_up_to left r =
     (case r of RecvError again \<Rightarrow> RecvError again
      | RecvBytes bs \<Rightarrow> RecvBytes (if left < 0 then bs else take (nat left) bs))"

definition recv_into :: "u8 list \<Rightarrow> data_buffer \<Rightarrow> data_buffer option" where
  "recv_into bs b =
     (if db_write b + length bs \<le> length (db_data b)
      then Some (snd (MoveWritePtr (int (length bs)) (b\<lparr>db_data := blit (db_data b) (db_write b) bs\<rparr>)))
      else None)"

text \<open>A complete message becomes a packet of its own, whose memory is filled by the copy;
  \<open>junk\<close> is the packet object before its fields are set.\<close>

definition push_message :: "packet \<Rightarrow> nat \<Rightarrow> u16 \<Rightarrow> gw_proxy \<Rightarrow> gw_proxy" where
  "push_message junk i len p =
     (let c = gw_at i p; b = gc_in c;
          mem = take (unat len) (drop (db_read b) (db_data b));
          buf = snd (MoveWritePtr (uint len) (DataBuffer_new (ucast len) mem));
          pkt = snd (UnpackHeader (SetBuffer buf junk))
      in upd_gw i (c\<lparr>gc_PacketLength := 0, gc_in := Reset b\<rparr>) (PushPacket i pkt p))"

definition close_failed :: "int \<times> bool \<Rightarrow> nat \<Rightarrow> u8 list \<Rightarrow> gw_proxy \<Rightarrow> int \<times> u8 list \<times> gw_proxy" where
  "close_failed opened i taken p = (- 1, taken, snd (CloseSession opened i p))"

definition finish_recv :: "packet \<Rightarrow> nat \<Rightarrow> u16 \<Rightarrow> u32 \<Rightarrow> gw_proxy \<Rightarrow> gw_proxy" where
  "finish_recv junk i len datasize p = (if datasize = ucast len then push_message junk i len p else p)"

text \<open>The part of \<^verbatim>\<open>OnRecv\<close> behind a complete header: the length check and the second
  \<^verbatim>\<open>recv\<close>.\<close>

definition recv_body :: "recv_result \<Rightarrow> int \<times> bool \<Rightarrow> packet \<Rightarrow> nat \<Rightarrow> u8 list \<Rightarrow> u32 \<Rightarrow> gw_proxy \<Rightarrow>
    (int \<times> u8 list \<times> gw_proxy) option" where
  "recv_body r2 opened junk i taken datasize p =
     (let c = gw_at i p; b = gc_in c;
          len = word_of_bytes (take 2 (drop (db_read b) (db_data b))) :: u16
      in if ucast len < PACKET_HEADER_LENGTH \<or> px_maxMsgSize p < ucast len
         then Some (close_failed opened i taken p)
         else let c1 = c\<lparr>gc_PacketLength := len\<rparr>; p1 = upd_gw i c1 p;
                  left = sint (ucast len - datasize)
              in if 0 < left
                 then case recv_up_to left r2 of
                        RecvError again \<Rightarrow>
                          Some (if again then (0, taken, p1) else close_failed opened i taken p1)
                      | RecvBytes bs \<Rightarrow>
                          if bs = [] then Some (close_failed opened i taken p1)
                          else map_option (\<lambda>b'. (0, taken @ bs, finish_recv junk i len
                                   (datasize + of_nat (length bs)) (upd_gw i (c1\<lparr>gc_in := b'\<rparr>) p1)))
                                 (recv_into bs b)
                 else Some (0, taken, finish_recv junk i len datasize p1))"

text \<open>\<^verbatim>\<open>OnRecv\<close>; besides the code, the bytes taken from the kernel.\<close>

definition OnRecv :: "recv_result \<Rightarrow> recv_result \<Rightarrow> int \<times> bool \<Rightarrow> packet \<Rightarrow> nat \<Rightarrow> gw_proxy \<Rightarrow>
    (int \<times> u8 list \<times> gw_proxy) option" where
  "OnRecv r1 r2 opened junk i p =
     (let c = gw_at i p; b = gc_in c; len = gc_PacketLength c; datasize = GetDataSize b;
          left = sint (if len = 0 then PACKET_HEADER_LENGTH - datasize else ucast len - datasize)
      in case recv_up_to left r1 of
           RecvError again \<Rightarrow> Some (if again then (0, [], p) else close_failed opened i [] p)
         | RecvBytes bs \<Rightarrow>
             if bs = [] then Some (close_failed opened i [] p)
             else (case recv_into bs b of
                    None \<Rightarrow> None
                  | Some b' \<Rightarrow>
                      let p1 = upd_gw i (c\<lparr>gc_in := b'\<rparr>) p; datasize1 = datasize + of_nat (length bs)
                      in if len = 0 \<and> PACKET_HEADER_LENGTH \<le> datasize1
                         then recv_body r2 opened junk i bs datasize1 p1
                         else Some (0, bs, finish_recv junk i len datasize1 p1)))"

section \<open>Processing, broadcasting, registering\<close>

text \<open>\<^verbatim>\<open>OnProcess\<close> for one packet: \<open>Some\<close> is a packet given to the service's
  \<^verbatim>\<open>OnProcessPacket\<close>.\<close>

definition OnProcess :: "gw_conn \<Rightarrow> packet \<Rightarrow> gw_conn \<times> packet option" where
  "OnProcess c pkt =
     (if gc_Registered c then (c, Some pkt)
      else if p_MsgType pkt = MSGTYPE_GW_SVRCONNECT
      then let errorCode = (case Read 4 (p_buffer pkt) of None \<Rightarrow> (0 :: i32) | Some (bs, b) \<Rightarrow> word_of_bytes bs)
           in (c\<lparr>gc_Registered := (errorCode = 0)\<rparr>, None)
      else (c, None))"

definition PopPacket :: "gw_proxy \<Rightarrow> ((nat \<times> packet) \<times> gw_proxy) option" where
  "PopPacket p = (case px_packets p of [] \<Rightarrow> None | v # vs \<Rightarrow> Some (v, p\<lparr>px_packets := vs\<rparr>))"

text \<open>\<^verbatim>\<open>Broadcast\<close>: the role id is patched into the message in the buffer, which is sent
  once per role. \<open>outs\<close> is what the kernel took for each role.\<close>

primrec Broadcast :: "u32 list \<Rightarrow> u32 \<Rightarrow> gw_proxy \<Rightarrow> sock_send list \<Rightarrow> sock_poll list \<Rightarrow> data_buffer \<Rightarrow>
    (int \<times> u8 list list \<times> data_buffer \<times> sock_send list \<times> sock_poll list) option" where
  "Broadcast [] dataSize p ss ps b = Some (0, [], b, ss, ps)"
| "Broadcast (rid # rids) dataSize p ss ps b =
     (case FindSessionByID 1 p of
        None \<Rightarrow> Broadcast rids dataSize p ss ps b
      | Some i \<Rightarrow>
          if length (db_data b) < db_read b + 15 then None
          else (case SendProc ss ps (b\<lparr>db_data := blit (db_data b) (db_read b + 11) (bytes_of_word 4 rid)\<rparr>) of
                 None \<Rightarrow> None
               | Some (r, out, b1, ss', ps') \<Rightarrow>
                   if r \<noteq> 0 then Some (- 1, [out], b1, ss', ps')
                   else map_option (\<lambda>(r', outs, rest). (r', out # outs, rest))
                          (Broadcast rids dataSize p ss' ps' (snd (MoveReadPtr (sint (- dataSize)) b1)))))"

definition Broadcast_all :: "u32 list \<Rightarrow> gw_proxy \<Rightarrow> sock_send list \<Rightarrow> sock_poll list \<Rightarrow> data_buffer \<Rightarrow>
    (int \<times> u8 list list \<times> data_buffer \<times> sock_send list \<times> sock_poll list) option" where
  "Broadcast_all rids p ss ps b = Broadcast rids (GetDataSize b) p ss ps b"

text \<open>\<^verbatim>\<open>CloseClient\<close> builds its message in a packet of fifteen bytes; \<open>mem\<close> is that
  memory and \<open>junk\<close> the packet object before its fields are set. There is no check that the
  gateway was found.\<close>

definition CloseClient :: "packet \<Rightarrow> u8 list \<Rightarrow> u32 \<Rightarrow> gw_proxy \<Rightarrow> sock_send list \<Rightarrow> sock_poll list \<Rightarrow>
    (int \<times> u8 list) option" where
  "CloseClient junk mem roleID p ss ps =
     (case FindSessionByID 1 p of
        None \<Rightarrow> None
      | Some i \<Rightarrow>
          if \<not> gc_Connected (gw_at i p) then Some (- 1, [])
          else if \<not> gc_Registered (gw_at i p) then Some (- 1, [])
          else let pkt = junk\<lparr>p_Length := ucast PACKET_HEADER_LENGTH, p_Direction := DIRECT_S_S_REQ,
                     p_SvrType := 0, p_SvrSeq := 0, p_MsgType := MSGTYPE_GW_CLOSECLIENT, p_UniqID := 0,
                     p_RoleID := roleID, p_buffer := DataBuffer_new PACKET_HEADER_LENGTH mem\<rparr>
               in (case UpdatePacketLength pkt of
                    None \<Rightarrow> None
                  | Some (ok, pkt') \<Rightarrow>
                      map_option (\<lambda>(r, out, rest). (if r \<noteq> 0 then - 1 else 0, out)) (SendProc ss ps (p_buffer pkt'))))"

text \<open>\<^verbatim>\<open>Register\<close>: the role id of its packet is never set.\<close>

definition register_packet :: "packet \<Rightarrow> u8 list \<Rightarrow> gw_proxy \<Rightarrow> packet option" where
  "register_packet junk mem p =
     (let pkt = junk\<lparr>p_Length := ucast PACKET_HEADER_LENGTH, p_Direction := DIRECT_S_S_REQ,
            p_SvrType := 0, p_SvrSeq := 0, p_MsgType := MSGTYPE_GW_SVRCONNECT, p_UniqID := 0,
            p_buffer := DataBuffer_new 1024 mem\<rparr>
      in do {
        (ok, p1) \<leftarrow> PackHeader pkt;
        (r1, b1) \<leftarrow> Write (bytes_of_word 1 (px_svrType p)) (p_buffer p1);
        (r2, b2) \<leftarrow> Write (bytes_of_word 1 (px_svrSeq p)) b1;
        (ok', p2) \<leftarrow> UpdatePacketLength (p1\<lparr>p_buffer := b2\<rparr>);
        Some p2
      })"

definition Register :: "packet \<Rightarrow> u8 list \<Rightarrow> nat \<Rightarrow> gw_proxy \<Rightarrow> sock_send list \<Rightarrow> sock_poll list \<Rightarrow>
    (int \<times> u8 list) option" where
  "Register junk mem i p ss ps =
     (if \<not> gc_Connected (gw_at i p) then Some (- 1, [])
      else if gc_Registered (gw_at i p) then Some (0, [])
      else case register_packet junk mem p of
             None \<Rightarrow> None
           | Some pkt \<Rightarrow> map_option (\<lambda>(r, out, rest). (r, out)) (SendProc ss ps (p_buffer pkt)))"

text \<open>\<^verbatim>\<open>Connect\<close> without the message of \<^verbatim>\<open>Register\<close>: \<open>conn i\<close> says whether
  \<^verbatim>\<open>connect\<close> succeeds for connection \<open>i\<close>. The result lists the connections that were
  made, in order; each is then registered.\<close>

fun connect_from :: "(nat \<Rightarrow> bool) \<Rightarrow> nat list \<Rightarrow> gw_proxy \<Rightarrow> int \<times> nat list \<times> gw_proxy" where
  "connect_from conn [] p = (0, [], p)"
| "connect_from conn (i # is) p =
     (let c = gw_at i p
      in if gc_Connected c then connect_from conn is p
         else if conn i
         then let c' = c\<lparr>gc_EventIndex := px_pollsize p, gc_Connected := True, gc_Registered := False\<rparr>;
                  p' = (upd_gw i c' p)\<lparr>px_pfds := (px_pfds p)[nat (px_pollsize p) := gc_Handle c],
                         px_pollsize := px_pollsize p + 1, px_needconns := px_needconns p - 1\<rparr>;
                  (r, js, p'') = connect_from conn is p'
              in (r, i # js, p'')
         else (- 1, [], p))"

definition Connect :: "int \<Rightarrow> (nat \<Rightarrow> bool) \<Rightarrow> gw_proxy \<Rightarrow> int \<times> nat list \<times> gw_proxy" where
  "Connect now conn p =
     (if 1 \<le> now - px_lastconn p
      then connect_from conn [0..<length (px_gateways p)] (p\<lparr>px_lastconn := now\<rparr>)
      else (0, [], p))"

section \<open>What the send routine does\<close>

lemma holds_MoveReadPtr:
  assumes "holds b q" and "k \<le> length q"
  shows "MoveReadPtr (int k) b = (0, advance_db k b)" and "holds (advance_db k b) (drop k q)"
proof -
  have "length q = db_write b - db_read b" "db_read b \<le> db_write b"
    using assms(1) length_unread [of b] by (auto simp: holds_def)
  then show "MoveReadPtr (int k) b = (0, advance_db k b)"
    using assms(2) by (simp add: MoveReadPtr_def advance_db_def nat_int_add)
  show "holds (advance_db k b) (drop k q)"
    using holds_advance [of b "take k q" "drop k q"] assms by (simp add: min_absorb2)
qed

lemma holds_take: "holds b q \<Longrightarrow> n \<le> length q \<Longrightarrow> take n (drop (db_read b) (db_data b)) = take n q"
  using length_unread [of b] by (auto simp: holds_def unread_def drop_take min_absorb1)

lemma holds_GetDataSize:
  assumes "holds b q"
  shows "GetDataSize b = of_nat (length q)"
proof -
  have "int (db_write b) - int (db_read b) = int (length q)"
    using assms length_unread [of b] by (auto simp: holds_def of_nat_diff)
  then show ?thesis
    by (simp add: GetDataSize_def)
qed

lemma sint_u32_of_nat: "n < 2 ^ 31 \<Longrightarrow> sint (of_nat n :: u32) = int n"
  by (simp add: signed_of_nat signed_take_bit_int_eq_self)

lemma SendProc_holds:
  "holds b q \<Longrightarrow> length q < 2 ^ 31 \<Longrightarrow> SendProc ss ps b = send_chunks ss ps (length q) b"
  by (simp add: SendProc_def holds_GetDataSize sint_u32_of_nat Let_def)

lemma send_chunks_sent:
  "holds b q \<Longrightarrow> send_chunks ss ps (length q) b = Some (r, out, rest) \<Longrightarrow>
   (r = 0 \<and> out = q) \<or> (r = - 1 \<and> (\<exists>t. q = out @ t))"
proof (induction ss ps "length q" b arbitrary: q r out rest rule: send_chunks.induct)
  case (2 k ss ps b)
  let ?n = "min k (length q)"
  have chunk: "take ?n (drop (db_read b) (db_data b)) = take ?n q"
    using 2(2) by (simp add: holds_take)
  show ?case
  proof (cases "?n = length q")
    case True
    then show ?thesis
      using 2(3) chunk by (simp add: Let_def)
  next
    case False
    then have lt: "k < length q"
      by simp
    have adv: "snd (MoveReadPtr (int ?n) b) = advance_db ?n b" "holds (advance_db ?n b) (drop ?n q)"
      using holds_MoveReadPtr [OF 2(2), of ?n] by simp_all
    obtain out' where rec: "send_chunks ss ps (length (drop ?n q)) (advance_db ?n b) = Some (r, out', rest)"
      and out: "out = take ?n q @ out'"
      using 2(3) lt adv(1) chunk by (auto simp: Let_def min_absorb1)
    have "(r = 0 \<and> out' = drop ?n q) \<or> (r = - 1 \<and> (\<exists>t. drop ?n q = out' @ t))"
      using 2(1) [OF refl refl False, of "drop ?n q"] adv rec by simp
    then show ?thesis
      unfolding out by (metis append_assoc append_take_drop_id)
  qed
next
  case (3 e ss ps b)
  show ?case
  proof (cases "e = EAGAIN \<or> e = EINTR")
    case True
    then obtain r' ps' where "WaitSend e ps = Some (r', ps')"
      using 3(3) by (auto split: option.splits)
    then show ?thesis
      using 3 True by (auto split: if_splits)
  next
    case False
    then show ?thesis
      using 3(3) by simp
  qed
qed auto

lemma WaitSend_blocked: "PollTimeout \<notin> set ps \<Longrightarrow> WaitSend e ps \<noteq> Some (0, ps')"
  by (induction e ps rule: WaitSend.induct) auto

lemma WaitSend_code: "WaitSend e ps = Some (r, ps') \<Longrightarrow> r = 0 \<or> r = - 1"
  by (induction e ps rule: WaitSend.induct) (auto split: if_splits)

lemma send_chunks_no_wait:
  "PollTimeout \<notin> set ps \<Longrightarrow> send_chunks ss ps n b = Some (0, out, b', ss', ps') \<Longrightarrow>
   \<exists>ks. ss = map Sent ks @ ss' \<and> ps' = ps"
proof (induction ss ps n b arbitrary: out rule: send_chunks.induct)
  case (2 k ss ps n b)
  show ?case
  proof (cases "min k n = n")
    case True
    then show ?thesis
      using 2(3) by (intro exI [of _ "[k]"]) (simp add: Let_def)
  next
    case False
    then have "k < n"
      by simp
    then obtain out' where "send_chunks ss ps (n - min k n) (snd (MoveReadPtr (int (min k n)) b)) =
        Some (0, out', b', ss', ps')"
      using 2(3) by (auto simp: Let_def min_absorb1)
    then obtain ks where "ss = map Sent ks @ ss'" "ps' = ps"
      using 2(1) [OF refl refl False] 2(2) by auto
    then show ?thesis
      by (intro exI [of _ "k # ks"]) simp
  qed
next
  case (3 e ss ps n b)
  then show ?case
    using WaitSend_blocked [OF 3(2)] WaitSend_code [of e ps] by (auto split: if_splits option.splits)
qed auto

text \<open>
  A server never waits for a full socket. \<^verbatim>\<open>poll\<close> without a timeout does not
  return 0, and that is the only result after which \<^verbatim>\<open>WaitSend\<close> lets the send go on,
  so a send that is told to try again even once fails: a successful \<^verbatim>\<open>SendProc\<close> made
  only send calls that took bytes, and no \<^verbatim>\<open>poll\<close> call.
\<close>

lemma send_never_waits:
  assumes "PollTimeout \<notin> set ps" and "SendProc ss ps b = Some (0, out, b', ss', ps')"
  shows "\<exists>ks. ss = map Sent ks @ ss' \<and> ps' = ps"
  using assms send_chunks_no_wait by (auto simp: SendProc_def Let_def split: if_splits)

definition demo_message :: data_buffer where
  "demo_message = \<lparr>db_size = 20, db_data = [20, 0, 3, 1, 1, 44, 1, 0, 0, 0, 0, 0, 0, 0, 0, 65, 66, 67, 68, 69],
     db_read = 0, db_write = 20\<rparr>"

lemma demo_message_holds:
  "holds demo_message [20, 0, 3, 1, 1, 44, 1, 0, 0, 0, 0, 0, 0, 0, 0, 65, 66, 67, 68, 69]"
  by (simp add: holds_def db_inv_def unread_def demo_message_def)

lemma send_never_waits_witness:
  "\<exists>out b'. SendProc [Sent 8, Sent 12, SendErr EAGAIN] [PollEvents] demo_message =
     Some (0, out, b', [SendErr EAGAIN], [PollEvents]) \<and>
   (\<exists>ks. [Sent 8, Sent 12, SendErr EAGAIN] = map Sent ks @ [SendErr EAGAIN])"
proof -
  have "GetDataSize demo_message = 20"
    by (simp add: GetDataSize_def demo_message_def)
  then obtain out b' where "SendProc [Sent 8, Sent 12, SendErr EAGAIN] [PollEvents] demo_message =
      Some (0, out, b', [SendErr EAGAIN], [PollEvents])"
    by (auto simp: SendProc_def Let_def)
  with send_never_waits [OF _ this] show ?thesis
    by auto
qed

text \<open>
  The request to close a client is never sent. \<^verbatim>\<open>CloseClient\<close> fills the header
  fields but does not pack them, so \<^verbatim>\<open>UpdatePacketLength\<close> stamps the length of an
  empty buffer and puts the write pointer back to its start: on a connected and registered gateway
  the call reports success and the kernel is given no byte, whatever the role and the memory.
\<close>

lemma CloseClient_sends_nothing:
  assumes "FindSessionByID 1 p = Some i" and "gc_Connected (gw_at i p)" and "gc_Registered (gw_at i p)"
    and "length mem = 15"
  shows "CloseClient junk mem roleID p (Sent n # ss) ps = Some (0, [])"
proof -
  let ?b = "DataBuffer_new PACKET_HEADER_LENGTH mem"
  have rewind: "MoveWritePtr 0 ?b = (0, ?b)"
    by (simp add: MoveWritePtr_def DataBuffer_new_def)
  have wr: "Write (bytes_of_word 2 (0 :: u16)) ?b =
      Some (0, ?b\<lparr>db_data := blit mem 0 (bytes_of_word 2 (0 :: u16)), db_write := 2\<rparr>)"
    using assms(4) by (simp add: Write_def DataBuffer_new_def PACKET_HEADER_LENGTH_def)
  have fwd: "MoveWritePtr (- 2) (?b\<lparr>db_data := d, db_write := 2\<rparr>) = (0, ?b\<lparr>db_data := d, db_write := 0\<rparr>)" for d
    by (simp add: MoveWritePtr_def DataBuffer_new_def PACKET_HEADER_LENGTH_def)
  have upd: "UpdatePacketLength (pkt\<lparr>p_buffer := ?b\<rparr>) = Some (True, pkt\<lparr>p_Length := 0,
      p_buffer := ?b\<lparr>db_data := blit mem 0 (bytes_of_word 2 (0 :: u16)), db_write := 0\<rparr>\<rparr>)" for pkt
  proof -
    have "of_nat (db_write ?b) = (0 :: u16)"
      by (simp add: DataBuffer_new_def)
    then show ?thesis
      by (simp add: UpdatePacketLength_def Let_def rewind wr fwd)
  qed
  have "SendProc (Sent n # ss) ps (?b\<lparr>db_data := d, db_write := 0\<rparr>) =
      Some (0, [], ?b\<lparr>db_data := d, db_write := 0\<rparr>, ss, ps)" for d
    by (simp add: SendProc_def GetDataSize_def DataBuffer_new_def Let_def)
  then show ?thesis
    using assms(1-3) by (simp add: CloseClient_def Let_def upd)
qed

definition demo_conn :: gw_conn where
  "demo_conn = \<lparr>gc_ID = 1, gc_Handle = 9, gc_EventIndex = 0, gc_Connected = True, gc_PacketLength = 0,
     gc_in = DataBuffer_new 64 (replicate 64 0), gc_out = DataBuffer_new 64 (replicate 64 0), gc_Registered = True\<rparr>"

definition demo_proxy :: gw_proxy where
  "demo_proxy = \<lparr>px_gateways = [demo_conn], px_packets = [], px_stoped = False, px_pfds = [9], px_needconns = 0,
     px_pollsize = 1, px_lastconn = 0, px_svrType = 1, px_svrSeq = 1, px_maxMsgSize = 64\<rparr>"

lemma demo_proxy_facts:
  "FindSessionByID 1 demo_proxy = Some 0" "gw_at 0 demo_proxy = demo_conn"
  by (simp_all add: FindSessionByID_def gw_at_def demo_proxy_def demo_conn_def)

lemma CloseClient_sends_nothing_witness:
  "CloseClient demo_packet (replicate 15 0) 77 demo_proxy [Sent 15] [] = Some (0, [])"
  by (rule CloseClient_sends_nothing [of _ 0]) (simp_all add: demo_proxy_facts demo_conn_def)

section \<open>What a broadcast sends\<close>

text \<open>The message for one role: the role id is the last field of the header.\<close>

definition addressed :: "u32 \<Rightarrow> u8 list \<Rightarrow> u8 list" where
  "addressed rid msg = blit msg 11 (bytes_of_word 4 rid)"

lemma length_addressed [simp]: "15 \<le> length msg \<Longrightarrow> length (addressed rid msg) = length msg"
  by (simp add: addressed_def)

lemma addressed_twice: "15 \<le> length msg \<Longrightarrow> addressed rid (addressed rid' msg) = addressed rid msg"
  by (simp add: addressed_def blit_def)

lemma holds_addressed:
  assumes "holds b msg" and "15 \<le> length msg"
  shows "holds (b\<lparr>db_data := blit (db_data b) (db_read b + 11) (bytes_of_word 4 rid)\<rparr>) (addressed rid msg)"
    and "db_read b + 15 \<le> length (db_data b)"
proof -
  have inv: "db_inv b" "db_read b \<le> db_write b" and msg: "msg = drop (db_read b) (take (db_write b) (db_data b))"
    using assms(1) by (simp_all add: holds_def unread_def)
  then have le: "db_read b + 15 \<le> db_write b" "db_write b \<le> length (db_data b)"
    using assms length_unread [of b] by (auto simp: holds_def db_inv_def)
  then show "db_read b + 15 \<le> length (db_data b)"
    by simp
  have "drop (db_read b) (take (db_write b) (blit (db_data b) (db_read b + 11) (bytes_of_word 4 rid))) =
      addressed rid msg"
    using le drop_take_blit [of "db_read b" "db_read b + 11" "bytes_of_word 4 rid" "db_write b" "db_data b"]
    by (simp add: addressed_def msg)
  then show "holds (b\<lparr>db_data := blit (db_data b) (db_read b + 11) (bytes_of_word 4 rid)\<rparr>) (addressed rid msg)"
    using inv le by (simp add: holds_def db_inv_def unread_def)
qed

lemma send_whole:
  assumes "holds b msg" and "length msg \<le> n" and "length msg < 2 ^ 31"
  shows "SendProc (Sent n # ss) ps b = Some (0, msg, b, ss, ps)"
  using assms holds_take [of b msg "length msg"] by (simp add: SendProc_holds min_absorb2)

lemma sint_u32_minus:
  assumes "n < 2 ^ 31"
  shows "sint (- (of_nat n) :: u32) = - int n"
proof -
  have "sint (of_int (- int n) :: u32) = - int n"
    using assms by (subst signed_of_int) (simp add: signed_take_bit_int_eq_self)
  then show ?thesis
    by simp
qed

lemma rewind_blocked:
  assumes "holds b q" and "length q \<le> m" and "db_read b < m" and "m < 2 ^ 31"
  shows "MoveReadPtr (sint (- (of_nat m) :: u32)) b = (- 1, b)"
  using assms by (simp add: sint_u32_minus MoveReadPtr_def)

lemma Broadcast_whole:
  assumes "FindSessionByID 1 p = Some i" and "15 \<le> length msg"
  shows "holds b m \<Longrightarrow> length m = n \<Longrightarrow> 15 \<le> n \<Longrightarrow> n < 2 ^ 31 \<Longrightarrow> db_read b < n \<Longrightarrow>
    \<forall>r. addressed r m = addressed r msg \<Longrightarrow> list_all (\<lambda>k. n \<le> k) ks \<Longrightarrow> length ks = length rids \<Longrightarrow>
    \<exists>b'. Broadcast rids (of_nat n) p (map Sent ks @ ss) ps b =
      Some (0, map (\<lambda>r. addressed r msg) rids, b', ss, ps)"
proof (induction rids arbitrary: b m ks)
  case Nil
  then show ?case by simp
next
  case (Cons r rids)
  obtain k ks' where ks: "ks = k # ks'"
    using Cons.prems by (cases ks) auto
  let ?b = "b\<lparr>db_data := blit (db_data b) (db_read b + 11) (bytes_of_word 4 r)\<rparr>"
  have h: "holds ?b (addressed r msg)" "db_read b + 15 \<le> length (db_data b)"
    using holds_addressed(1) [of b m r] holds_addressed(2) [of b m] Cons.prems by simp_all
  have len: "length (addressed r msg) = n"
    using Cons.prems(2,3,6) by (metis length_addressed)
  have snd: "SendProc (Sent k # map Sent ks' @ ss) ps ?b = Some (0, addressed r msg, ?b, map Sent ks' @ ss, ps)"
    using send_whole [OF h(1), of k] Cons.prems len by (simp add: ks)
  have stay: "MoveReadPtr (sint (- (of_nat n) :: u32)) ?b = (- 1, ?b)"
    using rewind_blocked [OF h(1), of n] Cons.prems len by simp
  have "\<forall>r'. addressed r' (addressed r msg) = addressed r' msg"
    using assms(2) by (simp add: addressed_twice)
  then obtain b' where "Broadcast rids (of_nat n) p (map Sent ks' @ ss) ps ?b =
      Some (0, map (\<lambda>r. addressed r msg) rids, b', ss, ps)"
    using Cons.IH [OF h(1) len _ _ _ _ , of ks'] Cons.prems by (auto simp: ks)
  then show ?case
    using h(2) assms(1) by (simp add: ks snd stay)
qed

text \<open>
  When the kernel takes every message whole, a broadcast sends each role in the list one copy of
  the message, in the order of the list, that differs from the buffer in the role id alone.
\<close>

lemma broadcast_each_role:
  assumes "FindSessionByID 1 p = Some i" and "holds b msg" and "15 \<le> length msg" and "length msg < 2 ^ 31"
    and "db_read b < length msg" and "list_all (\<lambda>k. length msg \<le> k) ks" and "length ks = length rids"
  shows "\<exists>b'. Broadcast_all rids p (map Sent ks @ ss) ps b =
    Some (0, map (\<lambda>r. addressed r msg) rids, b', ss, ps)"
  using Broadcast_whole [OF assms(1,3,2) refl assms(3-5) _ assms(6,7)] assms(2)
  by (simp add: Broadcast_all_def holds_GetDataSize)

lemma broadcast_each_role_witness:
  "\<exists>b'. Broadcast_all [77, 78] demo_proxy (map Sent [20, 20] @ []) [] demo_message =
    Some (0, map (\<lambda>r. addressed r [20, 0, 3, 1, 1, 44, 1, 0, 0, 0, 0, 0, 0, 0, 0, 65, 66, 67, 68, 69]) [77, 78], b', [], [])"
  by (rule broadcast_each_role [OF demo_proxy_facts(1) demo_message_holds]) (simp_all add: demo_message_def)

text \<open>
  A broadcast is torn by a message the kernel takes in two pieces. The read pointer stays behind
  the first piece, because going back by the length of the whole message would leave the buffer, so
  the next role is sent the rest of the message from there on, with its role id written into the body.
\<close>

lemma broadcast_torn:
  assumes "FindSessionByID 1 p = Some i" and "holds b msg" and "db_read b = 0" and "length msg < 2 ^ 31"
    and "0 < k" and "k + 15 \<le> length msg" and "length msg - k \<le> n1" and "length msg - k \<le> n2"
  shows "\<exists>b'. Broadcast_all [r1, r2] p (Sent k # Sent n1 # Sent n2 # ss) ps b =
    Some (0, [addressed r1 msg, addressed r2 (drop k (addressed r1 msg))], b', ss, ps)"
proof -
  let ?m1 = "addressed r1 msg" and ?len = "length msg"
  let ?b1 = "b\<lparr>db_data := blit (db_data b) (db_read b + 11) (bytes_of_word 4 r1)\<rparr>"
  have h1: "holds ?b1 ?m1" "db_read b + 15 \<le> length (db_data b)" and len1: "length ?m1 = ?len"
    using holds_addressed(1) [OF assms(2), of r1] holds_addressed(2) [OF assms(2)] assms(6) by simp_all
  have adv: "MoveReadPtr (int k) ?b1 = (0, advance_db k ?b1)" and ha: "holds (advance_db k ?b1) (drop k ?m1)"
    using holds_MoveReadPtr [OF h1(1), of k] len1 assms(6) by simp_all
  have "send_chunks (Sent n1 # Sent n2 # ss) ps (?len - k) (advance_db k ?b1) =
      Some (0, drop k ?m1, advance_db k ?b1, Sent n2 # ss, ps)"
    using send_whole [OF ha, of n1] SendProc_holds [OF ha] len1 assms(4,7) by simp
  moreover have "take k (drop (db_read ?b1) (db_data ?b1)) = take k ?m1"
    using holds_take [OF h1(1), of k] len1 assms(6) by simp
  ultimately have snd1: "SendProc (Sent k # Sent n1 # Sent n2 # ss) ps ?b1 =
      Some (0, ?m1, advance_db k ?b1, Sent n2 # ss, ps)"
    using SendProc_holds [OF h1(1)] adv len1 assms(4-6) by (simp add: Let_def min_absorb1)
  have read: "db_read (advance_db k ?b1) = k"
    by (simp add: advance_db_def assms(3))
  have stay: "MoveReadPtr (sint (- (of_nat ?len) :: u32)) (advance_db k ?b1) = (- 1, advance_db k ?b1)"
    using rewind_blocked [OF ha, of ?len] read assms(4,6) len1 by simp
  let ?a = "advance_db k ?b1"
  let ?b2 = "?a\<lparr>db_data := blit (db_data ?a) (db_read ?a + 11) (bytes_of_word 4 r2)\<rparr>"
  have h2: "holds ?b2 (addressed r2 (drop k ?m1))" "db_read ?a + 15 \<le> length (db_data ?a)"
    using holds_addressed(1) [OF ha, of r2] holds_addressed(2) [OF ha] len1 assms(6) by simp_all
  have "length (addressed r2 (drop k ?m1)) = ?len - k"
    using len1 assms(6) by simp
  then have "SendProc (Sent n2 # ss) ps ?b2 = Some (0, addressed r2 (drop k ?m1), ?b2, ss, ps)"
    using send_whole [OF h2(1), of n2] assms(4,8) by simp
  then show ?thesis
    using assms(1) h1(2) h2(2) holds_GetDataSize [OF assms(2)] by (simp add: Broadcast_all_def snd1 stay)
qed

lemma broadcast_torn_witness:
  "\<exists>b'. Broadcast_all [77, 78] demo_proxy [Sent 5, Sent 15, Sent 15] [] demo_message =
    Some (0, [addressed 77 [20, 0, 3, 1, 1, 44, 1, 0, 0, 0, 0, 0, 0, 0, 0, 65, 66, 67, 68, 69],
      addressed 78 (drop 5 (addressed 77 [20, 0, 3, 1, 1, 44, 1, 0, 0, 0, 0, 0, 0, 0, 0, 65, 66, 67, 68, 69]))], b', [], [])"
  by (rule broadcast_torn [OF demo_proxy_facts(1) demo_message_holds]) (simp_all add: demo_message_def)

end
