(* ===== verification/Proxy_Receive.thy ===== *)
theory Proxy_Receive
  imports GW_Proxy
begin

text \<open>
  What the receive routine of \<^verbatim>\<open>GWProxy.h\<close> does with the byte stream of a
  gateway: one step is \<^verbatim>\<open>OnRecv\<close>, its abstract state the bytes of the message that
  is still incomplete, and its specification the cut of the stream into messages,
  \<open>split_frames\<close>. Then the defect of that state across a reconnection, and the poll table.
\<close>

section \<open>One call of OnRecv\<close>

definition conn_ok :: "nat \<Rightarrow> gw_conn \<Rightarrow> u8 list \<Rightarrow> bool" where
  "conn_ok M c xs = (holds (gc_in c) xs \<and> db_read (gc_in c) = 0 \<and> M \<le> unat (db_size (gc_in c)) \<and>
     (if gc_PacketLength c = 0 then length xs < 15
      else 15 \<le> length xs \<and> length xs < unat (gc_PacketLength c) \<and>
           frame_len xs = unat (gc_PacketLength c) \<and> unat (gc_PacketLength c) \<le> M))"

definition parse :: "packet \<Rightarrow> u8 list \<Rightarrow> packet" where
  "parse junk m =
     snd (UnpackHeader (SetBuffer (snd (MoveWritePtr (int (length m)) (DataBuffer_new (of_nat (length m)) m))) junk))"

lemma sint_u32_diff:
  assumes "n \<le> m" and "m < 2 ^ 31"
  shows "sint (of_nat m - of_nat n :: u32) = int m - int n"
proof -
  have "(of_nat m - of_nat n :: u32) = of_nat (m - n)"
    using assms(1) by (simp add: of_nat_diff)
  moreover have "sint (of_nat (m - n) :: u32) = int (m - n)"
    using assms by (intro sint_u32_of_nat) simp
  ultimately show ?thesis
    using assms(1) by (simp only: of_nat_diff)
qed

lemma ucast_u16: "(ucast (w :: u16) :: u32) = of_nat (unat w)"
  by (simp add: of_nat_unat)

lemma of_nat_u32_eq: "n < 2 ^ 32 \<Longrightarrow> m < 2 ^ 32 \<Longrightarrow> (of_nat n :: u32) = of_nat m \<longleftrightarrow> n = m"
  by (metis unat_u32_of_nat)

lemma unat_u16_less: "unat (w :: u16) < 65536"
proof -
  have "unat w < 2 ^ LENGTH(16)"
    by (rule unsigned_less)
  then show ?thesis by simp
qed

lemma gw_at_upd [simp]: "i < length (px_gateways p) \<Longrightarrow> gw_at i (upd_gw i c p) = c"
  by (simp add: gw_at_def upd_gw_def)

lemma upd_gw_facts [simp]:
  "length (px_gateways (upd_gw i c p)) = length (px_gateways p)"
  "px_packets (upd_gw i c p) = px_packets p" "px_maxMsgSize (upd_gw i c p) = px_maxMsgSize p"
  "px_stoped (upd_gw i c p) = px_stoped p" "px_pfds (upd_gw i c p) = px_pfds p"
  "px_pollsize (upd_gw i c p) = px_pollsize p" "px_needconns (upd_gw i c p) = px_needconns p"
  "px_lastconn (upd_gw i c p) = px_lastconn p"
  "upd_gw i c' (upd_gw i c p) = upd_gw i c' p"
  by (simp_all add: upd_gw_def)

lemma recv_into_append:
  assumes "holds b xs" and "db_read b = 0" and "length xs + length bs \<le> unat (db_size b)"
  shows "recv_into bs b = Some (append_db bs b)" and "holds (append_db bs b) (xs @ bs)"
    and "db_read (append_db bs b) = 0" and "db_size (append_db bs b) = db_size b"
proof -
  have w: "db_write b = length xs"
    using assms length_unread [of b] by (simp add: holds_def)
  then show "holds (append_db bs b) (xs @ bs)"
    using assms by (intro holds_append) (simp_all add: space_def)
  have "int (length xs + length bs) \<le> int (unat (db_size b))"
    using assms(3) by (simp only: of_nat_le_iff)
  then have "int (length xs) + int (length bs) \<le> uint (db_size b)"
    by simp
  then show "recv_into bs b = Some (append_db bs b)"
    using assms w by (simp add: recv_into_def MoveWritePtr_def append_db_def holds_def db_inv_def nat_int_add)
  show "db_read (append_db bs b) = 0" "db_size (append_db bs b) = db_size b"
    using assms by simp_all
qed

lemma split_frames_short: "length xs < 15 \<or> (length xs < frame_len xs) \<Longrightarrow> split_frames xs = ([], xs)"
  by (subst split_frames.simps) auto

lemma split_frames_one:
  assumes "frame_len m = length m" and "15 \<le> length m" and "length m \<le> 65534"
  shows "split_frames m = ([m], [])"
  using assms split_frames_short [of "[]"] by (subst split_frames.simps) simp

lemma finish_recv_step:
  assumes i: "i < length (px_gateways p)" and c: "gw_at i p = c" "gc_PacketLength c = len"
    and zs: "holds (gc_in c) zs" "db_read (gc_in c) = 0" "M \<le> unat (db_size (gc_in c))"
    and len: "15 \<le> length zs" "length zs \<le> unat len" "frame_len zs = unat len" "unat len \<le> M" "M \<le> 65534"
    and p': "p' = finish_recv junk i len (of_nat (length zs)) p"
  shows "\<exists>ms ys. split_frames zs = (ms, ys) \<and> conn_ok M (gw_at i p') ys \<and>
    px_packets p' = px_packets p @ map (\<lambda>m. (i, parse junk m)) ms \<and>
    length (px_gateways p') = length (px_gateways p) \<and> px_maxMsgSize p' = px_maxMsgSize p"
proof -
  have full: "of_nat (length zs) = (ucast len :: u32) \<longleftrightarrow> length zs = unat len"
    using len unat_u16_less [of len] by (simp only: ucast_u16) (rule of_nat_u32_eq; simp)
  show ?thesis
  proof (cases "length zs = unat len")
    case True
    have take: "take (unat len) (drop (db_read (gc_in c)) (db_data (gc_in c))) = zs"
      using holds_take [OF zs(1), of "unat len"] True by simp
    have "uint len = int (length zs)" "(ucast len :: u32) = of_nat (length zs)"
      using True by (simp_all add: full)
    then have p'': "p' = upd_gw i (c\<lparr>gc_PacketLength := 0, gc_in := Reset (gc_in c)\<rparr>)
        (PushPacket i (parse junk zs) p)"
      by (simp add: p' finish_recv_def push_message_def c take parse_def Let_def)
    have "length (px_gateways (PushPacket i q p)) = length (px_gateways p)" for q
      by (simp add: PushPacket_def)
    then have "gw_at i p' = c\<lparr>gc_PacketLength := 0, gc_in := Reset (gc_in c)\<rparr>"
      using i by (simp add: p'')
    moreover have "holds (Reset (gc_in c)) []" "db_read (Reset (gc_in c)) = 0" "db_size (Reset (gc_in c)) = db_size (gc_in c)"
      using zs(1) holds_Reset [of "gc_in c"] by (simp_all add: holds_def) (simp_all add: Reset_def)
    ultimately have "conn_ok M (gw_at i p') []"
      using zs(3) by (simp add: conn_ok_def)
    moreover have "split_frames zs = ([zs], [])"
      using len True by (intro split_frames_one) simp_all
    ultimately show ?thesis
      by (simp add: p'' PushPacket_def)
  next
    case False
    then have "p' = p"
      using full by (simp add: p' finish_recv_def)
    moreover have "len \<noteq> 0"
      using len by (cases "len = 0") simp_all
    moreover have "split_frames zs = ([], zs)"
      using False len by (intro split_frames_short) simp
    ultimately show ?thesis
      using False c zs len by (simp add: conn_ok_def)
  qed
qed

lemma frame_len_bytes:
  assumes "15 \<le> length zs"
  shows "unat (word_of_bytes (take 2 zs) :: u16) = frame_len zs"
  using assms by (simp add: frame_len_def pkg_unpacket_def)

lemma unat_header_length: "unat PACKET_HEADER_LENGTH = 15"
  by (simp add: PACKET_HEADER_LENGTH_def)

lemma close_failed_code:
  "close_failed opened i t p \<noteq> (0, s, p')" "(0, s, p') \<noteq> close_failed opened i t p"
  by (simp_all add: close_failed_def)

lemma recv_up_to_length:
  assumes "recv_up_to (int w - int n) r = RecvBytes bs" and "n \<le> w"
  shows "length bs \<le> w - n"
proof -
  have "int w - int n = int (w - n)"
    using assms(2) by (rule of_nat_diff [symmetric])
  then have "recv_up_to (int (w - n)) r = RecvBytes bs"
    using assms(1) by (simp only:)
  then show ?thesis
    by (cases r) (auto simp: recv_up_to_def simp del: of_nat_diff)
qed

lemma recv_body_step:
  assumes i: "i < length (px_gateways p)" and c: "gw_at i p = c" "gc_PacketLength c = 0"
    and zs: "holds (gc_in c) zs" "db_read (gc_in c) = 0" "length zs = 15"
    and M: "M = unat (px_maxMsgSize p)" "M \<le> unat (db_size (gc_in c))" "M \<le> 65534"
    and r: "recv_body r2 opened junk i taken 15 p = Some (0, taken', p')"
  shows "\<exists>bs ms ys. taken' = taken @ bs \<and> split_frames (zs @ bs) = (ms, ys) \<and> conn_ok M (gw_at i p') ys \<and>
    px_packets p' = px_packets p @ map (\<lambda>m. (i, parse junk m)) ms \<and>
    length (px_gateways p') = length (px_gateways p) \<and> px_maxMsgSize p' = px_maxMsgSize p"
proof -
  let ?len = "word_of_bytes (take 2 zs) :: u16"
  let ?c1 = "c\<lparr>gc_PacketLength := ?len\<rparr>" and ?left = "int (unat ?len) - 15"
  have take: "take 2 (drop (db_read (gc_in c)) (db_data (gc_in c))) = take 2 zs"
    using holds_take [OF zs(1), of 2] zs(3) by simp
  have fl: "frame_len zs = unat ?len"
    using frame_len_bytes [of zs] zs(3) by simp
  have u: "unat (ucast ?len :: u32) = unat ?len"
    using unat_u16_less [of ?len] by (simp only: ucast_u16) (rule unat_u32_of_nat; simp)
  note bad = close_failed_code
  have good: "\<not> (ucast ?len < PACKET_HEADER_LENGTH \<or> px_maxMsgSize p < ucast ?len)"
  proof
    assume "ucast ?len < PACKET_HEADER_LENGTH \<or> px_maxMsgSize p < ucast ?len"
    then have "recv_body r2 opened junk i taken 15 p = Some (close_failed opened i taken p)"
      unfolding recv_body_def Let_def c(1) take by (rule if_P)
    then show False
      using r bad by simp
  qed
  then have "15 \<le> unat ?len \<and> unat ?len \<le> M"
    unfolding word_less_nat_alt u unat_header_length M(1) de_Morgan_disj not_less .
  then have len: "15 \<le> unat ?len" "unat ?len \<le> M"
    by blast+
  have left: "sint (ucast ?len - 15 :: u32) = ?left"
  proof -
    have "unat ?len < 2 ^ 31"
      by (rule less_trans [OF unat_u16_less]) simp
    from sint_u32_diff [OF len(1) this] show ?thesis
      by (simp only: ucast_u16 of_nat_numeral)
  qed
  have ne: "?len \<noteq> 0"
    using len(1) by (cases "?len = 0") simp_all
  have body: "recv_body r2 opened junk i taken 15 p =
      (if 0 < ?left
       then case recv_up_to ?left r2 of
              RecvError again \<Rightarrow> Some (if again then (0, taken, upd_gw i ?c1 p) else close_failed opened i taken (upd_gw i ?c1 p))
            | RecvBytes bs \<Rightarrow>
                if bs = [] then Some (close_failed opened i taken (upd_gw i ?c1 p))
                else map_option (\<lambda>b'. (0, taken @ bs, finish_recv junk i ?len (15 + of_nat (length bs))
                         (upd_gw i (?c1\<lparr>gc_in := b'\<rparr>) p))) (recv_into bs (gc_in c))
       else Some (0, taken, finish_recv junk i ?len 15 (upd_gw i ?c1 p)))"
    using good unfolding recv_body_def Let_def c(1) take left upd_gw_facts(9) by simp
  show ?thesis
  proof (cases "0 < ?left")
    case True
    then have more: "15 < unat ?len"
      by linarith
    show ?thesis
    proof (cases "recv_up_to ?left r2")
      case (RecvError again)
      then have "taken' = taken" "p' = upd_gw i ?c1 p"
        using r True bad by (auto simp: body split: if_splits)
      moreover have "split_frames zs = ([], zs)"
        using more fl zs(3) by (intro split_frames_short) simp
      moreover have "conn_ok M ?c1 zs"
        using zs M fl len ne more by (simp add: conn_ok_def)
      ultimately show ?thesis
        using i by simp
    next
      case (RecvBytes bs)
      then have "bs \<noteq> []"
        using r True bad by (auto simp: body split: if_splits)
      moreover have "length bs \<le> unat ?len - 15"
        by (rule recv_up_to_length [of _ 15 r2]) (use RecvBytes len(1) in \<open>simp_all only: of_nat_numeral\<close>)
      ultimately have bs: "bs \<noteq> []" "length bs \<le> unat ?len - 15" .
      have fit: "length zs + length bs \<le> unat (db_size (gc_in c))"
        using bs(2) len M zs(3) by linarith
      note app = recv_into_append [OF zs(1,2) fit]
      have p': "taken' = taken @ bs" "p' = finish_recv junk i ?len (of_nat (length (zs @ bs)))
          (upd_gw i (?c1\<lparr>gc_in := append_db bs (gc_in c)\<rparr>) p)"
        using r True bs(1) RecvBytes zs(3) app(1) by (auto simp: body)
      have "\<exists>ms ys. split_frames (zs @ bs) = (ms, ys) \<and> conn_ok M (gw_at i p') ys \<and>
          px_packets p' = px_packets (upd_gw i (?c1\<lparr>gc_in := append_db bs (gc_in c)\<rparr>) p) @ map (\<lambda>m. (i, parse junk m)) ms \<and>
          length (px_gateways p') = length (px_gateways (upd_gw i (?c1\<lparr>gc_in := append_db bs (gc_in c)\<rparr>) p)) \<and>
          px_maxMsgSize p' = px_maxMsgSize (upd_gw i (?c1\<lparr>gc_in := append_db bs (gc_in c)\<rparr>) p)"
      proof (rule finish_recv_step [OF _ _ _ _ _ _ _ _ _ _ _ p'(2)])
        show "gw_at i (upd_gw i (?c1\<lparr>gc_in := append_db bs (gc_in c)\<rparr>) p) = ?c1\<lparr>gc_in := append_db bs (gc_in c)\<rparr>"
          using i by simp
      qed (use i app bs zs M len fl in \<open>simp_all add: frame_len_append\<close>)
      then show ?thesis
        using p'(1) by auto
    qed
  next
    case False
    then have exact: "unat ?len = 15"
      using len(1) by linarith
    have p': "taken' = taken" "p' = finish_recv junk i ?len (of_nat (length zs)) (upd_gw i ?c1 p)"
      using r zs(3) False by (simp_all add: body)
    have "\<exists>ms ys. split_frames zs = (ms, ys) \<and> conn_ok M (gw_at i p') ys \<and>
        px_packets p' = px_packets (upd_gw i ?c1 p) @ map (\<lambda>m. (i, parse junk m)) ms \<and>
        length (px_gateways p') = length (px_gateways (upd_gw i ?c1 p)) \<and>
        px_maxMsgSize p' = px_maxMsgSize (upd_gw i ?c1 p)"
    proof (rule finish_recv_step [OF _ _ _ _ _ _ _ _ _ _ _ p'(2)])
      show "gw_at i (upd_gw i ?c1 p) = ?c1"
        using i by simp
    qed (use i zs M len fl exact in \<open>simp_all\<close>)
    then show ?thesis
      using p'(1) by auto
  qed
qed

lemma conn_ok_split: "conn_ok M c xs \<Longrightarrow> split_frames xs = ([], xs)"
  by (intro split_frames_short) (auto simp: conn_ok_def split: if_splits)

lemma OnRecv_step:
  assumes i: "i < length (px_gateways p)" and ok: "conn_ok M (gw_at i p) xs"
    and M: "M = unat (px_maxMsgSize p)" "15 \<le> M" "M \<le> 65534"
    and r: "OnRecv r1 r2 opened junk i p = Some (0, taken, p')"
  shows "\<exists>ms ys. split_frames (xs @ taken) = (ms, ys) \<and> conn_ok M (gw_at i p') ys \<and>
    px_packets p' = px_packets p @ map (\<lambda>m. (i, parse junk m)) ms \<and>
    length (px_gateways p') = length (px_gateways p) \<and> px_maxMsgSize p' = px_maxMsgSize p"
proof -
  let ?c = "gw_at i p"
  let ?b = "gc_in ?c" and ?len = "gc_PacketLength ?c"
  have xs: "holds ?b xs" "db_read ?b = 0" "M \<le> unat (db_size ?b)"
    using ok by (simp_all add: conn_ok_def)
  let ?want = "if ?len = 0 then 15 else unat ?len"
  have want: "length xs < ?want" "?want \<le> M"
    using ok M(2) by (simp_all add: conn_ok_def split: if_splits)
  have left: "sint (if ?len = 0 then PACKET_HEADER_LENGTH - GetDataSize ?b else ucast ?len - GetDataSize ?b) =
      int ?want - int (length xs)"
  proof (cases "?len = 0")
    case True
    have "sint (of_nat 15 - of_nat (length xs) :: u32) = int 15 - int (length xs)"
      using want True by (intro sint_u32_diff) simp_all
    then show ?thesis
      using True by (simp only: holds_GetDataSize [OF xs(1)] PACKET_HEADER_LENGTH_def of_nat_numeral if_True simp_thms)
  next
    case False
    have "sint (of_nat (unat ?len) - of_nat (length xs) :: u32) = int (unat ?len) - int (length xs)"
      using want False unat_u16_less [of ?len] by (intro sint_u32_diff) simp_all
    then show ?thesis
      using False by (simp only: holds_GetDataSize [OF xs(1)] ucast_u16 if_False)
  qed
  show ?thesis
  proof (cases "recv_up_to (int ?want - int (length xs)) r1")
    case (RecvError again)
    then have "taken = []" "p' = p"
      using r close_failed_code by (auto simp: OnRecv_def Let_def left split: if_splits)
    then show ?thesis
      using ok conn_ok_split [OF ok] by simp
  next
    case (RecvBytes bs)
    then have ne: "bs \<noteq> []"
      using r close_failed_code by (auto simp: OnRecv_def Let_def left split: if_splits)
    have size: "length bs \<le> ?want - length xs"
      using recv_up_to_length [OF RecvBytes] want(1) by simp
    then have fit: "length xs + length bs \<le> unat (db_size ?b)"
      using want xs(3) by linarith
    note app = recv_into_append [OF xs(1,2) fit]
    let ?c1 = "?c\<lparr>gc_in := append_db bs ?b\<rparr>" and ?zs = "xs @ bs"
    let ?p1 = "upd_gw i ?c1 p"
    have len: "length ?zs \<le> ?want" "length ?zs < 2 ^ 32" "0 < length ?zs"
      using size want M(3) ne by auto
    have c1: "gw_at i ?p1 = ?c1" "gc_PacketLength ?c1 = ?len"
      using i by simp_all
    have new: "holds (gc_in ?c1) ?zs" "db_read (gc_in ?c1) = 0" "M \<le> unat (db_size (gc_in ?c1))"
      using app xs by simp_all
    have step: "OnRecv r1 r2 opened junk i p =
        (if ?len = 0 \<and> 15 \<le> length ?zs then recv_body r2 opened junk i bs (of_nat (length ?zs)) ?p1
         else Some (0, bs, finish_recv junk i ?len (of_nat (length ?zs)) ?p1))"
    proof -
      have "PACKET_HEADER_LENGTH \<le> (of_nat (length ?zs) :: u32) \<longleftrightarrow> 15 \<le> length ?zs"
        using len by (simp add: word_le_nat_alt PACKET_HEADER_LENGTH_def unat_u32_of_nat del: length_append)
      then show ?thesis
        using ne by (simp add: OnRecv_def Let_def left RecvBytes app(1) holds_GetDataSize [OF xs(1)])
    qed
    show ?thesis
    proof (cases "?len = 0")
      case True
      show ?thesis
      proof (cases "15 \<le> length ?zs")
        case full: True
        then have 15: "length ?zs = 15"
          using len(1) True by simp
        then have "recv_body r2 opened junk i bs 15 ?p1 = Some (0, taken, p')"
          using r True by (simp add: step)
        with recv_body_step [OF _ c1(1) _ new(1,2) 15 _ new(3) M(3)] i True M(1) c1(2)
        obtain bs' ms ys where "taken = bs @ bs'" "split_frames (?zs @ bs') = (ms, ys)" "conn_ok M (gw_at i p') ys"
          "px_packets p' = px_packets ?p1 @ map (\<lambda>m. (i, parse junk m)) ms"
          "length (px_gateways p') = length (px_gateways ?p1)" "px_maxMsgSize p' = px_maxMsgSize ?p1"
          by (metis upd_gw_facts(1,3))
        then show ?thesis
          by simp
      next
        case False
        have "(of_nat (length ?zs) :: u32) \<noteq> ucast (0 :: u16)"
          using len of_nat_u32_eq [of "length ?zs" 0] by simp
        then have "taken = bs" "p' = ?p1"
          using r True False by (auto simp: step finish_recv_def)
        moreover have "conn_ok M ?c1 ?zs"
          using new True False by (simp add: conn_ok_def)
        ultimately show ?thesis
          using c1 conn_ok_split [of M ?c1 ?zs] by simp
      qed
    next
      case False
      then have old: "15 \<le> length xs" "frame_len xs = unat ?len" "unat ?len \<le> M"
        using ok by (simp_all add: conn_ok_def)
      have p': "taken = bs" "p' = finish_recv junk i ?len (of_nat (length ?zs)) ?p1"
        using r False by (auto simp: step)
      have "\<exists>ms ys. split_frames ?zs = (ms, ys) \<and> conn_ok M (gw_at i p') ys \<and>
          px_packets p' = px_packets ?p1 @ map (\<lambda>m. (i, parse junk m)) ms \<and>
          length (px_gateways p') = length (px_gateways ?p1) \<and> px_maxMsgSize p' = px_maxMsgSize ?p1"
        by (rule finish_recv_step [OF _ c1 new _ _ _ old(3) M(3) p'(2)])
          (use i old len False in \<open>simp_all add: frame_len_append\<close>)
      then show ?thesis
        using p'(1) by simp
    qed
  qed
qed

section \<open>A run of the receive routine\<close>

text \<open>\<open>bs\<close> has been taken from the kernel over connection \<open>i\<close>, in whatever pieces.\<close>

inductive px_run :: "nat \<Rightarrow> gw_proxy \<Rightarrow> u8 list \<Rightarrow> gw_proxy \<Rightarrow> bool" for i p0 where
  px_start: "px_run i p0 [] p0"
| px_recv: "px_run i p0 bs p \<Longrightarrow> OnRecv r1 r2 opened junk i p = Some (0, taken, p') \<Longrightarrow> px_run i p0 (bs @ taken) p'"

lemma parse_frame:
  assumes "15 + length body < 65536"
  shows "header_bytes (parse junk (frame q body)) = header_bytes (q\<lparr>p_Length := of_nat (15 + length body)\<rparr>)"
    and "unread (p_buffer (parse junk (frame q body))) = body"
    and "holds (p_buffer (parse junk (frame q body))) body"
    and "p_MsgType (parse junk (frame q body)) = p_MsgType q"
proof -
  let ?m = "frame q body" and ?q = "q\<lparr>p_Length := of_nat (15 + length body)\<rparr>"
  let ?b = "snd (MoveWritePtr (int (length ?m)) (DataBuffer_new (of_nat (length ?m)) ?m))"
  have size: "unat (of_nat (length ?m) :: u32) = length ?m"
    using assms by (intro unat_u32_of_nat) simp
  have "uint (of_nat (length ?m) :: u32) = int (length ?m)"
    using size by (metis of_nat_unat)
  then have "?b = (DataBuffer_new (of_nat (length ?m)) ?m)\<lparr>db_write := length ?m\<rparr>"
    by (simp add: MoveWritePtr_def DataBuffer_new_def nat_int_add)
  then have b: "holds ?b (header_bytes ?q @ body)"
    using size by (simp add: holds_def db_inv_def unread_def DataBuffer_new_def frame_def)
  have un: "UnpackHeader (SetBuffer ?b junk) = (True, CopyHeader ?q ((SetBuffer ?b junk)\<lparr>p_buffer := advance_db 15 ?b\<rparr>))"
    "holds (advance_db 15 ?b) body"
    using UnpackHeader_holds [of "SetBuffer ?b junk" ?q body] b by (simp_all add: SetBuffer_def)
  then have parse: "parse junk ?m = CopyHeader ?q ((SetBuffer ?b junk)\<lparr>p_buffer := advance_db 15 ?b\<rparr>)"
    by (simp add: parse_def)
  show "header_bytes (parse junk ?m) = header_bytes ?q"
    unfolding parse by (simp add: header_bytes_def CopyHeader_def)
  show "holds (p_buffer (parse junk ?m)) body"
    using un(2) unfolding parse by (simp add: CopyHeader_def)
  then show "unread (p_buffer (parse junk ?m)) = body"
    by (simp add: holds_def)
  show "p_MsgType (parse junk ?m) = p_MsgType q"
    unfolding parse by (simp add: CopyHeader_def)
qed

lemma px_run_split:
  assumes "px_run i p0 bs p" and "conn_ok M (gw_at i p0) []" and "px_packets p0 = []"
    and "i < length (px_gateways p0)" and "M = unat (px_maxMsgSize p0)" and "15 \<le> M" and "M \<le> 65534"
  shows "\<exists>ms xs. split_frames bs = (ms, xs) \<and> conn_ok M (gw_at i p) xs \<and>
    list_all2 (\<lambda>v m. \<exists>junk. v = (i, parse junk m)) (px_packets p) ms \<and>
    i < length (px_gateways p) \<and> M = unat (px_maxMsgSize p)"
  using assms
proof (induction rule: px_run.induct)
  case px_start
  then show ?case
    using split_frames_short [of "[]"] by simp
next
  case (px_recv bs p r1 r2 opened junk taken p')
  then obtain ms xs where IH: "split_frames bs = (ms, xs)" "conn_ok M (gw_at i p) xs"
    "list_all2 (\<lambda>v m. \<exists>junk. v = (i, parse junk m)) (px_packets p) ms"
    "i < length (px_gateways p)" "M = unat (px_maxMsgSize p)"
    by blast
  from OnRecv_step [OF IH(4,2,5) px_recv.prems(5,6) px_recv.hyps(2)] obtain ms' ys where
    step: "split_frames (xs @ taken) = (ms', ys)" "conn_ok M (gw_at i p') ys"
    "px_packets p' = px_packets p @ map (\<lambda>m. (i, parse junk m)) ms'"
    "length (px_gateways p') = length (px_gateways p)" "px_maxMsgSize p' = px_maxMsgSize p"
    by blast
  have "split_frames (bs @ taken) = (ms @ ms', ys)"
    using split_frames_append [of bs taken] IH(1) step(1) by simp
  moreover have "list_all2 (\<lambda>v m. \<exists>junk. v = (i, parse junk m)) (map (\<lambda>m. (i, parse junk m)) ms') ms'"
    by (induction ms') auto
  then have "list_all2 (\<lambda>v m. \<exists>junk. v = (i, parse junk m)) (px_packets p') (ms @ ms')"
    using IH(3) step(3) by (simp add: list_all2_appendI)
  ultimately show ?case
    using step IH by auto
qed

text \<open>
  C2: a server gets the messages of its gateway as they were sent, however TCP cuts the stream and
  however the two receive calls of \<^verbatim>\<open>OnRecv\<close> share it. When the gateway sends the
  messages \<open>l\<close>, none longer than the configured limit, and some front part of that stream has been
  received, the queue holds exactly the first of them, in order, each as a packet of this connection
  with the header fields it was sent with, its length, and its body unread; what waits in the input
  buffer is the beginning of the next one and shorter than it.
\<close>

theorem server_reassembly:
  assumes "px_run i p0 bs p" and "conn_ok M (gw_at i p0) []" and "px_packets p0 = []"
    and "i < length (px_gateways p0)" and "M = unat (px_maxMsgSize p0)" and "15 \<le> M" and "M \<le> 65534"
    and "\<forall>(q, body) \<in> set l. 15 + length body \<le> M"
    and "bs @ tail = concat (map (\<lambda>(q, body). frame q body) l)"
  shows "\<exists>n. list_all2 (\<lambda>(j, pkt) (q, body). j = i \<and> unread (p_buffer pkt) = body \<and>
        header_bytes pkt = header_bytes (q\<lparr>p_Length := of_nat (15 + length body)\<rparr>)) (px_packets p) (take n l) \<and>
    unread (gc_in (gw_at i p)) @ tail = concat (map (\<lambda>(q, body). frame q body) (drop n l)) \<and>
    (if n < length l then length (unread (gc_in (gw_at i p))) < 15 + length (snd (l ! n)) else tail = [])"
proof -
  let ?f = "\<lambda>(q, body). frame q body" and ?h = "\<lambda>(q, body). (head_of_packet q, body)"
  obtain ms xs where sp: "split_frames bs = (ms, xs)" "conn_ok M (gw_at i p) xs"
    and pk: "list_all2 (\<lambda>v m. \<exists>junk. v = (i, parse junk m)) (px_packets p) ms"
    using px_run_split [OF assms(1-7)] by blast
  have conv: "map (\<lambda>(h, body). pkg_message h body) (map ?h l') = map ?f l'" for l'
    by (simp add: case_prod_unfold frame_is_message)
  have xs: "unread (gc_in (gw_at i p)) = xs"
    using sp(2) by (simp add: conn_ok_def holds_def)
  have "\<forall>(h, body) \<in> set (map ?h l). length body < 65520"
    using assms(7,8) by auto
  moreover have "bs @ tail = concat (map (\<lambda>(h, body). pkg_message h body) (map ?h l))"
    using assms(9) by (simp only: conv)
  ultimately obtain n where "ms = map (\<lambda>(h, body). pkg_message h body) (take n (map ?h l))"
    "xs @ tail = concat (map (\<lambda>(h, body). pkg_message h body) (drop n (map ?h l)))"
    "if n < length (map ?h l) then length xs < 15 + length (snd (map ?h l ! n)) else xs = [] \<and> tail = []"
    using split_frames_prefix [OF sp(1), of "map ?h l" tail] by blast
  then have n: "ms = map ?f (take n l)" "xs @ tail = concat (map ?f (drop n l))"
    "if n < length l then length xs < 15 + length (snd (l ! n)) else xs = [] \<and> tail = []"
    by (simp_all only: take_map drop_map conv) (auto simp: case_prod_unfold split: if_splits)
  have each: "list_all2 (\<lambda>v (q, body). \<exists>junk. v = (i, parse junk (frame q body))) (px_packets p) (take n l)"
    using pk by (simp add: n(1) list.rel_map case_prod_unfold)
  have small: "\<forall>(q, body) \<in> set (take n l). 15 + length body < 65536"
    using assms(7,8) by (fastforce dest: in_set_takeD)
  have "list_all2 (\<lambda>(j, pkt) (q, body). j = i \<and> unread (p_buffer pkt) = body \<and>
      header_bytes pkt = header_bytes (q\<lparr>p_Length := of_nat (15 + length body)\<rparr>)) (px_packets p) (take n l)"
    by (rule list.rel_mono_strong [OF each]) (use small in \<open>auto simp: parse_frame(1,2)\<close>)
  then show ?thesis
    using n(2,3) xs by (intro exI [of _ n]) (auto split: if_splits)
qed

lemma demo_proxy_ok:
  "conn_ok 64 (gw_at 0 demo_proxy) []" "px_packets demo_proxy = []" "length (px_gateways demo_proxy) = 1"
  "unat (px_maxMsgSize demo_proxy) = 64"
  by (simp_all add: demo_proxy_facts demo_conn_def conn_ok_def holds_def db_inv_def unread_def DataBuffer_new_def)
    (simp_all add: demo_proxy_def)

lemma demo_px_run: "\<exists>p. px_run 0 demo_proxy (take 5 (frame demo_packet [7])) p"
proof -
  let ?c = "take 5 (frame demo_packet [7])"
  have "?c \<noteq> []"
    by (simp flip: length_greater_0_conv)
  moreover have "recv_up_to 15 (RecvBytes ?c) = RecvBytes ?c"
    by (simp add: recv_up_to_def)
  moreover obtain b where "recv_into ?c (gc_in demo_conn) = Some b"
    by (simp add: recv_into_def demo_conn_def DataBuffer_new_def)
  moreover have "GetDataSize (gc_in demo_conn) = 0" "gc_PacketLength demo_conn = 0"
    by (simp_all add: GetDataSize_def demo_conn_def DataBuffer_new_def)
  ultimately obtain p where "OnRecv (RecvBytes ?c) r2 opened demo_packet 0 demo_proxy = Some (0, ?c, p)"
    by (simp add: OnRecv_def Let_def demo_proxy_facts PACKET_HEADER_LENGTH_def)
  from px_recv [OF px_start this] show ?thesis
    by auto
qed

theorem server_reassembly_witness:
  "\<exists>p n. px_run 0 demo_proxy (take 5 (frame demo_packet [7])) p \<and>
    unread (gc_in (gw_at 0 p)) @ drop 5 (frame demo_packet [7]) =
    concat (map (\<lambda>(q, body). frame q body) (drop n [(demo_packet, [7])]))"
proof -
  obtain p where run: "px_run 0 demo_proxy (take 5 (frame demo_packet [7])) p"
    using demo_px_run by blast
  have "take 5 (frame demo_packet [7]) @ drop 5 (frame demo_packet [7]) =
      concat (map (\<lambda>(q, body). frame q body) [(demo_packet, [7])])"
    by simp
  from server_reassembly [OF run demo_proxy_ok(1,2) _ _ _ _ _ this] demo_proxy_ok(3,4) run
  show ?thesis
    by auto
qed

end
