(* ===== verification/Proxy_Poll.thy ===== *)
theory Proxy_Poll
  imports Proxy_Receive
begin

text \<open>
  The poll table of \<^verbatim>\<open>GWProxy.h\<close>, an array with the descriptors of the connected
  gateways at its front in which a closed one is replaced by the last, and what a reconnection
  leaves of the receive state.
\<close>

section \<open>The poll table\<close>

text \<open>\<open>poll_order os p\<close>: the connected gateways in the order of their entries. Each knows its
  entry, the entry holds its descriptor, and the counters agree.\<close>

definition poll_order :: "nat list \<Rightarrow> gw_proxy \<Rightarrow> bool" where
  "poll_order os p =
     (distinct os \<and> set os = {i. i < length (px_gateways p) \<and> gc_Connected (gw_at i p)} \<and>
      px_pollsize p = int (length os) \<and> length (px_pfds p) = length (px_gateways p) \<and>
      px_needconns p = int (length (px_gateways p)) - int (length os) \<and>
      distinct (map gc_Handle (px_gateways p)) \<and>
      (\<forall>k < length os. gc_EventIndex (gw_at (os ! k) p) = int k \<and>
                       px_pfds p ! k = gc_Handle (gw_at (os ! k) p)))"

lemma gw_at_upd_if: "i < length (px_gateways p) \<Longrightarrow> gw_at j (upd_gw i c p) = (if j = i then c else gw_at j p)"
  by (auto simp: gw_at_def upd_gw_def nth_list_update)

lemma gw_at_more [simp]:
  "gw_at i (p\<lparr>px_pollsize := x\<rparr>) = gw_at i p" "gw_at i (p\<lparr>px_pfds := y\<rparr>) = gw_at i p"
  "gw_at i (p\<lparr>px_needconns := x\<rparr>) = gw_at i p" "gw_at i (p\<lparr>px_stoped := b\<rparr>) = gw_at i p"
  "gw_at i (p\<lparr>px_lastconn := x\<rparr>) = gw_at i p"
  by (simp_all add: gw_at_def)

lemma find_upt_unique:
  assumes "j < n" and "P j" and "\<And>k. k < n \<Longrightarrow> P k \<Longrightarrow> k = j"
  shows "find P [0..<n] = Some j"
proof -
  have "find P [0..<n] \<noteq> None"
    using assms(1,2) by (auto simp: find_None_iff)
  then obtain x where x: "find P [0..<n] = Some x"
    by blast
  then have "P x" "x < n"
    by (auto simp: find_Some_iff)
  then show ?thesis
    using x assms(3) by simp
qed

lemma FindSession_handle:
  assumes "distinct (map gc_Handle (px_gateways p))" and "j < length (px_gateways p)"
  shows "FindSession (gc_Handle (gw_at j p)) p = Some j"
  unfolding FindSession_def
proof (rule find_upt_unique)
  fix k assume k: "k < length (px_gateways p)" "gc_Handle (gw_at k p) = gc_Handle (gw_at j p)"
  then have "map gc_Handle (px_gateways p) ! k = map gc_Handle (px_gateways p) ! j"
    using assms(2) by (simp add: gw_at_def)
  then show "k = j"
    using nth_eq_iff_index_eq [OF assms(1), of k j] k(1) assms(2) by simp
qed (use assms(2) in simp_all)

lemma poll_order_facts:
  assumes "poll_order os p" and "k < length os"
  shows "os ! k < length (px_gateways p)" "gc_Connected (gw_at (os ! k) p)"
    "gc_EventIndex (gw_at (os ! k) p) = int k" "px_pfds p ! k = gc_Handle (gw_at (os ! k) p)"
  using assms nth_mem [OF assms(2)] by (auto simp: poll_order_def)

text \<open>The array after \<^verbatim>\<open>CloseSession\<close>: the entry and the index of the last connected
  gateway move, the closed one has a new descriptor.\<close>

lemma CloseSession_effect:
  assumes ord: "poll_order os p" and k: "k < length os" "os ! k = i" and run: "\<not> px_stoped p"
  shows "\<exists>q. CloseSession (h, True) i p = (0, q) \<and> \<not> px_stoped q \<and>
    length (px_gateways q) = length (px_gateways p) \<and>
    px_pollsize q = int (length os) - 1 \<and> px_needconns q = px_needconns p + 1 \<and>
    px_pfds q = (if Suc k < length os then (px_pfds p)[k := px_pfds p ! (length os - 1)] else px_pfds p) \<and>
    (\<forall>x. gw_at x q = (if x = i then (Shutdown (gw_at i p))\<lparr>gc_Handle := h\<rparr>
       else if x = last os then (gw_at x p)\<lparr>gc_EventIndex := int k\<rparr> else gw_at x p))"
proof -
  let ?n = "length (px_gateways p)" and ?m = "length os" and ?c = "Shutdown (gw_at i p)"
  have i: "i < ?n" "gc_EventIndex (gw_at i p) = int k"
    using poll_order_facts [OF ord k(1)] k(2) by simp_all
  have size: "px_pollsize p = int ?m" and len: "length (px_pfds p) = ?n"
    using ord by (simp_all add: poll_order_def)
  have c: "gc_EventIndex ?c = int k" "gc_Handle ?c = gc_Handle (gw_at i p)"
    using i(2) by (simp_all add: Shutdown_def)
  have m1: "nat (int ?m - 1) = ?m - 1" "os \<noteq> []" "?m - 1 < ?m"
    using k(1) by auto
  then have last: "last os = os ! (?m - 1)"
    by (simp add: last_conv_nth)
  show ?thesis
  proof (cases "Suc k < ?m")
    case True
    let ?j = "last os"
    have j: "?j < ?n" "px_pfds p ! (?m - 1) = gc_Handle (gw_at ?j p)"
      using poll_order_facts [OF ord m1(3)] last by simp_all
    have ji: "?j \<noteq> i"
      using True ord k(2) m1 last by (auto simp: poll_order_def nth_eq_iff_index_eq)
    let ?p2 = "(upd_gw i ?c p)\<lparr>px_pollsize := int ?m - 1, px_pfds := (px_pfds p)[k := px_pfds p ! (?m - 1)]\<rparr>"
    have "map gc_Handle (px_gateways ?p2) = map gc_Handle (px_gateways p)"
      using c(2) i(1) by (simp add: upd_gw_def map_update gw_at_def list_update_same_conv)
    then have find: "FindSession (px_pfds p ! (?m - 1)) ?p2 = Some ?j"
      using FindSession_handle [of ?p2 ?j] ord j ji i(1) by (simp add: poll_order_def gw_at_upd_if)
    have less: "int k < int ?m - 1"
      using True by simp
    let ?c' = "?c\<lparr>gc_Handle := h\<rparr>" and ?p3 = "upd_gw ?j ((gw_at ?j p)\<lparr>gc_EventIndex := int k\<rparr>) ?p2"
    have at: "gw_at i ?p3 = ?c" "gw_at ?j ?p2 = gw_at ?j p"
      using i(1) j(1) ji by (simp_all add: gw_at_upd_if)
    have "CloseSession (h, True) i p =
        (0, (upd_gw i ?c' ?p3)\<lparr>px_needconns := px_needconns p + 1\<rparr>)"
      using find less run at unfolding CloseSession_def Let_def c(1) size
      by (simp add: m1(1) Open_def)
    then show ?thesis
      using True run i(1) j(1) ji by (simp add: gw_at_upd_if)
  next
    case False
    then have "?m - 1 = k" "\<not> int k < int ?m - 1"
      using k(1) by auto
    then have "?m - 1 = k" "\<not> int k < int ?m - 1" "last os = i"
      using last k(2) by simp_all
    then show ?thesis
      using False run i(1) size c(1) by (simp add: CloseSession_def Let_def Open_def gw_at_upd_if)
  qed
qed

lemma swap_remove:
  assumes "distinct xs" and "k < length xs" and "ys = butlast (xs[k := last xs])"
  shows "distinct ys" "set ys = set xs - {xs ! k}" "length ys = length xs - 1"
    "\<And>j. j < length ys \<Longrightarrow> ys ! j = (if j = k then last xs else xs ! j)"
proof -
  obtain us l where xs: "xs = us @ [l]"
    using assms(2) by (cases xs rule: rev_cases) auto
  have ys: "ys = (if k < length us then us[k := l] else us)"
    using assms(2,3) by (auto simp: xs list_update_append butlast_append)
  show "distinct ys" "set ys = set xs - {xs ! k}" "length ys = length xs - 1"
    "\<And>j. j < length ys \<Longrightarrow> ys ! j = (if j = k then last xs else xs ! j)"
    using assms(1,2) by (auto simp: ys xs set_update_distinct distinct_list_update nth_append nth_list_update
        nth_eq_iff_index_eq)
qed

lemma map_handles_update:
  assumes "length (px_gateways q) = length (px_gateways p)"
    and "\<forall>x. gc_Handle (gw_at x q) = (if x = i then h else gc_Handle (gw_at x p))"
  shows "map gc_Handle (px_gateways q) = (map gc_Handle (px_gateways p))[i := h]"
  using assms by (intro nth_equalityI) (auto simp: gw_at_def nth_list_update)

text \<open>
  C20: closing a connected gateway keeps the poll table right. When the table holds the descriptors of
  exactly the connected gateways, each gateway knows its entry, and the new socket gets a descriptor
  no other gateway has, then \<^verbatim>\<open>CloseSession\<close> succeeds and the table still holds them:
  the closed entry is taken over by the last one, whose index is updated, and one more gateway needs
  to be connected.
\<close>

theorem CloseSession_keeps_table:
  assumes ord: "poll_order os p" and k: "k < length os" "os ! k = i" and run: "\<not> px_stoped p"
    and fresh: "\<forall>j < length (px_gateways p). j \<noteq> i \<longrightarrow> gc_Handle (gw_at j p) \<noteq> h"
  shows "\<exists>q. CloseSession (h, True) i p = (0, q) \<and> poll_order (butlast (os[k := last os])) q"
proof -
  let ?m = "length os" and ?os = "butlast (os[k := last os])"
  obtain q where q: "CloseSession (h, True) i p = (0, q)"
    "length (px_gateways q) = length (px_gateways p)" "px_pollsize q = int ?m - 1"
    "px_needconns q = px_needconns p + 1"
    "px_pfds q = (if Suc k < ?m then (px_pfds p)[k := px_pfds p ! (?m - 1)] else px_pfds p)"
    and at: "\<forall>x. gw_at x q = (if x = i then (Shutdown (gw_at i p))\<lparr>gc_Handle := h\<rparr>
       else if x = last os then (gw_at x p)\<lparr>gc_EventIndex := int k\<rparr> else gw_at x p)"
    using CloseSession_effect [OF ord k run, of h] by blast
  have dist: "distinct os" "set os = {i. i < length (px_gateways p) \<and> gc_Connected (gw_at i p)}"
    "px_needconns p = int (length (px_gateways p)) - int ?m" "length (px_pfds p) = length (px_gateways p)"
    "distinct (map gc_Handle (px_gateways p))"
    using ord by (simp_all add: poll_order_def)
  note sw = swap_remove [OF dist(1) k(1) refl]
  have mn: "?m \<le> length (px_gateways p)"
    using dist(1,2) by (metis (mono_tags, lifting) card_length distinct_card card_mono finite_Collect_conjI
        finite_Collect_less_nat card_Collect_less_nat mem_Collect_eq subsetI)
  have "\<forall>x. gc_Handle (gw_at x q) = (if x = i then h else gc_Handle (gw_at x p))"
    using at by simp
  note hs = map_handles_update [OF q(2) this]
  have "h \<notin> set (map gc_Handle (px_gateways p)) - {map gc_Handle (px_gateways p) ! i}"
    using fresh poll_order_facts(1) [OF ord k(1)] k(2)
    by (clarsimp simp: in_set_conv_nth gw_at_def) metis
  then have "distinct (map gc_Handle (px_gateways q))"
    unfolding hs by (rule distinct_list_update [OF dist(5)])
  moreover have conn: "gc_Connected (gw_at x q) = (x \<noteq> i \<and> gc_Connected (gw_at x p))" for x
    by (simp add: at Shutdown_def)
  have "set ?os = {i. i < length (px_gateways q) \<and> gc_Connected (gw_at i q)}"
    unfolding sw(2) k(2) dist(2) q(2) conn by auto
  moreover have "gc_EventIndex (gw_at (?os ! x) q) = int x \<and> px_pfds q ! x = gc_Handle (gw_at (?os ! x) q)"
    if x: "x < length ?os" for x
  proof -
    have xm: "x < ?m - 1" "x < ?m"
      using x sw(3) by simp_all
    have last: "last os = os ! (?m - 1)"
      using k(1) by (intro last_conv_nth) auto
    have inj: "os ! x \<noteq> last os" "x \<noteq> k \<Longrightarrow> os ! x \<noteq> i" "Suc k < ?m \<Longrightarrow> last os \<noteq> i"
      using xm k dist(1) by (auto simp: last nth_eq_iff_index_eq)
    have old: "gc_EventIndex (gw_at (os ! x) p) = int x" "px_pfds p ! x = gc_Handle (gw_at (os ! x) p)"
      "px_pfds p ! (?m - 1) = gc_Handle (gw_at (last os) p)"
      using poll_order_facts [OF ord xm(2)] poll_order_facts [OF ord, of "?m - 1"] k(1) last by auto
    show ?thesis
    proof (cases "x = k")
      case True
      then have "Suc k < ?m"
        using xm(1) by simp
      then show ?thesis
        using True sw(4) [OF x] xm inj old at q(5) dist(4) mn by simp
    next
      case False
      then show ?thesis
        using sw(4) [OF x] inj old at q(5) by simp
    qed
  qed
  moreover have "int (length ?os) = int ?m - 1"
    using sw(3) k(1) by simp
  ultimately have "poll_order ?os q"
    using sw(1) q dist(3,4) by (simp add: poll_order_def)
  then show ?thesis
    using q(1) by blast
qed

definition demo_two :: gw_proxy where
  "demo_two = demo_proxy\<lparr>px_gateways := [demo_conn, demo_conn\<lparr>gc_ID := 2, gc_Handle := 10, gc_EventIndex := 1\<rparr>],
     px_pfds := [9, 10], px_pollsize := 2\<rparr>"

lemma demo_two_order: "poll_order [0, 1] demo_two" "\<not> px_stoped demo_two"
  by (auto simp: poll_order_def demo_two_def demo_proxy_def demo_conn_def gw_at_def less_Suc_eq nth_Cons')

theorem CloseSession_keeps_table_witness:
  "\<exists>q. CloseSession (9, True) 0 demo_two = (0, q) \<and> poll_order [1] q"
  using CloseSession_keeps_table [OF demo_two_order(1) _ _ demo_two_order(2), of 0 0 9]
  by (simp add: demo_two_def demo_proxy_def demo_conn_def gw_at_def nth_Cons')

section \<open>Connecting\<close>

lemma poll_order_append:
  assumes ord: "poll_order os p" and i: "i < length (px_gateways p)" "\<not> gc_Connected (gw_at i p)"
    and q: "q = (upd_gw i ((gw_at i p)\<lparr>gc_EventIndex := px_pollsize p, gc_Connected := True,
        gc_Registered := False\<rparr>) p)\<lparr>px_pfds := (px_pfds p)[nat (px_pollsize p) := gc_Handle (gw_at i p)],
      px_pollsize := px_pollsize p + 1, px_needconns := px_needconns p - 1\<rparr>"
  shows "poll_order (os @ [i]) q" and "length (px_gateways q) = length (px_gateways p)"
proof -
  have dist: "distinct os" "set os = {i. i < length (px_gateways p) \<and> gc_Connected (gw_at i p)}"
    "px_pollsize p = int (length os)" "length (px_pfds p) = length (px_gateways p)"
    "px_needconns p = int (length (px_gateways p)) - int (length os)" "distinct (map gc_Handle (px_gateways p))"
    using ord by (simp_all add: poll_order_def)
  have new: "i \<notin> set os"
    using dist(2) i(2) by simp
  have "set (os @ [i]) \<subseteq> {..<length (px_gateways p)}"
    using dist(2) i(1) by auto
  then have "card (set (os @ [i])) \<le> length (px_gateways p)"
    using card_mono [of "{..<length (px_gateways p)}"] by simp
  moreover have "card (set (os @ [i])) = Suc (length os)"
    using new dist(1) by (subst distinct_card) simp_all
  ultimately have room: "length os < length (px_gateways p)"
    by simp
  have at: "gw_at x q = (if x = i then (gw_at i p)\<lparr>gc_EventIndex := px_pollsize p, gc_Connected := True,
        gc_Registered := False\<rparr> else gw_at x p)" for x
    using i(1) by (simp add: q gw_at_upd_if)
  show len: "length (px_gateways q) = length (px_gateways p)"
    by (simp add: q)
  have "map gc_Handle (px_gateways q) = map gc_Handle (px_gateways p)"
    using i(1) by (simp add: q upd_gw_def map_update gw_at_def list_update_same_conv)
  moreover have "set (os @ [i]) = {x. x < length (px_gateways q) \<and> gc_Connected (gw_at x q)}"
    unfolding at len using dist(2) i(1) by auto
  moreover have "gc_EventIndex (gw_at ((os @ [i]) ! k) q) = int k \<and>
      px_pfds q ! k = gc_Handle (gw_at ((os @ [i]) ! k) q)" if "k < length (os @ [i])" for k
  proof (cases "k < length os")
    case True
    then have "os ! k \<noteq> i"
      using new nth_mem by blast
    then show ?thesis
      using True poll_order_facts [OF ord True] dist(3) by (simp add: nth_append at) (simp add: q)
  next
    case False
    then have "k = length os"
      using that by simp
    then show ?thesis
      using dist(3,4) room by (simp add: nth_append at) (simp add: q)
  qed
  ultimately show "poll_order (os @ [i]) q"
    using dist new len by (simp add: poll_order_def) (simp add: q)
qed

lemma connect_from_order:
  "poll_order os p \<Longrightarrow> set is \<subseteq> {..<length (px_gateways p)} \<Longrightarrow> connect_from conn is p = (r, js, q) \<Longrightarrow>
   poll_order (os @ js) q \<and> length (px_gateways q) = length (px_gateways p) \<and>
   (r = 0 \<longrightarrow> (\<forall>i \<in> set is. gc_Connected (gw_at i q))) \<and>
   (\<forall>i. gc_Connected (gw_at i p) \<longrightarrow> gc_Connected (gw_at i q))"
proof (induction conn "is" p arbitrary: os r js q rule: connect_from.induct)
  case (1 conn p)
  then show ?case by simp
next
  case (2 conn i "is" p)
  show ?case
  proof (cases "gc_Connected (gw_at i p)")
    case True
    then show ?thesis
      using 2(1) [OF refl True, of os r js q] 2(3-5) by (auto simp: Let_def)
  next
    case False
    show ?thesis
    proof (cases "conn i")
      case True
      define c' where "c' = (gw_at i p)\<lparr>gc_EventIndex := px_pollsize p, gc_Connected := True, gc_Registered := False\<rparr>"
      define p' where "p' = (upd_gw i c' p)\<lparr>px_pfds := (px_pfds p)[nat (px_pollsize p) := gc_Handle (gw_at i p)],
        px_pollsize := px_pollsize p + 1, px_needconns := px_needconns p - 1\<rparr>"
      obtain js' where rec: "connect_from conn is p' = (r, js', q)" and js: "js = i # js'"
        using 2(5) False True by (auto simp: Let_def p'_def c'_def split: prod.splits)
      have i: "i < length (px_gateways p)"
        using 2(4) by simp
      note ap = poll_order_append [OF 2(3) i False p'_def [unfolded c'_def]]
      have sub: "set is \<subseteq> {..<length (px_gateways p')}"
        using 2(4) ap(2) by simp
      from 2(2) [OF refl False True c'_def p'_def ap(1) sub rec]
      have IH: "poll_order ((os @ [i]) @ js') q" "length (px_gateways q) = length (px_gateways p')"
        "r = 0 \<longrightarrow> (\<forall>i \<in> set is. gc_Connected (gw_at i q))"
        "\<forall>x. gc_Connected (gw_at x p') \<longrightarrow> gc_Connected (gw_at x q)"
        by blast+
      have "gc_Connected (gw_at i p')" "\<forall>x. gc_Connected (gw_at x p) \<longrightarrow> gc_Connected (gw_at x p')"
        using i by (simp_all add: p'_def gw_at_upd_if c'_def)
      then show ?thesis
        using IH ap(2) by (auto simp: js)
    next
      case notconn: False
      then show ?thesis
        using 2(3,5) False by (auto simp: Let_def)
    qed
  qed
qed

text \<open>
  C21: connecting keeps the poll table right: the gateways that could be connected are appended to it
  in their order, and when no connection attempt failed every gateway is connected and none is left to
  be connected.
\<close>

theorem Connect_keeps_table:
  assumes "poll_order os p" and "Connect now conn p = (r, js, q)"
  shows "poll_order (os @ js) q \<and> (r = 0 \<and> 1 \<le> now - px_lastconn p \<longrightarrow> px_needconns q = 0 \<and>
    (\<forall>i < length (px_gateways p). gc_Connected (gw_at i q)))"
proof (cases "1 \<le> now - px_lastconn p")
  case True
  let ?p = "p\<lparr>px_lastconn := now\<rparr>"
  have p: "poll_order os ?p" "length (px_gateways ?p) = length (px_gateways p)"
    using assms(1) by (simp_all add: poll_order_def)
  have "connect_from conn [0..<length (px_gateways p)] ?p = (r, js, q)"
    using assms(2) True by (simp add: Connect_def)
  moreover have "set [0..<length (px_gateways p)] \<subseteq> {..<length (px_gateways ?p)}"
    by auto
  ultimately have "poll_order (os @ js) q \<and> length (px_gateways q) = length (px_gateways ?p) \<and>
      (r = 0 \<longrightarrow> (\<forall>i \<in> set [0..<length (px_gateways p)]. gc_Connected (gw_at i q)))"
    using connect_from_order [OF p(1)] by blast
  then have res: "poll_order (os @ js) q" "length (px_gateways q) = length (px_gateways p)"
    "r = 0 \<longrightarrow> (\<forall>i < length (px_gateways p). gc_Connected (gw_at i q))"
    by auto
  have "px_needconns q = 0" if "r = 0"
  proof -
    have "set (os @ js) = {..<length (px_gateways q)}"
      using res that by (auto simp: poll_order_def)
    then have "card (set (os @ js)) = length (px_gateways q)"
      by (simp only: card_lessThan)
    then have "length (os @ js) = length (px_gateways q)"
      using res(1) distinct_card [of "os @ js"] by (simp only: poll_order_def)
    then show ?thesis
      using res(1) by (simp add: poll_order_def)
  qed
  then show ?thesis
    using res by simp
next
  case False
  then show ?thesis
    using assms by (simp add: Connect_def)
qed

theorem Connect_keeps_table_witness:
  "\<exists>r js q. Connect 5 (\<lambda>_. True) (demo_two\<lparr>px_gateways := [demo_conn, demo_conn\<lparr>gc_ID := 2, gc_Handle := 10,
       gc_Connected := False\<rparr>], px_pollsize := 1, px_needconns := 1\<rparr>) = (r, js, q) \<and> poll_order ([0] @ js) q"
proof -
  let ?p = "demo_two\<lparr>px_gateways := [demo_conn, demo_conn\<lparr>gc_ID := 2, gc_Handle := 10,
       gc_Connected := False\<rparr>], px_pollsize := 1, px_needconns := 1\<rparr>"
  have "poll_order [0] ?p"
    by (auto simp: poll_order_def demo_two_def demo_proxy_def demo_conn_def gw_at_def less_Suc_eq nth_Cons')
  moreover obtain r js q where "Connect 5 (\<lambda>_. True) ?p = (r, js, q)"
    using prod_cases3 by blast
  ultimately show ?thesis
    using Connect_keeps_table [of "[0]" ?p 5 "\<lambda>_. True"] by blast
qed

section \<open>A reconnection in the middle of a message\<close>

text \<open>Neither the length of the message that was being received nor the queue is touched by a
  disconnection or a new connection.\<close>

lemma CloseSession_keeps:
  assumes "i < length (px_gateways p)"
  shows "px_packets (snd (CloseSession opened i p)) = px_packets p"
    and "length (px_gateways (snd (CloseSession opened i p))) = length (px_gateways p)"
    and "j < length (px_gateways p) \<Longrightarrow>
      gc_PacketLength (gw_at j (snd (CloseSession opened i p))) = gc_PacketLength (gw_at j p)"
    and "gc_in (gw_at i (snd (CloseSession opened i p))) = Reset (gc_in (gw_at i p))"
proof -
  have find: "FindSession fd q = Some k \<Longrightarrow> k < length (px_gateways q)" for fd q k
    by (auto simp: FindSession_def find_Some_iff)
  note simps = CloseSession_def Let_def Open_def Shutdown_def case_prod_unfold gw_at_upd_if
  show "px_packets (snd (CloseSession opened i p)) = px_packets p"
    by (simp add: simps split: option.split sum.split)
  show "length (px_gateways (snd (CloseSession opened i p))) = length (px_gateways p)"
    by (simp add: simps split: option.split sum.split)
  show "j < length (px_gateways p) \<Longrightarrow>
      gc_PacketLength (gw_at j (snd (CloseSession opened i p))) = gc_PacketLength (gw_at j p)"
    using assms by (auto simp: simps dest!: find split: option.split)
  show "gc_in (gw_at i (snd (CloseSession opened i p))) = Reset (gc_in (gw_at i p))"
    using assms by (auto simp: simps dest!: find split: option.split)
qed

lemma connect_from_keeps:
  "set is \<subseteq> {..<length (px_gateways p)} \<Longrightarrow> connect_from conn is p = (r, js, q) \<Longrightarrow>
   px_packets q = px_packets p \<and> length (px_gateways q) = length (px_gateways p) \<and>
   gc_PacketLength (gw_at x q) = gc_PacketLength (gw_at x p) \<and> gc_in (gw_at x q) = gc_in (gw_at x p)"
proof (induction conn "is" p arbitrary: r js q rule: connect_from.induct)
  case (1 conn p)
  then show ?case by simp
next
  case (2 conn i "is" p)
  show ?case
  proof (cases "gc_Connected (gw_at i p)")
    case True
    then show ?thesis
      using 2(1) [OF refl True, of r js q] 2(3,4) by (auto simp: Let_def)
  next
    case False
    show ?thesis
    proof (cases "conn i")
      case True
      define c' where "c' = (gw_at i p)\<lparr>gc_EventIndex := px_pollsize p, gc_Connected := True, gc_Registered := False\<rparr>"
      define p' where "p' = (upd_gw i c' p)\<lparr>px_pfds := (px_pfds p)[nat (px_pollsize p) := gc_Handle (gw_at i p)],
        px_pollsize := px_pollsize p + 1, px_needconns := px_needconns p - 1\<rparr>"
      obtain js' where rec: "connect_from conn is p' = (r, js', q)"
        using 2(4) False True by (auto simp: Let_def p'_def c'_def split: prod.splits)
      have p': "length (px_gateways p') = length (px_gateways p)" "px_packets p' = px_packets p"
        "gc_PacketLength (gw_at x p') = gc_PacketLength (gw_at x p)" "gc_in (gw_at x p') = gc_in (gw_at x p)"
        using 2(3) by (simp_all add: p'_def c'_def gw_at_upd_if)
      have "set is \<subseteq> {..<length (px_gateways p')}"
        using 2(3) p'(1) by simp
      from 2(2) [OF refl False True c'_def p'_def this rec] show ?thesis
        using p' by simp
    next
      case notconn: False
      then show ?thesis
        using 2(4) False by (auto simp: Let_def)
    qed
  qed
qed

lemma Connect_keeps:
  assumes "Connect now conn p = (r, js, q)"
  shows "px_packets q = px_packets p \<and> length (px_gateways q) = length (px_gateways p) \<and>
   gc_PacketLength (gw_at x q) = gc_PacketLength (gw_at x p) \<and> gc_in (gw_at x q) = gc_in (gw_at x p)"
proof (cases "1 \<le> now - px_lastconn p")
  case True
  then have run: "connect_from conn [0..<length (px_gateways p)] (p\<lparr>px_lastconn := now\<rparr>) = (r, js, q)"
    using assms by (simp add: Connect_def)
  have "set [0..<length (px_gateways p)] \<subseteq> {..<length (px_gateways (p\<lparr>px_lastconn := now\<rparr>))}"
    by auto
  from connect_from_keeps [OF this run, of x] show ?thesis
    by simp
next
  case False
  then show ?thesis
    using assms by (simp add: Connect_def)
qed

text \<open>
  A disconnection in the middle of a message breaks the framing of the next connection. The
  length of the torn message is kept when the session is shut down and when it is connected again, so
  the first message of the new connection, shorter than that length, is stored and not delivered: the
  receive routine waits for the rest of a message that will never come.
\<close>

lemma stale_length_after_reconnect:
  assumes i: "i < length (px_gateways p)" and ok: "conn_ok M (gw_at i p) xs"
    and torn: "gc_PacketLength (gw_at i p) \<noteq> 0"
    and "OnRecv (RecvBytes []) r2 opened junk i p = Some (r, taken, p1)"
    and "Connect now conn p1 = (r', js, p2)"
    and m: "15 \<le> length m" "length m < unat (gc_PacketLength (gw_at i p))"
  shows "r = - 1 \<and> (\<exists>p3. OnRecv (RecvBytes m) r2' opened' junk' i p2 = Some (0, m, p3) \<and>
    px_packets p3 = px_packets p \<and> gc_PacketLength (gw_at i p3) = gc_PacketLength (gw_at i p))"
proof -
  let ?L = "gc_PacketLength (gw_at i p)"
  have xs: "holds (gc_in (gw_at i p)) xs" "M \<le> unat (db_size (gc_in (gw_at i p)))" "unat ?L \<le> M"
    using ok torn by (simp_all add: conn_ok_def)
  have "recv_up_to left (RecvBytes []) = RecvBytes []" for left
    by (simp add: recv_up_to_def)
  then have "(r, taken, p1) = close_failed opened i [] p"
    using assms(4) by (simp add: OnRecv_def Let_def)
  then have p1: "r = - 1" "p1 = snd (CloseSession opened i p)"
    by (simp_all add: close_failed_def)
  note keep1 = CloseSession_keeps [OF i, where opened = opened, folded p1(2)]
  note keep2 = Connect_keeps [OF assms(5), of i]
  have p2: "px_packets p2 = px_packets p" "i < length (px_gateways p2)" "gc_PacketLength (gw_at i p2) = ?L"
    "gc_in (gw_at i p2) = Reset (gc_in (gw_at i p))"
    using keep1 keep2 i by simp_all
  have empty: "holds (gc_in (gw_at i p2)) []" "db_read (gc_in (gw_at i p2)) = 0"
    "db_size (gc_in (gw_at i p2)) = db_size (gc_in (gw_at i p))"
    using xs(1) holds_Reset by (simp_all add: p2(4) holds_def) (simp_all add: Reset_def)
  have "length m \<le> unat (db_size (gc_in (gw_at i p2)))"
    using m(2) xs(2,3) empty(3) by simp
  then have app: "recv_into m (gc_in (gw_at i p2)) = Some (append_db m (gc_in (gw_at i p2)))"
    using recv_into_append [OF empty(1,2), of m] by simp
  have "GetDataSize (gc_in (gw_at i p2)) = 0"
    using holds_GetDataSize [OF empty(1)] by simp
  moreover have "sint (ucast ?L :: u32) = int (unat ?L)"
    unfolding ucast_u16 by (rule sint_u32_of_nat, rule less_trans [OF unat_u16_less]) simp
  moreover have "recv_up_to (int (unat ?L)) (RecvBytes m) = RecvBytes m"
  proof -
    have "nat (int (unat ?L)) = unat ?L" "\<not> int (unat ?L) < 0"
      by (rule nat_int) simp
    then show ?thesis
      using m(2) unfolding recv_up_to_def by simp
  qed
  moreover have "m \<noteq> []"
    using m(1) by auto
  ultimately have "OnRecv (RecvBytes m) r2' opened' junk' i p2 = Some (0, m,
      finish_recv junk' i ?L (of_nat (length m)) (upd_gw i ((gw_at i p2)\<lparr>gc_in := append_db m (gc_in (gw_at i p2))\<rparr>) p2))"
    using torn app by (simp add: OnRecv_def Let_def p2(3))
  moreover have "(of_nat (length m) :: u32) \<noteq> ucast ?L"
    unfolding ucast_u16 using m of_nat_u32_eq [of "length m" "unat ?L"] unat_u16_less [of ?L] by simp
  ultimately have "OnRecv (RecvBytes m) r2' opened' junk' i p2 =
      Some (0, m, upd_gw i ((gw_at i p2)\<lparr>gc_in := append_db m (gc_in (gw_at i p2))\<rparr>) p2)"
    by (simp add: finish_recv_def)
  then show ?thesis
    using p1(1) p2 by simp
qed

text \<open>Twenty bytes of a message of forty have arrived when the gateway goes away.\<close>

definition demo_torn :: gw_proxy where
  "demo_torn = demo_proxy\<lparr>px_gateways := [demo_conn\<lparr>gc_PacketLength := 40,
     gc_in := \<lparr>db_size = 64, db_data = 40 # replicate 63 0, db_read = 0, db_write = 20\<rparr>\<rparr>]\<rparr>"

lemma demo_torn_ok:
  "conn_ok 64 (gw_at 0 demo_torn) (40 # replicate 19 0)" "gc_PacketLength (gw_at 0 demo_torn) = 40"
  "length (px_gateways demo_torn) = 1" "px_packets demo_torn = []"
proof -
  have "word_of_bytes [40, 0] = (40 :: u16)"
    by (simp add: word_of_bytes_def)
  moreover have "take 2 (40 # replicate 19 0) = [40, 0 :: u8]"
    by (simp add: numeral_eq_Suc)
  ultimately have "frame_len (40 # replicate 19 0) = 40"
    using frame_len_bytes [of "40 # replicate 19 0"] by simp
  moreover have "take 20 (40 # replicate 63 0) = 40 # replicate 19 (0 :: u8)"
    by (simp add: numeral_eq_Suc)
  ultimately show "conn_ok 64 (gw_at 0 demo_torn) (40 # replicate 19 0)"
    by (simp add: conn_ok_def demo_torn_def demo_proxy_def demo_conn_def gw_at_def holds_def db_inv_def unread_def)
qed (simp_all add: demo_torn_def demo_proxy_def gw_at_def)

lemma stale_length_after_reconnect_witness:
  "\<exists>p1 r' js p2 p3. Connect 5 (\<lambda>_. True) p1 = (r', js, p2) \<and>
    OnRecv (RecvBytes []) (RecvError True) (9, True) demo_packet 0 demo_torn = Some (- 1, [], p1) \<and>
    OnRecv (RecvBytes (replicate 19 7)) (RecvError True) (9, True) demo_packet 0 p2 = Some (0, replicate 19 7, p3) \<and>
    px_packets p3 = []"
proof -
  have "recv_up_to left (RecvBytes []) = RecvBytes []" for left
    by (simp add: recv_up_to_def)
  then obtain p1 where p1: "OnRecv (RecvBytes []) (RecvError True) (9, True) demo_packet 0 demo_torn = Some (- 1, [], p1)"
    by (simp add: OnRecv_def Let_def close_failed_def)
  obtain r' js p2 where p2: "Connect 5 (\<lambda>_. True) p1 = (r', js, p2)"
    using prod_cases3 by blast
  have pre: "0 < length (px_gateways demo_torn)" "gc_PacketLength (gw_at 0 demo_torn) \<noteq> 0"
    "15 \<le> length (replicate 19 (7 :: u8))" "length (replicate 19 (7 :: u8)) < unat (gc_PacketLength (gw_at 0 demo_torn))"
    using demo_torn_ok by simp_all
  from stale_length_after_reconnect [OF pre(1) demo_torn_ok(1) pre(2) p1 p2 pre(3,4)] p1 p2 demo_torn_ok(4)
  show ?thesis
    by metis
qed

end
