(* ===== verification/Creature.thy ===== *)
theory Creature
  imports Archives Complex_Main
begin

text \<open>
  \<^verbatim>\<open>MainServer/CoreData/Creature.cpp\<close> with \<^verbatim>\<open>AttrGeneral.h\<close>,
  \<^verbatim>\<open>AttrCombat.h\<close> and \<^verbatim>\<open>AttrCombatBonus.h\<close>: the attributes that roles, monsters
  and NPCs share, their getters, setters and adders, and the position of a creature on its route.

  The class hierarchy is record extension: every operation works on \<open>'a creature_scheme\<close>, so
  \<open>role\<close> inherits it.  A setter that overloads its getter in C++ is called
  \<open>set_X\<close> here.  Attributes are \<^verbatim>\<open>UInt32\<close> and wrap; increments are
  \<^verbatim>\<open>Int32\<close> words read through \<open>sint\<close>.  Strings are their bytes.
  \<^verbatim>\<open>time(NULL)\<close> and \<^verbatim>\<open>rand()\<close> are arguments; arithmetic on
  \<^verbatim>\<open>double\<close> is the parameter \<open>fp_ops\<close>, because its rounding belongs to the
  hardware.  The data mutex of a creature is not modelled.
\<close>

section \<open>Attributes\<close>

record attr_general =
  gen_ID :: "u32"
  gen_name :: "u8 list"
  gen_flag :: "u8"
  gen_type :: "u32"
  gen_camp :: "u8"
  gen_mapID :: "u32"
  gen_route :: "ArchvRoute"
  gen_direct :: "u8"
  gen_pos :: "ArchvPosition"
  gen_status :: "u8"
  gen_statusChangeTime :: "u32"
  gen_level :: "u32"
  gen_exp :: "u32"
  gen_maxExp :: "u32"
  gen_addPoint :: "u32"
  gen_strength :: "u32"
  gen_intelligence :: "u32"
  gen_agility :: "u32"
  gen_moveSpeed :: "u32"

record attr_combat =
  cb_hp :: "u32"
  cb_mp :: "u32"
  cb_maxHp :: "u32"
  cb_maxMp :: "u32"
  cb_hpRegen :: "u32"
  cb_mpRegen :: "u32"
  cb_attackPowerHigh :: "u32"
  cb_attackPowerLow :: "u32"
  cb_attackScope :: "u32"
  cb_attackSpeed :: "u32"
  cb_bulletSpeed :: "u32"
  cb_defence :: "u32"
  cb_mDefence :: "u32"
  cb_critRate :: "u32"
  cb_hitRate :: "u32"
  cb_dodgeRate :: "u32"

record attr_combat_bonus =
  bn_maxHpBonus :: "u32"
  bn_maxMpBonus :: "u32"
  bn_hpRegenBonus :: "u32"
  bn_mpRegenBonus :: "u32"
  bn_attackPowerHighBonus :: "u32"
  bn_attackPowerLowBonus :: "u32"
  bn_attackScopeBonus :: "u32"
  bn_attackSpeedBonus :: "u32"
  bn_bulletSpeedBonus :: "u32"
  bn_defenceBonus :: "u32"
  bn_mDefenceBonus :: "u32"
  bn_critRateBonus :: "u32"
  bn_hitRateBonus :: "u32"
  bn_dodgeRateBonus :: "u32"
  bn_strengthBonus :: "u32"
  bn_intelligenceBonus :: "u32"
  bn_agilityBonus :: "u32"
  bn_movespeedBonus :: "u32"

record creature =
  cr_general :: attr_general
  cr_combat :: attr_combat
  cr_bonus :: attr_combat_bonus

text \<open>The value \<^verbatim>\<open>rand()\<close> returned is an argument.\<close>

definition MAXROLEDIRECT :: nat where "MAXROLEDIRECT = 8"

definition GetRandDirect :: "nat \<Rightarrow> u8" where
  "GetRandDirect rnd = of_nat (rnd mod MAXROLEDIRECT + 1)"

definition AttrGeneral_new :: "nat \<Rightarrow> u32 \<Rightarrow> attr_general" where
  "AttrGeneral_new rnd now = \<lparr>gen_ID = 0, gen_name = [], gen_flag = 0, gen_type = 0, gen_camp = 0,
     gen_mapID = 0, gen_route = ArchvRoute_new, gen_direct = GetRandDirect rnd,
     gen_pos = ArchvPosition_new, gen_status = 0, gen_statusChangeTime = now, gen_level = 0,
     gen_exp = 0, gen_maxExp = 0, gen_addPoint = 0, gen_strength = 0, gen_intelligence = 0,
     gen_agility = 0, gen_moveSpeed = 541\<rparr>"

definition AttrCombat_new :: attr_combat where
  "AttrCombat_new = \<lparr>cb_hp = 0, cb_mp = 0, cb_maxHp = 0, cb_maxMp = 0, cb_hpRegen = 0,
     cb_mpRegen = 0, cb_attackPowerHigh = 0, cb_attackPowerLow = 0, cb_attackScope = 0,
     cb_attackSpeed = 0, cb_bulletSpeed = 0, cb_defence = 0, cb_mDefence = 0, cb_critRate = 0,
     cb_hitRate = 0, cb_dodgeRate = 0\<rparr>"

definition AttrCombatBonus_new :: attr_combat_bonus where
  "AttrCombatBonus_new = \<lparr>bn_maxHpBonus = 0, bn_maxMpBonus = 0, bn_hpRegenBonus = 0,
     bn_mpRegenBonus = 0, bn_attackPowerHighBonus = 0, bn_attackPowerLowBonus = 0,
     bn_attackScopeBonus = 0, bn_attackSpeedBonus = 0, bn_bulletSpeedBonus = 0, bn_defenceBonus = 0,
     bn_mDefenceBonus = 0, bn_critRateBonus = 0, bn_hitRateBonus = 0, bn_dodgeRateBonus = 0,
     bn_strengthBonus = 0, bn_intelligenceBonus = 0, bn_agilityBonus = 0, bn_movespeedBonus = 0\<rparr>"

definition Creature_new :: "nat \<Rightarrow> u32 \<Rightarrow> creature" where
  "Creature_new rnd now = \<lparr>cr_general = AttrGeneral_new rnd now, cr_combat = AttrCombat_new,
     cr_bonus = AttrCombatBonus_new\<rparr>"

section \<open>Reading an attribute\<close>

definition ID :: "'a creature_scheme \<Rightarrow> u32" where
  "ID c = gen_ID (cr_general c)"

definition Name :: "'a creature_scheme \<Rightarrow> u8 list" where
  "Name c = gen_name (cr_general c)"

definition Flag :: "'a creature_scheme \<Rightarrow> u8" where
  "Flag c = gen_flag (cr_general c)"

definition Type :: "'a creature_scheme \<Rightarrow> u32" where
  "Type c = gen_type (cr_general c)"

definition Camp :: "'a creature_scheme \<Rightarrow> u8" where
  "Camp c = gen_camp (cr_general c)"

definition MapID :: "'a creature_scheme \<Rightarrow> u32" where
  "MapID c = gen_mapID (cr_general c)"

definition Route :: "'a creature_scheme \<Rightarrow> ArchvRoute" where
  "Route c = gen_route (cr_general c)"

definition Direct :: "'a creature_scheme \<Rightarrow> u8" where
  "Direct c = gen_direct (cr_general c)"

definition Pos :: "'a creature_scheme \<Rightarrow> ArchvPosition" where
  "Pos c = gen_pos (cr_general c)"

definition Status :: "'a creature_scheme \<Rightarrow> u8" where
  "Status c = gen_status (cr_general c)"

definition StatusChangeTime :: "'a creature_scheme \<Rightarrow> u32" where
  "StatusChangeTime c = gen_statusChangeTime (cr_general c)"

definition Level :: "'a creature_scheme \<Rightarrow> u32" where
  "Level c = gen_level (cr_general c)"

definition Exp :: "'a creature_scheme \<Rightarrow> u32" where
  "Exp c = gen_exp (cr_general c)"

definition MaxExp :: "'a creature_scheme \<Rightarrow> u32" where
  "MaxExp c = gen_maxExp (cr_general c)"

definition AddPoint :: "'a creature_scheme \<Rightarrow> u32" where
  "AddPoint c = gen_addPoint (cr_general c)"

definition Strength :: "'a creature_scheme \<Rightarrow> u32" where
  "Strength c = gen_strength (cr_general c)"

definition Intelligence :: "'a creature_scheme \<Rightarrow> u32" where
  "Intelligence c = gen_intelligence (cr_general c)"

definition Agility :: "'a creature_scheme \<Rightarrow> u32" where
  "Agility c = gen_agility (cr_general c)"

definition MoveSpeed :: "'a creature_scheme \<Rightarrow> u32" where
  "MoveSpeed c = gen_moveSpeed (cr_general c)"

definition Hp :: "'a creature_scheme \<Rightarrow> u32" where
  "Hp c = cb_hp (cr_combat c)"

definition Mp :: "'a creature_scheme \<Rightarrow> u32" where
  "Mp c = cb_mp (cr_combat c)"

definition MaxHp :: "'a creature_scheme \<Rightarrow> u32" where
  "MaxHp c = cb_maxHp (cr_combat c)"

definition MaxMp :: "'a creature_scheme \<Rightarrow> u32" where
  "MaxMp c = cb_maxMp (cr_combat c)"

definition HpRegen :: "'a creature_scheme \<Rightarrow> u32" where
  "HpRegen c = cb_hpRegen (cr_combat c)"

definition MpRegen :: "'a creature_scheme \<Rightarrow> u32" where
  "MpRegen c = cb_mpRegen (cr_combat c)"

definition AttackPowerHigh :: "'a creature_scheme \<Rightarrow> u32" where
  "AttackPowerHigh c = cb_attackPowerHigh (cr_combat c)"

definition AttackPowerLow :: "'a creature_scheme \<Rightarrow> u32" where
  "AttackPowerLow c = cb_attackPowerLow (cr_combat c)"

definition AttackScope :: "'a creature_scheme \<Rightarrow> u32" where
  "AttackScope c = cb_attackScope (cr_combat c)"

definition AttackSpeed :: "'a creature_scheme \<Rightarrow> u32" where
  "AttackSpeed c = cb_attackSpeed (cr_combat c)"

definition BulletSpeed :: "'a creature_scheme \<Rightarrow> u32" where
  "BulletSpeed c = cb_bulletSpeed (cr_combat c)"

definition Defence :: "'a creature_scheme \<Rightarrow> u32" where
  "Defence c = cb_defence (cr_combat c)"

definition MDefence :: "'a creature_scheme \<Rightarrow> u32" where
  "MDefence c = cb_mDefence (cr_combat c)"

definition CritRate :: "'a creature_scheme \<Rightarrow> u32" where
  "CritRate c = cb_critRate (cr_combat c)"

definition HitRate :: "'a creature_scheme \<Rightarrow> u32" where
  "HitRate c = cb_hitRate (cr_combat c)"

definition DodgeRate :: "'a creature_scheme \<Rightarrow> u32" where
  "DodgeRate c = cb_dodgeRate (cr_combat c)"

definition MaxHpBonus :: "'a creature_scheme \<Rightarrow> u32" where
  "MaxHpBonus c = bn_maxHpBonus (cr_bonus c)"

definition MaxMpBonus :: "'a creature_scheme \<Rightarrow> u32" where
  "MaxMpBonus c = bn_maxMpBonus (cr_bonus c)"

definition HpRegenBonus :: "'a creature_scheme \<Rightarrow> u32" where
  "HpRegenBonus c = bn_hpRegenBonus (cr_bonus c)"

definition MpRegenBonus :: "'a creature_scheme \<Rightarrow> u32" where
  "MpRegenBonus c = bn_mpRegenBonus (cr_bonus c)"

definition AttackPowerHighBonus :: "'a creature_scheme \<Rightarrow> u32" where
  "AttackPowerHighBonus c = bn_attackPowerHighBonus (cr_bonus c)"

definition AttackPowerLowBonus :: "'a creature_scheme \<Rightarrow> u32" where
  "AttackPowerLowBonus c = bn_attackPowerLowBonus (cr_bonus c)"

definition AttackScopeBonus :: "'a creature_scheme \<Rightarrow> u32" where
  "AttackScopeBonus c = bn_attackScopeBonus (cr_bonus c)"

definition AttackSpeedBonus :: "'a creature_scheme \<Rightarrow> u32" where
  "AttackSpeedBonus c = bn_attackSpeedBonus (cr_bonus c)"

definition BulletSpeedBonus :: "'a creature_scheme \<Rightarrow> u32" where
  "BulletSpeedBonus c = bn_bulletSpeedBonus (cr_bonus c)"

definition DefenceBonus :: "'a creature_scheme \<Rightarrow> u32" where
  "DefenceBonus c = bn_defenceBonus (cr_bonus c)"

definition MDefenceBonus :: "'a creature_scheme \<Rightarrow> u32" where
  "MDefenceBonus c = bn_mDefenceBonus (cr_bonus c)"

definition CritRateBonus :: "'a creature_scheme \<Rightarrow> u32" where
  "CritRateBonus c = bn_critRateBonus (cr_bonus c)"

definition HitRateBonus :: "'a creature_scheme \<Rightarrow> u32" where
  "HitRateBonus c = bn_hitRateBonus (cr_bonus c)"

definition DodgeRateBonus :: "'a creature_scheme \<Rightarrow> u32" where
  "DodgeRateBonus c = bn_dodgeRateBonus (cr_bonus c)"

definition MovSpeedBonus :: "'a creature_scheme \<Rightarrow> u32" where
  "MovSpeedBonus c = bn_movespeedBonus (cr_bonus c)"

definition StrengthBonus :: "'a creature_scheme \<Rightarrow> u32" where
  "StrengthBonus c = bn_strengthBonus (cr_bonus c)"

definition IntelligenceBonus :: "'a creature_scheme \<Rightarrow> u32" where
  "IntelligenceBonus c = bn_intelligenceBonus (cr_bonus c)"

definition AgilityBonus :: "'a creature_scheme \<Rightarrow> u32" where
  "AgilityBonus c = bn_agilityBonus (cr_bonus c)"

section \<open>Setting an attribute\<close>

definition set_MaxHpBonus :: "u32 \<Rightarrow> 'a creature_scheme \<Rightarrow> 'a creature_scheme" where
  "set_MaxHpBonus input c = c\<lparr>cr_bonus := (cr_bonus c)\<lparr>bn_maxHpBonus := input\<rparr>\<rparr>"

definition set_MaxMpBonus :: "u32 \<Rightarrow> 'a creature_scheme \<Rightarrow> 'a creature_scheme" where
  "set_MaxMpBonus input c = c\<lparr>cr_bonus := (cr_bonus c)\<lparr>bn_maxMpBonus := input\<rparr>\<rparr>"

definition set_HpRegenBonus :: "u32 \<Rightarrow> 'a creature_scheme \<Rightarrow> 'a creature_scheme" where
  "set_HpRegenBonus input c = c\<lparr>cr_bonus := (cr_bonus c)\<lparr>bn_hpRegenBonus := input\<rparr>\<rparr>"

definition set_MpRegenBonus :: "u32 \<Rightarrow> 'a creature_scheme \<Rightarrow> 'a creature_scheme" where
  "set_MpRegenBonus input c = c\<lparr>cr_bonus := (cr_bonus c)\<lparr>bn_mpRegenBonus := input\<rparr>\<rparr>"

definition set_AttackPowerHighBonus :: "u32 \<Rightarrow> 'a creature_scheme \<Rightarrow> 'a creature_scheme" where
  "set_AttackPowerHighBonus input c = c\<lparr>cr_bonus := (cr_bonus c)\<lparr>bn_attackPowerHighBonus := input\<rparr>\<rparr>"

definition set_AttackPowerLowBonus :: "u32 \<Rightarrow> 'a creature_scheme \<Rightarrow> 'a creature_scheme" where
  "set_AttackPowerLowBonus input c = c\<lparr>cr_bonus := (cr_bonus c)\<lparr>bn_attackPowerLowBonus := input\<rparr>\<rparr>"

definition set_AttackScopeBonus :: "u32 \<Rightarrow> 'a creature_scheme \<Rightarrow> 'a creature_scheme" where
  "set_AttackScopeBonus input c = c\<lparr>cr_bonus := (cr_bonus c)\<lparr>bn_attackScopeBonus := input\<rparr>\<rparr>"

definition set_AttackSpeedBonus :: "u32 \<Rightarrow> 'a creature_scheme \<Rightarrow> 'a creature_scheme" where
  "set_AttackSpeedBonus input c = c\<lparr>cr_bonus := (cr_bonus c)\<lparr>bn_attackSpeedBonus := input\<rparr>\<rparr>"

definition set_BulletSpeedBonus :: "u32 \<Rightarrow> 'a creature_scheme \<Rightarrow> 'a creature_scheme" where
  "set_BulletSpeedBonus input c = c\<lparr>cr_bonus := (cr_bonus c)\<lparr>bn_bulletSpeedBonus := input\<rparr>\<rparr>"

definition set_DefenceBonus :: "u32 \<Rightarrow> 'a creature_scheme \<Rightarrow> 'a creature_scheme" where
  "set_DefenceBonus input c = c\<lparr>cr_bonus := (cr_bonus c)\<lparr>bn_defenceBonus := input\<rparr>\<rparr>"

definition set_MDefenceBonus :: "u32 \<Rightarrow> 'a creature_scheme \<Rightarrow> 'a creature_scheme" where
  "set_MDefenceBonus input c = c\<lparr>cr_bonus := (cr_bonus c)\<lparr>bn_mDefenceBonus := input\<rparr>\<rparr>"

text \<open>\<^verbatim>\<open>Creature::CritRateBonus(UInt32)\<close> has an empty body.\<close>

definition set_CritRateBonus :: "u32 \<Rightarrow> 'a creature_scheme \<Rightarrow> 'a creature_scheme" where
  "set_CritRateBonus input c = c"

definition set_HitRateBonus :: "u32 \<Rightarrow> 'a creature_scheme \<Rightarrow> 'a creature_scheme" where
  "set_HitRateBonus input c = c\<lparr>cr_bonus := (cr_bonus c)\<lparr>bn_hitRateBonus := input\<rparr>\<rparr>"

definition set_DodgeRateBonus :: "u32 \<Rightarrow> 'a creature_scheme \<Rightarrow> 'a creature_scheme" where
  "set_DodgeRateBonus input c = c\<lparr>cr_bonus := (cr_bonus c)\<lparr>bn_dodgeRateBonus := input\<rparr>\<rparr>"

definition set_MovSpeedBonus :: "u32 \<Rightarrow> 'a creature_scheme \<Rightarrow> 'a creature_scheme" where
  "set_MovSpeedBonus input c = c\<lparr>cr_bonus := (cr_bonus c)\<lparr>bn_movespeedBonus := input\<rparr>\<rparr>"

definition set_StrengthBonus :: "u32 \<Rightarrow> 'a creature_scheme \<Rightarrow> 'a creature_scheme" where
  "set_StrengthBonus input c = c\<lparr>cr_bonus := (cr_bonus c)\<lparr>bn_strengthBonus := input\<rparr>\<rparr>"

definition set_IntelligenceBonus :: "u32 \<Rightarrow> 'a creature_scheme \<Rightarrow> 'a creature_scheme" where
  "set_IntelligenceBonus input c = c\<lparr>cr_bonus := (cr_bonus c)\<lparr>bn_intelligenceBonus := input\<rparr>\<rparr>"

definition set_AgilityBonus :: "u32 \<Rightarrow> 'a creature_scheme \<Rightarrow> 'a creature_scheme" where
  "set_AgilityBonus input c = c\<lparr>cr_bonus := (cr_bonus c)\<lparr>bn_agilityBonus := input\<rparr>\<rparr>"

definition set_Camp :: "u8 \<Rightarrow> 'a creature_scheme \<Rightarrow> 'a creature_scheme" where
  "set_Camp input c = c\<lparr>cr_general := (cr_general c)\<lparr>gen_camp := input\<rparr>\<rparr>"

definition set_ID :: "u32 \<Rightarrow> 'a creature_scheme \<Rightarrow> 'a creature_scheme" where
  "set_ID input c = c\<lparr>cr_general := (cr_general c)\<lparr>gen_ID := input\<rparr>\<rparr>"

definition set_Name :: "u8 list \<Rightarrow> 'a creature_scheme \<Rightarrow> 'a creature_scheme" where
  "set_Name input c = c\<lparr>cr_general := (cr_general c)\<lparr>gen_name := input\<rparr>\<rparr>"

definition set_Flag :: "u8 \<Rightarrow> 'a creature_scheme \<Rightarrow> 'a creature_scheme" where
  "set_Flag input c = c\<lparr>cr_general := (cr_general c)\<lparr>gen_flag := input\<rparr>\<rparr>"

definition set_creature_Type :: "u32 \<Rightarrow> 'a creature_scheme \<Rightarrow> 'a creature_scheme" where
  "set_creature_Type input c = c\<lparr>cr_general := (cr_general c)\<lparr>gen_type := input\<rparr>\<rparr>"

definition set_Level :: "u32 \<Rightarrow> 'a creature_scheme \<Rightarrow> 'a creature_scheme" where
  "set_Level input c = c\<lparr>cr_general := (cr_general c)\<lparr>gen_level := input\<rparr>\<rparr>"

definition set_Exp :: "u32 \<Rightarrow> 'a creature_scheme \<Rightarrow> 'a creature_scheme" where
  "set_Exp input c = c\<lparr>cr_general := (cr_general c)\<lparr>gen_exp := input\<rparr>\<rparr>"

definition set_MaxExp :: "u32 \<Rightarrow> 'a creature_scheme \<Rightarrow> 'a creature_scheme" where
  "set_MaxExp input c = c\<lparr>cr_general := (cr_general c)\<lparr>gen_maxExp := input\<rparr>\<rparr>"

definition set_AddPoint :: "u32 \<Rightarrow> 'a creature_scheme \<Rightarrow> 'a creature_scheme" where
  "set_AddPoint input c = c\<lparr>cr_general := (cr_general c)\<lparr>gen_addPoint := input\<rparr>\<rparr>"

definition set_Strength :: "u32 \<Rightarrow> 'a creature_scheme \<Rightarrow> 'a creature_scheme" where
  "set_Strength input c = c\<lparr>cr_general := (cr_general c)\<lparr>gen_strength := input\<rparr>\<rparr>"

definition set_Intelligence :: "u32 \<Rightarrow> 'a creature_scheme \<Rightarrow> 'a creature_scheme" where
  "set_Intelligence input c = c\<lparr>cr_general := (cr_general c)\<lparr>gen_intelligence := input\<rparr>\<rparr>"

definition set_Agility :: "u32 \<Rightarrow> 'a creature_scheme \<Rightarrow> 'a creature_scheme" where
  "set_Agility input c = c\<lparr>cr_general := (cr_general c)\<lparr>gen_agility := input\<rparr>\<rparr>"

definition set_Hp :: "u32 \<Rightarrow> 'a creature_scheme \<Rightarrow> 'a creature_scheme" where
  "set_Hp input c = c\<lparr>cr_combat := (cr_combat c)\<lparr>cb_hp := input\<rparr>\<rparr>"

definition set_Mp :: "u32 \<Rightarrow> 'a creature_scheme \<Rightarrow> 'a creature_scheme" where
  "set_Mp input c = c\<lparr>cr_combat := (cr_combat c)\<lparr>cb_mp := input\<rparr>\<rparr>"

definition set_MaxHp :: "u32 \<Rightarrow> 'a creature_scheme \<Rightarrow> 'a creature_scheme" where
  "set_MaxHp input c = c\<lparr>cr_combat := (cr_combat c)\<lparr>cb_maxHp := input\<rparr>\<rparr>"

definition set_MaxMp :: "u32 \<Rightarrow> 'a creature_scheme \<Rightarrow> 'a creature_scheme" where
  "set_MaxMp input c = c\<lparr>cr_combat := (cr_combat c)\<lparr>cb_maxMp := input\<rparr>\<rparr>"

definition set_HpRegen :: "u32 \<Rightarrow> 'a creature_scheme \<Rightarrow> 'a creature_scheme" where
  "set_HpRegen input c = c\<lparr>cr_combat := (cr_combat c)\<lparr>cb_hpRegen := input\<rparr>\<rparr>"

definition set_MpRegen :: "u32 \<Rightarrow> 'a creature_scheme \<Rightarrow> 'a creature_scheme" where
  "set_MpRegen input c = c\<lparr>cr_combat := (cr_combat c)\<lparr>cb_mpRegen := input\<rparr>\<rparr>"

definition set_AttackPowerHigh :: "u32 \<Rightarrow> 'a creature_scheme \<Rightarrow> 'a creature_scheme" where
  "set_AttackPowerHigh input c = c\<lparr>cr_combat := (cr_combat c)\<lparr>cb_attackPowerHigh := input\<rparr>\<rparr>"

definition set_AttackPowerLow :: "u32 \<Rightarrow> 'a creature_scheme \<Rightarrow> 'a creature_scheme" where
  "set_AttackPowerLow input c = c\<lparr>cr_combat := (cr_combat c)\<lparr>cb_attackPowerLow := input\<rparr>\<rparr>"

definition set_AttackScope :: "u32 \<Rightarrow> 'a creature_scheme \<Rightarrow> 'a creature_scheme" where
  "set_AttackScope input c = c\<lparr>cr_combat := (cr_combat c)\<lparr>cb_attackScope := input\<rparr>\<rparr>"

definition set_AttackSpeed :: "u32 \<Rightarrow> 'a creature_scheme \<Rightarrow> 'a creature_scheme" where
  "set_AttackSpeed input c = c\<lparr>cr_combat := (cr_combat c)\<lparr>cb_attackSpeed := input\<rparr>\<rparr>"

definition set_BulletSpeed :: "u32 \<Rightarrow> 'a creature_scheme \<Rightarrow> 'a creature_scheme" where
  "set_BulletSpeed input c = c\<lparr>cr_combat := (cr_combat c)\<lparr>cb_bulletSpeed := input\<rparr>\<rparr>"

definition set_Defence :: "u32 \<Rightarrow> 'a creature_scheme \<Rightarrow> 'a creature_scheme" where
  "set_Defence input c = c\<lparr>cr_combat := (cr_combat c)\<lparr>cb_defence := input\<rparr>\<rparr>"

definition set_MDefence :: "u32 \<Rightarrow> 'a creature_scheme \<Rightarrow> 'a creature_scheme" where
  "set_MDefence input c = c\<lparr>cr_combat := (cr_combat c)\<lparr>cb_mDefence := input\<rparr>\<rparr>"

definition set_CritRate :: "u32 \<Rightarrow> 'a creature_scheme \<Rightarrow> 'a creature_scheme" where
  "set_CritRate input c = c\<lparr>cr_combat := (cr_combat c)\<lparr>cb_critRate := input\<rparr>\<rparr>"

definition set_HitRate :: "u32 \<Rightarrow> 'a creature_scheme \<Rightarrow> 'a creature_scheme" where
  "set_HitRate input c = c\<lparr>cr_combat := (cr_combat c)\<lparr>cb_hitRate := input\<rparr>\<rparr>"

definition set_DodgeRate :: "u32 \<Rightarrow> 'a creature_scheme \<Rightarrow> 'a creature_scheme" where
  "set_DodgeRate input c = c\<lparr>cr_combat := (cr_combat c)\<lparr>cb_dodgeRate := input\<rparr>\<rparr>"

definition set_Route :: "ArchvRoute \<Rightarrow> 'a creature_scheme \<Rightarrow> 'a creature_scheme" where
  "set_Route input c = c\<lparr>cr_general := (cr_general c)\<lparr>gen_route := input\<rparr>\<rparr>"

definition set_Direct :: "u8 \<Rightarrow> 'a creature_scheme \<Rightarrow> 'a creature_scheme" where
  "set_Direct input c = c\<lparr>cr_general := (cr_general c)\<lparr>gen_direct := input\<rparr>\<rparr>"

definition set_Pos :: "ArchvPosition \<Rightarrow> 'a creature_scheme \<Rightarrow> 'a creature_scheme" where
  "set_Pos input c = c\<lparr>cr_general := (cr_general c)\<lparr>gen_pos := input\<rparr>\<rparr>"

definition set_Status :: "u32 \<Rightarrow> u8 \<Rightarrow> 'a creature_scheme \<Rightarrow> 'a creature_scheme" where
  "set_Status now input c = c\<lparr>cr_general := (cr_general c)\<lparr>gen_status := input, gen_statusChangeTime := now\<rparr>\<rparr>"

definition set_MapID :: "u32 \<Rightarrow> 'a creature_scheme \<Rightarrow> 'a creature_scheme" where
  "set_MapID input c = c\<lparr>cr_general := (cr_general c)\<lparr>gen_mapID := input\<rparr>\<rparr>"

definition set_MoveSpeed :: "u32 \<Rightarrow> 'a creature_scheme \<Rightarrow> 'a creature_scheme" where
  "set_MoveSpeed input c = c\<lparr>cr_general := (cr_general c)\<lparr>gen_moveSpeed := input\<rparr>\<rparr>"

section \<open>Adding to an attribute\<close>

text \<open>
  The body the adders share: a decrease beyond zero stops at zero, any other sum wraps.
  \<^verbatim>\<open>abs(input)\<close> is compared as unsigned; for the most negative input, whose
  \<^verbatim>\<open>abs\<close> C leaves undefined, it is the value the processors of these servers give,
  the input itself.
\<close>

definition abs_i32 :: "i32 \<Rightarrow> u32" where
  "abs_i32 i = (if sint i < 0 then - i else i)"

definition add_clamped :: "i32 \<Rightarrow> u32 \<Rightarrow> u32" where
  "add_clamped input v = (if sint input < 0 \<and> v < abs_i32 input then 0 else v + input)"

definition AddLevel :: "i32 \<Rightarrow> 'a creature_scheme \<Rightarrow> 'a creature_scheme" where
  "AddLevel input c = c\<lparr>cr_general := (cr_general c)\<lparr>gen_level := add_clamped input (gen_level (cr_general c))\<rparr>\<rparr>"

definition AddExp :: "i32 \<Rightarrow> 'a creature_scheme \<Rightarrow> 'a creature_scheme" where
  "AddExp input c = c\<lparr>cr_general := (cr_general c)\<lparr>gen_exp := add_clamped input (gen_exp (cr_general c))\<rparr>\<rparr>"

definition AddMaxExp :: "i32 \<Rightarrow> 'a creature_scheme \<Rightarrow> 'a creature_scheme" where
  "AddMaxExp input c = c\<lparr>cr_general := (cr_general c)\<lparr>gen_maxExp := add_clamped input (gen_maxExp (cr_general c))\<rparr>\<rparr>"

definition AddAddPoint :: "i32 \<Rightarrow> 'a creature_scheme \<Rightarrow> 'a creature_scheme" where
  "AddAddPoint input c = c\<lparr>cr_general := (cr_general c)\<lparr>gen_addPoint := add_clamped input (gen_addPoint (cr_general c))\<rparr>\<rparr>"

definition AddStrength :: "i32 \<Rightarrow> 'a creature_scheme \<Rightarrow> 'a creature_scheme" where
  "AddStrength input c = c\<lparr>cr_general := (cr_general c)\<lparr>gen_strength := add_clamped input (gen_strength (cr_general c))\<rparr>\<rparr>"

definition AddIntelligence :: "i32 \<Rightarrow> 'a creature_scheme \<Rightarrow> 'a creature_scheme" where
  "AddIntelligence input c = c\<lparr>cr_general := (cr_general c)\<lparr>gen_intelligence := add_clamped input (gen_intelligence (cr_general c))\<rparr>\<rparr>"

definition AddAgility :: "i32 \<Rightarrow> 'a creature_scheme \<Rightarrow> 'a creature_scheme" where
  "AddAgility input c = c\<lparr>cr_general := (cr_general c)\<lparr>gen_agility := add_clamped input (gen_agility (cr_general c))\<rparr>\<rparr>"

definition AddMaxHp :: "i32 \<Rightarrow> 'a creature_scheme \<Rightarrow> 'a creature_scheme" where
  "AddMaxHp input c = c\<lparr>cr_combat := (cr_combat c)\<lparr>cb_maxHp := add_clamped input (cb_maxHp (cr_combat c))\<rparr>\<rparr>"

definition AddMaxMp :: "i32 \<Rightarrow> 'a creature_scheme \<Rightarrow> 'a creature_scheme" where
  "AddMaxMp input c = c\<lparr>cr_combat := (cr_combat c)\<lparr>cb_maxMp := add_clamped input (cb_maxMp (cr_combat c))\<rparr>\<rparr>"

definition AddHpRegen :: "i32 \<Rightarrow> 'a creature_scheme \<Rightarrow> 'a creature_scheme" where
  "AddHpRegen input c = c\<lparr>cr_combat := (cr_combat c)\<lparr>cb_hpRegen := add_clamped input (cb_hpRegen (cr_combat c))\<rparr>\<rparr>"

definition AddMpRegen :: "i32 \<Rightarrow> 'a creature_scheme \<Rightarrow> 'a creature_scheme" where
  "AddMpRegen input c = c\<lparr>cr_combat := (cr_combat c)\<lparr>cb_mpRegen := add_clamped input (cb_mpRegen (cr_combat c))\<rparr>\<rparr>"

definition AddAttackPowerHigh :: "i32 \<Rightarrow> 'a creature_scheme \<Rightarrow> 'a creature_scheme" where
  "AddAttackPowerHigh input c = c\<lparr>cr_combat := (cr_combat c)\<lparr>cb_attackPowerHigh := add_clamped input (cb_attackPowerHigh (cr_combat c))\<rparr>\<rparr>"

definition AddAttackPowerLow :: "i32 \<Rightarrow> 'a creature_scheme \<Rightarrow> 'a creature_scheme" where
  "AddAttackPowerLow input c = c\<lparr>cr_combat := (cr_combat c)\<lparr>cb_attackPowerLow := add_clamped input (cb_attackPowerLow (cr_combat c))\<rparr>\<rparr>"

definition AddAttackScope :: "i32 \<Rightarrow> 'a creature_scheme \<Rightarrow> 'a creature_scheme" where
  "AddAttackScope input c = c\<lparr>cr_combat := (cr_combat c)\<lparr>cb_attackScope := add_clamped input (cb_attackScope (cr_combat c))\<rparr>\<rparr>"

definition AddAttackSpeed :: "i32 \<Rightarrow> 'a creature_scheme \<Rightarrow> 'a creature_scheme" where
  "AddAttackSpeed input c = c\<lparr>cr_combat := (cr_combat c)\<lparr>cb_attackSpeed := add_clamped input (cb_attackSpeed (cr_combat c))\<rparr>\<rparr>"

definition AddBulletSpeed :: "i32 \<Rightarrow> 'a creature_scheme \<Rightarrow> 'a creature_scheme" where
  "AddBulletSpeed input c = c\<lparr>cr_combat := (cr_combat c)\<lparr>cb_bulletSpeed := add_clamped input (cb_bulletSpeed (cr_combat c))\<rparr>\<rparr>"

definition AddDefence :: "i32 \<Rightarrow> 'a creature_scheme \<Rightarrow> 'a creature_scheme" where
  "AddDefence input c = c\<lparr>cr_combat := (cr_combat c)\<lparr>cb_defence := add_clamped input (cb_defence (cr_combat c))\<rparr>\<rparr>"

definition AddMDefence :: "i32 \<Rightarrow> 'a creature_scheme \<Rightarrow> 'a creature_scheme" where
  "AddMDefence input c = c\<lparr>cr_combat := (cr_combat c)\<lparr>cb_mDefence := add_clamped input (cb_mDefence (cr_combat c))\<rparr>\<rparr>"

definition AddCritRate :: "i32 \<Rightarrow> 'a creature_scheme \<Rightarrow> 'a creature_scheme" where
  "AddCritRate input c = c\<lparr>cr_combat := (cr_combat c)\<lparr>cb_critRate := add_clamped input (cb_critRate (cr_combat c))\<rparr>\<rparr>"

definition AddHitRate :: "i32 \<Rightarrow> 'a creature_scheme \<Rightarrow> 'a creature_scheme" where
  "AddHitRate input c = c\<lparr>cr_combat := (cr_combat c)\<lparr>cb_hitRate := add_clamped input (cb_hitRate (cr_combat c))\<rparr>\<rparr>"

definition AddDodgeRate :: "i32 \<Rightarrow> 'a creature_scheme \<Rightarrow> 'a creature_scheme" where
  "AddDodgeRate input c = c\<lparr>cr_combat := (cr_combat c)\<lparr>cb_dodgeRate := add_clamped input (cb_dodgeRate (cr_combat c))\<rparr>\<rparr>"

definition AddMoveSpeed :: "i32 \<Rightarrow> 'a creature_scheme \<Rightarrow> 'a creature_scheme" where
  "AddMoveSpeed input c = c\<lparr>cr_general := (cr_general c)\<lparr>gen_moveSpeed := add_clamped input (gen_moveSpeed (cr_general c))\<rparr>\<rparr>"

definition AddMaxHpBonus :: "i32 \<Rightarrow> 'a creature_scheme \<Rightarrow> 'a creature_scheme" where
  "AddMaxHpBonus input c = c\<lparr>cr_bonus := (cr_bonus c)\<lparr>bn_maxHpBonus := add_clamped input (bn_maxHpBonus (cr_bonus c))\<rparr>\<rparr>"

definition AddMaxMpBonus :: "i32 \<Rightarrow> 'a creature_scheme \<Rightarrow> 'a creature_scheme" where
  "AddMaxMpBonus input c = c\<lparr>cr_bonus := (cr_bonus c)\<lparr>bn_maxMpBonus := add_clamped input (bn_maxMpBonus (cr_bonus c))\<rparr>\<rparr>"

definition AddHpRegenBonus :: "i32 \<Rightarrow> 'a creature_scheme \<Rightarrow> 'a creature_scheme" where
  "AddHpRegenBonus input c = c\<lparr>cr_bonus := (cr_bonus c)\<lparr>bn_hpRegenBonus := add_clamped input (bn_hpRegenBonus (cr_bonus c))\<rparr>\<rparr>"

definition AddMpRegenBonus :: "i32 \<Rightarrow> 'a creature_scheme \<Rightarrow> 'a creature_scheme" where
  "AddMpRegenBonus input c = c\<lparr>cr_bonus := (cr_bonus c)\<lparr>bn_mpRegenBonus := add_clamped input (bn_mpRegenBonus (cr_bonus c))\<rparr>\<rparr>"

definition AddAttackPowerHighBonus :: "i32 \<Rightarrow> 'a creature_scheme \<Rightarrow> 'a creature_scheme" where
  "AddAttackPowerHighBonus input c = c\<lparr>cr_bonus := (cr_bonus c)\<lparr>bn_attackPowerHighBonus := add_clamped input (bn_attackPowerHighBonus (cr_bonus c))\<rparr>\<rparr>"

definition AddAttackPowerLowBonus :: "i32 \<Rightarrow> 'a creature_scheme \<Rightarrow> 'a creature_scheme" where
  "AddAttackPowerLowBonus input c = c\<lparr>cr_bonus := (cr_bonus c)\<lparr>bn_attackPowerLowBonus := add_clamped input (bn_attackPowerLowBonus (cr_bonus c))\<rparr>\<rparr>"

definition AddAttackScopeBonus :: "i32 \<Rightarrow> 'a creature_scheme \<Rightarrow> 'a creature_scheme" where
  "AddAttackScopeBonus input c = c\<lparr>cr_bonus := (cr_bonus c)\<lparr>bn_attackScopeBonus := add_clamped input (bn_attackScopeBonus (cr_bonus c))\<rparr>\<rparr>"

definition AddAttackSpeedBonus :: "i32 \<Rightarrow> 'a creature_scheme \<Rightarrow> 'a creature_scheme" where
  "AddAttackSpeedBonus input c = c\<lparr>cr_bonus := (cr_bonus c)\<lparr>bn_attackSpeedBonus := add_clamped input (bn_attackSpeedBonus (cr_bonus c))\<rparr>\<rparr>"

definition AddBulletSpeedBonus :: "i32 \<Rightarrow> 'a creature_scheme \<Rightarrow> 'a creature_scheme" where
  "AddBulletSpeedBonus input c = c\<lparr>cr_bonus := (cr_bonus c)\<lparr>bn_bulletSpeedBonus := add_clamped input (bn_bulletSpeedBonus (cr_bonus c))\<rparr>\<rparr>"

definition AddDefenceBonus :: "i32 \<Rightarrow> 'a creature_scheme \<Rightarrow> 'a creature_scheme" where
  "AddDefenceBonus input c = c\<lparr>cr_bonus := (cr_bonus c)\<lparr>bn_defenceBonus := add_clamped input (bn_defenceBonus (cr_bonus c))\<rparr>\<rparr>"

definition AddMDefenceBonus :: "i32 \<Rightarrow> 'a creature_scheme \<Rightarrow> 'a creature_scheme" where
  "AddMDefenceBonus input c = c\<lparr>cr_bonus := (cr_bonus c)\<lparr>bn_mDefenceBonus := add_clamped input (bn_mDefenceBonus (cr_bonus c))\<rparr>\<rparr>"

definition AddCritRateBonus :: "i32 \<Rightarrow> 'a creature_scheme \<Rightarrow> 'a creature_scheme" where
  "AddCritRateBonus input c = c\<lparr>cr_bonus := (cr_bonus c)\<lparr>bn_critRateBonus := add_clamped input (bn_critRateBonus (cr_bonus c))\<rparr>\<rparr>"

definition AddHitRateBonus :: "i32 \<Rightarrow> 'a creature_scheme \<Rightarrow> 'a creature_scheme" where
  "AddHitRateBonus input c = c\<lparr>cr_bonus := (cr_bonus c)\<lparr>bn_hitRateBonus := add_clamped input (bn_hitRateBonus (cr_bonus c))\<rparr>\<rparr>"

definition AddDodgeRateBonus :: "i32 \<Rightarrow> 'a creature_scheme \<Rightarrow> 'a creature_scheme" where
  "AddDodgeRateBonus input c = c\<lparr>cr_bonus := (cr_bonus c)\<lparr>bn_dodgeRateBonus := add_clamped input (bn_dodgeRateBonus (cr_bonus c))\<rparr>\<rparr>"

definition AddMoveSpeedBonus :: "i32 \<Rightarrow> 'a creature_scheme \<Rightarrow> 'a creature_scheme" where
  "AddMoveSpeedBonus input c = c\<lparr>cr_bonus := (cr_bonus c)\<lparr>bn_movespeedBonus := add_clamped input (bn_movespeedBonus (cr_bonus c))\<rparr>\<rparr>"

definition AddStrengthBonus :: "i32 \<Rightarrow> 'a creature_scheme \<Rightarrow> 'a creature_scheme" where
  "AddStrengthBonus input c = c\<lparr>cr_bonus := (cr_bonus c)\<lparr>bn_strengthBonus := add_clamped input (bn_strengthBonus (cr_bonus c))\<rparr>\<rparr>"

definition AddIntelligenceBonus :: "i32 \<Rightarrow> 'a creature_scheme \<Rightarrow> 'a creature_scheme" where
  "AddIntelligenceBonus input c = c\<lparr>cr_bonus := (cr_bonus c)\<lparr>bn_intelligenceBonus := add_clamped input (bn_intelligenceBonus (cr_bonus c))\<rparr>\<rparr>"

definition AddAgilityBonus :: "i32 \<Rightarrow> 'a creature_scheme \<Rightarrow> 'a creature_scheme" where
  "AddAgilityBonus input c = c\<lparr>cr_bonus := (cr_bonus c)\<lparr>bn_agilityBonus := add_clamped input (bn_agilityBonus (cr_bonus c))\<rparr>\<rparr>"

definition AddHp :: "i32 \<Rightarrow> 'a creature_scheme \<Rightarrow> 'a creature_scheme" where
  "AddHp input c =
     (let hp = cb_hp (cr_combat c); top = cb_maxHp (cr_combat c) + bn_maxHpBonus (cr_bonus c)
      in if hp + input < top
         then if sint input < 0 \<and> hp < abs_i32 input
              then c\<lparr>cr_combat := (cr_combat c)\<lparr>cb_hp := 0\<rparr>\<rparr>
              else c\<lparr>cr_combat := (cr_combat c)\<lparr>cb_hp := hp + input\<rparr>\<rparr>
         else c\<lparr>cr_combat := (cr_combat c)\<lparr>cb_hp := top\<rparr>\<rparr>)"

definition AddMp :: "i32 \<Rightarrow> 'a creature_scheme \<Rightarrow> 'a creature_scheme" where
  "AddMp input c =
     (let mp = cb_mp (cr_combat c); top = cb_maxMp (cr_combat c) + bn_maxMpBonus (cr_bonus c)
      in if mp + input < top
         then if sint input < 0 \<and> mp < abs_i32 input
              then c\<lparr>cr_combat := (cr_combat c)\<lparr>cb_mp := 0\<rparr>\<rparr>
              else c\<lparr>cr_combat := (cr_combat c)\<lparr>cb_mp := mp + input\<rparr>\<rparr>
         else c\<lparr>cr_combat := (cr_combat c)\<lparr>cb_mp := top\<rparr>\<rparr>)"

section \<open>Directions and the position on a route\<close>

definition DIRECT_NORTH :: u8 where "DIRECT_NORTH = 1"
definition DIRECT_EASTNORTH :: u8 where "DIRECT_EASTNORTH = 2"
definition DIRECT_EAST :: u8 where "DIRECT_EAST = 3"
definition DIRECT_EASTSOUTH :: u8 where "DIRECT_EASTSOUTH = 4"
definition DIRECT_SOUTH :: u8 where "DIRECT_SOUTH = 5"
definition DIRECT_WESTSOUTH :: u8 where "DIRECT_WESTSOUTH = 6"
definition DIRECT_WEST :: u8 where "DIRECT_WEST = 7"
definition DIRECT_WESTNORTH :: u8 where "DIRECT_WESTNORTH = 8"

definition CalcDirect :: "nat \<Rightarrow> ArchvPosition \<Rightarrow> ArchvPosition \<Rightarrow> u8" where
  "CalcDirect rnd pos1 pos2 =
     (let minusX = pos_X pos1 - pos_X pos2 :: i16; minusY = pos_Y pos1 - pos_Y pos2 :: i16
      in if minusX = 0 \<and> minusY = 0 then GetRandDirect rnd
         else let d1 = (if 0 < sint minusX then 0x90 else if sint minusX < 0 then 0x10 else 0) :: u8;
                  bDrt = (if 0 < sint minusY then d1 + 0x01
                          else if sint minusY < 0 then d1 + 0x09 else d1)
              in if bDrt = 0x01 then DIRECT_NORTH
                 else if bDrt = 0x11 then DIRECT_EASTNORTH
                 else if bDrt = 0x10 then DIRECT_EAST
                 else if bDrt = 0x19 then DIRECT_EASTSOUTH
                 else if bDrt = 0x09 then DIRECT_SOUTH
                 else if bDrt = 0x99 then DIRECT_WESTSOUTH
                 else if bDrt = 0x90 then DIRECT_WEST
                 else if bDrt = 0x91 then DIRECT_WESTNORTH
                 else GetRandDirect rnd)"

text \<open>The operations on \<^verbatim>\<open>double\<close> that the class uses; \<open>fp_i16\<close> is the cast
  \<^verbatim>\<open>(Int16)\<close>.\<close>

record 'd fp_ops =
  fp_int :: "int \<Rightarrow> 'd"
  fp_sub :: "'d \<Rightarrow> 'd \<Rightarrow> 'd"
  fp_mul :: "'d \<Rightarrow> 'd \<Rightarrow> 'd"
  fp_div :: "'d \<Rightarrow> 'd \<Rightarrow> 'd"
  fp_le :: "'d \<Rightarrow> 'd \<Rightarrow> bool"
  fp_i16 :: "'d \<Rightarrow> i16"

definition ROLE_MOVE_SPEED :: int where "ROLE_MOVE_SPEED = 541"

text \<open>The distance, and the direction that the reference parameter receives.  The difference of two
  \<^verbatim>\<open>UInt16\<close> coordinates is an \<^verbatim>\<open>int\<close>.\<close>

definition CalcPosDistance :: "'d fp_ops \<Rightarrow> nat \<Rightarrow> ArchvPosition \<Rightarrow> ArchvPosition \<Rightarrow> 'd \<times> u8" where
  "CalcPosDistance fp rnd pos1 pos2 =
     (let absX = \<bar>uint (pos_X pos1) - uint (pos_X pos2)\<bar>;
          absY = \<bar>uint (pos_Y pos1) - uint (pos_Y pos2)\<bar>;
          direct = CalcDirect rnd pos1 pos2
      in if 0 < absX \<and> 0 < absY
         then (fp_mul fp (fp_div fp (fp_int fp 141421) (fp_int fp 100000)) (fp_int fp absX), direct)
         else (fp_int fp (absX + absY), direct))"

text \<open>
  The loop of \<^verbatim>\<open>CalcCurrPos\<close> after its first key point: \<open>walk_stop\<close> is the state at
  the \<^verbatim>\<open>break\<close>, \<open>walk_end\<close> the state after the last key point.
\<close>

datatype 'd walk =
    walk_stop ArchvPosition ArchvPosition 'd 'd nat u8
  | walk_end ArchvPosition u8

fun walk_route :: "'d fp_ops \<Rightarrow> nat \<Rightarrow> ArchvPosition \<Rightarrow> ArchvPosition \<Rightarrow> 'd \<Rightarrow> nat \<Rightarrow> u8 \<Rightarrow> ArchvPosition list \<Rightarrow> 'd walk" where
  "walk_route fp rnd tmpPos1 tmpPos2 dDisLeft iCount direct [] = walk_end tmpPos2 direct"
| "walk_route fp rnd tmpPos1 tmpPos2 dDisLeft iCount direct (p # ps) =
     (let (dPosDis, d) = CalcPosDistance fp rnd tmpPos1 p
      in if fp_le fp (fp_div fp (fp_int fp 1) (fp_int fp 10)) (fp_sub fp dPosDis dDisLeft)
         then walk_stop tmpPos1 p dDisLeft dPosDis (Suc iCount) d
         else walk_route fp rnd p p (fp_sub fp dDisLeft dPosDis) (Suc iCount) d ps)"

definition step_coord :: "'d fp_ops \<Rightarrow> 'd \<Rightarrow> 'd \<Rightarrow> u16 \<Rightarrow> u16 \<Rightarrow> u16" where
  "step_coord fp dDisLeft dPosDis a b =
     a + fp_i16 fp (fp_mul fp (fp_div fp dDisLeft dPosDis) (fp_int fp (uint b - uint a)))"

text \<open>The three calls of \<^verbatim>\<open>time(NULL)\<close> are the arguments \<open>t1\<close>, \<open>t2\<close> and \<open>t3\<close>.\<close>

definition CalcCurrPos :: "'d fp_ops \<Rightarrow> nat \<Rightarrow> u32 \<Rightarrow> u32 \<Rightarrow> u32 \<Rightarrow> 'a creature_scheme \<Rightarrow> 'a creature_scheme" where
  "CalcCurrPos fp rnd t1 t2 t3 c =
     (let g = cr_general c; route = gen_route g;
          dSpeed = fp_div fp (fp_int fp (ROLE_MOVE_SPEED * 10)) (fp_int fp 1000)
      in case rt_listPos route of
           [] \<Rightarrow> c
         | p0 # ps \<Rightarrow>
             if ps = [] \<or> t1 \<le> rt_time route then c
             else let dDistance = fp_mul fp (fp_int fp (uint t2 - uint (rt_time route))) dSpeed
                  in if fp_le fp dDistance (fp_int fp 0) then c
                     else (case walk_route fp rnd p0 p0 dDistance 1 (gen_direct g) ps of
                             walk_stop q1 q2 dDisLeft dPosDis iCount d \<Rightarrow>
                               let pos = \<lparr>pos_X = step_coord fp dDisLeft dPosDis (pos_X q1) (pos_X q2),
                                          pos_Y = step_coord fp dDisLeft dPosDis (pos_Y q1) (pos_Y q2)\<rparr>
                               in c\<lparr>cr_general := g\<lparr>gen_direct := d, gen_pos := pos,
                                    gen_route := \<lparr>rt_time = t3, rt_listPos = pos # drop (iCount - 1) (p0 # ps)\<rparr>\<rparr>\<rparr>
                           | walk_end q2 d \<Rightarrow>
                               c\<lparr>cr_general := g\<lparr>gen_direct := d, gen_pos := q2,
                                 gen_route := \<lparr>rt_time = t3, rt_listPos = [last (p0 # ps)]\<rparr>\<rparr>\<rparr>))"

section \<open>What the adders compute\<close>

lemma uint_abs_i32: "sint i < 0 \<Longrightarrow> uint (abs_i32 i) = - sint i"
proof -
  assume neg: "sint i < 0"
  have "- sint i < 4294967296"
    using sint_i32_bounds (2) [of i] by linarith
  then have "- sint i mod 4294967296 = - sint i"
    using neg by (intro mod_pos_pos_trivial) linarith+
  then show ?thesis
    using neg by (simp only: abs_i32_def if_True uint_minus_i32)
qed

lemma overdrawn: "(sint i < 0 \<and> v < abs_i32 i) = (uint v + sint i < 0)"
proof (cases "sint i < 0")
  case True
  then have "(v < abs_i32 i) = (uint v < - sint i)"
    by (simp only: word_less_def uint_abs_i32)
  with True show ?thesis by linarith
next
  case False
  then show ?thesis using uint_ge_0 [of v] by linarith
qed

lemma uint_add_clamped:
  "uint (add_clamped i v) = (if uint v + sint i < 0 then 0 else (uint v + sint i) mod 4294967296)"
  by (simp only: add_clamped_def overdrawn uint_plus_i32 if_distrib [where f = uint] uint_0_eq)

text \<open>
  \<^verbatim>\<open>Creature::AddHp\<close> on every branch, as integers.  A sum that stays at or above
  zero is capped by the maximum with its bonus.  A decrease beyond zero does not give zero: the
  sum has wrapped when it is compared with the maximum, so the creature ends with full health,
  unless the maximum is above the wrapped sum.  Nothing but the health changes.
\<close>

lemma AddHp_cases:
  "let h = uint (Hp c) + sint i; top = uint (MaxHp c + MaxHpBonus c)
   in uint (Hp (AddHp i c)) =
        (if h < 0 then (if h + 4294967296 < top then 0 else top) else min (h mod 4294967296) top)
      \<and> (AddHp i c)\<lparr>cr_combat := (cr_combat (AddHp i c))\<lparr>cb_hp := Hp c\<rparr>\<rparr> = c"
proof -
  let ?h = "uint (cb_hp (cr_combat c)) + sint i"
  let ?top = "cb_maxHp (cr_combat c) + bn_maxHpBonus (cr_bonus c)"
  have sum: "(cb_hp (cr_combat c) + i < ?top) = (?h mod 4294967296 < uint ?top)"
    by (simp only: word_less_def uint_plus_i32)
  have "uint (Hp (AddHp i c)) =
      (if ?h mod 4294967296 < uint ?top then (if ?h < 0 then 0 else ?h mod 4294967296) else uint ?top)"
    unfolding AddHp_def Let_def Hp_def overdrawn sum by (simp add: uint_plus_i32)
  moreover have "(AddHp i c)\<lparr>cr_combat := (cr_combat (AddHp i c))\<lparr>cb_hp := Hp c\<rparr>\<rparr> = c"
    by (simp add: AddHp_def Hp_def Let_def)
  ultimately show ?thesis
    using negative_wraps [of "cb_hp (cr_combat c)" i]
    by (simp add: Let_def Hp_def MaxHp_def MaxHpBonus_def min_def)
qed

section \<open>Directions\<close>

text \<open>The eight directions by the signs of the differences; \<open>y\<close> grows to the south.\<close>

definition compass :: "int \<Rightarrow> int \<Rightarrow> u8" where
  "compass dx dy =
     (if dx = 0 then (if dy < 0 then 1 else 5)
      else if 0 < dx then (if dy < 0 then 2 else if dy = 0 then 3 else 4)
      else (if dy < 0 then 8 else if dy = 0 then 7 else 6))"

text \<open>
  \<^verbatim>\<open>Creature::CalcDirect\<close> gives the compass direction from the first point to the
  second, one of the eight directions, for two different points less than 32768 apart on each
  axis; its default case is never taken.
\<close>

lemma CalcDirect_compass:
  assumes "pos1 \<noteq> pos2"
    and "\<bar>uint (pos_X pos1) - uint (pos_X pos2)\<bar> < 2 ^ 15"
    and "\<bar>uint (pos_Y pos1) - uint (pos_Y pos2)\<bar> < 2 ^ 15"
  shows "CalcDirect rnd pos1 pos2 =
    compass (uint (pos_X pos2) - uint (pos_X pos1)) (uint (pos_Y pos2) - uint (pos_Y pos1))"
proof -
  have x: "(pos_X pos1 - pos_X pos2 = 0) = (uint (pos_X pos1) = uint (pos_X pos2))"
    and y: "(pos_Y pos1 - pos_Y pos2 = 0) = (uint (pos_Y pos1) = uint (pos_Y pos2))"
    by (metis eq_iff_diff_eq_0 word_uint_eq_iff)+
  have "\<not> (uint (pos_X pos1) = uint (pos_X pos2) \<and> uint (pos_Y pos1) = uint (pos_Y pos2))"
    using assms (1) by (auto simp: word_uint_eq_iff)
  then show ?thesis
    unfolding CalcDirect_def Let_def x y sint_diff_u16 [OF assms (2)] sint_diff_u16 [OF assms (3)]
    by (auto simp: compass_def DIRECT_NORTH_def DIRECT_EASTNORTH_def DIRECT_EAST_def
      DIRECT_EASTSOUTH_def DIRECT_SOUTH_def DIRECT_WESTSOUTH_def DIRECT_WEST_def DIRECT_WESTNORTH_def)
qed

lemma CalcDirect_compass_witness:
  "CalcDirect 0 \<lparr>pos_X = 10, pos_Y = 10\<rparr> \<lparr>pos_X = 7, pos_Y = 30\<rparr> = compass (- 3) 20"
  using CalcDirect_compass [of "\<lparr>pos_X = 10, pos_Y = 10\<rparr>" "\<lparr>pos_X = 7, pos_Y = 30\<rparr>" 0] by simp

section \<open>The route\<close>

lemma walk_route_stop:
  "walk_route fp rnd q1 q2 l n d ps = walk_stop r1 r2 m k i e \<Longrightarrow> n < i \<and> i \<le> n + length ps"
  by (induction fp rnd q1 q2 l n d ps rule: walk_route.induct)
     (fastforce simp: Let_def split: prod.splits if_splits)+

lemma walk_route_end:
  "walk_route fp rnd q1 q2 l n d ps = walk_end r e \<Longrightarrow> r = last (q2 # ps)"
  by (induction fp rnd q1 q2 l n d ps rule: walk_route.induct)
     (auto simp: Let_def split: prod.splits if_splits)

lemma CalcCurrPos_shape:
  assumes "rt_listPos (gen_route (cr_general c)) = p0 # ps"
  shows "CalcCurrPos fp rnd t1 t2 t3 c = c
    \<or> (\<exists>d pos k. k < length (p0 # ps)
         \<and> CalcCurrPos fp rnd t1 t2 t3 c = c\<lparr>cr_general := (cr_general c)\<lparr>gen_direct := d, gen_pos := pos,
             gen_route := \<lparr>rt_time = t3, rt_listPos = pos # drop k (p0 # ps)\<rparr>\<rparr>\<rparr>)
    \<or> (\<exists>d. CalcCurrPos fp rnd t1 t2 t3 c = c\<lparr>cr_general := (cr_general c)\<lparr>gen_direct := d,
             gen_pos := last (p0 # ps),
             gen_route := \<lparr>rt_time = t3, rt_listPos = [last (p0 # ps)]\<rparr>\<rparr>\<rparr>)"
proof (cases "walk_route fp rnd p0 p0 (fp_mul fp (fp_int fp (uint t2 - uint (rt_time (gen_route (cr_general c)))))
    (fp_div fp (fp_int fp (ROLE_MOVE_SPEED * 10)) (fp_int fp 1000))) 1 (gen_direct (cr_general c)) ps")
  case (walk_stop r1 r2 m k i e)
  have "i - 1 < length (p0 # ps)"
    using walk_route_stop [OF walk_stop] by auto
  then show ?thesis
    unfolding CalcCurrPos_def Let_def assms list.case walk_stop walk.case by (auto simp del: drop_Cons')
next
  case (walk_end r e)
  show ?thesis
    unfolding CalcCurrPos_def Let_def assms list.case walk_end walk.case walk_route_end [OF walk_end]
    by auto
qed

text \<open>
  \<^verbatim>\<open>Creature::CalcCurrPos\<close> never loses the destination of a route and never makes up
  a key point, whatever the floating-point unit computes: the new route ends where the old one
  ended, its first point is the creature's position unless nothing was computed, and what follows
  the first point is a tail of the old route.
\<close>

lemma CalcCurrPos_route:
  assumes "rt_listPos (Route c) \<noteq> []"
  shows "let c' = CalcCurrPos fp rnd t1 t2 t3 c
    in rt_listPos (Route c') \<noteq> []
     \<and> last (rt_listPos (Route c')) = last (rt_listPos (Route c))
     \<and> (\<exists>k. tl (rt_listPos (Route c')) = drop k (rt_listPos (Route c)))
     \<and> (c' = c \<or> hd (rt_listPos (Route c')) = Pos c')"
proof -
  obtain p0 ps where route: "rt_listPos (gen_route (cr_general c)) = p0 # ps"
    using assms by (cases "rt_listPos (gen_route (cr_general c))") (auto simp: Route_def)
  have stay: "\<exists>k. ps = drop k (p0 # ps)"
    by (rule exI [of _ "Suc 0"]) simp
  have none: "\<exists>k. [] = drop k (p0 # ps)"
    by (rule exI [of _ "length (p0 # ps)"]) simp
  show ?thesis
    using CalcCurrPos_shape [OF route, of fp rnd t1 t2 t3]
  proof (elim disjE exE conjE)
    assume "CalcCurrPos fp rnd t1 t2 t3 c = c"
    then show ?thesis
      using route stay by (simp only: Let_def Route_def) simp
  next
    fix d pos k
    assume "k < length (p0 # ps)" and "CalcCurrPos fp rnd t1 t2 t3 c = c\<lparr>cr_general := (cr_general c)\<lparr>gen_direct := d,
      gen_pos := pos, gen_route := \<lparr>rt_time = t3, rt_listPos = pos # drop k (p0 # ps)\<rparr>\<rparr>\<rparr>"
    then show ?thesis
      using route by (simp only: Let_def Route_def Pos_def) (auto simp: last_drop simp del: drop_Cons')
  next
    fix d
    assume "CalcCurrPos fp rnd t1 t2 t3 c = c\<lparr>cr_general := (cr_general c)\<lparr>gen_direct := d,
      gen_pos := last (p0 # ps), gen_route := \<lparr>rt_time = t3, rt_listPos = [last (p0 # ps)]\<rparr>\<rparr>\<rparr>"
    then show ?thesis
      using route none by (simp only: Let_def Route_def Pos_def) simp
  qed
qed

text \<open>Exact real arithmetic is one instance of \<open>fp_ops\<close>.\<close>

definition real_ops :: "real fp_ops" where
  "real_ops = \<lparr>fp_int = of_int, fp_sub = (-), fp_mul = (*), fp_div = (/), fp_le = (\<le>),
     fp_i16 = (\<lambda>q. if q < 0 then - of_int \<lfloor>- q\<rfloor> else of_int \<lfloor>q\<rfloor>)\<rparr>"

definition demo_walker :: creature where
  "demo_walker = set_Route \<lparr>rt_time = 3, rt_listPos = [\<lparr>pos_X = 1, pos_Y = 2\<rparr>, \<lparr>pos_X = 9, pos_Y = 2\<rparr>]\<rparr>
     (Creature_new 0 0)"

lemma demo_walker_route:
  "rt_listPos (Route demo_walker) = [\<lparr>pos_X = 1, pos_Y = 2\<rparr>, \<lparr>pos_X = 9, pos_Y = 2\<rparr>]"
  by (simp add: demo_walker_def set_Route_def Route_def)

lemma CalcCurrPos_route_witness:
  "last (rt_listPos (Route (CalcCurrPos real_ops 0 4 4 4 demo_walker))) = \<lparr>pos_X = 9, pos_Y = 2\<rparr>
   \<and> Pos (CalcCurrPos real_ops 0 4 4 4 demo_walker) = \<lparr>pos_X = 6, pos_Y = 2\<rparr>"
proof
  show "last (rt_listPos (Route (CalcCurrPos real_ops 0 4 4 4 demo_walker))) = \<lparr>pos_X = 9, pos_Y = 2\<rparr>"
    using CalcCurrPos_route [of demo_walker real_ops 0 4 4 4] by (simp add: Let_def demo_walker_route)
  show "Pos (CalcCurrPos real_ops 0 4 4 4 demo_walker) = \<lparr>pos_X = 6, pos_Y = 2\<rparr>"
    by (simp add: Pos_def CalcCurrPos_def demo_walker_def set_Route_def real_ops_def ROLE_MOVE_SPEED_def
      CalcPosDistance_def step_coord_def Let_def)
qed

end
