(* ===== verification/Role.thy ===== *)
theory Role
  imports Creature
begin

text \<open>
  \<^verbatim>\<open>MainServer/CoreData/Role.cpp\<close> and \<^verbatim>\<open>Role.h\<close>: a player's role, with the
  base and bonus attributes that strength, intelligence and agility entail, experience and levels,
  the regeneration flags, talents, runes, and the reading and writing of its database rows.

  The results of database queries are arguments (\<open>query\<close>), one per statement the code sends;
  \<^verbatim>\<open>time(NULL)\<close> is the argument \<open>now\<close>.  The address \<^verbatim>\<open>_ip\<close> is kept as
  the number \<^verbatim>\<open>inet_ntoa\<close> prints.  The forty per-rune time fields that no function reads
  and the pool handle are left out.
\<close>

unbundle bit_operations_syntax

section \<open>State\<close>

record TradeItem =
  ti_isOnTrade :: u8
  ti_tradeRoleID :: u32
  ti_isLockTrade :: u8
  ti_isTrade :: u8
  ti_tradeMoney :: u32
  ti_tradeGold :: u32
  ti_tradeCellIndex :: "u16 list"

definition TradeItem_new :: TradeItem where
  "TradeItem_new = \<lparr>ti_isOnTrade = 0, ti_tradeRoleID = 0, ti_isLockTrade = 0, ti_isTrade = 0,
     ti_tradeMoney = 0, ti_tradeGold = 0, ti_tradeCellIndex = []\<rparr>"

record role = creature +
  ro_HpMpfullflag :: "u32"
  ro_HpCDflag :: "u32"
  ro_MpCDflag :: "u32"
  ro_HpMpflag :: "u32"
  ro_LastHpMpTime :: "u32"
  ro_port :: "u16"
  ro_fd :: "u32"
  ro_ip :: "u32"
  ro_mapID :: "u32"
  ro_lastX :: "u16"
  ro_lastY :: "u16"
  ro_loginTime :: "u32"
  ro_lastloginTime :: "u32"
  ro_topcellnum :: "u32"
  ro_teamID :: "u32"
  ro_leaderRoleID :: "u32"
  ro_teamFlag :: "u8"
  ro_password :: "u8 list"
  ro_proID :: "u32"
  ro_guildID :: "u32"
  ro_glory :: "u32"
  ro_crime :: "u32"
  ro_totalOnlineSec :: "u32"
  ro_isOfflineUpdate :: "u8"
  ro_trade :: "TradeItem"
  ro_enterMapNum :: "u32"
  ro_isvip :: "u8"
  ro_runeMap :: "(u32, u32) smap"

definition SetHpMpfullStatue :: "role \<Rightarrow> role" where
  "SetHpMpfullStatue r =
     (let hp = Hp r; mp = Mp r; mxh = MaxHp r + MaxHpBonus r; mxm = MaxHp r + MaxHpBonus r
      in r\<lparr>ro_HpMpfullflag :=
             (if hp = mxh then (if mp = mxm then 3 else 1) else (if mp = mxm then 2 else 0))\<rparr>)"

text \<open>The constructor; \<^verbatim>\<open>_isOfflineUpdate\<close> and the address are not initialised there,
  the model starts them at zero.\<close>

definition Role_new :: "nat \<Rightarrow> u32 \<Rightarrow> role" where
  "Role_new rnd now = SetHpMpfullStatue (set_Status now 1 (set_Flag 1
     \<lparr>cr_general = AttrGeneral_new rnd now, cr_combat = AttrCombat_new, cr_bonus = AttrCombatBonus_new,
      ro_HpMpfullflag = 0, ro_HpCDflag = 0, ro_MpCDflag = 0, ro_HpMpflag = 0, ro_LastHpMpTime = 0,
      ro_port = 0, ro_fd = 0, ro_ip = 0, ro_mapID = 0, ro_lastX = 0, ro_lastY = 0, ro_loginTime = 0,
      ro_lastloginTime = 0, ro_topcellnum = 0, ro_teamID = 0, ro_leaderRoleID = 0, ro_teamFlag = 0,
      ro_password = [], ro_proID = 0, ro_guildID = 0, ro_glory = 0, ro_crime = 0,
      ro_totalOnlineSec = 0, ro_isOfflineUpdate = 0, ro_trade = TradeItem_new, ro_enterMapNum = 0,
      ro_isvip = 0, ro_runeMap = []\<rparr>))"

section \<open>Getters and setters\<close>

definition Role_MapID :: "role \<Rightarrow> u32" where
  "Role_MapID r = ro_mapID r"

definition LoginTime :: "role \<Rightarrow> u32" where
  "LoginTime r = ro_loginTime r"

definition Password :: "role \<Rightarrow> u8 list" where
  "Password r = ro_password r"

definition ProID :: "role \<Rightarrow> u32" where
  "ProID r = ro_proID r"

definition GuildID :: "role \<Rightarrow> u32" where
  "GuildID r = ro_guildID r"

definition Glory :: "role \<Rightarrow> u32" where
  "Glory r = ro_glory r"

definition Crime :: "role \<Rightarrow> u32" where
  "Crime r = ro_crime r"

definition TotalOnlineSec :: "role \<Rightarrow> u32" where
  "TotalOnlineSec r = ro_totalOnlineSec r"

definition LastloginTime :: "role \<Rightarrow> u32" where
  "LastloginTime r = ro_lastloginTime r"

definition TopCellNum :: "role \<Rightarrow> u32" where
  "TopCellNum r = ro_topcellnum r"

definition TeamID :: "role \<Rightarrow> u32" where
  "TeamID r = ro_teamID r"

definition LeaderRoleID :: "role \<Rightarrow> u32" where
  "LeaderRoleID r = ro_leaderRoleID r"

definition TeamFlag :: "role \<Rightarrow> u8" where
  "TeamFlag r = ro_teamFlag r"

definition VIP :: "role \<Rightarrow> u8" where
  "VIP r = ro_isvip r"

definition IsOfflineUpdate :: "role \<Rightarrow> u8" where
  "IsOfflineUpdate r = ro_isOfflineUpdate r"

definition TradeInfo :: "role \<Rightarrow> TradeItem" where
  "TradeInfo r = ro_trade r"

definition EnterMapNum :: "role \<Rightarrow> u32" where
  "EnterMapNum r = ro_enterMapNum r"

definition ISVIP :: "role \<Rightarrow> u8" where
  "ISVIP r = (if 10 < ro_isvip r then 0 else ro_isvip r)"

text \<open>\<^verbatim>\<open>LastX()\<close> and \<^verbatim>\<open>LastY()\<close> refresh the field before they return it.\<close>

definition LastX :: "role \<Rightarrow> u16 \<times> role" where
  "LastX r = (pos_X (Pos r), r\<lparr>ro_lastX := pos_X (Pos r)\<rparr>)"

definition LastY :: "role \<Rightarrow> u16 \<times> role" where
  "LastY r = (pos_Y (Pos r), r\<lparr>ro_lastY := pos_Y (Pos r)\<rparr>)"

definition set_Role_MapID :: "u32 \<Rightarrow> role \<Rightarrow> role" where
  "set_Role_MapID input r = r\<lparr>ro_mapID := input\<rparr>"

definition set_LastX :: "u16 \<Rightarrow> role \<Rightarrow> role" where
  "set_LastX input r = r\<lparr>ro_lastX := input\<rparr>"

definition set_LastY :: "u16 \<Rightarrow> role \<Rightarrow> role" where
  "set_LastY input r = r\<lparr>ro_lastY := input\<rparr>"

definition set_LoginTime :: "u32 \<Rightarrow> role \<Rightarrow> role" where
  "set_LoginTime input r = r\<lparr>ro_loginTime := input\<rparr>"

definition set_LastloginTime :: "u32 \<Rightarrow> role \<Rightarrow> role" where
  "set_LastloginTime input r = r\<lparr>ro_lastloginTime := input\<rparr>"

definition set_TopCellNum :: "u32 \<Rightarrow> role \<Rightarrow> role" where
  "set_TopCellNum input r = r\<lparr>ro_topcellnum := input\<rparr>"

definition set_Password :: "u8 list \<Rightarrow> role \<Rightarrow> role" where
  "set_Password input r = r\<lparr>ro_password := input\<rparr>"

definition set_GuildID :: "u32 \<Rightarrow> role \<Rightarrow> role" where
  "set_GuildID input r = r\<lparr>ro_guildID := input\<rparr>"

definition set_TeamID :: "u32 \<Rightarrow> role \<Rightarrow> role" where
  "set_TeamID input r = r\<lparr>ro_teamID := input\<rparr>"

definition set_LeaderRoleID :: "u32 \<Rightarrow> role \<Rightarrow> role" where
  "set_LeaderRoleID input r = r\<lparr>ro_leaderRoleID := input\<rparr>"

definition set_TeamFlag :: "u8 \<Rightarrow> role \<Rightarrow> role" where
  "set_TeamFlag input r = r\<lparr>ro_teamFlag := input\<rparr>"

definition set_IsVIP :: "u8 \<Rightarrow> role \<Rightarrow> role" where
  "set_IsVIP input r = r\<lparr>ro_isvip := input\<rparr>"

definition set_IsOfflineUpdate :: "u8 \<Rightarrow> role \<Rightarrow> role" where
  "set_IsOfflineUpdate input r = r\<lparr>ro_isOfflineUpdate := input\<rparr>"

definition set_TradeInfo :: "TradeItem \<Rightarrow> role \<Rightarrow> role" where
  "set_TradeInfo input r = r\<lparr>ro_trade := input\<rparr>"

definition set_ProID :: "u32 \<Rightarrow> role \<Rightarrow> role" where
  "set_ProID input r = set_creature_Type input (r\<lparr>ro_proID := input\<rparr>)"

definition AddGlory :: "i32 \<Rightarrow> role \<Rightarrow> role" where
  "AddGlory input r = r\<lparr>ro_glory := ro_glory r + input\<rparr>"

definition AddCrime :: "i32 \<Rightarrow> role \<Rightarrow> role" where
  "AddCrime input r = r\<lparr>ro_crime := ro_crime r + input\<rparr>"

definition AddEnterMapNum :: "role \<Rightarrow> role" where
  "AddEnterMapNum r = r\<lparr>ro_enterMapNum := ro_enterMapNum r + 1\<rparr>"

definition UpdateTotalOnlineSec :: "u32 \<Rightarrow> role \<Rightarrow> role" where
  "UpdateTotalOnlineSec now r =
     (let onlineSec = (if ro_loginTime r \<noteq> 0 then now - ro_loginTime r else 0) :: i32
      in r\<lparr>ro_totalOnlineSec := ro_totalOnlineSec r + onlineSec\<rparr>)"

definition RolePKset :: "i32 \<Rightarrow> i32 \<Rightarrow> role \<Rightarrow> role" where
  "RolePKset HP MP r = set_Mp MP (set_Hp HP r)"

definition CdTimetoTheFalg :: "u32 \<Rightarrow> int \<Rightarrow> u32 \<Rightarrow> role \<Rightarrow> role" where
  "CdTimetoTheFalg now kind CdTime r =
     (if kind = 1 then r\<lparr>ro_HpCDflag := now + CdTime\<rparr>
      else if kind = 2 then r\<lparr>ro_MpCDflag := now + CdTime\<rparr>
      else if kind = 3 then r\<lparr>ro_HpMpflag := now + CdTime\<rparr>
      else r)"

section \<open>Regeneration\<close>

definition HpMpadd :: "u32 \<Rightarrow> i32 \<Rightarrow> role \<Rightarrow> role" where
  "HpMpadd now time1 r =
     (let hg = (HpRegen r + HpRegenBonus r) div 10; mg = (MpRegen r + MpRegenBonus r) div 10;
          r1 = (if ro_HpMpfullflag r = 0 then AddMp (mg * time1) (AddHp (hg * time1) r)
                else if ro_HpMpfullflag r = 1 then AddMp (mg * time1) r
                else if ro_HpMpfullflag r = 2 then AddHp (hg * time1) r
                else r)
      in (SetHpMpfullStatue r1)\<lparr>ro_LastHpMpTime := now\<rparr>)"

section \<open>Primary attributes and what they entail\<close>

definition RoleAddAgility :: "i32 \<Rightarrow> role \<Rightarrow> role" where
  "RoleAddAgility input r =
     (let r1 = AddHitRateBonus input (AddAgility input r)
      in if ProID r1 = 3 \<or> ProID r1 = 6
         then AddAttackPowerLow (2 * input) (AddAttackPowerHigh (2 * input) r1) else r1)"

definition RoleAddAgilityBonus :: "i32 \<Rightarrow> role \<Rightarrow> role" where
  "RoleAddAgilityBonus input r =
     (let r1 = AddHitRateBonus input (AddAgilityBonus input r)
      in if ProID r1 = 3 \<or> ProID r1 = 6 then AddAttackPowerHighBonus (2 * input) r1 else r1)"

definition RoleAddIntelligence :: "i32 \<Rightarrow> role \<Rightarrow> role" where
  "RoleAddIntelligence input r =
     (let r1 = AddMpRegen input (AddMaxMp (input * 12) (AddIntelligence input r))
      in if ProID r1 = 4 \<or> ProID r1 = 5
         then AddAttackPowerLow (2 * input) (AddAttackPowerHigh (2 * input) r1) else r1)"

definition RoleAddIntelligenceBonus :: "i32 \<Rightarrow> role \<Rightarrow> role" where
  "RoleAddIntelligenceBonus input r =
     (let r1 = AddMpRegenBonus input (AddMaxMpBonus (input * 12) (AddIntelligenceBonus input r))
      in if ProID r1 = 4 \<or> ProID r1 = 5 then AddAttackPowerHighBonus (2 * input) r1 else r1)"

definition RoleAddStrength :: "i32 \<Rightarrow> role \<Rightarrow> role" where
  "RoleAddStrength input r =
     (let r1 = AddDefence input (AddCritRate (input * 1) (AddMaxHp (input * 10) (AddStrength input r)))
      in if ProID r1 = 1 \<or> ProID r1 = 2
         then AddAttackPowerLow (2 * input) (AddAttackPowerHigh (2 * input) r1) else r1)"

definition RoleAddStrengthBonus :: "i32 \<Rightarrow> role \<Rightarrow> role" where
  "RoleAddStrengthBonus input r =
     (let r1 = AddDefenceBonus input (AddCritRateBonus (input * 1)
                 (AddMaxHpBonus (input * 10) (AddStrengthBonus input r)))
      in if ProID r1 = 1 \<or> ProID r1 = 2 then AddAttackPowerHighBonus (2 * input) r1 else r1)"

definition Strength_ADD :: "u32 \<Rightarrow> i32" where
  "Strength_ADD p = (if p = 1 then 5 else if p = 2 then 4 else if p = 3 then 3 else if p = 4 then 3
     else if p = 5 then 2 else 3)"

definition Intelligence_ADD :: "u32 \<Rightarrow> i32" where
  "Intelligence_ADD p = (if p = 1 then 3 else if p = 2 then 3 else if p = 3 then 5 else if p = 4 then 3
     else if p = 5 then 3 else 4)"

definition Agility_ADD :: "u32 \<Rightarrow> i32" where
  "Agility_ADD p = (if p = 1 then 2 else if p = 2 then 3 else if p = 3 then 2 else if p = 4 then 4
     else if p = 5 then 5 else 3)"

definition Role_ADDLev :: "role \<Rightarrow> role" where
  "Role_ADDLev r =
     (let r1 = RoleAddStrength (Strength_ADD (ProID r)) r;
          r2 = RoleAddIntelligence (Intelligence_ADD (ProID r1)) r1
      in RoleAddAgility (Agility_ADD (ProID r2)) r2)"

section \<open>Database rows\<close>

text \<open>
  A field is an integer (\<^verbatim>\<open>%d\<close> and \<^verbatim>\<open>atoi\<close>, so 32 bits) or a string;
  a query fails, finds nothing, or gives rows.  A row is the list of its fields in the order of the
  \<^verbatim>\<open>select\<close> list; a field outside it reads as the default 0.
\<close>

datatype db_val = DInt i32 | DStr "u8 list"
datatype 'a query = q_failed | q_notfound | q_rows "'a list"

type_synonym db_row = "db_val list"

definition GetIntField :: "db_row \<Rightarrow> nat \<Rightarrow> i32" where
  "GetIntField row i = (if i < length row then case row ! i of DInt n \<Rightarrow> n | DStr _ \<Rightarrow> 0 else 0)"

definition GetStringField :: "db_row \<Rightarrow> nat \<Rightarrow> u8 list" where
  "GetStringField row i = (if i < length row then case row ! i of DStr s \<Rightarrow> s | DInt _ \<Rightarrow> [] else [])"

definition sel_Role :: "string list" where
  "sel_Role = [''RoleID'', ''RoleName'', ''Password'', ''Level'', ''Exp'', ''MaxExp'', ''Camp'',
     ''ProID'', ''GuildID'', ''Glory'', ''AddPoint'', ''Strength'', ''Intelligence'',
     ''Agility'', ''MoveSpeed'', ''HP'', ''MP'', ''MaxHP'', ''MaxMP'', ''HPRegen'',
     ''MPRegen'', ''AttackPowerHigh'', ''AttackPowerLow'', ''AttackScope'', ''AttackSpeed'',
     ''BulletSpeed'', ''Defence'', ''MDefence'', ''CritRate'', ''HitRate'', ''DodgeRate'',
     ''Crime'', ''LastloginTime'', ''TopCellNum'', ''TotalOnlineSec'', ''IsOfflineUpdate'',
     ''IsVIP'']"

definition sel_RoleLastLoc :: "string list" where
  "sel_RoleLastLoc = [''MapID'', ''LastX'', ''LastY'']"

definition sel_RoleBonus :: "string list" where
  "sel_RoleBonus = [''RoleID'', ''Strength'', ''Intelligence'', ''Agility'', ''MovSpeed'', ''MaxHP'',
     ''MaxMP'', ''HPRegen'', ''MPRegen'', ''AttackPowerHigh'', ''AttackPowerLow'',
     ''AttackSpeed'', ''Defence'', ''MDefence'', ''CritRate'', ''HitRate'', ''DodgeRae'']"

definition load_Role :: "db_row \<Rightarrow> role \<Rightarrow> role" where
  "load_Role row r0 =
     (let r1 = set_Name (GetStringField row 1) r0;
          r2 = r1\<lparr>ro_password := GetStringField row 2\<rparr>;
          r3 = set_Level (GetIntField row 3) r2;
          r4 = set_Exp (GetIntField row 4) r3;
          r5 = set_MaxExp (GetIntField row 5) r4;
          r6 = set_Camp (ucast (GetIntField row 6)) r5;
          r7 = r6\<lparr>ro_proID := GetIntField row 7, ro_guildID := GetIntField row 8, ro_glory := GetIntField row 9\<rparr>;
          r8 = set_AddPoint (GetIntField row 10) r7;
          r9 = set_Strength (GetIntField row 11) r8;
          r10 = set_Intelligence (GetIntField row 12) r9;
          r11 = set_Agility (GetIntField row 13) r10;
          r12 = set_MoveSpeed (GetIntField row 14) r11;
          r13 = set_Hp (GetIntField row 15) r12;
          r14 = set_Mp (GetIntField row 16) r13;
          r15 = set_MaxHp (GetIntField row 17) r14;
          r16 = set_MaxMp (GetIntField row 18) r15;
          r17 = set_HpRegen (GetIntField row 19) r16;
          r18 = set_MpRegen (GetIntField row 20) r17;
          r19 = set_AttackPowerHigh (GetIntField row 21) r18;
          r20 = set_AttackPowerLow (GetIntField row 22) r19;
          r21 = set_AttackScope (GetIntField row 23) r20;
          r22 = set_AttackSpeed (GetIntField row 24) r21;
          r23 = set_BulletSpeed (GetIntField row 25) r22;
          r24 = set_Defence (GetIntField row 26) r23;
          r25 = set_MDefence (GetIntField row 27) r24;
          r26 = set_CritRate (GetIntField row 28) r25;
          r27 = set_HitRate (GetIntField row 29) r26;
          r28 = set_DodgeRate (GetIntField row 30) r27;
          r29 = r28\<lparr>ro_crime := GetIntField row 31, ro_lastloginTime := GetIntField row 32, ro_topcellnum := GetIntField row 33, ro_totalOnlineSec := GetIntField row 34, ro_isOfflineUpdate := ucast (GetIntField row 35), ro_isvip := ucast (GetIntField row 36)\<rparr>
      in r29)"

text \<open>The assignments of the \<^verbatim>\<open>update Role\<close> statement.\<close>

definition save_Role :: "role \<Rightarrow> (string \<times> db_val) list" where
  "save_Role r = [(''RoleID'', DInt (ID r)), (''RoleName'', DStr (c_str (Name r))),
     (''Password'', DStr (c_str (ro_password r))), (''Level'', DInt (Level r)),
     (''Exp'', DInt (Exp r)), (''MaxExp'', DInt (MaxExp r)), (''Camp'', DInt (ucast (Camp r))),
     (''ProID'', DInt (ro_proID r)), (''GuildID'', DInt (ro_guildID r)),
     (''Glory'', DInt (ro_glory r)), (''AddPoint'', DInt (AddPoint r)),
     (''Strength'', DInt (Strength r)), (''Intelligence'', DInt (Intelligence r)),
     (''Agility'', DInt (Agility r)), (''MoveSpeed'', DInt (MoveSpeed r)),
     (''HP'', DInt (Hp r)), (''MP'', DInt (Mp r)), (''MaxHP'', DInt (MaxHp r)),
     (''MaxMP'', DInt (MaxMp r)), (''HPRegen'', DInt (HpRegen r)),
     (''MPRegen'', DInt (MpRegen r)), (''AttackPowerHigh'', DInt (AttackPowerHigh r)),
     (''AttackPowerLow'', DInt (AttackPowerLow r)), (''AttackScope'', DInt (AttackScope r)),
     (''AttackSpeed'', DInt (AttackSpeed r)), (''BulletSpeed'', DInt (BulletSpeed r)),
     (''Defence'', DInt (Defence r)), (''MDefence'', DInt (MDefence r)),
     (''CritRate'', DInt (CritRate r)), (''HitRate'', DInt (HitRate r)),
     (''DodgeRate'', DInt (DodgeRate r)), (''Crime'', DInt (ro_crime r)),
     (''LastloginTime'', DInt (ro_lastloginTime r)), (''TopCellNum'', DInt (ro_topcellnum r)),
     (''TotalOnlineSec'', DInt (ro_totalOnlineSec r)),
     (''IsOfflineUpdate'', DInt (ucast (ro_isOfflineUpdate r))),
     (''IsVIP'', DInt (ucast (ro_isvip r)))]"

definition load_RoleBonus :: "db_row \<Rightarrow> role \<Rightarrow> role" where
  "load_RoleBonus row r0 =
     (let r1 = set_StrengthBonus (GetIntField row 1) r0;
          r2 = set_IntelligenceBonus (GetIntField row 2) r1;
          r3 = set_AgilityBonus (GetIntField row 3) r2;
          r4 = set_MovSpeedBonus (GetIntField row 4) r3;
          r5 = set_MaxHpBonus (GetIntField row 5) r4;
          r6 = set_MaxMpBonus (GetIntField row 6) r5;
          r7 = set_HpRegenBonus (GetIntField row 7) r6;
          r8 = set_MpRegenBonus (GetIntField row 8) r7;
          r9 = set_AttackPowerHighBonus (GetIntField row 9) r8;
          r10 = set_AttackPowerLowBonus (GetIntField row 10) r9;
          r11 = set_AttackSpeedBonus (GetIntField row 11) r10;
          r12 = set_DefenceBonus (GetIntField row 12) r11;
          r13 = set_MDefenceBonus (GetIntField row 13) r12;
          r14 = set_CritRateBonus (GetIntField row 14) r13;
          r15 = set_HitRateBonus (GetIntField row 15) r14;
          r16 = set_DodgeRateBonus (GetIntField row 16) r15
      in r16)"

definition Cache2Bonus :: "role \<Rightarrow> (string \<times> db_val) list" where
  "Cache2Bonus r = [(''RoleID'', DInt (ID r)), (''Strength'', DInt (StrengthBonus r)),
     (''Intelligence'', DInt (IntelligenceBonus r)), (''Agility'', DInt (AgilityBonus r)),
     (''MovSpeed'', DInt (MovSpeedBonus r)), (''MaxHP'', DInt (MaxHpBonus r)),
     (''MaxMP'', DInt (MaxMpBonus r)), (''HPRegen'', DInt (HpRegenBonus r)),
     (''MPRegen'', DInt (MpRegenBonus r)),
     (''AttackPowerHigh'', DInt (AttackPowerHighBonus r)),
     (''AttackPowerLow'', DInt (AttackPowerLowBonus r)),
     (''AttackSpeed'', DInt (AttackSpeedBonus r)), (''Defence'', DInt (DefenceBonus r)),
     (''MDefence'', DInt (MDefenceBonus r)), (''CritRate'', DInt (CritRateBonus r)),
     (''HitRate'', DInt (HitRateBonus r)), (''DodgeRae'', DInt (DodgeRateBonus r))]"

text \<open>The queries of a load: the answers for the \<^verbatim>\<open>Role\<close>,
  \<^verbatim>\<open>VIP\<close>, \<^verbatim>\<open>RoleLastLoc\<close>, \<^verbatim>\<open>RoleRune\<close> and
  \<^verbatim>\<open>RoleBonus\<close> rows of this role.\<close>

record role_db =
  db_Role :: "db_row query"
  db_VIP :: "db_row query"
  db_RoleLastLoc :: "db_row query"
  db_RoleRune :: "db_row query"
  db_RoleBonus :: "db_row query"

text \<open>The statements of a save that the database carried out.  The name and the password are put
  between quotes as they are: with a quote or a backslash in one of them the text is another statement,
  which is kept here as the strings it was made from.  The other two statements hold numbers only.\<close>

datatype role_update = Assigns "(string \<times> db_val) list" | Spliced "u8 list" "u8 list"

record role_saves =
  sv_Role :: "role_update option"
  sv_RoleLastLoc :: "(string \<times> db_val) list option"
  sv_RoleBonus :: "(string \<times> db_val) list option"

definition quotable :: "u8 list \<Rightarrow> bool" where
  "quotable s = (39 \<notin> set (c_str s) \<and> 92 \<notin> set (c_str s))"

definition update_Role :: "role \<Rightarrow> role_update" where
  "update_Role r = (if quotable (Name r) \<and> quotable (ro_password r) then Assigns (save_Role r)
     else Spliced (c_str (Name r)) (c_str (ro_password r)))"

text \<open>The bytes that \<^verbatim>\<open>sprintf\<close> writes for it before the closing zero: 779 of the format,
  the values, and the identifier once more.  With more than 1023 it writes behind
  \<^verbatim>\<open>szSql\<close>.\<close>

definition text_len :: "db_val \<Rightarrow> nat" where
  "text_len v = (case v of DInt n \<Rightarrow> dec_len (sint n) | DStr s \<Rightarrow> length s)"

definition update_Role_len :: "role \<Rightarrow> nat" where
  "update_Role_len r = 779 + sum_list (map (\<lambda>(c, v). text_len v) (save_Role r)) + dec_len (sint (ID r))"

text \<open>\<open>refuse i\<close> says that the database refuses the \<open>i\<close>-th statement of this save.\<close>

definition Cache2DB :: "(nat \<Rightarrow> bool) \<Rightarrow> role \<Rightarrow> (int \<times> role_saves \<times> role) option" where
  "Cache2DB refuse r =
     (if 1023 < update_Role_len r then None
      else if refuse 0 then Some (-1, \<lparr>sv_Role = None, sv_RoleLastLoc = None, sv_RoleBonus = None\<rparr>, r)
      else
        (let (x, r1) = LastX r;
             (y, r2) = LastY r1;
             loc = [(''MapID'', DInt (Role_MapID r)), (''LastX'', DInt (ucast x)), (''LastY'', DInt (ucast y))]
         in if refuse 1
            then Some (-1, \<lparr>sv_Role = Some (update_Role r), sv_RoleLastLoc = None, sv_RoleBonus = None\<rparr>, r2)
            else if refuse 2
            then Some (-1, \<lparr>sv_Role = Some (update_Role r), sv_RoleLastLoc = Some loc, sv_RoleBonus = None\<rparr>, r2)
            else Some (0, \<lparr>sv_Role = Some (update_Role r), sv_RoleLastLoc = Some loc,
              sv_RoleBonus = Some (Cache2Bonus r2)\<rparr>, r2)))"

definition DB2CacheBonus :: "db_row query \<Rightarrow> role \<Rightarrow> int \<times> role" where
  "DB2CacheBonus ans r =
     (case ans of
        q_notfound \<Rightarrow> (-1, r)
      | q_failed \<Rightarrow> (-1, r)
      | q_rows rows \<Rightarrow> (0, fold load_RoleBonus rows r))"

definition load_rune :: "db_row \<Rightarrow> role \<Rightarrow> role" where
  "load_rune row r = r\<lparr>ro_runeMap := smap_put (GetIntField row 0) (GetIntField row 1) (ro_runeMap r)\<rparr>"

definition load_loc :: "db_row \<Rightarrow> role \<Rightarrow> role" where
  "load_loc row r = r\<lparr>ro_mapID := GetIntField row 0, ro_lastX := ucast (GetIntField row 1),
     ro_lastY := ucast (GetIntField row 2)\<rparr>"

text \<open>The query for \<^verbatim>\<open>VIP\<close> is sent only for a level from 1 to 10; its first row replaces
  the level.\<close>

definition check_vip :: "db_row query \<Rightarrow> role \<Rightarrow> role option" where
  "check_vip ans r =
     (if ro_isvip r \<le> 10 \<and> 0 < ro_isvip r
      then case ans of
             q_rows (row # _) \<Rightarrow> Some (r\<lparr>ro_isvip := ucast (GetIntField row 0)\<rparr>)
           | _ \<Rightarrow> None
      else Some r)"

definition place_role :: "u32 \<Rightarrow> role \<Rightarrow> role" where
  "place_role now r =
     (let pos = \<lparr>pos_X = ro_lastX r, pos_Y = ro_lastY r\<rparr>
      in set_Pos pos (set_Route \<lparr>rt_time = now, rt_listPos = [pos]\<rparr> r))"

definition DB2Cache :: "role_db \<Rightarrow> u32 \<Rightarrow> role \<Rightarrow> int \<times> role" where
  "DB2Cache db now r =
     (case db_Role db of
        q_notfound \<Rightarrow> (-1, r)
      | q_failed \<Rightarrow> (-1, r)
      | q_rows rows \<Rightarrow>
          (let r1 = fold load_Role rows r
           in case check_vip (db_VIP db) r1 of
                None \<Rightarrow> (-1, r1)
              | Some r2 \<Rightarrow>
                  (case db_RoleLastLoc db of
                     q_notfound \<Rightarrow> (-1, r2)
                   | q_failed \<Rightarrow> (-1, r2)
                   | q_rows locs \<Rightarrow>
                       (let r3 = place_role now (fold load_loc locs r2)
                        in case db_RoleRune db of
                             q_failed \<Rightarrow> (-1, r3)
                           | q_notfound \<Rightarrow> DB2CacheBonus (db_RoleBonus db) r3
                           | q_rows runes \<Rightarrow> DB2CacheBonus (db_RoleBonus db) (fold load_rune runes r3)))))"

definition InitRoleCache :: "role_db \<Rightarrow> u32 \<Rightarrow> u32 \<Rightarrow> u64 \<Rightarrow> role \<Rightarrow> int \<times> role" where
  "InitRoleCache db now roleID connID r =
     DB2Cache db now ((set_ID roleID r)\<lparr>
       ro_ip := ucast (drop_bit 32 connID),
       ro_port := (let p = ucast (drop_bit 16 connID AND 0xFFFF) :: u16
                   in push_bit 8 p OR drop_bit 8 p),
       ro_fd := ucast (connID AND 0xFFFF)\<rparr>)"

section \<open>Experience and levels\<close>

text \<open>
  \<open>desc l\<close> is the answer to \<^verbatim>\<open>select MaxExp from LevelDesc where Level=l\<close>.  The loop
  ends only when the experience no longer exceeds the maximum, so it is a partial function; its
  result is \<open>-1\<close> when a query fails, with the role as the completed rounds left it, and else the
  number of levels gained, as an \<^verbatim>\<open>Int16\<close>.
\<close>

definition level_up :: "db_row list \<Rightarrow> role \<Rightarrow> role" where
  "level_up rows r =
     (let r1 = AddAddPoint 1 r;
          r2 = set_Exp (Exp r1 - MaxExp r1) r1;
          r3 = fold (\<lambda>row. set_MaxExp (GetIntField row 0)) rows r2
      in Role_ADDLev (AddLevel 1 r3))"

partial_function (option) level_loop :: "(u32 \<Rightarrow> db_row query) \<Rightarrow> role \<Rightarrow> (bool \<times> role) option" where
  "level_loop desc r =
     (if MaxExp r < Exp r
      then (case desc (Level r + 1) of
              q_notfound \<Rightarrow> Some (False, r)
            | q_failed \<Rightarrow> Some (False, r)
            | q_rows rows \<Rightarrow> level_loop desc (level_up rows r))
      else Some (True, r))"

definition IfTheExpToMax :: "(u32 \<Rightarrow> db_row query) \<Rightarrow> role \<Rightarrow> (i16 \<times> role) option" where
  "IfTheExpToMax desc r =
     map_option (\<lambda>(ok, r'). (if ok then ucast (Level r' - ucast (ucast (Level r) :: u16)) else - 1, r'))
       (level_loop desc r)"

definition RoleExpAdd :: "(u32 \<Rightarrow> db_row query) \<Rightarrow> i32 \<Rightarrow> role \<Rightarrow> (i32 \<times> role) option" where
  "RoleExpAdd desc input r =
     (let r1 = AddExp input r
      in if 0 < sint input then map_option (\<lambda>(n, r'). (scast n, r')) (IfTheExpToMax desc r1)
         else Some (0, r1))"

section \<open>Talents and runes\<close>

text \<open>The macros \<^verbatim>\<open>ADD_Skill1\<close> to \<^verbatim>\<open>ADD_Skill12\<close>; all but the tenth are
  constant in the level.\<close>

definition ADD_Skill :: "nat \<Rightarrow> i32 \<Rightarrow> i32" where
  "ADD_Skill n p =
     (if n = 1 then 5 else if n = 2 then 10 else if n = 3 then 15 else if n = 4 then 10
      else if n = 5 then 5 else if n = 6 then 50 else if n = 7 then 10 else if n = 8 then 10
      else if n = 9 then 5 else if n = 10 then (if p = 1 then 2 else 1)
      else if n = 11 then 15 else 20)"

text \<open>\<open>skilllev\<close> is one more than the first column of the row found, or whatever the
  uninitialised local held when no row is found.\<close>

definition RoleAddtalentpoint :: "i32 \<Rightarrow> db_row query \<Rightarrow> int \<Rightarrow> role \<Rightarrow> role" where
  "RoleAddtalentpoint garbage ans talentID r =
     (let skilllev = (case ans of
            q_rows rows \<Rightarrow> fold (\<lambda>row _. GetIntField row 0 + 1) rows garbage
          | _ \<Rightarrow> garbage)
      in if talentID = 5 then RoleAddStrength (ADD_Skill 5 skilllev) r
         else if talentID = 1 then RoleAddAgility (ADD_Skill 1 skilllev) r
         else if talentID = 9 then RoleAddIntelligence (ADD_Skill 9 skilllev) r
         else if talentID = 3
         then AddAttackPowerLow (ADD_Skill 4 skilllev) (AddAttackPowerHigh (ADD_Skill 3 skilllev) r)
         else if talentID = 7 then AddMoveSpeed (ADD_Skill 7 skilllev) r
         else if talentID = 2 then AddCritRate (ADD_Skill 2 skilllev) r
         else if talentID = 6 then AddDefence (ADD_Skill 6 skilllev) r
         else if talentID = 12 then AddHitRate (ADD_Skill 12 skilllev) r
         else if talentID = 11 then AddDodgeRate (ADD_Skill 1 skilllev) r
         else if talentID = 8 then AddMDefence (ADD_Skill 8 skilllev) r
         else if talentID = 4 then AddAttackSpeed (ADD_Skill 4 skilllev) r
         else if talentID = 10
         then (if skilllev = 1 then AddMpRegen 4 (AddHpRegen 2 r)
               else AddMpRegen (ADD_Skill 10 skilllev) (AddHpRegen (ADD_Skill 10 skilllev) r))
         else r)"

text \<open>
  \<^verbatim>\<open>RoleAddSKill\<close> with the answers to its two queries, the role's skills and the
  skills required, and that of \<^verbatim>\<open>RoleAddtalentpoint\<close>.  A required skill that the role does
  not have makes the code read through the end iterator of the list: the result is then
  \<open>None\<close>.
\<close>

fun requirements_met :: "(u16 \<times> u8) list \<Rightarrow> db_row list \<Rightarrow> bool option" where
  "requirements_met lis [] = Some True"
| "requirements_met lis (row # rows) =
     (case map_of lis (ucast (GetIntField row 0)) of
        None \<Rightarrow> None
      | Some l \<Rightarrow> if l < ucast (GetIntField row 1) then Some False else requirements_met lis rows)"

definition RoleAddSKill :: "i32 \<Rightarrow> db_row query \<Rightarrow> db_row query \<Rightarrow> db_row query \<Rightarrow> i32 \<Rightarrow> role \<Rightarrow> role option" where
  "RoleAddSKill garbage skills required talent skillID r =
     (if AddPoint r = 0 then Some r
      else case skills of
          q_notfound \<Rightarrow> Some r
        | q_failed \<Rightarrow> Some r
        | q_rows rows \<Rightarrow>
           (let lis = map (\<lambda>row. (ucast (GetIntField row 0) :: u16, ucast (GetIntField row 1) :: u8)) rows;
                lev = fold (\<lambda>(k, l) lev. if ucast k = skillID then l else lev) lis 0;
                gain = (let r1 = AddAddPoint (- 1) r
                        in if 301 \<le> sint skillID \<and> sint skillID \<le> 312
                           then RoleAddtalentpoint garbage talent (sint skillID - 300) r1 else r1)
            in if 300 < sint skillID \<and> lev = 10 \<or> sint skillID < 300 \<and> lev = 6 then Some r
               else case required of
                   q_failed \<Rightarrow> Some r
                 | q_notfound \<Rightarrow> Some gain
                 | q_rows reqs \<Rightarrow>
                    (case requirements_met lis reqs of
                       None \<Rightarrow> None
                     | Some False \<Rightarrow> Some r
                     | Some True \<Rightarrow> Some gain)))"

text \<open>The cache side of \<^verbatim>\<open>SetRoleRuneTime\<close>; \<^verbatim>\<open>operator[]\<close> inserts a missing
  entry with value 0 when it reads.\<close>

definition SetRoleRuneTime :: "u32 \<Rightarrow> u32 \<Rightarrow> role \<Rightarrow> role" where
  "SetRoleRuneTime now itemId r = r\<lparr>ro_runeMap := smap_put itemId now (ro_runeMap r)\<rparr>"

definition GetRoleRuneTime :: "u32 \<Rightarrow> role \<Rightarrow> i32 \<times> role" where
  "GetRoleRuneTime itemId r =
     (case smap_find itemId (ro_runeMap r) of
        Some t \<Rightarrow> (t, r)
      | None \<Rightarrow> (0, r\<lparr>ro_runeMap := smap_put itemId 0 (ro_runeMap r)\<rparr>))"

definition PopulateRoleRuneList :: "u32 \<Rightarrow> role \<Rightarrow> RoleRune list \<Rightarrow> RoleRune list" where
  "PopulateRoleRuneList now r lic =
     lic @ concat (map (\<lambda>(rune, t). let period = now - t :: i32
              in if sint period < 2 * 3600
                 then [\<lparr>rr_runeID = rune, rr_remainderTime = 2 * 3600 - period\<rparr>] else [])
            (ro_runeMap r))"

section \<open>Gaining levels\<close>

lemmas adder_defs = AddLevel_def AddExp_def AddMaxExp_def AddAddPoint_def AddStrength_def
  AddIntelligence_def AddAgility_def AddMaxHp_def AddMaxMp_def AddHpRegen_def AddMpRegen_def
  AddAttackPowerHigh_def AddAttackPowerLow_def AddDefence_def AddCritRate_def AddHitRateBonus_def

lemma Role_ADDLev_frame:
  "Exp (Role_ADDLev r) = Exp r" "MaxExp (Role_ADDLev r) = MaxExp r" "Level (Role_ADDLev r) = Level r"
  "AddPoint (Role_ADDLev r) = AddPoint r"
  by (simp_all add: Role_ADDLev_def RoleAddStrength_def RoleAddIntelligence_def RoleAddAgility_def
    ProID_def adder_defs Exp_def MaxExp_def Level_def AddPoint_def Let_def)

lemma fold_MaxExp:
  "Exp (fold (\<lambda>row. set_MaxExp (GetIntField row 0)) rows r) = Exp r"
  "Level (fold (\<lambda>row. set_MaxExp (GetIntField row 0)) rows r) = Level r"
  "MaxExp (fold (\<lambda>row. set_MaxExp (GetIntField row 0)) rows r) =
     (if rows = [] then MaxExp r else GetIntField (last rows) 0)"
  by (induction rows arbitrary: r) (simp_all add: set_MaxExp_def Exp_def Level_def MaxExp_def)

lemma add_clamped_1: "add_clamped 1 v = v + 1"
  by (simp add: add_clamped_def)

lemma level_fields:
  "Exp (AddLevel i q) = Exp q" "MaxExp (AddLevel i q) = MaxExp q"
  "Exp (set_Exp v q) = v" "MaxExp (set_Exp v q) = MaxExp q" "Level (set_Exp v q) = Level q"
  "Exp (AddAddPoint i q) = Exp q" "MaxExp (AddAddPoint i q) = MaxExp q" "Level (AddAddPoint i q) = Level q"
  "MaxExp (AddExp i q) = MaxExp q" "Level (AddExp i q) = Level q"
  by (simp_all add: AddLevel_def set_Exp_def AddAddPoint_def AddExp_def Exp_def MaxExp_def Level_def)

lemma Level_AddLevel: "Level (AddLevel 1 q) = Level q + 1"
  by (simp only: AddLevel_def Level_def add_clamped_1) simp

lemma level_up_fields:
  "Exp (level_up rows r) = Exp r - MaxExp r"
  "Level (level_up rows r) = Level r + 1"
  "MaxExp (level_up rows r) = (if rows = [] then MaxExp r else GetIntField (last rows) 0)"
  by (simp_all only: level_up_def Let_def Role_ADDLev_frame fold_MaxExp level_fields Level_AddLevel)

lemma level_loop_stop: "\<not> MaxExp r < Exp r \<Longrightarrow> level_loop desc r = Some (True, r)"
  by (subst level_loop.simps) (simp only: if_False)

lemma level_loop_fail:
  "MaxExp r < Exp r \<Longrightarrow> desc (Level r + 1) = q_failed \<or> desc (Level r + 1) = q_notfound \<Longrightarrow>
    level_loop desc r = Some (False, r)"
  by (subst level_loop.simps) (elim disjE; simp only: if_True query.case)

lemma level_loop_next:
  "MaxExp r < Exp r \<Longrightarrow> desc (Level r + 1) = q_rows rows \<Longrightarrow>
    level_loop desc r = level_loop desc (level_up rows r)"
  by (subst level_loop.simps) (simp only: if_True query.case)

definition levels_ok :: "(u32 \<Rightarrow> db_row query) \<Rightarrow> bool" where
  "levels_ok desc = (\<forall>l rows. desc l = q_rows rows \<longrightarrow> rows = [] \<or> GetIntField (last rows) 0 \<noteq> 0)"

lemma level_loop_returns:
  assumes "levels_ok desc" and "MaxExp r \<noteq> 0"
  shows "\<exists>ok r'. level_loop desc r = Some (ok, r') \<and> (ok \<longrightarrow> Exp r' \<le> MaxExp r')"
  using assms(2)
proof (induction "unat (Exp r)" arbitrary: r rule: less_induct)
  case less
  consider "\<not> MaxExp r < Exp r"
    | "MaxExp r < Exp r" "desc (Level r + 1) = q_failed \<or> desc (Level r + 1) = q_notfound"
    | rows where "MaxExp r < Exp r" "desc (Level r + 1) = q_rows rows"
    by (cases "desc (Level r + 1)") blast+
  then show ?case
  proof cases
    case 1
    then show ?thesis by (intro exI [of _ True] exI [of _ r] conjI impI level_loop_stop) simp_all
  next
    case 2
    then show ?thesis by (intro exI [of _ False] exI [of _ r]) (simp only: level_loop_fail simp_thms)
  next
    case (3 rows)
    have "MaxExp (level_up rows r) \<noteq> 0"
      using 3(2) assms(1) less.prems by (auto simp: level_up_fields levels_ok_def)
    moreover have "unat (Exp (level_up rows r)) < unat (Exp r)"
    proof -
      have "unat (Exp r - MaxExp r) = unat (Exp r) - unat (MaxExp r)"
        using 3(1) by (intro unat_sub) simp
      moreover have "0 < unat (MaxExp r)" and "unat (MaxExp r) < unat (Exp r)"
        using less.prems 3(1) by (simp_all add: unat_gt_0 word_less_nat_alt)
      ultimately show ?thesis
        by (simp only: level_up_fields)
    qed
    ultimately show ?thesis
      using less.hyps by (simp only: level_loop_next [where desc = desc, OF 3])
  qed
qed

text \<open>
  C36: gaining experience always returns, provided no row of the level table has maximum 0 and the
  role's own maximum is not 0: \<^verbatim>\<open>Role::RoleExpAdd\<close> ends for every increment, and when
  its queries succeed the experience no longer exceeds the maximum of the level reached.
\<close>

theorem RoleExpAdd_returns:
  assumes "levels_ok desc" and "MaxExp r \<noteq> 0" and "0 < sint input"
  shows "\<exists>n r'. RoleExpAdd desc input r = Some (n, r') \<and> (n \<noteq> - 1 \<longrightarrow> Exp r' \<le> MaxExp r')"
proof -
  have "MaxExp (AddExp input r) \<noteq> 0"
    using assms(2) by (simp only: level_fields not_False_eq_True)
  from level_loop_returns [OF assms(1) this] obtain ok r' where
    r': "level_loop desc (AddExp input r) = Some (ok, r')" "ok \<longrightarrow> Exp r' \<le> MaxExp r'"
    by blast
  then show ?thesis
    using assms(3) by (cases ok) (auto simp: RoleExpAdd_def IfTheExpToMax_def Let_def)
qed

text \<open>A demonstration table: every level takes 100 points.\<close>

definition demo_levels :: "u32 \<Rightarrow> db_row query" where
  "demo_levels l = q_rows [[DInt 100]]"

definition demo_role :: role where
  "demo_role = set_MaxExp 100 (set_Level 1 (Role_new 0 0))"

theorem RoleExpAdd_returns_witness:
  "\<exists>n r'. RoleExpAdd demo_levels 250 demo_role = Some (n, r') \<and> (Exp r' \<le> MaxExp r' \<or> n = - 1)"
proof -
  have "levels_ok demo_levels" and "MaxExp demo_role \<noteq> 0"
    by (simp_all add: levels_ok_def demo_levels_def GetIntField_def demo_role_def MaxExp_def set_MaxExp_def)
  then show ?thesis
    using RoleExpAdd_returns [of demo_levels demo_role 250] by auto
qed

section \<open>Saving and loading a role\<close>

text \<open>The answers that the database gives after a save: each column of a \<^verbatim>\<open>select\<close> is
  the value assigned to it.  Of a spliced statement nothing is said; the theorem below excludes it.\<close>

definition read_back :: "string list \<Rightarrow> (string \<times> db_val) list \<Rightarrow> db_row query" where
  "read_back cols saved = q_rows [map (\<lambda>c. case map_of saved c of Some v \<Rightarrow> v | None \<Rightarrow> DInt 0) cols]"

definition db_after :: "role_saves \<Rightarrow> role_db \<Rightarrow> role_db" where
  "db_after sv db = db\<lparr>
     db_Role := (case sv_Role sv of Some (Assigns a) \<Rightarrow> read_back sel_Role a | _ \<Rightarrow> db_Role db),
     db_RoleLastLoc := (case sv_RoleLastLoc sv of Some a \<Rightarrow> read_back sel_RoleLastLoc a | None \<Rightarrow> db_RoleLastLoc db),
     db_RoleBonus := (case sv_RoleBonus sv of Some a \<Rightarrow> read_back sel_RoleBonus a | None \<Rightarrow> db_RoleBonus db)\<rparr>"

lemma db_after_saved:
  "db_Role (db_after \<lparr>sv_Role = Some (Assigns a), sv_RoleLastLoc = l, sv_RoleBonus = b\<rparr> db) = read_back sel_Role a"
  "db_VIP (db_after sv db) = db_VIP db" "db_RoleRune (db_after sv db) = db_RoleRune db"
  "db_RoleLastLoc (db_after \<lparr>sv_Role = x, sv_RoleLastLoc = Some y, sv_RoleBonus = b\<rparr> db) = read_back sel_RoleLastLoc y"
  "db_RoleBonus (db_after \<lparr>sv_Role = x, sv_RoleLastLoc = l, sv_RoleBonus = Some z\<rparr> db) = read_back sel_RoleBonus z"
  by (simp_all add: db_after_def)

lemmas getter_defs = ID_def Name_def Camp_def Level_def Exp_def MaxExp_def AddPoint_def Strength_def
  Intelligence_def Agility_def MoveSpeed_def Hp_def Mp_def MaxHp_def MaxMp_def HpRegen_def MpRegen_def
  AttackPowerHigh_def AttackPowerLow_def AttackScope_def AttackSpeed_def BulletSpeed_def Defence_def
  MDefence_def CritRate_def HitRate_def DodgeRate_def

lemmas setter_defs = set_ID_def set_Name_def set_Camp_def set_Level_def set_Exp_def set_MaxExp_def
  set_AddPoint_def set_Strength_def set_Intelligence_def set_Agility_def set_MoveSpeed_def set_Hp_def
  set_Mp_def set_MaxHp_def set_MaxMp_def set_HpRegen_def set_MpRegen_def set_AttackPowerHigh_def
  set_AttackPowerLow_def set_AttackScope_def set_AttackSpeed_def set_BulletSpeed_def set_Defence_def
  set_MDefence_def set_CritRate_def set_HitRate_def set_DodgeRate_def

lemmas bonus_defs = MaxHpBonus_def MaxMpBonus_def HpRegenBonus_def MpRegenBonus_def
  AttackPowerHighBonus_def AttackPowerLowBonus_def AttackSpeedBonus_def DefenceBonus_def
  MDefenceBonus_def CritRateBonus_def HitRateBonus_def DodgeRateBonus_def MovSpeedBonus_def
  StrengthBonus_def IntelligenceBonus_def AgilityBonus_def

lemmas set_bonus_defs = set_MaxHpBonus_def set_MaxMpBonus_def set_HpRegenBonus_def set_MpRegenBonus_def
  set_AttackPowerHighBonus_def set_AttackPowerLowBonus_def set_AttackSpeedBonus_def set_DefenceBonus_def
  set_MDefenceBonus_def set_CritRateBonus_def set_HitRateBonus_def set_DodgeRateBonus_def
  set_MovSpeedBonus_def set_StrengthBonus_def set_IntelligenceBonus_def set_AgilityBonus_def

lemma save_load_Role:
  "map (\<lambda>c. case map_of (save_Role r) c of Some v \<Rightarrow> v | None \<Rightarrow> DInt 0) sel_Role = map snd (save_Role r)"
  by (simp add: sel_Role_def save_Role_def)

lemma save_load_bonus:
  "map (\<lambda>c. case map_of (Cache2Bonus r) c of Some v \<Rightarrow> v | None \<Rightarrow> DInt 0) sel_RoleBonus = map snd (Cache2Bonus r)"
  by (simp add: sel_RoleBonus_def Cache2Bonus_def)

lemma ucast_u8_i32: "ucast (ucast (b :: u8) :: i32) = b"
  by (rule ucast_up_ucast_id) (simp add: is_up)

lemma ucast_u16_i32: "ucast (ucast (b :: u16) :: i32) = b"
  by (rule ucast_up_ucast_id) (simp add: is_up)

lemma save_of_load:
  assumes "ID q = ID r"
  shows "save_Role (load_Role (map snd (save_Role r)) q) = save_Role r"
  using assms
  by (simp add: save_Role_def load_Role_def GetIntField_def GetStringField_def Let_def getter_defs setter_defs
    ucast_u8_i32)

lemma bonus_of_load:
  assumes "ID q = ID r"
  shows "Cache2Bonus (load_RoleBonus (map snd (Cache2Bonus r)) q) =
    map (\<lambda>(c, v). (c, if c = ''CritRate'' then DInt (CritRateBonus q) else v)) (Cache2Bonus r)"
  using assms
  by (simp add: Cache2Bonus_def load_RoleBonus_def GetIntField_def Let_def bonus_defs set_bonus_defs ID_def)

lemma load_Role_frame:
  "CritRateBonus (load_Role row q) = CritRateBonus q" "ID (load_Role row q) = ID q"
  "ro_isvip (load_Role (map snd (save_Role r)) q) = ro_isvip r"
  by (simp_all add: load_Role_def save_Role_def GetIntField_def Let_def getter_defs setter_defs
    CritRateBonus_def ucast_u8_i32)

lemma same_vip: "ro_isvip p = v \<Longrightarrow> p\<lparr>ro_isvip := v\<rparr> = p"
  by (cases p) simp

lemma place_role_frame:
  "save_Role (place_role now q) = save_Role q" "ID (place_role now q) = ID q"
  "CritRateBonus (place_role now q) = CritRateBonus q" "Role_MapID (place_role now q) = Role_MapID q"
  "Pos (place_role now q) = \<lparr>pos_X = ro_lastX q, pos_Y = ro_lastY q\<rparr>"
  by (simp_all add: place_role_def Let_def set_Pos_def set_Route_def save_Role_def getter_defs
    CritRateBonus_def Pos_def Role_MapID_def)

lemma load_loc_frame:
  "save_Role (load_loc row q) = save_Role q" "ID (load_loc row q) = ID q"
  "CritRateBonus (load_loc row q) = CritRateBonus q" "Role_MapID (load_loc row q) = GetIntField row 0"
  by (simp_all add: load_loc_def save_Role_def getter_defs CritRateBonus_def Role_MapID_def)

lemma load_rune_frame:
  "save_Role (fold load_rune rows q) = save_Role q" "ID (fold load_rune rows q) = ID q"
  "CritRateBonus (fold load_rune rows q) = CritRateBonus q" "Role_MapID (fold load_rune rows q) = Role_MapID q"
  "Pos (fold load_rune rows q) = Pos q"
  by (induction rows arbitrary: q)
    (simp_all add: load_rune_def save_Role_def getter_defs CritRateBonus_def Role_MapID_def Pos_def)

lemma load_bonus_frame:
  "save_Role (load_RoleBonus row q) = save_Role q" "Pos (load_RoleBonus row q) = Pos q"
  "Role_MapID (load_RoleBonus row q) = Role_MapID q" "ID (load_RoleBonus row q) = ID q"
  by (simp_all add: load_RoleBonus_def Let_def save_Role_def getter_defs set_bonus_defs Pos_def Role_MapID_def)

lemma new_role_facts:
  "ID (set_ID i (Role_new rnd now)) = i" "CritRateBonus (set_ID i (Role_new rnd now)) = 0"
  by (simp_all add: set_ID_def ID_def CritRateBonus_def Role_new_def SetHpMpfullStatue_def set_Status_def
    set_Flag_def AttrCombatBonus_new_def Let_def)

text \<open>The statements of a save depend on the saved columns, the map and the position.\<close>

definition save_loc :: "role \<Rightarrow> (string \<times> db_val) list" where
  "save_loc r = [(''MapID'', DInt (Role_MapID r)), (''LastX'', DInt (ucast (pos_X (Pos r)))),
     (''LastY'', DInt (ucast (pos_Y (Pos r))))]"

lemma save_load_loc:
  "map (\<lambda>c. case map_of (save_loc r) c of Some v \<Rightarrow> v | None \<Rightarrow> DInt 0) sel_RoleLastLoc = map snd (save_loc r)"
  by (simp add: sel_RoleLastLoc_def save_loc_def)

lemma Cache2Bonus_lastloc: "Cache2Bonus (r\<lparr>ro_lastX := x, ro_lastY := y\<rparr>) = Cache2Bonus r"
  by (simp add: Cache2Bonus_def bonus_defs ID_def)

lemma Cache2DB_done:
  assumes "\<not> refuse 0" "\<not> refuse 1" "\<not> refuse 2" and "update_Role_len r \<le> 1023"
  shows "\<exists>r'. Cache2DB refuse r = Some (0, \<lparr>sv_Role = Some (update_Role r), sv_RoleLastLoc = Some (save_loc r),
    sv_RoleBonus = Some (Cache2Bonus r)\<rparr>, r')"
  using assms by (simp add: Cache2DB_def LastX_def LastY_def Let_def Pos_def save_loc_def Cache2Bonus_lastloc)

lemma Cache2DB_zero:
  assumes "Cache2DB refuse r = Some (0, saved, r')"
  shows "update_Role_len r \<le> 1023 \<and> saved = \<lparr>sv_Role = Some (update_Role r), sv_RoleLastLoc = Some (save_loc r),
    sv_RoleBonus = Some (Cache2Bonus r)\<rparr>"
  using assms
  by (auto simp: Cache2DB_def LastX_def LastY_def Let_def Pos_def save_loc_def Cache2Bonus_lastloc split: if_splits)

lemma save_Role_strings:
  assumes "save_Role q = save_Role r"
  shows "update_Role q = update_Role r" "update_Role_len q = update_Role_len r"
proof -
  have "c_str (Name q) = c_str (Name r)" "c_str (ro_password q) = c_str (ro_password r)" "ID q = ID r"
    using assms by (simp_all add: save_Role_def)
  then show "update_Role q = update_Role r" "update_Role_len q = update_Role_len r"
    using assms by (simp_all add: update_Role_def update_Role_len_def quotable_def)
qed

text \<open>
  C35: a role that is saved and loaded again keeps what was saved: the \<^verbatim>\<open>Role\<close> row with its
  attributes, name, password, VIP level and times, the map, the position, and every bonus but the one to
  the critical hit rate.  \<^verbatim>\<open>Cache2DB\<close> writes that column, \<^verbatim>\<open>DB2CacheBonus\<close>
  reads it into a setter with an empty body, and the next save writes the 0 of a new role over it.  The
  save is one that returned 0, that is, its first statement fitted its 1024 bytes and the database refused
  none; name and password have no quote and no backslash; and, for a VIP level from 1 to 10, the table
  \<^verbatim>\<open>VIP\<close> names the same level.
\<close>

theorem save_load_save:
  assumes "Cache2DB refuse r = Some (0, saved, r')"
    and "quotable (Name r)" and "quotable (ro_password r)"
    and "0 < ro_isvip r \<Longrightarrow> ro_isvip r \<le> 10 \<Longrightarrow> \<exists>vs rest. db_VIP db = q_rows ((DInt (ucast (ro_isvip r)) # vs) # rest)"
    and "db_RoleRune db \<noteq> q_failed"
    and "DB2Cache (db_after saved db) now (set_ID (ID r) (Role_new rnd now)) = (err, q)"
    and "\<not> refuse' 0" "\<not> refuse' 1" "\<not> refuse' 2"
  shows "err = 0 \<and> ID q = ID r \<and> Pos q = Pos r \<and> Role_MapID q = Role_MapID r \<and>
    (\<exists>saved' q'. Cache2DB refuse' q = Some (0, saved', q') \<and>
      sv_Role saved' = sv_Role saved \<and> sv_RoleLastLoc saved' = sv_RoleLastLoc saved \<and>
      sv_RoleBonus saved' = map_option (map (\<lambda>(c, v). (c, if c = ''CritRate'' then DInt 0 else v))) (sv_RoleBonus saved))"
proof -
  let ?new = "set_ID (ID r) (Role_new rnd now)"
  let ?r1 = "load_Role (map snd (save_Role r)) ?new" and ?runes = "\<lambda>p. case db_RoleRune db of q_rows rs \<Rightarrow> fold load_rune rs p | _ \<Rightarrow> p"
  let ?r2 = "place_role now (load_loc (map snd (save_loc r)) ?r1)"
  let ?q = "load_RoleBonus (map snd (Cache2Bonus r)) (?runes ?r2)"
  note len = conjunct1 [OF Cache2DB_zero [OF assms(1)]]
  note saved = conjunct2 [OF Cache2DB_zero [OF assms(1)]]
  have vip: "check_vip (db_VIP db) ?r1 = Some ?r1"
  proof (cases "ro_isvip r \<le> 10 \<and> 0 < ro_isvip r")
    case True
    then obtain vs rest where "db_VIP db = q_rows ((DInt (ucast (ro_isvip r)) # vs) # rest)"
      using assms(4) by blast
    moreover have "?r1\<lparr>ro_isvip := ro_isvip r\<rparr> = ?r1"
      by (rule same_vip) (rule load_Role_frame(3))
    ultimately show ?thesis
      by (simp add: check_vip_def load_Role_frame GetIntField_def ucast_u8_i32)
  next
    case False
    then show ?thesis
      by (auto simp: check_vip_def load_Role_frame)
  qed
  have upd: "update_Role r = Assigns (save_Role r)"
    using assms(2,3) by (simp add: update_Role_def)
  have load: "DB2Cache (db_after saved db) now ?new = (0, ?q)"
  proof (cases "db_RoleRune db")
    case q_failed
    then show ?thesis
      using assms(5) by blast
  next
    case q_notfound
    show ?thesis
      unfolding DB2Cache_def saved upd db_after_saved read_back_def
        query.case save_load_Role save_load_bonus save_load_loc fold_simps Let_def vip option.case DB2CacheBonus_def
        q_notfound ..
  next
    case (q_rows rs)
    show ?thesis
      unfolding DB2Cache_def saved upd db_after_saved read_back_def
        query.case save_load_Role save_load_bonus save_load_loc fold_simps Let_def vip option.case DB2CacheBonus_def
        q_rows ..
  qed
  then have q: "err = 0" "q = ?q"
    using assms(6) by simp_all
  have runes: "save_Role (?runes p) = save_Role p" "ID (?runes p) = ID p" "Pos (?runes p) = Pos p"
      "CritRateBonus (?runes p) = CritRateBonus p" "Role_MapID (?runes p) = Role_MapID p" for p
    by (simp_all add: load_rune_frame split: query.split)
  have loc: "ro_lastX (load_loc (map snd (save_loc r)) p) = pos_X (Pos r)"
      "ro_lastY (load_loc (map snd (save_loc r)) p) = pos_Y (Pos r)" "GetIntField (map snd (save_loc r)) 0 = Role_MapID r" for p
    by (simp_all add: load_loc_def save_loc_def GetIntField_def ucast_u16_i32)
  note frames = load_bonus_frame runes place_role_frame load_loc_frame load_Role_frame new_role_facts loc
  have id: "ID (?runes ?r2) = ID r" "CritRateBonus (?runes ?r2) = 0"
    by (simp_all only: frames)
  have row: "save_Role q = save_Role r"
    unfolding q by (simp only: frames save_of_load [OF new_role_facts(1)])
  have place: "ID q = ID r" "Pos q = Pos r" "Role_MapID q = Role_MapID r"
    unfolding q by (simp_all only: frames) simp
  have bonus: "Cache2Bonus q = map (\<lambda>(c, v). (c, if c = ''CritRate'' then DInt 0 else v)) (Cache2Bonus r)"
    using bonus_of_load [OF id(1)] unfolding q id(2) .
  have "update_Role_len q \<le> 1023"
    using len by (simp only: save_Role_strings(2) [OF row])
  from Cache2DB_done [OF assms(7-9) this] show ?thesis
    using q(1) place bonus by (auto simp: saved save_Role_strings(1) [OF row] save_loc_def)
qed

theorem save_load_save_witness:
  "\<exists>saved r' q saved' q'. Cache2DB (\<lambda>_. False) demo_role = Some (0, saved, r') \<and>
    DB2Cache (db_after saved \<lparr>db_Role = q_notfound, db_VIP = q_notfound, db_RoleLastLoc = q_notfound,
      db_RoleRune = q_notfound, db_RoleBonus = q_notfound\<rparr>) 7 (set_ID (ID demo_role) (Role_new 1 7)) = (0, q) \<and>
    Cache2DB (\<lambda>_. False) q = Some (0, saved', q') \<and> sv_Role saved' = sv_Role saved"
proof -
  let ?db = "\<lparr>db_Role = q_notfound, db_VIP = q_notfound, db_RoleLastLoc = q_notfound,
      db_RoleRune = q_notfound, db_RoleBonus = q_notfound\<rparr> :: role_db"
  have fields: "ro_isvip demo_role = 0" "quotable (Name demo_role)" "quotable (ro_password demo_role)"
      "update_Role_len demo_role \<le> 1023"
    by code_simp+
  then obtain saved r' where s: "Cache2DB (\<lambda>_. False) demo_role = Some (0, saved, r')"
    using Cache2DB_done [of "\<lambda>_. False" demo_role] by auto
  obtain err q where l: "DB2Cache (db_after saved ?db) 7 (set_ID (ID demo_role) (Role_new 1 7)) = (err, q)"
    by fastforce
  from save_load_save [OF s fields(2,3) _ _ l, of "\<lambda>_. False"] fields(1) show ?thesis
    using s l by auto
qed

section \<open>Regeneration stops at the wrong maximum\<close>

lemma AddHp_frame:
  "Mp (AddHp i r) = Mp r" "MaxHp (AddHp i r) = MaxHp r" "MaxHpBonus (AddHp i r) = MaxHpBonus r"
  by (simp_all add: AddHp_def Let_def Mp_def MaxHp_def MaxHpBonus_def)

lemma flag_frame:
  "Mp (SetHpMpfullStatue r) = Mp r" "MaxHp (SetHpMpfullStatue r) = MaxHp r"
  "MaxHpBonus (SetHpMpfullStatue r) = MaxHpBonus r"
  "Mp (r\<lparr>ro_LastHpMpTime := t\<rparr>) = Mp r" "MaxHp (r\<lparr>ro_LastHpMpTime := t\<rparr>) = MaxHp r"
  "MaxHpBonus (r\<lparr>ro_LastHpMpTime := t\<rparr>) = MaxHpBonus r"
  by (simp_all add: SetHpMpfullStatue_def Let_def Mp_def MaxHp_def MaxHpBonus_def)

lemma flag_of_full_mana:
  assumes "Mp r = MaxHp r + MaxHpBonus r"
  shows "ro_HpMpfullflag (SetHpMpfullStatue r) = 3 \<or> ro_HpMpfullflag (SetHpMpfullStatue r) = 2"
  using assms by (simp add: SetHpMpfullStatue_def Let_def)

lemma HpMpadd_stuck:
  assumes "Mp r = MaxHp r + MaxHpBonus r" and "ro_HpMpfullflag r = 3 \<or> ro_HpMpfullflag r = 2"
  shows "Mp (HpMpadd now t r) = Mp r"
    and "MaxHp (HpMpadd now t r) + MaxHpBonus (HpMpadd now t r) = MaxHp r + MaxHpBonus r"
    and "ro_HpMpfullflag (HpMpadd now t r) = 3 \<or> ro_HpMpfullflag (HpMpadd now t r) = 2"
proof -
  define r1 where "r1 = (if ro_HpMpfullflag r = 2 then AddHp ((HpRegen r + HpRegenBonus r) div 10 * t) r else r)"
  have run: "HpMpadd now t r = (SetHpMpfullStatue r1)\<lparr>ro_LastHpMpTime := now\<rparr>"
    using assms(2) by (auto simp: HpMpadd_def r1_def Let_def)
  have r1: "Mp r1 = Mp r" "MaxHp r1 + MaxHpBonus r1 = MaxHp r + MaxHpBonus r"
    by (simp_all add: r1_def AddHp_frame)
  show "Mp (HpMpadd now t r) = Mp r"
    and "MaxHp (HpMpadd now t r) + MaxHpBonus (HpMpadd now t r) = MaxHp r + MaxHpBonus r"
    by (simp_all only: run flag_frame r1)
  have "Mp r1 = MaxHp r1 + MaxHpBonus r1"
    using assms(1) by (simp only: r1)
  from flag_of_full_mana [OF this]
  show "ro_HpMpfullflag (HpMpadd now t r) = 3 \<or> ro_HpMpfullflag (HpMpadd now t r) = 2"
    by (simp add: run)
qed

text \<open>
  Mana that reaches the maximum of the health stops regenerating, however much more the role may
  have: \<^verbatim>\<open>SetHpMpfullStatue\<close> compares the mana with the maximum health, so from then on
  no tick of \<^verbatim>\<open>HpMpadd\<close> adds to it.
\<close>

lemma mana_regeneration_stops:
  assumes "Mp r = MaxHp r + MaxHpBonus r"
  shows "Mp (fold (\<lambda>(now, t). HpMpadd now t) ticks (SetHpMpfullStatue r)) = Mp r"
proof -
  have "Mp (fold (\<lambda>(now, t). HpMpadd now t) ticks q) = Mp q"
    if "Mp q = MaxHp q + MaxHpBonus q" and "ro_HpMpfullflag q = 3 \<or> ro_HpMpfullflag q = 2" for q
    using that
  proof (induction ticks arbitrary: q)
    case (Cons a ticks)
    obtain now t where "a = (now, t)" by fastforce
    with Cons show ?case
      by (simp only: fold_simps prod.case HpMpadd_stuck [OF Cons.prems])
  qed simp
  then show ?thesis
    using flag_of_full_mana [OF assms] assms by (simp add: flag_frame)
qed

lemma mana_regeneration_stops_witness:
  "\<exists>r. MaxMp r = 500 \<and> MpRegen r = 30 \<and> Mp r = 100
    \<and> Mp (fold (\<lambda>(now, t). HpMpadd now t) [(1, 10), (2, 10)] (SetHpMpfullStatue r)) = 100"
proof -
  let ?r = "set_MpRegen 30 (set_MaxMp 500 (set_Mp 100 (set_MaxHp 100 (Role_new 0 0))))"
  have f: "MaxMp ?r = 500" "MpRegen ?r = 30" "Mp ?r = 100" "MaxHp ?r = 100" "MaxHpBonus ?r = 0"
    by (simp_all add: set_MpRegen_def set_MaxMp_def set_Mp_def set_MaxHp_def MaxMp_def MpRegen_def Mp_def
      MaxHp_def MaxHpBonus_def Role_new_def SetHpMpfullStatue_def set_Status_def set_Flag_def
      AttrCombatBonus_new_def Let_def)
  then have "Mp (fold (\<lambda>(now, t). HpMpadd now t) [(1, 10), (2, 10)] (SetHpMpfullStatue ?r)) = 100"
    using mana_regeneration_stops [of ?r "[(1, 10), (2, 10)]"] by (simp only: f) simp
  with f show ?thesis by blast
qed

end
