(* ===== verification/Service_Packets.thy ===== *)
theory Service_Packets
  imports Packet_Header Serializer_Ops Our_Def
begin

text \<open>
  How the services of the main server build what they send: the answer to a request
  (\<^verbatim>\<open>ClientErrorAck\<close> and the end of every \<^verbatim>\<open>Process\<close> function, the same
  statements each time) and a notification.  \<^verbatim>\<open>DataBuffer\<close>, \<^verbatim>\<open>Packet\<close>
  and \<^verbatim>\<open>Serializer\<close> work on one buffer there; here it is handed from one to the next.
  \<open>env_junk\<close> is an uninitialised \<^verbatim>\<open>Packet\<close> and \<open>env_mem n\<close> the memory of a
  fresh buffer of \<open>n\<close> bytes.
\<close>

record svc_env =
  env_junk :: packet
  env_mem :: "nat \<Rightarrow> u8 list"

definition reply_packet :: "svc_env \<Rightarrow> packet \<Rightarrow> u32 \<Rightarrow> packet option" where
  "reply_packet env req RetCode =
     (let p = (CopyHeader req ((env_junk env)\<lparr>p_buffer := Reset (DataBuffer_new 1024 (env_mem env 1024))\<rparr>))
            \<lparr>p_Direction := DIRECT_C_S_RESP\<rparr>
      in do {
        (ok, p1) \<leftarrow> PackHeader p;
        s \<leftarrow> put_UInt32 RetCode (Serializer_new (p_buffer p1));
        (ok', p2) \<leftarrow> UpdatePacketLength (p1\<lparr>p_buffer := ser_buf s\<rparr>);
        Some p2
      })"

definition notify_packet :: "svc_env \<Rightarrow> u16 \<Rightarrow> u32 \<Rightarrow> (serializer \<Rightarrow> serializer option) \<Rightarrow> packet option" where
  "notify_packet env type tsn body =
     (let p = (env_junk env)\<lparr>p_Direction := DIRECT_S_C_REQ, p_SvrType := 1, p_SvrSeq := 1,
            p_MsgType := type, p_UniqID := tsn, p_buffer := Reset (DataBuffer_new 8196 (env_mem env 8196))\<rparr>
      in do {
        (ok, p1) \<leftarrow> PackHeader p;
        s \<leftarrow> body (Serializer_new (p_buffer p1));
        (ok', p2) \<leftarrow> UpdatePacketLength (p1\<lparr>p_buffer := ser_buf s\<rparr>);
        Some p2
      })"

section \<open>What the packets hold\<close>

definition env_ok :: "svc_env \<Rightarrow> bool" where
  "env_ok env = (\<forall>n. length (env_mem env n) = n)"

lemma pack_body:
  assumes mem: "length mem = unat sz" and fits: "15 + length bs \<le> unat sz" "unat sz < 65536"
    and body: "\<And>s. ser_ok s \<Longrightarrow> length bs \<le> room s \<Longrightarrow> body s = Some (ser_append bs s)"
    and buf: "p_buffer p = Reset (DataBuffer_new sz mem)"
  shows "\<exists>q. do { (ok, p1) \<leftarrow> PackHeader p;
                  s \<leftarrow> body (Serializer_new (p_buffer p1));
                  (ok', p2) \<leftarrow> UpdatePacketLength (p1\<lparr>p_buffer := ser_buf s\<rparr>);
                  Some p2 } = Some q
    \<and> holds (p_buffer q) (frame p bs) \<and> db_read (p_buffer q) = 0"
proof -
  have inv: "db_inv (p_buffer p)" and size: "15 + length bs \<le> unat (db_size (p_buffer p))"
    using mem fits by (simp_all add: buf db_inv_Reset db_inv_new) (simp add: Reset_def DataBuffer_new_def)
  let ?b1 = "append_db (header_bytes p) (Reset (p_buffer p))"
  have pack: "PackHeader p = Some (True, p\<lparr>p_buffer := ?b1\<rparr>)"
    using inv size by (intro PackHeader_append) simp_all
  have inv1: "db_inv ?b1" and room: "length bs \<le> space ?b1"
    using inv size by (simp_all add: wire db_inv_Reset space_Reset)
  then have "body (Serializer_new ?b1) = Some (ser_append bs (Serializer_new ?b1))"
    by (intro body) (simp_all add: ser_ok_def room_def Serializer_new_def Reset_def)
  moreover have "holds (append_db bs ?b1) (header_bytes p @ bs)"
    using holds_append [OF holds_append [OF holds_Reset], of "p_buffer p" "header_bytes p" bs] inv size
    by (simp add: space_Reset wire)
  then obtain b where "UpdatePacketLength (p\<lparr>p_buffer := append_db bs ?b1\<rparr>) =
      Some (True, p\<lparr>p_buffer := append_db bs ?b1, p_Length := of_nat (15 + length bs), p_buffer := b\<rparr>)"
    "holds b (frame p bs)" "db_read b = 0"
    using UpdatePacketLength_holds [of "p\<lparr>p_buffer := append_db bs ?b1\<rparr>" p bs] fits
    by (auto simp: Reset_def)
  ultimately show ?thesis
    by (simp add: pack ser_append_def Serializer_new_def)
qed

definition reply_bytes :: "packet \<Rightarrow> u32 \<Rightarrow> u8 list" where
  "reply_bytes req RetCode = frame (req\<lparr>p_Direction := DIRECT_C_S_RESP\<rparr>) (bytes_of_word 4 RetCode)"

text \<open>
  Every answer is the header of the request with the direction turned round, followed by the
  four bytes of the return code; building it never fails.
\<close>

lemma reply_packet_holds:
  assumes "env_ok env"
  shows "\<exists>q. reply_packet env req RetCode = Some q \<and> holds (p_buffer q) (reply_bytes req RetCode)
    \<and> db_read (p_buffer q) = 0"
proof -
  let ?p = "(CopyHeader req ((env_junk env)\<lparr>p_buffer := Reset (DataBuffer_new 1024 (env_mem env 1024))\<rparr>))
      \<lparr>p_Direction := DIRECT_C_S_RESP\<rparr>"
  have "reply_bytes req RetCode = frame ?p (bytes_of_word 4 RetCode)"
    by (simp add: reply_bytes_def frame_def header_bytes_def CopyHeader_def)
  then show ?thesis
    using pack_body [of "env_mem env 1024" 1024 "bytes_of_word 4 RetCode" "put_UInt32 RetCode" ?p] assms
    by (simp add: reply_packet_def Let_def env_ok_def put_scalar_append CopyHeader_def)
qed

definition demo_env :: svc_env where
  "demo_env = \<lparr>env_junk = demo_packet, env_mem = (\<lambda>n. replicate n 0)\<rparr>"

lemma demo_env_ok: "env_ok demo_env"
  by (simp add: env_ok_def demo_env_def)

lemma reply_packet_holds_witness:
  "\<exists>q. reply_packet demo_env demo_packet 7 = Some q \<and> holds (p_buffer q) (reply_bytes demo_packet 7)"
  using reply_packet_holds [OF demo_env_ok, of demo_packet 7] by blast

end
