(* ===== verification/Team.thy ===== *)
theory Team
  imports Archives
begin

text \<open>
  \<^verbatim>\<open>MainServer/CoreData/Team.cpp\<close> and \<^verbatim>\<open>Team.h\<close>: a team is its number, the
  role id of its leader and the list of its members, each with a status (1 present, 2 set for the
  leader).  A setter that overloads a name of \<^verbatim>\<open>Role\<close> is called \<open>set_team_X\<close>.
\<close>

record team =
  tm_teamID :: u32
  tm_leaderRoleID :: u32
  tm_listMember :: "TeamRole list"

definition Team_new :: team where
  "Team_new = \<lparr>tm_teamID = 0, tm_leaderRoleID = 0, tm_listMember = []\<rparr>"

definition GetMemberRoleID :: "team \<Rightarrow> TeamRole list" where
  "GetMemberRoleID t = tm_listMember t"

definition GetTeamID :: "team \<Rightarrow> u32" where
  "GetTeamID t = tm_teamID t"

definition GetLeaderRoleID :: "team \<Rightarrow> u32" where
  "GetLeaderRoleID t = tm_leaderRoleID t"

definition AddToTeam :: "u32 \<Rightarrow> team \<Rightarrow> team" where
  "AddToTeam roleID t = t\<lparr>tm_listMember := tm_listMember t @ [\<lparr>tr_roleId = roleID, tr_status = 1\<rparr>]\<rparr>"

fun change_first :: "u32 \<Rightarrow> u8 \<Rightarrow> TeamRole list \<Rightarrow> TeamRole list" where
  "change_first roleID type [] = []"
| "change_first roleID type (m # ms) =
     (if tr_roleId m = roleID then m\<lparr>tr_status := type\<rparr> # ms else m # change_first roleID type ms)"

definition changeRoleStues :: "u32 \<Rightarrow> u8 \<Rightarrow> team \<Rightarrow> team" where
  "changeRoleStues roleID type t = t\<lparr>tm_listMember := change_first roleID type (tm_listMember t)\<rparr>"

definition set_team_TeamID :: "u32 \<Rightarrow> team \<Rightarrow> team" where
  "set_team_TeamID input t = t\<lparr>tm_teamID := input\<rparr>"

definition set_team_LeaderRoleID :: "u32 \<Rightarrow> team \<Rightarrow> team" where
  "set_team_LeaderRoleID input t = changeRoleStues input 2 (t\<lparr>tm_leaderRoleID := input\<rparr>)"

definition ChangToBeLeader :: "u32 \<Rightarrow> team \<Rightarrow> team" where
  "ChangToBeLeader roleID t =
     (if roleID \<noteq> 0
      then (set_team_LeaderRoleID roleID (changeRoleStues (tm_leaderRoleID t) 1 t))\<lparr>tm_leaderRoleID := roleID\<rparr>
      else t)"

fun erase_first :: "u32 \<Rightarrow> TeamRole list \<Rightarrow> TeamRole list" where
  "erase_first roleID [] = []"
| "erase_first roleID (m # ms) = (if tr_roleId m = roleID then ms else m # erase_first roleID ms)"

definition OutTheTeam :: "u32 \<Rightarrow> team \<Rightarrow> team" where
  "OutTheTeam roleID t = t\<lparr>tm_listMember := erase_first roleID (tm_listMember t)\<rparr>"

section \<open>The members of a team\<close>

definition member_ids :: "team \<Rightarrow> u32 list" where
  "member_ids t = map tr_roleId (tm_listMember t)"

lemma ids_change_first: "map tr_roleId (change_first r s ms) = map tr_roleId ms"
  by (induction ms) auto

lemma ids_erase_first: "map tr_roleId (erase_first r ms) = remove1 r (map tr_roleId ms)"
  by (induction ms) auto

lemma member_ids_ops [simp]:
  "member_ids (AddToTeam r t) = member_ids t @ [r]"
  "member_ids (changeRoleStues r s t) = member_ids t"
  "member_ids (set_team_LeaderRoleID r t) = member_ids t"
  "member_ids (set_team_TeamID n t) = member_ids t"
  "member_ids (ChangToBeLeader r t) = member_ids t"
  "member_ids (OutTheTeam r t) = remove1 r (member_ids t)"
  "member_ids Team_new = []"
  by (simp_all add: member_ids_def AddToTeam_def changeRoleStues_def set_team_LeaderRoleID_def
    set_team_TeamID_def ChangToBeLeader_def OutTheTeam_def Team_new_def ids_change_first ids_erase_first)

lemma teamID_ops [simp]:
  "tm_teamID (AddToTeam r t) = tm_teamID t"
  "tm_teamID (changeRoleStues r s t) = tm_teamID t"
  "tm_teamID (set_team_LeaderRoleID r t) = tm_teamID t"
  "tm_teamID (set_team_TeamID n t) = n"
  "tm_teamID (ChangToBeLeader r t) = tm_teamID t"
  "tm_teamID (OutTheTeam r t) = tm_teamID t"
  by (simp_all add: AddToTeam_def changeRoleStues_def set_team_LeaderRoleID_def set_team_TeamID_def
    ChangToBeLeader_def OutTheTeam_def)

lemma leader_ops [simp]:
  "tm_leaderRoleID (AddToTeam r t) = tm_leaderRoleID t"
  "tm_leaderRoleID (changeRoleStues r s t) = tm_leaderRoleID t"
  "tm_leaderRoleID (set_team_LeaderRoleID r t) = r"
  "tm_leaderRoleID (set_team_TeamID n t) = tm_leaderRoleID t"
  "tm_leaderRoleID (ChangToBeLeader r t) = (if r \<noteq> 0 then r else tm_leaderRoleID t)"
  "tm_leaderRoleID (OutTheTeam r t) = tm_leaderRoleID t"
  by (simp_all add: AddToTeam_def changeRoleStues_def set_team_LeaderRoleID_def set_team_TeamID_def
    ChangToBeLeader_def OutTheTeam_def)

end
