(* ===== verification/Core_Data.thy ===== *)
theory Core_Data
  imports Role Team "HOL-Library.Monad_Syntax"
begin

text \<open>
  The tables of \<^verbatim>\<open>MainServer/CoreData/CoreData.cpp\<close>: which map a role is on, the role
  objects of each map, the teams, and the running fights.

  Every public operation opens with \<^verbatim>\<open>MutexLockGuard lock(mutex_)\<close>, and some of them call
  others.  \<open>cd_held\<close> counts how often the calling thread holds \<^verbatim>\<open>mutex_\<close>;
  \<open>guarded\<close> is the scope of a guard.  \<^verbatim>\<open>pthread_mutex_init(&mutex_, NULL)\<close> makes a
  mutex of the default type, whose second lock by its owner POSIX leaves to the implementation: the
  argument \<open>relock\<close> says whether it succeeds.  On Linux it does not (\<open>relock = False\<close>), the
  thread waits for itself, and the result is \<open>None\<close>.  Other threads are outside this theory.

  A \<^verbatim>\<open>RolePtr\<close> is the place of a role in the maps, or \<open>None\<close> for the
  \<^verbatim>\<open>new Role()\<close> that stands for a role not found, to which nobody else has access.
  The mutex of a map is only held inside one operation of the map and is left out.
\<close>

section \<open>State\<close>

record game_map =
  gm_mapID :: u32
  gm_mapRole :: "(u32, role) smap"

record pk_brief =
  pk_pkID :: u32
  pk_player1 :: "u32 list"
  pk_player2 :: "u32 list"

definition PKBriefList_new :: pk_brief where
  "PKBriefList_new = \<lparr>pk_pkID = 0, pk_player1 = [], pk_player2 = []\<rparr>"

record core_data =
  cd_held :: nat
  cd_mapCount :: i32
  cd_vecMap :: "game_map list"
  cd_mapRoleMapID :: "(u32, u32) smap"
  cd_mapTeam :: "(u32, team) smap"
  cd_mapRoleTeam :: "(u32, u32) smap"
  cd_mapPkInfo :: "(u32, pk_brief) smap"
  cd_mapRolePKID :: "(u32, u32) smap"
  cd_lastTeamID :: u32

text \<open>The constructor, with the maps \<^verbatim>\<open>Init\<close> creates.\<close>

definition CoreData_new :: "nat \<Rightarrow> core_data" where
  "CoreData_new maps = \<lparr>cd_held = 0, cd_mapCount = of_nat maps,
     cd_vecMap = map (\<lambda>i. \<lparr>gm_mapID = of_nat (i + 1), gm_mapRole = []\<rparr>) [0..<maps],
     cd_mapRoleMapID = [], cd_mapTeam = [], cd_mapRoleTeam = [], cd_mapPkInfo = [], cd_mapRolePKID = [],
     cd_lastTeamID = 1\<rparr>"

definition guarded :: "bool \<Rightarrow> (core_data \<Rightarrow> ('a \<times> core_data) option) \<Rightarrow> core_data \<Rightarrow> ('a \<times> core_data) option" where
  "guarded relock body cd =
     (if 0 < cd_held cd \<and> \<not> relock then None
      else map_option (\<lambda>(r, cd'). (r, cd'\<lparr>cd_held := cd_held cd' - 1\<rparr>))
             (body (cd\<lparr>cd_held := Suc (cd_held cd)\<rparr>)))"

section \<open>Roles and maps\<close>

definition CheckMapID :: "u32 \<Rightarrow> core_data \<Rightarrow> int" where
  "CheckMapID mapID cd = (if mapID \<le> 0 \<or> cd_mapCount cd < mapID then - 1 else 0)"

definition FindRoleMapID :: "bool \<Rightarrow> u32 \<Rightarrow> core_data \<Rightarrow> (u32 \<times> core_data) option" where
  "FindRoleMapID relock roleID =
     guarded relock (\<lambda>cd. Some (case smap_find roleID (cd_mapRoleMapID cd) of Some m \<Rightarrow> m | None \<Rightarrow> 0, cd))"

definition EraseRoleMapID :: "bool \<Rightarrow> u32 \<Rightarrow> core_data \<Rightarrow> (unit \<times> core_data) option" where
  "EraseRoleMapID relock roleID =
     guarded relock (\<lambda>cd. Some ((), cd\<lparr>cd_mapRoleMapID := smap_erase roleID (cd_mapRoleMapID cd)\<rparr>))"

definition AddRoleMapID :: "bool \<Rightarrow> u32 \<Rightarrow> u32 \<Rightarrow> core_data \<Rightarrow> (unit \<times> core_data) option" where
  "AddRoleMapID relock roleID mapID =
     guarded relock (\<lambda>cd. Some ((), cd\<lparr>cd_mapRoleMapID := smap_insert roleID mapID (cd_mapRoleMapID cd)\<rparr>))"

definition UpdateRoleMapID :: "bool \<Rightarrow> u32 \<Rightarrow> u32 \<Rightarrow> core_data \<Rightarrow> (unit \<times> core_data) option" where
  "UpdateRoleMapID relock roleID mapID cd = do {
     (_, cd1) \<leftarrow> EraseRoleMapID relock roleID cd;
     AddRoleMapID relock roleID mapID cd1
   }"

definition GetRoleIDs :: "bool \<Rightarrow> core_data \<Rightarrow> (u32 list \<times> core_data) option" where
  "GetRoleIDs relock = guarded relock (\<lambda>cd. Some (map fst (cd_mapRoleMapID cd), cd))"

definition GetOtherRoleIDs :: "bool \<Rightarrow> u32 \<Rightarrow> core_data \<Rightarrow> (u32 list \<times> core_data) option" where
  "GetOtherRoleIDs relock roleID =
     guarded relock (\<lambda>cd. Some (filter (\<lambda>k. k \<noteq> roleID) (map fst (cd_mapRoleMapID cd)), cd))"

type_synonym role_ptr = "(nat \<times> u32) option"

definition Map_GetRolePtr :: "nat \<Rightarrow> u32 \<Rightarrow> core_data \<Rightarrow> role_ptr" where
  "Map_GetRolePtr i roleID cd =
     (if i < length (cd_vecMap cd) then
        case smap_find roleID (gm_mapRole (cd_vecMap cd ! i)) of Some _ \<Rightarrow> Some (i, roleID) | None \<Rightarrow> None
      else None)"

definition ProcessGetRolePtr :: "bool \<Rightarrow> u32 \<Rightarrow> core_data \<Rightarrow> (role_ptr \<times> core_data) option" where
  "ProcessGetRolePtr relock roleID cd = do {
     (mapID, cd1) \<leftarrow> FindRoleMapID relock roleID cd;
     if mapID = 0 then Some (None, cd1)
     else if CheckMapID mapID cd1 \<noteq> 0 then Some (None, cd1)
     else Some (Map_GetRolePtr (unat mapID - 1) roleID cd1, cd1)
   }"

text \<open>Reading and changing the object a pointer leads to.\<close>

definition deref :: "role_ptr \<Rightarrow> core_data \<Rightarrow> role" where
  "deref p cd =
     (case p of
        None \<Rightarrow> Role_new 0 0
      | Some (i, k) \<Rightarrow> (case smap_find k (gm_mapRole (cd_vecMap cd ! i)) of Some r \<Rightarrow> r | None \<Rightarrow> Role_new 0 0))"

definition upd_role :: "role_ptr \<Rightarrow> (role \<Rightarrow> role) \<Rightarrow> core_data \<Rightarrow> core_data" where
  "upd_role p f cd =
     (case p of
        None \<Rightarrow> cd
      | Some (i, k) \<Rightarrow>
          let m = cd_vecMap cd ! i
          in cd\<lparr>cd_vecMap := (cd_vecMap cd)[i := m\<lparr>gm_mapRole := smap_put k (f (deref p cd)) (gm_mapRole m)\<rparr>]\<rparr>)"

section \<open>Teams\<close>

definition GetRoleTeamID :: "bool \<Rightarrow> u32 \<Rightarrow> core_data \<Rightarrow> ((int \<times> u32) \<times> core_data) option" where
  "GetRoleTeamID relock RoleID =
     guarded relock (\<lambda>cd. Some (case smap_find RoleID (cd_mapRoleTeam cd) of Some t \<Rightarrow> (0, t) | None \<Rightarrow> (- 1, 0), cd))"

definition GetTeams :: "bool \<Rightarrow> u32 \<Rightarrow> core_data \<Rightarrow> (team \<times> core_data) option" where
  "GetTeams relock teamID =
     guarded relock (\<lambda>cd. Some (case smap_find teamID (cd_mapTeam cd) of Some t \<Rightarrow> t | None \<Rightarrow> Team_new, cd))"

definition GetTeamsFromRoleID :: "bool \<Rightarrow> u32 \<Rightarrow> core_data \<Rightarrow> (team \<times> core_data) option" where
  "GetTeamsFromRoleID relock RoleID =
     guarded relock (\<lambda>cd. Some
       (case smap_find RoleID (cd_mapRoleTeam cd) of
          None \<Rightarrow> Team_new
        | Some teamID \<Rightarrow> (case smap_find teamID (cd_mapTeam cd) of Some t \<Rightarrow> t | None \<Rightarrow> Team_new), cd))"

definition EraseRoleIDTeamID :: "u32 \<Rightarrow> core_data \<Rightarrow> core_data" where
  "EraseRoleIDTeamID roleID cd = cd\<lparr>cd_mapRoleTeam := smap_erase roleID (cd_mapRoleTeam cd)\<rparr>"

definition RoleTeamset :: "bool \<Rightarrow> u32 \<Rightarrow> u32 \<Rightarrow> u32 \<Rightarrow> u8 \<Rightarrow> core_data \<Rightarrow> (int \<times> core_data) option" where
  "RoleTeamset relock roleID teamID leaderID flag cd = do {
     (p, cd1) \<leftarrow> ProcessGetRolePtr relock roleID cd;
     Some (0, upd_role p (\<lambda>r. set_LeaderRoleID leaderID (set_TeamFlag flag (set_TeamID teamID r))) cd1)
   }"

definition AddTeamRole :: "bool \<Rightarrow> u32 \<Rightarrow> u32 \<Rightarrow> core_data \<Rightarrow> (int \<times> core_data) option" where
  "AddTeamRole relock teamID RoleID =
     guarded relock (\<lambda>cd.
       case smap_find teamID (cd_mapTeam cd) of
         None \<Rightarrow> Some (- 1, cd)
       | Some t \<Rightarrow> do {
           (_, cd1) \<leftarrow> RoleTeamset relock RoleID teamID (GetLeaderRoleID t) 1
             (cd\<lparr>cd_mapTeam := smap_put teamID (AddToTeam RoleID t) (cd_mapTeam cd),
                 cd_mapRoleTeam := smap_insert RoleID teamID (cd_mapRoleTeam cd)\<rparr>);
           Some (0, cd1)
         })"

definition CreateTeam :: "bool \<Rightarrow> u32 \<Rightarrow> u32 \<Rightarrow> core_data \<Rightarrow> (int \<times> core_data) option" where
  "CreateTeam relock Leader RoleID =
     guarded relock (\<lambda>cd.
       let n = cd_lastTeamID cd;
           t = set_team_TeamID n (AddToTeam RoleID (set_team_LeaderRoleID Leader (AddToTeam Leader Team_new)))
       in do {
         (_, cd1) \<leftarrow> RoleTeamset relock Leader n Leader 2
           (cd\<lparr>cd_mapTeam := smap_insert n t (cd_mapTeam cd),
               cd_mapRoleTeam := smap_insert RoleID n (smap_insert Leader n (cd_mapRoleTeam cd))\<rparr>);
         (_, cd2) \<leftarrow> RoleTeamset relock RoleID n Leader 1 cd1;
         Some (0, cd2\<lparr>cd_lastTeamID := cd_lastTeamID cd2 + 1\<rparr>)
       })"

fun clear_roles :: "bool \<Rightarrow> u32 list \<Rightarrow> core_data \<Rightarrow> core_data option" where
  "clear_roles relock [] cd = Some cd"
| "clear_roles relock (r # rs) cd = do {
     (_, cd1) \<leftarrow> RoleTeamset relock r 0 0 0 cd;
     clear_roles relock rs (EraseRoleIDTeamID r cd1)
   }"

text \<open>\<^verbatim>\<open>DeleteTeam\<close> is the one team operation without a guard.\<close>

definition DeleteTeam :: "bool \<Rightarrow> u32 \<Rightarrow> core_data \<Rightarrow> (int \<times> core_data) option" where
  "DeleteTeam relock teamID cd =
     (case smap_find teamID (cd_mapTeam cd) of
        None \<Rightarrow> Some (- 1, cd)
      | Some t \<Rightarrow> do {
          cd1 \<leftarrow> clear_roles relock (map tr_roleId (GetMemberRoleID t)) cd;
          Some (0, cd1\<lparr>cd_mapTeam := smap_erase teamID (cd_mapTeam cd1)\<rparr>)
        })"

definition DeleteTeamRole :: "bool \<Rightarrow> u32 \<Rightarrow> u32 \<Rightarrow> core_data \<Rightarrow> (int \<times> core_data) option" where
  "DeleteTeamRole relock teamID RoleID =
     guarded relock (\<lambda>cd.
       case smap_find teamID (cd_mapTeam cd) of
         None \<Rightarrow> Some (- 1, cd)
       | Some t \<Rightarrow>
           let t' = OutTheTeam RoleID t
           in do {
             (_, cd1) \<leftarrow> RoleTeamset relock RoleID 0 0 0
               (EraseRoleIDTeamID RoleID (cd\<lparr>cd_mapTeam := smap_put teamID t' (cd_mapTeam cd)\<rparr>));
             if GetMemberRoleID t' = []
             then do { (_, cd2) \<leftarrow> DeleteTeam relock teamID cd1; Some (0, cd2) }
             else Some (0, cd1)
           })"

definition ChangtoFlag :: "bool \<Rightarrow> u32 \<Rightarrow> u32 \<Rightarrow> u8 \<Rightarrow> core_data \<Rightarrow> (int \<times> core_data) option" where
  "ChangtoFlag relock teamID roleID type =
     guarded relock (\<lambda>cd. do {
       (p, cd1) \<leftarrow> ProcessGetRolePtr relock roleID cd;
       case smap_find teamID (cd_mapTeam cd1) of
         None \<Rightarrow> Some (- 1, cd1)
       | Some t \<Rightarrow>
           let cd2 = upd_role p (set_TeamFlag type) cd1
           in Some (0, cd2\<lparr>cd_mapTeam := smap_put teamID (changeRoleStues roleID type t) (cd_mapTeam cd2)\<rparr>)
     })"

fun tell_leader :: "bool \<Rightarrow> u32 \<Rightarrow> u32 list \<Rightarrow> core_data \<Rightarrow> core_data option" where
  "tell_leader relock leader [] cd = Some cd"
| "tell_leader relock leader (r # rs) cd = do {
     (p, cd1) \<leftarrow> ProcessGetRolePtr relock r cd;
     tell_leader relock leader rs (upd_role p (set_LeaderRoleID leader) cd1)
   }"

definition ChangtoBeLeader :: "bool \<Rightarrow> u32 \<Rightarrow> u32 \<Rightarrow> core_data \<Rightarrow> (int \<times> core_data) option" where
  "ChangtoBeLeader relock teamID RoleID =
     guarded relock (\<lambda>cd.
       case smap_find teamID (cd_mapTeam cd) of
         None \<Rightarrow> Some (- 1, cd)
       | Some t \<Rightarrow>
           if GetLeaderRoleID t = RoleID then Some (1, cd)
           else
             let t' = ChangToBeLeader RoleID t
             in do {
               cd1 \<leftarrow> tell_leader relock RoleID (map tr_roleId (GetMemberRoleID t'))
                 (cd\<lparr>cd_mapTeam := smap_put teamID t' (cd_mapTeam cd)\<rparr>);
               (p, cd2) \<leftarrow> ProcessGetRolePtr relock RoleID cd1;
               Some (0, upd_role p (set_TeamFlag 2) cd2)
             })"

section \<open>Fights\<close>

definition AddRolePKID :: "u32 \<Rightarrow> pk_brief \<Rightarrow> core_data \<Rightarrow> core_data" where
  "AddRolePKID pkID pkinfo cd =
     cd\<lparr>cd_mapRolePKID :=
       fold (\<lambda>r m. smap_insert r pkID (smap_erase r m)) (pk_player2 pkinfo)
         (fold (\<lambda>r m. smap_insert r pkID (smap_erase r m)) (pk_player1 pkinfo) (cd_mapRolePKID cd))\<rparr>"

definition AddPKBrif :: "bool \<Rightarrow> u32 \<Rightarrow> pk_brief \<Rightarrow> core_data \<Rightarrow> (unit \<times> core_data) option" where
  "AddPKBrif relock pkID pkinfo =
     guarded relock (\<lambda>cd. Some ((), AddRolePKID pkID pkinfo
       (cd\<lparr>cd_mapPkInfo := smap_insert pkID pkinfo (smap_erase pkID (cd_mapPkInfo cd))\<rparr>)))"

definition deleterolePKID :: "pk_brief \<Rightarrow> core_data \<Rightarrow> core_data" where
  "deleterolePKID pkinfo cd =
     cd\<lparr>cd_mapRolePKID := fold smap_erase (pk_player2 pkinfo) (fold smap_erase (pk_player1 pkinfo) (cd_mapRolePKID cd))\<rparr>"

definition DeletePkBrif :: "bool \<Rightarrow> u32 \<Rightarrow> core_data \<Rightarrow> (int \<times> core_data) option" where
  "DeletePkBrif relock pkID =
     guarded relock (\<lambda>cd.
       case smap_find pkID (cd_mapPkInfo cd) of
         None \<Rightarrow> Some (- 1, cd)
       | Some pkinfo \<Rightarrow>
           let cd1 = deleterolePKID pkinfo cd
           in Some (0, cd1\<lparr>cd_mapPkInfo := smap_erase pkID (cd_mapPkInfo cd1)\<rparr>))"

definition GetPkInfo :: "bool \<Rightarrow> u32 \<Rightarrow> core_data \<Rightarrow> (pk_brief \<times> core_data) option" where
  "GetPkInfo relock pkID =
     guarded relock (\<lambda>cd. Some (case smap_find pkID (cd_mapPkInfo cd) of Some p \<Rightarrow> p | None \<Rightarrow> PKBriefList_new, cd))"

definition IfRoleInPK :: "bool \<Rightarrow> u32 \<Rightarrow> core_data \<Rightarrow> (u32 \<times> core_data) option" where
  "IfRoleInPK relock roleID =
     guarded relock (\<lambda>cd. Some (case smap_find roleID (cd_mapRolePKID cd) of Some p \<Rightarrow> p | None \<Rightarrow> 0, cd))"

definition EraseRolePKID :: "bool \<Rightarrow> u32 \<Rightarrow> core_data \<Rightarrow> (unit \<times> core_data) option" where
  "EraseRolePKID relock roleID =
     guarded relock (\<lambda>cd. Some ((), cd\<lparr>cd_mapRolePKID := smap_erase roleID (cd_mapRolePKID cd)\<rparr>))"

end
