(* ===== verification/Team_Svc.thy ===== *)
theory Team_Svc
  imports Service_Packets Core_Data
begin

text \<open>
  \<^verbatim>\<open>MainServer/Team/TeamSvc.cpp\<close>, the service that answers the seven team requests, and
  \<^verbatim>\<open>CoreData::LogoutToTeam\<close>, which sends notifications of that service.

  A handler gives the messages it sends, in order, and the new core data; \<open>None\<close> is a thread that
  waits for a mutex it holds itself.  \<open>Reply\<close> is \<^verbatim>\<open>session.Send\<close> and \<open>Cast\<close>
  is \<^verbatim>\<open>GWProxy::Broadcast\<close> to a list of role ids; their results are only logged.
\<close>

datatype team_out = Reply "packet option" | Cast "u32 list" "packet option"

section \<open>Notifications\<close>

definition NotifyReceive :: "svc_env \<Rightarrow> u32 \<Rightarrow> u8 list \<Rightarrow> u32 list \<Rightarrow> team_out" where
  "NotifyReceive env RoleID name it =
     Cast it (notify_packet env 1401 123 (\<lambda>s. do { s1 \<leftarrow> put_UInt32 RoleID s; put_string name s1 }))"

definition NotifyTeamChang :: "svc_env \<Rightarrow> u32 \<Rightarrow> u8 \<Rightarrow> u32 list \<Rightarrow> team_out" where
  "NotifyTeamChang env RoleID changeType it =
     Cast it (notify_packet env 1402 123 (\<lambda>s. do { s1 \<leftarrow> put_UInt32 RoleID s; put_Byte changeType s1 }))"

definition NotifyCaptionCall :: "svc_env \<Rightarrow> u32 list \<Rightarrow> team_out" where
  "NotifyCaptionCall env it = Cast it (notify_packet env 1403 123 Some)"

definition NotifyRefuse :: "svc_env \<Rightarrow> u32 \<Rightarrow> u32 \<Rightarrow> team_out" where
  "NotifyRefuse env RoleID who = Cast [who] (notify_packet env 1404 123 (put_UInt32 RoleID))"

definition NotifyTeamInfo :: "svc_env \<Rightarrow> u32 \<Rightarrow> TeamRole list \<Rightarrow> team_out" where
  "NotifyTeamInfo env RoleID l = Cast [RoleID] (notify_packet env 1405 123 (put_List put_TeamRole l))"

definition ClientErrorAck :: "svc_env \<Rightarrow> packet \<Rightarrow> u32 \<Rightarrow> team_out" where
  "ClientErrorAck env req RetCode = Reply (reply_packet env req RetCode)"

section \<open>Requests\<close>

definition ProcessRequestjoin :: "bool \<Rightarrow> svc_env \<Rightarrow> packet \<Rightarrow> core_data \<Rightarrow> (team_out list \<times> core_data) option" where
  "ProcessRequestjoin relock env req cd =
     (let roleID = p_RoleID req;
          (who, s) = get_UInt32 0 (Serializer_new (p_buffer req));
          answer = (\<lambda>RetCode. [Reply (reply_packet env req RetCode)])
      in do {
        (pRole, cd1) \<leftarrow> ProcessGetRolePtr relock roleID cd;
        if GetErrorCode s \<noteq> 0 then Some (answer ERR_SYSTEM_SERERROR, cd1)
        else if who = 0 \<or> who = roleID then Some (answer 199, cd1)
        else if ID (deref pRole cd1) = 0 then Some (answer ERR_SYSTEM_DBNORECORD, cd1)
        else let name = Name (deref pRole cd1)
             in if TeamFlag (deref pRole cd1) = 0
                then do {
                  (pOther, cd2) \<leftarrow> ProcessGetRolePtr relock who cd1;
                  let leader = LeaderRoleID (deref pOther cd2);
                      target = (if leader = 0 then who else leader)
                  in Some (answer 0 @ [NotifyReceive env roleID name [target]], cd2)
                }
                else if TeamFlag (deref pRole cd1) = 2
                then do {
                  (pOther, cd2) \<leftarrow> ProcessGetRolePtr relock who cd1;
                  if TeamID (deref pOther cd2) \<noteq> 0 then Some (answer 200, cd2)
                  else Some (answer 0 @ [NotifyReceive env roleID name [who]], cd2)
                }
                else Some (answer 201, cd1)
      })"

text \<open>The flag of \<^verbatim>\<open>ProcessAnswerRequest\<close> says which notifications follow.\<close>

definition ProcessAnswerRequest :: "bool \<Rightarrow> svc_env \<Rightarrow> packet \<Rightarrow> core_data \<Rightarrow> (team_out list \<times> core_data) option" where
  "ProcessAnswerRequest relock env req cd =
     (let roleID = p_RoleID req;
          (who, s1) = get_UInt32 0 (Serializer_new (p_buffer req));
          (type, s2) = get_Byte 0 s1;
          answer = (\<lambda>RetCode. [Reply (reply_packet env req RetCode)])
      in if GetErrorCode s2 \<noteq> 0 then Some (answer ERR_SYSTEM_SERERROR, cd)
         else if type = 1
         then do {
           (team1, cd1) \<leftarrow> GetTeamsFromRoleID relock roleID cd;
           (team, cd2) \<leftarrow> GetTeamsFromRoleID relock who cd1;
           if GetLeaderRoleID team1 = roleID
           then if GetTeamID team = 0
                then do {
                  (iRet, cd3) \<leftarrow> AddTeamRole relock (GetTeamID team1) who cd2;
                  if iRet = - 1 then Some (answer 202, cd3)
                  else let li = GetMemberRoleID team1
                       in Some (answer 0 @
                            [NotifyTeamChang env who 1 (map tr_roleId li),
                             NotifyTeamInfo env who (li @ [\<lparr>tr_roleId = who, tr_status = 1\<rparr>])], cd3)
                }
                else Some (answer 203, cd2)
           else if GetTeamID team1 = 0
           then if GetTeamID team = 0
                then do {
                  (iRet, cd3) \<leftarrow> CreateTeam relock who roleID cd2;
                  let li = [\<lparr>tr_roleId = who, tr_status = 2\<rparr>, \<lparr>tr_roleId = roleID, tr_status = 1\<rparr>]
                  in Some (answer 0 @ [NotifyTeamInfo env who li, NotifyTeamInfo env roleID li], cd3)
                }
                else if GetLeaderRoleID team \<noteq> who then Some (answer 204, cd2)
                else do {
                  (iRet, cd3) \<leftarrow> AddTeamRole relock (GetTeamID team) roleID cd2;
                  if iRet = - 1 then Some (answer ERR_SYSTEM_SERERROR, cd3)
                  else let li = GetMemberRoleID team
                       in Some (answer 0 @
                            [NotifyTeamChang env roleID 1 (map tr_roleId li),
                             NotifyTeamInfo env roleID (li @ [\<lparr>tr_roleId = roleID, tr_status = 1\<rparr>])], cd3)
                }
           else Some (answer 0, cd2)
         }
         else Some (answer 0 @ [NotifyRefuse env roleID who], cd))"

definition ProcessChangeCaptain :: "bool \<Rightarrow> svc_env \<Rightarrow> packet \<Rightarrow> core_data \<Rightarrow> (team_out list \<times> core_data) option" where
  "ProcessChangeCaptain relock env req cd =
     (let roleID = p_RoleID req;
          (who, s) = get_UInt32 0 (Serializer_new (p_buffer req));
          answer = (\<lambda>RetCode. [Reply (reply_packet env req RetCode)])
      in if GetErrorCode s \<noteq> 0 then Some (answer ERR_SYSTEM_SERERROR, cd)
         else if who = 0 \<or> who = roleID then Some (answer ERR_SYSTEM_SERERROR, cd)
         else do {
           (team, cd1) \<leftarrow> GetTeamsFromRoleID relock roleID cd;
           if GetLeaderRoleID team \<noteq> roleID then Some (answer ERR_SYSTEM_SERERROR, cd1)
           else do {
             (iRet, cd2) \<leftarrow> ChangtoBeLeader relock (GetTeamID team) who cd1;
             if iRet \<noteq> 0 then Some (answer ERR_SYSTEM_SERERROR, cd2)
             else let it = map tr_roleId (GetMemberRoleID team)
                  in Some (answer 0 @ [NotifyTeamChang env who 2 it, NotifyTeamChang env roleID 1 it], cd2)
           }
         })"

definition ProcessCapt_Member :: "bool \<Rightarrow> svc_env \<Rightarrow> packet \<Rightarrow> core_data \<Rightarrow> (team_out list \<times> core_data) option" where
  "ProcessCapt_Member relock env req cd =
     (let roleID = p_RoleID req;
          (who, s) = get_UInt32 0 (Serializer_new (p_buffer req));
          answer = (\<lambda>RetCode. [Reply (reply_packet env req RetCode)])
      in if GetErrorCode s \<noteq> 0 then Some (answer ERR_SYSTEM_SERERROR, cd)
         else if who = 0 \<or> who = roleID then Some (answer ERR_SYSTEM_SERERROR, cd)
         else do {
           (team, cd1) \<leftarrow> GetTeamsFromRoleID relock roleID cd;
           if GetLeaderRoleID team \<noteq> roleID then Some (answer ERR_SYSTEM_SERERROR, cd1)
           else do {
             (iRet, cd2) \<leftarrow> DeleteTeamRole relock (GetTeamID team) who cd1;
             if iRet = - 1 then Some (answer ERR_SYSTEM_SERERROR, cd2)
             else Some (answer 0 @ [NotifyTeamChang env who 5 (map tr_roleId (GetMemberRoleID team))], cd2)
           }
         })"

text \<open>The search for the caller among the members looks for \<^verbatim>\<open>roleID\<close>, not for the role
  that is called.\<close>

definition ProcessCallMember :: "bool \<Rightarrow> svc_env \<Rightarrow> packet \<Rightarrow> core_data \<Rightarrow> (team_out list \<times> core_data) option" where
  "ProcessCallMember relock env req cd =
     (let roleID = p_RoleID req;
          (who, s) = get_UInt32 0 (Serializer_new (p_buffer req));
          answer = (\<lambda>RetCode. [Reply (reply_packet env req RetCode)])
      in if GetErrorCode s \<noteq> 0 then Some (answer ERR_SYSTEM_SERERROR, cd)
         else if who = 0 \<or> who = roleID then Some (answer ERR_SYSTEM_SERERROR, cd)
         else do {
           (team, cd1) \<leftarrow> GetTeamsFromRoleID relock roleID cd;
           if GetLeaderRoleID team \<noteq> roleID then Some (answer ERR_SYSTEM_SERERROR, cd1)
           else if roleID \<notin> set (map tr_roleId (GetMemberRoleID team))
           then Some (answer ERR_SYSTEM_SERERROR, cd1)
           else Some (answer 0 @ [NotifyCaptionCall env [who]], cd1)
         })"

definition ProcessMember_OUt :: "bool \<Rightarrow> svc_env \<Rightarrow> packet \<Rightarrow> core_data \<Rightarrow> (team_out list \<times> core_data) option" where
  "ProcessMember_OUt relock env req cd =
     (let roleID = p_RoleID req;
          s = Serializer_new (p_buffer req);
          answer = (\<lambda>RetCode. [Reply (reply_packet env req RetCode)])
      in if GetErrorCode s \<noteq> 0 then Some (answer ERR_SYSTEM_SERERROR, cd)
         else do {
           (team, cd1) \<leftarrow> GetTeamsFromRoleID relock roleID cd;
           let teamID = GetTeamID team; li = map tr_roleId (GetMemberRoleID team)
           in if teamID = 0 then Some (answer ERR_SYSTEM_SERERROR, cd1)
              else let heir = (if GetLeaderRoleID team = roleID \<and> 1 < length li
                               then case filter (\<lambda>r. r \<noteq> roleID) li of [] \<Rightarrow> 0 | r # _ \<Rightarrow> r
                               else 0)
                   in do {
                     (_, cd2) \<leftarrow> (if heir \<noteq> 0 then ChangtoBeLeader relock teamID heir cd1 else Some (0, cd1));
                     (iRet, cd3) \<leftarrow> DeleteTeamRole relock teamID roleID cd2;
                     let it = filter (\<lambda>r. roleID \<noteq> r) li
                     in Some (answer 0 @ [NotifyTeamChang env roleID 5 it] @
                          (if heir \<noteq> 0 then [NotifyTeamChang env heir 2 it] else []), cd3)
                   }
         })"

definition ProcessBackOrleave :: "bool \<Rightarrow> svc_env \<Rightarrow> packet \<Rightarrow> core_data \<Rightarrow> (team_out list \<times> core_data) option" where
  "ProcessBackOrleave relock env req cd =
     (let roleID = p_RoleID req;
          (oPflag, s) = get_Byte 0 (Serializer_new (p_buffer req));
          answer = (\<lambda>RetCode. [Reply (reply_packet env req RetCode)])
      in if GetErrorCode s \<noteq> 0 then Some (answer ERR_SYSTEM_SERERROR, cd)
         else do {
           (team, cd1) \<leftarrow> GetTeamsFromRoleID relock roleID cd;
           (_, cd2) \<leftarrow> (if oPflag = 1 then ChangtoFlag relock (GetTeamID team) roleID 1 cd1
                        else if oPflag = 2 then ChangtoFlag relock (GetTeamID team) roleID 2 cd1
                        else Some (0, cd1));
           let it = (if oPflag \<noteq> 0 then map tr_roleId (GetMemberRoleID team) else [])
           in Some (answer 0 @
                (if oPflag = 0 then [NotifyTeamChang env roleID 4 it] else []) @
                (if oPflag = 1 then [NotifyTeamChang env roleID 1 it] else []) @
                (if oPflag = 2 then [NotifyTeamChang env roleID 3 it] else []), cd2)
         })"

definition OnProcessPacket :: "bool \<Rightarrow> svc_env \<Rightarrow> packet \<Rightarrow> core_data \<Rightarrow> (team_out list \<times> core_data) option" where
  "OnProcessPacket relock env req cd =
     (if p_MsgType req = 1401 then ProcessRequestjoin relock env req cd
      else if p_MsgType req = 1402 then ProcessAnswerRequest relock env req cd
      else if p_MsgType req = 1403 then ProcessChangeCaptain relock env req cd
      else if p_MsgType req = 1404 then ProcessCallMember relock env req cd
      else if p_MsgType req = 1405 then ProcessCapt_Member relock env req cd
      else if p_MsgType req = 1406 then ProcessMember_OUt relock env req cd
      else if p_MsgType req = 1407 then ProcessBackOrleave relock env req cd
      else Some ([ClientErrorAck env req ERR_SYSTEM_PARAM], cd))"

section \<open>Logging out of a team\<close>

text \<open>When the leader leaves, the first member that remains leads.\<close>

definition LogoutToTeam :: "bool \<Rightarrow> svc_env \<Rightarrow> u32 \<Rightarrow> u32 \<Rightarrow> core_data \<Rightarrow> ((int \<times> team_out list) \<times> core_data) option" where
  "LogoutToTeam relock env teamID roleID cd =
     (case smap_find teamID (cd_mapTeam cd) of
        None \<Rightarrow> Some ((- 1, []), cd)
      | Some t \<Rightarrow>
          let t1 = OutTheTeam roleID t;
              cd1 = EraseRoleIDTeamID roleID (cd\<lparr>cd_mapTeam := smap_put teamID t1 (cd_mapTeam cd)\<rparr>);
              ito = map tr_roleId (GetMemberRoleID t1)
          in case ito of
               [] \<Rightarrow> do { (_, cd2) \<leftarrow> DeleteTeam relock teamID cd1; Some ((0, []), cd2) }
             | heir # _ \<Rightarrow>
                 if roleID = GetLeaderRoleID t1
                 then do {
                   (p, cd2) \<leftarrow> ProcessGetRolePtr relock heir cd1;
                   let cd3 = (upd_role p (set_TeamFlag 2) cd2)
                               \<lparr>cd_mapTeam := smap_put teamID (ChangToBeLeader heir t1) (cd_mapTeam cd2)\<rparr>
                   in do {
                     cd4 \<leftarrow> tell_leader relock heir ito cd3;
                     Some ((0, [NotifyTeamChang env roleID 5 ito, NotifyTeamChang env heir 2 ito]), cd4)
                   }
                 }
                 else Some ((0, [NotifyTeamChang env roleID 5 ito]), cd1))"

end
