(* ===== verification/Core_Teams.thy ===== *)
theory Core_Teams
  imports Core_Data
begin

text \<open>
  Properties of the team tables of \<^verbatim>\<open>CoreData\<close>: which operations block on a mutex that
  cannot be locked twice, and the invariant that every operation keeps when it returns.
  \<open>core_invariant\<close> is the interface between the two: a statement about the tables that depends
  neither on who holds the mutex nor on the role objects.
\<close>

section \<open>Blocking\<close>

lemma ProcessGetRolePtr_blocks: "0 < cd_held cd \<Longrightarrow> ProcessGetRolePtr False r cd = None"
  by (simp add: ProcessGetRolePtr_def FindRoleMapID_def guarded_def)

lemma RoleTeamset_blocks: "0 < cd_held cd \<Longrightarrow> RoleTeamset False r t l f cd = None"
  by (simp add: RoleTeamset_def ProcessGetRolePtr_blocks)

lemma tell_leader_held: "0 < cd_held cd \<Longrightarrow> tell_leader False l rs cd \<noteq> None \<Longrightarrow> rs = []"
  by (cases rs) (simp_all add: ProcessGetRolePtr_blocks)

lemma CreateTeam_blocks: "CreateTeam False leader r cd = None"
  by (simp add: CreateTeam_def guarded_def RoleTeamset_blocks Let_def)

lemma ChangtoFlag_blocks: "ChangtoFlag False t r f cd = None"
  by (simp add: ChangtoFlag_def guarded_def ProcessGetRolePtr_blocks)

lemma AddTeamRole_blocks:
  "AddTeamRole False t r cd =
     (if cd_held cd = 0 \<and> smap_find t (cd_mapTeam cd) = None then Some (- 1, cd) else None)"
  by (auto simp: AddTeamRole_def guarded_def RoleTeamset_blocks split: option.splits)

lemma DeleteTeamRole_blocks:
  "DeleteTeamRole False t r cd =
     (if cd_held cd = 0 \<and> smap_find t (cd_mapTeam cd) = None then Some (- 1, cd) else None)"
  by (auto simp: DeleteTeamRole_def guarded_def RoleTeamset_blocks EraseRoleIDTeamID_def Let_def
    split: option.splits)

lemma ChangtoBeLeader_blocks:
  "ChangtoBeLeader False t r cd =
     (if cd_held cd \<noteq> 0 then None
      else case smap_find t (cd_mapTeam cd) of
          None \<Rightarrow> Some (- 1, cd)
        | Some T \<Rightarrow> if tm_leaderRoleID T = r then Some (1, cd) else None)"
proof (cases "map tr_roleId (GetMemberRoleID (ChangToBeLeader r (the (smap_find t (cd_mapTeam cd)))))")
  case Nil
  then show ?thesis
    by (auto simp: ChangtoBeLeader_def guarded_def GetLeaderRoleID_def ProcessGetRolePtr_blocks Let_def
      split: option.splits)
next
  case (Cons m ms)
  then show ?thesis
    by (auto simp: ChangtoBeLeader_def guarded_def GetLeaderRoleID_def ProcessGetRolePtr_blocks Let_def
      split: option.splits)
qed

text \<open>
  C34: on a mutex that its owner cannot lock again, the default on Linux, the team operations block
  the thread for ever: \<^verbatim>\<open>CreateTeam\<close> and \<^verbatim>\<open>ChangtoFlag\<close> always,
  \<^verbatim>\<open>AddTeamRole\<close>, \<^verbatim>\<open>DeleteTeamRole\<close> and \<^verbatim>\<open>ChangtoBeLeader\<close>
  whenever the team exists, the last unless the role leads already.  Each of them holds
  \<^verbatim>\<open>mutex_\<close> when it looks up a role, and \<^verbatim>\<open>FindRoleMapID\<close> locks it again.
\<close>

theorem team_operations_deadlock:
  "CreateTeam False leader r cd = None
   \<and> ChangtoFlag False t r f cd = None
   \<and> AddTeamRole False t r cd =
       (if cd_held cd = 0 \<and> smap_find t (cd_mapTeam cd) = None then Some (- 1, cd) else None)
   \<and> DeleteTeamRole False t r cd =
       (if cd_held cd = 0 \<and> smap_find t (cd_mapTeam cd) = None then Some (- 1, cd) else None)
   \<and> ChangtoBeLeader False t r cd =
       (if cd_held cd \<noteq> 0 then None
        else case smap_find t (cd_mapTeam cd) of
            None \<Rightarrow> Some (- 1, cd)
          | Some T \<Rightarrow> if tm_leaderRoleID T = r then Some (1, cd) else None)"
  by (simp add: CreateTeam_blocks ChangtoFlag_blocks AddTeamRole_blocks DeleteTeamRole_blocks
    ChangtoBeLeader_blocks)

section \<open>Statements that every operation keeps\<close>

definition keeps :: "(core_data \<Rightarrow> bool) \<Rightarrow> (core_data \<Rightarrow> ('a \<times> core_data) option) \<Rightarrow> bool" where
  "keeps P f = (\<forall>cd r cd'. P cd \<longrightarrow> f cd = Some (r, cd') \<longrightarrow> P cd')"

lemma keepsD: "keeps P f \<Longrightarrow> P cd \<Longrightarrow> f cd = Some (r, cd') \<Longrightarrow> P cd'"
  unfolding keeps_def by blast

locale core_invariant =
  fixes P :: "core_data \<Rightarrow> bool"
  assumes held: "P (cd\<lparr>cd_held := n\<rparr>) = P cd"
    and vecMap: "P (cd\<lparr>cd_vecMap := v\<rparr>) = P cd"
begin

lemma keeps_guarded: "keeps P f \<Longrightarrow> keeps P (guarded relock f)"
  unfolding keeps_def guarded_def by (auto simp: held split: if_splits) (metis held)+

lemma upd_role: "P (upd_role p f cd) = P cd"
  by (simp add: upd_role_def vecMap Let_def split: option.split prod.split)

lemma keeps_FindRoleMapID: "keeps P (FindRoleMapID relock r)"
  unfolding FindRoleMapID_def by (rule keeps_guarded) (simp add: keeps_def)

lemma keeps_ProcessGetRolePtr: "keeps P (ProcessGetRolePtr relock r)"
  unfolding ProcessGetRolePtr_def keeps_def
  using keepsD [OF keeps_FindRoleMapID] by (fastforce simp: Option.bind_eq_Some_conv split: if_splits)

lemma keeps_RoleTeamset: "keeps P (RoleTeamset relock r t l f)"
  unfolding RoleTeamset_def keeps_def
  using keepsD [OF keeps_ProcessGetRolePtr] by (fastforce simp: Option.bind_eq_Some_conv upd_role)

lemma keeps_GetTeamsFromRoleID: "keeps P (GetTeamsFromRoleID relock r)"
  unfolding GetTeamsFromRoleID_def by (rule keeps_guarded) (simp add: keeps_def)

lemma tell_leader: "P cd \<Longrightarrow> tell_leader relock l rs cd = Some cd' \<Longrightarrow> P cd'"
proof (induction rs arbitrary: cd)
  case (Cons r rs)
  then obtain p cd1 where "ProcessGetRolePtr relock r cd = Some (p, cd1)"
    and rest: "tell_leader relock l rs (upd_role p (set_LeaderRoleID l) cd1) = Some cd'"
    by (auto simp: Option.bind_eq_Some_conv)
  then have "P (upd_role p (set_LeaderRoleID l) cd1)"
    using keepsD [OF keeps_ProcessGetRolePtr Cons.prems(1)] by (simp add: upd_role)
  then show ?case
    using rest by (rule Cons.IH)
qed simp

end

section \<open>The tables agree\<close>

text \<open>
  Team numbers lie between 1 and the next number, which is at most \<open>n\<close>; a team is filed under its
  own number and has a member; and a role filed under a team is one of its members.
\<close>

definition teams_ok :: "nat \<Rightarrow> core_data \<Rightarrow> bool" where
  "teams_ok n cd =
     (0 < unat (cd_lastTeamID cd) \<and> unat (cd_lastTeamID cd) \<le> n
      \<and> (\<forall>t T. smap_find t (cd_mapTeam cd) = Some T \<longrightarrow>
            tm_teamID T = t \<and> t \<noteq> 0 \<and> t < cd_lastTeamID cd \<and> member_ids T \<noteq> [])
      \<and> (\<forall>r t. smap_find r (cd_mapRoleTeam cd) = Some t \<longrightarrow>
            (\<exists>T. smap_find t (cd_mapTeam cd) = Some T \<and> r \<in> set (member_ids T))))"

interpretation tables: core_invariant "teams_ok n"
  by unfold_locales (simp_all add: teams_ok_def)

interpretation creating: core_invariant "\<lambda>cd. teams_ok n (cd\<lparr>cd_lastTeamID := cd_lastTeamID cd + 1\<rparr>)"
  by unfold_locales (simp_all add: teams_ok_def)

text \<open>The three tables themselves: what touches only roles and the mutex leaves them as they are.\<close>

definition team_tables :: "core_data \<Rightarrow> (u32, team) smap \<times> (u32, u32) smap \<times> u32" where
  "team_tables cd = (cd_mapTeam cd, cd_mapRoleTeam cd, cd_lastTeamID cd)"

interpretation same: core_invariant "\<lambda>cd. team_tables cd = x"
  by unfold_locales (simp_all add: team_tables_def)

lemma teams_ok_tables: "team_tables cd = team_tables cd' \<Longrightarrow> teams_ok n cd = teams_ok n cd'"
  by (simp add: teams_ok_def team_tables_def)

lemma RoleTeamset_tables: "RoleTeamset relock r t l f cd = Some (x, cd') \<Longrightarrow> team_tables cd' = team_tables cd"
  by (rule keepsD [OF same.keeps_RoleTeamset refl])

lemma teams_ok_mono: "teams_ok n cd \<Longrightarrow> n \<le> m \<Longrightarrow> teams_ok m cd"
  by (auto simp: teams_ok_def)

lemma teams_ok_team:
  "teams_ok n cd \<Longrightarrow> smap_find t (cd_mapTeam cd) = Some T \<Longrightarrow>
    tm_teamID T = t \<and> t \<noteq> 0 \<and> t < cd_lastTeamID cd \<and> member_ids T \<noteq> []"
  unfolding teams_ok_def by blast

lemma teams_ok_role:
  "teams_ok n cd \<Longrightarrow> smap_find r (cd_mapRoleTeam cd) = Some t \<Longrightarrow>
    \<exists>T. smap_find t (cd_mapTeam cd) = Some T \<and> r \<in> set (member_ids T)"
  unfolding teams_ok_def by blast

lemma member_ids_GetMemberRoleID: "map tr_roleId (GetMemberRoleID t) = member_ids t"
  by (simp add: GetMemberRoleID_def member_ids_def)

text \<open>A team may be replaced by one with the same number whose members include those filed under it.\<close>

lemma teams_ok_put:
  assumes "teams_ok n cd" and "smap_find t (cd_mapTeam cd) = Some T"
    and "tm_teamID T' = t" and "member_ids T' \<noteq> []"
    and "\<And>r. smap_find r M = Some t \<Longrightarrow> r \<in> set (member_ids T')"
    and "\<And>r s. smap_find r M = Some s \<Longrightarrow> s \<noteq> t \<Longrightarrow> smap_find r (cd_mapRoleTeam cd) = Some s"
  shows "teams_ok n (cd\<lparr>cd_mapTeam := smap_put t T' (cd_mapTeam cd), cd_mapRoleTeam := M\<rparr>)"
  using assms by (fastforce simp: teams_ok_def smap_find_put)

lemma teams_ok_same_members:
  assumes "teams_ok n cd" and "smap_find t (cd_mapTeam cd) = Some T"
    and "tm_teamID T' = tm_teamID T" and "member_ids T' = member_ids T"
  shows "teams_ok n (cd\<lparr>cd_mapTeam := smap_put t T' (cd_mapTeam cd)\<rparr>)"
  using assms by (fastforce simp: teams_ok_def smap_find_put)

lemma keeps_AddTeamRole: "keeps (teams_ok n) (AddTeamRole relock t r)"
  unfolding AddTeamRole_def
proof (rule tables.keeps_guarded, unfold keeps_def, intro allI impI)
  fix cd x cd'
  assume ok: "teams_ok n cd"
    and run: "(case smap_find t (cd_mapTeam cd) of
        None \<Rightarrow> Some (- 1, cd)
      | Some T \<Rightarrow> do {
          (_, cd1) \<leftarrow> RoleTeamset relock r t (GetLeaderRoleID T) 1
            (cd\<lparr>cd_mapTeam := smap_put t (AddToTeam r T) (cd_mapTeam cd),
                cd_mapRoleTeam := smap_insert r t (cd_mapRoleTeam cd)\<rparr>);
          Some (0, cd1)
        }) = Some (x, cd')"
  show "teams_ok n cd'"
  proof (cases "smap_find t (cd_mapTeam cd)")
    case None
    with ok run show ?thesis by simp
  next
    case (Some T)
    have "teams_ok n (cd\<lparr>cd_mapTeam := smap_put t (AddToTeam r T) (cd_mapTeam cd),
                cd_mapRoleTeam := smap_insert r t (cd_mapRoleTeam cd)\<rparr>)"
      using ok Some teams_ok_role [OF ok] teams_ok_team [OF ok Some]
      by (intro teams_ok_put) (fastforce simp: smap_find_insert split: if_splits)+
    then show ?thesis
      using run Some keepsD [OF tables.keeps_RoleTeamset]
      by (fastforce simp: Option.bind_eq_Some_conv)
  qed
qed

lemma unat_next:
  assumes "unat (v :: u32) < 4294967295"
  shows "unat (v + 1) = Suc (unat v)" and "w < v + 1 \<longleftrightarrow> w < v \<or> w = v"
proof -
  show n: "unat (v + 1) = Suc (unat v)"
    using assms unat_add_lem [of v 1] by simp
  show "w < v + 1 \<longleftrightarrow> w < v \<or> w = v"
    by (simp only: word_less_nat_alt n less_Suc_eq word_unat_eq_iff)
qed

lemma teams_ok_new:
  assumes "teams_ok n cd" and "n < 4294967295"
    and "tm_teamID T = cd_lastTeamID cd" and "member_ids T = [l, r]"
  shows "teams_ok (Suc n) (cd\<lparr>cd_mapTeam := smap_insert (cd_lastTeamID cd) T (cd_mapTeam cd),
    cd_mapRoleTeam := smap_insert r (cd_lastTeamID cd) (smap_insert l (cd_lastTeamID cd) (cd_mapRoleTeam cd)),
    cd_lastTeamID := cd_lastTeamID cd + 1\<rparr>)"
proof -
  let ?n = "cd_lastTeamID cd"
  have small: "unat ?n < 4294967295" and pos: "0 < unat ?n"
    using assms(1,2) by (auto simp: teams_ok_def)
  have new: "smap_find ?n (cd_mapTeam cd) = None"
    using teams_ok_team [OF assms(1), of ?n] by (cases "smap_find ?n (cd_mapTeam cd)") auto
  have old: "t \<noteq> ?n" if "smap_find t (cd_mapTeam cd) = Some T'" for t T'
    using that new by auto
  have team: "tm_teamID T' = t \<and> t \<noteq> 0 \<and> t < ?n + 1 \<and> member_ids T' \<noteq> []"
    if "smap_find t (smap_insert ?n T (cd_mapTeam cd)) = Some T'" for t T'
    using that new teams_ok_team [OF assms(1), of t T'] assms(3,4) pos
    by (auto simp: smap_find_insert unat_next(2) [OF small] split: if_splits)
  have role: "\<exists>T'. smap_find t (smap_insert ?n T (cd_mapTeam cd)) = Some T' \<and> p \<in> set (member_ids T')"
    if "smap_find p (smap_insert r ?n (smap_insert l ?n (cd_mapRoleTeam cd))) = Some t" for p t
    using that new teams_ok_role [OF assms(1), of p t] assms(4) old
    by (auto simp: smap_find_insert split: if_splits)
  have "unat (?n + 1) \<le> Suc n"
    using assms(1) unat_next(1) [OF small] by (auto simp: teams_ok_def)
  moreover have "0 < unat (?n + 1)"
    by (simp only: unat_next(1) [OF small])
  ultimately show ?thesis
    using team role by (simp add: teams_ok_def)
qed

lemma keeps_CreateTeam:
  assumes "teams_ok n cd" and "n < 4294967295" and "CreateTeam relock l r cd = Some (x, cd')"
  shows "teams_ok (Suc n) cd'"
proof -
  let ?n = "cd_lastTeamID cd"
  let ?T = "set_team_TeamID ?n (AddToTeam r (set_team_LeaderRoleID l (AddToTeam l Team_new)))"
  let ?cd0 = "cd\<lparr>cd_held := Suc (cd_held cd), cd_mapTeam := smap_insert ?n ?T (cd_mapTeam cd),
    cd_mapRoleTeam := smap_insert r ?n (smap_insert l ?n (cd_mapRoleTeam cd))\<rparr>"
  have "teams_ok (Suc n) (?cd0\<lparr>cd_lastTeamID := cd_lastTeamID ?cd0 + 1\<rparr>)"
    using teams_ok_new [of n "cd\<lparr>cd_held := Suc (cd_held cd)\<rparr>" ?T l r] assms(1,2)
    by (simp add: tables.held)
  moreover obtain x1 cd1 x2 cd2 where
    "RoleTeamset relock l ?n l 2 ?cd0 = Some (x1, cd1)"
    "RoleTeamset relock r ?n l 1 cd1 = Some (x2, cd2)"
    and cd': "cd' = cd2\<lparr>cd_lastTeamID := cd_lastTeamID cd2 + 1, cd_held := cd_held cd2 - 1\<rparr>"
    using assms(3) by (auto simp: CreateTeam_def guarded_def Let_def Option.bind_eq_Some_conv split: if_splits)
  ultimately have "teams_ok (Suc n) (cd2\<lparr>cd_lastTeamID := cd_lastTeamID cd2 + 1\<rparr>)"
    using keepsD [OF creating.keeps_RoleTeamset] by blast
  then show ?thesis
    by (simp add: cd' teams_ok_def)
qed

text \<open>Deleting a team: its members lose their entries, whatever else they were filed under.\<close>

lemma clear_roles_tables:
  assumes "clear_roles relock rs cd = Some cd'"
  shows "cd_mapTeam cd' = cd_mapTeam cd \<and> cd_lastTeamID cd' = cd_lastTeamID cd
    \<and> smap_find p (cd_mapRoleTeam cd') = (if p \<in> set rs then None else smap_find p (cd_mapRoleTeam cd))"
  using assms
proof (induction rs arbitrary: cd)
  case (Cons r rs)
  from Cons.prems obtain x cd1 where step: "RoleTeamset relock r 0 0 0 cd = Some (x, cd1)"
    and rest: "clear_roles relock rs (EraseRoleIDTeamID r cd1) = Some cd'"
    by (auto simp: Option.bind_eq_Some_conv)
  show ?case
    using Cons.IH [OF rest] RoleTeamset_tables [OF step]
    by (simp add: EraseRoleIDTeamID_def team_tables_def smap_find_erase)
qed simp

lemma keeps_DeleteTeam: "keeps (teams_ok n) (DeleteTeam relock t)"
  unfolding keeps_def
proof (intro allI impI)
  fix cd x cd'
  assume ok: "teams_ok n cd" and run: "DeleteTeam relock t cd = Some (x, cd')"
  show "teams_ok n cd'"
  proof (cases "smap_find t (cd_mapTeam cd)")
    case None
    with ok run show ?thesis by (simp add: DeleteTeam_def)
  next
    case (Some T)
    with run obtain cd1 where clear: "clear_roles relock (member_ids T) cd = Some cd1"
      and cd': "cd' = cd1\<lparr>cd_mapTeam := smap_erase t (cd_mapTeam cd1)\<rparr>"
      by (auto simp: DeleteTeam_def member_ids_GetMemberRoleID Option.bind_eq_Some_conv)
    have "\<exists>T'. smap_find s (smap_erase t (cd_mapTeam cd)) = Some T' \<and> p \<in> set (member_ids T')"
      if "smap_find p (cd_mapRoleTeam cd1) = Some s" for p s
      using that teams_ok_role [OF ok, of p s] Some
      by (auto simp: clear_roles_tables [OF clear] smap_find_erase split: if_splits)
    then show ?thesis
      using ok by (simp add: cd' teams_ok_def clear_roles_tables [OF clear] smap_find_erase)
  qed
qed

text \<open>After \<^verbatim>\<open>OutTheTeam\<close> and \<^verbatim>\<open>EraseRoleIDTeamID\<close> the tables agree, but a team
  may be empty: what \<^verbatim>\<open>DeleteTeam\<close> then removes.\<close>

definition out_of :: "u32 \<Rightarrow> team \<Rightarrow> u32 \<Rightarrow> core_data \<Rightarrow> core_data" where
  "out_of t T r cd = cd\<lparr>cd_mapTeam := smap_put t (OutTheTeam r T) (cd_mapTeam cd),
     cd_mapRoleTeam := smap_erase r (cd_mapRoleTeam cd)\<rparr>"

lemma teams_ok_out:
  assumes "teams_ok n cd" and "smap_find t (cd_mapTeam cd) = Some T" and "member_ids (OutTheTeam r T) \<noteq> []"
  shows "teams_ok n (out_of t T r cd)"
  unfolding out_of_def
  using assms teams_ok_role [OF assms(1)] teams_ok_team [OF assms(1,2)]
  by (intro teams_ok_put) (fastforce simp: smap_find_erase in_set_remove1 split: if_splits)+

lemma teams_ok_out_empty:
  assumes ok: "teams_ok n cd" and t: "smap_find t (cd_mapTeam cd) = Some T"
    and none: "member_ids (OutTheTeam r T) = []"
    and same: "team_tables cd1 = team_tables (out_of t T r cd)"
    and run: "DeleteTeam relock t cd1 = Some (x, cd')"
  shows "teams_ok n cd'"
proof -
  have "smap_find t (cd_mapTeam cd1) = Some (OutTheTeam r T)"
    and tabs: "cd_mapTeam cd1 = smap_put t (OutTheTeam r T) (cd_mapTeam cd)"
      "cd_mapRoleTeam cd1 = smap_erase r (cd_mapRoleTeam cd)" "cd_lastTeamID cd1 = cd_lastTeamID cd"
    using same by (simp_all add: team_tables_def out_of_def smap_find_put)
  then have cd': "cd' = cd1\<lparr>cd_mapTeam := smap_erase t (cd_mapTeam cd1)\<rparr>"
    using run none by (simp add: DeleteTeam_def member_ids_GetMemberRoleID)
  have "\<exists>T'. smap_find s (smap_erase t (cd_mapTeam cd1)) = Some T' \<and> p \<in> set (member_ids T')"
    if "smap_find p (smap_erase r (cd_mapRoleTeam cd)) = Some s" for p s
  proof -
    have p: "p \<noteq> r" "smap_find p (cd_mapRoleTeam cd) = Some s"
      using that by (auto simp: smap_find_erase split: if_splits)
    from teams_ok_role [OF ok p(2)] obtain T' where T': "smap_find s (cd_mapTeam cd) = Some T'" "p \<in> set (member_ids T')"
      by blast
    moreover have "s \<noteq> t"
    proof
      assume "s = t"
      then have "p \<in> set (remove1 r (member_ids T))"
        using T' t p(1) by (simp add: in_set_remove1)
      then show False
        using none by simp
    qed
    ultimately show ?thesis
      by (simp add: tabs smap_find_erase smap_find_put)
  qed
  then show ?thesis
    using ok by (simp add: cd' teams_ok_def tabs smap_find_erase smap_find_put)
qed

lemma keeps_DeleteTeamRole: "keeps (teams_ok n) (DeleteTeamRole relock t r)"
  unfolding DeleteTeamRole_def
proof (rule tables.keeps_guarded, unfold keeps_def, intro allI impI)
  fix cd x cd'
  assume ok: "teams_ok n cd"
    and run: "(case smap_find t (cd_mapTeam cd) of
        None \<Rightarrow> Some (- 1, cd)
      | Some T \<Rightarrow>
          let T' = OutTheTeam r T
          in do {
            (_, cd1) \<leftarrow> RoleTeamset relock r 0 0 0
              (EraseRoleIDTeamID r (cd\<lparr>cd_mapTeam := smap_put t T' (cd_mapTeam cd)\<rparr>));
            if GetMemberRoleID T' = []
            then do { (_, cd2) \<leftarrow> DeleteTeam relock t cd1; Some (0, cd2) }
            else Some (0, cd1)
          }) = Some (x, cd')"
  show "teams_ok n cd'"
  proof (cases "smap_find t (cd_mapTeam cd)")
    case None
    with ok run show ?thesis by simp
  next
    case (Some T)
    have "EraseRoleIDTeamID r (cd\<lparr>cd_mapTeam := smap_put t (OutTheTeam r T) (cd_mapTeam cd)\<rparr>) = out_of t T r cd"
      by (simp add: EraseRoleIDTeamID_def out_of_def)
    with run Some obtain y cd1 where step: "RoleTeamset relock r 0 0 0 (out_of t T r cd) = Some (y, cd1)"
      and rest: "(if GetMemberRoleID (OutTheTeam r T) = []
            then do { (_, cd2) \<leftarrow> DeleteTeam relock t cd1; Some (0, cd2) } else Some (0, cd1)) = Some (x, cd')"
      by (auto simp: Let_def Option.bind_eq_Some_conv)
    note same = RoleTeamset_tables [OF step]
    show ?thesis
    proof (cases "GetMemberRoleID (OutTheTeam r T) = []")
      case True
      then have "member_ids (OutTheTeam r T) = []"
        by (simp flip: member_ids_GetMemberRoleID)
      then show ?thesis
        using rest True teams_ok_out_empty [OF ok Some _ same] by (auto simp: Option.bind_eq_Some_conv)
    next
      case False
      then have "teams_ok n (out_of t T r cd)"
        using teams_ok_out [OF ok Some, of r] by (simp flip: member_ids_GetMemberRoleID)
      then show ?thesis
        using rest False teams_ok_tables [OF same] by simp
    qed
  qed
qed

lemma upd_role_tables [simp]:
  "cd_mapTeam (upd_role p f cd) = cd_mapTeam cd" "cd_mapRoleTeam (upd_role p f cd) = cd_mapRoleTeam cd"
  "cd_lastTeamID (upd_role p f cd) = cd_lastTeamID cd"
  by (simp_all add: upd_role_def Let_def split: option.split prod.split)

lemma ProcessGetRolePtr_tables: "ProcessGetRolePtr relock r cd = Some (p, cd') \<Longrightarrow> team_tables cd' = team_tables cd"
  by (rule keepsD [OF same.keeps_ProcessGetRolePtr refl])

lemma keeps_ChangtoFlag: "keeps (teams_ok n) (ChangtoFlag relock t r f)"
  unfolding ChangtoFlag_def
proof (rule tables.keeps_guarded, unfold keeps_def, intro allI impI)
  fix cd x cd'
  assume ok: "teams_ok n cd"
    and run: "do {
       (p, cd1) \<leftarrow> ProcessGetRolePtr relock r cd;
       case smap_find t (cd_mapTeam cd1) of
         None \<Rightarrow> Some (- 1, cd1)
       | Some T \<Rightarrow>
           let cd2 = upd_role p (set_TeamFlag f) cd1
           in Some (0, cd2\<lparr>cd_mapTeam := smap_put t (changeRoleStues r f T) (cd_mapTeam cd2)\<rparr>)
     } = Some (x, cd')"
  then obtain p cd1 where find: "ProcessGetRolePtr relock r cd = Some (p, cd1)"
    by (auto simp: Option.bind_eq_Some_conv)
  have ok1: "teams_ok n cd1" and ok2: "teams_ok n (upd_role p (set_TeamFlag f) cd1)"
    using keepsD [OF tables.keeps_ProcessGetRolePtr ok find] by (simp_all add: tables.upd_role)
  show "teams_ok n cd'"
  proof (cases "smap_find t (cd_mapTeam cd1)")
    case None
    with ok1 run find show ?thesis by simp
  next
    case (Some T)
    then have "teams_ok n ((upd_role p (set_TeamFlag f) cd1)\<lparr>cd_mapTeam :=
        smap_put t (changeRoleStues r f T) (cd_mapTeam (upd_role p (set_TeamFlag f) cd1))\<rparr>)"
      using ok2 by (intro teams_ok_same_members) simp_all
    then show ?thesis
      using run find Some by (auto simp: Let_def)
  qed
qed

lemma keeps_ChangtoBeLeader: "keeps (teams_ok n) (ChangtoBeLeader relock t r)"
  unfolding ChangtoBeLeader_def
proof (rule tables.keeps_guarded, unfold keeps_def, intro allI impI)
  fix cd x cd'
  assume ok: "teams_ok n cd"
    and run: "(case smap_find t (cd_mapTeam cd) of
         None \<Rightarrow> Some (- 1, cd)
       | Some T \<Rightarrow>
           if GetLeaderRoleID T = r then Some (1, cd)
           else
             let T' = ChangToBeLeader r T
             in do {
               cd1 \<leftarrow> tell_leader relock r (map tr_roleId (GetMemberRoleID T'))
                 (cd\<lparr>cd_mapTeam := smap_put t T' (cd_mapTeam cd)\<rparr>);
               (p, cd2) \<leftarrow> ProcessGetRolePtr relock r cd1;
               Some (0, upd_role p (set_TeamFlag 2) cd2)
             }) = Some (x, cd')"
  show "teams_ok n cd'"
  proof (cases "smap_find t (cd_mapTeam cd)")
    case None
    with ok run show ?thesis by simp
  next
    case (Some T)
    let ?cd = "cd\<lparr>cd_mapTeam := smap_put t (ChangToBeLeader r T) (cd_mapTeam cd)\<rparr>"
    have ok0: "teams_ok n ?cd"
      using ok Some by (rule teams_ok_same_members) simp_all
    show ?thesis
    proof (cases "GetLeaderRoleID T = r")
      case True
      with ok run Some show ?thesis by simp
    next
      case False
      with run Some obtain cd1 p cd2 where tell: "tell_leader relock r (map tr_roleId (GetMemberRoleID (ChangToBeLeader r T))) ?cd = Some cd1"
        and find: "ProcessGetRolePtr relock r cd1 = Some (p, cd2)" and cd': "cd' = upd_role p (set_TeamFlag 2) cd2"
        by (auto simp: Let_def Option.bind_eq_Some_conv)
      have "teams_ok n cd1"
        by (rule tables.tell_leader [OF ok0 tell])
      then show ?thesis
        using keepsD [OF tables.keeps_ProcessGetRolePtr _ find] by (simp add: cd' tables.upd_role)
    qed
  qed
qed

lemma CoreData_new_teams: "teams_ok 1 (CoreData_new maps)"
  by (simp add: teams_ok_def CoreData_new_def)

end
