(* ===== verification/Team_Rules.thy ===== *)
theory Team_Rules
  imports Team_Svc Core_Teams
begin

text \<open>
  What the team service does as a whole: the tables of the teams over any run of requests, logouts
  and map changes, with and without a mutex that can be locked twice, and the effect of the requests
  to accept, to dismiss and to hand over the lead.
\<close>

section \<open>Statements that hold after a call that returns\<close>

definition after_call :: "(core_data \<Rightarrow> bool) \<Rightarrow> ('a \<times> core_data) option \<Rightarrow> bool" where
  "after_call P x = (case x of None \<Rightarrow> True | Some (r, cd) \<Rightarrow> P cd)"

lemma after_bind:
  "after_call P x \<Longrightarrow> (\<And>r cd. P cd \<Longrightarrow> after_call P (f r cd)) \<Longrightarrow> after_call P (Option.bind x (\<lambda>(r, cd). f r cd))"
  by (cases x) (auto simp: after_call_def)

lemma after_if: "(b \<Longrightarrow> after_call P x) \<Longrightarrow> (\<not> b \<Longrightarrow> after_call P y) \<Longrightarrow> after_call P (if b then x else y)"
  by simp

lemma after_Some: "P cd \<Longrightarrow> after_call P (Some (r, cd))"
  by (simp add: after_call_def)

lemma after_split: "(\<And>a b. p = (a, b) \<Longrightarrow> after_call P (f a b)) \<Longrightarrow> after_call P (case p of (a, b) \<Rightarrow> f a b)"
  by (cases p) simp

lemma after_keeps: "keeps P f \<Longrightarrow> P cd \<Longrightarrow> after_call P (f cd)"
  unfolding keeps_def after_call_def by (auto split: option.split)

lemmas after_intros = after_split after_bind after_if after_Some

section \<open>Every request keeps the tables in agreement\<close>

lemmas team_ops_ok =
  after_keeps [OF tables.keeps_GetTeamsFromRoleID] after_keeps [OF tables.keeps_ProcessGetRolePtr]
  after_keeps [OF keeps_AddTeamRole] after_keeps [OF keeps_DeleteTeamRole]
  after_keeps [OF keeps_ChangtoFlag] after_keeps [OF keeps_ChangtoBeLeader]

lemma keeps_ProcessRequestjoin: "teams_ok n cd \<Longrightarrow> after_call (teams_ok n) (ProcessRequestjoin relock env req cd)"
  unfolding ProcessRequestjoin_def Let_def by (intro after_intros team_ops_ok; assumption)

lemma keeps_ProcessChangeCaptain: "teams_ok n cd \<Longrightarrow> after_call (teams_ok n) (ProcessChangeCaptain relock env req cd)"
  unfolding ProcessChangeCaptain_def Let_def by (intro after_intros team_ops_ok; assumption)

lemma keeps_ProcessCapt_Member: "teams_ok n cd \<Longrightarrow> after_call (teams_ok n) (ProcessCapt_Member relock env req cd)"
  unfolding ProcessCapt_Member_def Let_def by (intro after_intros team_ops_ok; assumption)

lemma keeps_ProcessCallMember: "teams_ok n cd \<Longrightarrow> after_call (teams_ok n) (ProcessCallMember relock env req cd)"
  unfolding ProcessCallMember_def Let_def by (intro after_intros team_ops_ok; assumption)

lemma keeps_ProcessMember_OUt: "teams_ok n cd \<Longrightarrow> after_call (teams_ok n) (ProcessMember_OUt relock env req cd)"
  unfolding ProcessMember_OUt_def Let_def by (intro after_intros team_ops_ok; assumption)

lemma keeps_ProcessBackOrleave: "teams_ok n cd \<Longrightarrow> after_call (teams_ok n) (ProcessBackOrleave relock env req cd)"
  unfolding ProcessBackOrleave_def Let_def by (intro after_intros team_ops_ok; assumption)

lemma after_bind2:
  "after_call P x \<Longrightarrow> (\<And>r cd. P cd \<Longrightarrow> after_call Q (f r cd)) \<Longrightarrow> after_call Q (Option.bind x (\<lambda>(r, cd). f r cd))"
  by (cases x) (auto simp: after_call_def)

lemma after_either:
  "teams_ok n cd \<or> teams_ok (Suc n) cd \<Longrightarrow> after_call (teams_ok (Suc n)) (Some (r, cd))"
  using teams_ok_mono [of n cd "Suc n"] by (auto simp: after_call_def)

lemma after_CreateTeam:
  "teams_ok n cd \<Longrightarrow> n < 4294967295 \<Longrightarrow> after_call (teams_ok (Suc n)) (CreateTeam relock l r cd)"
  using keeps_CreateTeam [of n cd relock l r] by (auto simp: after_call_def split: option.split)

lemma keeps_ProcessAnswerRequest:
  assumes "teams_ok n cd" and "n < 4294967295"
  shows "after_call (teams_ok (Suc n)) (ProcessAnswerRequest relock env req cd)"
  unfolding ProcessAnswerRequest_def Let_def
  by (intro after_split after_if after_either after_bind2 [OF team_ops_ok(1)]
    after_bind2 [OF team_ops_ok(3)] after_bind2 [OF after_CreateTeam]; use assms in blast)

lemma keeps_OnProcessPacket:
  assumes "teams_ok n cd" and "n < 4294967295"
  shows "after_call (teams_ok (Suc n)) (OnProcessPacket relock env req cd)"
proof -
  have up: "after_call (teams_ok (Suc n)) x" if "after_call (teams_ok n) x" for x :: "(team_out list \<times> core_data) option"
    using that teams_ok_mono [of n _ "Suc n"] by (auto simp: after_call_def split: option.splits)
  show ?thesis
    unfolding OnProcessPacket_def
    by (intro after_if keeps_ProcessAnswerRequest assms up keeps_ProcessRequestjoin keeps_ProcessChangeCaptain
      keeps_ProcessCapt_Member keeps_ProcessCallMember keeps_ProcessMember_OUt keeps_ProcessBackOrleave after_Some)
qed

lemma after_GetRolePtr:
  "after_call (\<lambda>c. team_tables c = team_tables cd) (ProcessGetRolePtr relock r cd)"
  using ProcessGetRolePtr_tables [of relock r cd] by (auto simp: after_call_def split: option.split)

lemma after_tell:
  "teams_ok n cd \<Longrightarrow> (\<And>cd'. teams_ok n cd' \<Longrightarrow> after_call P (f cd')) \<Longrightarrow>
    after_call P (Option.bind (tell_leader relock l rs cd) f)"
  using tables.tell_leader [of n cd relock l rs]
  by (cases "tell_leader relock l rs cd") (auto simp: after_call_def)

lemma keeps_LogoutToTeam:
  assumes ok: "teams_ok n cd"
  shows "after_call (teams_ok n) (LogoutToTeam relock env t r cd)"
proof (cases "smap_find t (cd_mapTeam cd)")
  case None
  with ok show ?thesis by (simp add: LogoutToTeam_def after_call_def)
next
  case (Some T)
  let ?T = "OutTheTeam r T"
  have out: "EraseRoleIDTeamID r (cd\<lparr>cd_mapTeam := smap_put t ?T (cd_mapTeam cd)\<rparr>) = out_of t T r cd"
    by (simp add: EraseRoleIDTeamID_def out_of_def)
  show ?thesis
  proof (cases "member_ids ?T")
    case Nil
    have "after_call (teams_ok n) (DeleteTeam relock t (out_of t T r cd))"
      using teams_ok_out_empty [OF ok Some Nil refl] by (auto simp: after_call_def split: option.split)
    then show ?thesis
      unfolding LogoutToTeam_def Some option.case Let_def member_ids_GetMemberRoleID Nil list.case out
      by (intro after_bind after_Some)
  next
    case (Cons heir rest)
    have ok1: "teams_ok n (out_of t T r cd)"
      using teams_ok_out [OF ok Some, of r] Cons by simp
    have lead: "teams_ok n ((upd_role p f c)\<lparr>cd_mapTeam := smap_put t (ChangToBeLeader heir ?T) (cd_mapTeam c)\<rparr>)"
      if "team_tables c = team_tables (out_of t T r cd)" for p f c
    proof -
      have "teams_ok n (upd_role p f c)" and "smap_find t (cd_mapTeam (upd_role p f c)) = Some ?T"
        using that ok1 teams_ok_tables [OF that] by (simp_all add: tables.upd_role team_tables_def out_of_def smap_find_put)
      from teams_ok_same_members [OF this, of "ChangToBeLeader heir ?T"] show ?thesis
        by simp
    qed
    show ?thesis
      unfolding LogoutToTeam_def Some option.case Let_def member_ids_GetMemberRoleID Cons list.case out
      by (intro after_if after_bind2 [OF after_GetRolePtr] after_tell after_Some ok1) (rule lead)
  qed
qed

section \<open>Runs\<close>

text \<open>What happens to the teams of a running server: a request of a client, the team part of
  \<^verbatim>\<open>ProcessRoleLogout\<close>, and a role that enters a map.\<close>

datatype team_event = Request packet | Logout u32 u32 | Enter u32 u32

definition team_event :: "bool \<Rightarrow> svc_env \<Rightarrow> team_event \<Rightarrow> core_data \<Rightarrow> (team_out list \<times> core_data) option" where
  "team_event relock env e cd =
     (case e of
        Request req \<Rightarrow> OnProcessPacket relock env req cd
      | Logout t r \<Rightarrow> do {
          (x, cd1) \<leftarrow> LogoutToTeam relock env t r cd;
          Some (snd x, EraseRoleIDTeamID r cd1)
        }
      | Enter r m \<Rightarrow> do {
          (_, cd1) \<leftarrow> UpdateRoleMapID relock r m cd;
          Some ([], cd1)
        })"

fun team_run :: "bool \<Rightarrow> svc_env \<Rightarrow> team_event list \<Rightarrow> core_data \<Rightarrow> (team_out list \<times> core_data) option" where
  "team_run relock env [] cd = Some ([], cd)"
| "team_run relock env (e # es) cd = do {
     (out, cd1) \<leftarrow> team_event relock env e cd;
     (outs, cd2) \<leftarrow> team_run relock env es cd1;
     Some (out @ outs, cd2)
   }"

lemma EraseRoleIDTeamID_ok: "teams_ok n cd \<Longrightarrow> teams_ok n (EraseRoleIDTeamID r cd)"
  by (auto simp: EraseRoleIDTeamID_def teams_ok_def smap_find_erase)

lemma UpdateRoleMapID_tables: "after_call (\<lambda>c. team_tables c = team_tables cd) (UpdateRoleMapID relock r m cd)"
  by (auto simp: UpdateRoleMapID_def EraseRoleMapID_def AddRoleMapID_def guarded_def after_call_def
    team_tables_def split: option.splits)

lemma team_event_ok:
  assumes "teams_ok n cd" and "n < 4294967295"
  shows "after_call (teams_ok (Suc n)) (team_event relock env e cd)"
proof (cases e)
  case (Request req)
  then show ?thesis
    using keeps_OnProcessPacket [OF assms] by (simp add: team_event_def)
next
  case (Logout t r)
  show ?thesis
    unfolding team_event_def Logout team_event.case
    by (intro after_bind2 [OF keeps_LogoutToTeam [OF assms(1)]] after_either disjI1 EraseRoleIDTeamID_ok)
next
  case (Enter r m)
  show ?thesis
    unfolding team_event_def Enter team_event.case
    using assms(1) teams_ok_tables
    by (intro after_bind2 [OF UpdateRoleMapID_tables] after_either disjI1) blast
qed

lemma team_run_ok:
  "teams_ok n cd \<Longrightarrow> n + length es \<le> 4294967295 \<Longrightarrow>
    after_call (teams_ok (n + length es)) (team_run relock env es cd)"
proof (induction es arbitrary: n cd)
  case (Cons e es)
  have "after_call (teams_ok (n + length (e # es))) (team_run relock env es c)" if "teams_ok (Suc n) c" for c
    using Cons.IH [OF that] Cons.prems(2) by simp
  moreover have "after_call (teams_ok (Suc n)) (team_event relock env e cd)"
    using Cons.prems by (intro team_event_ok) simp_all
  ultimately show ?case
    unfolding team_run.simps by (intro after_bind2 [of "teams_ok (Suc n)"] after_bind) (auto simp: after_call_def)
qed (simp add: after_call_def)

text \<open>
  C32: in every state that requests, logouts and map changes lead to from the start, as long as they
  return and are fewer than the team numbers, a team is filed under its own number, which is not 0,
  has at least one member, and a role that is filed under a team is one of its members.
\<close>

theorem team_tables_sound:
  assumes "length es < 4294967295" and "team_run relock env es (CoreData_new maps) = Some (outs, cd)"
  shows "(\<forall>t T. smap_find t (cd_mapTeam cd) = Some T \<longrightarrow> tm_teamID T = t \<and> t \<noteq> 0 \<and> member_ids T \<noteq> [])
    \<and> (\<forall>r t. smap_find r (cd_mapRoleTeam cd) = Some t \<longrightarrow>
          (\<exists>T. smap_find t (cd_mapTeam cd) = Some T \<and> r \<in> set (member_ids T)))"
proof -
  have "after_call (teams_ok (1 + length es)) (team_run relock env es (CoreData_new maps))"
    using assms(1) by (intro team_run_ok CoreData_new_teams) simp
  then have "teams_ok (1 + length es) cd"
    by (simp add: after_call_def assms(2))
  then show ?thesis
    unfolding teams_ok_def by blast
qed

section \<open>Without a mutex that can be locked twice\<close>

definition no_teams :: "core_data \<Rightarrow> bool" where
  "no_teams cd = (cd_mapTeam cd = [])"

lemma blocked_keeps:
  "keeps no_teams (AddTeamRole False t r)"
  "keeps no_teams (DeleteTeamRole False t r)"
  "keeps no_teams (ChangtoFlag False t r f)"
  "keeps no_teams (ChangtoBeLeader False t r)"
  "keeps no_teams (CreateTeam False l r)"
  by (auto simp: keeps_def no_teams_def CreateTeam_blocks ChangtoFlag_blocks AddTeamRole_blocks DeleteTeamRole_blocks
    ChangtoBeLeader_blocks split: if_splits)

interpretation teamless: core_invariant no_teams
  by unfold_locales (simp_all add: no_teams_def)

lemmas teamless_ops =
  after_keeps [OF teamless.keeps_GetTeamsFromRoleID] after_keeps [OF teamless.keeps_ProcessGetRolePtr]
  after_keeps [OF blocked_keeps(1)] after_keeps [OF blocked_keeps(2)] after_keeps [OF blocked_keeps(3)]
  after_keeps [OF blocked_keeps(4)] after_keeps [OF blocked_keeps(5)]

lemma teamless_event:
  assumes "no_teams cd"
  shows "after_call no_teams (team_event False env e cd)"
proof (cases e)
  case (Request req)
  show ?thesis
    unfolding team_event_def Request team_event.case OnProcessPacket_def ProcessRequestjoin_def
      ProcessAnswerRequest_def ProcessChangeCaptain_def ProcessCapt_Member_def ProcessCallMember_def
      ProcessMember_OUt_def ProcessBackOrleave_def Let_def
    by (intro after_intros teamless_ops; (rule assms | assumption)?)
next
  case (Logout t r)
  have "smap_find t (cd_mapTeam cd) = None"
    using assms by (simp add: no_teams_def)
  then show ?thesis
    using assms by (simp add: team_event_def Logout LogoutToTeam_def EraseRoleIDTeamID_def after_call_def no_teams_def)
next
  case (Enter r m)
  then show ?thesis
    using UpdateRoleMapID_tables [of cd False r m] assms
    by (auto simp: team_event_def after_call_def team_tables_def no_teams_def split: option.splits)
qed

text \<open>
  On a mutex that its owner cannot lock again no run of the server ever has a team: every
  request that would make one blocks its thread, so each state that is reached has an empty team
  table.
\<close>

lemma no_team_without_relock:
  assumes "team_run False env es (CoreData_new maps) = Some (outs, cd)"
  shows "cd_mapTeam cd = []"
proof -
  have "after_call no_teams (team_run False env es cd0)" if "no_teams cd0" for cd0
    using that
  proof (induction es arbitrary: cd0)
    case (Cons e es)
    then show ?case
      unfolding team_run.simps
      by (intro after_bind2 [OF teamless_event] after_bind) (auto simp: after_call_def)
  qed (simp add: after_call_def)
  from this [of "CoreData_new maps"] have "no_teams (CoreData_new maps) \<Longrightarrow> no_teams cd"
    by (simp only: assms after_call_def option.case prod.case)
  then show ?thesis
    by (simp add: no_teams_def CoreData_new_def)
qed

section \<open>What the requests do on a mutex that can be locked twice\<close>

lemma upd_role_vec: "\<exists>v. upd_role p f cd = cd\<lparr>cd_vecMap := v\<rparr>"
  by (cases p) (auto simp: upd_role_def Let_def intro: exI [of _ "cd_vecMap cd"])

lemma ProcessGetRolePtr_True: "\<exists>p. ProcessGetRolePtr True r cd = Some (p, cd)"
  by (simp add: ProcessGetRolePtr_def FindRoleMapID_def guarded_def)

lemma RoleTeamset_True: "\<exists>v. RoleTeamset True r t l f cd = Some (0, cd\<lparr>cd_vecMap := v\<rparr>)"
proof -
  obtain p where "ProcessGetRolePtr True r cd = Some (p, cd)"
    using ProcessGetRolePtr_True by blast
  then show ?thesis
    using upd_role_vec by (simp add: RoleTeamset_def)
qed

lemma tell_leader_True: "\<exists>v. tell_leader True l rs cd = Some (cd\<lparr>cd_vecMap := v\<rparr>)"
proof (induction rs arbitrary: cd)
  case Nil
  show ?case by (simp add: exI [of _ "cd_vecMap cd"])
next
  case (Cons r rs)
  obtain p where p: "ProcessGetRolePtr True r cd = Some (p, cd)"
    using ProcessGetRolePtr_True by blast
  obtain v where "upd_role p (set_LeaderRoleID l) cd = cd\<lparr>cd_vecMap := v\<rparr>"
    using upd_role_vec by blast
  then show ?case
    using Cons.IH [of "cd\<lparr>cd_vecMap := v\<rparr>"] by (simp add: p)
qed

lemma CreateTeam_True:
  "\<exists>v. CreateTeam True l r cd = Some (0, cd\<lparr>cd_vecMap := v,
     cd_mapTeam := smap_insert (cd_lastTeamID cd) \<lparr>tm_teamID = cd_lastTeamID cd, tm_leaderRoleID = l,
       tm_listMember = [\<lparr>tr_roleId = l, tr_status = 2\<rparr>, \<lparr>tr_roleId = r, tr_status = 1\<rparr>]\<rparr> (cd_mapTeam cd),
     cd_mapRoleTeam := smap_insert r (cd_lastTeamID cd) (smap_insert l (cd_lastTeamID cd) (cd_mapRoleTeam cd)),
     cd_lastTeamID := cd_lastTeamID cd + 1\<rparr>)"
proof -
  let ?n = "cd_lastTeamID cd"
  let ?T = "\<lparr>tm_teamID = ?n, tm_leaderRoleID = l,
    tm_listMember = [\<lparr>tr_roleId = l, tr_status = 2\<rparr>, \<lparr>tr_roleId = r, tr_status = 1\<rparr>]\<rparr>"
  have T: "set_team_TeamID ?n (AddToTeam r (set_team_LeaderRoleID l (AddToTeam l Team_new))) = ?T"
    by (simp add: set_team_TeamID_def AddToTeam_def set_team_LeaderRoleID_def changeRoleStues_def Team_new_def)
  let ?cd = "cd\<lparr>cd_held := Suc (cd_held cd), cd_mapTeam := smap_insert ?n ?T (cd_mapTeam cd),
    cd_mapRoleTeam := smap_insert r ?n (smap_insert l ?n (cd_mapRoleTeam cd))\<rparr>"
  obtain v where v: "RoleTeamset True l ?n l 2 ?cd = Some (0, ?cd\<lparr>cd_vecMap := v\<rparr>)"
    using RoleTeamset_True by blast
  obtain w where w: "RoleTeamset True r ?n l 1 (?cd\<lparr>cd_vecMap := v\<rparr>) = Some (0, ?cd\<lparr>cd_vecMap := v, cd_vecMap := w\<rparr>)"
    using RoleTeamset_True by blast
  show ?thesis
    using v w by (intro exI [of _ w]) (simp add: CreateTeam_def guarded_def Let_def T)
qed

lemma DeleteTeamRole_True:
  assumes "smap_find t (cd_mapTeam cd) = Some T" and "member_ids (OutTheTeam r T) \<noteq> []"
  shows "\<exists>v. DeleteTeamRole True t r cd = Some (0, (out_of t T r cd)\<lparr>cd_vecMap := v\<rparr>)"
proof -
  let ?cd = "out_of t T r (cd\<lparr>cd_held := Suc (cd_held cd)\<rparr>)"
  have out: "EraseRoleIDTeamID r (cd\<lparr>cd_held := Suc (cd_held cd), cd_mapTeam := smap_put t (OutTheTeam r T) (cd_mapTeam cd)\<rparr>) = ?cd"
    by (simp add: EraseRoleIDTeamID_def out_of_def)
  have "GetMemberRoleID (OutTheTeam r T) \<noteq> []"
    using assms(2) by (simp flip: member_ids_GetMemberRoleID)
  moreover obtain v where "RoleTeamset True r 0 0 0 ?cd = Some (0, ?cd\<lparr>cd_vecMap := v\<rparr>)"
    using RoleTeamset_True by blast
  ultimately show ?thesis
    using assms(1) by (intro exI [of _ v]) (simp add: DeleteTeamRole_def guarded_def Let_def out; simp add: out_of_def)
qed

lemma ChangtoBeLeader_True:
  assumes "smap_find t (cd_mapTeam cd) = Some T" and "tm_leaderRoleID T \<noteq> r"
  shows "\<exists>v. ChangtoBeLeader True t r cd =
    Some (0, cd\<lparr>cd_mapTeam := smap_put t (ChangToBeLeader r T) (cd_mapTeam cd), cd_vecMap := v\<rparr>)"
proof -
  let ?cd = "cd\<lparr>cd_held := Suc (cd_held cd), cd_mapTeam := smap_put t (ChangToBeLeader r T) (cd_mapTeam cd)\<rparr>"
  obtain v where v: "tell_leader True r (map tr_roleId (GetMemberRoleID (ChangToBeLeader r T))) ?cd = Some (?cd\<lparr>cd_vecMap := v\<rparr>)"
    using tell_leader_True by blast
  obtain p where p: "ProcessGetRolePtr True r (?cd\<lparr>cd_vecMap := v\<rparr>) = Some (p, ?cd\<lparr>cd_vecMap := v\<rparr>)"
    using ProcessGetRolePtr_True by blast
  obtain w where w: "upd_role p (set_TeamFlag 2) (?cd\<lparr>cd_vecMap := v\<rparr>) = ?cd\<lparr>cd_vecMap := v, cd_vecMap := w\<rparr>"
    using upd_role_vec by blast
  show ?thesis
    using assms v p w by (intro exI [of _ w]) (simp add: ChangtoBeLeader_def guarded_def Let_def GetLeaderRoleID_def)
qed

lemma GetTeams_unfiled:
  "smap_find r (cd_mapRoleTeam cd) = None \<Longrightarrow> relock \<or> cd_held cd = 0 \<Longrightarrow>
    GetTeamsFromRoleID relock r cd = Some (Team_new, cd)"
  by (auto simp: GetTeamsFromRoleID_def guarded_def)

lemma GetTeams_filed:
  "smap_find r (cd_mapRoleTeam cd) = Some t \<Longrightarrow> smap_find t (cd_mapTeam cd) = Some T \<Longrightarrow> relock \<or> cd_held cd = 0 \<Longrightarrow>
    GetTeamsFromRoleID relock r cd = Some (T, cd)"
  by (auto simp: GetTeamsFromRoleID_def guarded_def)

text \<open>A request whose body starts with a role id, and perhaps a byte.\<close>

lemma request_role:
  assumes "holds (p_buffer req) (bytes_of_word 4 who @ rest)"
  shows "\<exists>s. get_UInt32 0 (Serializer_new (p_buffer req)) = (who, s) \<and> GetErrorCode s = 0
    \<and> ser_ok s \<and> remaining s = rest"
proof -
  let ?s = "Serializer_new (p_buffer req)"
  have "ser_ok ?s" and "remaining ?s = bytes_of_word 4 who @ rest"
    using assms by (simp_all add: holds_def ser_ok_def Serializer_new_def remaining_def)
  then show ?thesis
    by (simp add: wire GetErrorCode_def ser_ok_err)
qed

lemma request_byte:
  assumes "ser_ok s" and "remaining s = [b]"
  shows "\<exists>s'. get_Byte 0 s = (b, s') \<and> GetErrorCode s' = 0"
proof -
  have "word_of_bytes [b] = b"
    using word_of_bytes_u8 [of b] by (simp add: bytes_of_word_def)
  then show ?thesis
    using assms by (simp add: wire GetErrorCode_def ser_ok_err)
qed

section \<open>Witnesses\<close>

text \<open>Two teams: number 1 of roles 10 (its leader) and 11, number 2 of roles 20 (its leader) and 21;
  role 30 has no team.\<close>

definition demo_team :: "u32 \<Rightarrow> u32 \<Rightarrow> team" where
  "demo_team t r = \<lparr>tm_teamID = t, tm_leaderRoleID = r,
     tm_listMember = [\<lparr>tr_roleId = r, tr_status = 2\<rparr>, \<lparr>tr_roleId = r + 1, tr_status = 1\<rparr>]\<rparr>"

definition demo_core :: core_data where
  "demo_core = (CoreData_new 1)\<lparr>cd_mapTeam := [(1, demo_team 1 10), (2, demo_team 2 20)],
     cd_mapRoleTeam := [(10, 1), (11, 1), (20, 2), (21, 2)], cd_lastTeamID := 3\<rparr>"

definition demo_request :: "u32 \<Rightarrow> u8 list \<Rightarrow> packet" where
  "demo_request r body = demo_packet\<lparr>p_RoleID := r,
     p_buffer := append_db body (DataBuffer_new 8 (replicate 8 0))\<rparr>"

lemma demo_request_holds: "length body \<le> 8 \<Longrightarrow> holds (p_buffer (demo_request r body)) body"
  using holds_append [of "DataBuffer_new 8 (replicate 8 0)" "[]" body]
  by (simp add: demo_request_def holds_def db_inv_def DataBuffer_new_def unread_def space_def)

lemma demo_core_ok: "teams_ok 3 demo_core"
  by (auto simp: teams_ok_def demo_core_def demo_team_def smap_find_def member_ids_def split: if_splits)

lemma demo_core_tables:
  "smap_find 10 (cd_mapRoleTeam demo_core) = Some 1" "smap_find 20 (cd_mapRoleTeam demo_core) = Some 2"
  "smap_find 21 (cd_mapRoleTeam demo_core) = Some 2" "smap_find 30 (cd_mapRoleTeam demo_core) = None"
  "smap_find 31 (cd_mapRoleTeam demo_core) = None"
  "smap_find 1 (cd_mapTeam demo_core) = Some (demo_team 1 10)" "cd_held demo_core = 0"
  "cd_lastTeamID demo_core = 3"
  by (simp_all add: demo_core_def smap_find_def CoreData_new_def)

section \<open>The requests\<close>

lemma accept_runs:
  assumes "holds (p_buffer req) (bytes_of_word 4 who @ [1])" and "p_RoleID req \<noteq> 0"
    and "smap_find (p_RoleID req) (cd_mapRoleTeam cd) = None" and "smap_find who (cd_mapRoleTeam cd) = None"
    and "relock \<or> cd_held cd = 0"
  shows "ProcessAnswerRequest relock env req cd = do {
      (iRet, cd3) \<leftarrow> CreateTeam relock who (p_RoleID req) cd;
      let li = [\<lparr>tr_roleId = who, tr_status = 2\<rparr>, \<lparr>tr_roleId = p_RoleID req, tr_status = 1\<rparr>]
      in Some ([Reply (reply_packet env req 0), NotifyTeamInfo env who li, NotifyTeamInfo env (p_RoleID req) li], cd3)
    }"
proof -
  obtain s where s: "get_UInt32 0 (Serializer_new (p_buffer req)) = (who, s)" "ser_ok s" "remaining s = [1]"
    using request_role [OF assms(1)] by blast
  obtain s' where s': "get_Byte 0 s = (1, s')" "GetErrorCode s' = 0"
    using request_byte [OF s(2,3)] by blast
  show ?thesis
    using assms(2) GetTeams_unfiled [OF assms(3,5)] GetTeams_unfiled [OF assms(4,5)]
    by (simp add: ProcessAnswerRequest_def s(1) s' Let_def GetLeaderRoleID_def GetTeamID_def Team_new_def)
qed

text \<open>
  C33: accepting between two roles without a team.  On a mutex that its owner can lock again the
  inviter leads a new team with the next number, the two are its members and filed under it, the
  request is answered with code 0 and both are told the same member list.  On the default mutex of
  Linux the same request blocks its thread for ever.
\<close>

theorem accept_forms_team:
  assumes "teams_ok n cd" and "cd_held cd = 0" and "holds (p_buffer req) (bytes_of_word 4 who @ [1])"
    and "p_RoleID req \<noteq> 0"
    and "smap_find (p_RoleID req) (cd_mapRoleTeam cd) = None" and "smap_find who (cd_mapRoleTeam cd) = None"
  shows "(\<exists>cd'. let me = p_RoleID req; t = cd_lastTeamID cd;
              li = [\<lparr>tr_roleId = who, tr_status = 2\<rparr>, \<lparr>tr_roleId = me, tr_status = 1\<rparr>]
            in ProcessAnswerRequest True env req cd =
                Some ([Reply (reply_packet env req 0), NotifyTeamInfo env who li, NotifyTeamInfo env me li], cd')
             \<and> smap_find t (cd_mapTeam cd') = Some \<lparr>tm_teamID = t, tm_leaderRoleID = who, tm_listMember = li\<rparr>
             \<and> smap_find me (cd_mapRoleTeam cd') = Some t \<and> smap_find who (cd_mapRoleTeam cd') = Some t
             \<and> cd_lastTeamID cd' = t + 1)
    \<and> ProcessAnswerRequest False env req cd = None"
proof -
  note run = accept_runs [OF assms(3-6) disjI2 [OF assms(2)]]
  obtain v where v: "CreateTeam True who (p_RoleID req) cd = Some (0, cd\<lparr>cd_vecMap := v,
     cd_mapTeam := smap_insert (cd_lastTeamID cd) \<lparr>tm_teamID = cd_lastTeamID cd, tm_leaderRoleID = who,
       tm_listMember = [\<lparr>tr_roleId = who, tr_status = 2\<rparr>, \<lparr>tr_roleId = p_RoleID req, tr_status = 1\<rparr>]\<rparr> (cd_mapTeam cd),
     cd_mapRoleTeam := smap_insert (p_RoleID req) (cd_lastTeamID cd) (smap_insert who (cd_lastTeamID cd) (cd_mapRoleTeam cd)),
     cd_lastTeamID := cd_lastTeamID cd + 1\<rparr>)"
    using CreateTeam_True by blast
  have new: "smap_find (cd_lastTeamID cd) (cd_mapTeam cd) = None"
    using teams_ok_team [OF assms(1), of "cd_lastTeamID cd"] by (cases "smap_find (cd_lastTeamID cd) (cd_mapTeam cd)") auto
  have "ProcessAnswerRequest False env req cd = None"
    by (simp add: run CreateTeam_blocks)
  moreover have "\<exists>cd'. let me = p_RoleID req; t = cd_lastTeamID cd;
              li = [\<lparr>tr_roleId = who, tr_status = 2\<rparr>, \<lparr>tr_roleId = me, tr_status = 1\<rparr>]
            in ProcessAnswerRequest True env req cd =
                Some ([Reply (reply_packet env req 0), NotifyTeamInfo env who li, NotifyTeamInfo env me li], cd')
             \<and> smap_find t (cd_mapTeam cd') = Some \<lparr>tm_teamID = t, tm_leaderRoleID = who, tm_listMember = li\<rparr>
             \<and> smap_find me (cd_mapRoleTeam cd') = Some t \<and> smap_find who (cd_mapRoleTeam cd') = Some t
             \<and> cd_lastTeamID cd' = t + 1"
    unfolding run v by (simp add: Let_def smap_find_insert new assms(5,6))
  ultimately show ?thesis by blast
qed

theorem accept_forms_team_witness:
  "ProcessAnswerRequest False demo_env (demo_request 30 (bytes_of_word 4 (31 :: u32) @ [1])) demo_core = None
   \<and> (\<exists>out cd'. ProcessAnswerRequest True demo_env (demo_request 30 (bytes_of_word 4 (31 :: u32) @ [1])) demo_core
          = Some (out, cd') \<and> smap_find 30 (cd_mapRoleTeam cd') = Some 3)"
proof -
  let ?req = "demo_request 30 (bytes_of_word 4 (31 :: u32) @ [1])"
  have "holds (p_buffer ?req) (bytes_of_word 4 (31 :: u32) @ [1])"
    by (rule demo_request_holds) simp
  moreover have "p_RoleID ?req = 30"
    by (simp add: demo_request_def)
  ultimately show ?thesis
    using accept_forms_team [OF demo_core_ok demo_core_tables(7), of ?req 31 demo_env] demo_core_tables
    by (auto simp: Let_def)
qed

text \<open>
  A captain can dismiss a member of another team: the request is answered with code 0, the role
  is no longer filed under its team, but it stays in that team's member list.
\<close>

lemma kick_across_teams:
  assumes "teams_ok n cd" and "holds (p_buffer req) (bytes_of_word 4 who)"
    and "who \<noteq> 0" and "who \<noteq> p_RoleID req"
    and "smap_find (p_RoleID req) (cd_mapRoleTeam cd) = Some a" and "smap_find a (cd_mapTeam cd) = Some A"
    and "tm_leaderRoleID A = p_RoleID req"
    and "smap_find who (cd_mapRoleTeam cd) = Some b" and "b \<noteq> a"
  shows "\<exists>out cd' B. ProcessCapt_Member True env req cd = Some (Reply (reply_packet env req 0) # out, cd')
    \<and> smap_find who (cd_mapRoleTeam cd') = None
    \<and> smap_find b (cd_mapTeam cd') = Some B \<and> who \<in> set (member_ids B)"
proof -
  obtain s where s: "get_UInt32 0 (Serializer_new (p_buffer req)) = (who, s)" "GetErrorCode s = 0"
    using request_role [of req who "[]"] assms(2) by auto
  have "p_RoleID req \<in> set (member_ids A)"
    using teams_ok_role [OF assms(1,5)] assms(6) by auto
  then have "p_RoleID req \<in> set (member_ids (OutTheTeam who A))"
    using assms(4) by (simp add: in_set_remove1)
  then have "member_ids (OutTheTeam who A) \<noteq> []"
    by auto
  from DeleteTeamRole_True [OF assms(6) this] obtain v where
    v: "DeleteTeamRole True a who cd = Some (0, (out_of a A who cd)\<lparr>cd_vecMap := v\<rparr>)"
    by blast
  have A: "GetTeamID A = a" "GetLeaderRoleID A = p_RoleID req"
    using teams_ok_team [OF assms(1,6)] assms(7) by (simp_all add: GetTeamID_def GetLeaderRoleID_def)
  have "ProcessCapt_Member True env req cd = Some (Reply (reply_packet env req 0) #
      [NotifyTeamChang env who 5 (map tr_roleId (GetMemberRoleID A))], (out_of a A who cd)\<lparr>cd_vecMap := v\<rparr>)"
    using assms(3,4) GetTeams_filed [OF assms(5,6), of True]
    by (simp add: ProcessCapt_Member_def s Let_def A v)
  moreover obtain B where "smap_find b (cd_mapTeam cd) = Some B" and "who \<in> set (member_ids B)"
    using teams_ok_role [OF assms(1,8)] by blast
  ultimately show ?thesis
    using assms(9) by (simp add: out_of_def smap_find_erase smap_find_put)
qed

lemma kick_across_teams_witness:
  "\<exists>out cd'. ProcessCapt_Member True demo_env (demo_request 10 (bytes_of_word 4 (21 :: u32))) demo_core = Some (out, cd')
     \<and> smap_find 21 (cd_mapRoleTeam cd') = None"
proof -
  let ?req = "demo_request 10 (bytes_of_word 4 (21 :: u32))"
  have req: "holds (p_buffer ?req) (bytes_of_word 4 (21 :: u32))" "p_RoleID ?req = 10"
    by (rule demo_request_holds, simp) (simp add: demo_request_def)
  have "tm_leaderRoleID (demo_team 1 10) = 10"
    by (simp add: demo_team_def)
  then show ?thesis
    using kick_across_teams [OF demo_core_ok req(1), of 1 "demo_team 1 10" 2 demo_env] demo_core_tables
    by (auto simp: req(2))
qed

text \<open>
  A captain can hand the lead to a role outside the team: the request is answered with code 0, and
  the team is led by a role that is not among its members.
\<close>

lemma captain_of_strangers:
  assumes "teams_ok n cd" and "holds (p_buffer req) (bytes_of_word 4 who)"
    and "who \<noteq> 0" and "who \<noteq> p_RoleID req"
    and "smap_find (p_RoleID req) (cd_mapRoleTeam cd) = Some a" and "smap_find a (cd_mapTeam cd) = Some A"
    and "tm_leaderRoleID A = p_RoleID req" and "who \<notin> set (member_ids A)"
  shows "\<exists>out cd' A'. ProcessChangeCaptain True env req cd = Some (Reply (reply_packet env req 0) # out, cd')
    \<and> smap_find a (cd_mapTeam cd') = Some A' \<and> tm_leaderRoleID A' = who \<and> who \<notin> set (member_ids A')"
proof -
  obtain s where s: "get_UInt32 0 (Serializer_new (p_buffer req)) = (who, s)" "GetErrorCode s = 0"
    using request_role [of req who "[]"] assms(2) by auto
  have A: "GetTeamID A = a" "GetLeaderRoleID A = p_RoleID req"
    using teams_ok_team [OF assms(1,6)] assms(7) by (simp_all add: GetTeamID_def GetLeaderRoleID_def)
  obtain v where v: "ChangtoBeLeader True a who cd =
      Some (0, cd\<lparr>cd_mapTeam := smap_put a (ChangToBeLeader who A) (cd_mapTeam cd), cd_vecMap := v\<rparr>)"
    using ChangtoBeLeader_True [OF assms(6), of who] assms(4,7) by auto
  show ?thesis
    using assms(3,4,8) GetTeams_filed [OF assms(5,6), of True]
    by (simp add: ProcessChangeCaptain_def s Let_def A v smap_find_put)
qed

lemma captain_of_strangers_witness:
  "\<exists>out cd' A. ProcessChangeCaptain True demo_env (demo_request 10 (bytes_of_word 4 (30 :: u32))) demo_core = Some (out, cd')
     \<and> smap_find 1 (cd_mapTeam cd') = Some A \<and> tm_leaderRoleID A = 30 \<and> 30 \<notin> set (member_ids A)"
proof -
  let ?req = "demo_request 10 (bytes_of_word 4 (30 :: u32))"
  have req: "holds (p_buffer ?req) (bytes_of_word 4 (30 :: u32))" "p_RoleID ?req = 10"
    by (rule demo_request_holds, simp) (simp add: demo_request_def)
  have "tm_leaderRoleID (demo_team 1 10) = 10" and "30 \<notin> set (member_ids (demo_team 1 10))"
    by (simp_all add: demo_team_def member_ids_def)
  then show ?thesis
    using captain_of_strangers [OF demo_core_ok req(1), of 1 "demo_team 1 10" demo_env] demo_core_tables
    by (auto simp: req(2))
qed

theorem team_tables_sound_witness:
  "\<exists>outs cd T. team_run True demo_env [Enter 30 1, Request ((demo_request 30 (bytes_of_word 4 (31 :: u32) @ [1]))\<lparr>p_MsgType := 1402\<rparr>)]
       (CoreData_new 1) = Some (outs, cd)
     \<and> smap_find 31 (cd_mapRoleTeam cd) = Some 1 \<and> smap_find 1 (cd_mapTeam cd) = Some T
     \<and> tm_teamID T = 1 \<and> 31 \<in> set (member_ids T)"
proof -
  let ?req = "(demo_request 30 (bytes_of_word 4 (31 :: u32) @ [1]))\<lparr>p_MsgType := 1402\<rparr>"
  let ?es = "[Enter 30 1, Request ?req]"
  obtain cd1 where enter: "team_event True demo_env (Enter 30 1) (CoreData_new 1) = Some ([], cd1)"
    and cd1: "cd_mapRoleTeam cd1 = []" "cd_lastTeamID cd1 = 1"
    by (simp add: team_event_def UpdateRoleMapID_def EraseRoleMapID_def AddRoleMapID_def guarded_def CoreData_new_def)
  have req: "holds (p_buffer ?req) (bytes_of_word 4 (31 :: u32) @ [1])" "p_RoleID ?req = 30" "p_MsgType ?req = 1402"
    using demo_request_holds [of "bytes_of_word 4 (31 :: u32) @ [1]" 30] by (simp_all add: demo_request_def)
  obtain outs cd where accept: "team_event True demo_env (Request ?req) cd1 = Some (outs, cd)"
    and filed: "smap_find 31 (cd_mapRoleTeam cd) = Some 1"
    using CreateTeam_True [of 31 30 cd1] accept_runs [OF req(1), of cd1 True demo_env] req(2,3) cd1
    by (auto simp: team_event_def OnProcessPacket_def Let_def smap_find_insert)
  have run: "team_run True demo_env ?es (CoreData_new 1) = Some (outs, cd)"
    by (simp only: team_run.simps enter accept Option.bind.bind_lunit prod.case append.simps append_Nil2)
  have "length ?es < 4294967295"
    by simp
  then show ?thesis
    using team_tables_sound [of ?es True demo_env 1 outs cd] run filed by blast
qed

lemma no_team_without_relock_witness:
  "\<exists>outs cd. team_run False demo_env [Enter 5 1, Logout 3 5] (CoreData_new 1) = Some (outs, cd) \<and> cd_mapTeam cd = []"
proof -
  obtain outs cd where run: "team_run False demo_env [Enter 5 1, Logout 3 5] (CoreData_new 1) = Some (outs, cd)"
    by (simp add: team_event_def UpdateRoleMapID_def EraseRoleMapID_def AddRoleMapID_def guarded_def CoreData_new_def
      LogoutToTeam_def)
  then show ?thesis
    using no_team_without_relock [OF run] by blast
qed

end
