(* ===== verification/Pk_Base.thy ===== *)
theory Pk_Base
  imports Prelude "HOL-Library.Signed_Division"
begin

text \<open>
  The fight server, \<^verbatim>\<open>PkServer/PK_PE_base.h\<close>, \<^verbatim>\<open>PK_PE_base.cpp\<close>
  and the state of \<^verbatim>\<open>PK_PE\<close> in \<^verbatim>\<open>PK_thread.h\<close>: constants, positions, the
  attributes of a role, its buffs, orders and hatred, and one fight with its roles, bullets and
  pending skills.

  C integers are integers here, with the wrap-around of a store written out (\<open>short\<close>,
  \<open>ushort\<close>, \<open>uint\<close>).  A \<^verbatim>\<open>RoleState*\<close> is the identifier of the role:
  roles are inserted into the map of the fight and never taken out, so the pointers stay valid.
  \<^verbatim>\<open>rand()\<close> reads the next number of the sequence \<open>pk_rand\<close>; what a role object
  holds before it is set is \<open>pk_stack\<close>, the unset identifier of a message header is
  \<open>pk_uniq\<close>.
\<close>

section \<open>Integers\<close>

definition short :: "int \<Rightarrow> int" where "short n = (n + 32768) mod 65536 - 32768"
definition ushort :: "int \<Rightarrow> int" where "ushort n = n mod 65536"
definition wrap32 :: "int \<Rightarrow> int" where "wrap32 n = (n + 2147483648) mod 4294967296 - 2147483648"
definition uint32 :: "int \<Rightarrow> int" where "uint32 n = n mod 4294967296"

definition bytes_of_int :: "nat \<Rightarrow> int \<Rightarrow> u8 list" where
  "bytes_of_int k n = bytes_of_nat k (nat (n mod 256 ^ k))"

text \<open>The integer part of a square root; \<^verbatim>\<open>(int)sqrt\<close> of a negative number is what the
  x86 conversion of a NaN gives.\<close>

fun isqrt_from :: "nat \<Rightarrow> nat \<Rightarrow> nat" where
  "isqrt_from n 0 = 0"
| "isqrt_from n (Suc r) = (if Suc r * Suc r \<le> n then Suc r else isqrt_from n r)"

definition int_sqrt :: "int \<Rightarrow> int" where
  "int_sqrt n = (if n < 0 then - 2147483648 else int (isqrt_from (nat n) (nat n)))"

named_theorems pk_int

lemma short_id [pk_int]: "- 32768 \<le> n \<Longrightarrow> n < 32768 \<Longrightarrow> short n = n"
  by (simp add: short_def)

lemma short_range [simp]: "- 32768 \<le> short n" "short n < 32768"
  by (simp_all add: short_def)

lemma short_short [simp]: "short (short n) = short n"
  by (simp add: short_id)

lemma short_add: "short (short a + b) = short (a + b)"
  by (simp add: short_def mod_simps algebra_simps)

lemma short_diff: "short (short a - b) = short (a - b)"
  using short_add[of a "- b"] by simp

section \<open>Constants\<close>

definition MAP_SIZE_X :: int where [simp]: "MAP_SIZE_X = 50"
definition MAP_SIZE_Y :: int where [simp]: "MAP_SIZE_Y = 29"
definition MAP_MAX_LINE :: int where [simp]: "MAP_MAX_LINE = 1000"
definition TIME_WAITING_READY :: int where [simp]: "TIME_WAITING_READY = 60"
definition TIME_OFFLINE :: int where [simp]: "TIME_OFFLINE = 1200"
definition LENGTH_STRAIGHT :: int where [simp]: "LENGTH_STRAIGHT = 1000"

definition ORDER_TYPE_NO :: int where [simp]: "ORDER_TYPE_NO = 0"
definition ORDER_TYPE_ATTACK_E :: int where [simp]: "ORDER_TYPE_ATTACK_E = 1"
definition ORDER_TYPE_MOVE_P :: int where [simp]: "ORDER_TYPE_MOVE_P = 4"
definition ORDER_TYPE_CASTSKILL :: int where [simp]: "ORDER_TYPE_CASTSKILL = 8"

definition ROLE_STATUS_LIVE :: int where [simp]: "ROLE_STATUS_LIVE = 1"
definition ROLE_STATUS_DEAD :: int where [simp]: "ROLE_STATUS_DEAD = 2"
definition ROLE_STATUS_OFFLINE :: int where [simp]: "ROLE_STATUS_OFFLINE = 3"

definition BUFFER_TYPE_BYSKILL :: int where [simp]: "BUFFER_TYPE_BYSKILL = 3000"
definition BUFFER_TYPE_CALL :: int where [simp]: "BUFFER_TYPE_CALL = 3001"
definition BUFFER_TYPE_XUANYUN :: int where [simp]: "BUFFER_TYPE_XUANYUN = 3002"
definition BUFFER_TYPE_MOVESPEED :: int where [simp]: "BUFFER_TYPE_MOVESPEED = 3003"
definition BUFFER_TYPE_NOMOVE :: int where [simp]: "BUFFER_TYPE_NOMOVE = 3004"
definition BUFFER_TYPE_HP :: int where [simp]: "BUFFER_TYPE_HP = 3006"
definition BUFFER_TYPE_MP :: int where [simp]: "BUFFER_TYPE_MP = 3007"
definition BUFFER_TYPE_ARMOR :: int where [simp]: "BUFFER_TYPE_ARMOR = 3008"
definition BUFFER_TYPE_CASTSKILL :: int where [simp]: "BUFFER_TYPE_CASTSKILL = 3009"
definition BUFFER_TYPE_ATTACKPOWER :: int where [simp]: "BUFFER_TYPE_ATTACKPOWER = 3010"
definition BUFFER_TYPE_MAXHP :: int where [simp]: "BUFFER_TYPE_MAXHP = 3011"
definition BUFFER_TYPE_MAXMP :: int where [simp]: "BUFFER_TYPE_MAXMP = 3012"
definition BUFFER_TYPE_NOSKILL :: int where [simp]: "BUFFER_TYPE_NOSKILL = 3013"

definition BUFFER_EFFECT_TYPE_ABS :: int where [simp]: "BUFFER_EFFECT_TYPE_ABS = 1"
definition BUFFER_EFFECT_TYPE_RELATIVE :: int where [simp]: "BUFFER_EFFECT_TYPE_RELATIVE = 2"

definition PK_STATE_INIT :: int where [simp]: "PK_STATE_INIT = 1"
definition PK_STATE_READY :: int where [simp]: "PK_STATE_READY = 2"
definition PK_STATE_PKING :: int where [simp]: "PK_STATE_PKING = 3"
definition PK_STATE_OVER :: int where [simp]: "PK_STATE_OVER = 4"

definition RoleType_Player :: int where [simp]: "RoleType_Player = 1"
definition RoleType_Monster :: int where [simp]: "RoleType_Monster = 2"
definition RoleType_NPC :: int where [simp]: "RoleType_NPC = 3"
definition RoleType_Pet :: int where [simp]: "RoleType_Pet = 4"
definition RoleType_Call :: int where [simp]: "RoleType_Call = 5"

definition HPCHANGE_SOURCE_ATK :: int where [simp]: "HPCHANGE_SOURCE_ATK = 1"
definition HPCHANGE_SOURCE_SKILL :: int where [simp]: "HPCHANGE_SOURCE_SKILL = 2"
definition UPDATABUFFER_ADD :: int where [simp]: "UPDATABUFFER_ADD = 1"
definition UPDATABUFFER_DEL :: int where [simp]: "UPDATABUFFER_DEL = - 1"

text \<open>The skills are named by their numbers, 201 to 236, in the order of \<^verbatim>\<open>PK_PE_base.h\<close>.\<close>

section \<open>Positions\<close>

record pk_pos =
  posX :: int
  posY :: int

definition Offset :: "pk_pos \<Rightarrow> pk_pos \<Rightarrow> pk_pos" where
  "Offset A p = \<lparr>posX = short (posX p + posX A), posY = short (posY p + posY A)\<rparr>"

text \<open>Directions 1 to 8 stand for north, north-east, east, south-east, south, south-west, west and
  north-west; 0 for two equal positions.  \<^verbatim>\<open>getDirect\<close> gives the direction of its first
  argument as seen from the second one, with south below.\<close>

definition getDirect :: "pk_pos \<Rightarrow> pk_pos \<Rightarrow> int" where
  "getDirect startPos endPos =
     (if posX endPos < posX startPos then
        if posY endPos < posY startPos then 4 else if posY startPos < posY endPos then 2 else 3
      else if posX startPos < posX endPos then
        if posY endPos < posY startPos then 6 else if posY startPos < posY endPos then 8 else 7
      else if posY endPos < posY startPos then 5 else if posY startPos < posY endPos then 1 else 0)"

definition dist_sq :: "pk_pos \<Rightarrow> pk_pos \<Rightarrow> int" where
  "dist_sq A B = (posX A - posX B) * (posX A - posX B) + (posY A - posY B) * (posY A - posY B)"

text \<open>\<^verbatim>\<open>attackRoleHit * ( 1 - targetRoleMiss / 100 )\<close>, with the division of integers.\<close>

definition getBHitTarget :: "int \<Rightarrow> int \<Rightarrow> int" where
  "getBHitTarget attackRoleHit targetRoleMiss = short (attackRoleHit * (1 - targetRoleMiss sdiv 100))"

section \<open>Roles\<close>

record phys_attr =
  ph_AttackArea :: int
  ph_AttackCDTime :: int
  ph_AttackIngTime :: int
  ph_AttackBulletMod :: int
  ph_AttackHit :: int
  ph_DefenseMiss :: int
  ph_DefenseArmor :: int
  ph_AttackPowerHign_Base :: int
  ph_AttackPowerLow_Base :: int
  ph_AttackPowerAdd :: int
  ph_AttackCDTime_Base :: int
  ph_AttackHit_Base :: int
  ph_DefenseMiss_Base :: int
  ph_AttackCrit_Base :: int
  ph_AttackCrit :: int
  ph_DefenseArmor_Base :: int
  ph_HurtAdd :: int
  ph_ExemptCounter :: int
  ph_PreAttackTime :: int
  ph_LimitCounter :: int
  ph_PreTimeStatus :: int

record skill_attr =
  sk_SkillLevel :: int
  sk_DoingTime :: int
  sk_Area :: int
  sk_MP :: int
  sk_SkillCD :: int
  sk_LastUseTime :: int

record move_attr =
  mv_SpeedMod :: int
  mv_MoveLine :: "pk_pos list"
  mv_CurrentPos :: pk_pos
  mv_CurrentPosMini :: pk_pos
  mv_Direct :: int
  mv_SpeedMod_Base :: int
  mv_LimitCounter :: int

record magic_attr =
  mg_MagicArmor :: int
  mg_MagicArmor_Base :: int
  mg_SkillMap :: "(int, skill_attr) smap"
  mg_ExemptBadCounter :: int
  mg_ExemptAllCounter :: int
  mg_LimitCounter :: int

record buff =
  bf_Type :: int
  bf_Level :: int
  bf_ParentSkill :: int
  bf_BeginTime :: int
  bf_EndTime :: int
  bf_bCanBreak :: bool
  bf_bSendClient :: bool
  bf_Effecttype :: int
  bf_Parametar1 :: int
  bf_Parametar2 :: int
  bf_RunCounter :: int
  bf_RunTimeLimit :: int

definition Buff_new :: "int \<Rightarrow> int \<Rightarrow> int \<Rightarrow> int \<Rightarrow> int \<Rightarrow> bool \<Rightarrow> bool \<Rightarrow> buff" where
  "Buff_new type skillID level beginTime keepTime bBreak bClient =
     \<lparr>bf_Type = type, bf_Level = level, bf_ParentSkill = skillID, bf_BeginTime = beginTime,
      bf_EndTime = uint32 (beginTime + ushort keepTime), bf_bCanBreak = bBreak, bf_bSendClient = bClient,
      bf_Effecttype = BUFFER_EFFECT_TYPE_ABS, bf_Parametar1 = 0, bf_Parametar2 = 0,
      bf_RunCounter = 0, bf_RunTimeLimit = 0\<rparr>"

record role_order =
  or_Type :: int
  or_TargetType :: int
  or_TargetPos :: pk_pos
  or_TargetRoleID :: int
  or_OrderTime :: int

record hater_info =
  ht_Distance :: int
  ht_Hp :: int
  ht_Attack :: int
  ht_Hit :: int
  ht_Hurt :: int

definition HaterInfo_clear :: hater_info where
  "HaterInfo_clear = \<lparr>ht_Distance = 0, ht_Hp = 0, ht_Attack = 0, ht_Hit = 0, ht_Hurt = 0\<rparr>"

definition HaterInfo_max :: "hater_info \<Rightarrow> int" where
  "HaterInfo_max h = short (ht_Distance h + ht_Hp h + ht_Attack h + ht_Hit h)"

text \<open>The multimap of buffs is a list ordered by the type, in the order of insertion for one type.
  \<open>rs_cleared\<close> is no field of the code: it counts how often the multimap was cleared, which
  makes every iterator into it invalid.\<close>

record role_state =
  rs_ControlID :: int
  rs_PK_State :: int
  rs_Strength :: int
  rs_Agile :: int
  rs_Wisdom :: int
  rs_RoleID :: int
  rs_RoleFlag :: int
  rs_RoleType :: int
  rs_Opposition :: int
  rs_Live :: int
  rs_Level :: int
  rs_HP_MAX :: int
  rs_Curr_HP_MAX :: int
  rs_MP_MAX :: int
  rs_Curr_MP_MAX :: int
  rs_HP :: int
  rs_MP :: int
  rs_CurrentOrder :: role_order
  rs_Waiting :: int
  rs_move :: move_attr
  rs_phys :: phys_attr
  rs_magic :: magic_attr
  rs_buffs :: "buff list"
  rs_HatreMap :: "(int, hater_info) smap"
  rs_cleared :: nat

definition upd_move :: "(move_attr \<Rightarrow> move_attr) \<Rightarrow> role_state \<Rightarrow> role_state" where
  "upd_move f r = r\<lparr>rs_move := f (rs_move r)\<rparr>"

definition upd_phys :: "(phys_attr \<Rightarrow> phys_attr) \<Rightarrow> role_state \<Rightarrow> role_state" where
  "upd_phys f r = r\<lparr>rs_phys := f (rs_phys r)\<rparr>"

definition upd_magic :: "(magic_attr \<Rightarrow> magic_attr) \<Rightarrow> role_state \<Rightarrow> role_state" where
  "upd_magic f r = r\<lparr>rs_magic := f (rs_magic r)\<rparr>"

definition upd_order :: "(role_order \<Rightarrow> role_order) \<Rightarrow> role_state \<Rightarrow> role_state" where
  "upd_order f r = r\<lparr>rs_CurrentOrder := f (rs_CurrentOrder r)\<rparr>"

lemmas role_upds = upd_move_def upd_phys_def upd_magic_def upd_order_def

definition clear_buffs :: "role_state \<Rightarrow> role_state" where
  "clear_buffs r = r\<lparr>rs_buffs := [], rs_cleared := Suc (rs_cleared r)\<rparr>"

definition RoleState_Init :: "role_state \<Rightarrow> role_state" where
  "RoleState_Init r =
     upd_order (\<lambda>o'. o'\<lparr>or_Type := ORDER_TYPE_NO, or_OrderTime := 0\<rparr>)
     (upd_magic (\<lambda>m. m\<lparr>mg_MagicArmor := mg_MagicArmor_Base m, mg_LimitCounter := 0,
        mg_ExemptBadCounter := 0, mg_ExemptAllCounter := 0\<rparr>)
     (upd_phys (\<lambda>p. p\<lparr>ph_AttackCDTime := ushort (ph_AttackCDTime_Base p), ph_AttackHit := ph_AttackHit_Base p,
        ph_DefenseArmor := ph_DefenseArmor_Base p, ph_DefenseMiss := ph_DefenseMiss_Base p,
        ph_AttackCrit := ph_AttackCrit_Base p, ph_LimitCounter := 0, ph_ExemptCounter := 0,
        ph_HurtAdd := 0, ph_PreAttackTime := 0, ph_PreTimeStatus := 0\<rparr>)
     (upd_move (\<lambda>m. m\<lparr>mv_SpeedMod := mv_SpeedMod_Base m, mv_LimitCounter := 0,
        mv_CurrentPosMini := \<lparr>posX = 500, posY = 500\<rparr>\<rparr>)
     (r\<lparr>rs_Curr_HP_MAX := rs_HP_MAX r, rs_Curr_MP_MAX := rs_MP_MAX r, rs_Waiting := 0,
        rs_Live := ROLE_STATUS_LIVE\<rparr>))))"

definition RoleState_Dead :: "role_state \<Rightarrow> role_state" where
  "RoleState_Dead r =
     upd_move (\<lambda>m. m\<lparr>mv_MoveLine := []\<rparr>)
     ((clear_buffs (upd_order (\<lambda>o'. o'\<lparr>or_Type := ORDER_TYPE_NO\<rparr>)
        (r\<lparr>rs_Live := ROLE_STATUS_DEAD, rs_HP := 0\<rparr>)))\<lparr>rs_HatreMap := []\<rparr>)"

section \<open>A fight\<close>

record bullet =
  bl_Role_Attack :: int
  bl_Role_Passive :: int
  bl_Start_Time :: int
  bl_CurrentPos :: pk_pos
  bl_Speed :: int
  bl_BulletType :: int
  bl_Level :: int

record pk_skill_order =
  so_role :: int
  so_Start_Time :: int
  so_order :: role_order
  so_SkillLevel :: int

record user_order =
  uo_ControlID :: int
  uo_RoleID :: int
  uo_Order :: role_order

text \<open>\<open>pk_map_base\<close> is the memory behind \<^verbatim>\<open>pk_map_base[y][x]\<close>, also where the indices
  leave the array.  \<open>pk_out\<close> holds the messages given to \<^verbatim>\<open>send_client\<close>,
  \<open>pk_end\<close> the reports to the main server, \<open>pk_ge_up\<close> tells whether that server can be
  reached.\<close>

record pk =
  pk_State :: int
  pk_now :: int
  pk_ID :: int
  pk_map_id :: int
  pk_roles :: "(int, role_state) smap"
  pk_bullets :: "bullet list"
  pk_skill_order_list :: "pk_skill_order list"
  pk_map_base :: "int \<Rightarrow> int \<Rightarrow> int"
  pk_Orders :: "user_order list"
  pk_out :: "u8 list list"
  pk_end :: "u8 list list"
  pk_ge_up :: bool
  pk_srv_req :: int
  pk_uniq :: int
  pk_stack :: role_state
  pk_rand :: "nat \<Rightarrow> int"
  pk_nrand :: nat

definition pk_role :: "int \<Rightarrow> pk \<Rightarrow> role_state" where
  "pk_role i pk = (case smap_find i (pk_roles pk) of Some r \<Rightarrow> r | None \<Rightarrow> pk_stack pk)"

definition pk_upd :: "int \<Rightarrow> (role_state \<Rightarrow> role_state) \<Rightarrow> pk \<Rightarrow> pk" where
  "pk_upd i f pk =
     (case smap_find i (pk_roles pk) of
        None \<Rightarrow> pk
      | Some r \<Rightarrow> pk\<lparr>pk_roles := smap_put i (f r) (pk_roles pk)\<rparr>)"

definition next_rand :: "pk \<Rightarrow> int \<times> pk" where
  "next_rand pk = (pk_rand pk (pk_nrand pk), pk\<lparr>pk_nrand := Suc (pk_nrand pk)\<rparr>)"

definition pk_players :: "pk \<Rightarrow> role_state list" where
  "pk_players pk = filter (\<lambda>r. rs_RoleFlag r = RoleType_Player) (map snd (pk_roles pk))"

definition pk_keys :: "pk \<Rightarrow> int list" where
  "pk_keys pk = map fst (pk_roles pk)"

text \<open>A role that is stored under its identifier.\<close>

definition pk_ok :: "pk \<Rightarrow> bool" where
  "pk_ok pk \<longleftrightarrow> smap_ok (pk_roles pk) \<and> (\<forall>(i, r) \<in> set (pk_roles pk). rs_RoleID r = i)"

section \<open>Messages\<close>

record pk_head =
  hdr_PkgLen :: int
  hdr_Direction :: int
  hdr_SrvType :: int
  hdr_SrvSeq :: int
  hdr_MsgType :: int
  hdr_UniqID :: int
  hdr_RoleID :: int

definition PkgHead_packet :: "pk_head \<Rightarrow> u8 list" where
  "PkgHead_packet h = bytes_of_int 2 (hdr_PkgLen h) @ bytes_of_int 1 (hdr_Direction h) @
     bytes_of_int 1 (hdr_SrvType h) @ bytes_of_int 1 (hdr_SrvSeq h) @ bytes_of_int 2 (hdr_MsgType h) @
     bytes_of_int 4 (hdr_UniqID h) @ bytes_of_int 4 (hdr_RoleID h)"

definition int_of_bytes :: "u8 list \<Rightarrow> int" where
  "int_of_bytes bs = int (nat_of_bytes bs)"

definition PkgHead_unpacket :: "u8 list \<Rightarrow> pk_head" where
  "PkgHead_unpacket bs = \<lparr>hdr_PkgLen = int_of_bytes (take 2 bs), hdr_Direction = int_of_bytes (take 1 (drop 2 bs)),
     hdr_SrvType = int_of_bytes (take 1 (drop 3 bs)), hdr_SrvSeq = int_of_bytes (take 1 (drop 4 bs)),
     hdr_MsgType = int_of_bytes (take 2 (drop 5 bs)), hdr_UniqID = int_of_bytes (take 4 (drop 7 bs)),
     hdr_RoleID = int_of_bytes (take 4 (drop 11 bs))\<rparr>"

text \<open>What every broadcast of a fight does: one message for each player's role, addressed to its
  controller.\<close>

definition pk_message :: "int \<Rightarrow> u8 list \<Rightarrow> pk \<Rightarrow> role_state \<Rightarrow> u8 list" where
  "pk_message ty body pk r =
     PkgHead_packet \<lparr>hdr_PkgLen = 15 + int (length body), hdr_Direction = 3, hdr_SrvType = 2,
       hdr_SrvSeq = pk_srv_req pk, hdr_MsgType = ty, hdr_UniqID = pk_uniq pk, hdr_RoleID = rs_ControlID r\<rparr> @ body"

definition pk_broadcast :: "int \<Rightarrow> u8 list \<Rightarrow> pk \<Rightarrow> pk" where
  "pk_broadcast ty body pk = pk\<lparr>pk_out := pk_out pk @ map (pk_message ty body pk) (pk_players pk)\<rparr>"

definition BroadcastBegin :: "pk \<Rightarrow> pk" where
  "BroadcastBegin pk = pk_broadcast 102 [] pk"

definition BrodacastAttack :: "int \<Rightarrow> int \<Rightarrow> pk \<Rightarrow> pk" where
  "BrodacastAttack role_id role_passive pk =
     pk_broadcast 104 (bytes_of_int 4 role_id @ bytes_of_int 4 (pk_now pk) @ bytes_of_int 4 role_passive) pk"

definition BrodacastMultiHurt :: "(int, int) smap \<Rightarrow> int \<Rightarrow> pk \<Rightarrow> pk" where
  "BrodacastMultiHurt target effect pk =
     (if target = [] then pk
      else pk_broadcast 109 (bytes_of_int 2 (int (length target)) @
             concat (map (\<lambda>(i, h). bytes_of_int 4 i @ bytes_of_int 2 h) target) @
             bytes_of_int 4 (pk_now pk) @ bytes_of_int 2 effect) pk)"

definition BrodacastHpChange :: "int \<Rightarrow> int \<Rightarrow> int \<Rightarrow> int \<Rightarrow> pk \<Rightarrow> pk" where
  "BrodacastHpChange role_id hp source effectID pk =
     pk_broadcast 130 (bytes_of_int 4 role_id @ bytes_of_int 4 (pk_now pk) @ bytes_of_int 2 hp @
       bytes_of_int 1 source @ bytes_of_int 2 effectID) pk"

definition BrodacastMpChange :: "int \<Rightarrow> int \<Rightarrow> int \<Rightarrow> pk \<Rightarrow> pk" where
  "BrodacastMpChange role_id mp effectID pk =
     pk_broadcast 129 (bytes_of_int 4 role_id @ bytes_of_int 4 (pk_now pk) @ bytes_of_int 2 mp @
       bytes_of_int 2 effectID) pk"

definition BrodacastDead :: "int \<Rightarrow> pk \<Rightarrow> pk" where
  "BrodacastDead role_id pk = pk_broadcast 107 (bytes_of_int 4 role_id) pk"

definition bytes_of_pos :: "pk_pos \<Rightarrow> u8 list" where
  "bytes_of_pos p = bytes_of_int 2 (posX p) @ bytes_of_int 2 (posY p)"

definition BrodacastStop :: "int \<Rightarrow> pk_pos \<Rightarrow> pk_pos \<Rightarrow> pk \<Rightarrow> pk" where
  "BrodacastStop role_id current_pos current_pos_mini pk =
     pk_broadcast 108 (bytes_of_int 4 role_id @ bytes_of_int 4 (pk_now pk) @ bytes_of_pos current_pos @
       bytes_of_pos current_pos_mini) pk"

definition Brodacast_Skill :: "int \<Rightarrow> role_order \<Rightarrow> pk \<Rightarrow> pk" where
  "Brodacast_Skill role_id ord pk =
     pk_broadcast 118 (bytes_of_int 4 role_id @ bytes_of_int 4 (pk_now pk) @ bytes_of_int 2 (or_Type ord) @
       bytes_of_int 1 (or_TargetType ord) @
       (if or_TargetType ord = 1 then bytes_of_pos (or_TargetPos ord) else bytes_of_int 4 (or_TargetRoleID ord))) pk"

definition Brodacast_Skill_Buffer :: "int \<Rightarrow> int \<Rightarrow> int \<Rightarrow> int \<Rightarrow> int \<Rightarrow> int \<Rightarrow> pk \<Rightarrow> pk" where
  "Brodacast_Skill_Buffer role_id type parentSkillID keepTime param1 param2 pk =
     pk_broadcast 119 (bytes_of_int 4 role_id @ bytes_of_int 2 type @ bytes_of_int 2 parentSkillID @
       bytes_of_int 4 (pk_now pk) @ bytes_of_int 2 keepTime @ bytes_of_int 4 param1 @ bytes_of_int 4 param2) pk"

definition Brodacast_Skill_Newrole :: "u8 list \<Rightarrow> pk \<Rightarrow> pk" where
  "Brodacast_Skill_Newrole new_role pk = pk_broadcast 126 new_role pk"

definition Brodacast_Buffer_Run :: "int \<Rightarrow> int \<Rightarrow> int \<Rightarrow> pk \<Rightarrow> pk" where
  "Brodacast_Buffer_Run roleID skillType beginTime pk =
     pk_broadcast 121 (bytes_of_int 4 roleID @ bytes_of_int 2 skillType @ bytes_of_int 4 (pk_now pk) @
       bytes_of_int 4 beginTime) pk"

definition Brodacast_Buffer_Stop :: "int \<Rightarrow> int \<Rightarrow> int \<Rightarrow> int \<Rightarrow> pk \<Rightarrow> pk" where
  "Brodacast_Buffer_Stop roleID bufferID skillID beginTime pk =
     pk_broadcast 122 (bytes_of_int 4 roleID @ bytes_of_int 2 bufferID @ bytes_of_int 2 skillID @
       bytes_of_int 4 beginTime @ bytes_of_int 4 (pk_now pk)) pk"

definition Brodacast_Role_LocationOffset :: "int \<Rightarrow> int \<Rightarrow> int \<Rightarrow> int \<Rightarrow> pk \<Rightarrow> pk" where
  "Brodacast_Role_LocationOffset roleID targetX targetY parentSkill pk =
     pk_broadcast 128 (bytes_of_int 4 roleID @ bytes_of_int 4 (pk_now pk) @ bytes_of_int 2 targetX @
       bytes_of_int 2 targetY @ bytes_of_int 2 parentSkill) pk"

section \<open>Looking up and changing roles\<close>

named_theorems pk

lemma pk_role_upd [pk]:
  "pk_role j (pk_upd i f pk) = (if j = i \<and> smap_find i (pk_roles pk) \<noteq> None then f (pk_role i pk) else pk_role j pk)"
  by (auto simp: pk_role_def pk_upd_def smap split: option.splits)

lemma pk_upd_fields [simp, pk]:
  "pk_State (pk_upd i f pk) = pk_State pk" "pk_now (pk_upd i f pk) = pk_now pk" "pk_out (pk_upd i f pk) = pk_out pk"
  "pk_end (pk_upd i f pk) = pk_end pk" "pk_bullets (pk_upd i f pk) = pk_bullets pk"
  "pk_map_base (pk_upd i f pk) = pk_map_base pk" "pk_nrand (pk_upd i f pk) = pk_nrand pk"
  "pk_rand (pk_upd i f pk) = pk_rand pk" "pk_stack (pk_upd i f pk) = pk_stack pk"
  "pk_ge_up (pk_upd i f pk) = pk_ge_up pk"
  by (simp_all add: pk_upd_def split: option.split)

lemma find_pk_upd [pk]:
  "smap_find j (pk_roles (pk_upd i f pk)) = (if j = i then map_option f (smap_find i (pk_roles pk)) else smap_find j (pk_roles pk))"
  by (auto simp: pk_upd_def smap split: option.split)

lemma pk_broadcast_fields [simp, pk]:
  "pk_roles (pk_broadcast ty body pk) = pk_roles pk" "pk_State (pk_broadcast ty body pk) = pk_State pk"
  "pk_now (pk_broadcast ty body pk) = pk_now pk" "pk_end (pk_broadcast ty body pk) = pk_end pk"
  "pk_bullets (pk_broadcast ty body pk) = pk_bullets pk" "pk_map_base (pk_broadcast ty body pk) = pk_map_base pk"
  "pk_stack (pk_broadcast ty body pk) = pk_stack pk" "pk_ge_up (pk_broadcast ty body pk) = pk_ge_up pk"
  by (simp_all add: pk_broadcast_def)

lemma pk_role_broadcast [simp, pk]: "pk_role i (pk_broadcast ty body pk) = pk_role i pk"
  by (simp add: pk_role_def split: option.split)

section \<open>A fight to evaluate on\<close>

definition demo_role_state :: "int \<Rightarrow> int \<Rightarrow> pk_pos \<Rightarrow> role_state" where
  "demo_role_state i opp pos =
     \<lparr>rs_ControlID = i, rs_PK_State = PK_STATE_PKING, rs_Strength = 0, rs_Agile = 0, rs_Wisdom = 0, rs_RoleID = i,
      rs_RoleFlag = RoleType_Player, rs_RoleType = 1, rs_Opposition = opp, rs_Live = ROLE_STATUS_LIVE, rs_Level = 10,
      rs_HP_MAX = 100, rs_Curr_HP_MAX = 100, rs_MP_MAX = 50, rs_Curr_MP_MAX = 50, rs_HP = 100, rs_MP = 50,
      rs_CurrentOrder = \<lparr>or_Type = 0, or_TargetType = 2, or_TargetPos = pos, or_TargetRoleID = 0, or_OrderTime = 0\<rparr>,
      rs_Waiting = 0,
      rs_move = \<lparr>mv_SpeedMod = 400, mv_MoveLine = [], mv_CurrentPos = pos, mv_CurrentPosMini = \<lparr>posX = 500, posY = 500\<rparr>,
        mv_Direct = 1, mv_SpeedMod_Base = 400, mv_LimitCounter = 0\<rparr>,
      rs_phys = \<lparr>ph_AttackArea = 2, ph_AttackCDTime = 15, ph_AttackIngTime = 3, ph_AttackBulletMod = 0, ph_AttackHit = 90,
        ph_DefenseMiss = 10, ph_DefenseArmor = 25, ph_AttackPowerHign_Base = 40, ph_AttackPowerLow_Base = 30,
        ph_AttackPowerAdd = 0, ph_AttackCDTime_Base = 15, ph_AttackHit_Base = 90, ph_DefenseMiss_Base = 10,
        ph_AttackCrit_Base = 0, ph_AttackCrit = 0, ph_DefenseArmor_Base = 25, ph_HurtAdd = 0, ph_ExemptCounter = 0,
        ph_PreAttackTime = 0, ph_LimitCounter = 0, ph_PreTimeStatus = 0\<rparr>,
      rs_magic = \<lparr>mg_MagicArmor = 5, mg_MagicArmor_Base = 5, mg_SkillMap = [], mg_ExemptBadCounter = 0,
        mg_ExemptAllCounter = 0, mg_LimitCounter = 0\<rparr>,
      rs_buffs = [], rs_HatreMap = [], rs_cleared = 0\<rparr>"

definition demo_pk :: pk where
  "demo_pk = \<lparr>pk_State = PK_STATE_PKING, pk_now = 100, pk_ID = 1, pk_map_id = 1,
     pk_roles = [(1, demo_role_state 1 1 \<lparr>posX = 10, posY = 10\<rparr>), (2, demo_role_state 2 2 \<lparr>posX = 14, posY = 12\<rparr>)],
     pk_bullets = [], pk_skill_order_list = [], pk_map_base = (\<lambda>y x. if 5 \<le> y then 1 else 0), pk_Orders = [],
     pk_out = [], pk_end = [], pk_ge_up = True, pk_srv_req = 1, pk_uniq = 0,
     pk_stack = demo_role_state 0 0 \<lparr>posX = 0, posY = 0\<rparr>, pk_rand = (\<lambda>n. 0), pk_nrand = 0\<rparr>"

end
