(* ===== verification/Pk_Path.thy ===== *)
theory Pk_Path
  imports Pk_Base "HOL-Library.Monad_Syntax"
begin

text \<open>
  Finding places and ways on the map of a fight, \<^verbatim>\<open>PkServer/PK_thread.cpp\<close>:
  \<^verbatim>\<open>GetEmptyPos\<close> and \<^verbatim>\<open>AStar\<close> with the movement message it sends.

  \<^verbatim>\<open>AStar\<close> is a loop over two lists of nodes, which may not end for arbitrary lists
  (\<open>astar_loop\<close>, \<open>None\<close>); from the lists it starts with it always ends
  (\<open>astar_loop_ends\<close>).  The route it finds is a sequence of single steps over free cells from
  the start to the end, it fails for want of a way only when there is none, and
  the turning points it sends to the players determine the route.
\<close>

section \<open>Empty places\<close>

definition on_map :: "pk_pos \<Rightarrow> bool" where
  "on_map p \<longleftrightarrow> 0 \<le> posX p \<and> posX p < MAP_SIZE_X \<and> 0 \<le> posY p \<and> posY p < MAP_SIZE_Y"

definition free_cell :: "pk \<Rightarrow> pk_pos \<Rightarrow> bool" where
  "free_cell pk p \<longleftrightarrow> pk_map_base pk (posY p) (posX p) \<noteq> 0"

definition dir_offset :: "int \<Rightarrow> pk_pos" where
  "dir_offset d =
     (if d = 3 then \<lparr>posX = 1, posY = 0\<rparr> else if d = 4 then \<lparr>posX = 1, posY = 1\<rparr>
      else if d = 1 then \<lparr>posX = 0, posY = - 1\<rparr> else if d = 2 then \<lparr>posX = 1, posY = - 1\<rparr>
      else if d = 5 then \<lparr>posX = 0, posY = 1\<rparr> else if d = 6 then \<lparr>posX = - 1, posY = 1\<rparr>
      else if d = 7 then \<lparr>posX = - 1, posY = 0\<rparr> else if d = 8 then \<lparr>posX = - 1, posY = - 1\<rparr>
      else \<lparr>posX = 0, posY = 0\<rparr>)"

primrec step_on :: "nat \<Rightarrow> pk \<Rightarrow> pk_pos \<Rightarrow> pk_pos \<Rightarrow> pk_pos option" where
  "step_on 0 pk off p = None"
| "step_on (Suc n) pk off p =
     (let q = Offset off p
      in if \<not> on_map q then None else if free_cell pk q then Some q else step_on n pk off q)"

definition around :: "pk_pos \<Rightarrow> int \<Rightarrow> pk_pos list" where
  "around p circle =
     filter (\<lambda>q. q \<noteq> p)
       (concat (map (\<lambda>x. map (\<lambda>y. \<lparr>posX = x, posY = y\<rparr>) [posY p - circle..posY p + circle])
          [posX p - circle..posX p + circle]))"

definition GetEmptyPos :: "pk \<Rightarrow> pk_pos \<Rightarrow> int \<Rightarrow> pk_pos" where
  "GetEmptyPos pk p direct =
     (case step_on 3 pk (dir_offset direct) p of
        Some q \<Rightarrow> q
      | None \<Rightarrow>
          (case find (\<lambda>q. on_map q \<and> free_cell pk q) (concat (map (around p) [1, 2, 3, 4])) of
             Some q \<Rightarrow> q
           | None \<Rightarrow> p))"

lemma step_on_Some: "step_on n pk off p = Some q \<Longrightarrow> on_map q \<and> free_cell pk q"
  by (induction n arbitrary: p) (auto simp: Let_def split: if_splits)

lemma GetEmptyPos_cases: "GetEmptyPos pk p d = p \<or> on_map (GetEmptyPos pk p d) \<and> free_cell pk (GetEmptyPos pk p d)"
  by (auto simp: GetEmptyPos_def find_Some_iff dest: step_on_Some split: option.split)

section \<open>The search\<close>

record pos_a =
  pa_Node :: pk_pos
  pa_NodeParent :: pk_pos
  pa_F :: int
  pa_G :: int

text \<open>The eight neighbours in the order of the code, with the cost of the step.  The bounds that
  are tested are those of the coordinate that changes.\<close>

definition astar_moves :: "(int \<times> int \<times> int) list" where
  "astar_moves = [(0, - 1, 10), (1, - 1, 14), (1, 0, 10), (1, 1, 14), (0, 1, 10), (- 1, 1, 14), (- 1, 0, 10),
     (- 1, - 1, 14)]"

definition astar_fits :: "pk_pos \<Rightarrow> int \<Rightarrow> int \<Rightarrow> bool" where
  "astar_fits p dx dy \<longleftrightarrow> (dx = 1 \<longrightarrow> posX p + 1 < MAP_SIZE_X) \<and> (dx = - 1 \<longrightarrow> 0 \<le> posX p - 1) \<and>
     (dy = 1 \<longrightarrow> posY p + 1 < MAP_SIZE_Y) \<and> (dy = - 1 \<longrightarrow> 0 \<le> posY p - 1)"

definition pos_plus :: "pk_pos \<Rightarrow> int \<Rightarrow> int \<Rightarrow> pk_pos" where
  "pos_plus p dx dy = \<lparr>posX = posX p + dx, posY = posY p + dy\<rparr>"

definition astar_expand :: "pk \<Rightarrow> pk_pos \<Rightarrow> pos_a list \<Rightarrow> pos_a list \<Rightarrow> pos_a \<Rightarrow> pos_a list" where
  "astar_expand pk EndPos waiting visited cur =
     map (\<lambda>(dx, dy, w). let q = pos_plus (pa_Node cur) dx dy
            in \<lparr>pa_Node = q, pa_NodeParent = pa_Node cur, pa_F = w + pa_F cur,
                pa_G = w + pa_F cur + \<bar>posX EndPos - posX q\<bar> * 10 + \<bar>posY EndPos - posY q\<bar> * 10\<rparr>)
       (filter (\<lambda>(dx, dy, w). astar_fits (pa_Node cur) dx dy \<and> free_cell pk (pos_plus (pa_Node cur) dx dy) \<and>
            (\<forall>a \<in> set waiting. pa_Node a \<noteq> pos_plus (pa_Node cur) dx dy) \<and>
            (\<forall>a \<in> set visited. pa_Node a \<noteq> pos_plus (pa_Node cur) dx dy)) astar_moves)"

text \<open>The first waiting node at the current place, and the waiting nodes without it.\<close>

fun take_node :: "pk_pos \<Rightarrow> pos_a list \<Rightarrow> pos_a list \<times> pos_a list" where
  "take_node p [] = ([], [])"
| "take_node p (a # as) = (if pa_Node a = p then ([a], as) else let (t, r) = take_node p as in (t, a # r))"

fun pick_min :: "pos_a \<Rightarrow> pos_a list \<Rightarrow> pos_a" where
  "pick_min a [] = a"
| "pick_min a (b # bs) = pick_min (if pa_G b \<le> pa_G a then b else a) bs"

datatype astar_result = no_way | too_long | way_found "pos_a list"

partial_function (option) astar_loop ::
    "pk \<Rightarrow> pk_pos \<Rightarrow> pos_a list \<Rightarrow> pos_a list \<Rightarrow> pos_a \<Rightarrow> astar_result option" where
  "astar_loop pk EndPos waiting visited cur =
     (if pa_Node cur = EndPos then Some (way_found (visited @ [cur]))
      else let (t, waiting') = take_node (pa_Node cur) (waiting @ astar_expand pk EndPos waiting visited cur)
           in case waiting' of
                [] \<Rightarrow> Some no_way
              | a # as \<Rightarrow>
                  if MAP_MAX_LINE \<le> pa_G (pick_min a (a # as)) then Some too_long
                  else astar_loop pk EndPos waiting' (visited @ t) (pick_min a (a # as)))"

declare astar_loop.simps [code]

definition astar_start :: "pk_pos \<Rightarrow> pos_a" where
  "astar_start p = \<lparr>pa_Node = p, pa_NodeParent = p, pa_F = 0, pa_G = 0\<rparr>"

definition astar_search :: "pk \<Rightarrow> pk_pos \<Rightarrow> pk_pos \<Rightarrow> astar_result option" where
  "astar_search pk StartPos EndPos = astar_loop pk EndPos [astar_start StartPos] [] (astar_start StartPos)"

section \<open>The route\<close>

text \<open>From the last visited node back to the first: \<open>prev\<close> are the nodes before the current one, the
  nearest first.  The result is the route, the direction of the first step, and whether there is one.\<close>

fun walk_back :: "pos_a \<Rightarrow> pos_a list \<Rightarrow> pk_pos list \<Rightarrow> int \<Rightarrow> pk_pos list \<times> int \<times> bool" where
  "walk_back a [] line d = (line, d, True)"
| "walk_back a (p # prev) line d =
     (let d' = (if prev = [] then getDirect (pa_Node a) (pa_Node p) else d)
      in if prev = [] \<and> d' = 0 then (line, d', False)
         else if pa_NodeParent a = pa_Node p \<or> prev = [] then walk_back p prev (pa_Node p # line) d'
         else walk_back a prev line d')"

text \<open>The direction from one point of the route to the next, and the points where it changes.\<close>

definition step_direct :: "pk_pos \<Rightarrow> pk_pos \<Rightarrow> int" where
  "step_direct pre cur =
     (if posX pre < posX cur then
        if posY pre < posY cur then 4 else if posY cur < posY pre then 2 else 3
      else if posX cur < posX pre then
        if posY pre < posY cur then 6 else if posY cur < posY pre then 8 else 7
      else if posY pre < posY cur then 5 else if posY cur < posY pre then 1 else 0)"

fun turn_points :: "int \<Rightarrow> pk_pos \<Rightarrow> pk_pos list \<Rightarrow> pk_pos list option" where
  "turn_points d pre [] = Some [pre]"
| "turn_points d pre (cur # rest) =
     (let d' = step_direct pre cur
      in if d' = 0 then None
         else if d' = d then turn_points d cur rest
         else map_option ((#) pre) (turn_points d' cur rest))"

text \<open>\<^verbatim>\<open>sRespBuff\<close> has 256 bytes: 29 before the points and 4 for each; more points than fit
  overrun it, which is \<open>None\<close>.\<close>

definition move_message :: "int \<Rightarrow> pk_pos list \<Rightarrow> pk \<Rightarrow> pk option" where
  "move_message i points pk =
     (if 256 < 29 + 4 * length points then None
      else Some (pk_broadcast 103
        (bytes_of_int 4 (rs_RoleID (pk_role i pk)) @ bytes_of_int 4 (pk_now pk) @
         bytes_of_pos (mv_CurrentPosMini (rs_move (pk_role i pk))) @ bytes_of_int 2 (int (length points)) @
         concat (map bytes_of_pos points)) pk))"

definition set_route :: "int \<Rightarrow> pk_pos list \<Rightarrow> int \<Rightarrow> pk \<Rightarrow> pk" where
  "set_route i line d = pk_upd i (upd_move (\<lambda>m. m\<lparr>mv_MoveLine := line, mv_Direct := d\<rparr>))"

definition astar_target :: "int \<Rightarrow> pk_pos \<Rightarrow> pk \<Rightarrow> pk_pos" where
  "astar_target i EndPos pk =
     (if free_cell pk EndPos then EndPos else GetEmptyPos pk EndPos (mv_Direct (rs_move (pk_role i pk))))"

definition AStar :: "int \<Rightarrow> pk_pos \<Rightarrow> pk_pos \<Rightarrow> pk \<Rightarrow> (int \<times> pk) option" where
  "AStar i StartPos EndPos pk =
     (if \<not> on_map EndPos then Some (- 1, pk)
      else do {
        r \<leftarrow> astar_search pk StartPos (astar_target i EndPos pk);
        case r of
          no_way \<Rightarrow> Some (- 1, pk)
        | too_long \<Rightarrow> Some (- 1, pk)
        | way_found visited \<Rightarrow>
            let (line, d, found) = walk_back (last visited) (tl (rev visited)) [pa_Node (last visited)]
                                     (mv_Direct (rs_move (pk_role i pk)));
                pk1 = set_route i line d pk
            in if \<not> found then Some (- 1, pk1)
               else case turn_points d (hd line) (tl line) of
                      None \<Rightarrow> Some (- 1, pk1)
                    | Some points \<Rightarrow> do { pk2 \<leftarrow> move_message i (hd line # points) pk1; Some (0, pk2) }
      })"

section \<open>The search ends and what it finds\<close>

definition pk_step :: "pk \<Rightarrow> pk_pos \<Rightarrow> pk_pos \<Rightarrow> bool" where
  "pk_step pk p q \<longleftrightarrow> (\<exists>(dx, dy, w) \<in> set astar_moves. q = pos_plus p dx dy \<and> astar_fits p dx dy \<and> free_cell pk q)"

text \<open>The visited nodes, the latest first: each but the first has its parent among the earlier ones.\<close>

fun linked :: "pk \<Rightarrow> pk_pos \<Rightarrow> pos_a list \<Rightarrow> bool" where
  "linked pk s [] \<longleftrightarrow> True"
| "linked pk s (a # prev) \<longleftrightarrow> linked pk s prev \<and>
     (if prev = [] then pa_Node a = s
      else pa_NodeParent a \<in> pa_Node ` set prev \<and> pk_step pk (pa_NodeParent a) (pa_Node a))"

definition in_box :: "pk_pos \<Rightarrow> pk_pos \<Rightarrow> bool" where
  "in_box s p \<longleftrightarrow> posX p \<in> {min 0 (posX s)..max 49 (posX s)} \<and> posY p \<in> {min 0 (posY s)..max 28 (posY s)}"

definition astar_inv :: "pk \<Rightarrow> pk_pos \<Rightarrow> pk_pos \<Rightarrow> pos_a list \<Rightarrow> pos_a list \<Rightarrow> bool" where
  "astar_inv pk s e waiting visited \<longleftrightarrow>
     distinct (map pa_Node (visited @ waiting)) \<and> (\<forall>a \<in> set waiting. linked pk s (a # rev visited)) \<and>
     linked pk s (rev visited) \<and> (\<forall>p \<in> pa_Node ` set (visited @ waiting). in_box s p) \<and>
     (\<forall>p \<in> pa_Node ` set visited. p \<noteq> e \<and> (\<forall>q. pk_step pk p q \<longrightarrow> q \<in> pa_Node ` set (visited @ waiting))) \<and>
     s \<in> pa_Node ` set (visited @ waiting)"

lemma take_node_found:
  "a \<in> set as \<Longrightarrow> distinct (map pa_Node as) \<Longrightarrow>
     fst (take_node (pa_Node a) (as @ bs)) = [a] \<and> snd (take_node (pa_Node a) (as @ bs)) = remove1 a as @ bs"
  by (induction as) (auto split: prod.split)

lemma pick_min_in: "pick_min a as \<in> set (a # as)"
  by (induction a as rule: pick_min.induct) auto

lemma pick_min_Cons_in: "pick_min a (a # as) \<in> set (a # as)"
  using pick_min_in[of a "a # as"] by auto

lemma expand_steps:
  "b \<in> set (astar_expand pk e waiting visited cur) \<Longrightarrow>
     pa_NodeParent b = pa_Node cur \<and> pk_step pk (pa_Node cur) (pa_Node b) \<and>
     pa_Node b \<notin> pa_Node ` set waiting \<and> pa_Node b \<notin> pa_Node ` set visited"
  by (fastforce simp: astar_expand_def pk_step_def Let_def)

lemma expand_all:
  "pk_step pk (pa_Node cur) q \<Longrightarrow>
     q \<in> pa_Node ` set waiting \<union> pa_Node ` set visited \<union> pa_Node ` set (astar_expand pk e waiting visited cur)"
  by (force simp: astar_expand_def pk_step_def Let_def image_iff)

lemma distinct_moves: "distinct (map (\<lambda>(dx, dy, w). pos_plus p dx dy) astar_moves)"
  by (simp add: astar_moves_def pos_plus_def)

lemma distinct_expand: "distinct (map pa_Node (astar_expand pk e waiting visited cur))"
proof -
  have "map pa_Node (astar_expand pk e waiting visited cur) =
      map (\<lambda>(dx, dy, w). pos_plus (pa_Node cur) dx dy)
       (filter (\<lambda>(dx, dy, w). astar_fits (pa_Node cur) dx dy \<and> free_cell pk (pos_plus (pa_Node cur) dx dy) \<and>
            (\<forall>a \<in> set waiting. pa_Node a \<noteq> pos_plus (pa_Node cur) dx dy) \<and>
            (\<forall>a \<in> set visited. pa_Node a \<noteq> pos_plus (pa_Node cur) dx dy)) astar_moves)"
    by (auto simp: astar_expand_def Let_def)
  then show ?thesis
    using distinct_moves[of "pa_Node cur"] by (simp add: distinct_map inj_on_def)
qed

lemma step_in_box: "in_box s p \<Longrightarrow> pk_step pk p q \<Longrightarrow> in_box s q"
  by (auto simp: in_box_def pk_step_def astar_moves_def astar_fits_def pos_plus_def)

lemma astar_inv_start: "astar_inv pk s e [astar_start s] []"
  by (simp add: astar_inv_def astar_start_def in_box_def)

lemma astar_inv_step:
  assumes inv: "astar_inv pk s e waiting visited" and cur: "cur \<in> set waiting" and ne: "pa_Node cur \<noteq> e"
  shows "astar_inv pk s e (remove1 cur waiting @ astar_expand pk e waiting visited cur) (visited @ [cur])"
proof -
  let ?new = "astar_expand pk e waiting visited cur"
  have dw: "distinct (map pa_Node waiting)" and dv: "distinct (map pa_Node visited)"
    and vw: "pa_Node ` set visited \<inter> pa_Node ` set waiting = {}"
    using inv by (auto simp: astar_inv_def)
  have dist: "distinct waiting" using dw by (simp add: distinct_map)
  have rem: "set (remove1 cur waiting) = set waiting - {cur}" using dist by simp
  have nodes: "pa_Node ` set waiting = insert (pa_Node cur) (pa_Node ` set (remove1 cur waiting))"
    using cur rem by auto
  have drem: "distinct (map pa_Node (remove1 cur waiting))"
    using dw by (simp add: distinct_map rem inj_on_diff)
  have out: "pa_Node cur \<notin> pa_Node ` set (remove1 cur waiting)"
    using dw cur rem by (auto simp: distinct_map dest: inj_onD)
  have new: "pa_NodeParent b = pa_Node cur \<and> pk_step pk (pa_Node cur) (pa_Node b) \<and>
      pa_Node b \<notin> pa_Node ` set waiting \<and> pa_Node b \<notin> pa_Node ` set visited" if "b \<in> set ?new" for b
    using expand_steps[OF that] .
  have all: "set (visited @ [cur]) \<union> set (remove1 cur waiting @ ?new) = set (visited @ waiting) \<union> set ?new"
    using cur rem by auto
  have sub: "pa_Node ` set ((visited @ [cur]) @ (remove1 cur waiting @ ?new)) =
      pa_Node ` set (visited @ waiting) \<union> pa_Node ` set ?new"
    using all by (metis image_Un set_append)
  have nw: "pa_Node ` set ?new \<inter> pa_Node ` set waiting = {}" "pa_Node ` set ?new \<inter> pa_Node ` set visited = {}"
    using new by blast+
  define V R N where "V = pa_Node ` set visited" and "R = pa_Node ` set (remove1 cur waiting)"
    and "N = pa_Node ` set ?new"
  have sets: "pa_Node cur \<notin> V" "pa_Node cur \<notin> R" "pa_Node cur \<notin> N" "V \<inter> R = {}" "V \<inter> N = {}" "R \<inter> N = {}"
    using vw nw out by (auto simp: nodes V_def R_def N_def)
  have "distinct (map pa_Node ((visited @ [cur]) @ (remove1 cur waiting @ ?new)))"
    unfolding map_append distinct_append set_append set_map V_def[symmetric] R_def[symmetric] N_def[symmetric]
    using dv drem distinct_expand[of pk e waiting visited cur] sets by auto
  moreover have lc: "linked pk s (cur # rev visited)" using inv cur unfolding astar_inv_def by blast
  moreover have "\<forall>a \<in> set (remove1 cur waiting @ ?new). linked pk s (a # rev (visited @ [cur]))"
  proof
    fix a assume "a \<in> set (remove1 cur waiting @ ?new)"
    then consider "a \<in> set waiting" "a \<noteq> cur" | "a \<in> set ?new" using rem by auto
    then show "linked pk s (a # rev (visited @ [cur]))"
    proof cases
      case 1
      then have "linked pk s (a # rev visited)" using inv unfolding astar_inv_def by blast
      moreover have "visited \<noteq> []"
      proof
        assume "visited = []"
        with inv 1 cur have "pa_Node a = s" "pa_Node cur = s" by (auto simp: astar_inv_def)
        with 1 dw cur show False by (auto simp: distinct_map dest: inj_onD)
      qed
      ultimately show ?thesis using lc by (auto split: if_splits)
    next
      case 2
      then show ?thesis using new[OF 2] lc by auto
    qed
  qed
  moreover have "\<forall>p \<in> pa_Node ` set ((visited @ [cur]) @ (remove1 cur waiting @ ?new)). in_box s p"
  proof -
    have "in_box s (pa_Node cur)" using inv cur by (auto simp: astar_inv_def)
    then have "in_box s (pa_Node b)" if "b \<in> set ?new" for b using new[OF that] step_in_box by blast
    then show ?thesis using inv rem cur by (auto simp: astar_inv_def)
  qed
  moreover have "\<forall>p \<in> pa_Node ` set (visited @ [cur]). p \<noteq> e \<and>
      (\<forall>q. pk_step pk p q \<longrightarrow> q \<in> pa_Node ` set ((visited @ [cur]) @ (remove1 cur waiting @ ?new)))"
  proof (intro ballI conjI allI impI)
    fix p assume p: "p \<in> pa_Node ` set (visited @ [cur])"
    have old: "p' \<noteq> e \<and> (\<forall>q. pk_step pk p' q \<longrightarrow> q \<in> pa_Node ` set (visited @ waiting))"
      if "p' \<in> pa_Node ` set visited" for p' using inv that unfolding astar_inv_def by blast
    show "p \<noteq> e" using p old ne by auto
    fix q assume step: "pk_step pk p q"
    from p consider "p \<in> pa_Node ` set visited" | "p = pa_Node cur" by auto
    then show "q \<in> pa_Node ` set ((visited @ [cur]) @ (remove1 cur waiting @ ?new))"
    proof cases
      case 1
      then show ?thesis unfolding sub using old step by blast
    next
      case 2
      then show ?thesis unfolding sub using expand_all[of pk cur q waiting visited e] step
        unfolding set_append image_Un by blast
    qed
  qed
  moreover have "s \<in> pa_Node ` set ((visited @ [cur]) @ (remove1 cur waiting @ ?new))"
    unfolding sub using inv unfolding astar_inv_def by blast
  moreover have "linked pk s (rev (visited @ [cur]))" using lc by (simp only: rev_append rev.simps append.simps)
  ultimately show ?thesis unfolding astar_inv_def by (intro conjI)
qed

text \<open>The places that are left bound the rounds: each round visits one more of the box.\<close>

definition box_left :: "pk_pos \<Rightarrow> pos_a list \<Rightarrow> nat" where
  "box_left s visited = card ({p. in_box s p} - pa_Node ` set visited)"

lemma finite_box: "finite {p. in_box s p}"
proof -
  have "{p. in_box s p} \<subseteq> (\<lambda>(x, y). \<lparr>posX = x, posY = y\<rparr>) `
      ({min 0 (posX s)..max 49 (posX s)} \<times> {min 0 (posY s)..max 28 (posY s)})"
  proof
    fix p assume "p \<in> {p. in_box s p}"
    then show "p \<in> (\<lambda>(x, y). \<lparr>posX = x, posY = y\<rparr>) `
        ({min 0 (posX s)..max 49 (posX s)} \<times> {min 0 (posY s)..max 28 (posY s)})"
      by (intro image_eqI[of _ _ "(posX p, posY p)"]) (auto simp: in_box_def)
  qed
  then show ?thesis by (rule finite_subset) auto
qed

lemma box_left_less:
  "in_box s (pa_Node cur) \<Longrightarrow> pa_Node cur \<notin> pa_Node ` set visited \<Longrightarrow> box_left s (visited @ [cur]) < box_left s visited"
  unfolding box_left_def by (rule psubset_card_mono) (use finite_box in auto)

lemma astar_loop_facts:
  assumes "astar_inv pk s e waiting visited" and "cur \<in> set waiting"
  shows "\<exists>r. astar_loop pk e waiting visited cur = Some r \<and>
    (case r of no_way \<Rightarrow> \<not> (pk_step pk)\<^sup>*\<^sup>* s e
     | too_long \<Rightarrow> True
     | way_found v \<Rightarrow> v \<noteq> [] \<and> pa_Node (last v) = e \<and> linked pk s (rev v) \<and> distinct (map pa_Node v))"
  using assms
proof (induction "box_left s visited" arbitrary: waiting visited cur rule: less_induct)
  case less
  note inv = less.prems(1) and cur = less.prems(2)
  show ?case
  proof (cases "pa_Node cur = e")
    case True
    then have "astar_loop pk e waiting visited cur = Some (way_found (visited @ [cur]))"
      by (subst astar_loop.simps) simp
    moreover have "linked pk s (cur # rev visited)" "distinct (map pa_Node (visited @ [cur]))"
      using inv cur by (auto simp: astar_inv_def)
    ultimately show ?thesis using True by (simp del: linked.simps)
  next
    case False
    let ?new = "astar_expand pk e waiting visited cur"
    define w where "w = remove1 cur waiting @ ?new"
    have dw: "distinct (map pa_Node waiting)" using inv by (simp add: astar_inv_def)
    have inv': "astar_inv pk s e w (visited @ [cur])"
      unfolding w_def by (rule astar_inv_step[OF inv cur False])
    have "take_node (pa_Node cur) (waiting @ ?new) = ([cur], w)"
      using take_node_found[OF cur dw, of ?new] by (simp add: w_def prod_eq_iff)
    then have eq: "astar_loop pk e waiting visited cur =
        (case w of [] \<Rightarrow> Some no_way
         | a # as \<Rightarrow> if MAP_MAX_LINE \<le> pa_G (pick_min a (a # as)) then Some too_long
                     else astar_loop pk e w (visited @ [cur]) (pick_min a (a # as)))"
      using False by (subst astar_loop.simps) simp
    show ?thesis
    proof (cases w)
      case Nil
      define V where "V = pa_Node ` set (visited @ [cur])"
      have V: "s \<in> V" "\<forall>p \<in> V. p \<noteq> e \<and> (\<forall>q. pk_step pk p q \<longrightarrow> q \<in> V)"
        using inv' unfolding astar_inv_def Nil append_Nil2 V_def by blast+
      have "q \<in> V" if "(pk_step pk)\<^sup>*\<^sup>* s q" for q
        using that by induction (use V in auto)
      moreover have "e \<notin> V" using V(2) by blast
      ultimately have "\<not> (pk_step pk)\<^sup>*\<^sup>* s e" by blast
      then show ?thesis using eq Nil by simp
    next
      case (Cons a as)
      have "in_box s (pa_Node cur)" "pa_Node cur \<notin> pa_Node ` set visited"
        using inv cur by (auto simp: astar_inv_def)
      then have "box_left s (visited @ [cur]) < box_left s visited" by (rule box_left_less)
      from less.hyps[OF this inv', of "pick_min a (a # as)"] show ?thesis
        using eq Cons pick_min_Cons_in[of a as] by (simp del: pick_min.simps)
    qed
  qed
qed

lemma astar_search_facts:
  "\<exists>r. astar_search pk s e = Some r \<and>
    (case r of no_way \<Rightarrow> \<not> (pk_step pk)\<^sup>*\<^sup>* s e
     | too_long \<Rightarrow> True
     | way_found v \<Rightarrow> v \<noteq> [] \<and> pa_Node (last v) = e \<and> linked pk s (rev v) \<and> distinct (map pa_Node v))"
  unfolding astar_search_def by (rule astar_loop_facts[OF astar_inv_start]) simp

section \<open>The route and its message\<close>

lemma getDirect_step: "getDirect q p = step_direct p q"
  by (simp add: getDirect_def step_direct_def)

lemma step_direct_0: "step_direct p q = 0 \<longleftrightarrow> p = q"
  by (auto simp: step_direct_def)

lemma walk_back_route:
  "linked pk s (a # prev) \<Longrightarrow> distinct (map pa_Node prev @ pa_Node a # rest) \<Longrightarrow>
   successively (pk_step pk) (pa_Node a # rest) \<Longrightarrow>
   \<exists>line d'. walk_back a prev (pa_Node a # rest) d = (line, d', True) \<and> line \<noteq> [] \<and> hd line = s \<and>
     last line = last (pa_Node a # rest) \<and> distinct line \<and> successively (pk_step pk) line \<and>
     set line \<subseteq> set (map pa_Node prev @ pa_Node a # rest) \<and>
     (if prev = [] then line = pa_Node a # rest \<and> d' = d
      else 1 < length line \<and> d' = step_direct (line ! 0) (line ! 1))"
proof (induction prev arbitrary: a rest d)
  case Nil
  then show ?case by simp
next
  case (Cons p prev)
  show ?case
  proof (cases "prev = []")
    case True
    with Cons.prems have "pa_NodeParent a = pa_Node p" "pa_Node p = s" "pk_step pk (pa_Node p) (pa_Node a)"
      "pa_Node p \<noteq> pa_Node a" by auto
    with True Cons.prems show ?thesis
      by (auto simp: getDirect_step step_direct_0)
  next
    case False
    show ?thesis
    proof (cases "pa_NodeParent a = pa_Node p")
      case True
      have "linked pk s (p # prev)" "pk_step pk (pa_Node p) (pa_Node a)" using Cons.prems True by auto
      then have "\<exists>line d'. walk_back p prev (pa_Node p # pa_Node a # rest) d = (line, d', True) \<and> line \<noteq> [] \<and> hd line = s \<and>
         last line = last (pa_Node p # pa_Node a # rest) \<and> distinct line \<and> successively (pk_step pk) line \<and>
         set line \<subseteq> set (map pa_Node prev @ pa_Node p # pa_Node a # rest) \<and>
         (if prev = [] then line = pa_Node p # pa_Node a # rest \<and> d' = d
          else 1 < length line \<and> d' = step_direct (line ! 0) (line ! 1))"
        using Cons.prems by (intro Cons.IH) auto
      then show ?thesis using False True by auto
    next
      case no: False
      have "linked pk s (a # prev)" using Cons.prems no False by (auto split: if_splits)
      then have "\<exists>line d'. walk_back a prev (pa_Node a # rest) d = (line, d', True) \<and> line \<noteq> [] \<and> hd line = s \<and>
         last line = last (pa_Node a # rest) \<and> distinct line \<and> successively (pk_step pk) line \<and>
         set line \<subseteq> set (map pa_Node prev @ pa_Node a # rest) \<and>
         (if prev = [] then line = pa_Node a # rest \<and> d' = d
          else 1 < length line \<and> d' = step_direct (line ! 0) (line ! 1))"
        using Cons.prems by (intro Cons.IH) auto
      then show ?thesis using False no by auto
    qed
  qed
qed

text \<open>What a player makes of the points: the straight steps from each to the next.\<close>

definition ahead :: "pk_pos \<Rightarrow> int \<Rightarrow> int \<Rightarrow> nat \<Rightarrow> pk_pos" where
  "ahead p dx dy k = \<lparr>posX = posX p + int k * dx, posY = posY p + int k * dy\<rparr>"

definition segment :: "pk_pos \<Rightarrow> pk_pos \<Rightarrow> pk_pos list" where
  "segment p q = map (ahead p (sgn (posX q - posX p)) (sgn (posY q - posY p)))
     [0..<nat (max \<bar>posX q - posX p\<bar> \<bar>posY q - posY p\<bar>)]"

fun follow :: "pk_pos list \<Rightarrow> pk_pos list" where
  "follow [] = []"
| "follow [p] = [p]"
| "follow (p # q # ps) = segment p q @ follow (q # ps)"

definition neighbour :: "pk_pos \<Rightarrow> pk_pos \<Rightarrow> bool" where
  "neighbour p q \<longleftrightarrow> p \<noteq> q \<and> \<bar>posX q - posX p\<bar> \<le> 1 \<and> \<bar>posY q - posY p\<bar> \<le> 1"

lemma pk_step_neighbour: "pk_step pk p q \<Longrightarrow> neighbour p q"
  by (cases p, cases q) (auto simp: pk_step_def neighbour_def astar_moves_def pos_plus_def)

lemma ahead_0: "ahead p dx dy 0 = p" by (simp add: ahead_def)

lemma sgn_mult_nat: "sgn (int k * d) = (if k = 0 then 0 else sgn d)"
  by (simp add: sgn_mult)

lemma segment_ahead:
  assumes "\<bar>dx\<bar> \<le> 1" "\<bar>dy\<bar> \<le> 1" "dx \<noteq> 0 \<or> dy \<noteq> 0"
  shows "segment p (ahead p dx dy k) = map (ahead p dx dy) [0..<k]"
proof (cases "k = 0")
  case True
  then show ?thesis by (simp add: segment_def ahead_def)
next
  case False
  have dxy: "dx \<in> {- 1, 0, 1}" "dy \<in> {- 1, 0, 1}" using assms by auto
  then have "sgn dx = dx" "sgn dy = dy" by auto
  moreover have "max \<bar>int k * dx\<bar> \<bar>int k * dy\<bar> = int k"
    using dxy assms(3) by auto
  ultimately show ?thesis using False by (simp add: segment_def ahead_def sgn_mult_nat)
qed

text \<open>The offsets of the directions of a step.\<close>

definition step_off :: "int \<Rightarrow> int \<times> int" where
  "step_off d = (posX (dir_offset d), posY (dir_offset d))"

lemma neighbour_ahead:
  "neighbour p q \<Longrightarrow> q = pos_plus p (fst (step_off (step_direct p q))) (snd (step_off (step_direct p q)))"
  by (cases p, cases q)
     (auto simp: neighbour_def step_direct_def step_off_def dir_offset_def pos_plus_def)

lemma step_off_small: "\<bar>fst (step_off d)\<bar> \<le> 1 \<and> \<bar>snd (step_off d)\<bar> \<le> 1"
  by (simp add: step_off_def dir_offset_def)

lemma step_off_0: "neighbour p q \<Longrightarrow> d = step_direct p q \<Longrightarrow> fst (step_off d) \<noteq> 0 \<or> snd (step_off d) \<noteq> 0"
  by (auto simp: neighbour_def step_direct_def step_off_def dir_offset_def)

lemma turn_points_follow:
  assumes "successively neighbour (pre # rest)"
    and "pre = ahead s (fst (step_off d)) (snd (step_off d)) k"
    and "k = 0 \<or> fst (step_off d) \<noteq> 0 \<or> snd (step_off d) \<noteq> 0"
  shows "\<exists>pts. turn_points d pre rest = Some pts \<and>
    follow (s # pts) = map (ahead s (fst (step_off d)) (snd (step_off d))) [0..<k] @ pre # rest"
  using assms
proof (induction rest arbitrary: pre s d k)
  case Nil
  then show ?case
    using segment_ahead[of "fst (step_off d)" "snd (step_off d)" s k] step_off_small[of d]
    by (auto simp: segment_def[of s s] ahead_0)
next
  case (Cons cur rest)
  have nb: "neighbour pre cur" and succ: "successively neighbour (cur # rest)" using Cons.prems by auto
  let ?d = "step_direct pre cur"
  have d0: "?d \<noteq> 0" using nb by (simp add: step_direct_0 neighbour_def)
  have cur: "cur = pos_plus pre (fst (step_off ?d)) (snd (step_off ?d))" by (rule neighbour_ahead[OF nb])
  have off: "fst (step_off ?d) \<noteq> 0 \<or> snd (step_off ?d) \<noteq> 0" by (rule step_off_0[OF nb refl])
  show ?case
  proof (cases "?d = d")
    case True
    then have "cur = ahead s (fst (step_off d)) (snd (step_off d)) (Suc k)"
      using cur Cons.prems(2) by (simp add: pos_plus_def ahead_def algebra_simps)
    then obtain pts where "turn_points d cur rest = Some pts"
      "follow (s # pts) = map (ahead s (fst (step_off d)) (snd (step_off d))) [0..<Suc k] @ cur # rest"
      using Cons.IH[OF succ, of s d "Suc k"] off[unfolded True] by blast
    then show ?thesis using True d0 Cons.prems(2) by (simp add: Let_def)
  next
    case False
    have "cur = ahead pre (fst (step_off ?d)) (snd (step_off ?d)) 1"
      using cur by (simp add: pos_plus_def ahead_def)
    then obtain pts where pts: "turn_points ?d cur rest = Some pts"
      and fol: "follow (pre # pts) = map (ahead pre (fst (step_off ?d)) (snd (step_off ?d))) [0..<1] @ cur # rest"
      using Cons.IH[OF succ, of pre ?d 1] off by auto
    have seg: "segment s pre = map (ahead s (fst (step_off d)) (snd (step_off d))) [0..<k]"
      using segment_ahead[of "fst (step_off d)" "snd (step_off d)" s k] step_off_small[of d] Cons.prems(2,3)
      by (cases "k = 0") (auto simp: segment_def[of s s] ahead_0)
    show ?thesis using False d0 pts fol seg by (simp add: ahead_0 Let_def)
  qed
qed

lemma successively_mono: "successively P xs \<Longrightarrow> (\<And>x y. P x y \<Longrightarrow> Q x y) \<Longrightarrow> successively Q xs"
  by (induction xs rule: induct_list012) auto

lemma route_points:
  assumes "successively (pk_step pk) line" and "line \<noteq> []"
  shows "\<exists>pts. turn_points d (hd line) (tl line) = Some pts \<and> follow (hd line # pts) = line"
proof -
  have "successively neighbour (hd line # tl line)"
    using successively_mono[OF assms(1) pk_step_neighbour] assms(2) by simp
  from turn_points_follow[OF this, of "hd line" d 0] assms(2) show ?thesis by (simp add: ahead_0)
qed

section \<open>What AStar does\<close>

lemma AStar_eq:
  assumes "smap_find i (pk_roles pk) = Some r" and e: "on_map e"
  shows "AStar i s e pk = Some (- 1, pk) \<and>
      (\<not> (pk_step pk)\<^sup>*\<^sup>* s (astar_target i e pk) \<or> astar_search pk s (astar_target i e pk) = Some too_long) \<or>
    (\<exists>line d points. line \<noteq> [] \<and> hd line = s \<and> last line = astar_target i e pk \<and> distinct line \<and>
       successively (pk_step pk) line \<and> (length line = 1 \<or> d = step_direct (line ! 0) (line ! 1)) \<and>
       follow points = line \<and>
       AStar i s e pk = map_option (Pair 0) (move_message i points (set_route i line d pk)))"
proof -
  let ?t = "astar_target i e pk" and ?d0 = "mv_Direct (rs_move (pk_role i pk))"
  obtain res where res: "astar_search pk s ?t = Some res" and facts:
    "case res of no_way \<Rightarrow> \<not> (pk_step pk)\<^sup>*\<^sup>* s ?t
     | too_long \<Rightarrow> True
     | way_found v \<Rightarrow> v \<noteq> [] \<and> pa_Node (last v) = ?t \<and> linked pk s (rev v) \<and> distinct (map pa_Node v)"
    using astar_search_facts[of pk s ?t] by blast
  show ?thesis
  proof (cases res)
    case no_way
    then show ?thesis using res facts e by (simp add: AStar_def)
  next
    case too_long
    then show ?thesis using res e by (simp add: AStar_def)
  next
    case (way_found v)
    define a prev where "a = last v" and "prev = tl (rev v)"
    have v: "rev v = a # prev" and "pa_Node a = ?t"
      using facts way_found unfolding a_def prev_def by (simp_all add: hd_rev[symmetric])
    have "distinct (map pa_Node (rev v))" using facts way_found by (simp add: rev_map[symmetric])
    then have "distinct (map pa_Node prev @ [pa_Node a])" unfolding v by simp
    then obtain line d where wb: "walk_back a prev [pa_Node a] ?d0 = (line, d, True)" and
      line: "line \<noteq> []" "hd line = s" "last line = ?t" "distinct line" "successively (pk_step pk) line"
      "if prev = [] then line = [pa_Node a] \<and> d = ?d0 else 1 < length line \<and> d = step_direct (line ! 0) (line ! 1)"
      using walk_back_route[of pk s a prev "[]" ?d0] facts way_found v \<open>pa_Node a = ?t\<close> by auto
    obtain pts where pts: "turn_points d (hd line) (tl line) = Some pts" "follow (hd line # pts) = line"
      using route_points[OF line(5,1)] by blast
    have "AStar i s e pk = map_option (Pair 0) (move_message i (hd line # pts) (set_route i line d pk))"
      using res way_found e wb pts by (simp add: AStar_def a_def prev_def Let_def map_option_case
          split: Option.bind_splits option.split)
    moreover have "length line = 1 \<or> d = step_direct (line ! 0) (line ! 1)" using line(6) by (auto split: if_splits)
    ultimately show ?thesis using line(1-5) pts by blast
  qed
qed

lemma move_message_Some:
  "move_message i points pk = Some pk' \<Longrightarrow> length points \<le> 56 \<and> pk_role j pk' = pk_role j pk \<and> pk_map_base pk' = pk_map_base pk"
  by (auto simp: move_message_def split: if_splits)

lemma set_route_role:
  "smap_find i (pk_roles pk) = Some r \<Longrightarrow>
     mv_MoveLine (rs_move (pk_role i (set_route i line d pk))) = line \<and>
     mv_Direct (rs_move (pk_role i (set_route i line d pk))) = d"
  by (simp add: set_route_def pk upd_move_def)

text \<open>
  C14: \<^verbatim>\<open>AStar\<close> always returns.  It succeeds, or it gives up without any change, because
  there is no way or because the cheapest waiting node is already estimated at
  \<^verbatim>\<open>MAP_MAX_LINE\<close> or more, or the route has more than 56 turning points and its message
  overruns \<^verbatim>\<open>sRespBuff\<close>.
\<close>

theorem AStar_returns:
  assumes "smap_find i (pk_roles pk) = Some r" and "on_map e"
  shows "(\<exists>pk'. AStar i s e pk = Some (0, pk')) \<or>
    AStar i s e pk = Some (- 1, pk) \<and>
      (\<not> (pk_step pk)\<^sup>*\<^sup>* s (astar_target i e pk) \<or> astar_search pk s (astar_target i e pk) = Some too_long) \<or>
    AStar i s e pk = None \<and>
      (\<exists>points. 56 < length points \<and> successively (pk_step pk) (follow points) \<and> hd (follow points) = s \<and>
         last (follow points) = astar_target i e pk)"
proof -
  from AStar_eq[OF assms] consider
      "AStar i s e pk = Some (- 1, pk) \<and>
        (\<not> (pk_step pk)\<^sup>*\<^sup>* s (astar_target i e pk) \<or> astar_search pk s (astar_target i e pk) = Some too_long)"
    | line d points where "hd line = s" "last line = astar_target i e pk" "successively (pk_step pk) line"
       "follow points = line" "AStar i s e pk = map_option (Pair 0) (move_message i points (set_route i line d pk))"
    by blast
  then show ?thesis
  proof cases
    case 2
    show ?thesis
    proof (cases "56 < length points")
      case True
      then show ?thesis using 2 by (auto simp: move_message_def)
    next
      case False
      then show ?thesis using 2 by (simp add: move_message_def)
    qed
  qed blast
qed

text \<open>A role at (10, 10) that is sent to (12, 11).\<close>

definition demo_moved :: pk where
  "demo_moved = snd (the (AStar 1 \<lparr>posX = 10, posY = 10\<rparr> \<lparr>posX = 12, posY = 11\<rparr> demo_pk))"

lemma demo_AStar: "AStar 1 \<lparr>posX = 10, posY = 10\<rparr> \<lparr>posX = 12, posY = 11\<rparr> demo_pk = Some (0, demo_moved)"
proof -
  have "AStar 1 \<lparr>posX = 10, posY = 10\<rparr> \<lparr>posX = 12, posY = 11\<rparr> demo_pk \<noteq> None \<and>
      fst (the (AStar 1 \<lparr>posX = 10, posY = 10\<rparr> \<lparr>posX = 12, posY = 11\<rparr> demo_pk)) = 0"
    by code_simp
  then show ?thesis by (auto simp: demo_moved_def)
qed

lemma demo_pk_role: "smap_find 1 (pk_roles demo_pk) = Some (demo_role_state 1 1 \<lparr>posX = 10, posY = 10\<rparr>)"
  by (simp add: demo_pk_def smap_find_def)

theorem AStar_returns_witness:
  "\<exists>pk'. AStar 1 \<lparr>posX = 10, posY = 10\<rparr> \<lparr>posX = 12, posY = 11\<rparr> demo_pk = Some (0, pk')"
  using AStar_returns[OF demo_pk_role, of "\<lparr>posX = 12, posY = 11\<rparr>" "\<lparr>posX = 10, posY = 10\<rparr>"] demo_AStar
  by (simp add: on_map_def)

text \<open>
  C15: when \<^verbatim>\<open>AStar\<close> succeeds, the role has a route that begins where it was asked to, ends at
  the target, or at the free place near the target that was chosen for it, visits no cell twice, goes
  from cell to neighbouring cell, and enters only free cells inside the map; its direction is that of
  the first step; and the turning points in the message to the players determine the route.
\<close>

theorem AStar_route:
  assumes "smap_find i (pk_roles pk) = Some r" and "AStar i s e pk = Some (0, pk')"
  shows "\<exists>line d points. mv_MoveLine (rs_move (pk_role i pk')) = line \<and> mv_Direct (rs_move (pk_role i pk')) = d \<and>
    line \<noteq> [] \<and> hd line = s \<and> last line = astar_target i e pk \<and> distinct line \<and> successively (pk_step pk) line \<and>
    (length line = 1 \<or> d = step_direct (line ! 0) (line ! 1)) \<and>
    follow points = line \<and> move_message i points (set_route i line d pk) = Some pk'"
proof -
  have e: "on_map e" using assms(2) by (simp add: AStar_def split: if_splits)
  have "AStar i s e pk \<noteq> Some (- 1, pk)" using assms(2) by simp
  with AStar_eq[OF assms(1) e, of s] obtain line d points where
    l: "line \<noteq> []" "hd line = s" "last line = astar_target i e pk" "distinct line"
      "successively (pk_step pk) line" "length line = 1 \<or> d = step_direct (line ! 0) (line ! 1)"
      "follow points = line"
    and eq: "AStar i s e pk = map_option (Pair 0) (move_message i points (set_route i line d pk))"
    by blast
  have m: "move_message i points (set_route i line d pk) = Some pk'"
    using assms(2) unfolding eq by auto
  have "mv_MoveLine (rs_move (pk_role i pk')) = line \<and> mv_Direct (rs_move (pk_role i pk')) = d"
    using set_route_role[OF assms(1), of line d] move_message_Some[OF m, of i] by simp
  then show ?thesis using l m by blast
qed

theorem AStar_route_witness:
  "\<exists>line d points. mv_MoveLine (rs_move (pk_role 1 demo_moved)) = line \<and> mv_Direct (rs_move (pk_role 1 demo_moved)) = d \<and>
    line \<noteq> [] \<and> hd line = \<lparr>posX = 10, posY = 10\<rparr> \<and> last line = astar_target 1 \<lparr>posX = 12, posY = 11\<rparr> demo_pk \<and>
    distinct line \<and> successively (pk_step demo_pk) line \<and>
    (length line = 1 \<or> d = step_direct (line ! 0) (line ! 1)) \<and>
    follow points = line \<and> move_message 1 points (set_route 1 line d demo_pk) = Some demo_moved"
  by (rule AStar_route[OF demo_pk_role demo_AStar])

end
