(* ===== verification/Pk_Buff.thy ===== *)
theory Pk_Buff
  imports Pk_Base
begin

text \<open>
  Buffs, damage and death in a fight, \<^verbatim>\<open>PkServer/PK_thread.cpp\<close>:
  \<^verbatim>\<open>UpdataBuffer\<close>, \<^verbatim>\<open>breakLastSkill\<close>, \<^verbatim>\<open>onRoleDead\<close>,
  \<^verbatim>\<open>CheckOver\<close>, \<^verbatim>\<open>EndGame\<close>, \<^verbatim>\<open>CalculateSkillHurt\<close>,
  \<^verbatim>\<open>CalculateMultiSkillHurt\<close> and the shield that bursts,
  \<^verbatim>\<open>skill_process_209_buffer\<close>.

  These functions call one another.  The calls stop after two levels, because death adds only a
  revival buff and breaking a skill takes away only cast skills: \<open>UpdataBuffer_with\<close> takes what it
  calls as arguments, \<open>UpdataBuffer_0\<close> is the buff update for the two kinds of buff that call
  nothing, and the equations \<open>onRoleDead_eq\<close> and \<open>breakLastSkill_eq\<close> are those of the code.
\<close>

section \<open>The end of a fight\<close>

text \<open>The report to the main server; its role identifier and number are not set.  Whether sending it
  succeeds has no effect.  A report that is longer than the array it is written into ends the run of the
  fight: see \<open>run_event\<close>.\<close>

definition end_record :: "role_state \<Rightarrow> u8 list" where
  "end_record r = bytes_of_int 1 (rs_RoleFlag r) @ bytes_of_int 4 (rs_RoleType r) @ bytes_of_int 4 (rs_RoleID r) @
     bytes_of_int 1 (rs_Opposition r) @ bytes_of_int 1 (rs_Live r) @ bytes_of_int 2 (rs_HP r) @ bytes_of_int 2 (rs_MP r)"

definition EndGame :: "int \<Rightarrow> pk \<Rightarrow> pk" where
  "EndGame WinOpposition pk =
     (if \<not> pk_ge_up pk then pk
      else let listed = filter (\<lambda>r. rs_RoleFlag r = RoleType_Player \<or> rs_RoleFlag r = RoleType_Pet) (map snd (pk_roles pk));
               body = bytes_of_int 4 (pk_ID pk) @ bytes_of_int 2 (pk_map_id pk) @ bytes_of_int 1 WinOpposition @
                 bytes_of_int 2 (int (length listed)) @ concat (map end_record listed);
               report = PkgHead_packet \<lparr>hdr_PkgLen = 15 + int (length body), hdr_Direction = 5, hdr_SrvType = 1,
                 hdr_SrvSeq = 1, hdr_MsgType = 201, hdr_UniqID = pk_uniq pk, hdr_RoleID = pk_uniq pk\<rparr> @ body;
               pk1 = pk_broadcast 127 (bytes_of_int 4 (pk_now pk)) pk
           in pk1\<lparr>pk_end := pk_end pk1 @ [report]\<rparr>)"

definition CheckOver :: "int \<Rightarrow> pk \<Rightarrow> pk" where
  "CheckOver opposition pk =
     (if pk_State pk = PK_STATE_OVER then pk
      else if \<exists>r \<in> set (map snd (pk_roles pk)). rs_Opposition r = opposition \<and> rs_Live r = ROLE_STATUS_LIVE then pk
      else let others = filter (\<lambda>r. rs_Opposition r \<noteq> opposition) (map snd (pk_roles pk));
               WinOpposition = (if others = [] then 0 else rs_Opposition (last others))
           in (EndGame WinOpposition pk)\<lparr>pk_State := PK_STATE_OVER\<rparr>)"

section \<open>What a buff does to the attributes\<close>

text \<open>\<open>u\<close> is \<^verbatim>\<open>updataType\<close>, \<open>old\<close> the buff of the same kind that is renewed
  (\<^verbatim>\<open>checkBuff\<close>), if there is one.\<close>

definition trade :: "(buff \<Rightarrow> int) \<Rightarrow> int \<Rightarrow> buff \<Rightarrow> buff option \<Rightarrow> int \<Rightarrow> int" where
  "trade p u b old v = short ((case old of None \<Rightarrow> v | Some c \<Rightarrow> short (v - p c)) + p b * u)"

definition count :: "int \<Rightarrow> buff option \<Rightarrow> int \<Rightarrow> int" where
  "count u old v = (case old of None \<Rightarrow> short (v + u) | Some c \<Rightarrow> v)"

definition curse :: "buff \<Rightarrow> int" where "curse b = short (bf_Parametar1 b sdiv 100)"

definition skill_effect :: "int \<Rightarrow> buff \<Rightarrow> buff option \<Rightarrow> role_state \<Rightarrow> role_state" where
  "skill_effect u b old r =
     (if bf_ParentSkill b = 223 then
        upd_phys (\<lambda>p. p\<lparr>ph_AttackHit := trade bf_Parametar2 u b old (ph_AttackHit p)\<rparr>)
        (upd_move (\<lambda>m. m\<lparr>mv_SpeedMod := trade bf_Parametar1 u b old (mv_SpeedMod m)\<rparr>) r)
      else if bf_ParentSkill b = 225 then
        upd_phys (\<lambda>p. p\<lparr>ph_HurtAdd := trade curse u b old (ph_HurtAdd p)\<rparr>) r
      else if bf_ParentSkill b = 203 then
        upd_move (\<lambda>m. m\<lparr>mv_SpeedMod := trade bf_Parametar1 u b old (mv_SpeedMod m)\<rparr>)
        (upd_magic (\<lambda>m. m\<lparr>mg_LimitCounter := count u old (mg_LimitCounter m)\<rparr>)
        (upd_phys (\<lambda>p. p\<lparr>ph_LimitCounter := count u old (ph_LimitCounter p)\<rparr>) r))
      else if bf_ParentSkill b = 230 then
        upd_phys (\<lambda>p. p\<lparr>ph_AttackCrit := trade bf_Parametar1 u b old (ph_AttackCrit p),
          ph_AttackHit := trade bf_Parametar2 u b old (ph_AttackHit p)\<rparr>) r
      else if bf_ParentSkill b = 236 then
        upd_magic (\<lambda>m. m\<lparr>mg_ExemptAllCounter := short (mg_ExemptAllCounter m + u),
          mg_LimitCounter := short (mg_LimitCounter m + u)\<rparr>)
        (upd_move (\<lambda>m. m\<lparr>mv_LimitCounter := short (mv_LimitCounter m + u)\<rparr>)
        (upd_phys (\<lambda>p. p\<lparr>ph_LimitCounter := short (ph_LimitCounter p + u),
          ph_ExemptCounter := short (ph_ExemptCounter p + u)\<rparr>) r))
      else r)"

definition cast_effect :: "int \<Rightarrow> buff \<Rightarrow> buff option \<Rightarrow> role_state \<Rightarrow> role_state" where
  "cast_effect u b old r =
     (if bf_ParentSkill b = 204 then
        upd_magic (\<lambda>m. m\<lparr>mg_LimitCounter := count u old (mg_LimitCounter m),
          mg_ExemptBadCounter := count u old (mg_ExemptBadCounter m)\<rparr>)
        (upd_phys (\<lambda>p. p\<lparr>ph_LimitCounter := count u old (ph_LimitCounter p)\<rparr>) r)
      else if bf_ParentSkill b = 224 \<or> bf_ParentSkill b = 222 then
        upd_magic (\<lambda>m. m\<lparr>mg_ExemptAllCounter := count u old (mg_ExemptAllCounter m),
          mg_LimitCounter := count u old (mg_LimitCounter m)\<rparr>)
        (upd_move (\<lambda>m. m\<lparr>mv_LimitCounter := count u old (mv_LimitCounter m)\<rparr>)
        (upd_phys (\<lambda>p. p\<lparr>ph_LimitCounter := count u old (ph_LimitCounter p),
          ph_ExemptCounter := count u old (ph_ExemptCounter p)\<rparr>) r))
      else if bf_ParentSkill b = 219 \<and> u \<noteq> UPDATABUFFER_ADD then
        upd_order (\<lambda>o'. o'\<lparr>or_Type := ORDER_TYPE_NO\<rparr>) r
      else r)"

text \<open>Without the factor \<^verbatim>\<open>updataType\<close> for the two maxima.\<close>

definition gain :: "buff \<Rightarrow> buff option \<Rightarrow> int \<Rightarrow> int" where
  "gain b old v = short ((case old of None \<Rightarrow> v | Some c \<Rightarrow> short (v - bf_Parametar1 c)) + bf_Parametar1 b)"

definition buff_effect :: "int \<Rightarrow> buff \<Rightarrow> buff option \<Rightarrow> role_state \<Rightarrow> role_state" where
  "buff_effect u b old r =
     (if bf_Type b = BUFFER_TYPE_BYSKILL then skill_effect u b old r
      else if bf_Type b = BUFFER_TYPE_CASTSKILL then cast_effect u b old r
      else if bf_Type b = BUFFER_TYPE_XUANYUN then
        upd_magic (\<lambda>m. m\<lparr>mg_LimitCounter := count u old (mg_LimitCounter m)\<rparr>)
        (upd_move (\<lambda>m. m\<lparr>mv_LimitCounter := count u old (mv_LimitCounter m)\<rparr>)
        (upd_phys (\<lambda>p. p\<lparr>ph_LimitCounter := count u old (ph_LimitCounter p)\<rparr>) r))
      else if bf_Type b = BUFFER_TYPE_NOSKILL then
        upd_magic (\<lambda>m. m\<lparr>mg_LimitCounter := count u old (mg_LimitCounter m)\<rparr>) r
      else if bf_Type b = BUFFER_TYPE_MOVESPEED then
        upd_move (\<lambda>m. m\<lparr>mv_SpeedMod := trade bf_Parametar1 u b old (mv_SpeedMod m)\<rparr>) r
      else if bf_Type b = BUFFER_TYPE_NOMOVE then
        upd_move (\<lambda>m. m\<lparr>mv_LimitCounter := count u old (mv_LimitCounter m)\<rparr>) r
      else if bf_Type b = BUFFER_TYPE_ARMOR then
        upd_phys (\<lambda>p. p\<lparr>ph_DefenseArmor := trade bf_Parametar1 u b old (ph_DefenseArmor p)\<rparr>) r
      else if bf_Type b = BUFFER_TYPE_ATTACKPOWER then
        upd_phys (\<lambda>p. p\<lparr>ph_AttackPowerAdd := trade bf_Parametar1 u b old (ph_AttackPowerAdd p)\<rparr>) r
      else if bf_Type b = BUFFER_TYPE_MAXHP then
        r\<lparr>rs_Curr_HP_MAX := gain b old (rs_Curr_HP_MAX r), rs_HP := gain b old (rs_HP r)\<rparr>
      else if bf_Type b = BUFFER_TYPE_MAXMP then
        r\<lparr>rs_Curr_MP_MAX := gain b old (rs_Curr_MP_MAX r)\<rparr>
      else r)"

text \<open>The parameters that a renewed buff takes over.\<close>

definition renewed :: "buff \<Rightarrow> buff \<Rightarrow> buff" where
  "renewed b c =
     (if bf_Type b = BUFFER_TYPE_BYSKILL then
        if bf_ParentSkill b = 223 \<or> bf_ParentSkill b = 210 \<or> bf_ParentSkill b = 230
        then c\<lparr>bf_Parametar1 := bf_Parametar1 b, bf_Parametar2 := bf_Parametar2 b\<rparr>
        else if bf_ParentSkill b = 225 \<or> bf_ParentSkill b = 209 \<or> bf_ParentSkill b = 203
        then c\<lparr>bf_Parametar1 := bf_Parametar1 b\<rparr> else c
      else if bf_Type b \<in> {BUFFER_TYPE_MOVESPEED, BUFFER_TYPE_ARMOR, BUFFER_TYPE_ATTACKPOWER, BUFFER_TYPE_MAXHP,
        BUFFER_TYPE_MAXMP} then c\<lparr>bf_Parametar1 := bf_Parametar1 b\<rparr>
      else c)"

section \<open>Adding and removing buffs\<close>

definition same_buff :: "buff \<Rightarrow> buff \<Rightarrow> bool" where
  "same_buff b c \<longleftrightarrow> bf_Type c = bf_Type b \<and> bf_ParentSkill c = bf_ParentSkill b"

fun buff_slot :: "buff \<Rightarrow> buff list \<Rightarrow> nat option" where
  "buff_slot b [] = None"
| "buff_slot b (c # cs) = (if same_buff b c then Some 0 else map_option Suc (buff_slot b cs))"

text \<open>\<^verbatim>\<open>multimap::insert\<close> puts the buff behind those of the same type.\<close>

definition insert_buff :: "buff \<Rightarrow> buff list \<Rightarrow> buff list" where
  "insert_buff b bs = takeWhile (\<lambda>c. bf_Type c \<le> bf_Type b) bs @ b # dropWhile (\<lambda>c. bf_Type c \<le> bf_Type b) bs"

definition send_buff :: "int \<Rightarrow> buff \<Rightarrow> int \<Rightarrow> pk \<Rightarrow> pk" where
  "send_buff i b u pk =
     (if \<not> bf_bSendClient b then pk
      else if u = UPDATABUFFER_ADD then
        Brodacast_Skill_Buffer (rs_RoleID (pk_role i pk)) (bf_Type b) (bf_ParentSkill b)
          (bf_EndTime b - bf_BeginTime b) (bf_Parametar1 b) (bf_Parametar2 b) pk
      else if u = UPDATABUFFER_DEL then
        Brodacast_Buffer_Stop (rs_RoleID (pk_role i pk)) (bf_Type b) (bf_ParentSkill b) (bf_BeginTime b) pk
      else pk)"

definition add_buff :: "(int \<Rightarrow> pk \<Rightarrow> pk) \<Rightarrow> int \<Rightarrow> buff \<Rightarrow> pk \<Rightarrow> pk" where
  "add_buff brk i b pk =
     (let pk1 = (if bf_Type b \<in> {BUFFER_TYPE_XUANYUN, BUFFER_TYPE_NOMOVE, BUFFER_TYPE_NOSKILL} then brk i pk else pk)
      in pk_upd i (\<lambda>r. r\<lparr>rs_buffs := insert_buff b (rs_buffs r)\<rparr>) pk1)"

text \<open>What removing a buff does besides the attributes: the damage of a curse, the burst of a shield,
  the end of a revival, the end of a summoned role.\<close>

definition curse_hurt :: "buff \<Rightarrow> int" where
  "curse_hurt b = short ((bf_Parametar1 b smod 100) * bf_Parametar2 b sdiv 100)"

definition buff_ends :: "(int \<Rightarrow> pk \<Rightarrow> pk) \<Rightarrow> (int \<Rightarrow> buff \<Rightarrow> pk \<Rightarrow> pk) \<Rightarrow> int \<Rightarrow> buff \<Rightarrow> pk \<Rightarrow> pk" where
  "buff_ends die shield i b pk =
     (if bf_Type b = BUFFER_TYPE_BYSKILL \<and> bf_ParentSkill b = 225 then
        let hurt = curse_hurt b;
            pk1 = pk_upd i (\<lambda>r. r\<lparr>rs_HP := short (rs_HP r - hurt)\<rparr>)
                    (BrodacastHpChange (rs_RoleID (pk_role i pk)) (- hurt) HPCHANGE_SOURCE_SKILL 225 pk)
        in if rs_HP (pk_role i pk1) \<le> 0 then die i (pk_upd i (\<lambda>r. r\<lparr>rs_HP := 0\<rparr>) pk1) else pk1
      else if bf_Type b = BUFFER_TYPE_BYSKILL \<and> bf_ParentSkill b = 209 then shield i b pk
      else if bf_Type b = BUFFER_TYPE_BYSKILL \<and> bf_ParentSkill b = 236 then
        let pk1 = pk_upd i (\<lambda>r. r\<lparr>rs_HP := short (rs_Curr_HP_MAX r * bf_Parametar1 b sdiv 100),
                    rs_MP := short (rs_Curr_MP_MAX r * bf_Parametar2 b sdiv 100)\<rparr>) pk
        in BrodacastHpChange (rs_RoleID (pk_role i pk1)) (rs_HP (pk_role i pk1)) HPCHANGE_SOURCE_SKILL 236 pk1
      else if bf_Type b = BUFFER_TYPE_CALL then die i pk
      else pk)"

definition UpdataBuffer_with ::
    "(int \<Rightarrow> pk \<Rightarrow> pk) \<Rightarrow> (int \<Rightarrow> pk \<Rightarrow> pk) \<Rightarrow> (int \<Rightarrow> buff \<Rightarrow> pk \<Rightarrow> pk) \<Rightarrow> int \<Rightarrow> buff \<Rightarrow> int \<Rightarrow> pk \<Rightarrow> pk" where
  "UpdataBuffer_with die brk shield i b u pk =
     (if u = UPDATABUFFER_ADD then
        case (if bf_Type b \<noteq> BUFFER_TYPE_HP \<and> bf_Type b \<noteq> BUFFER_TYPE_MP
              then buff_slot b (rs_buffs (pk_role i pk)) else None) of
          None \<Rightarrow> pk_upd i (buff_effect u b None) (add_buff brk i b (send_buff i b u pk))
        | Some k \<Rightarrow>
            let c = rs_buffs (pk_role i pk) ! k
            in if bf_Level b < bf_Level c then pk
               else let pk1 = send_buff i b u
                      (pk_upd i (\<lambda>r. r\<lparr>rs_buffs := (rs_buffs r)[k := c\<lparr>bf_EndTime := bf_EndTime b\<rparr>]\<rparr>) pk)
                    in if bf_Level c = bf_Level b then pk1
                       else pk_upd i (\<lambda>r. (buff_effect u b (Some c) r)
                              \<lparr>rs_buffs := (rs_buffs r)[k := renewed b (rs_buffs r ! k)]\<rparr>) pk1
      else buff_ends die shield i b (pk_upd i (buff_effect u b None) (send_buff i b u pk)))"

definition UpdataBuffer_0 :: "int \<Rightarrow> buff \<Rightarrow> int \<Rightarrow> pk \<Rightarrow> pk" where
  "UpdataBuffer_0 = UpdataBuffer_with (\<lambda>i pk. pk) (\<lambda>i pk. pk) (\<lambda>i b pk. pk)"

section \<open>Death and damage\<close>

definition revival_percent :: "int \<Rightarrow> int" where
  "revival_percent level = (if 1 \<le> level \<and> level \<le> 6 then level * 10 else 0)"

definition revival_buff :: "int \<Rightarrow> skill_attr \<Rightarrow> buff" where
  "revival_buff now sk =
     (Buff_new BUFFER_TYPE_BYSKILL 236 (sk_SkillLevel sk) now 20 False False)
       \<lparr>bf_Parametar1 := revival_percent (sk_SkillLevel sk), bf_Parametar2 := revival_percent (sk_SkillLevel sk)\<rparr>"

definition revives :: "int \<Rightarrow> role_state \<Rightarrow> skill_attr option" where
  "revives now r =
     (case smap_find 236 (mg_SkillMap (rs_magic r)) of
        None \<Rightarrow> None
      | Some sk \<Rightarrow> if sk_LastUseTime sk = 0 \<or> sk_SkillCD sk \<le> uint32 (now - sk_LastUseTime sk) then Some sk else None)"

definition use_skill :: "int \<Rightarrow> int \<Rightarrow> role_state \<Rightarrow> role_state" where
  "use_skill k now r = upd_magic (\<lambda>m. m\<lparr>mg_SkillMap :=
     (case smap_find k (mg_SkillMap m) of None \<Rightarrow> mg_SkillMap m
      | Some sk \<Rightarrow> smap_put k (sk\<lparr>sk_LastUseTime := now\<rparr>) (mg_SkillMap m))\<rparr>) r"

definition onRoleDead :: "int \<Rightarrow> pk \<Rightarrow> pk" where
  "onRoleDead i pk =
     (let pk1 = BrodacastDead (rs_RoleID (pk_role i pk)) pk
      in case revives (pk_now pk) (pk_role i pk) of
           Some sk \<Rightarrow>
             let pk2 = UpdataBuffer_0 i (revival_buff (pk_now pk) sk) UPDATABUFFER_ADD
                         (pk_upd i (\<lambda>r. RoleState_Init (clear_buffs r)) pk1);
                 pk3 = Brodacast_Skill (rs_RoleID (pk_role i pk))
                         \<lparr>or_Type = 236, or_TargetType = 2, or_TargetPos = \<lparr>posX = 0, posY = 0\<rparr>,
                          or_TargetRoleID = rs_RoleID (pk_role i pk), or_OrderTime = pk_now pk\<rparr> pk2
             in pk_upd i (\<lambda>r. upd_order (\<lambda>o'. o'\<lparr>or_Type := ORDER_TYPE_NO\<rparr>) (use_skill 236 (pk_now pk) r)) pk3
         | None \<Rightarrow> CheckOver (rs_Opposition (pk_role i pk)) (pk_upd i RoleState_Dead pk1))"

definition breaks :: "buff \<Rightarrow> bool" where
  "breaks b \<longleftrightarrow> bf_Type b = BUFFER_TYPE_CASTSKILL \<and> bf_bCanBreak b"

definition stop_buff :: "int \<Rightarrow> buff \<Rightarrow> pk \<Rightarrow> pk" where
  "stop_buff i b pk = Brodacast_Buffer_Stop (rs_RoleID (pk_role i pk)) (bf_Type b) (bf_ParentSkill b) (bf_BeginTime b) pk"

definition erase_buff :: "int \<Rightarrow> buff \<Rightarrow> pk \<Rightarrow> pk" where
  "erase_buff i b = pk_upd i (\<lambda>r. r\<lparr>rs_buffs := remove1 b (rs_buffs r)\<rparr>)"

definition breakLastSkill :: "int \<Rightarrow> pk \<Rightarrow> pk" where
  "breakLastSkill i pk =
     fold (\<lambda>b pk. erase_buff i b (stop_buff i b (UpdataBuffer_0 i b UPDATABUFFER_DEL pk)))
       (filter breaks (rs_buffs (pk_role i pk))) pk"

text \<open>The damage of a skill: the quotient of \<^verbatim>\<open>double\<close> numbers, cut towards zero.\<close>

definition skill_hurt :: "int \<Rightarrow> int \<Rightarrow> role_state \<Rightarrow> int" where
  "skill_hurt attackLevel hurt_value r =
     (let tmp = rs_Level r + rs_Wisdom r sdiv 10 + mg_MagicArmor (rs_magic r)
      in if tmp \<noteq> 0 then short (hurt_value * attackLevel sdiv tmp) else hurt_value)"

definition CalculateSkillHurt :: "int \<Rightarrow> int \<Rightarrow> int \<Rightarrow> int \<Rightarrow> pk \<Rightarrow> pk" where
  "CalculateSkillHurt i attackLevel hurt_value effect pk =
     (let h = skill_hurt attackLevel hurt_value (pk_role i pk);
          pk1 = BrodacastHpChange (rs_RoleID (pk_role i pk)) (- h) HPCHANGE_SOURCE_SKILL effect
                  (pk_upd i (\<lambda>r. r\<lparr>rs_HP := short (rs_HP r - h)\<rparr>) pk)
      in if rs_HP (pk_role i pk1) \<le> 0 then onRoleDead i pk1 else pk1)"

fun multi_hurt :: "int \<Rightarrow> (int, int) smap \<Rightarrow> int \<Rightarrow> pk \<Rightarrow> (int, int) smap \<times> int \<times> pk" where
  "multi_hurt attackLevel [] opp pk = ([], opp, pk)"
| "multi_hurt attackLevel ((i, h) # ts) opp pk =
     (case smap_find i (pk_roles pk) of
        None \<Rightarrow> let (ts', opp', pk') = multi_hurt attackLevel ts opp pk in ((i, h) # ts', opp', pk')
      | Some r \<Rightarrow>
          let h' = skill_hurt attackLevel h r;
              hp = short (rs_HP r - h');
              (opp1, pk1) = (if hp \<le> 0
                then (rs_Opposition r, BrodacastDead (rs_RoleID r)
                       (pk_upd i (\<lambda>r. r\<lparr>rs_HP := 0, rs_Live := ROLE_STATUS_DEAD\<rparr>) pk))
                else (opp, pk_upd i (\<lambda>r. r\<lparr>rs_HP := hp\<rparr>) pk));
              (ts', opp', pk') = multi_hurt attackLevel ts opp1 pk1
          in ((i, h') # ts', opp', pk'))"

definition CalculateMultiSkillHurt :: "(int, int) smap \<Rightarrow> int \<Rightarrow> int \<Rightarrow> pk \<Rightarrow> pk" where
  "CalculateMultiSkillHurt target attackLevel effect pk =
     (let (target', opp, pk1) = multi_hurt attackLevel target (- 1) pk;
          pk2 = BrodacastMultiHurt target' effect pk1
      in if opp \<noteq> - 1 then CheckOver opp pk2 else pk2)"

definition shield_radius :: "int \<Rightarrow> int" where
  "shield_radius level = (if level = 3 \<or> level = 4 then 5 else if level = 5 \<or> level = 6 then 7 else 3)"

text \<open>\<^verbatim>\<open>nX * nX + nY * nY\<close>, where the differences are stored in a \<^verbatim>\<open>short\<close>.\<close>

definition near_sq :: "pk_pos \<Rightarrow> pk_pos \<Rightarrow> int" where
  "near_sq A B = short (posX A - posX B) * short (posX A - posX B) + short (posY A - posY B) * short (posY A - posY B)"

text \<open>Every living role of another side whose squared distance is at most the radius.\<close>

definition skill_process_209_buffer :: "int \<Rightarrow> buff \<Rightarrow> pk \<Rightarrow> pk" where
  "skill_process_209_buffer i b pk =
     fold (\<lambda>j pk.
       let t = pk_role j pk; r = pk_role i pk
       in if rs_Live t = ROLE_STATUS_DEAD \<or> rs_Opposition t = rs_Opposition r then pk
          else if near_sq (mv_CurrentPos (rs_move r)) (mv_CurrentPos (rs_move t)) \<le> shield_radius (bf_Level b)
          then CalculateSkillHurt j (rs_Level r) (short (bf_Parametar2 b)) 209 pk
          else pk) (pk_keys pk) pk"

definition UpdataBuffer :: "int \<Rightarrow> buff \<Rightarrow> int \<Rightarrow> pk \<Rightarrow> pk" where
  "UpdataBuffer = UpdataBuffer_with onRoleDead breakLastSkill skill_process_209_buffer"

section \<open>The equations of the code\<close>

lemma UpdataBuffer_quiet:
  assumes "u = UPDATABUFFER_ADD \<and> bf_Type b \<notin> {BUFFER_TYPE_XUANYUN, BUFFER_TYPE_NOMOVE, BUFFER_TYPE_NOSKILL} \<or>
    u \<noteq> UPDATABUFFER_ADD \<and> bf_Type b \<notin> {BUFFER_TYPE_BYSKILL, BUFFER_TYPE_CALL}"
  shows "UpdataBuffer_with die brk shield i b u pk = UpdataBuffer_0 i b u pk"
  using assms unfolding UpdataBuffer_0_def UpdataBuffer_with_def
  by (auto simp: add_buff_def buff_ends_def split: option.split)

lemma onRoleDead_eq:
  "onRoleDead i pk =
     (let pk1 = BrodacastDead (rs_RoleID (pk_role i pk)) pk
      in case revives (pk_now pk) (pk_role i pk) of
           Some sk \<Rightarrow>
             let pk2 = UpdataBuffer i (revival_buff (pk_now pk) sk) UPDATABUFFER_ADD
                         (pk_upd i (\<lambda>r. RoleState_Init (clear_buffs r)) pk1);
                 pk3 = Brodacast_Skill (rs_RoleID (pk_role i pk))
                         \<lparr>or_Type = 236, or_TargetType = 2, or_TargetPos = \<lparr>posX = 0, posY = 0\<rparr>,
                          or_TargetRoleID = rs_RoleID (pk_role i pk), or_OrderTime = pk_now pk\<rparr> pk2
             in pk_upd i (\<lambda>r. upd_order (\<lambda>o'. o'\<lparr>or_Type := ORDER_TYPE_NO\<rparr>) (use_skill 236 (pk_now pk) r)) pk3
         | None \<Rightarrow> CheckOver (rs_Opposition (pk_role i pk)) (pk_upd i RoleState_Dead pk1))"
proof -
  have "UpdataBuffer i (revival_buff now sk) UPDATABUFFER_ADD pk = UpdataBuffer_0 i (revival_buff now sk) UPDATABUFFER_ADD pk"
    for now sk pk unfolding UpdataBuffer_def by (rule UpdataBuffer_quiet) (simp add: revival_buff_def Buff_new_def)
  then show ?thesis unfolding onRoleDead_def by (simp only:)
qed

lemma breakLastSkill_eq:
  "breakLastSkill i pk =
     fold (\<lambda>b pk. erase_buff i b (stop_buff i b (UpdataBuffer i b UPDATABUFFER_DEL pk)))
       (filter breaks (rs_buffs (pk_role i pk))) pk"
proof -
  have "UpdataBuffer i b UPDATABUFFER_DEL pk = UpdataBuffer_0 i b UPDATABUFFER_DEL pk" if "breaks b" for b pk
    unfolding UpdataBuffer_def by (rule UpdataBuffer_quiet) (use that in \<open>simp add: breaks_def\<close>)
  then show ?thesis unfolding breakLastSkill_def by (intro fold_cong) auto
qed

end
