(* ===== verification/Pk_Skills.thy ===== *)
theory Pk_Skills
  imports Pk_Path Pk_Buff
begin

text \<open>
  The skills of a fight, \<^verbatim>\<open>skill_process_201\<close> to
  \<^verbatim>\<open>skill_process_236\<close> of \<^verbatim>\<open>PkServer/PK_thread.cpp\<close>, with the effects
  of their bullets and of their cast buffs.

  A skill gets the role that uses it, the order and the level.  It may crash (\<open>None\<close>) where the code
  divides by zero or goes on with an iterator into a multimap that was cleared; a skill that cannot
  crash is a total function.  The fractions 0.6, 0.4 to 0.65, 0.8 and 0.85 of \<^verbatim>\<open>double\<close>
  and \<^verbatim>\<open>float\<close> that are cut to a \<^verbatim>\<open>short\<close> agree with the divisions of
  integers written here for every \<^verbatim>\<open>short\<close>.
\<close>

section \<open>Levels and targets\<close>

text \<open>A \<^verbatim>\<open>switch\<close> over the level, whose default is the value of the first level.\<close>

definition by_level :: "int list \<Rightarrow> int \<Rightarrow> int" where
  "by_level vs level = (if 1 \<le> level \<and> level \<le> int (length vs) then vs ! nat (level - 1) else hd vs)"

definition foe :: "role_state \<Rightarrow> role_state \<Rightarrow> bool" where
  "foe r t \<longleftrightarrow> rs_Live t \<noteq> ROLE_STATUS_DEAD \<and> rs_Opposition t \<noteq> rs_Opposition r"

definition ally :: "role_state \<Rightarrow> role_state \<Rightarrow> bool" where
  "ally r t \<longleftrightarrow> rs_Live t \<noteq> ROLE_STATUS_DEAD \<and> rs_Opposition t = rs_Opposition r"

definition magic_open :: "role_state \<Rightarrow> bool" where
  "magic_open t \<longleftrightarrow> mg_ExemptAllCounter (rs_magic t) \<le> 0 \<and> mg_ExemptBadCounter (rs_magic t) \<le> 0"

definition phys_open :: "role_state \<Rightarrow> bool" where
  "phys_open t \<longleftrightarrow> ph_ExemptCounter (rs_phys t) \<le> 0"

abbreviation pos_of :: "role_state \<Rightarrow> pk_pos" where
  "pos_of r \<equiv> mv_CurrentPos (rs_move r)"

text \<open>The loop over all roles, which looks at the caster \<open>i\<close> and the other role anew each time.\<close>

definition each_role :: "(role_state \<Rightarrow> role_state \<Rightarrow> bool) \<Rightarrow> (int \<Rightarrow> pk \<Rightarrow> pk) \<Rightarrow> int \<Rightarrow> pk \<Rightarrow> pk" where
  "each_role sel act i pk = fold (\<lambda>j pk. if sel (pk_role i pk) (pk_role j pk) then act j pk else pk) (pk_keys pk) pk"

definition has_role :: "pk \<Rightarrow> int \<Rightarrow> bool" where
  "has_role pk i \<longleftrightarrow> smap_find i (pk_roles pk) \<noteq> None"

text \<open>A buff of this moment, and giving it to a role.\<close>

definition buff_now :: "int \<Rightarrow> int \<Rightarrow> int \<Rightarrow> int \<Rightarrow> bool \<Rightarrow> pk \<Rightarrow> buff" where
  "buff_now ty skill level keepTime bBreak pk = Buff_new ty skill level (pk_now pk) keepTime bBreak True"

definition give_buff :: "int \<Rightarrow> buff \<Rightarrow> pk \<Rightarrow> pk" where
  "give_buff j b pk = UpdataBuffer j b UPDATABUFFER_ADD pk"

text \<open>A division of integers; dividing by zero ends the process.\<close>

definition c_div :: "int \<Rightarrow> int \<Rightarrow> int option" where
  "c_div a b = (if b = 0 then None else Some (a sdiv b))"

section \<open>The distance from a segment\<close>

text \<open>\<^verbatim>\<open>Pnt2SegmentDist\<close> divides and multiplies \<^verbatim>\<open>double\<close> numbers.  A
  non-negative \<^verbatim>\<open>double\<close> is \<open>m / 2 ^ k\<close> here; \<open>fp_div\<close> is the division rounded
  to 53 bits, half to even.\<close>

definition round_even :: "int \<Rightarrow> int \<Rightarrow> int" where
  "round_even n d =
     (let q = n div d; r = 2 * (n mod d) in if r < d \<or> r = d \<and> even q then q else q + 1)"

function fp_scale :: "int \<Rightarrow> int \<Rightarrow> nat \<Rightarrow> nat" where
  "fp_scale p q k = (if p \<le> 0 \<or> 4503599627370496 * q \<le> p * 2 ^ k then k else fp_scale p q (Suc k))"
  by auto
termination
  by (relation "measure (\<lambda>(p, q, k). nat (4503599627370496 * q - p * 2 ^ k))") (auto simp: not_le)

definition fp_div :: "int \<Rightarrow> int \<Rightarrow> int \<times> nat" where
  "fp_div p q = (let k = fp_scale p q 0 in (round_even (p * 2 ^ k) q, k))"

text \<open>The integer part of \<open>x * (p / q)\<close>, both operations rounded.\<close>

definition fp_part :: "int \<Rightarrow> int \<Rightarrow> int \<Rightarrow> int" where
  "fp_part x p q =
     (let (m, k) = fp_div p q; (m', k') = fp_div (\<bar>x\<bar> * m) (2 ^ k) in sgn x * (m' div 2 ^ k'))"

text \<open>The square of the distance; for two equal ends the quotient is not a number, and the products
  with it are stored as 0.\<close>

definition Pnt2SegmentDist :: "pk_pos \<Rightarrow> pk_pos \<Rightarrow> pk_pos \<Rightarrow> int" where
  "Pnt2SegmentDist A B C =
     (let abX = short (posX B - posX A); abY = short (posY B - posY A);
          acX = short (posX C - posX A); acY = short (posY C - posY A);
          p = wrap32 (abX * acX + abY * acY); q = dist_sq A B
      in if q = 0 then dist_sq C A
         else if p < 0 \<or> q < p then 10000 * 10000
         else dist_sq C \<lparr>posX = short (short (fp_part abX p q) + posX A), posY = short (short (fp_part abY p q) + posY A)\<rparr>)"

section \<open>Skills that hurt\<close>

definition skill_process_201 :: "int \<Rightarrow> role_order \<Rightarrow> int \<Rightarrow> pk \<Rightarrow> pk" where
  "skill_process_201 i ord level pk =
     (let j = or_TargetRoleID ord
      in if \<not> has_role pk j then pk
         else let pk1 = CalculateSkillHurt j (rs_Level (pk_role i pk)) (by_level [150, 250, 350, 450, 550, 650] level) 201 pk
              in if rs_Live (pk_role j pk1) = ROLE_STATUS_DEAD then pk1
                 else give_buff j ((buff_now BUFFER_TYPE_ARMOR 201 level 0 True pk1)
                        \<lparr>bf_Parametar1 := - (ph_DefenseArmor_Base (rs_phys (pk_role j pk1)) *
                           by_level [5, 10, 15, 20, 20, 25] level sdiv 100)\<rparr>) pk1)"

definition skill_process_204_buffer :: "int \<Rightarrow> int \<Rightarrow> pk \<Rightarrow> pk" where
  "skill_process_204_buffer i hurt_value =
     each_role (\<lambda>r t. foe r t \<and> phys_open t \<and> near_sq (pos_of r) (pos_of t) \<le> 9)
       (\<lambda>j pk. CalculateSkillHurt j (rs_Level (pk_role i pk)) hurt_value 204 pk) i"

definition skill_process_207_effect :: "pk_pos \<Rightarrow> int \<Rightarrow> int \<Rightarrow> pk \<Rightarrow> pk" where
  "skill_process_207_effect target_pos i level =
     each_role (\<lambda>r t. foe r t \<and> magic_open t \<and> near_sq target_pos (pos_of t) \<le> 9)
       (\<lambda>j pk. let pk1 = give_buff j (buff_now BUFFER_TYPE_XUANYUN 207 level (by_level [20, 25, 30, 35, 40, 50] level) False pk) pk
               in CalculateSkillHurt j (rs_Level (pk_role i pk1)) (by_level [100, 200, 300, 400, 500, 600] level) 207 pk1) i"

definition skill_process_208 :: "int \<Rightarrow> role_order \<Rightarrow> int \<Rightarrow> pk \<Rightarrow> pk" where
  "skill_process_208 i ord level pk =
     (let j = or_TargetRoleID ord; t = pk_role j pk
      in if \<not> has_role pk j then pk
         else CalculateSkillHurt j (rs_Level (pk_role i pk))
                (if rs_HP t < rs_Curr_HP_MAX t * by_level [6, 8, 10, 12, 14, 16] level sdiv 100 then rs_HP t
                 else by_level [100, 150, 200, 250, 300, 350] level) 208 pk)"

text \<open>The place the order aims at; \<open>None\<close> when the role is not there.\<close>

definition aim :: "role_order \<Rightarrow> pk \<Rightarrow> pk_pos option" where
  "aim ord pk =
     (if or_TargetType ord = 1 then Some (or_TargetPos ord)
      else map_option pos_of (smap_find (or_TargetRoleID ord) (pk_roles pk)))"

text \<open>The loop has no test for death.  The distance is stored in a \<^verbatim>\<open>short\<close>.\<close>

definition skill_process_211 :: "int \<Rightarrow> role_order \<Rightarrow> int \<Rightarrow> pk \<Rightarrow> pk option" where
  "skill_process_211 i ord level pk =
     (case aim ord pk of
        None \<Rightarrow> Some pk
      | Some tempPos \<Rightarrow> do {
          let startPos = pos_of (pk_role i pk);
          let dist = short (int_sqrt (dist_sq tempPos startPos));
          let len = by_level [3, 3, 5, 5, 7, 7] level;
          let xDist = short (posX tempPos - posX startPos);
          let yDist = short (posY tempPos - posY startPos);
          a \<leftarrow> (if xDist = 0 then Some 0 else c_div (len * xDist) dist);
          b \<leftarrow> (if yDist = 0 then Some 0 else c_div (len * yDist) dist);
          let endPos = \<lparr>posX = short (posX startPos + a), posY = short (posY startPos + b)\<rparr>;
          Some (each_role (\<lambda>r t. rs_Opposition t \<noteq> rs_Opposition r \<and> magic_open t \<and>
                 Pnt2SegmentDist startPos endPos (pos_of t) < 4)
               (\<lambda>j pk. let pk1 = give_buff j (buff_now BUFFER_TYPE_XUANYUN 211 level (by_level [10, 15, 20, 25, 30, 40] level) False pk) pk
                       in CalculateSkillHurt j (rs_Level (pk_role i pk1)) (by_level [100, 150, 200, 250, 300, 500] level) 211 pk1)
               i pk)
        })"

text \<open>The chain: the next role is always the last of those that are left.\<close>

fun lightning :: "nat \<Rightarrow> int \<Rightarrow> pk \<Rightarrow> int \<Rightarrow> (int, int) smap \<Rightarrow> (int, int) smap" where
  "lightning 0 i pk hurt target = target"
| "lightning (Suc n) i pk hurt target =
     (case filter (\<lambda>t. foe (pk_role i pk) t \<and> magic_open t \<and> smap_find (rs_RoleID t) target = None) (map snd (pk_roles pk)) of
        [] \<Rightarrow> target
      | ts \<Rightarrow> lightning n i pk (hurt * 85 sdiv 100) (smap_insert (rs_RoleID (last ts)) hurt target))"

definition skill_process_216 :: "int \<Rightarrow> role_order \<Rightarrow> int \<Rightarrow> pk \<Rightarrow> pk" where
  "skill_process_216 i ord level pk =
     (let j = or_TargetRoleID ord; hurt = by_level [100, 100, 160, 160, 220, 300] level
      in if \<not> has_role pk j then pk
         else CalculateMultiSkillHurt
                (lightning (nat (by_level [3, 5, 5, 7, 7, 7] level)) i pk (hurt * 8 sdiv 10)
                   (smap_insert (rs_RoleID (pk_role j pk)) hurt (smap_insert (rs_RoleID (pk_role i pk)) 0 [])))
                (rs_Level (pk_role i pk)) 216 pk)"

definition skill_process_220 :: "int \<Rightarrow> role_order \<Rightarrow> int \<Rightarrow> pk \<Rightarrow> pk" where
  "skill_process_220 i ord level =
     (let reach = by_level [3, 5, 5, 7, 7, 7] level
      in each_role (\<lambda>r t. foe r t \<and> magic_open t \<and> near_sq (pos_of r) (pos_of t) \<le> reach * reach)
           (\<lambda>j pk. let pk1 = give_buff j (buff_now BUFFER_TYPE_XUANYUN 220 level (by_level [20, 20, 30, 30, 40, 40] level) False pk) pk
                   in CalculateSkillHurt j (rs_Level (pk_role i pk1)) (by_level [50, 50, 50, 50, 50, 500] level) 220 pk1) i)"

definition skill_process_229 :: "int \<Rightarrow> role_order \<Rightarrow> int \<Rightarrow> pk \<Rightarrow> pk" where
  "skill_process_229 i ord level =
     each_role (\<lambda>r t. foe r t \<and> magic_open t \<and> near_sq (pos_of r) (pos_of t) \<le> by_level [3, 3, 5, 5, 7, 7] level)
       (\<lambda>j pk. CalculateSkillHurt j (rs_Level (pk_role i pk)) (by_level [100, 200, 250, 350, 400, 600] level) 229 pk) i"

definition skill_process_234 :: "int \<Rightarrow> role_order \<Rightarrow> int \<Rightarrow> pk \<Rightarrow> pk" where
  "skill_process_234 i ord level pk =
     (let j = or_TargetRoleID ord
      in if \<not> has_role pk j then pk
         else let attackHurt = short (rs_HP (pk_role i pk) * 6 sdiv 10);
                  part = (if 1 \<le> level \<and> level \<le> 6 then 35 + 5 * level else 100);
                  targetHurt = rs_HP (pk_role j pk) * part sdiv 100;
                  pk1 = pk_upd j (\<lambda>t. t\<lparr>rs_HP := short (rs_HP t - targetHurt)\<rparr>)
                          (pk_upd i (\<lambda>r. r\<lparr>rs_HP := short (rs_HP r - attackHurt)\<rparr>) pk)
              in BrodacastHpChange (rs_RoleID (pk_role j pk1)) (- targetHurt) HPCHANGE_SOURCE_SKILL 234
                   (BrodacastHpChange (rs_RoleID (pk_role i pk1)) (- attackHurt) HPCHANGE_SOURCE_SKILL 234 pk1))"

section \<open>Charges along a line\<close>

text \<open>The end of a line of the given length, and where the line leaves the map.\<close>

definition to_border :: "int \<Rightarrow> int \<Rightarrow> int \<Rightarrow> int" where
  "to_border d width start = (if 0 < d then width - 1 - start else - start)"

definition charge_end_227 :: "pk_pos \<Rightarrow> pk_pos \<Rightarrow> int \<Rightarrow> pk_pos option" where
  "charge_end_227 startPos tmpPos len =
     (let xDist = posX tmpPos - posX startPos; yDist = posY tmpPos - posY startPos;
          dist0 = int_sqrt (wrap32 (xDist * xDist + yDist * yDist)); dist = (if dist0 = 0 then 1 else dist0);
          endX = short (posX startPos + len * xDist sdiv dist); endY = short (posY startPos + len * yDist sdiv dist)
      in if MAP_SIZE_X \<le> endX \<or> endX < 0 \<or> MAP_SIZE_Y < endY \<or> endY < 0
         then let xTotalDist = to_border xDist MAP_SIZE_X (posX startPos); yTotalDist = to_border yDist MAP_SIZE_Y (posY startPos)
              in do {
                a \<leftarrow> c_div (wrap32 (yDist * xTotalDist)) xDist;
                let byX = short (posY startPos + a);
                if 0 \<le> byX \<and> byX < MAP_SIZE_Y then Some \<lparr>posX = short (xTotalDist + posX startPos), posY = byX\<rparr>
                else do {
                  b \<leftarrow> c_div (wrap32 (xDist * yTotalDist)) yDist;
                  Some \<lparr>posX = short (posX startPos + b), posY = short (yTotalDist + posY startPos)\<rparr>
                }
              }
         else Some \<lparr>posX = endX, posY = endY\<rparr>)"

text \<open>The level and the damage change places in the call, which only shows for a target whose
  resistance is 0.\<close>

definition skill_process_227 :: "int \<Rightarrow> role_order \<Rightarrow> int \<Rightarrow> pk \<Rightarrow> pk option" where
  "skill_process_227 i ord level pk =
     (case aim ord pk of
        None \<Rightarrow> Some pk
      | Some tmpPos \<Rightarrow> do {
          let startPos = pos_of (pk_role i pk);
          endPos \<leftarrow> charge_end_227 startPos tmpPos (by_level [5, 7, 9, 11, 13, 15] level);
          Some (each_role (\<lambda>r t. foe r t \<and> magic_open t \<and> Pnt2SegmentDist startPos endPos (pos_of t) < 9)
            (\<lambda>j pk. CalculateSkillHurt j (by_level [150, 200, 250, 300, 350, 500] level) (rs_Level (pk_role i pk)) 227 pk) i pk)
        })"

definition charge_end_222 :: "pk_pos \<Rightarrow> pk_pos \<Rightarrow> int \<Rightarrow> pk_pos option" where
  "charge_end_222 startPos tempPos reach =
     (let dist0 = short (int_sqrt (dist_sq tempPos startPos)); dist = (if dist0 = 0 then 1 else dist0);
          xDist = short (posX tempPos - posX startPos); yDist = short (posY tempPos - posY startPos);
          endPos = \<lparr>posX = short (posX startPos + reach * xDist sdiv dist), posY = short (posY startPos + reach * yDist sdiv dist)\<rparr>
      in if on_map endPos then Some endPos
         else let xTotalDist = short (to_border xDist MAP_SIZE_X (posX startPos));
                  yTotalDist = short (to_border yDist MAP_SIZE_Y (posY startPos))
              in do {
                a \<leftarrow> c_div (yDist * xTotalDist) xDist;
                b \<leftarrow> c_div (xDist * yTotalDist) yDist;
                let byX = \<lparr>posX = short (xTotalDist + posX startPos), posY = short (posY startPos + a)\<rparr>;
                let byY = \<lparr>posX = short (posX startPos + b), posY = short (yTotalDist + posY startPos)\<rparr>;
                Some (if 0 \<le> posY byX \<and> posY byX < MAP_SIZE_Y then byX
                      else if 0 \<le> posX byY \<and> posX byY < MAP_SIZE_X then byY else endPos)
              })"

definition square :: "pk_pos \<Rightarrow> int \<Rightarrow> pk_pos list" where
  "square p circle =
     concat (map (\<lambda>x. map (\<lambda>y. \<lparr>posX = x, posY = y\<rparr>) [posY p - circle..posY p + circle])
       [posX p - circle..posX p + circle])"

definition charge_stop :: "pk \<Rightarrow> pk_pos \<Rightarrow> pk_pos \<Rightarrow> int \<Rightarrow> pk_pos" where
  "charge_stop pk startPos endPos reach =
     (if free_cell pk endPos then endPos
      else case find (\<lambda>q. on_map q \<and> free_cell pk q) (concat (map (square endPos) [1..reach])) of
             Some q \<Rightarrow> q
           | None \<Rightarrow> startPos)"

definition skill_process_222 :: "int \<Rightarrow> role_order \<Rightarrow> int \<Rightarrow> pk \<Rightarrow> pk option" where
  "skill_process_222 i ord level pk =
     (case aim ord pk of
        None \<Rightarrow> Some pk
      | Some tempPos \<Rightarrow> do {
          let startPos = pos_of (pk_role i pk);
          let reach = by_level [5, 7, 7, 9, 9, 11] level;
          end0 \<leftarrow> charge_end_222 startPos tempPos reach;
          let endPos = charge_stop pk startPos end0 reach;
          let pk1 = pk_upd i (upd_move (\<lambda>m. m\<lparr>mv_CurrentPos := endPos, mv_CurrentPosMini := \<lparr>posX = 500, posY = 500\<rparr>\<rparr>)) pk;
          let pk2 = Brodacast_Role_LocationOffset (rs_RoleID (pk_role i pk1)) (posX endPos) (posY endPos) 222 pk1;
          let pk3 = give_buff i (buff_now BUFFER_TYPE_CASTSKILL 222 level 20 False pk2) pk2;
          Some (each_role (\<lambda>r t. foe r t \<and> phys_open t \<and> Pnt2SegmentDist startPos endPos (pos_of t) \<le> 9)
            (\<lambda>j pk. CalculateSkillHurt j (rs_Level (pk_role i pk)) (by_level [100, 200, 300, 400, 500, 600] level) 222 pk) i pk3)
        })"

end
