(* ===== verification/Pk_Casts.thy ===== *)
theory Pk_Casts
  imports Pk_Skills
begin

text \<open>
  The skills of \<^verbatim>\<open>PkServer/PK_thread.cpp\<close> that give buffs, fire bullets or call new
  roles into the fight, and the effects their buffs and bullets have later
  (\<^verbatim>\<open>skill_process_210_buffer\<close>, \<^verbatim>\<open>218_Buffer\<close>,
  \<^verbatim>\<open>219_Effect\<close>, \<^verbatim>\<open>217_Effect\<close>,
  \<^verbatim>\<open>223_Effect\<close>, \<^verbatim>\<open>224_Effect\<close>).
\<close>

section \<open>Skills that give buffs\<close>

text \<open>Nothing happens when the role of the order is not in the fight.\<close>

definition on_target :: "role_order \<Rightarrow> (int \<Rightarrow> pk \<Rightarrow> pk) \<Rightarrow> pk \<Rightarrow> pk" where
  "on_target ord act pk = (if has_role pk (or_TargetRoleID ord) then act (or_TargetRoleID ord) pk else pk)"

definition relative :: "buff \<Rightarrow> buff" where
  "relative b = b\<lparr>bf_Effecttype := BUFFER_EFFECT_TYPE_RELATIVE\<rparr>"

definition skill_process_202 :: "int \<Rightarrow> role_order \<Rightarrow> int \<Rightarrow> pk \<Rightarrow> pk" where
  "skill_process_202 i ord level = on_target ord (\<lambda>j pk.
     give_buff j ((relative (buff_now BUFFER_TYPE_HP 202 level (by_level [30, 30, 30, 30, 30, 50] level) True pk))
       \<lparr>bf_Parametar1 := by_level [5, 6, 7, 8, 9, 10] level, bf_RunTimeLimit := 10\<rparr>) pk)"

definition skill_process_203 :: "int \<Rightarrow> role_order \<Rightarrow> int \<Rightarrow> pk \<Rightarrow> pk" where
  "skill_process_203 i ord level = on_target ord (\<lambda>j pk.
     give_buff j ((relative (buff_now BUFFER_TYPE_BYSKILL 203 level (by_level [20, 25, 30, 35, 40, 50] level) True pk))
       \<lparr>bf_Parametar1 := - (mv_SpeedMod_Base (rs_move (pk_role j pk)) * by_level [10, 15, 20, 25, 30, 35] level sdiv 100)\<rparr>) pk)"

definition skill_process_204 :: "int \<Rightarrow> role_order \<Rightarrow> int \<Rightarrow> pk \<Rightarrow> pk" where
  "skill_process_204 i ord level pk =
     give_buff i ((buff_now BUFFER_TYPE_CASTSKILL 204 level (by_level [40, 40, 40, 40, 40, 50] level) False pk)
       \<lparr>bf_Parametar1 := by_level [150, 150, 200, 200, 250, 350] level, bf_RunTimeLimit := 10\<rparr>) pk"

definition skill_process_209 :: "int \<Rightarrow> role_order \<Rightarrow> int \<Rightarrow> pk \<Rightarrow> pk" where
  "skill_process_209 i ord level pk =
     (let j = (if or_TargetRoleID ord \<noteq> rs_RoleID (pk_role i pk) then or_TargetRoleID ord else i)
      in if \<not> has_role pk j then pk
         else give_buff j ((buff_now BUFFER_TYPE_BYSKILL 209 level 50 True pk)
                \<lparr>bf_Parametar1 := by_level [250, 350, 450, 550, 650, 800] level\<rparr>) pk)"

definition skill_process_210 :: "int \<Rightarrow> role_order \<Rightarrow> int \<Rightarrow> pk \<Rightarrow> pk" where
  "skill_process_210 i ord level pk =
     give_buff i ((buff_now BUFFER_TYPE_BYSKILL 210 level 100 True pk)
       \<lparr>bf_RunTimeLimit := 1, bf_Parametar1 := by_level [200, 300, 400, 500, 600, 700] level,
        bf_Parametar2 := by_level [15, 16, 17, 18, 19, 20] level\<rparr>) pk"

definition skill_process_213 :: "int \<Rightarrow> role_order \<Rightarrow> int \<Rightarrow> pk \<Rightarrow> pk" where
  "skill_process_213 i ord level = each_role ally (\<lambda>j pk.
     give_buff j ((relative (buff_now BUFFER_TYPE_ATTACKPOWER 213 level 100 True pk))
       \<lparr>bf_Parametar1 := ph_AttackPowerHign_Base (rs_phys (pk_role j pk)) * by_level [5, 10, 15, 20, 25, 30] level sdiv 100\<rparr>) pk) i"

definition skill_process_214 :: "int \<Rightarrow> role_order \<Rightarrow> int \<Rightarrow> pk \<Rightarrow> pk" where
  "skill_process_214 i ord level = each_role ally (\<lambda>j pk.
     give_buff j ((relative (buff_now BUFFER_TYPE_MAXHP 214 level 100 True pk))
       \<lparr>bf_Parametar1 := rs_HP_MAX (pk_role j pk) * by_level [5, 7, 10, 12, 15, 20] level sdiv 100\<rparr>) pk) i"

text \<open>The armour of every ally counts, but the buff goes to the caster each time.\<close>

definition skill_process_221 :: "int \<Rightarrow> role_order \<Rightarrow> int \<Rightarrow> pk \<Rightarrow> pk" where
  "skill_process_221 i ord level = each_role ally (\<lambda>j pk.
     give_buff i ((relative (buff_now BUFFER_TYPE_ARMOR 221 level 100 True pk))
       \<lparr>bf_Parametar1 := ph_DefenseArmor_Base (rs_phys (pk_role j pk)) * by_level [5, 10, 15, 20, 25, 30] level sdiv 100\<rparr>) pk) i"

definition skill_process_224 :: "int \<Rightarrow> role_order \<Rightarrow> int \<Rightarrow> pk \<Rightarrow> pk" where
  "skill_process_224 i ord level pk =
     give_buff i ((buff_now BUFFER_TYPE_CASTSKILL 224 level (by_level [40, 60, 80, 100, 120, 140] level) False pk)
       \<lparr>bf_RunTimeLimit := 5, bf_Parametar1 := by_level [80, 80, 120, 120, 160, 200] level\<rparr>) pk"

definition skill_process_225 :: "int \<Rightarrow> role_order \<Rightarrow> int \<Rightarrow> pk \<Rightarrow> pk" where
  "skill_process_225 i ord level = on_target ord (\<lambda>j pk.
     let add = by_level [5, 6, 6, 7, 8, 10] level
     in give_buff j ((buff_now BUFFER_TYPE_BYSKILL 225 level (by_level [40, 40, 60, 60, 80, 80] level) True pk)
          \<lparr>bf_Parametar1 := add * 100 + add\<rparr>) pk)"

definition skill_process_226 :: "int \<Rightarrow> role_order \<Rightarrow> int \<Rightarrow> pk \<Rightarrow> pk" where
  "skill_process_226 i ord level = on_target ord (\<lambda>j pk.
     give_buff j ((relative (buff_now BUFFER_TYPE_BYSKILL 226 level 50 True pk))
       \<lparr>bf_Parametar2 := by_level [1, 2, 3, 4, 5, 6] level\<rparr>) pk)"

definition skill_process_228 :: "int \<Rightarrow> role_order \<Rightarrow> int \<Rightarrow> pk \<Rightarrow> pk" where
  "skill_process_228 i ord level = on_target ord (\<lambda>t pk.
     let radius = by_level [3, 3, 5, 5, 7, 7] level
     in fold (\<lambda>j pk. if foe (pk_role i pk) (pk_role j pk) \<and> magic_open (pk_role j pk) \<and>
                 near_sq (pos_of (pk_role t pk)) (pos_of (pk_role j pk)) \<le> radius * radius
               then give_buff j (buff_now BUFFER_TYPE_XUANYUN 228 level (by_level [20, 30, 30, 40, 40, 50] level) False pk) pk
               else pk) (pk_keys pk) pk)"

definition skill_process_230 :: "int \<Rightarrow> role_order \<Rightarrow> int \<Rightarrow> pk \<Rightarrow> pk" where
  "skill_process_230 i ord level pk =
     (let part = by_level [2, 4, 6, 8, 10, 15] level; p = rs_phys (pk_role i pk)
      in give_buff i ((buff_now BUFFER_TYPE_BYSKILL 230 level (by_level [80, 80, 80, 80, 80, 100] level) True pk)
           \<lparr>bf_Parametar1 := part * ph_AttackCrit_Base p sdiv 100, bf_Parametar2 := part * ph_AttackHit_Base p sdiv 100\<rparr>) pk)"

definition skill_process_231 :: "int \<Rightarrow> role_order \<Rightarrow> int \<Rightarrow> pk \<Rightarrow> pk" where
  "skill_process_231 i ord level = on_target ord (\<lambda>j pk.
     give_buff j ((buff_now BUFFER_TYPE_MOVESPEED 231 level (by_level [30, 30, 30, 30, 30, 50] level) True pk)
       \<lparr>bf_Parametar1 := by_level [5, 10, 15, 20, 25, 30] level * mv_SpeedMod_Base (rs_move (pk_role j pk)) sdiv 100\<rparr>) pk)"

definition skill_process_233 :: "int \<Rightarrow> role_order \<Rightarrow> int \<Rightarrow> pk \<Rightarrow> pk" where
  "skill_process_233 i ord level pk =
     give_buff i ((buff_now BUFFER_TYPE_BYSKILL 233 level (by_level [100, 100, 100, 100, 100, 150] level) True pk)
       \<lparr>bf_Parametar1 := 0, bf_Parametar2 := by_level [6, 8, 10, 12, 14, 16] level\<rparr>) pk"

definition skill_process_235 :: "int \<Rightarrow> role_order \<Rightarrow> int \<Rightarrow> pk \<Rightarrow> pk" where
  "skill_process_235 i ord level =
     each_role (\<lambda>r t. foe r t \<and> magic_open t \<and> near_sq (or_TargetPos ord) (pos_of t) \<le> 16)
       (\<lambda>j pk. give_buff j (buff_now BUFFER_TYPE_NOSKILL 235 level (by_level [20, 20, 30, 30, 40, 50] level) False pk) pk) i"

definition skill_process_236 :: "int \<Rightarrow> role_order \<Rightarrow> int \<Rightarrow> pk \<Rightarrow> pk" where
  "skill_process_236 i ord level pk = pk"

text \<open>The shower of fire keeps its target in the second parameter.\<close>

definition skill_process_219 :: "int \<Rightarrow> role_order \<Rightarrow> int \<Rightarrow> pk \<Rightarrow> pk" where
  "skill_process_219 i ord level pk =
     (case (if or_TargetType ord = 1 \<or> or_TargetType ord = 2 then aim ord pk else None) of
        None \<Rightarrow> pk
      | Some p \<Rightarrow>
          pk_upd i (upd_order (\<lambda>o'. o'\<lparr>or_Type := ORDER_TYPE_CASTSKILL\<rparr>))
            (give_buff i ((buff_now BUFFER_TYPE_CASTSKILL 219 level (by_level [50, 50, 70, 70, 70, 70] level) True pk)
               \<lparr>bf_Parametar1 := by_level [150, 200, 250, 300, 350, 500] level, bf_RunTimeLimit := 10,
                bf_Parametar2 := posY p * MAP_SIZE_X + posX p\<rparr>) pk))"

definition skill_process_219_Effect :: "int \<Rightarrow> buff \<Rightarrow> pk \<Rightarrow> pk" where
  "skill_process_219_Effect i b pk =
     (let targetPos = \<lparr>posX = short (bf_Parametar2 b smod MAP_SIZE_X), posY = short (bf_Parametar2 b sdiv MAP_SIZE_X)\<rparr>;
          radius = shield_radius (bf_Level b);
          hit = filter (\<lambda>t. foe (pk_role i pk) t \<and> magic_open t \<and> \<bar>posX (pos_of t) - posX targetPos\<bar> \<le> radius \<and>
                   \<bar>posY (pos_of t) - posY targetPos\<bar> \<le> 5 \<and> dist_sq (pos_of t) targetPos \<le> radius * radius)
                 (map snd (pk_roles pk))
      in if hit = [] then pk
         else CalculateMultiSkillHurt (fold (\<lambda>t m. smap_insert (rs_RoleID t) (short (bf_Parametar1 b)) m) hit [])
                (rs_Level (pk_role i pk)) 219 pk)"

section \<open>What takes buffs away\<close>

text \<open>Where a curse kills the role, its buffs are cleared and the loop goes on with a dead
  iterator.\<close>

fun dispel :: "int \<Rightarrow> buff list \<Rightarrow> pk \<Rightarrow> pk option" where
  "dispel j [] pk = Some pk"
| "dispel j (b # bs) pk =
     (if bf_bCanBreak b \<and> bf_Type b \<noteq> BUFFER_TYPE_CASTSKILL then
        let pk1 = UpdataBuffer j b UPDATABUFFER_DEL pk
        in if rs_cleared (pk_role j pk1) \<noteq> rs_cleared (pk_role j pk) then None
           else dispel j bs (erase_buff j b pk1)
      else dispel j bs pk)"

definition skill_process_215 :: "int \<Rightarrow> role_order \<Rightarrow> int \<Rightarrow> pk \<Rightarrow> pk option" where
  "skill_process_215 i ord level pk =
     (let j = or_TargetRoleID ord; t = pk_role j pk
      in if \<not> has_role pk j then Some pk
         else let hurt = (\<lambda>pk. CalculateSkillHurt j (rs_Level (pk_role i pk)) 0 215 pk);
                  called = rs_RoleFlag t = RoleType_Call
              in if called \<and> rs_HP t \<le> 0 then Some (hurt pk)
                 else do {
                   let pk1 = (if called then hurt pk else pk);
                   pk2 \<leftarrow> dispel j (rs_buffs (pk_role j pk1)) pk1;
                   Some (if rs_Opposition (pk_role i pk2) \<noteq> rs_Opposition (pk_role j pk2)
                         then give_buff j ((relative (buff_now BUFFER_TYPE_MOVESPEED 215 level 20 False pk2))
                                \<lparr>bf_Parametar1 := - (50 * mv_SpeedMod_Base (rs_move (pk_role j pk2)) sdiv 100)\<rparr>) pk2
                         else pk2)
                 })"

section \<open>Buffs that act again and again\<close>

definition skill_process_210_buffer :: "int \<Rightarrow> buff \<Rightarrow> pk \<Rightarrow> buff \<times> pk" where
  "skill_process_210_buffer i b pk =
     (if bf_Parametar2 b < 10 then (b, pk)
      else let (n, pk1) = next_rand pk
           in if n mod 100 \<le> bf_Parametar2 b
              then (b\<lparr>bf_Parametar2 := 0\<rparr>,
                each_role (\<lambda>r t. foe r t \<and> magic_open t \<and> near_sq (pos_of r) (pos_of t) \<le> 9)
                  (\<lambda>j pk. CalculateSkillHurt j (rs_Level (pk_role i pk)) (short (bf_Parametar1 b)) 210 pk) i
                  (Brodacast_Buffer_Run (rs_RoleID (pk_role i pk1)) 210 (bf_BeginTime b) pk1))
              else (b, pk1))"

definition skill_process_218_Buffer :: "int \<Rightarrow> buff \<Rightarrow> pk \<Rightarrow> pk" where
  "skill_process_218_Buffer i b =
     each_role (\<lambda>r t. ally r t \<and> mg_ExemptAllCounter (rs_magic t) \<le> 0 \<and> rs_HP t < rs_Curr_HP_MAX t \<and>
         near_sq (pos_of r) (pos_of t) \<le> 169)
       (\<lambda>j pk. let t = pk_role j pk;
                   hp = short (min (rs_Curr_HP_MAX t - rs_HP t) (wrap32 (rs_Curr_HP_MAX t * bf_Parametar1 b) sdiv 100))
               in if 0 < hp
                  then BrodacastHpChange (rs_RoleID t) hp HPCHANGE_SOURCE_SKILL 218
                         (pk_upd j (\<lambda>t. t\<lparr>rs_HP := short (rs_HP t + hp)\<rparr>) pk)
                  else pk) i"

text \<open>The invincible slash: up to three tries per role for a target, then directions until one stays on
  the map; this loop need not end (\<open>None\<close>).\<close>

primrec pick_target :: "nat \<Rightarrow> int \<Rightarrow> pk \<Rightarrow> int option \<times> pk" where
  "pick_target 0 i pk = (None, pk)"
| "pick_target (Suc n) i pk =
     (let (k, pk1) = next_rand pk; j = pk_keys pk1 ! nat (k mod int (length (pk_roles pk1)))
      in if foe (pk_role i pk1) (pk_role j pk1) \<and> phys_open (pk_role j pk1) then (Some j, pk1)
         else pick_target n i pk1)"

definition rand_step :: "int \<Rightarrow> int \<times> int" where
  "rand_step d =
     (if d = 1 then (- 1, 1) else if d = 2 then (0, 1) else if d = 3 then (1, 1) else if d = 4 then (- 1, 0)
      else if d = 5 then (1, 0) else if d = 6 then (- 1, - 1) else if d = 7 then (0, - 1) else (1, - 1))"

partial_function (option) place_near :: "pk_pos \<Rightarrow> pk \<Rightarrow> (pk_pos \<times> pk) option" where
  "place_near p pk =
     (let (n, pk1) = next_rand pk; (dx, dy) = rand_step (n mod 8);
          q = \<lparr>posX = short (posX p + dx), posY = short (posY p + dy)\<rparr>
      in if on_map q then Some (q, pk1) else place_near p pk1)"

declare place_near.simps [code]

definition skill_process_224_Effect :: "int \<Rightarrow> buff \<Rightarrow> pk \<Rightarrow> pk option" where
  "skill_process_224_Effect i b pk =
     (case pick_target (nat (short (3 * short (int (length (pk_roles pk)))))) i pk of
        (None, pk1) \<Rightarrow> Some pk1
      | (Some j, pk1) \<Rightarrow> do {
          (q, pk2) \<leftarrow> place_near (pos_of (pk_role j pk1)) pk1;
          let pk3 = pk_upd i (upd_move (\<lambda>m. m\<lparr>mv_CurrentPos := q\<rparr>)) pk2;
          let pk4 = Brodacast_Role_LocationOffset (rs_RoleID (pk_role i pk3)) (posX q) (posY q) 224 pk3;
          Some (CalculateSkillHurt j (rs_Level (pk_role i pk4)) (short (bf_Parametar1 b)) 224 pk4)
        })"

section \<open>Bullets\<close>

text \<open>The skills that fire a bullet at the role of the order.\<close>

definition fire_bullet :: "int \<Rightarrow> int \<Rightarrow> role_order \<Rightarrow> int \<Rightarrow> pk \<Rightarrow> pk" where
  "fire_bullet ty i ord level = on_target ord (\<lambda>j pk.
     pk\<lparr>pk_bullets := pk_bullets pk @ [\<lparr>bl_Role_Attack = i, bl_Role_Passive = j, bl_Start_Time = 3,
       bl_CurrentPos = pos_of (pk_role i pk), bl_Speed = 3, bl_BulletType = ty, bl_Level = level\<rparr>]\<rparr>)"

definition skill_process_207 :: "int \<Rightarrow> role_order \<Rightarrow> int \<Rightarrow> pk \<Rightarrow> pk" where
  "skill_process_207 = fire_bullet 207"

definition skill_process_217 :: "int \<Rightarrow> role_order \<Rightarrow> int \<Rightarrow> pk \<Rightarrow> pk" where
  "skill_process_217 = fire_bullet 217"

definition skill_process_223 :: "int \<Rightarrow> role_order \<Rightarrow> int \<Rightarrow> pk \<Rightarrow> pk" where
  "skill_process_223 = fire_bullet 223"

definition skill_process_217_Effect :: "bullet \<Rightarrow> pk \<Rightarrow> pk" where
  "skill_process_217_Effect bl pk =
     (if rs_Opposition (pk_role (bl_Role_Attack bl) pk) \<noteq> rs_Opposition (pk_role (bl_Role_Passive bl) pk)
      then give_buff (bl_Role_Passive bl) (buff_now BUFFER_TYPE_NOMOVE 217 (bl_Level bl)
             (by_level [20, 25, 30, 35, 40, 60] (bl_Level bl)) False pk) pk
      else pk)"

definition skill_process_223_Effect :: "pk_pos \<Rightarrow> int \<Rightarrow> int \<Rightarrow> pk \<Rightarrow> pk" where
  "skill_process_223_Effect target_pos opposition level pk =
     fold (\<lambda>j pk. let t = pk_role j pk
       in if rs_Live t \<noteq> ROLE_STATUS_DEAD \<and> rs_Opposition t \<noteq> opposition \<and> magic_open t \<and>
             near_sq target_pos (pos_of t) \<le> 9
          then give_buff j ((relative (buff_now BUFFER_TYPE_BYSKILL 223 level 60 True pk))
                 \<lparr>bf_Parametar1 := mv_SpeedMod (rs_move t) * by_level [- 20, - 25, - 30, - 35, - 40, - 45] level sdiv 100,
                  bf_Parametar2 := ph_AttackHit (rs_phys t) * by_level [- 5, - 10, - 15, - 20, - 25, - 30] level sdiv 100\<rparr>) pk
          else pk) (pk_keys pk) pk"

section \<open>Roles called into the fight\<close>

text \<open>The first identifier that is free, at most the end of the range.\<close>

function free_id :: "pk \<Rightarrow> int \<Rightarrow> int \<Rightarrow> int" where
  "free_id pk n i = (if i < n \<and> has_role pk i then free_id pk n (i + 1) else i)"
  by auto
termination by (relation "measure (\<lambda>(pk, n, i). nat (n - i))") auto

definition loop_id :: "int \<Rightarrow> pk \<Rightarrow> int" where
  "loop_id i pk = (let c = rs_ControlID (pk_role i pk) in free_id pk (c + 4000000) (c + 3000000))"

text \<open>A role object as its constructors leave it.\<close>

definition fresh_role :: "pk \<Rightarrow> role_state" where
  "fresh_role pk =
     upd_magic (\<lambda>m. m\<lparr>mg_SkillMap := [], mg_ExemptBadCounter := 0, mg_ExemptAllCounter := 0, mg_LimitCounter := 0\<rparr>)
     (upd_phys (\<lambda>p. p\<lparr>ph_ExemptCounter := 0, ph_PreAttackTime := 0, ph_LimitCounter := 0, ph_HurtAdd := 0,
        ph_AttackPowerAdd := 0\<rparr>)
     (upd_move (\<lambda>m. m\<lparr>mv_MoveLine := [], mv_LimitCounter := 0\<rparr>)
     ((pk_stack pk)\<lparr>rs_buffs := [], rs_HatreMap := [], rs_cleared := 0\<rparr>)))"

text \<open>What the five skills set alike.\<close>

definition called :: "int \<Rightarrow> int \<Rightarrow> pk_pos \<Rightarrow> int \<Rightarrow> int \<Rightarrow> int \<Rightarrow> pk \<Rightarrow> role_state \<Rightarrow> role_state" where
  "called i hp pos direct level ty pk r =
     upd_magic (\<lambda>m. m\<lparr>mg_MagicArmor := 0, mg_MagicArmor_Base := 0\<rparr>)
     (upd_phys (\<lambda>p. p\<lparr>ph_PreAttackTime := 0, ph_PreTimeStatus := 0\<rparr>)
     (upd_move (\<lambda>m. m\<lparr>mv_CurrentPos := pos, mv_CurrentPosMini := \<lparr>posX = 500, posY = 500\<rparr>, mv_Direct := direct\<rparr>)
     (upd_order (\<lambda>o'. o'\<lparr>or_Type := ORDER_TYPE_NO\<rparr>)
     (r\<lparr>rs_ControlID := rs_ControlID (pk_role i pk), rs_RoleID := loop_id i pk, rs_HP := hp, rs_Level := level,
        rs_Live := ROLE_STATUS_LIVE, rs_MP := 0, rs_MP_MAX := 0, rs_Opposition := rs_Opposition (pk_role i pk),
        rs_Waiting := 0, rs_PK_State := PK_STATE_PKING, rs_RoleFlag := RoleType_Call, rs_RoleType := ty\<rparr>))))"

definition new_role_msg :: "role_state \<Rightarrow> int \<Rightarrow> int \<Rightarrow> int \<Rightarrow> pk \<Rightarrow> u8 list" where
  "new_role_msg r keepTime copy_id effect pk =
     bytes_of_int 4 (rs_RoleID r) @ bytes_of_int 4 (pk_now pk) @ bytes_of_int 2 keepTime @
     bytes_of_int 4 (rs_ControlID r) @ bytes_of_int 1 (rs_RoleFlag r) @ bytes_of_int 4 (rs_RoleType r) @
     bytes_of_int 4 copy_id @ bytes_of_int 2 (ph_AttackBulletMod (rs_phys r)) @ bytes_of_int 2 (rs_HP_MAX r) @
     bytes_of_int 2 (rs_MP_MAX r) @ bytes_of_int 2 (rs_HP r) @ bytes_of_int 2 (rs_MP r) @
     bytes_of_int 2 (mv_SpeedMod_Base (rs_move r)) @ bytes_of_pos (pos_of r) @ bytes_of_int 2 effect"

text \<open>A buff for a role that is not in the fight yet: these buffs change no attribute and are not sent.\<close>

definition call_buff :: "int \<Rightarrow> int \<Rightarrow> int \<Rightarrow> int \<Rightarrow> pk \<Rightarrow> buff" where
  "call_buff ty skill level keepTime pk = Buff_new ty skill level (pk_now pk) keepTime False False"

definition with_buff :: "buff \<Rightarrow> role_state \<Rightarrow> role_state" where
  "with_buff b r = r\<lparr>rs_buffs := insert_buff b (rs_buffs r)\<rparr>"

definition pk_insert :: "role_state \<Rightarrow> pk \<Rightarrow> pk" where
  "pk_insert r pk = pk\<lparr>pk_roles := smap_insert (rs_RoleID r) r (pk_roles pk)\<rparr>"

definition enter_called :: "role_state \<Rightarrow> int \<Rightarrow> int \<Rightarrow> int \<Rightarrow> pk \<Rightarrow> pk" where
  "enter_called r keepTime copy_id effect pk =
     Brodacast_Skill_Newrole (new_role_msg r keepTime copy_id effect pk) (pk_insert r pk)"

definition skill_process_205 :: "int \<Rightarrow> role_order \<Rightarrow> int \<Rightarrow> pk \<Rightarrow> pk" where
  "skill_process_205 i ord level pk =
     (let c = pk_role i pk; HP = by_level [200, 300, 400, 500, 600, 800] level;
          attack = by_level [80, 160, 240, 320, 400, 480] level;
          r = called i HP (GetEmptyPos pk (pos_of c) (mv_Direct (rs_move c))) 1 1 125 pk
            (upd_phys (\<lambda>p. p\<lparr>ph_AttackArea := 2, ph_AttackBulletMod := ph_AttackBulletMod (rs_phys c), ph_AttackCDTime := 15,
               ph_AttackCDTime_Base := 15, ph_AttackIngTime := 3, ph_AttackHit := 100, ph_AttackHit_Base := 100,
               ph_AttackPowerHign_Base := attack, ph_AttackPowerLow_Base := attack, ph_DefenseArmor := 10,
               ph_DefenseArmor_Base := 10, ph_DefenseMiss := 0, ph_DefenseMiss_Base := 0\<rparr>)
            (upd_move (\<lambda>m. m\<lparr>mv_SpeedMod := 300, mv_SpeedMod_Base := 300\<rparr>) ((fresh_role pk)\<lparr>rs_HP_MAX := HP\<rparr>)))
      in enter_called (with_buff (call_buff BUFFER_TYPE_CALL 205 level 200 pk) r) 200 0 205 pk)"

text \<open>The image of a role \<open>t\<close>, for the mirror and for the double of oneself.\<close>

definition image_of :: "int \<Rightarrow> role_state \<Rightarrow> int \<Rightarrow> int \<Rightarrow> pk \<Rightarrow> role_state" where
  "image_of i t attack hurt pk =
     called i (rs_HP t) (GetEmptyPos pk (pos_of t) (mv_Direct (rs_move (pk_role i pk))))
       (mv_Direct (rs_move (pk_role i pk))) (rs_Level t) (rs_RoleType t) pk
       (upd_phys (\<lambda>p. (rs_phys t)\<lparr>ph_AttackPowerAdd := attack, ph_HurtAdd := hurt\<rparr>)
       (upd_move (\<lambda>m. m\<lparr>mv_SpeedMod := mv_SpeedMod_Base (rs_move t), mv_SpeedMod_Base := mv_SpeedMod_Base (rs_move t)\<rparr>)
         ((fresh_role pk)\<lparr>rs_HP_MAX := rs_HP_MAX t\<rparr>)))"

definition skill_process_206 :: "int \<Rightarrow> role_order \<Rightarrow> int \<Rightarrow> pk \<Rightarrow> pk" where
  "skill_process_206 i ord level = on_target ord (\<lambda>j pk.
     enter_called (with_buff (call_buff BUFFER_TYPE_CALL 206 level 80 pk)
         (image_of i (pk_role j pk) (by_level [- 60, - 50, - 40, - 30, - 20, 0] level)
            (by_level [300, 250, 200, 150, 100, 50] level) pk))
       80 (rs_RoleID (pk_role j pk)) 206 pk)"

definition skill_process_232 :: "int \<Rightarrow> role_order \<Rightarrow> int \<Rightarrow> pk \<Rightarrow> pk" where
  "skill_process_232 i ord level pk =
     enter_called (with_buff (call_buff BUFFER_TYPE_CALL 232 level 100 pk)
         (image_of i (pk_role i pk) (by_level [- 70, - 65, - 60, - 55, - 50, - 40] level)
            (by_level [350, 300, 250, 200, 150, 100] level) pk))
       100 (rs_RoleID (pk_role i pk)) 232 pk"

text \<open>The place of a guard: the place of the order unless it is blocked.\<close>

definition guard_pos :: "int \<Rightarrow> role_order \<Rightarrow> pk \<Rightarrow> pk_pos" where
  "guard_pos i ord pk =
     (let c = pk_role i pk
      in if free_cell pk (or_TargetPos ord) then or_TargetPos ord
         else GetEmptyPos pk (pos_of c) (mv_Direct (rs_move c)))"

definition skill_process_212 :: "int \<Rightarrow> role_order \<Rightarrow> int \<Rightarrow> pk \<Rightarrow> pk" where
  "skill_process_212 i ord level pk =
     (let c = pk_role i pk; keepTime = by_level [50, 50, 70, 70, 90, 120] level;
          HP = by_level [100, 200, 300, 400, 500, 600] level; attack = by_level [50, 100, 150, 200, 250, 300] level;
          cd = short (ph_AttackCDTime_Base (rs_phys c) - 10);
          r = called i HP (guard_pos i ord pk) (mv_Direct (rs_move c)) (rs_Level c) 10001 pk
            (upd_magic (\<lambda>m. m\<lparr>mg_ExemptAllCounter := 1\<rparr>)
            (upd_phys (\<lambda>p. p\<lparr>ph_AttackPowerHign_Base := attack, ph_AttackPowerLow_Base := attack, ph_AttackBulletMod := 2,
               ph_AttackCDTime_Base := (if cd \<le> 0 then ph_AttackCDTime_Base (rs_phys c) else cd),
               ph_AttackHit_Base := ph_AttackHit_Base (rs_phys c), ph_AttackIngTime := ph_AttackIngTime (rs_phys c),
               ph_AttackArea := 10, ph_DefenseArmor_Base := 10\<rparr>)
            (upd_move (\<lambda>m. m\<lparr>mv_SpeedMod_Base := 0, mv_LimitCounter := 1\<rparr>) ((fresh_role pk)\<lparr>rs_HP_MAX := HP\<rparr>))))
      in enter_called (with_buff (call_buff BUFFER_TYPE_CALL 212 level keepTime pk) (RoleState_Init r)) keepTime 0 212 pk)"

definition skill_process_218 :: "int \<Rightarrow> role_order \<Rightarrow> int \<Rightarrow> pk \<Rightarrow> pk" where
  "skill_process_218 i ord level pk =
     (let c = pk_role i pk; keepTime = by_level [50, 50, 50, 70, 70, 70] level;
          HP = by_level [100, 200, 300, 400, 500, 600] level;
          r = called i HP (guard_pos i ord pk) (mv_Direct (rs_move c)) (rs_Level c) 10002 pk
            (upd_magic (\<lambda>m. m\<lparr>mg_ExemptAllCounter := 1\<rparr>)
            (upd_phys (\<lambda>p. p\<lparr>ph_AttackPowerHign_Base := 0, ph_AttackPowerLow_Base := 0, ph_AttackBulletMod := 0,
               ph_LimitCounter := 1, ph_AttackCDTime := 0, ph_AttackCDTime_Base := 0, ph_AttackHit := 0, ph_AttackHit_Base := 0,
               ph_AttackIngTime := 0, ph_AttackArea := 13, ph_DefenseArmor := 10, ph_DefenseArmor_Base := 10\<rparr>)
            (upd_move (\<lambda>m. m\<lparr>mv_SpeedMod := 0, mv_SpeedMod_Base := 0, mv_LimitCounter := 1\<rparr>)
              ((fresh_role pk)\<lparr>rs_HP_MAX := HP\<rparr>))));
          heal = (relative (call_buff BUFFER_TYPE_CASTSKILL 218 level keepTime pk))
            \<lparr>bf_Parametar1 := by_level [1, 2, 3, 4, 5, 8] level, bf_RunTimeLimit := 10\<rparr>;
          r' = with_buff heal (with_buff (call_buff BUFFER_TYPE_CALL 218 level keepTime pk) r)
      in pk_insert r' (Brodacast_Skill_Newrole (new_role_msg r' keepTime 0 218 pk) pk))"

end
