(* ===== verification/Pk_Attack.thy ===== *)
theory Pk_Attack
  imports Pk_Casts
begin

text \<open>
  Physical attacks, bullets, running buffs and pending skills of
  \<^verbatim>\<open>PkServer/PK_thread.cpp\<close>: \<^verbatim>\<open>CalculateAttackHurt\<close>,
  \<^verbatim>\<open>CalculateBullets\<close>, \<^verbatim>\<open>CalculateSkill\<close>,
  \<^verbatim>\<open>CalculateBuff\<close>, \<^verbatim>\<open>RunBuffer\<close>, and the hatred of monsters in
  \<^verbatim>\<open>CalculateAIAttack\<close> and \<^verbatim>\<open>CalculateAttack\<close>.

  An iterator into the multimap of buffs is an index here.  While a role's own buffs are visited nothing
  is inserted into them, and they only shrink by the loop itself, unless the role dies or revives, which
  \<open>rs_cleared\<close> shows.
\<close>

section \<open>Damage of an attack\<close>

text \<open>The damage before the buffs, and the kind of hit; \<open>None\<close> for a miss.  A remainder by a
  negative number has the sign of the random number.\<close>

definition attack_base :: "role_state \<Rightarrow> role_state \<Rightarrow> pk \<Rightarrow> int \<times> pk" where
  "attack_base a t pk =
     (let p = rs_phys a; low = ushort (ph_AttackPowerLow_Base p);
          d = ph_AttackPowerHign_Base p - ph_AttackPowerLow_Base p;
          (h0, pk1) = (if d \<noteq> 0 then let (n, pk') = next_rand pk in (ushort (low + n smod d + 1), pk') else (low, pk));
          h1 = ushort (h0 + short (ph_AttackPowerAdd p * h0 sdiv 100));
          w = 50 + rs_Level t + int_sqrt (ph_DefenseArmor (rs_phys t));
          h2 = (if w \<noteq> 0 then ushort (wrap32 (h1 * (50 + rs_Level a)) sdiv w) else h1)
      in (if h2 \<le> 0 then 1 else h2, pk1))"

definition crit_limit :: "int \<Rightarrow> int" where
  "crit_limit crit = short ((100 * crit + 1199) sdiv 1200)"

definition ATTACK_EFFECT_NORMAL :: int where [simp]: "ATTACK_EFFECT_NORMAL = 1"
definition ATTACK_EFFECT_MISS :: int where [simp]: "ATTACK_EFFECT_MISS = 2"
definition ATTACK_EFFECT_DOUBLE :: int where [simp]: "ATTACK_EFFECT_DOUBLE = 3"

definition attack_crit :: "role_state \<Rightarrow> int \<Rightarrow> pk \<Rightarrow> int \<times> int \<times> pk" where
  "attack_crit a h pk =
     (let crit = ph_AttackCrit (rs_phys a)
      in if crit = 0 then (h, ATTACK_EFFECT_NORMAL, pk)
         else let (n, pk1) = next_rand pk
              in if n mod 100 > crit_limit crit then (h, ATTACK_EFFECT_NORMAL, pk1)
                 else (ushort (h * 2), ATTACK_EFFECT_DOUBLE, pk1))"

text \<open>A curse remembers the damage.\<close>

definition curse_notes :: "int \<Rightarrow> buff \<Rightarrow> buff" where
  "curse_notes h b = (if bf_ParentSkill b = 225 then b\<lparr>bf_Parametar2 := wrap32 (bf_Parametar2 b + h)\<rparr> else b)"

text \<open>The spear: the first such buff of the attacker adds what it has gathered, and gathers more.\<close>

fun spear :: "int \<Rightarrow> buff list \<Rightarrow> int \<times> buff list" where
  "spear h [] = (h, [])"
| "spear h (b # bs) =
     (if bf_ParentSkill b = 233
      then (ushort (h + bf_Parametar1 b),
            b\<lparr>bf_Parametar1 := wrap32 (bf_Parametar1 b + wrap32 (bf_Parametar2 b * short h) sdiv 100)\<rparr> # bs)
      else let (h', bs') = spear h bs in (h', b # bs'))"

definition set_buff :: "int \<Rightarrow> nat \<Rightarrow> buff \<Rightarrow> pk \<Rightarrow> pk" where
  "set_buff i k b = pk_upd i (\<lambda>r. r\<lparr>rs_buffs := (rs_buffs r)[k := b]\<rparr>)"

definition del_buff :: "int \<Rightarrow> nat \<Rightarrow> pk \<Rightarrow> pk" where
  "del_buff i k = pk_upd i (\<lambda>r. r\<lparr>rs_buffs := take k (rs_buffs r) @ drop (Suc k) (rs_buffs r)\<rparr>)"

text \<open>Shields take the damage, and burst when they have taken their share; the whirl strikes
  back.\<close>

fun shields :: "nat \<Rightarrow> nat \<Rightarrow> int \<Rightarrow> int \<Rightarrow> pk \<Rightarrow> int \<times> pk" where
  "shields 0 k j h pk = (h, pk)"
| "shields (Suc n) k j h pk =
     (let bs = rs_buffs (pk_role j pk)
      in if length bs \<le> k then (h, pk)
         else let b = bs ! k
              in if bf_ParentSkill b = 209 then
                   let b1 = b\<lparr>bf_Parametar2 := wrap32 (bf_Parametar2 b + h)\<rparr>
                   in if bf_Parametar1 b1 \<le> bf_Parametar2 b1 then
                        let b2 = b1\<lparr>bf_Parametar2 := bf_Parametar1 b1\<rparr>
                        in shields n k j (ushort (bf_Parametar2 b1 - bf_Parametar1 b1))
                             (del_buff j k (stop_buff j b2 (skill_process_209_buffer j b2 (set_buff j k b2 pk))))
                      else shields n (Suc k) j 0 (set_buff j k b1 pk)
                 else if bf_ParentSkill b = 210 then
                   let (b1, pk1) = skill_process_210_buffer j b pk in shields n (Suc k) j h (set_buff j k b1 pk1)
                 else shields n (Suc k) j h pk)"

definition CalculateAttackHurt :: "int \<Rightarrow> int \<Rightarrow> pk \<Rightarrow> pk" where
  "CalculateAttackHurt i j pk =
     (let a = pk_role i pk; t = pk_role j pk; (n, pk1) = next_rand pk
      in if n mod 100 > getBHitTarget (ph_AttackHit (rs_phys a)) (ph_DefenseMiss (rs_phys t))
         then BrodacastHpChange (rs_RoleID t) 0 HPCHANGE_SOURCE_ATK ATTACK_EFFECT_MISS pk1
         else let (h, pk2) = attack_base a t pk1;
                  (h1, currAttackEffect, pk3) = attack_crit a h pk2;
                  h2 = ushort (h1 + wrap32 (h1 * ph_HurtAdd (rs_phys t)) sdiv 100);
                  pk4 = pk_upd j (\<lambda>t. t\<lparr>rs_buffs := map (curse_notes h2) (rs_buffs t)\<rparr>) pk3;
                  h3 = fst (spear h2 (rs_buffs (pk_role i pk4)));
                  pk5 = pk_upd i (\<lambda>a. a\<lparr>rs_buffs := snd (spear h2 (rs_buffs a))\<rparr>) pk4;
                  (h4, pk6) = shields (length (rs_buffs (pk_role j pk5))) 0 j h3 pk5
              in if h4 \<le> 0 then pk6
                 else let pk7 = BrodacastHpChange (rs_RoleID t) (- h4) HPCHANGE_SOURCE_ATK currAttackEffect
                                  (pk_upd j (\<lambda>t. t\<lparr>rs_HP := short (rs_HP t - h4)\<rparr>) pk6)
                      in if rs_HP (pk_role j pk7) \<le> 0 then onRoleDead j pk7 else pk7)"

section \<open>Bullets\<close>

definition BULLET_TYPE_ATK_CLOSE :: int where [simp]: "BULLET_TYPE_ATK_CLOSE = 1"
definition BULLET_TYPE_ATK_REMOTE :: int where [simp]: "BULLET_TYPE_ATK_REMOTE = 2"

definition fly :: "int \<Rightarrow> int \<Rightarrow> int \<Rightarrow> int" where
  "fly target speed x = (if x < target then short (x + speed) else if target < x then short (x - speed) else x)"

definition bullet_hits :: "bullet \<Rightarrow> pk \<Rightarrow> pk" where
  "bullet_hits bl pk =
     (if bl_BulletType bl = BULLET_TYPE_ATK_REMOTE then CalculateAttackHurt (bl_Role_Attack bl) (bl_Role_Passive bl) pk
      else if bl_BulletType bl = 207
        then skill_process_207_effect (pos_of (pk_role (bl_Role_Passive bl) pk)) (bl_Role_Attack bl) (bl_Level bl) pk
      else if bl_BulletType bl = 217 then skill_process_217_Effect bl pk
      else if bl_BulletType bl = 223
        then skill_process_223_Effect (pos_of (pk_role (bl_Role_Passive bl) pk))
               (rs_Opposition (pk_role (bl_Role_Attack bl) pk)) (bl_Level bl) pk
      else pk)"

text \<open>One bullet: what is left of it, and the fight.\<close>

definition run_bullet :: "bullet \<Rightarrow> pk \<Rightarrow> bullet option \<times> pk" where
  "run_bullet bl pk =
     (let t = pk_role (bl_Role_Passive bl) pk; p = bl_CurrentPos bl
      in if rs_Live t = ROLE_STATUS_DEAD then (None, pk)
         else if 0 < bl_Start_Time bl then (Some (bl\<lparr>bl_Start_Time := bl_Start_Time bl - 1\<rparr>), pk)
         else if bl_BulletType bl = BULLET_TYPE_ATK_CLOSE
           then (None, CalculateAttackHurt (bl_Role_Attack bl) (bl_Role_Passive bl) pk)
         else if 3 < \<bar>posX (pos_of t) - posX p\<bar> \<or> 3 < \<bar>posY (pos_of t) - posY p\<bar>
           then (Some (bl\<lparr>bl_CurrentPos := \<lparr>posX = fly (posX (pos_of t)) (bl_Speed bl) (posX p),
                   posY = fly (posY (pos_of t)) (bl_Speed bl) (posY p)\<rparr>\<rparr>), pk)
         else (None, bullet_hits bl pk))"

fun run_bullets :: "bullet list \<Rightarrow> pk \<Rightarrow> bullet list \<times> pk" where
  "run_bullets [] pk = ([], pk)"
| "run_bullets (bl # bls) pk =
     (let (left, pk1) = run_bullet bl pk; (bls', pk2) = run_bullets bls pk1
      in (case left of None \<Rightarrow> bls' | Some bl' \<Rightarrow> bl' # bls', pk2))"

definition CalculateBullets :: "pk \<Rightarrow> pk" where
  "CalculateBullets pk = (let (bls, pk1) = run_bullets (pk_bullets pk) pk in pk1\<lparr>pk_bullets := bls\<rparr>)"

section \<open>Running buffs\<close>

definition heal_hp :: "int \<Rightarrow> buff \<Rightarrow> pk \<Rightarrow> pk" where
  "heal_hp i b pk =
     (let r = pk_role i pk;
          hp0 = (if bf_Effecttype b = BUFFER_EFFECT_TYPE_RELATIVE
                 then short (wrap32 (bf_Parametar1 b * rs_Curr_HP_MAX r) sdiv 100)
                 else if bf_Effecttype b = BUFFER_EFFECT_TYPE_ABS then short (bf_Parametar1 b) else 0);
          hp = (if rs_Curr_HP_MAX r < rs_HP r + hp0 then short (rs_Curr_HP_MAX r - rs_HP r) else hp0)
      in if rs_Curr_HP_MAX r \<le> rs_HP r then pk
         else BrodacastHpChange (rs_RoleID r) hp HPCHANGE_SOURCE_SKILL (bf_ParentSkill b)
                (pk_upd i (\<lambda>r. r\<lparr>rs_HP := short (rs_HP r + hp)\<rparr>) pk))"

text \<open>The buff itself may change: the whirl gains a percent each time.\<close>

definition RunBuffer :: "int \<Rightarrow> buff \<Rightarrow> pk \<Rightarrow> (buff \<times> pk) option" where
  "RunBuffer i b pk =
     (if bf_Type b = BUFFER_TYPE_CASTSKILL then
        if bf_ParentSkill b = 204 then Some (b, skill_process_204_buffer i (short (bf_Parametar1 b)) pk)
        else if bf_ParentSkill b = 219 then Some (b, skill_process_219_Effect i b pk)
        else if bf_ParentSkill b = 224 then map_option (Pair b) (skill_process_224_Effect i b pk)
        else if bf_ParentSkill b = 218 then Some (b, skill_process_218_Buffer i b pk)
        else Some (b, pk)
      else if bf_Type b = BUFFER_TYPE_BYSKILL \<and> bf_ParentSkill b = 210
        then Some (b\<lparr>bf_Parametar2 := wrap32 (bf_Parametar2 b + 1)\<rparr>, pk)
      else if bf_Type b = BUFFER_TYPE_HP then Some (b, heal_hp i b pk)
      else Some (b, pk))"

definition tick_buff :: "int \<Rightarrow> nat \<Rightarrow> pk \<Rightarrow> pk option" where
  "tick_buff i k pk =
     (let b = rs_buffs (pk_role i pk) ! k; b1 = b\<lparr>bf_RunCounter := ushort (bf_RunCounter b + 1)\<rparr>
      in if bf_RunTimeLimit b \<le> 0 then Some pk
         else if bf_RunCounter b1 < bf_RunTimeLimit b1 then Some (set_buff i k b1 pk)
         else do { (b2, pk1) \<leftarrow> RunBuffer i b1 (set_buff i k b1 pk); Some (set_buff i k (b2\<lparr>bf_RunCounter := 0\<rparr>) pk1) })"

text \<open>A buff that has ended: the role may die of it, which ends the loop; if it revives instead, the
  loop goes on with an iterator into a multimap that was cleared.\<close>

fun run_buffs :: "nat \<Rightarrow> nat \<Rightarrow> int \<Rightarrow> pk \<Rightarrow> pk option" where
  "run_buffs 0 k i pk = Some pk"
| "run_buffs (Suc n) k i pk =
     (if length (rs_buffs (pk_role i pk)) \<le> k then Some pk
      else do {
        pk1 \<leftarrow> tick_buff i k pk;
        let b = rs_buffs (pk_role i pk1) ! k;
        if bf_EndTime b \<le> pk_now pk1 then
          let pk2 = UpdataBuffer i b UPDATABUFFER_DEL pk1
          in if rs_Live (pk_role i pk2) = ROLE_STATUS_DEAD then Some pk2
             else if rs_cleared (pk_role i pk2) \<noteq> rs_cleared (pk_role i pk1) then None
             else run_buffs n k i (del_buff i k pk2)
        else run_buffs n (Suc k) i pk1
      })"

definition CalculateBuff :: "int \<Rightarrow> pk \<Rightarrow> pk option" where
  "CalculateBuff i pk = run_buffs (length (rs_buffs (pk_role i pk))) 0 i pk"

section \<open>Pending skills\<close>

text \<open>The skill of an order, chosen by its type.\<close>

definition cast_skill :: "int \<Rightarrow> int \<Rightarrow> role_order \<Rightarrow> int \<Rightarrow> pk \<Rightarrow> pk option" where
  "cast_skill k i ord level pk =
     (if k = 201 then Some (skill_process_201 i ord level pk)
      else if k = 202 then Some (skill_process_202 i ord level pk)
      else if k = 203 then Some (skill_process_203 i ord level pk)
      else if k = 204 then Some (skill_process_204 i ord level pk)
      else if k = 205 then Some (skill_process_205 i ord level pk)
      else if k = 206 then Some (skill_process_206 i ord level pk)
      else if k = 207 then Some (skill_process_207 i ord level pk)
      else if k = 208 then Some (skill_process_208 i ord level pk)
      else if k = 209 then Some (skill_process_209 i ord level pk)
      else if k = 210 then Some (skill_process_210 i ord level pk)
      else if k = 211 then skill_process_211 i ord level pk
      else if k = 212 then Some (skill_process_212 i ord level pk)
      else if k = 213 then Some (skill_process_213 i ord level pk)
      else if k = 214 then Some (skill_process_214 i ord level pk)
      else if k = 215 then skill_process_215 i ord level pk
      else if k = 216 then Some (skill_process_216 i ord level pk)
      else if k = 217 then Some (skill_process_217 i ord level pk)
      else if k = 218 then Some (skill_process_218 i ord level pk)
      else if k = 219 then Some (skill_process_219 i ord level pk)
      else if k = 220 then Some (skill_process_220 i ord level pk)
      else if k = 221 then Some (skill_process_221 i ord level pk)
      else if k = 222 then skill_process_222 i ord level pk
      else if k = 223 then Some (skill_process_223 i ord level pk)
      else if k = 224 then Some (skill_process_224 i ord level pk)
      else if k = 225 then Some (skill_process_225 i ord level pk)
      else if k = 226 then Some (skill_process_226 i ord level pk)
      else if k = 227 then skill_process_227 i ord level pk
      else if k = 228 then Some (skill_process_228 i ord level pk)
      else if k = 229 then Some (skill_process_229 i ord level pk)
      else if k = 230 then Some (skill_process_230 i ord level pk)
      else if k = 231 then Some (skill_process_231 i ord level pk)
      else if k = 232 then Some (skill_process_232 i ord level pk)
      else if k = 233 then Some (skill_process_233 i ord level pk)
      else if k = 234 then Some (skill_process_234 i ord level pk)
      else if k = 235 then Some (skill_process_235 i ord level pk)
      else Some pk)"

definition run_skill :: "pk_skill_order \<Rightarrow> pk \<Rightarrow> pk option" where
  "run_skill so pk = cast_skill (or_Type (so_order so)) (so_role so) (so_order so) (so_SkillLevel so) pk"

fun run_skills :: "pk_skill_order list \<Rightarrow> pk \<Rightarrow> (pk_skill_order list \<times> pk) option" where
  "run_skills [] pk = Some ([], pk)"
| "run_skills (so # sos) pk =
     (if rs_Live (pk_role (so_role so) pk) = ROLE_STATUS_DEAD then run_skills sos pk
      else if 0 < so_Start_Time so then do {
        (sos', pk1) \<leftarrow> run_skills sos pk;
        Some (so\<lparr>so_Start_Time := so_Start_Time so - 1\<rparr> # sos', pk1)
      }
      else do { pk1 \<leftarrow> run_skill so pk; run_skills sos pk1 })"

definition CalculateSkill :: "pk \<Rightarrow> pk option" where
  "CalculateSkill pk = do {
     (sos, pk1) \<leftarrow> run_skills (pk_skill_order_list pk) pk;
     Some (pk1\<lparr>pk_skill_order_list := sos\<rparr>)
   }"

section \<open>Hatred\<close>

text \<open>The quotient of two \<^verbatim>\<open>short\<close> as \<^verbatim>\<open>double\<close>, times ten, cut; what the
  x86 conversion gives for an infinity or a NaN when the divisor is 0.\<close>

definition hp_tenths :: "int \<Rightarrow> int \<Rightarrow> int" where
  "hp_tenths hp maxhp = (if maxhp = 0 then - 2147483648 else 10 * hp sdiv maxhp)"

definition clamp8 :: "int \<Rightarrow> int" where "clamp8 n = (if 8 < n then 8 else if n < 1 then 1 else n)"

text \<open>A role that cannot move attacks the first foe in reach; distances count along the axes.\<close>

definition in_reach :: "role_state \<Rightarrow> role_state \<Rightarrow> bool" where
  "in_reach r t \<longleftrightarrow> foe r t \<and> ph_ExemptCounter (rs_phys t) = 0 \<and>
     short (\<bar>posX (pos_of t) - posX (pos_of r)\<bar> + \<bar>posY (pos_of t) - posY (pos_of r)\<bar>) < ph_AttackArea (rs_phys r)"

definition attack_order :: "int \<Rightarrow> int \<Rightarrow> role_state \<Rightarrow> role_state" where
  "attack_order now target r =
     upd_phys (\<lambda>p. p\<lparr>ph_PreTimeStatus := 1\<rparr>)
       (upd_order (\<lambda>o'. o'\<lparr>or_Type := ORDER_TYPE_ATTACK_E, or_TargetRoleID := target, or_TargetType := 2, or_OrderTime := now\<rparr>) r)"

definition hate_of :: "role_state \<Rightarrow> role_state \<Rightarrow> hater_info" where
  "hate_of r t =
     (let d = short (int_sqrt (dist_sq (pos_of r) (pos_of t))); area = ph_AttackArea (rs_phys r);
          d' = short (8 - (d - area)); dis = (if d \<le> area then 8 else if d' < 1 then 1 else d');
          hp = clamp8 (short (wrap32 (8 - hp_tenths (rs_HP t) (rs_Curr_HP_MAX t))))
      in (case smap_find (rs_RoleID t) (rs_HatreMap r) of
            None \<Rightarrow> HaterInfo_clear\<lparr>ht_Distance := dis, ht_Hp := hp\<rparr>
          | Some h \<Rightarrow> h\<lparr>ht_Distance := dis, ht_Hp := hp, ht_Attack := max 1 (short (ht_Attack h - 1)),
                         ht_Hit := max 1 (short (ht_Hit h - 1))\<rparr>))"

text \<open>The loop over the foes: the hatred is written down, and the greatest one is looked for.\<close>

fun most_hated :: "role_state list \<Rightarrow> role_state \<Rightarrow> int \<Rightarrow> int \<Rightarrow> role_state \<times> int" where
  "most_hated [] r maxHarte maxID = (r, maxID)"
| "most_hated (t # ts) r maxHarte maxID =
     (if foe r t then
        let h = hate_of r t; r' = r\<lparr>rs_HatreMap := smap_put (rs_RoleID t) h (rs_HatreMap r)\<rparr>
        in if maxHarte < HaterInfo_max h then most_hated ts r' (HaterInfo_max h) (rs_RoleID t)
           else most_hated ts r' maxHarte maxID
      else most_hated ts r maxHarte maxID)"

definition CalculateAIAttack :: "int \<Rightarrow> pk \<Rightarrow> pk" where
  "CalculateAIAttack i pk =
     (let r = pk_role i pk
      in if 0 < mv_LimitCounter (rs_move r) then
           case find (in_reach r) (map snd (pk_roles pk)) of
             Some t \<Rightarrow> pk_upd i (attack_order (pk_now pk) (rs_RoleID t)) pk
           | None \<Rightarrow> pk_upd i (upd_order (\<lambda>o'. o'\<lparr>or_Type := ORDER_TYPE_NO, or_TargetRoleID := 0\<rparr>)) pk
         else if pk_now pk mod 30 \<noteq> 10 then pk
         else let (r', maxID) = most_hated (map snd (pk_roles pk)) r 0 0
              in pk_upd i (\<lambda>_.
                   if maxID = 0 then upd_order (\<lambda>o'. o'\<lparr>or_Type := ORDER_TYPE_NO\<rparr>) r'
                   else if or_Type (rs_CurrentOrder r') = ORDER_TYPE_NO \<or> or_TargetRoleID (rs_CurrentOrder r') \<noteq> maxID
                     then attack_order (pk_now pk) maxID r'
                   else r') pk)"

definition ceil_sqrt :: "int \<Rightarrow> int" where
  "ceil_sqrt n = (let s = int_sqrt n in if s * s = n then s else s + 1)"

text \<open>The first hatred against a role, from the distance and the health.\<close>

definition first_hate :: "role_state \<Rightarrow> role_state \<Rightarrow> hater_info" where
  "first_hate r t =
     (let n = dist_sq (pos_of r) (pos_of t); area = ph_AttackArea (rs_phys r)
      in HaterInfo_clear\<lparr>ht_Distance := (if 0 \<le> area \<and> n \<le> area * area then 8 else short (max 1 (8 + area - ceil_sqrt n))),
           ht_Hp := clamp8 (short (wrap32 (10 - hp_tenths (rs_HP t) (rs_HP_MAX t))))\<rparr>)"

definition hates :: "role_state \<Rightarrow> bool" where
  "hates r \<longleftrightarrow> rs_RoleFlag r = RoleType_Monster \<or> rs_RoleFlag r = RoleType_NPC"

text \<open>One more attack, or the first one, which makes the monster choose anew.\<close>

definition provoke :: "(hater_info \<Rightarrow> hater_info) \<Rightarrow> (hater_info \<Rightarrow> hater_info) \<Rightarrow> int \<Rightarrow> int \<Rightarrow> pk \<Rightarrow> pk" where
  "provoke first again i j pk =
     (let r = pk_role i pk; k = rs_RoleID (pk_role j pk)
      in if \<not> hates r then pk
         else case smap_find k (rs_HatreMap r) of
                Some h \<Rightarrow> pk_upd i (\<lambda>r. r\<lparr>rs_HatreMap := smap_put k (again h) (rs_HatreMap r)\<rparr>) pk
              | None \<Rightarrow> CalculateAIAttack i
                  (pk_upd i (\<lambda>r. r\<lparr>rs_HatreMap := smap_put k (first (first_hate r (pk_role j pk))) (rs_HatreMap r)\<rparr>) pk))"

definition CalculateAttack :: "int \<Rightarrow> int \<Rightarrow> pk \<Rightarrow> pk" where
  "CalculateAttack i j pk =
     (let a = pk_role i pk; t = pk_role j pk; pk1 = BrodacastAttack (rs_RoleID a) (rs_RoleID t) pk;
          mod' = ph_AttackBulletMod (rs_phys a);
          bl = \<lparr>bl_Role_Attack = i, bl_Role_Passive = j, bl_Start_Time = ushort (ph_AttackIngTime (rs_phys a)),
                 bl_CurrentPos = pos_of a, bl_Speed = (mod' + 128) mod 256 - 128,
                 bl_BulletType = (if mod' = 0 then BULLET_TYPE_ATK_CLOSE else BULLET_TYPE_ATK_REMOTE), bl_Level = 0\<rparr>;
          pk2 = pk1\<lparr>pk_bullets := pk_bullets pk1 @ [bl]\<rparr>;
          pk3 = provoke (\<lambda>h. h\<lparr>ht_Attack := 2\<rparr>) (\<lambda>h. h\<lparr>ht_Attack := min 8 (short (ht_Attack h + 2))\<rparr>) j i pk2
      in provoke (\<lambda>h. h\<lparr>ht_Hit := 1\<rparr>) (\<lambda>h. h\<lparr>ht_Hit := min 8 (short (ht_Hit h + 1))\<rparr>) i j pk3)"

end
