(* ===== verification/Pk_Run.thy ===== *)
theory Pk_Run
  imports Pk_Attack
begin

text \<open>
  Moving, orders and the clock of a fight, \<^verbatim>\<open>PkServer/PK_thread.cpp\<close>:
  \<^verbatim>\<open>CalculateMoveP\<close>, \<^verbatim>\<open>process_c_s_attack\<close>,
  \<^verbatim>\<open>process_c_s_skill\<close>, \<^verbatim>\<open>process_c_s_order\<close>,
  \<^verbatim>\<open>process_c_s_ready\<close>, \<^verbatim>\<open>RunRole\<close>,
  \<^verbatim>\<open>RunTime\<close> and one event of \<^verbatim>\<open>run_pking\<close>.
\<close>

section \<open>Moving\<close>

definition MOVERESULT_OK_MOVE :: int where [simp]: "MOVERESULT_OK_MOVE = 0"
definition MOVERESULT_NO_MOVE :: int where [simp]: "MOVERESULT_NO_MOVE = 1"
definition MOVERESULT_ERROR :: int where [simp]: "MOVERESULT_ERROR = 2"

text \<open>Moving with the loss of energy costs mana, every tenth time.\<close>

definition lost_mp :: "buff \<Rightarrow> role_state \<Rightarrow> int" where
  "lost_mp b r =
     (let h = short (wrap32 (rs_MP r * bf_Parametar2 b) sdiv 100) in if h = 0 \<and> 0 < rs_MP r then 1 else h)"

definition drain :: "int \<Rightarrow> nat \<Rightarrow> pk \<Rightarrow> pk" where
  "drain i k pk =
     (let r = pk_role i pk; b = rs_buffs r ! k; n = ushort (bf_RunCounter b + 1)
      in if bf_ParentSkill b \<noteq> 226 then pk
         else if n < 10 then set_buff i k (b\<lparr>bf_RunCounter := n\<rparr>) pk
         else let h = lost_mp b r
              in BrodacastMpChange (rs_RoleID r) (- h) 226
                   (pk_upd i (\<lambda>r. r\<lparr>rs_MP := short (rs_MP r - h)\<rparr>) (set_buff i k (b\<lparr>bf_RunCounter := 0\<rparr>) pk)))"

text \<open>The product with the \<^verbatim>\<open>double\<close> number next to 0.7, which is
  6305039478318694 / 2 ^ 53, cut to an integer: 62 for 90, for example.\<close>

definition diagonal :: "int \<Rightarrow> int" where
  "diagonal s = (let (m, k) = fp_div (s * 6305039478318694) 9007199254740992 in m div 2 ^ k)"

text \<open>A diagonal move: towards the diagonal of the cell first, along the axis on which it is reached,
  then along the diagonal.  \<open>d\<close> is \<^verbatim>\<open>DiffXY\<close>, how far the place is off the
  diagonal.\<close>

definition diag_move :: "int \<Rightarrow> int \<Rightarrow> int \<Rightarrow> pk_pos \<Rightarrow> pk_pos" where
  "diag_move sx sy s p =
     (let d = short (if sx = sy then posX p - posY p else posX p - (LENGTH_STRAIGHT - posY p));
          along = (\<lambda>n p. if (0 < d) = (sx < 0) then p\<lparr>posX := posX p + sx * n\<rparr> else p\<lparr>posY := posY p + sy * n\<rparr>)
      in if d = 0 then \<lparr>posX = short (posX p + sx * diagonal s), posY = short (posY p + sy * diagonal s)\<rparr>
         else if \<bar>d\<bar> < s then
           let q = along \<bar>d\<bar> p; e = diagonal (s - \<bar>d\<bar>)
           in \<lparr>posX = short (posX q + sx * e), posY = short (posY q + sy * e)\<rparr>
         else let q = along s p in \<lparr>posX = short (posX q), posY = short (posY q)\<rparr>)"

text \<open>The move within the cell, and whether it leaves the cell.  The step of the cell itself is
  overwritten by the next point of the route.\<close>

definition wrap_x :: "int \<Rightarrow> pk_pos \<Rightarrow> pk_pos" where
  "wrap_x n p = p\<lparr>posX := short (posX p + n)\<rparr>"
definition wrap_y :: "int \<Rightarrow> pk_pos \<Rightarrow> pk_pos" where
  "wrap_y n p = p\<lparr>posY := short (posY p + n)\<rparr>"

definition move_mini :: "int \<Rightarrow> int \<Rightarrow> pk_pos \<Rightarrow> pk_pos \<times> bool" where
  "move_mini direct s p =
     (if direct = 1 then let q = wrap_y (- s) p in if posY q < 0 then (wrap_y 1000 q, True) else (q, False)
      else if direct = 2 then let q = diag_move 1 (- 1) s p
        in if 1000 \<le> posX q then (wrap_y 1000 (wrap_x (- 1000) q), True) else (q, False)
      else if direct = 3 then let q = wrap_x s p in if 1000 \<le> posX q then (wrap_x (- 1000) q, True) else (q, False)
      else if direct = 4 then let q = diag_move 1 1 s p
        in if 1000 \<le> posX q then (wrap_y (- 1000) (wrap_x (- 1000) q), True) else (q, False)
      else if direct = 5 then let q = wrap_y s p in if 1000 \<le> posY q then (wrap_y (- 1000) q, True) else (q, False)
      else if direct = 6 then let q = diag_move (- 1) 1 s p
        in if 1000 \<le> posY q then (wrap_x 1000 (wrap_y (- 1000) q), True) else (q, False)
      else if direct = 7 then let q = wrap_x (- s) p in if posX q < 0 then (wrap_x 1000 q, True) else (q, False)
      else if direct = 8 then let q = diag_move (- 1) (- 1) s p
        in if posY q < 0 then (wrap_x 1000 (wrap_y 1000 q), True) else (q, False)
      else (p, False))"

text \<open>A place that another role has is shifted, and the search begins again with the second
  role.\<close>

partial_function (option) make_room :: "role_state list \<Rightarrow> int \<Rightarrow> role_state list \<Rightarrow> pk_pos \<Rightarrow> pk_pos option" where
  "make_room all i ts p =
     (case ts of
        [] \<Rightarrow> Some p
      | t # ts' \<Rightarrow>
          if rs_RoleID t \<noteq> i \<and> pos_of t = p
          then make_room all i (tl all) \<lparr>posX = short (posX p + 5), posY = short (posY p + 5)\<rparr>
          else make_room all i ts' p)"

declare make_room.simps [code]

definition next_cell :: "int \<Rightarrow> pk \<Rightarrow> (int \<times> pk) option" where
  "next_cell i pk =
     (case tl (mv_MoveLine (rs_move (pk_role i pk))) of
        [] \<Rightarrow> Some (MOVERESULT_ERROR, pk)
      | p # line \<Rightarrow> do {
          let ts = map snd (pk_roles pk);
          q \<leftarrow> make_room ts (rs_RoleID (pk_role i pk)) ts p;
          let pk1 = pk_upd i (upd_move (\<lambda>m. m\<lparr>mv_MoveLine := q # line, mv_CurrentPos := q\<rparr>)) pk;
          case line of
            [] \<Rightarrow> Some (MOVERESULT_OK_MOVE, pk1)
          | n # _ \<Rightarrow>
              let d = getDirect n q; pk2 = pk_upd i (upd_move (\<lambda>m. m\<lparr>mv_Direct := d\<rparr>)) pk1
              in Some (if d = 0 then MOVERESULT_ERROR else MOVERESULT_OK_MOVE, pk2)
        })"

definition CalculateMoveP :: "int \<Rightarrow> pk \<Rightarrow> (int \<times> pk) option" where
  "CalculateMoveP i pk =
     (let m = rs_move (pk_role i pk)
      in if 0 < mv_LimitCounter m then Some (MOVERESULT_NO_MOVE, pk)
         else if length (mv_MoveLine m) < 2 then Some (MOVERESULT_ERROR, pk)
         else let pk1 = fold (drain i) [0..<length (rs_buffs (pk_role i pk))] pk;
                  s = (if MAP_MAX_LINE \<le> mv_SpeedMod m then MAP_MAX_LINE - 1 else mv_SpeedMod m);
                  (q, CrossPos) = move_mini (mv_Direct m) s (mv_CurrentPosMini m)
              in if s < 0 then Some (MOVERESULT_OK_MOVE, pk1)
                 else let pk2 = pk_upd i (upd_move (\<lambda>m. m\<lparr>mv_CurrentPosMini := q\<rparr>)) pk1
                      in if CrossPos then next_cell i pk2 else Some (MOVERESULT_OK_MOVE, pk2))"

section \<open>Attacking and using skills\<close>

definition ATTACKRESULT_OK_ATTACK :: int where [simp]: "ATTACKRESULT_OK_ATTACK = 0"
definition ATTACKRESULT_NO_ATTACK :: int where [simp]: "ATTACKRESULT_NO_ATTACK = 1"
definition ATTACKRESULT_CD_LIMIT :: int where [simp]: "ATTACKRESULT_CD_LIMIT = 2"
definition ATTACKRESULT_TARGETI_NVALID :: int where [simp]: "ATTACKRESULT_TARGETI_NVALID = 3"
definition ATTACKRESULT_NO_MOVE :: int where [simp]: "ATTACKRESULT_NO_MOVE = 4"
definition ATTACKRESULT_ASTART_FAIL :: int where [simp]: "ATTACKRESULT_ASTART_FAIL = 5"
definition ATTACKRESULT_MOVE_FAIL :: int where [simp]: "ATTACKRESULT_MOVE_FAIL = 6"
definition ATTACKRESULT_MOVEING :: int where [simp]: "ATTACKRESULT_MOVEING = 7"

definition within :: "int \<Rightarrow> pk_pos \<Rightarrow> pk_pos \<Rightarrow> bool" where
  "within n A B \<longleftrightarrow> \<bar>posX A - posX B\<bar> \<le> n \<and> \<bar>posY A - posY B\<bar> \<le> n"

definition steps_between :: "pk_pos \<Rightarrow> pk_pos \<Rightarrow> int" where
  "steps_between A B = short (\<bar>posX A - posX B\<bar> + \<bar>posY A - posY B\<bar>)"

definition set_pre_status :: "int \<Rightarrow> int \<Rightarrow> pk \<Rightarrow> pk" where
  "set_pre_status i n = pk_upd i (upd_phys (\<lambda>p. p\<lparr>ph_PreTimeStatus := n\<rparr>))"

text \<open>A new route to the target, and the first move on it.\<close>

definition route_to :: "int \<Rightarrow> int \<Rightarrow> pk \<Rightarrow> (int \<times> pk) option" where
  "route_to i j pk = AStar i (pos_of (pk_role i pk)) (pos_of (pk_role j pk)) pk"

definition chase :: "int \<Rightarrow> int \<Rightarrow> pk \<Rightarrow> (int \<times> pk) option" where
  "chase i j pk =
     (let preD = (if pk_now pk mod 10 = 0 then steps_between (pos_of (pk_role i pk)) (pos_of (pk_role j pk)) else - 1)
      in do {
        (res, pk1) \<leftarrow> CalculateMoveP i pk;
        if res = MOVERESULT_OK_MOVE then
          if 0 \<le> preD \<and> preD < steps_between (pos_of (pk_role i pk1)) (pos_of (pk_role j pk1)) then do {
            (found, pk2) \<leftarrow> route_to i j pk1;
            if found = 0 then do {
              (res2, pk3) \<leftarrow> CalculateMoveP i pk2;
              Some (if res2 \<noteq> MOVERESULT_OK_MOVE then ATTACKRESULT_MOVE_FAIL else ATTACKRESULT_MOVEING, pk3)
            }
            else Some (ATTACKRESULT_MOVEING, pk2)
          }
          else Some (ATTACKRESULT_MOVEING, pk1)
        else do {
          (found, pk2) \<leftarrow> route_to i j pk1;
          if found = 0 then do {
            (res2, pk3) \<leftarrow> CalculateMoveP i pk2;
            Some (if res2 \<noteq> MOVERESULT_OK_MOVE then ATTACKRESULT_MOVE_FAIL else ATTACKRESULT_MOVEING, pk3)
          }
          else Some (ATTACKRESULT_ASTART_FAIL, set_pre_status i 1 pk2)
        }
      })"

definition process_c_s_attack :: "int \<Rightarrow> pk \<Rightarrow> (int \<times> pk) option" where
  "process_c_s_attack i pk =
     (let r = pk_role i pk; p = rs_phys r; j = or_TargetRoleID (rs_CurrentOrder r); t = pk_role j pk
      in if 0 < ph_LimitCounter p then Some (ATTACKRESULT_NO_ATTACK, pk)
         else if uint32 (pk_now pk + 20 - ph_PreAttackTime p) < ph_AttackCDTime p then Some (ATTACKRESULT_CD_LIMIT, pk)
         else if \<not> has_role pk j then Some (ATTACKRESULT_TARGETI_NVALID, pk)
         else if rs_Live t = ROLE_STATUS_DEAD \<or> 0 < ph_ExemptCounter (rs_phys t) then Some (ATTACKRESULT_TARGETI_NVALID, pk)
         else if within (ph_AttackArea p) (pos_of r) (pos_of t) then
           let pk1 = (if ph_PreTimeStatus p = 0
                 then pk_upd i (upd_move (\<lambda>m. m\<lparr>mv_MoveLine := []\<rparr>)) (set_pre_status i 1 pk) else pk);
               pk2 = pk_upd i (\<lambda>r. (upd_phys (\<lambda>p. p\<lparr>ph_PreAttackTime := pk_now pk\<rparr>) r)
                 \<lparr>rs_Waiting := ph_AttackIngTime (rs_phys r)\<rparr>) pk1
           in Some (ATTACKRESULT_OK_ATTACK, CalculateAttack i j pk2)
         else if 0 < mv_LimitCounter (rs_move r) \<or> mv_SpeedMod (rs_move r) = 0 then Some (ATTACKRESULT_NO_MOVE, pk)
         else if ph_PreTimeStatus p = 1 then do {
           (found, pk1) \<leftarrow> route_to i j (set_pre_status i 0 pk);
           Some (if found \<noteq> 0 then (ATTACKRESULT_ASTART_FAIL, set_pre_status i 1 pk1) else (ATTACKRESULT_MOVEING, pk1))
         }
         else chase i j pk)"

text \<open>Going nearer for a skill; -1 when there is no way.\<close>

definition approach :: "int \<Rightarrow> pk_pos \<Rightarrow> pk \<Rightarrow> (int \<times> pk) option" where
  "approach i target pk =
     (if 0 < mv_LimitCounter (rs_move (pk_role i pk)) then Some (- 1, pk)
      else do {
        (res, pk1) \<leftarrow> CalculateMoveP i pk;
        if res = MOVERESULT_OK_MOVE then Some (0, pk1)
        else do {
          (found, pk2) \<leftarrow> AStar i (pos_of (pk_role i pk1)) target pk1;
          Some (if found \<noteq> 0 then - 1 else 0, pk2)
        }
      })"

definition start_skill :: "int \<Rightarrow> skill_attr \<Rightarrow> pk \<Rightarrow> pk" where
  "start_skill i sk pk =
     (let r = pk_role i pk; ord = rs_CurrentOrder r;
          pk1 = BrodacastStop (rs_RoleID r) (pos_of r) (mv_CurrentPosMini (rs_move r)) pk;
          pk2 = pk1\<lparr>pk_skill_order_list := pk_skill_order_list pk1 @
            [\<lparr>so_role = i, so_Start_Time = ushort (sk_DoingTime sk), so_order = ord, so_SkillLevel = sk_SkillLevel sk\<rparr>]\<rparr>;
          pk3 = pk_upd i (\<lambda>r. r\<lparr>rs_MP := short (rs_MP r - sk_MP sk)\<rparr>) (Brodacast_Skill (rs_RoleID r) ord pk2)
      in pk_upd i (\<lambda>r. upd_order (\<lambda>o'. o'\<lparr>or_Type := ORDER_TYPE_NO\<rparr>)
             ((use_skill (or_Type ord) (pk_now pk) r)\<lparr>rs_Waiting := sk_DoingTime sk\<rparr>))
           (BrodacastMpChange (rs_RoleID r) (- sk_MP sk) 100 pk3))"

definition skill_ready :: "int \<Rightarrow> pk \<Rightarrow> skill_attr option" where
  "skill_ready i pk =
     (let r = pk_role i pk; ord = rs_CurrentOrder r
      in if 0 < mg_LimitCounter (rs_magic r) then None
         else case smap_find (or_Type ord) (mg_SkillMap (rs_magic r)) of
                None \<Rightarrow> None
              | Some sk \<Rightarrow>
                  if sk_LastUseTime sk \<noteq> 0 \<and> uint32 (pk_now pk - sk_LastUseTime sk) < sk_SkillCD sk then None
                  else if rs_MP r < sk_MP sk then None
                  else if or_TargetType ord = 1 then if on_map (or_TargetPos ord) then Some sk else None
                  else if \<not> has_role pk (or_TargetRoleID ord) then None
                  else if 0 < mg_ExemptAllCounter (rs_magic (pk_role (or_TargetRoleID ord) pk)) then None
                  else Some sk)"

definition process_c_s_skill :: "int \<Rightarrow> pk \<Rightarrow> (int \<times> pk) option" where
  "process_c_s_skill i pk =
     (case skill_ready i pk of
        None \<Rightarrow> Some (- 1, pk)
      | Some sk \<Rightarrow>
          let r = pk_role i pk; ord = rs_CurrentOrder r;
              target = (if or_TargetType ord = 1 then or_TargetPos ord else pos_of (pk_role (or_TargetRoleID ord) pk))
          in if 0 < sk_Area sk \<and> \<not> within (sk_Area sk) (pos_of r) target
             then approach i target pk
             else Some (0, start_skill i sk pk))"

section \<open>The clock\<close>

definition halt :: "int \<Rightarrow> pk \<Rightarrow> pk" where
  "halt i pk =
     (let pk1 = pk_upd i (upd_order (\<lambda>o'. o'\<lparr>or_Type := ORDER_TYPE_NO\<rparr>)) pk; r = pk_role i pk1
      in if mv_MoveLine (rs_move r) = [] then pk1
         else BrodacastStop (rs_RoleID r) (pos_of r) (mv_CurrentPosMini (rs_move r))
                (pk_upd i (upd_move (\<lambda>m. m\<lparr>mv_MoveLine := []\<rparr>)) pk1))"

definition run_move :: "int \<Rightarrow> pk \<Rightarrow> pk option" where
  "run_move i pk = do {
     (res, pk1) \<leftarrow> CalculateMoveP i pk;
     if res = MOVERESULT_ERROR then
       let r = pk_role i pk1; target = or_TargetPos (rs_CurrentOrder r)
       in if free_cell pk1 target \<and> within 3 (pos_of r) target then Some (halt i pk1)
          else do {
            (found, pk2) \<leftarrow> AStar i (pos_of r) target pk1;
            Some (if found = 0 then pk2
                  else CheckOver (rs_Opposition (pk_role i pk2))
                         (pk_upd i RoleState_Dead (BrodacastDead (rs_RoleID (pk_role i pk2)) pk2)))
          }
     else if res = MOVERESULT_NO_MOVE then Some (halt i pk1)
     else Some pk1
   }"

text \<open>Orders 2, 3, 6, 7 and casting a skill do nothing; every order that is no other kind is a
  skill.\<close>

definition RunRole :: "int \<Rightarrow> pk \<Rightarrow> pk option" where
  "RunRole i pk =
     (let r = pk_role i pk; ty = or_Type (rs_CurrentOrder r)
      in if ty = ORDER_TYPE_NO then Some (if ph_LimitCounter (rs_phys r) \<le> 0 then CalculateAIAttack i pk else pk)
         else if ty = ORDER_TYPE_ATTACK_E then do {
           (res, pk1) \<leftarrow> process_c_s_attack i pk;
           Some (if res \<in> {ATTACKRESULT_OK_ATTACK, ATTACKRESULT_MOVEING, ATTACKRESULT_CD_LIMIT} then pk1 else halt i pk1)
         }
         else if ty \<in> {2, 3, 6, 7, ORDER_TYPE_CASTSKILL} then Some pk
         else if ty = ORDER_TYPE_MOVE_P then run_move i pk
         else do {
           (res, pk1) \<leftarrow> process_c_s_skill i pk;
           Some (if res < 0
                 then pk_upd i (\<lambda>r. upd_order (\<lambda>o'. o'\<lparr>or_Type := ORDER_TYPE_NO\<rparr>) (upd_move (\<lambda>m. m\<lparr>mv_MoveLine := []\<rparr>) r)) pk1
                 else pk1)
         })"

text \<open>One role in one tick.  Every role moves all the bullets, and a role that has just died is still
  run.\<close>

definition run_one :: "int \<Rightarrow> pk \<Rightarrow> pk option" where
  "run_one i pk =
     (let r = pk_role i pk
      in if rs_Live r = ROLE_STATUS_DEAD then Some pk
         else if pk_now pk mod 50 = 0 \<and> rs_RoleFlag r = RoleType_Player \<and>
                 TIME_OFFLINE < uint32 (pk_now pk - or_OrderTime (rs_CurrentOrder r))
           then Some (CheckOver (rs_Opposition r) (pk_upd i (\<lambda>r. r\<lparr>rs_Live := ROLE_STATUS_OFFLINE\<rparr>) pk))
         else do {
           pk1 \<leftarrow> CalculateBuff i pk;
           let pk2 = CalculateBullets pk1;
           if 0 < rs_Waiting (pk_role i pk2) then Some (pk_upd i (\<lambda>r. r\<lparr>rs_Waiting := rs_Waiting r - 1\<rparr>) pk2)
           else RunRole i pk2
         })"

fun run_all :: "int list \<Rightarrow> pk \<Rightarrow> pk option" where
  "run_all [] pk = Some pk"
| "run_all (i # is) pk = do { pk1 \<leftarrow> run_one i pk; run_all is pk1 }"

definition RunTime :: "pk \<Rightarrow> pk option" where
  "RunTime pk = do { pk1 \<leftarrow> run_all (pk_keys pk) pk; CalculateSkill pk1 }"

section \<open>Orders and events\<close>

text \<open>The last point of an empty route is what the memory holds.\<close>

definition route_end :: "int \<Rightarrow> pk \<Rightarrow> pk_pos" where
  "route_end i pk =
     (let line = mv_MoveLine (rs_move (pk_role i pk)) in if line = [] then pos_of (pk_stack pk) else last line)"

definition take_order :: "user_order \<Rightarrow> pk \<Rightarrow> pk option" where
  "take_order u pk =
     (let i = uo_RoleID u; ord = uo_Order u; j = or_TargetRoleID ord; r = pk_role i pk;
          set = pk_upd i (\<lambda>r. r\<lparr>rs_CurrentOrder := ord\<rparr>)
      in if \<not> has_role pk i \<or> rs_ControlID r \<noteq> uo_ControlID u \<or> rs_Live r = ROLE_STATUS_DEAD then Some pk
         else let pk1 = breakLastSkill i pk
              in if or_Type ord = ORDER_TYPE_ATTACK_E then
                   Some (if has_role pk1 j \<and> rs_Live (pk_role j pk1) \<noteq> ROLE_STATUS_DEAD
                         then set_pre_status i 1 (set pk1) else pk1)
                 else if or_Type ord = ORDER_TYPE_MOVE_P then
                   if route_end i pk1 = or_TargetPos ord then Some pk1
                   else do {
                     (found, pk2) \<leftarrow> AStar i (pos_of (pk_role i pk1)) (or_TargetPos ord) pk1;
                     Some (if found = 0 then set pk2 else pk2)
                   }
                 else Some (set pk1))"

fun take_orders :: "user_order list \<Rightarrow> pk \<Rightarrow> pk option" where
  "take_orders [] pk = Some pk"
| "take_orders (u # us) pk = do { pk1 \<leftarrow> take_order u pk; take_orders us pk1 }"

definition process_c_s_order :: "pk \<Rightarrow> pk option" where
  "process_c_s_order pk = take_orders (pk_Orders pk) (pk\<lparr>pk_Orders := []\<rparr>)"

text \<open>The answer is a header and four zero bytes; its sequence byte is not set.\<close>

definition process_c_s_ready :: "int \<Rightarrow> pk \<Rightarrow> int \<times> pk" where
  "process_c_s_ready i pk =
     (if pk_State pk \<noteq> PK_STATE_READY \<or> \<not> has_role pk i then (- 1, pk)
      else let pk1 = pk_upd i (\<lambda>r. r\<lparr>rs_PK_State := PK_STATE_READY\<rparr>) pk;
               resp = PkgHead_packet \<lparr>hdr_PkgLen = 19, hdr_Direction = 2, hdr_SrvType = 2, hdr_SrvSeq = pk_uniq pk,
                 hdr_MsgType = 101, hdr_UniqID = pk_uniq pk, hdr_RoleID = i\<rparr> @ [0, 0, 0, 0];
               pk2 = pk1\<lparr>pk_out := pk_out pk1 @ [resp]\<rparr>
           in (0, if \<forall>r \<in> set (pk_players pk2). rs_PK_State r = PK_STATE_READY
                  then BroadcastBegin (pk2\<lparr>pk_State := PK_STATE_PKING, pk_now := 0\<rparr>) else pk2))"

text \<open>What one event read from the pipe does: 1 is the clock, anything else says that orders are
  waiting.\<close>

definition handle_event :: "int \<Rightarrow> pk \<Rightarrow> pk option" where
  "handle_event event pk =
     (if event = 1 then
        let pk1 = pk\<lparr>pk_now := uint32 (pk_now pk + 1)\<rparr>
        in if pk_State pk1 = PK_STATE_PKING then RunTime pk1
           else if TIME_WAITING_READY * 10 < pk_now pk1
             then Some (BroadcastBegin (pk1\<lparr>pk_State := PK_STATE_PKING, pk_now := 0\<rparr>))
           else Some pk1
      else if pk_State pk = PK_STATE_PKING then process_c_s_order pk
      else Some pk)"

text \<open>Two messages are put together in arrays that a crowded fight overruns: the report of
  \<^verbatim>\<open>EndGame\<close>, for which there are 24 bytes and 12 for each of 30 roles while a role takes 15,
  so that 24 players and pets are the limit, and the message of \<^verbatim>\<open>BrodacastMultiHurt\<close>, which
  holds 30 roles.  An event in which one of them was written behind its array has no result.  A message
  of the second kind is seen here when the fight has a player to send it to.\<close>

definition report_fits :: "u8 list \<Rightarrow> bool" where
  "report_fits report \<longleftrightarrow> length report \<le> 15 + 4 + 2 + 1 + 2 + 30 * 12"

definition hurts_fit :: "u8 list \<Rightarrow> bool" where
  "hurts_fit msg \<longleftrightarrow> length msg \<le> 15 + 2 + 30 * 6 + 2 + 4 \<or> hdr_MsgType (PkgHead_unpacket msg) \<noteq> 109"

text \<open>The loop goes on while the fight is ready or running.\<close>

definition run_event :: "int \<Rightarrow> pk \<Rightarrow> pk option" where
  "run_event event pk = do {
     pk1 \<leftarrow> handle_event event pk;
     if list_all report_fits (pk_end pk1) \<and> list_all hurts_fit (pk_out pk1) then Some pk1 else None
   }"

fun event_loop :: "int list \<Rightarrow> pk \<Rightarrow> pk option" where
  "event_loop [] pk = Some pk"
| "event_loop (e # es) pk =
     (if pk_State pk = PK_STATE_PKING \<or> pk_State pk = PK_STATE_READY
      then do { pk1 \<leftarrow> run_event e pk; event_loop es pk1 }
      else Some pk)"

definition run_pking :: "int list \<Rightarrow> pk \<Rightarrow> pk option" where
  "run_pking es pk = event_loop es (pk\<lparr>pk_State := PK_STATE_READY, pk_now := 0\<rparr>)"

end
