(* ===== verification/Pk_Accounts.thy ===== *)
theory Pk_Accounts
  imports Pk_Run
begin

text \<open>
  What the buffs of a role do to its attributes, as an account book: every attribute that buffs change
  (\<open>reading\<close>) has a value it starts from (\<open>base\<close>) and a contribution of each buff
  (\<open>share\<close>).  \<open>balanced\<close> says that the attribute is the sum; the lemmas show what the buff
  update of \<open>Pk_Buff\<close> does to the accounts.
\<close>

section \<open>Accounts\<close>

datatype account = Speed | Hit | Hurt | Crit | Armor | MoveLimit | PhysLimit | MagicLimit | ExemptBad
  | ExemptAll | PhysExempt

primrec reading :: "account \<Rightarrow> role_state \<Rightarrow> int" where
  "reading Speed r = mv_SpeedMod (rs_move r)"
| "reading Hit r = ph_AttackHit (rs_phys r)"
| "reading Hurt r = ph_HurtAdd (rs_phys r)"
| "reading Crit r = ph_AttackCrit (rs_phys r)"
| "reading Armor r = ph_DefenseArmor (rs_phys r)"
| "reading MoveLimit r = mv_LimitCounter (rs_move r)"
| "reading PhysLimit r = ph_LimitCounter (rs_phys r)"
| "reading MagicLimit r = mg_LimitCounter (rs_magic r)"
| "reading ExemptBad r = mg_ExemptBadCounter (rs_magic r)"
| "reading ExemptAll r = mg_ExemptAllCounter (rs_magic r)"
| "reading PhysExempt r = ph_ExemptCounter (rs_phys r)"

primrec base :: "account \<Rightarrow> role_state \<Rightarrow> int" where
  "base Speed r = mv_SpeedMod_Base (rs_move r)"
| "base Hit r = ph_AttackHit_Base (rs_phys r)"
| "base Crit r = ph_AttackCrit_Base (rs_phys r)"
| "base Armor r = ph_DefenseArmor_Base (rs_phys r)"
| "base Hurt r = 0"
| "base MoveLimit r = 0"
| "base PhysLimit r = 0"
| "base MagicLimit r = 0"
| "base ExemptBad r = 0"
| "base ExemptAll r = 0"
| "base PhysExempt r = 0"

definition by_skill :: "int \<Rightarrow> buff \<Rightarrow> bool" where
  "by_skill k b \<longleftrightarrow> bf_Type b = BUFFER_TYPE_BYSKILL \<and> bf_ParentSkill b = k"

definition casting :: "int \<Rightarrow> buff \<Rightarrow> bool" where
  "casting k b \<longleftrightarrow> bf_Type b = BUFFER_TYPE_CASTSKILL \<and> bf_ParentSkill b = k"

primrec share :: "account \<Rightarrow> buff \<Rightarrow> int" where
  "share Speed b = (if by_skill 223 b \<or> by_skill 203 b \<or> bf_Type b = BUFFER_TYPE_MOVESPEED then bf_Parametar1 b else 0)"
| "share Hit b = (if by_skill 223 b \<or> by_skill 230 b then bf_Parametar2 b else 0)"
| "share Hurt b = (if by_skill 225 b then curse b else 0)"
| "share Crit b = (if by_skill 230 b then bf_Parametar1 b else 0)"
| "share Armor b = (if bf_Type b = BUFFER_TYPE_ARMOR then bf_Parametar1 b else 0)"
| "share MoveLimit b = of_bool (by_skill 236 b \<or> casting 224 b \<or> casting 222 b \<or>
     bf_Type b = BUFFER_TYPE_XUANYUN \<or> bf_Type b = BUFFER_TYPE_NOMOVE)"
| "share PhysLimit b = of_bool (by_skill 203 b \<or> by_skill 236 b \<or> casting 204 b \<or> casting 224 b \<or> casting 222 b \<or>
     bf_Type b = BUFFER_TYPE_XUANYUN)"
| "share MagicLimit b = of_bool (by_skill 203 b \<or> by_skill 236 b \<or> casting 204 b \<or> casting 224 b \<or> casting 222 b \<or>
     bf_Type b = BUFFER_TYPE_XUANYUN \<or> bf_Type b = BUFFER_TYPE_NOSKILL)"
| "share ExemptBad b = of_bool (casting 204 b)"
| "share ExemptAll b = of_bool (by_skill 236 b \<or> casting 224 b \<or> casting 222 b)"
| "share PhysExempt b = of_bool (by_skill 236 b \<or> casting 224 b \<or> casting 222 b)"

definition shares :: "account \<Rightarrow> buff list \<Rightarrow> int" where
  "shares a bs = (\<Sum>b\<leftarrow>bs. share a b)"

definition balanced :: "role_state \<Rightarrow> bool" where
  "balanced r \<longleftrightarrow> (\<forall>a. reading a r = short (base a r + shares a (rs_buffs r)))"

text \<open>A contribution depends on the kind of the buff and on one parameter.\<close>

lemma share_kind:
  assumes "bf_Type c = bf_Type b" "bf_ParentSkill c = bf_ParentSkill b"
    "bf_Parametar1 c = bf_Parametar1 b \<or> by_skill 233 b"
    "bf_Parametar2 c = bf_Parametar2 b \<or> bf_ParentSkill b \<notin> {223, 230}"
  shows "share a c = share a b"
proof -
  have kinds: "by_skill k c = by_skill k b" "casting k c = casting k b" for k
    using assms by (simp_all only: by_skill_def casting_def)
  have one: "bf_Parametar1 c = bf_Parametar1 b" if "\<not> by_skill 233 b" using assms that by blast
  have two: "bf_Parametar2 c = bf_Parametar2 b" if "by_skill 223 b \<or> by_skill 230 b"
    using assms that by (auto simp: by_skill_def)
  have not233: "\<not> by_skill 233 b" if "by_skill 223 b \<or> by_skill 203 b \<or> by_skill 225 b \<or> by_skill 230 b \<or>
      bf_Type b = BUFFER_TYPE_MOVESPEED \<or> bf_Type b = BUFFER_TYPE_ARMOR"
    using that by (auto simp: by_skill_def)
  show ?thesis
  proof (cases a)
    case Speed
    then show ?thesis using one not233 by (auto simp only: share.simps kinds assms(1) split: if_split)
  next
    case Hit
    then show ?thesis using two by (auto simp only: share.simps kinds split: if_split)
  next
    case Hurt
    have "by_skill 225 b \<Longrightarrow> bf_Parametar1 c = bf_Parametar1 b" using one not233 by blast
    with Hurt show ?thesis by (simp only: share.simps kinds curse_def split: if_split) simp
  next
    case Crit
    then show ?thesis using one not233 by (auto simp only: share.simps kinds split: if_split)
  next
    case Armor
    then show ?thesis using one not233 by (auto simp only: share.simps kinds assms(1) split: if_split)
  qed (simp_all only: share.simps kinds assms(1))
qed

lemma all_accounts:
  "(\<forall>a. P a) \<longleftrightarrow> P Speed \<and> P Hit \<and> P Hurt \<and> P Crit \<and> P Armor \<and> P MoveLimit \<and> P PhysLimit \<and> P MagicLimit \<and>
     P ExemptBad \<and> P ExemptAll \<and> P PhysExempt"
  (is "_ = ?all")
proof
  show "\<forall>a. P a" if ?all
  proof
    show "P a" for a using that by (cases a) simp_all
  qed
qed simp

lemma shares_simps [simp]: "shares a [] = 0" "shares a (b # bs) = share a b + shares a bs"
    "shares a (bs @ cs) = shares a bs + shares a cs"
  by (simp_all add: shares_def)

lemma shares_insert [simp]: "shares a (insert_buff b bs) = share a b + shares a bs"
proof -
  let ?t = "takeWhile (\<lambda>c. bf_Type c \<le> bf_Type b) bs" and ?d = "dropWhile (\<lambda>c. bf_Type c \<le> bf_Type b) bs"
  have "shares a ?t + shares a ?d = shares a bs" by (metis shares_simps(3) takeWhile_dropWhile_id)
  then show ?thesis by (simp add: insert_buff_def)
qed

lemma shares_remove1: "b \<in> set bs \<Longrightarrow> shares a (remove1 b bs) = shares a bs - share a b"
  by (induction bs) auto

lemma shares_split: "k < length bs \<Longrightarrow> shares a bs = shares a (take k bs) + share a (bs ! k) + shares a (drop (Suc k) bs)"
  by (metis (no_types, lifting) add.assoc id_take_nth_drop shares_simps(2,3))

lemma shares_update: "k < length bs \<Longrightarrow> shares a (bs[k := b]) = shares a bs - share a (bs ! k) + share a b"
  by (simp add: upd_conv_take_nth_drop shares_split)

lemma shares_delete: "k < length bs \<Longrightarrow> shares a (take k bs @ drop (Suc k) bs) = shares a bs - share a (bs ! k)"
  by (simp add: shares_split)

section \<open>The buff update on the accounts\<close>

lemmas effects = buff_effect_def skill_effect_def cast_effect_def

text \<open>What no buff changes.\<close>

definition ident :: "role_state \<Rightarrow> int \<times> int \<times> int \<times> int \<times> int \<times> nat \<times> buff list \<times> int list" where
  "ident r = (rs_RoleFlag r, rs_Live r, rs_RoleID r, rs_ControlID r, rs_Opposition r, rs_cleared r, rs_buffs r,
     [base Speed r, base Hit r, base Crit r, base Armor r])"

lemma ident_base: "ident r = ident r' \<Longrightarrow> base a r = base a r'"
  by (cases a) (simp_all add: ident_def)

lemma ident_effect: "ident (buff_effect u b old r) = ident r"
proof -
  have push: "ident (if c then x else y) = (if c then ident x else ident y)" for c x y by simp
  show ?thesis unfolding effects push by (simp add: ident_def role_upds)
qed

lemma effect_frame [simp]:
  "rs_RoleFlag (buff_effect u b old r) = rs_RoleFlag r" "rs_Live (buff_effect u b old r) = rs_Live r"
  "rs_buffs (buff_effect u b old r) = rs_buffs r" "rs_RoleID (buff_effect u b old r) = rs_RoleID r"
  "rs_ControlID (buff_effect u b old r) = rs_ControlID r" "rs_Opposition (buff_effect u b old r) = rs_Opposition r"
  "rs_cleared (buff_effect u b old r) = rs_cleared r" "base a (buff_effect u b old r) = base a r"
  using ident_effect[of u b old r] ident_base[OF ident_effect[of u b old r], of a] unfolding ident_def by (simp_all only: prod.inject)

lemma buff_kinds:
  obtains (skill) "bf_Type b = 3000" "bf_ParentSkill b \<in> {223, 225, 203, 230, 236, 210, 209}"
  | (skill') "bf_Type b = 3000" "bf_ParentSkill b \<notin> {223, 225, 203, 230, 236, 210, 209}"
  | (cast) "bf_Type b = 3009" "bf_ParentSkill b \<in> {204, 224, 222, 219}"
  | (cast') "bf_Type b = 3009" "bf_ParentSkill b \<notin> {204, 224, 222, 219}"
  | (attr) "bf_Type b \<in> {3002, 3003, 3004, 3008, 3010, 3011, 3012, 3013}"
  | (none) "bf_Type b \<notin> {3000, 3009, 3002, 3003, 3004, 3008, 3010, 3011, 3012, 3013}"
  by blast

lemmas kind_defs = effects role_upds trade_def count_def by_skill_def casting_def renewed_def

lemma effect_new:
  assumes "reading a r = short (reading a r)"
  shows "reading a (buff_effect u b None r) = short (reading a r + share a b * u)"
  using assms by (cases b rule: buff_kinds; cases a; (elim insertE emptyE)?; simp add: kind_defs)

lemma effect_renew:
  assumes "reading a r = short (reading a r)" "same_buff b c" "\<not> by_skill 236 b"
  shows "reading a (buff_effect 1 b (Some c) r) = short (reading a r - share a c + share a b)"
  using assms unfolding same_buff_def by (cases b rule: buff_kinds; cases a; (elim insertE emptyE)?; simp add: kind_defs short_add)

lemma share_renewed: "same_buff b c \<Longrightarrow> share a (renewed b c) = share a b"
  unfolding same_buff_def by (cases b rule: buff_kinds; cases a; (elim insertE emptyE)?; simp add: kind_defs curse_def)

end
