(* ===== verification/Pk_Rules.thy ===== *)
theory Pk_Rules
  imports Pk_Accounts
begin

text \<open>
  The calculus for invariants of a fight.  \<open>fight_base\<close> states what an invariant has to survive:
  messages, updates of a role that leave its accounts alone, death, entering roles, the end of the fight;
  \<open>fight_invariant\<close> adds the gain and the loss of a buff.  Inside the locales every operation of
  the fight is shown to keep the invariant, up to one event of the loop and the whole run; a concrete
  invariant only has to prove the laws.
\<close>

section \<open>Updates that leave the accounts alone\<close>

text \<open>The spear keeps its gathered damage in a parameter that other kinds of buff use for an
  account; a shield that bursts is erased without the update that gives back what a buff took.\<close>

definition sound_buff :: "buff \<Rightarrow> bool" where
  "sound_buff b \<longleftrightarrow> (bf_ParentSkill b = 209 \<or> bf_ParentSkill b = 233 \<longrightarrow> bf_Type b = BUFFER_TYPE_BYSKILL)"

definition touched_buff :: "buff \<Rightarrow> buff \<Rightarrow> bool" where
  "touched_buff b c \<longleftrightarrow> bf_Type c = bf_Type b \<and> bf_ParentSkill c = bf_ParentSkill b \<and>
     (sound_buff b \<longrightarrow> (\<forall>a. share a c = share a b))"

definition identity :: "role_state \<Rightarrow> int \<times> int \<times> int \<times> int \<times> int list" where
  "identity r = (rs_RoleFlag r, rs_RoleID r, rs_ControlID r, rs_Opposition r,
     [base Speed r, base Hit r, base Crit r, base Armor r])"

definition touched :: "role_state \<Rightarrow> role_state \<Rightarrow> bool" where
  "touched r r' \<longleftrightarrow> identity r' = identity r \<and> rs_Live r' = rs_Live r \<and> (\<forall>a. reading a r' = reading a r) \<and>
     list_all2 touched_buff (rs_buffs r) (rs_buffs r')"

lemma touched_buff_refl [simp]: "touched_buff b b"
  by (simp add: touched_buff_def)

lemma touched_same:
  "identity r' = identity r \<Longrightarrow> rs_Live r' = rs_Live r \<Longrightarrow> (\<forall>a. reading a r' = reading a r) \<Longrightarrow> rs_buffs r' = rs_buffs r \<Longrightarrow>
   touched r r'"
  by (simp add: touched_def list_all2_refl)

lemmas touch_simps = identity_def all_accounts role_upds use_skill_def attack_order_def

lemma identity_base: "identity r' = identity r \<Longrightarrow> base a r' = base a r"
  by (cases a) (simp_all add: identity_def)

lemma touched_hp [simp]: "touched r (r\<lparr>rs_HP := n\<rparr>)" "touched r (r\<lparr>rs_MP := n\<rparr>)" "touched r (r\<lparr>rs_Waiting := n\<rparr>)"
  "touched r (r\<lparr>rs_PK_State := n\<rparr>)" "touched r (r\<lparr>rs_CurrentOrder := ord\<rparr>)" "touched r (r\<lparr>rs_HatreMap := hm\<rparr>)"
  "touched r (upd_order f r)" "touched r (use_skill k now r)" "touched r (attack_order now j r)" "touched r r"
  by (rule touched_same; simp add: touch_simps)+

lemma touched_pos [simp]: "touched r (upd_move (\<lambda>m. m\<lparr>mv_CurrentPos := p\<rparr>) r)"
  "touched r (upd_move (\<lambda>m. m\<lparr>mv_CurrentPos := p, mv_CurrentPosMini := q\<rparr>) r)"
  "touched r (upd_move (\<lambda>m. m\<lparr>mv_CurrentPosMini := q\<rparr>) r)" "touched r (upd_move (\<lambda>m. m\<lparr>mv_Direct := d\<rparr>) r)"
  "touched r (upd_move (\<lambda>m. m\<lparr>mv_MoveLine := ps\<rparr>) r)" "touched r (upd_move (\<lambda>m. m\<lparr>mv_MoveLine := ps, mv_Direct := d\<rparr>) r)"
  "touched r (upd_move (\<lambda>m. m\<lparr>mv_MoveLine := ps, mv_CurrentPos := p\<rparr>) r)"
  "touched r (upd_phys (\<lambda>p. p\<lparr>ph_PreTimeStatus := n\<rparr>) r)" "touched r (upd_phys (\<lambda>p. p\<lparr>ph_PreAttackTime := n\<rparr>) r)"
  by (rule touched_same; simp add: touch_simps)+

lemma touched_trans:
  assumes "touched r s" "touched s t" shows "touched r t"
proof -
  have "list_all2 touched_buff (rs_buffs r) (rs_buffs t)"
    by (rule list_all2_trans[of touched_buff touched_buff touched_buff, OF _ conjunct2[OF conjunct2[OF conjunct2[OF assms(1)[unfolded touched_def]]]]
          conjunct2[OF conjunct2[OF conjunct2[OF assms(2)[unfolded touched_def]]]]])
      (auto simp: touched_buff_def sound_buff_def)
  then show ?thesis using assms by (simp add: touched_def)
qed

lemma touched_buffs: "list_all2 touched_buff (rs_buffs r) bs \<Longrightarrow> touched r (r\<lparr>rs_buffs := bs\<rparr>)"
  by (simp add: touched_def touch_simps)

lemma touched_set: "touched_buff (rs_buffs r ! k) b \<Longrightarrow> touched r (r\<lparr>rs_buffs := (rs_buffs r)[k := b]\<rparr>)"
  by (rule touched_buffs) (simp add: list_all2_conv_all_nth, metis nth_list_update_eq nth_list_update_neq touched_buff_refl)

lemma touched_kind:
  "bf_Type c = bf_Type b \<Longrightarrow> bf_ParentSkill c = bf_ParentSkill b \<Longrightarrow>
   bf_Parametar1 c = bf_Parametar1 b \<or> bf_ParentSkill b = 233 \<Longrightarrow>
   bf_Parametar2 c = bf_Parametar2 b \<or> bf_ParentSkill b \<notin> {223, 230} \<Longrightarrow> touched_buff b c"
  unfolding touched_buff_def sound_buff_def by (auto intro!: share_kind simp: by_skill_def)

lemma touched_note [simp]: "touched_buff b (curse_notes h b)"
  by (rule touched_kind) (simp_all add: curse_notes_def)

lemma touched_spear: "list_all2 touched_buff bs (snd (spear h bs))"
proof (induction h bs rule: spear.induct)
  case (2 h b bs)
  have "touched_buff b (b\<lparr>bf_Parametar1 := n\<rparr>)" if "bf_ParentSkill b = 233" for n
    using that by (intro touched_kind) simp_all
  with 2 show ?case by (auto simp: list_all2_refl split: prod.split)
qed simp

text \<open>The parameters a buff may change while it runs.\<close>

lemma touched_counter [simp]: "touched_buff b (b\<lparr>bf_RunCounter := n\<rparr>)" "touched_buff b (b\<lparr>bf_EndTime := n\<rparr>)"
  by (rule touched_kind; simp)+

lemma touched_par2: "bf_ParentSkill b \<in> {209, 210} \<Longrightarrow> touched_buff b (b\<lparr>bf_Parametar2 := n\<rparr>)"
  by (rule touched_kind) auto

lemma touched_buff_trans: "touched_buff a b \<Longrightarrow> touched_buff b c \<Longrightarrow> touched_buff a c"
  by (auto simp: touched_buff_def sound_buff_def)

section \<open>The laws\<close>

named_theorems keeps

locale fight_base =
  fixes I :: "pk \<Rightarrow> bool"
  assumes frame: "pk_roles pk' = pk_roles pk \<Longrightarrow> pk_State pk' = pk_State pk \<Longrightarrow> pk_end pk' = pk_end pk \<Longrightarrow>
      pk_ge_up pk' = pk_ge_up pk \<Longrightarrow> I pk \<Longrightarrow> I pk'"
    and touch: "I pk \<Longrightarrow> (\<And>r. smap_find i (pk_roles pk) = Some r \<Longrightarrow> touched r (g r)) \<Longrightarrow> I (pk_upd i g pk)"
    and dead: "I pk \<Longrightarrow> I (onRoleDead i pk)"
    and fall: "I pk \<Longrightarrow> I (pk_upd i (\<lambda>r. r\<lparr>rs_HP := 0, rs_Live := ROLE_STATUS_DEAD\<rparr>) pk)"
    and leave: "I pk \<Longrightarrow> I (pk_upd i RoleState_Dead pk)"
    and offline: "I pk \<Longrightarrow> rs_Live (pk_role i pk) \<noteq> ROLE_STATUS_DEAD \<Longrightarrow> I (pk_upd i (\<lambda>r. r\<lparr>rs_Live := ROLE_STATUS_OFFLINE\<rparr>) pk)"
    and over: "I pk \<Longrightarrow> I (CheckOver opp pk)"
    and enter: "I pk \<Longrightarrow> rs_RoleFlag r = RoleType_Call \<Longrightarrow> sorted (map bf_Type (rs_buffs r)) \<Longrightarrow> I (pk_insert r pk)"
    and begin': "I pk \<Longrightarrow> pk_State pk = PK_STATE_READY \<Longrightarrow> I (pk\<lparr>pk_State := PK_STATE_PKING, pk_now := 0\<rparr>)"
begin

lemma fields [keeps]:
  "I pk \<Longrightarrow> I (pk\<lparr>pk_out := x1\<rparr>)" "I pk \<Longrightarrow> I (pk\<lparr>pk_bullets := x2\<rparr>)" "I pk \<Longrightarrow> I (pk\<lparr>pk_skill_order_list := x3\<rparr>)"
  "I pk \<Longrightarrow> I (pk\<lparr>pk_Orders := x4\<rparr>)" "I pk \<Longrightarrow> I (pk\<lparr>pk_now := x5\<rparr>)" "I pk \<Longrightarrow> I (pk\<lparr>pk_nrand := x6\<rparr>)"
  by (erule frame[rotated 4]; simp)+

lemma broadcast [keeps]: "I pk \<Longrightarrow> I (pk_broadcast ty body pk)"
  by (simp add: pk_broadcast_def fields)

lemma broadcasts [keeps]:
  "I pk \<Longrightarrow> I (BroadcastBegin pk)" "I pk \<Longrightarrow> I (BrodacastAttack a b pk)" "I pk \<Longrightarrow> I (BrodacastMultiHurt m e pk)"
  "I pk \<Longrightarrow> I (BrodacastHpChange a n s e pk)" "I pk \<Longrightarrow> I (BrodacastMpChange a n e pk)" "I pk \<Longrightarrow> I (BrodacastDead a pk)"
  "I pk \<Longrightarrow> I (BrodacastStop a p q pk)" "I pk \<Longrightarrow> I (Brodacast_Skill a ord pk)" "I pk \<Longrightarrow> I (Brodacast_Skill_Buffer a ty s k n1 n2 pk)"
  "I pk \<Longrightarrow> I (Brodacast_Skill_Newrole msg pk)" "I pk \<Longrightarrow> I (Brodacast_Buffer_Run a ty n pk)"
  "I pk \<Longrightarrow> I (Brodacast_Buffer_Stop a ty s n pk)" "I pk \<Longrightarrow> I (Brodacast_Role_LocationOffset a n1 n2 s pk)"
  by (simp_all add: BroadcastBegin_def BrodacastAttack_def BrodacastMultiHurt_def BrodacastHpChange_def BrodacastMpChange_def
      BrodacastDead_def BrodacastStop_def Brodacast_Skill_def Brodacast_Skill_Buffer_def Brodacast_Skill_Newrole_def
      Brodacast_Buffer_Run_def Brodacast_Buffer_Stop_def Brodacast_Role_LocationOffset_def broadcast)

lemma touch' [keeps]: "I pk \<Longrightarrow> (\<And>r. touched r (g r)) \<Longrightarrow> I (pk_upd i g pk)"
  by (rule touch)

lemma send [keeps]: "I pk \<Longrightarrow> I (send_buff i b u pk)"
  unfolding send_buff_def by (simp add: broadcasts)

lemma stop [keeps]: "I pk \<Longrightarrow> I (stop_buff i b pk)"
  unfolding stop_buff_def by (rule broadcasts)

lemma hurt [keeps]: "I pk \<Longrightarrow> I (CalculateSkillHurt i lv h e pk)"
  unfolding CalculateSkillHurt_def Let_def by (auto intro!: dead broadcasts touch')

lemma multi: "I pk \<Longrightarrow> I (snd (snd (multi_hurt lv ts opp pk)))"
proof (induction lv ts opp pk rule: multi_hurt.induct)
  case (2 lv i h ts opp pk)
  show ?case
  proof (cases "smap_find i (pk_roles pk)")
    case None
    then show ?thesis using 2 by (simp add: case_prod_beta Let_def)
  next
    case (Some r)
    have "I (BrodacastDead (rs_RoleID r) (pk_upd i (\<lambda>r. r\<lparr>rs_HP := 0, rs_Live := ROLE_STATUS_DEAD\<rparr>) pk))"
      using 2 by (intro broadcasts fall)
    moreover have "I (pk_upd i (\<lambda>r. r\<lparr>rs_HP := n\<rparr>) pk)" for n using 2 by (intro touch') simp_all
    ultimately show ?thesis using Some 2(2)[OF Some refl refl]
      by (cases "short (rs_HP r - skill_hurt lv h r) \<le> 0") (simp_all add: case_prod_beta Let_def)
  qed
qed simp

lemma multi_skill [keeps]: "I pk \<Longrightarrow> I (CalculateMultiSkillHurt m lv e pk)"
  using multi[of pk lv m "- 1"] unfolding CalculateMultiSkillHurt_def
  by (auto simp: Let_def over broadcasts split: prod.split)

lemma loop: "I pk \<Longrightarrow> (\<And>j pk. I pk \<Longrightarrow> I (f j pk)) \<Longrightarrow> I (fold f js pk)"
  by (induction js arbitrary: pk) simp_all

lemma loop_roles [keeps]: "I pk \<Longrightarrow> (\<And>j pk. I pk \<Longrightarrow> I (act j pk)) \<Longrightarrow> I (each_role sel act i pk)"
  unfolding each_role_def by (rule loop) simp_all

lemma shield [keeps]: "I pk \<Longrightarrow> I (skill_process_209_buffer i b pk)"
  unfolding skill_process_209_buffer_def by (rule loop) (auto simp: Let_def hurt)

end

end
