(* ===== verification/Pk_Own.thy ===== *)
theory Pk_Own
  imports Pk_Rules
begin

text \<open>
  What leaves the buffs of a role alone: damage to the others, healing, and the end of one of its own
  buffs unless it dies of it.  This is what keeps the iterators into the multimap of buffs valid in
  \<^verbatim>\<open>CalculateBuff\<close>, \<^verbatim>\<open>breakLastSkill\<close>,
  \<^verbatim>\<open>CalculateAttackHurt\<close> and \<^verbatim>\<open>skill_process_215\<close>.
\<close>

section \<open>Buffs and clearings of one role\<close>

definition own :: "int \<Rightarrow> pk \<Rightarrow> buff list \<times> nat" where
  "own i pk = (rs_buffs (pk_role i pk), rs_cleared (pk_role i pk))"

named_theorems own

lemma own_fields [own, simp]:
  "own i (pk\<lparr>pk_out := x1\<rparr>) = own i pk" "own i (pk\<lparr>pk_nrand := x2\<rparr>) = own i pk" "own i (pk\<lparr>pk_end := x3\<rparr>) = own i pk"
  "own i (pk\<lparr>pk_State := x4\<rparr>) = own i pk"
  by (simp_all add: own_def pk_role_def split: option.split)

lemma own_broadcast [own, simp]: "own i (pk_broadcast ty body pk) = own i pk"
  by (simp add: own_def)

lemma own_broadcasts [own, simp]:
  "own i (BrodacastMultiHurt m e pk) = own i pk" "own i (BrodacastHpChange a n s e pk) = own i pk"
  "own i (BrodacastDead a pk) = own i pk" "own i (Brodacast_Skill a ord pk) = own i pk"
  "own i (Brodacast_Skill_Buffer a ty s k n1 n2 pk) = own i pk" "own i (Brodacast_Buffer_Run a ty n pk) = own i pk"
  "own i (Brodacast_Buffer_Stop a ty s n pk) = own i pk" "own i (Brodacast_Role_LocationOffset a n1 n2 s pk) = own i pk"
  by (simp_all add: BrodacastMultiHurt_def BrodacastHpChange_def BrodacastDead_def Brodacast_Skill_def
      Brodacast_Skill_Buffer_def Brodacast_Buffer_Run_def Brodacast_Buffer_Stop_def Brodacast_Role_LocationOffset_def)

lemma own_send [own, simp]: "own i (send_buff j b u pk) = own i pk"
  by (simp add: send_buff_def)

lemma own_other [own]: "i \<noteq> j \<Longrightarrow> own i (pk_upd j g pk) = own i pk"
  by (simp add: own_def pk_role_upd)

lemma own_same [own]:
  "(\<And>r. rs_buffs (g r) = rs_buffs r) \<Longrightarrow> (\<And>r. rs_cleared (g r) = rs_cleared r) \<Longrightarrow> own i (pk_upd j g pk) = own i pk"
  by (simp add: own_def pk_role_upd)

lemma own_EndGame [own, simp]: "own i (EndGame opp pk) = own i pk"
  by (simp add: EndGame_def Let_def)

lemma own_CheckOver [own, simp]: "own i (CheckOver opp pk) = own i pk"
  by (simp add: CheckOver_def Let_def)

lemma own_add [own]: "i \<noteq> j \<Longrightarrow> own i (UpdataBuffer_0 j b u pk) = own i pk"
  by (auto simp: UpdataBuffer_0_def UpdataBuffer_with_def add_buff_def buff_ends_def Let_def own_other split: option.split)

lemma own_dead [own]: "i \<noteq> j \<Longrightarrow> own i (onRoleDead j pk) = own i pk"
  unfolding onRoleDead_def by (auto simp: Let_def own_other own_add split: option.split)

lemma own_hurt [own]: "i \<noteq> j \<Longrightarrow> own i (CalculateSkillHurt j lv h e pk) = own i pk"
  by (simp add: CalculateSkillHurt_def Let_def own_dead own_other)

lemma own_multi: "own i (snd (snd (multi_hurt lv ts opp pk))) = own i pk"
proof (induction lv ts opp pk rule: multi_hurt.induct)
  case (2 lv k h ts opp pk)
  show ?case
  proof (cases "smap_find k (pk_roles pk)")
    case None
    then show ?thesis using 2 by (simp add: case_prod_beta Let_def)
  next
    case (Some r)
    show ?thesis using Some 2(2)[OF Some refl refl]
      by (cases "short (rs_HP r - skill_hurt lv h r) \<le> 0") (simp_all add: case_prod_beta Let_def own_same)
  qed
qed simp

lemma own_multi_skill [own, simp]: "own i (CalculateMultiSkillHurt m lv e pk) = own i pk"
  using own_multi[of i lv m "- 1" pk] by (simp add: CalculateMultiSkillHurt_def case_prod_beta Let_def)

lemma own_loop: "(\<And>j pk. own i (f j pk) = own i pk) \<Longrightarrow> own i (fold f js pk) = own i pk"
  by (induction js arbitrary: pk) simp_all

lemma own_roles [own]:
  assumes "\<And>j pk. sel (pk_role i' pk) (pk_role j pk) \<Longrightarrow> own i (act j pk) = own i pk"
  shows "own i (each_role sel act i' pk) = own i pk"
  unfolding each_role_def by (rule own_loop) (use assms in simp)

lemma foe_other: "foe (pk_role i pk) (pk_role j pk) \<Longrightarrow> i \<noteq> j"
  by (auto simp: foe_def)

lemma own_209 [own, simp]: "own i (skill_process_209_buffer i b pk) = own i pk"
  unfolding skill_process_209_buffer_def by (rule own_loop) (auto simp: Let_def intro!: own_hurt)

lemma own_foes: "own i (each_role (\<lambda>r t. foe r t \<and> P r t) (\<lambda>j pk. CalculateSkillHurt j (lv pk) h e pk) i pk) = own i pk"
  by (rule own_roles) (auto intro: own_hurt dest: foe_other)

lemma own_210 [own, simp]: "own i (snd (skill_process_210_buffer i b pk)) = own i pk"
  by (auto simp: skill_process_210_buffer_def next_rand_def case_prod_beta Let_def own_foes)

section \<open>The end of an own buff\<close>

text \<open>Dying clears the buffs, which the counter shows.\<close>

lemma cleared_upd: "(\<And>r. rs_cleared (g r) = rs_cleared r) \<Longrightarrow> snd (own i (pk_upd j g pk)) = snd (own i pk)"
  by (simp add: own_def pk_role_upd)

lemma cleared_ends: "snd (own i (buff_ends (\<lambda>i pk. pk) (\<lambda>i b pk. pk) j b q)) = snd (own i q)"
  unfolding buff_ends_def Let_def by (simp add: cleared_upd)

lemma cleared_add: "snd (own i (UpdataBuffer_0 j b u pk)) = snd (own i pk)"
  unfolding UpdataBuffer_0_def UpdataBuffer_with_def add_buff_def Let_def
  by (auto simp: cleared_ends cleared_upd split: option.split)

lemma dead_clears: "has_role pk i \<Longrightarrow> snd (own i (onRoleDead i pk)) = Suc (snd (own i pk))"
proof -
  assume "has_role pk i"
  then have find: "smap_find i (pk_roles (BrodacastDead n pk)) \<noteq> None" for n by (auto simp: has_role_def BrodacastDead_def)
  show ?thesis
  proof (cases "revives (pk_now pk) (pk_role i pk)")
    case None
    then show ?thesis unfolding onRoleDead_def using find
      by (simp add: Let_def) (simp add: own_def pk_role_upd RoleState_Dead_def clear_buffs_def role_upds BrodacastDead_def)
  next
    case (Some sk)
    let ?pk = "pk_upd i (\<lambda>r. RoleState_Init (clear_buffs r)) (BrodacastDead (rs_RoleID (pk_role i pk)) pk)"
    have "snd (own i ?pk) = Suc (snd (own i pk))"
      using find by (simp add: own_def pk_role_upd RoleState_Init_def clear_buffs_def role_upds BrodacastDead_def)
    then have "snd (own i (UpdataBuffer_0 i b u ?pk)) = Suc (snd (own i pk))" for b u by (simp add: cleared_add)
    moreover have "own i (pk_upd i (\<lambda>r. upd_order f (use_skill k n r)) q) = own i q" for f k n q
      by (rule own_same) (simp_all add: role_upds use_skill_def)
    ultimately show ?thesis unfolding onRoleDead_def using Some by (simp add: Let_def)
  qed
qed

lemma del_keeps:
  assumes "snd (own i (UpdataBuffer i b UPDATABUFFER_DEL pk)) = snd (own i pk)" "has_role pk i"
  shows "own i (UpdataBuffer i b UPDATABUFFER_DEL pk) = own i pk"
proof -
  have dead: "own i (onRoleDead i q) = own i q" if "snd (own i (onRoleDead i q)) = snd (own i pk)" "own i q = own i pk" "has_role q i" for q
    using dead_clears[OF that(3)] that by simp
  have roles: "has_role (pk_upd i g q) i = has_role q i" "has_role (send_buff i b u q) i = has_role q i"
      "has_role (BrodacastHpChange a n s e q) i = has_role q i" for g q u a n s e
    by (auto simp: has_role_def find_pk_upd send_buff_def Brodacast_Skill_Buffer_def Brodacast_Buffer_Stop_def BrodacastHpChange_def)
  let ?q = "pk_upd i (buff_effect UPDATABUFFER_DEL b None) (send_buff i b UPDATABUFFER_DEL pk)"
  have own: "own i ?q = own i pk" by (simp add: own_same)
  have "own i (buff_ends onRoleDead skill_process_209_buffer i b ?q) = own i pk"
    if "snd (own i (buff_ends onRoleDead skill_process_209_buffer i b ?q)) = snd (own i pk)"
    using that own assms(2) dead unfolding buff_ends_def Let_def by (auto simp: own_same roles split: if_splits)
  then show ?thesis using assms by (simp add: UpdataBuffer_def UpdataBuffer_with_def)
qed

section \<open>A buff that runs\<close>

lemma own_204 [own, simp]: "own i (skill_process_204_buffer i h pk) = own i pk"
  unfolding skill_process_204_buffer_def by (rule own_roles) (auto intro: own_hurt dest: foe_other)

lemma own_218 [own, simp]: "own i (skill_process_218_Buffer i b pk) = own i pk"
  unfolding skill_process_218_Buffer_def by (rule own_roles) (auto simp: Let_def own_same)

lemma own_219 [own, simp]: "own i (skill_process_219_Effect i b pk) = own i pk"
  by (simp add: skill_process_219_Effect_def Let_def)

lemma pick_target_frame: "pick_target n i pk = (t, pk') \<Longrightarrow> own k pk' = own k pk"
  by (induction n arbitrary: pk) (auto simp: next_rand_def case_prod_beta Let_def split: if_splits)

lemma pick_target_other: "pick_target n i pk = (Some j, pk') \<Longrightarrow> i \<noteq> j"
  by (induction n arbitrary: pk) (auto simp: next_rand_def case_prod_beta Let_def dest: foe_other split: if_splits)

lemma place_near_result:
  assumes "place_near p pk = Some y"
  shows "on_map (fst y) \<and> pk_roles (snd y) = pk_roles pk \<and> pk_State (snd y) = pk_State pk \<and>
     pk_end (snd y) = pk_end pk \<and> pk_stack (snd y) = pk_stack pk \<and> pk_ge_up (snd y) = pk_ge_up pk \<and> pk_now (snd y) = pk_now pk"
  using assms
proof (rule place_near.raw_induct[rotated], goal_cases)
  case (1 self p pk y)
  show ?case
    using 1(2) 1(1)[of p "snd (next_rand pk)" y]
    by (auto simp: next_rand_def case_prod_beta Let_def split: if_splits)
qed

lemmas place_near_ends = place_near_result[of _ _ "(q, pk')" for q pk', simplified]

lemma own_224: "skill_process_224_Effect i b pk = Some pk' \<Longrightarrow> own i pk' = own i pk"
proof -
  assume some: "skill_process_224_Effect i b pk = Some pk'"
  obtain t pk1 where pick: "pick_target (nat (short (3 * short (int (length (pk_roles pk)))))) i pk = (t, pk1)" by fastforce
  have pk1: "own i pk1 = own i pk" by (rule pick_target_frame[OF pick])
  show ?thesis
  proof (cases t)
    case None
    then show ?thesis using some pick pk1 by (simp add: skill_process_224_Effect_def)
  next
    case (Some j)
    then obtain q pk2 where near: "place_near (pos_of (pk_role j pk1)) pk1 = Some (q, pk2)"
      using some pick by (auto simp: skill_process_224_Effect_def split: Option.bind_splits)
    have "own i pk2 = own i pk1" using place_near_ends[OF near] by (simp add: own_def pk_role_def split: option.split)
    then show ?thesis using some pick pk1 near Some pick_target_other[of _ i pk j pk1]
      by (auto simp: skill_process_224_Effect_def Let_def own_same own_hurt role_upds)
  qed
qed

lemma own_RunBuffer: "RunBuffer i b pk = Some (b', pk') \<Longrightarrow> own i pk' = own i pk"
  by (auto simp: RunBuffer_def heal_hp_def Let_def own_same dest: own_224 split: if_splits)

section \<open>Roles stay in the fight\<close>

named_theorems stays

lemma has_role_upd [stays, simp]: "has_role (pk_upd j g pk) i = has_role pk i"
  by (auto simp: has_role_def find_pk_upd)

lemma has_role_roles: "pk_roles pk' = pk_roles pk \<Longrightarrow> has_role pk' i = has_role pk i"
  by (simp add: has_role_def)

lemma has_role_fields [stays, simp]:
  "has_role (pk\<lparr>pk_out := x1\<rparr>) i = has_role pk i" "has_role (pk\<lparr>pk_nrand := x2\<rparr>) i = has_role pk i"
  "has_role (pk\<lparr>pk_end := x3\<rparr>) i = has_role pk i" "has_role (pk\<lparr>pk_State := x4\<rparr>) i = has_role pk i"
  "has_role (pk_broadcast ty body pk) i = has_role pk i"
  by (simp_all add: has_role_def)

lemma has_role_broadcasts [stays, simp]:
  "has_role (BrodacastMultiHurt m e pk) i = has_role pk i" "has_role (BrodacastHpChange a n s e pk) i = has_role pk i"
  "has_role (BrodacastDead a pk) i = has_role pk i" "has_role (Brodacast_Skill a ord pk) i = has_role pk i"
  "has_role (Brodacast_Skill_Buffer a ty s k n1 n2 pk) i = has_role pk i"
  "has_role (Brodacast_Buffer_Run a ty n pk) i = has_role pk i"
  "has_role (Brodacast_Buffer_Stop a ty s n pk) i = has_role pk i"
  "has_role (Brodacast_Role_LocationOffset a n1 n2 s pk) i = has_role pk i" "has_role (send_buff j b u pk) i = has_role pk i"
  "has_role (stop_buff j b pk) i = has_role pk i" "has_role (erase_buff j b pk) i = has_role pk i"
  "has_role (EndGame opp pk) i = has_role pk i" "has_role (CheckOver opp pk) i = has_role pk i"
  by (simp_all add: BrodacastMultiHurt_def BrodacastHpChange_def BrodacastDead_def Brodacast_Skill_def send_buff_def
      Brodacast_Skill_Buffer_def Brodacast_Buffer_Run_def Brodacast_Buffer_Stop_def Brodacast_Role_LocationOffset_def
      stop_buff_def erase_buff_def EndGame_def CheckOver_def Let_def)

lemma has_role_add [stays, simp]: "has_role (UpdataBuffer_0 j b u pk) i = has_role pk i"
  by (simp add: UpdataBuffer_0_def UpdataBuffer_with_def add_buff_def buff_ends_def Let_def split: option.split)

lemma has_role_dead [stays, simp]: "has_role (onRoleDead j pk) i = has_role pk i"
  by (simp add: onRoleDead_def Let_def split: option.split)

lemma has_role_hurt [stays, simp]: "has_role (CalculateSkillHurt j lv h e pk) i = has_role pk i"
  by (simp add: CalculateSkillHurt_def Let_def)

lemma has_role_multi: "has_role (snd (snd (multi_hurt lv ts opp pk))) i = has_role pk i"
proof (induction lv ts opp pk rule: multi_hurt.induct)
  case (2 lv k h ts opp pk)
  show ?case
  proof (cases "smap_find k (pk_roles pk)")
    case None
    then show ?thesis using 2 by (simp add: case_prod_beta Let_def)
  next
    case (Some r)
    show ?thesis using 2(2)[OF Some refl refl] Some
      by (cases "short (rs_HP r - skill_hurt lv h r) \<le> 0") (simp_all add: case_prod_beta Let_def)
  qed
qed simp

lemma has_role_multi_skill [stays, simp]: "has_role (CalculateMultiSkillHurt m lv e pk) i = has_role pk i"
  using has_role_multi[of lv m "- 1" pk] by (simp add: CalculateMultiSkillHurt_def case_prod_beta Let_def)

lemma has_role_loop: "(\<And>j pk. has_role (f j pk) i = has_role pk i) \<Longrightarrow> has_role (fold f js pk) i = has_role pk i"
  by (induction js arbitrary: pk) simp_all

lemma has_role_209 [stays, simp]: "has_role (skill_process_209_buffer j b pk) i = has_role pk i"
  unfolding skill_process_209_buffer_def by (rule has_role_loop) (simp add: Let_def)

lemma has_role_each [stays, simp]:
  "(\<And>j pk. has_role (act j pk) i = has_role pk i) \<Longrightarrow> has_role (each_role sel act k pk) i = has_role pk i"
  unfolding each_role_def by (rule has_role_loop) simp

lemma has_role_break [stays, simp]: "has_role (breakLastSkill j pk) i = has_role pk i"
  unfolding breakLastSkill_def by (rule has_role_loop) simp

lemma has_role_buff [stays, simp]: "has_role (UpdataBuffer j b u pk) i = has_role pk i"
  by (simp add: UpdataBuffer_def UpdataBuffer_with_def add_buff_def buff_ends_def Let_def split: option.split)

lemma has_role_224: "skill_process_224_Effect k b pk = Some pk' \<Longrightarrow> has_role pk' i = has_role pk i"
proof -
  have pick: "has_role (snd (pick_target n k pk)) i = has_role pk i" for n pk
    by (induction n arbitrary: pk) (auto simp: next_rand_def case_prod_beta Let_def)
  have near: "has_role (snd y) i = has_role pk i" if "place_near p pk = Some y" for p pk y
    using place_near_result[OF that] by (simp add: has_role_def)
  assume "skill_process_224_Effect k b pk = Some pk'"
  then show ?thesis using pick[of "nat (short (3 * short (int (length (pk_roles pk)))))" pk]
    by (auto simp: skill_process_224_Effect_def case_prod_beta Let_def dest: near split: prod.splits option.splits Option.bind_splits)
qed

lemma has_role_RunBuffer: "RunBuffer k b pk = Some (b', pk') \<Longrightarrow> has_role pk' i = has_role pk i"
  by (auto simp: RunBuffer_def heal_hp_def skill_process_204_buffer_def skill_process_219_Effect_def
      skill_process_218_Buffer_def Let_def dest: has_role_224 split: if_splits)

end
