(* ===== verification/Pk_Keeps.thy ===== *)
theory Pk_Keeps
  imports Pk_Own "HOL-Library.Multiset"
begin

text \<open>
  Every operation of a fight keeps an invariant that obeys the laws: \<open>fight_lose\<close> adds the loss of
  a buff to \<open>fight_base\<close>, \<open>fight_invariant\<close> the gain of one.  The lemmas follow the code
  from the damage of an attack up to the run of a fight.
\<close>

section \<open>Losing a buff\<close>

lemma sorted_delete: "sorted (map f bs) \<Longrightarrow> sorted (map f (take k bs @ drop (Suc k) bs))"
proof (cases "k < length bs")
  case True
  assume "sorted (map f bs)"
  then have "sorted (map f (take k bs @ bs ! k # drop (Suc k) bs))" using id_take_nth_drop[OF True] by simp
  then show ?thesis by (simp add: sorted_append)
qed simp

locale fight_lose = fight_base +
  assumes lose: "I pk \<Longrightarrow> has_role pk i \<Longrightarrow> mset (rs_buffs (pk_role i pk)) = add_mset b (mset bs) \<Longrightarrow>
      (sorted (map bf_Type (rs_buffs (pk_role i pk))) \<Longrightarrow> sorted (map bf_Type bs)) \<Longrightarrow>
      own i (UpdataBuffer i b UPDATABUFFER_DEL pk) = own i pk \<Longrightarrow>
      I (pk_upd i (\<lambda>r. r\<lparr>rs_buffs := bs\<rparr>) (UpdataBuffer i b UPDATABUFFER_DEL pk))"
    and lose_dead: "I pk \<Longrightarrow> has_role pk i \<Longrightarrow> b \<in> set (rs_buffs (pk_role i pk)) \<Longrightarrow>
      rs_Live (pk_role i (UpdataBuffer i b UPDATABUFFER_DEL pk)) = ROLE_STATUS_DEAD \<Longrightarrow>
      I (UpdataBuffer i b UPDATABUFFER_DEL pk)"
    and burst: "I pk \<Longrightarrow> has_role pk i \<Longrightarrow> mset (rs_buffs (pk_role i pk)) = add_mset b (mset bs) \<Longrightarrow>
      (sorted (map bf_Type (rs_buffs (pk_role i pk))) \<Longrightarrow> sorted (map bf_Type bs)) \<Longrightarrow>
      bf_ParentSkill b = 209 \<Longrightarrow> I (pk_upd i (\<lambda>r. r\<lparr>rs_buffs := bs\<rparr>) pk)"
begin

lemma upd_frame:
  assumes "pk_roles q = pk_roles p" "pk_State q = pk_State p" "pk_end q = pk_end p" "pk_ge_up q = pk_ge_up p" "I (pk_upd i g p)"
  shows "I (pk_upd i g q)"
  by (rule frame[OF _ _ _ _ assms(5)]) (use assms in \<open>simp_all add: pk_upd_def split: option.split\<close>)

lemma no_role: "\<not> has_role pk i \<Longrightarrow> pk_upd i g pk = pk"
  by (simp add: has_role_def pk_upd_def)

lemma set_as_function:
  "has_role pk i \<Longrightarrow> pk_upd i g pk = pk_upd i (\<lambda>_. g (pk_role i pk)) pk"
  by (auto simp: has_role_def pk_upd_def pk_role_def)

lemma lose_at:
  assumes "I pk" "has_role pk i" "k < length (rs_buffs (pk_role i pk))" "b = rs_buffs (pk_role i pk) ! k"
    and "rs_cleared (pk_role i (UpdataBuffer i b UPDATABUFFER_DEL pk)) = rs_cleared (pk_role i pk)"
  shows "I (del_buff i k (UpdataBuffer i b UPDATABUFFER_DEL pk))"
proof -
  let ?bs = "rs_buffs (pk_role i pk)" and ?pk = "UpdataBuffer i b UPDATABUFFER_DEL pk"
  let ?cs = "take k ?bs @ drop (Suc k) ?bs"
  have own: "own i ?pk = own i pk" by (rule del_keeps) (use assms in \<open>simp_all add: own_def\<close>)
  have "mset ?bs = add_mset b (mset ?cs)"
    using arg_cong[OF id_take_nth_drop[OF assms(3)], of mset] assms(4) by simp
  with assms own have I: "I (pk_upd i (\<lambda>r. r\<lparr>rs_buffs := ?cs\<rparr>) ?pk)"
    by (intro lose) (simp_all add: sorted_delete del: map_append)
  show ?thesis
  proof (cases "has_role ?pk i")
    case True
    then show ?thesis using I own unfolding del_buff_def
      by (subst set_as_function, simp, subst (asm) set_as_function) (simp_all add: own_def)
  next
    case False
    then show ?thesis using I by (simp add: no_role del_buff_def)
  qed
qed

lemma lose_first:
  assumes "I pk" "has_role pk i" "b \<in> set (rs_buffs (pk_role i pk))"
    and "rs_cleared (pk_role i (UpdataBuffer i b UPDATABUFFER_DEL pk)) = rs_cleared (pk_role i pk)"
  shows "I (erase_buff i b (UpdataBuffer i b UPDATABUFFER_DEL pk))"
proof -
  let ?bs = "rs_buffs (pk_role i pk)" and ?pk = "UpdataBuffer i b UPDATABUFFER_DEL pk"
  have own: "own i ?pk = own i pk" by (rule del_keeps) (use assms in \<open>simp_all add: own_def\<close>)
  with assms have I: "I (pk_upd i (\<lambda>r. r\<lparr>rs_buffs := remove1 b ?bs\<rparr>) ?pk)"
    by (intro lose) (simp_all add: sorted_map_remove1)
  show ?thesis
  proof (cases "has_role ?pk i")
    case True
    then show ?thesis using I own unfolding erase_buff_def
      by (subst set_as_function, simp, subst (asm) set_as_function) (simp_all add: own_def)
  next
    case False
    then show ?thesis using I by (simp add: no_role erase_buff_def)
  qed
qed

end

section \<open>Breaking what is cast\<close>

lemma cast_quiet:
  "breaks b \<Longrightarrow> own i (UpdataBuffer j b UPDATABUFFER_DEL pk) = own i pk \<and>
     has_role (UpdataBuffer j b UPDATABUFFER_DEL pk) i = has_role pk i"
  unfolding UpdataBuffer_def UpdataBuffer_with_def
  by (auto simp: breaks_def buff_ends_def own_same has_role_def find_pk_upd send_buff_def Brodacast_Buffer_Stop_def
      Brodacast_Skill_Buffer_def)

lemma stop_frame [simp]:
  "pk_roles (stop_buff i b pk) = pk_roles pk" "pk_State (stop_buff i b pk) = pk_State pk" "pk_end (stop_buff i b pk) = pk_end pk"
  "pk_ge_up (stop_buff i b pk) = pk_ge_up pk"
  by (simp_all add: stop_buff_def Brodacast_Buffer_Stop_def)

lemma pk_role_stop [simp]: "pk_role j (stop_buff i b pk) = pk_role j pk"
  by (simp add: stop_buff_def Brodacast_Buffer_Stop_def)

lemma break_missing: "\<not> has_role pk i \<Longrightarrow> rs_buffs (pk_stack pk) = [] \<Longrightarrow> breakLastSkill i pk = pk"
  by (simp add: breakLastSkill_def has_role_def pk_role_def)

context fight_lose
begin

lemma break_step:
  assumes "I pk" "has_role pk i" "b \<in> set (rs_buffs (pk_role i pk))" "breaks b"
  shows "I (erase_buff i b (stop_buff i b (UpdataBuffer i b UPDATABUFFER_DEL pk)))"
proof -
  have "I (erase_buff i b (UpdataBuffer i b UPDATABUFFER_DEL pk))"
    using assms cast_quiet[OF assms(4), of i i pk] by (intro lose_first) (simp_all add: own_def)
  then show ?thesis unfolding erase_buff_def by (rule upd_frame[rotated 4]) simp_all
qed

lemma break_all:
  assumes "I pk" "has_role pk i" "mset bs \<subseteq># mset (rs_buffs (pk_role i pk))" "\<forall>b \<in> set bs. breaks b"
  shows "I (fold (\<lambda>b pk. erase_buff i b (stop_buff i b (UpdataBuffer i b UPDATABUFFER_DEL pk))) bs pk)"
  using assms
proof (induction bs arbitrary: pk)
  case (Cons b bs)
  let ?u = "UpdataBuffer i b UPDATABUFFER_DEL pk"
  have q: "own i ?u = own i pk" "has_role ?u i" using cast_quiet[of b i i pk] Cons.prems by simp_all
  have b: "b \<in> set (rs_buffs (pk_role i pk))" using Cons.prems(3) by (auto dest: mset_subset_eq_insertD simp flip: set_mset_mset)
  have "rs_buffs (pk_role i (erase_buff i b (stop_buff i b ?u))) = remove1 b (rs_buffs (pk_role i pk))"
    using q by (auto simp: erase_buff_def pk_role_upd has_role_def own_def)
  moreover have "mset bs \<subseteq># mset (remove1 b (rs_buffs (pk_role i pk)))"
    using Cons.prems(3) b by (simp add: insert_subset_eq_iff)
  ultimately have sub: "mset bs \<subseteq># mset (rs_buffs (pk_role i (erase_buff i b (stop_buff i b ?u))))" by simp
  have "I (fold (\<lambda>b pk. erase_buff i b (stop_buff i b (UpdataBuffer i b UPDATABUFFER_DEL pk))) bs (erase_buff i b (stop_buff i b ?u)))"
    by (rule Cons.IH[OF break_step _ sub]) (use Cons.prems q b in simp_all)
  then show ?case by (simp only: fold.simps comp_apply)
qed simp

lemma break: "I pk \<Longrightarrow> has_role pk i \<Longrightarrow> I (breakLastSkill i pk)"
  unfolding breakLastSkill_eq by (rule break_all) (simp_all add: mset_filter)

end

section \<open>Gaining a buff\<close>

locale fight_invariant = fight_lose +
  assumes gain_role: "I pk \<Longrightarrow> has_role pk i \<Longrightarrow> \<not> by_skill 236 b \<Longrightarrow> sound_buff b \<Longrightarrow> I (UpdataBuffer i b UPDATABUFFER_ADD pk)"

text \<open>A role that is not in the fight gets no buff.\<close>

lemma missing_upd: "\<not> has_role pk i \<Longrightarrow> pk_upd i g pk = pk"
  by (simp add: has_role_def pk_upd_def)

definition same_fight :: "pk \<Rightarrow> pk \<Rightarrow> bool" where
  "same_fight pk pk' \<longleftrightarrow> pk_roles pk' = pk_roles pk \<and> pk_State pk' = pk_State pk \<and> pk_end pk' = pk_end pk \<and>
     pk_ge_up pk' = pk_ge_up pk"

lemma same_fight_broadcast [simp]: "same_fight pk (pk_broadcast ty body pk)" "same_fight pk pk"
  by (simp_all add: same_fight_def)

lemma same_fight_send [simp]: "same_fight pk (send_buff i b u pk)" "same_fight pk (stop_buff i b pk)"
  by (simp_all add: send_buff_def stop_buff_def Brodacast_Skill_Buffer_def Brodacast_Buffer_Stop_def)

lemma same_fight_trans: "same_fight a b \<Longrightarrow> same_fight b c \<Longrightarrow> same_fight a c"
  by (simp add: same_fight_def)

lemma missing_cast: "\<not> has_role pk i \<Longrightarrow> breaks b \<Longrightarrow> same_fight pk (UpdataBuffer i b UPDATABUFFER_DEL pk)"
  unfolding UpdataBuffer_def UpdataBuffer_with_def
  by (auto simp: breaks_def buff_ends_def missing_upd)

lemma missing_breaks:
  "\<not> has_role pk i \<Longrightarrow> \<forall>b \<in> set bs. breaks b \<Longrightarrow>
   same_fight pk (fold (\<lambda>b pk. erase_buff i b (stop_buff i b (UpdataBuffer i b UPDATABUFFER_DEL pk))) bs pk)"
proof (induction bs arbitrary: pk)
  case (Cons b bs)
  let ?q = "erase_buff i b (stop_buff i b (UpdataBuffer i b UPDATABUFFER_DEL pk))"
  have "same_fight pk (UpdataBuffer i b UPDATABUFFER_DEL pk)" using Cons.prems by (intro missing_cast) simp_all
  then have "same_fight pk (stop_buff i b (UpdataBuffer i b UPDATABUFFER_DEL pk))"
    by (rule same_fight_trans) simp
  then have q: "same_fight pk ?q" using Cons.prems by (simp add: erase_buff_def missing_upd)
  have "same_fight ?q (fold (\<lambda>b pk. erase_buff i b (stop_buff i b (UpdataBuffer i b UPDATABUFFER_DEL pk))) bs ?q)"
    by (rule Cons.IH) (use Cons.prems in simp_all)
  from same_fight_trans[OF q this] show ?case by (simp only: fold.simps comp_apply)
qed simp

lemma missing_break: "\<not> has_role pk i \<Longrightarrow> same_fight pk (breakLastSkill i pk)"
  unfolding breakLastSkill_eq by (rule missing_breaks) simp_all

lemma missing_add:
  assumes "\<not> has_role pk i" shows "same_fight pk (UpdataBuffer i b UPDATABUFFER_ADD pk)"
proof -
  let ?s = "send_buff i b UPDATABUFFER_ADD pk"
  have "same_fight ?s (breakLastSkill i ?s)" using assms by (intro missing_break) simp
  then have brk: "same_fight pk (breakLastSkill i ?s)" by (rule same_fight_trans[OF same_fight_send(1)])
  show ?thesis unfolding UpdataBuffer_def UpdataBuffer_with_def add_buff_def Let_def
    using assms brk by (simp add: missing_upd split: option.split)
qed

section \<open>Skills\<close>

lemma buff_now_simps [simp]:
  "by_skill n (buff_now ty k level t br pk) \<longleftrightarrow> ty = BUFFER_TYPE_BYSKILL \<and> k = n"
  "sound_buff (buff_now ty k level t br pk) \<longleftrightarrow> (k = 209 \<or> k = 233 \<longrightarrow> ty = BUFFER_TYPE_BYSKILL)"
  "by_skill n (b\<lparr>bf_Parametar1 := x\<rparr>) = by_skill n b" "by_skill n (b\<lparr>bf_Parametar2 := x\<rparr>) = by_skill n b"
  "by_skill n (b\<lparr>bf_RunTimeLimit := x\<rparr>) = by_skill n b" "by_skill n (relative b) = by_skill n b"
  "sound_buff (b\<lparr>bf_Parametar1 := x\<rparr>) = sound_buff b" "sound_buff (b\<lparr>bf_Parametar2 := x\<rparr>) = sound_buff b"
  "sound_buff (b\<lparr>bf_RunTimeLimit := x\<rparr>) = sound_buff b" "sound_buff (relative b) = sound_buff b"
  by (auto simp: by_skill_def sound_buff_def buff_now_def Buff_new_def relative_def)

lemma called_flag [simp]:
  "rs_RoleFlag (with_buff b r) = rs_RoleFlag r" "rs_RoleFlag (called i hp pos d lv ty pk r) = RoleType_Call"
  "rs_RoleFlag (RoleState_Init r) = rs_RoleFlag r"
  by (simp_all add: with_buff_def called_def RoleState_Init_def role_upds)

lemma sorted_middle:
  "sorted (map f ts) \<Longrightarrow> sorted (map f ds) \<Longrightarrow> (\<And>x. x \<in> set ts \<Longrightarrow> f x \<le> f b) \<Longrightarrow> (\<And>y. y \<in> set ds \<Longrightarrow> f b \<le> f y) \<Longrightarrow>
     sorted (map f (ts @ b # ds))"
  by (fastforce simp: sorted_append intro: order_trans)

lemma insert_sorted: "sorted (map bf_Type bs) \<Longrightarrow> sorted (map bf_Type (insert_buff b bs))"
proof -
  assume s: "sorted (map bf_Type bs)"
  let ?t = "takeWhile (\<lambda>c. bf_Type c \<le> bf_Type b) bs" and ?d = "dropWhile (\<lambda>c. bf_Type c \<le> bf_Type b) bs"
  have "sorted (map bf_Type (?t @ ?d))" using s by (simp del: map_append)
  then have td: "sorted (map bf_Type ?t)" "sorted (map bf_Type ?d)" by (simp_all only: map_append sorted_append)
  have t: "bf_Type x \<le> bf_Type b" if "x \<in> set ?t" for x using that by (auto dest: set_takeWhileD)
  have d: "bf_Type b \<le> bf_Type y" if "y \<in> set ?d" for y
  proof (cases ?d)
    case (Cons z zs)
    then have "\<not> bf_Type z \<le> bf_Type b" using hd_dropWhile[of "\<lambda>c. bf_Type c \<le> bf_Type b" bs] by simp
    moreover have "bf_Type z \<le> bf_Type y" using that td(2) unfolding Cons by auto
    ultimately show ?thesis by simp
  next
    case Nil
    then show ?thesis using that unfolding Nil by simp
  qed
  show ?thesis unfolding insert_buff_def by (rule sorted_middle) (use td t d in blast)+
qed

lemma called_buffs [simp]: "rs_buffs (called i hp pos d lv ty pk r) = rs_buffs r" "rs_buffs (upd_phys f r) = rs_buffs r"
    "rs_buffs (upd_move f' r) = rs_buffs r" "rs_buffs (upd_order g r) = rs_buffs r" "rs_buffs (upd_magic g' r) = rs_buffs r"
    "rs_buffs (RoleState_Init r) = rs_buffs r" "rs_buffs (fresh_role pk) = []"
    "rs_buffs (with_buff b r) = insert_buff b (rs_buffs r)"
  by (simp_all add: called_def RoleState_Init_def role_upds fresh_role_def with_buff_def)

context fight_invariant
begin

lemma same: "same_fight pk pk' \<Longrightarrow> I pk \<Longrightarrow> I pk'"
  unfolding same_fight_def by (rule frame) simp_all

lemma gain: "I pk \<Longrightarrow> \<not> by_skill 236 b \<Longrightarrow> sound_buff b \<Longrightarrow> I (give_buff i b pk)"
  unfolding give_buff_def by (metis gain_role missing_add same)

lemma random: "I pk \<Longrightarrow> I (snd (next_rand pk))"
  by (simp add: next_rand_def fields)

lemma target: "I pk \<Longrightarrow> (\<And>j pk. I pk \<Longrightarrow> I (act j pk)) \<Longrightarrow> I (on_target ord act pk)"
  by (simp add: on_target_def)

lemmas skill_rules = keeps gain target loop multi_skill hurt broadcasts touch' enter fields

lemma skills_a:
  assumes "I pk"
  shows "I (skill_process_201 i ord lv pk)" "I (skill_process_204_buffer i h pk)" "I (skill_process_207_effect p i lv pk)"
    "I (skill_process_208 i ord lv pk)" "I (skill_process_216 i ord lv pk)" "I (skill_process_220 i ord lv pk)"
    "I (skill_process_229 i ord lv pk)" "I (skill_process_234 i ord lv pk)"
  unfolding skill_process_201_def skill_process_204_buffer_def skill_process_207_effect_def skill_process_208_def
    skill_process_216_def skill_process_220_def skill_process_229_def skill_process_234_def Let_def
  by (auto intro!: skill_rules assms)

lemma skills_b:
  assumes "I pk"
  shows "I (skill_process_202 i ord lv pk)" "I (skill_process_203 i ord lv pk)" "I (skill_process_204 i ord lv pk)"
    "I (skill_process_209 i ord lv pk)" "I (skill_process_210 i ord lv pk)" "I (skill_process_213 i ord lv pk)"
    "I (skill_process_214 i ord lv pk)" "I (skill_process_221 i ord lv pk)" "I (skill_process_224 i ord lv pk)"
  unfolding skill_process_202_def skill_process_203_def skill_process_204_def skill_process_209_def skill_process_210_def
    skill_process_213_def skill_process_214_def skill_process_221_def skill_process_224_def Let_def
  by (auto intro!: skill_rules assms)

lemma skills_c:
  assumes "I pk"
  shows "I (skill_process_225 i ord lv pk)" "I (skill_process_226 i ord lv pk)" "I (skill_process_228 i ord lv pk)"
    "I (skill_process_230 i ord lv pk)" "I (skill_process_231 i ord lv pk)" "I (skill_process_233 i ord lv pk)"
    "I (skill_process_235 i ord lv pk)" "I (skill_process_236 i ord lv pk)" "I (skill_process_219 i ord lv pk)"
    "I (skill_process_219_Effect i b pk)"
  unfolding skill_process_225_def skill_process_226_def skill_process_228_def skill_process_230_def skill_process_231_def
    skill_process_233_def skill_process_235_def skill_process_236_def skill_process_219_def skill_process_219_Effect_def Let_def
  by (auto intro!: skill_rules assms split: option.split)

lemma skills_d:
  assumes "I pk"
  shows "I (skill_process_207 i ord lv pk)" "I (skill_process_217 i ord lv pk)" "I (skill_process_223 i ord lv pk)"
    "I (skill_process_217_Effect bl pk)" "I (skill_process_223_Effect p opp lv pk)" "I (skill_process_218_Buffer i b pk)"
    "I (snd (skill_process_210_buffer i b pk))"
  unfolding skill_process_207_def skill_process_217_def skill_process_223_def fire_bullet_def skill_process_217_Effect_def
    skill_process_223_Effect_def skill_process_218_Buffer_def skill_process_210_buffer_def next_rand_def Let_def
  by (auto intro!: skill_rules assms)

lemma called:
  assumes "I pk"
  shows "I (skill_process_205 i ord lv pk)" "I (skill_process_206 i ord lv pk)" "I (skill_process_232 i ord lv pk)"
    "I (skill_process_212 i ord lv pk)" "I (skill_process_218 i ord lv pk)"
  unfolding skill_process_205_def skill_process_206_def skill_process_232_def skill_process_212_def skill_process_218_def
    image_of_def enter_called_def Let_def
  by (auto intro!: skill_rules assms insert_sorted)

lemma skills_e:
  assumes "I pk"
  shows "skill_process_211 i ord lv pk = Some pk1 \<Longrightarrow> I pk1" "skill_process_222 i ord lv pk = Some pk2 \<Longrightarrow> I pk2"
    "skill_process_227 i ord lv pk = Some pk3 \<Longrightarrow> I pk3"
  unfolding skill_process_211_def skill_process_222_def skill_process_227_def Let_def
  using assms by (auto intro!: skill_rules split: option.splits Option.bind_splits)

end

end
