(* ===== verification/Pk_Loop.thy ===== *)
theory Pk_Loop
  imports Pk_Keeps
begin

text \<open>
  The operations of a fight that go through the buffs of a role, strike, move and take orders, up to the
  clock and the run of the whole fight: each of them keeps an invariant that obeys the laws of
  \<open>Pk_Keeps\<close>.
\<close>

section \<open>Attacks and bullets\<close>

lemma set_buff_role:
  "pk_role j (set_buff i k b pk) =
     (if j = i \<and> has_role pk i then (pk_role i pk)\<lparr>rs_buffs := (rs_buffs (pk_role i pk))[k := b]\<rparr> else pk_role j pk)"
  by (auto simp: set_buff_def pk_role_upd has_role_def)

lemma has_role_set [simp]: "has_role (set_buff i k b pk) j = has_role pk j"
  by (simp add: set_buff_def)

context fight_invariant
begin

lemma set_at:
  assumes "I pk" "touched_buff (rs_buffs (pk_role i pk) ! k) b"
  shows "I (set_buff i k b pk)"
  unfolding set_buff_def by (rule touch) (use assms in \<open>auto simp: pk_role_def intro!: touched_set\<close>)

lemma rolls: "I pk \<Longrightarrow> I (snd (attack_base a t pk))" "I pk \<Longrightarrow> I (snd (snd (attack_crit a h pk)))"
  by (auto simp: attack_base_def attack_crit_def Let_def random case_prod_beta)

lemma shield_burst:
  assumes "I pk" "k < length (rs_buffs (pk_role j pk))" "has_role pk j" "b = rs_buffs (pk_role j pk) ! k" "bf_ParentSkill b = 209"
    "rs_buffs (pk_role j pk) = rs_buffs (pk_role j q)" "I q" "has_role q j"
  shows "I (del_buff j k q)"
proof -
  let ?bs = "rs_buffs (pk_role j q)"
  have "mset ?bs = add_mset (?bs ! k) (mset (take k ?bs @ drop (Suc k) ?bs))"
    using arg_cong[OF id_take_nth_drop[of k ?bs], of mset] assms(2,6) by simp
  then have "I (pk_upd j (\<lambda>r. r\<lparr>rs_buffs := take k ?bs @ drop (Suc k) ?bs\<rparr>) q)"
    by (rule burst[OF assms(7,8) _ sorted_delete]) (use assms(4-6) in simp_all)
  then show ?thesis using assms(8) unfolding del_buff_def
    by (subst set_as_function, simp, subst (asm) set_as_function) simp_all
qed

lemma shields: "I pk \<Longrightarrow> I (snd (shields n k j h pk))"
proof (induction n k j h pk rule: shields.induct)
  case (2 n k j h pk)
  let ?b = "rs_buffs (pk_role j pk) ! k"
  show ?case
  proof (cases "length (rs_buffs (pk_role j pk)) \<le> k")
    case False
    define b1 where "b1 = ?b\<lparr>bf_Parametar2 := wrap32 (bf_Parametar2 ?b + h)\<rparr>"
    define b2 where "b2 = b1\<lparr>bf_Parametar2 := bf_Parametar1 b1\<rparr>"
    consider (bursts) "bf_ParentSkill ?b = 209" "bf_Parametar1 b1 \<le> bf_Parametar2 b1"
      | (held) "bf_ParentSkill ?b = 209" "\<not> bf_Parametar1 b1 \<le> bf_Parametar2 b1"
      | (whirl) "bf_ParentSkill ?b = 210" | (no) "bf_ParentSkill ?b \<noteq> 209" "bf_ParentSkill ?b \<noteq> 210" by fastforce
    then show ?thesis
    proof cases
      case bursts
      let ?q = "set_buff j k b2 pk"
      let ?s = "stop_buff j b2 (skill_process_209_buffer j b2 ?q)"
      have t: "touched_buff ?b b2" using bursts by (simp add: b2_def b1_def touched_par2)
      have q: "I ?q" by (rule set_at[OF "2.prems" t])
      then have s: "I ?s" by (intro stop shield)
      have own: "own j ?s = own j ?q" by (simp add: own_def stop_buff_def Brodacast_Buffer_Stop_def own_209[unfolded own_def])
      have "I (del_buff j k ?s)"
      proof (cases "has_role pk j")
        case True
        then show ?thesis using False bursts own
          by (intro shield_burst[OF q _ _ _ _ _ s, where b = b2]) (simp_all add: set_buff_role own_def b2_def b1_def)
      next
        case gone: False
        then show ?thesis using s by (simp add: del_buff_def no_role)
      qed
      with "2.IH"(1)[OF refl False refl bursts(1) b1_def bursts(2)] False bursts show ?thesis
        by (simp add: Let_def b1_def b2_def)
    next
      case held
      have t: "touched_buff ?b b1" using held by (simp add: b1_def touched_par2)
      have I1: "I (set_buff j k b1 pk)" using set_at[OF "2.prems" t] by simp
      note ih = "2.IH"(2)[OF refl False refl held(1) b1_def held(2)]
      show ?thesis using I1 ih False held by (simp add: Let_def b1_def)
    next
      case whirl
      obtain b' q where q: "skill_process_210_buffer j ?b pk = (b', q)" by fastforce
      have I: "I q" using skills_d(7)[OF "2.prems", of j ?b] q by simp
      have own: "own j q = own j pk" using own_210[of j ?b pk] q by simp
      have "touched_buff ?b b'" using q whirl
        by (auto simp: skill_process_210_buffer_def case_prod_beta Let_def touched_par2 split: if_splits)
      then have "I (set_buff j k b' q)" using I own by (intro set_at) (simp_all add: own_def)
      with "2.IH"(3)[OF refl False refl _ whirl q[symmetric] refl] False whirl q show ?thesis by (simp add: Let_def)
    next
      case no
      with "2.IH"(4)[OF refl False refl no] "2.prems" False show ?thesis by (simp add: Let_def)
    qed
  qed (use 2 in simp)
qed simp

lemma touched_map: "touched r (r\<lparr>rs_buffs := map (curse_notes h) (rs_buffs r)\<rparr>)"
  by (rule touched_buffs) (simp add: list_all2_conv_all_nth)

lemma attack_hurt [keeps]: "I pk \<Longrightarrow> I (CalculateAttackHurt i j pk)"
proof -
  assume I: "I pk"
  define p1 where "p1 = snd (next_rand pk)"
  define p2 where "p2 = snd (attack_base (pk_role i pk) (pk_role j pk) p1)"
  define h where "h = fst (attack_base (pk_role i pk) (pk_role j pk) p1)"
  define p3 where "p3 = snd (snd (attack_crit (pk_role i pk) h p2))"
  define h2 where "h2 = (let h1 = fst (attack_crit (pk_role i pk) h p2)
    in ushort (h1 + wrap32 (h1 * ph_HurtAdd (rs_phys (pk_role j pk))) sdiv 100))"
  define p4 where "p4 = pk_upd j (\<lambda>t. t\<lparr>rs_buffs := map (curse_notes h2) (rs_buffs t)\<rparr>) p3"
  define p5 where "p5 = pk_upd i (\<lambda>a. a\<lparr>rs_buffs := snd (spear h2 (rs_buffs a))\<rparr>) p4"
  have p: "I p1" "I p2" "I p3" using random[OF I] rolls by (simp_all add: p1_def p2_def p3_def)
  have p4: "I p4" unfolding p4_def by (rule touch'[OF p(3)]) (rule touched_map)
  have p5: "I p5" unfolding p5_def by (rule touch'[OF p4]) (intro touched_buffs touched_spear)
  have p6: "I (snd (shields n k j m p5))" for n k m by (rule shields[OF p5])
  have "I (BrodacastHpChange a n s e (pk_upd j (\<lambda>t. t\<lparr>rs_HP := m t\<rparr>) q))" if "I q" for a n s e m q
    using that by (auto intro!: broadcasts touch')
  then show ?thesis unfolding CalculateAttackHurt_def
    by (simp add: Let_def case_prod_beta p1_def[symmetric] p2_def[symmetric] h_def[symmetric] p3_def[symmetric]
        h2_def[unfolded Let_def, symmetric] p4_def[symmetric] p5_def[symmetric] broadcasts p p6 dead)
qed

lemma run_bullet: "I pk \<Longrightarrow> I (snd (run_bullet bl pk))"
  by (simp add: run_bullet_def bullet_hits_def Let_def attack_hurt skills_a skills_d)

lemma run_bullets: "I pk \<Longrightarrow> I (snd (run_bullets bls pk))"
  by (induction bls arbitrary: pk) (simp_all add: case_prod_beta run_bullet)

lemma bullets [keeps]: "I pk \<Longrightarrow> I (CalculateBullets pk)"
  by (simp add: CalculateBullets_def case_prod_beta fields run_bullets)

end

section \<open>Running buffs\<close>

lemma tick_length:
  assumes "tick_buff i k pk = Some pk'"
  shows "length (rs_buffs (pk_role i pk')) = length (rs_buffs (pk_role i pk)) \<and> has_role pk' i = has_role pk i"
proof -
  have own: "length (rs_buffs (pk_role i q')) = length (rs_buffs (pk_role i q)) \<and> has_role q' i = has_role q i"
    if "RunBuffer i b q = Some (b', q')" for b b' q q'
    using own_RunBuffer[OF that] has_role_RunBuffer[OF that] by (simp add: own_def)
  show ?thesis using assms unfolding tick_buff_def Let_def
    by (auto simp: set_buff_role split: if_splits Option.bind_splits dest!: own)
qed

context fight_invariant
begin

lemma picks: "pick_target n i pk = (t, pk') \<Longrightarrow> I pk \<Longrightarrow> I pk'"
  by (induction n arbitrary: pk) (auto simp: case_prod_beta Let_def random split: if_splits)

lemma near: "place_near p pk = Some (q, pk') \<Longrightarrow> I pk \<Longrightarrow> I pk'"
  using place_near_result[of p pk "(q, pk')"] by (intro frame[of pk' pk]) simp_all

lemma slash: "skill_process_224_Effect i b pk = Some pk' \<Longrightarrow> I pk \<Longrightarrow> I pk'"
  unfolding skill_process_224_Effect_def
  by (auto simp: Let_def split: prod.splits option.splits Option.bind_splits dest!: near picks intro!: hurt broadcasts touch')

lemma heal: "I pk \<Longrightarrow> I (heal_hp i b pk)"
  unfolding heal_hp_def Let_def by (auto intro!: broadcasts touch')

lemma run_buffer: "RunBuffer i b pk = Some (b', pk') \<Longrightarrow> I pk \<Longrightarrow> I pk'"
  unfolding RunBuffer_def by (auto simp: heal skills_a skills_c skills_d split: if_splits dest: slash)

lemma run_buffer_touched: "RunBuffer i b pk = Some (b', pk') \<Longrightarrow> touched_buff b b'"
  unfolding RunBuffer_def by (auto simp: touched_par2 split: if_splits)

lemma tick:
  assumes "I pk" "has_role pk i" "tick_buff i k pk = Some pk'"
  shows "I pk'"
proof -
  let ?b = "rs_buffs (pk_role i pk) ! k"
  let ?b1 = "?b\<lparr>bf_RunCounter := ushort (bf_RunCounter ?b + 1)\<rparr>"
  have set: "I (set_buff i k ?b1 pk)" by (rule set_at[OF assms(1)]) simp
  have "I (set_buff i k (b2\<lparr>bf_RunCounter := 0\<rparr>) q)" if run: "RunBuffer i ?b1 (set_buff i k ?b1 pk) = Some (b2, q)" for b2 q
  proof (rule set_at[OF run_buffer[OF run set]])
    have "rs_buffs (pk_role i q) ! k = rs_buffs (pk_role i (set_buff i k ?b1 pk)) ! k"
      using own_RunBuffer[OF run] by (simp add: own_def)
    moreover have "touched_buff (rs_buffs (pk_role i (set_buff i k ?b1 pk)) ! k) ?b1"
    proof (cases "k < length (rs_buffs (pk_role i pk))")
      case False
      then show ?thesis using assms(2) by (simp add: set_buff_role list_update_beyond)
    qed (use assms(2) in \<open>simp add: set_buff_role\<close>)
    ultimately show "touched_buff (rs_buffs (pk_role i q) ! k) (b2\<lparr>bf_RunCounter := 0\<rparr>)"
      using run_buffer_touched[OF run] by (metis touched_buff_trans touched_counter(1))
  qed
  with set assms show ?thesis unfolding tick_buff_def Let_def by (auto split: if_splits Option.bind_splits)
qed

lemma run_buffs:
  assumes "I pk" "has_role pk i" "run_buffs n k i pk = Some pk'"
  shows "I pk'"
  using assms
proof (induction n k i pk rule: run_buffs.induct)
  case (2 n k i pk)
  show ?case
  proof (cases "length (rs_buffs (pk_role i pk)) \<le> k")
    case False
    then obtain p1 where t: "tick_buff i k pk = Some p1" using "2.prems" by (auto split: Option.bind_splits)
    note p1 = tick[OF "2.prems"(1,2) t]
    have k: "k < length (rs_buffs (pk_role i p1))" "has_role p1 i" using tick_length[OF t] False "2.prems" by auto
    let ?b = "rs_buffs (pk_role i p1) ! k"
    let ?p2 = "UpdataBuffer i ?b UPDATABUFFER_DEL p1"
    show ?thesis
    proof (cases "bf_EndTime ?b \<le> pk_now p1")
      case True
      have "I ?p2" if "rs_Live (pk_role i ?p2) = ROLE_STATUS_DEAD" by (rule lose_dead[OF p1 k(2) _ that]) (simp add: k)
      moreover have "I (del_buff i k ?p2)" if "rs_cleared (pk_role i ?p2) = rs_cleared (pk_role i p1)"
        by (rule lose_at[OF p1 k(2) k(1) refl that])
      ultimately show ?thesis using "2.IH"(1)[OF False t refl True refl] "2.prems" False t True
        by (auto simp: Let_def k del_buff_def split: if_splits)
    next
      case no: False
      then show ?thesis using "2.IH"(2)[OF False t refl no p1 k(2)] "2.prems" False t by (simp add: Let_def)
    qed
  qed (use 2 in simp)
qed simp

lemma buffs: "I pk \<Longrightarrow> has_role pk i \<Longrightarrow> CalculateBuff i pk = Some pk' \<Longrightarrow> I pk'"
  unfolding CalculateBuff_def by (rule run_buffs)

end

section \<open>Skills and hatred\<close>

context fight_invariant
begin

lemma dispels:
  assumes "I pk" "has_role pk j" "mset bs \<subseteq># mset (rs_buffs (pk_role j pk))" "dispel j bs pk = Some pk'"
  shows "I pk'"
  using assms
proof (induction j bs pk rule: dispel.induct)
  case (2 j b bs pk)
  have b: "b \<in> set (rs_buffs (pk_role j pk))" "mset bs \<subseteq># mset (remove1 b (rs_buffs (pk_role j pk)))"
    using "2.prems"(3) by (auto dest: mset_subset_eq_insertD simp: insert_subset_eq_iff simp flip: set_mset_mset)
  then have sub: "mset bs \<subseteq># mset (rs_buffs (pk_role j pk))"
    by (metis diff_subset_eq_self mset_remove1 subset_mset.trans)
  show ?case
  proof (cases "bf_bCanBreak b \<and> bf_Type b \<noteq> BUFFER_TYPE_CASTSKILL")
    case True
    let ?u = "UpdataBuffer j b UPDATABUFFER_DEL pk"
    have same: "rs_cleared (pk_role j ?u) = rs_cleared (pk_role j pk)"
      using "2.prems"(4) True by (simp add: Let_def split: if_splits)
    have "own j ?u = own j pk" by (rule del_keeps) (use same "2.prems" in \<open>simp_all add: own_def\<close>)
    then have "rs_buffs (pk_role j (erase_buff j b ?u)) = remove1 b (rs_buffs (pk_role j pk))"
      using "2.prems"(2) has_role_buff[of j b UPDATABUFFER_DEL pk j] by (auto simp: erase_buff_def pk_role_upd own_def has_role_def)
    then have "mset bs \<subseteq># mset (rs_buffs (pk_role j (erase_buff j b ?u)))" using b by simp
    from "2.IH"(1)[OF True refl _ lose_first[OF "2.prems"(1,2) b(1) same] _ this] show ?thesis
      using same "2.prems" True by (simp add: Let_def)
  next
    case False
    from "2.IH"(2)[OF False "2.prems"(1,2) sub] show ?thesis using "2.prems"(4) False by (simp del: de_Morgan_conj)
  qed
qed simp

lemma purge: "skill_process_215 i ord lv pk = Some pk' \<Longrightarrow> I pk \<Longrightarrow> I pk'"
  unfolding skill_process_215_def
  by (auto simp: Let_def hurt gain dest: dispels[rotated 3] split: if_splits Option.bind_splits)

lemma cast: "cast_skill k i ord lv pk = Some pk' \<Longrightarrow> I pk \<Longrightarrow> I pk'"
  unfolding cast_skill_def
  by (auto simp: skills_a skills_b skills_c skills_d called split: if_split_asm dest: skills_e purge)

lemma run_skill: "run_skill so pk = Some pk' \<Longrightarrow> I pk \<Longrightarrow> I pk'"
  unfolding run_skill_def by (rule cast)

lemma run_skills: "run_skills sos pk = Some (sos', pk') \<Longrightarrow> I pk \<Longrightarrow> I pk'"
  by (induction sos arbitrary: pk sos') (auto split: if_splits Option.bind_splits dest: run_skill)

lemma pending: "CalculateSkill pk = Some pk' \<Longrightarrow> I pk \<Longrightarrow> I pk'"
  by (auto simp: CalculateSkill_def split: Option.bind_splits intro!: fields dest: run_skills)

lemma touched_hatred: "touched r (fst (most_hated ts r m d))"
proof (induction ts arbitrary: r m d)
  case (Cons t ts)
  have h: "touched r (r\<lparr>rs_HatreMap := hm\<rparr>)" for hm by simp
  show ?case by (simp add: Let_def Cons.IH touched_trans[OF h Cons.IH])
qed simp

lemma hatred [keeps]: "I pk \<Longrightarrow> I (CalculateAIAttack i pk)"
proof -
  assume I: "I pk"
  obtain r' m where h: "most_hated (map snd (pk_roles pk)) (pk_role i pk) 0 0 = (r', m)" by fastforce
  have t: "touched (pk_role i pk) r'" using touched_hatred[of "pk_role i pk"] h by (metis fst_conv)
  have "touched (pk_role i pk) (if c then upd_order f r' else if d then attack_order n k r' else r')" for c d f n k
    using touched_trans[OF t] t by simp
  then have "I (pk_upd i (\<lambda>_. if c then upd_order f r' else if d then attack_order n k r' else r') pk)" for c d f n k
    by (intro touch[OF I]) (auto simp: pk_role_def)
  then show ?thesis unfolding CalculateAIAttack_def Let_def h prod.case
    using I by (auto intro!: touch' split: option.split)
qed

lemma provoked: "I pk \<Longrightarrow> I (provoke first again i j pk)"
  by (auto simp: provoke_def Let_def intro!: hatred touch' split: option.split)

lemma strike [keeps]: "I pk \<Longrightarrow> I (CalculateAttack i j pk)"
  by (auto simp: CalculateAttack_def Let_def intro!: provoked fields broadcasts)

end

section \<open>Moving and orders\<close>

context fight_invariant
begin

lemma drains: "I pk \<Longrightarrow> I (drain i k pk)"
  unfolding drain_def by (auto simp: Let_def intro!: broadcasts touch' set_at)

lemma cell: "next_cell i pk = Some (res, pk') \<Longrightarrow> I pk \<Longrightarrow> I pk'"
  unfolding next_cell_def by (auto simp: Let_def intro!: touch' split: list.splits Option.bind_splits)

lemma move: "CalculateMoveP i pk = Some (res, pk') \<Longrightarrow> I pk \<Longrightarrow> I pk'"
  unfolding CalculateMoveP_def
  by (auto simp: Let_def intro!: touch' loop drains split: if_splits prod.splits dest!: cell)

lemma route: "AStar i s e pk = Some (found, pk') \<Longrightarrow> I pk \<Longrightarrow> I pk'"
  unfolding AStar_def move_message_def set_route_def
  by (auto simp: Let_def intro!: touch' broadcast split: if_splits prod.splits astar_result.splits option.splits Option.bind_splits)

lemma pre_status [keeps]: "I pk \<Longrightarrow> I (set_pre_status i n pk)"
  unfolding set_pre_status_def by (auto intro!: touch')

lemma chases: "chase i j pk = Some (res, pk') \<Longrightarrow> I pk \<Longrightarrow> I pk'"
  unfolding chase_def route_to_def
  by (auto simp: Let_def intro!: pre_status split: if_splits Option.bind_splits dest!: move route)

lemma touched_start [simp]: "touched r (upd_order f ((use_skill k n r)\<lparr>rs_Waiting := w\<rparr>))"
    "touched r (upd_order f (upd_move (\<lambda>m. m\<lparr>mv_MoveLine := ps\<rparr>) r))"
    "touched r ((upd_phys (\<lambda>p. p\<lparr>ph_PreAttackTime := t\<rparr>) r)\<lparr>rs_Waiting := w\<rparr>)"
  by (rule touched_same; simp add: touch_simps)+

lemma attack: "process_c_s_attack i pk = Some (res, pk') \<Longrightarrow> I pk \<Longrightarrow> I pk'"
  unfolding process_c_s_attack_def route_to_def
  by (auto simp: Let_def intro!: pre_status strike touch' split: if_splits Option.bind_splits dest!: chases route)

lemma approaches: "approach i t pk = Some (res, pk') \<Longrightarrow> I pk \<Longrightarrow> I pk'"
  unfolding approach_def by (auto split: if_splits Option.bind_splits dest!: move route)

lemma started: "I pk \<Longrightarrow> I (start_skill i sk pk)"
  unfolding start_skill_def by (auto simp: Let_def intro!: broadcasts touch' fields)

lemma skill: "process_c_s_skill i pk = Some (res, pk') \<Longrightarrow> I pk \<Longrightarrow> I pk'"
  unfolding process_c_s_skill_def by (auto simp: Let_def started split: option.splits if_splits dest: approaches)

lemma halts: "I pk \<Longrightarrow> I (halt i pk)"
  unfolding halt_def by (auto simp: Let_def intro!: broadcasts touch')

lemma moves: "run_move i pk = Some pk' \<Longrightarrow> I pk \<Longrightarrow> I pk'"
  unfolding run_move_def
  by (auto simp: Let_def intro!: halts over leave broadcasts split: if_splits Option.bind_splits dest!: move route)

lemma run_role: "RunRole i pk = Some pk' \<Longrightarrow> I pk \<Longrightarrow> I pk'"
  unfolding RunRole_def
  by (auto simp: Let_def hatred halts intro!: touch' split: if_splits Option.bind_splits dest: attack skill moves)

lemma goes_offline:
  "I pk \<Longrightarrow> rs_Live (pk_role i pk) \<noteq> ROLE_STATUS_DEAD \<Longrightarrow>
     I (CheckOver opp (pk_upd i (\<lambda>r. r\<lparr>rs_Live := ROLE_STATUS_OFFLINE\<rparr>) pk))"
  by (intro over offline)

lemma run_one: "run_one i pk = Some pk' \<Longrightarrow> I pk \<Longrightarrow> has_role pk i \<Longrightarrow> I pk'"
  unfolding run_one_def
  by (auto simp: Let_def goes_offline[simplified] intro!: touch'[where g = "\<lambda>r. r\<lparr>rs_Waiting := n r\<rparr>" for n]
      split: if_splits Option.bind_splits dest!: buffs[rotated 2] run_role intro: bullets)

lemma order: "take_order u pk = Some pk' \<Longrightarrow> I pk \<Longrightarrow> I pk'"
  unfolding take_order_def
  by (auto simp: Let_def intro!: pre_status touch' break split: if_splits Option.bind_splits dest!: route)

lemma orders: "take_orders us pk = Some pk' \<Longrightarrow> I pk \<Longrightarrow> I pk'"
  by (induction us arbitrary: pk) (auto split: Option.bind_splits dest: order)

lemma ordered: "process_c_s_order pk = Some pk' \<Longrightarrow> I pk \<Longrightarrow> I pk'"
  unfolding process_c_s_order_def by (metis orders fields(4))

lemma begins: "I pk \<Longrightarrow> pk_State pk = PK_STATE_READY \<Longrightarrow> I (BroadcastBegin (pk\<lparr>pk_State := PK_STATE_PKING, pk_now := 0\<rparr>))"
  by (intro broadcasts begin')

lemma ready: "I pk \<Longrightarrow> I (snd (process_c_s_ready i pk))"
proof -
  assume I: "I pk"
  let ?q = "\<lambda>resp. (pk_upd i (\<lambda>r. r\<lparr>rs_PK_State := PK_STATE_READY\<rparr>) pk)\<lparr>pk_out := pk_out pk @ [resp]\<rparr>"
  have q: "I (?q resp)" for resp using I by (auto intro!: fields(1) touch')
  have "pk_State pk = PK_STATE_READY \<Longrightarrow> I (BroadcastBegin ((?q resp)\<lparr>pk_State := PK_STATE_PKING, pk_now := 0\<rparr>))" for resp
    by (rule begins[OF q]) simp
  with q I show ?thesis unfolding process_c_s_ready_def Let_def pk_upd_fields
    by (simp del: PK_STATE_READY_def PK_STATE_PKING_def pk_upd_fields)
qed

end

end
