(* ===== verification/Pk_Stay.thy ===== *)
theory Pk_Stay
  imports Pk_Loop
begin

text \<open>
  The first invariant of a fight: the roles that are in it stay in it, with the same identifier,
  controller, side and basic values.  It is an interpretation of the calculus, and it lets the calculus
  be carried on to the loop over all roles and to the whole run.
\<close>

section \<open>Roles stay\<close>

definition role_id :: "int \<Rightarrow> pk \<Rightarrow> (int \<times> int \<times> int \<times> int \<times> int list) option" where
  "role_id j pk = map_option identity (smap_find j (pk_roles pk))"

lemma role_id_frame: "pk_roles pk' = pk_roles pk \<Longrightarrow> role_id j pk' = role_id j pk"
  by (simp add: role_id_def)

lemma role_id_upd: "(\<And>r. smap_find i (pk_roles pk) = Some r \<Longrightarrow> identity (g r) = identity r) \<Longrightarrow> role_id j (pk_upd i g pk) = role_id j pk"
  by (cases "smap_find i (pk_roles pk)") (auto simp: role_id_def find_pk_upd)

lemma identity_simps [simp]:
  "identity (r\<lparr>rs_HP := n\<rparr>) = identity r" "identity (r\<lparr>rs_MP := n\<rparr>) = identity r" "identity (r\<lparr>rs_Live := n\<rparr>) = identity r"
  "identity (r\<lparr>rs_HP := n, rs_Live := k\<rparr>) = identity r" "identity (r\<lparr>rs_HP := n, rs_MP := k\<rparr>) = identity r"
  "identity (r\<lparr>rs_buffs := bs\<rparr>) = identity r" "identity (RoleState_Dead r) = identity r" "identity (RoleState_Init r) = identity r"
  "identity (clear_buffs r) = identity r" "identity (upd_order f r) = identity r" "identity (use_skill k n r) = identity r"
  by (simp_all add: identity_def RoleState_Dead_def RoleState_Init_def clear_buffs_def use_skill_def role_upds)

lemma identity_effect [simp]: "identity (buff_effect u b old r) = identity r"
  using effect_frame(8)[of Speed u b old r] effect_frame(8)[of Hit u b old r] effect_frame(8)[of Crit u b old r]
    effect_frame(8)[of Armor u b old r] by (simp add: identity_def)

lemma role_id_out [simp]:
  "role_id j (pk_broadcast ty body pk) = role_id j pk" "role_id j (send_buff i b u pk) = role_id j pk"
  "role_id j (BrodacastHpChange a n s e pk) = role_id j pk" "role_id j (BrodacastDead a pk) = role_id j pk"
  "role_id j (Brodacast_Skill a ord pk) = role_id j pk" "role_id j (stop_buff i b pk) = role_id j pk"
  "role_id j (EndGame opp pk) = role_id j pk" "role_id j (CheckOver opp pk) = role_id j pk"
  by (simp_all add: role_id_def send_buff_def Brodacast_Skill_Buffer_def Brodacast_Buffer_Stop_def stop_buff_def
      BrodacastHpChange_def BrodacastDead_def Brodacast_Skill_def EndGame_def CheckOver_def Let_def)

lemma role_id_ends:
  assumes "\<And>i pk. role_id j (die i pk) = role_id j pk" "\<And>i b pk. role_id j (shield i b pk) = role_id j pk"
  shows "role_id j (buff_ends die shield i b pk) = role_id j pk"
  unfolding buff_ends_def Let_def using assms by (simp add: role_id_upd)

lemma role_id_with:
  assumes "\<And>i pk. role_id j (die i pk) = role_id j pk" "\<And>i pk. role_id j (brk i pk) = role_id j pk"
    "\<And>i b pk. role_id j (shield i b pk) = role_id j pk"
  shows "role_id j (UpdataBuffer_with die brk shield i b u pk) = role_id j pk"
  unfolding UpdataBuffer_with_def add_buff_def Let_def
  using assms by (auto simp: role_id_upd role_id_ends split: option.split)

lemma role_id_0 [simp]: "role_id j (UpdataBuffer_0 i b u pk) = role_id j pk"
  unfolding UpdataBuffer_0_def by (rule role_id_with) simp_all

lemma role_id_dead [simp]: "role_id j (onRoleDead i pk) = role_id j pk"
  unfolding onRoleDead_def Let_def by (auto simp: role_id_upd split: option.split)

lemma role_id_fold: "(\<And>i pk. role_id j (f i pk) = role_id j pk) \<Longrightarrow> role_id j (fold f is pk) = role_id j pk"
  by (induction "is" arbitrary: pk) simp_all

lemma role_id_break [simp]: "role_id j (breakLastSkill i pk) = role_id j pk"
  unfolding breakLastSkill_def erase_buff_def by (rule role_id_fold) (simp add: role_id_upd)

lemma role_id_shield [simp]: "role_id j (skill_process_209_buffer i b pk) = role_id j pk"
  unfolding skill_process_209_buffer_def CalculateSkillHurt_def by (rule role_id_fold) (simp add: Let_def role_id_upd)

lemma role_id_buff [simp]: "role_id j (UpdataBuffer i b u pk) = role_id j pk"
  unfolding UpdataBuffer_def by (rule role_id_with) simp_all

definition stays :: "int \<Rightarrow> int \<times> int \<times> int \<times> int \<times> int list \<Rightarrow> pk \<Rightarrow> bool" where
  "stays j x pk \<longleftrightarrow> role_id j pk = Some x"

lemma touched_identity: "touched r r' \<Longrightarrow> identity r' = identity r"
  by (simp add: touched_def)

interpretation stays: fight_invariant "stays j x" for j x
proof
  show "stays j x pk'" if "pk_roles pk' = pk_roles pk" "stays j x pk" for pk pk'
    using that role_id_frame[OF that(1)] by (simp add: stays_def)
  show "stays j x (pk_insert r pk)" if "stays j x pk" for r pk
    using that by (auto simp: stays_def role_id_def pk_insert_def smap)
  show "stays j x (pk_upd i g pk)" if "stays j x pk" "\<And>r. smap_find i (pk_roles pk) = Some r \<Longrightarrow> touched r (g r)" for i g pk
    using that(1) role_id_upd[OF touched_identity[OF that(2)]] by (simp add: stays_def)
  show "stays j x (pk\<lparr>pk_State := PK_STATE_PKING, pk_now := 0\<rparr>)" if "stays j x pk" for pk
    using that by (simp add: stays_def role_id_def)
qed (simp_all add: stays_def role_id_upd)


lemma stays_role: "stays j x pk \<Longrightarrow> has_role pk j"
  by (auto simp: stays_def role_id_def has_role_def)

lemma role_stays: "has_role pk j \<Longrightarrow> stays j (identity (pk_role j pk)) pk"
  by (auto simp: stays_def role_id_def has_role_def pk_role_def)

section \<open>The run of a fight\<close>

lemma run_one_role: "run_one i pk = Some pk' \<Longrightarrow> has_role pk i \<Longrightarrow> has_role pk j \<Longrightarrow> has_role pk' j"
  using stays.run_one[of i pk pk' j, OF _ role_stays] stays_role by blast

lemma has_key: "i \<in> set (pk_keys pk) \<Longrightarrow> has_role pk i"
  by (auto simp: pk_keys_def has_role_def smap_find_def map_of_eq_None_iff)

context fight_invariant
begin

lemma all_roles: "run_all is pk = Some pk' \<Longrightarrow> I pk \<Longrightarrow> (\<And>i. i \<in> set is \<Longrightarrow> has_role pk i) \<Longrightarrow> I pk'"
proof (induction "is" arbitrary: pk)
  case (Cons i "is")
  from Cons.prems(1) obtain q where q: "run_one i pk = Some q" "run_all is q = Some pk'" by (auto split: Option.bind_splits)
  have i: "has_role pk i" using Cons.prems(3) by simp
  show ?case
    by (rule Cons.IH[OF q(2) run_one[OF q(1) Cons.prems(2) i]], rule run_one_role[OF q(1) i]) (simp add: Cons.prems(3))
qed simp

lemma time: "RunTime pk = Some pk' \<Longrightarrow> I pk \<Longrightarrow> I pk'"
  unfolding RunTime_def by (auto split: Option.bind_splits dest!: pending all_roles intro: has_key)

lemma handled:
  assumes "I pk" "pk_State pk = PK_STATE_PKING \<or> pk_State pk = PK_STATE_READY" "handle_event e pk = Some pk'"
  shows "I pk'"
proof -
  have I: "I (pk\<lparr>pk_now := n\<rparr>)" for n using fields(5)[OF assms(1)] .
  show ?thesis
  proof (cases "pk_State pk = PK_STATE_PKING")
    case True
    then show ?thesis using assms(3) time[OF _ I] ordered[OF _ assms(1)] by (simp add: handle_event_def Let_def split: if_splits)
  next
    case False
    with assms(2) have "pk_State (pk\<lparr>pk_now := n\<rparr>) = PK_STATE_READY" for n by simp
    from begins[OF I this] have "I (BroadcastBegin (pk\<lparr>pk_now := n, pk_State := PK_STATE_PKING, pk_now := 0\<rparr>))" for n .
    then show ?thesis using assms(1,3) False I by (auto simp: handle_event_def Let_def split: if_splits)
  qed
qed

lemma event:
  "I pk \<Longrightarrow> pk_State pk = PK_STATE_PKING \<or> pk_State pk = PK_STATE_READY \<Longrightarrow> run_event e pk = Some pk' \<Longrightarrow> I pk'"
  using handled by (auto simp: run_event_def split: Option.bind_splits if_splits)

lemma events: "event_loop es pk = Some pk' \<Longrightarrow> I pk \<Longrightarrow> I pk'"
proof (induction es arbitrary: pk)
  case (Cons e es)
  show ?case
  proof (cases "pk_State pk = PK_STATE_PKING \<or> pk_State pk = PK_STATE_READY")
    case True
    with Cons.prems(1) obtain q where "run_event e pk = Some q" "event_loop es q = Some pk'" by (auto split: Option.bind_splits)
    with Cons.IH event[OF Cons.prems(2) True] show ?thesis by blast
  qed (use Cons in simp)
qed simp

end

end
