(* ===== verification/Pk_Fair.thy ===== *)
theory Pk_Fair
  imports Pk_Stay
begin

text \<open>
  The second invariant of a fight: every attribute that buffs change is, for a living role that was not
  summoned, the value it started from and the contributions of the buffs the role has now.
  \<open>fair X\<close> leaves out the roles in \<open>X\<close>, because an attribute and the list of buffs are changed
  one after the other.
\<close>

section \<open>Fair accounts\<close>

definition fair_role :: "role_state \<Rightarrow> bool" where
  "fair_role r \<longleftrightarrow> (rs_RoleFlag r \<noteq> RoleType_Call \<longrightarrow>
     (\<forall>a. base a r = short (base a r)) \<and>
     (rs_Live r \<noteq> ROLE_STATUS_DEAD \<longrightarrow> balanced r \<and> (\<forall>b \<in> set (rs_buffs r). sound_buff b)))"

definition fair :: "int set \<Rightarrow> pk \<Rightarrow> bool" where
  "fair X pk \<longleftrightarrow> (\<forall>i r. i \<notin> X \<longrightarrow> smap_find i (pk_roles pk) = Some r \<longrightarrow> fair_role r)"

lemma fair_frame: "pk_roles pk' = pk_roles pk \<Longrightarrow> fair X pk \<Longrightarrow> fair X pk'"
  by (simp add: fair_def)

lemma fair_upd:
  "fair X pk \<Longrightarrow> (\<And>r. smap_find i (pk_roles pk) = Some r \<Longrightarrow> i \<notin> X \<Longrightarrow> fair_role r \<Longrightarrow> fair_role (g r)) \<Longrightarrow> fair X (pk_upd i g pk)"
  unfolding fair_def by (auto simp: find_pk_upd)

lemma fair_mono: "fair {} pk \<Longrightarrow> fair X pk"
  by (simp add: fair_def)

text \<open>Touching a role, its death and its revival.\<close>

lemma touched_sound: "list_all2 touched_buff bs cs \<Longrightarrow> \<forall>b \<in> set bs. sound_buff b \<Longrightarrow> (\<forall>c \<in> set cs. sound_buff c) \<and> shares a cs = shares a bs"
proof (induction rule: list_all2_induct)
  case (Cons b bs c cs)
  have t: "touched_buff b c" "sound_buff b" using Cons by auto
  have "sound_buff c" using t unfolding touched_buff_def sound_buff_def by metis
  moreover have "share a c = share a b" using t unfolding touched_buff_def by blast
  ultimately show ?case using Cons.IH Cons.prems by simp
qed simp

lemma touched_fair:
  assumes "touched r r'" "fair_role r" shows "fair_role r'"
proof -
  from assms(1) have t: "identity r' = identity r" "rs_Live r' = rs_Live r" "\<And>a. reading a r' = reading a r"
      "list_all2 touched_buff (rs_buffs r) (rs_buffs r')" by (simp_all add: touched_def)
  have f: "rs_RoleFlag r' = rs_RoleFlag r" using t(1) by (simp add: identity_def)
  have b: "base a r' = base a r" for a by (rule identity_base[OF t(1)])
  show ?thesis using assms(2) touched_sound[OF t(4)] by (auto simp: fair_role_def f b t balanced_def)
qed

lemma fair_fallen:
  "fair_role r \<Longrightarrow> identity r' = identity r \<Longrightarrow> rs_Live r' = ROLE_STATUS_DEAD \<Longrightarrow> fair_role r'"
  using identity_base[of r' r] by (auto simp: fair_role_def identity_def)

lemma live_dead [simp]: "rs_Live (RoleState_Dead r) = ROLE_STATUS_DEAD"
  by (simp add: RoleState_Dead_def clear_buffs_def role_upds)

lemma fair_offline:
  "fair_role r \<Longrightarrow> rs_Live r \<noteq> ROLE_STATUS_DEAD \<Longrightarrow> fair_role (r\<lparr>rs_Live := ROLE_STATUS_OFFLINE\<rparr>)"
  by (auto simp: fair_role_def balanced_def all_accounts)

text \<open>A role that is set up again reads what it started from.\<close>

lemma reading_Init: "(\<forall>a. base a r = short (base a r)) \<Longrightarrow> reading a (RoleState_Init (clear_buffs r)) = base a r"
  by (cases a) (simp_all add: RoleState_Init_def clear_buffs_def role_upds)

lemma base_Init: "base a (RoleState_Init (clear_buffs r)) = base a r"
  by (rule identity_base) simp

lemma fair_new:
  assumes "balanced r" "\<forall>b \<in> set (rs_buffs r). sound_buff b" "sound_buff b"
  shows "balanced (buff_effect 1 b None (r\<lparr>rs_buffs := insert_buff b (rs_buffs r)\<rparr>)) \<and>
    (\<forall>c \<in> set (insert_buff b (rs_buffs r)). sound_buff c)"
proof
  let ?r = "r\<lparr>rs_buffs := insert_buff b (rs_buffs r)\<rparr>"
  have rd: "reading a ?r = reading a r" "base a ?r = base a r" for a by (cases a; simp)+
  have "reading a r = short (reading a r)" for a using assms(1) by (simp add: balanced_def)
  then have "reading a (buff_effect 1 b None ?r) = short (reading a r + share a b)" for a
    using effect_new[where a = a and r = ?r and u = 1 and b = b] rd by simp
  then show "balanced (buff_effect 1 b None ?r)"
    using assms(1) by (simp add: balanced_def rd short_add add.assoc add.commute[of "share a b" for a])
  show "\<forall>c \<in> set (insert_buff b (rs_buffs r)). sound_buff c"
    using assms(2,3) by (auto simp: insert_buff_def dest: set_takeWhileD set_dropWhileD)
qed


lemma fair_Init:
  "fair_role r \<Longrightarrow> fair_role (RoleState_Init (clear_buffs r)) \<and> rs_buffs (RoleState_Init (clear_buffs r)) = []"
proof -
  assume r: "fair_role r"
  have "rs_buffs (RoleState_Init (clear_buffs r)) = []" by (simp add: RoleState_Init_def clear_buffs_def role_upds)
  moreover have "rs_RoleFlag (RoleState_Init (clear_buffs r)) = rs_RoleFlag r"
    by (simp add: RoleState_Init_def clear_buffs_def role_upds)
  ultimately show ?thesis using r reading_Init[of r] by (auto simp: fair_role_def balanced_def base_Init)
qed

lemma fair_gain:
  assumes "fair_role r" "sound_buff b"
  shows "fair_role (buff_effect 1 b None (r\<lparr>rs_buffs := insert_buff b (rs_buffs r)\<rparr>))"
proof -
  let ?r = "r\<lparr>rs_buffs := insert_buff b (rs_buffs r)\<rparr>"
  have rd: "base a ?r = base a r" for a by (cases a) simp_all
  show ?thesis using assms(1) fair_new[OF _ _ assms(2), of r] by (simp add: fair_role_def rd)
qed

lemma fair_revival: "fair X pk \<Longrightarrow> fair X (UpdataBuffer_0 i (revival_buff now sk) UPDATABUFFER_ADD (pk_upd i (\<lambda>r. RoleState_Init (clear_buffs r)) pk))"
proof -
  assume f: "fair X pk"
  let ?b = "revival_buff now sk" and ?q = "pk_upd i (\<lambda>r. RoleState_Init (clear_buffs r)) pk"
  have b: "sound_buff ?b" "bf_Type ?b = 3000" by (simp_all add: revival_buff_def sound_buff_def Buff_new_def)
  have q: "fair X ?q" by (rule fair_upd[OF f]) (simp add: fair_Init)
  show ?thesis
  proof (cases "has_role pk i")
    case True
    then have "rs_buffs (pk_role i ?q) = []"
      by (simp add: pk_role_upd has_role_def) (simp add: RoleState_Init_def clear_buffs_def role_upds)
    then have "UpdataBuffer_0 i ?b UPDATABUFFER_ADD ?q =
        pk_upd i (buff_effect 1 ?b None) (pk_upd i (\<lambda>r. r\<lparr>rs_buffs := insert_buff ?b (rs_buffs r)\<rparr>) (send_buff i ?b 1 ?q))"
      by (simp add: UpdataBuffer_0_def UpdataBuffer_with_def add_buff_def b)
    moreover have "fair X (send_buff i ?b 1 ?q)" by (rule fair_frame[OF _ q]) (simp add: send_buff_def Brodacast_Skill_Buffer_def)
    ultimately show ?thesis using b(1) by (auto simp: fair_def find_pk_upd fair_gain)
  next
    case False
    then have "UpdataBuffer_0 i ?b UPDATABUFFER_ADD ?q = UpdataBuffer_0 i ?b UPDATABUFFER_ADD pk"
      "\<And>f q. pk_roles q = pk_roles pk \<Longrightarrow> pk_roles (pk_upd i f q) = pk_roles pk"
      by (simp_all add: missing_upd has_role_def pk_upd_def)
    then have "pk_roles (UpdataBuffer_0 i ?b UPDATABUFFER_ADD ?q) = pk_roles pk"
      by (auto simp: UpdataBuffer_0_def UpdataBuffer_with_def add_buff_def Let_def b send_buff_def Brodacast_Skill_Buffer_def
          split: option.split)
    then show ?thesis using f by (rule fair_frame)
  qed
qed

lemma fair_dead: "fair X pk \<Longrightarrow> fair X (onRoleDead i pk)"
proof -
  assume f: "fair X pk"
  let ?q = "BrodacastDead (rs_RoleID (pk_role i pk)) pk"
  have q: "fair X ?q" by (rule fair_frame[OF _ f]) (simp add: BrodacastDead_def)
  have over: "fair X (CheckOver opp p)" if "fair X p" for opp p
    by (rule fair_frame[OF _ that]) (simp add: CheckOver_def EndGame_def Let_def)
  have dead: "fair X (pk_upd i RoleState_Dead ?q)" by (rule fair_upd[OF q]) (auto intro: fair_fallen)
  have live: "fair X (pk_upd i (\<lambda>r. upd_order f (use_skill k n r)) (Brodacast_Skill a ord p))" if "fair X p" for f k n a ord p
  proof (rule fair_upd)
    show "fair X (Brodacast_Skill a ord p)" by (rule fair_frame[OF _ that]) (simp add: Brodacast_Skill_def)
    show "fair_role (upd_order f (use_skill k n r))" if "fair_role r" for r
      by (rule touched_fair[OF touched_trans[OF touched_hp(8) touched_hp(7)] that])
  qed
  show ?thesis unfolding onRoleDead_def Let_def
    by (auto intro: over dead live fair_revival[simplified] q split: option.split)
qed

interpretation fair: fight_base "fair X" for X
proof
  show "fair X pk'" if "pk_roles pk' = pk_roles pk" "fair X pk" for pk pk' using that by (rule fair_frame)
  show "fair X (pk_upd i g pk)" if "fair X pk" "\<And>r. smap_find i (pk_roles pk) = Some r \<Longrightarrow> touched r (g r)" for pk i g
    by (rule fair_upd[OF that(1)]) (auto intro: touched_fair that(2))
  show "fair X (onRoleDead i pk)" if "fair X pk" for i pk using that by (rule fair_dead)
  show "fair X (pk_upd i (\<lambda>r. r\<lparr>rs_HP := 0, rs_Live := ROLE_STATUS_DEAD\<rparr>) pk)" "fair X (pk_upd i RoleState_Dead pk)"
    if "fair X pk" for i pk by (rule fair_upd[OF that], rule fair_fallen; simp)+
  show "fair X (pk_upd i (\<lambda>r. r\<lparr>rs_Live := ROLE_STATUS_OFFLINE\<rparr>) pk)"
    if "fair X pk" "rs_Live (pk_role i pk) \<noteq> ROLE_STATUS_DEAD" for i pk
    by (rule fair_upd[OF that(1)]) (use that(2) in \<open>auto intro: fair_offline[simplified] simp: pk_role_def\<close>)
  show "fair X (CheckOver opp pk)" if "fair X pk" for opp pk
    by (rule fair_frame[OF _ that]) (simp add: CheckOver_def EndGame_def Let_def)
  show "fair X (pk_insert r pk)" if "fair X pk" "rs_RoleFlag r = RoleType_Call" for r pk
    using that by (auto simp: fair_def pk_insert_def smap fair_role_def split: if_splits)
  show "fair X (pk\<lparr>pk_State := PK_STATE_PKING, pk_now := 0\<rparr>)" if "fair X pk" for pk
    by (rule fair_frame[OF _ that]) simp
qed


section \<open>The end of a buff\<close>

lemma touched_two [simp]: "touched r (r\<lparr>rs_HP := n, rs_MP := m\<rparr>)"
  by (rule touched_same; simp add: touch_simps)

context fight_base
begin

lemma ends: "I pk \<Longrightarrow> I (buff_ends onRoleDead skill_process_209_buffer i b pk)"
  unfolding buff_ends_def Let_def by (auto intro!: dead broadcasts touch' shield)

end

text \<open>What happens to one role leaves the others alone.\<close>

lemma pk_role_frame: "pk_roles q = pk_roles p \<Longrightarrow> pk_stack q = pk_stack p \<Longrightarrow> pk_role i q = pk_role i p"
  by (simp add: pk_role_def split: option.split)

lemma own_role: "has_role pk i \<Longrightarrow> pk_role i (pk_upd i f pk) = f (pk_role i pk)"
  by (simp add: pk_role_upd has_role_def)

lemma pk_role_out [simp]:
  "pk_role i (BrodacastHpChange a n s e pk) = pk_role i pk" "pk_role i (BrodacastDead a pk) = pk_role i pk"
  "pk_role i (Brodacast_Skill a ord pk) = pk_role i pk" "pk_role i (send_buff j b u pk) = pk_role i pk"
  "pk_role i (CheckOver opp pk) = pk_role i pk"
  by (rule pk_role_frame; simp add: BrodacastHpChange_def BrodacastDead_def Brodacast_Skill_def send_buff_def
      Brodacast_Skill_Buffer_def Brodacast_Buffer_Stop_def CheckOver_def EndGame_def Let_def)+

lemma other_role: "i \<noteq> j \<Longrightarrow> pk_role i (pk_upd j g pk) = pk_role i pk"
  by (simp add: pk_role_upd)

lemma other_hurt: "i \<noteq> j \<Longrightarrow> pk_role i (CalculateSkillHurt j lv h e pk) = pk_role i pk"
proof -
  assume ij: "i \<noteq> j"
  have add: "pk_role i (UpdataBuffer_0 j b u q) = pk_role i q" for b u q
    using ij by (auto simp: UpdataBuffer_0_def UpdataBuffer_with_def add_buff_def buff_ends_def Let_def other_role split: option.split)
  have "pk_role i (onRoleDead j q) = pk_role i q" for q
    using ij by (auto simp: onRoleDead_def Let_def other_role add split: option.split)
  then show ?thesis using ij by (simp add: CalculateSkillHurt_def Let_def other_role)
qed

lemma own_shield: "pk_role i (skill_process_209_buffer i b pk) = pk_role i pk"
proof -
  have loop: "(\<And>j pk. pk_role i (f j pk) = pk_role i pk) \<Longrightarrow> pk_role i (fold f js pk) = pk_role i pk"
    for f :: "int \<Rightarrow> pk \<Rightarrow> pk" and js pk
    by (induction js arbitrary: pk) simp_all
  show ?thesis unfolding skill_process_209_buffer_def by (rule loop) (auto simp: Let_def intro!: other_hurt)
qed

text \<open>A role that its buff does not kill keeps what the end of the buff left.\<close>

lemma quiet_end:
  assumes "has_role q i" "own i (buff_ends onRoleDead skill_process_209_buffer i b q) = own i q"
  shows "touched (pk_role i q) (pk_role i (buff_ends onRoleDead skill_process_209_buffer i b q))"
proof -
  have alive: "own i p = own i q \<Longrightarrow> has_role p i \<Longrightarrow> (own i (onRoleDead i p) = own i q) = False" for p
    using dead_clears[of p i] by auto
  have hp: "own i (pk_upd i (\<lambda>r. r\<lparr>rs_HP := n r\<rparr>) p) = own i p" for n p by (rule own_same) simp_all
  show ?thesis using assms unfolding buff_ends_def Let_def
    by (auto simp: own_shield own_role hp alive split: if_splits)
qed


section \<open>Losing and gaining a buff\<close>

lemma shares_mset: "mset bs = mset cs \<Longrightarrow> shares a bs = shares a cs"
  by (metis mset_map shares_def sum_mset_sum_list)

lemma fair_loss:
  assumes "fair_role r" "mset (rs_buffs r) = add_mset b (mset bs)" "touched (buff_effect (- 1) b None r) r'"
  shows "fair_role (r'\<lparr>rs_buffs := bs\<rparr>)"
proof -
  from assms(3) have t: "identity r' = identity r" "rs_Live r' = rs_Live r" "\<And>a. reading a r' = reading a (buff_effect (- 1) b None r)"
    by (simp_all add: touched_def)
  have f: "rs_RoleFlag r' = rs_RoleFlag r" using t(1) by (simp add: identity_def)
  have b: "base a (r'\<lparr>rs_buffs := bs\<rparr>) = base a r" for a using identity_base[of "r'\<lparr>rs_buffs := bs\<rparr>" r] t(1) by simp
  have rd: "reading a (r'\<lparr>rs_buffs := bs\<rparr>) = reading a r'" for a by (cases a) simp_all
  have sh: "shares a (rs_buffs r) = share a b + shares a bs" for a using shares_mset[of "rs_buffs r" "b # bs"] assms(2) by simp
  have eff: "balanced r \<Longrightarrow> reading a r' = short (base a r + shares a bs)" for a
  proof -
    assume bal: "balanced r"
    then have "reading a r = short (reading a r)" by (simp add: balanced_def)
    then have "reading a r' = short (reading a r + share a b * (- 1))" unfolding t(3) by (rule effect_new)
    then show ?thesis using bal unfolding balanced_def sh by (simp add: short_diff)
  qed
  have "set bs \<subseteq> set (rs_buffs r)" using arg_cong[OF assms(2), of set_mset] by auto
  then show ?thesis using assms(1) eff by (auto simp: fair_role_def balanced_def b rd f t(2))
qed

lemma fair_end:
  assumes "fair {} pk" shows "fair {i} (UpdataBuffer i b UPDATABUFFER_DEL pk)"
proof -
  have "fair {i} (pk_upd i (buff_effect UPDATABUFFER_DEL b None) (send_buff i b UPDATABUFFER_DEL pk))"
    by (rule fair_upd[OF fair.send[OF fair_mono[OF assms]]]) simp
  from fair.ends[OF this] show ?thesis by (simp add: UpdataBuffer_def UpdataBuffer_with_def)
qed

lemma fair_at: "fair {i} pk \<Longrightarrow> (\<And>r. smap_find i (pk_roles pk) = Some r \<Longrightarrow> fair_role r) \<Longrightarrow> fair {} pk"
  unfolding fair_def by (metis empty_iff singletonD)

lemma fair_found: "fair {} pk \<Longrightarrow> has_role pk i \<Longrightarrow> fair_role (pk_role i pk)"
  by (auto simp: fair_def has_role_def pk_role_def)

interpretation fair: fight_lose "fair {}"
proof
  fix pk :: pk and i b bs
  assume f: "fair {} pk" and i: "has_role pk i"
  let ?q = "pk_upd i (buff_effect UPDATABUFFER_DEL b None) (send_buff i b UPDATABUFFER_DEL pk)"
  let ?p = "UpdataBuffer i b UPDATABUFFER_DEL pk"
  have p: "?p = buff_ends onRoleDead skill_process_209_buffer i b ?q" by (simp add: UpdataBuffer_def UpdataBuffer_with_def)
  have "fair {i} ?p" by (rule fair_end[OF f])
  then have others: "fair {i} (pk_upd i g ?p)" for g by (rule fair_upd) simp
  have role: "has_role ?p i" "has_role ?q i" using i by simp_all
  show "fair {} (pk_upd i (\<lambda>r. r\<lparr>rs_buffs := bs\<rparr>) ?p)"
    if "mset (rs_buffs (pk_role i pk)) = add_mset b (mset bs)" "own i ?p = own i pk"
  proof (rule fair_at[OF others])
    have "own i ?q = own i pk" by (simp add: own_same)
    with quiet_end[OF role(2)] that(2) p have "touched (pk_role i ?q) (pk_role i ?p)" by simp
    then have "touched (buff_effect (- 1) b None (pk_role i pk)) (pk_role i ?p)" using i by (simp add: own_role)
    from fair_loss[OF fair_found[OF f i] that(1) this] have "fair_role ((pk_role i ?p)\<lparr>rs_buffs := bs\<rparr>)" .
    then show "fair_role r" if "smap_find i (pk_roles (pk_upd i (\<lambda>r. r\<lparr>rs_buffs := bs\<rparr>) ?p)) = Some r" for r
      using that by (auto simp: find_pk_upd pk_role_def)
  qed
  show "fair {} ?p" if "rs_Live (pk_role i ?p) = ROLE_STATUS_DEAD"
  proof (rule fair_at[OF \<open>fair {i} ?p\<close>])
    have "identity (pk_role i ?p) = identity (pk_role i pk)"
      using role_id_buff[of i i b UPDATABUFFER_DEL pk] i role(1) by (auto simp: role_id_def has_role_def pk_role_def)
    then have "fair_role (pk_role i ?p)" using that by (intro fair_fallen[OF fair_found[OF f i]])
    then show "fair_role r" if "smap_find i (pk_roles ?p) = Some r" for r using that by (simp add: pk_role_def)
  qed
  show "fair {} (pk_upd i (\<lambda>r. r\<lparr>rs_buffs := bs\<rparr>) pk)"
    if m: "mset (rs_buffs (pk_role i pk)) = add_mset b (mset bs)" and b: "bf_ParentSkill b = 209"
  proof (rule fair_upd[OF f])
    fix r assume r: "smap_find i (pk_roles pk) = Some r" "fair_role r"
    then have m: "mset (rs_buffs r) = add_mset b (mset bs)" using m by (simp add: pk_role_def)
    have sh: "shares a (rs_buffs r) = share a b + shares a bs" for a using shares_mset[of "rs_buffs r" "b # bs"] m by simp
    have "b \<in> set (rs_buffs r)" "set bs \<subseteq> set (rs_buffs r)" using arg_cong[OF m, of set_mset] by auto
    moreover have "share a b = 0" if "sound_buff b" for a
      using that b by (cases a) (simp_all add: sound_buff_def by_skill_def casting_def)
    moreover have "base a (r\<lparr>rs_buffs := bs\<rparr>) = base a r" "reading a (r\<lparr>rs_buffs := bs\<rparr>) = reading a r" for a
      by (cases a; simp)+
    ultimately show "fair_role (r\<lparr>rs_buffs := bs\<rparr>)" using r(2) sh by (simp add: fair_role_def balanced_def subset_iff)
  qed
qed


lemma buff_slot_Some: "buff_slot b bs = Some k \<Longrightarrow> k < length bs \<and> same_buff b (bs ! k)"
  by (induction bs arbitrary: k) (auto split: if_splits)

lemma renewed_kind: "bf_Type (renewed b c) = bf_Type c" "bf_ParentSkill (renewed b c) = bf_ParentSkill c"
  by (simp_all add: renewed_def)

lemma fair_renewal:
  assumes "fair_role r" "k < length (rs_buffs r)" "same_buff b c" "\<not> by_skill 236 b"
    "touched_buff c (rs_buffs r ! k)" "sound_buff b"
  shows "fair_role ((buff_effect 1 b (Some c) r)\<lparr>rs_buffs := (rs_buffs r)[k := renewed b (rs_buffs r ! k)]\<rparr>)"
proof -
  let ?c = "rs_buffs r ! k" and ?e = "buff_effect 1 b (Some c) r"
  let ?r = "?e\<lparr>rs_buffs := (rs_buffs r)[k := renewed b ?c]\<rparr>"
  have b: "base a ?r = base a r" for a using identity_base[of ?r r] by simp
  have rd: "reading a ?r = reading a ?e" for a by (cases a) simp_all
  have kind: "bf_Type c = bf_Type b" "bf_ParentSkill c = bf_ParentSkill b" using assms(3) unfolding same_buff_def by metis+
  have same: "same_buff b ?c" using assms(3,5) unfolding same_buff_def touched_buff_def by metis
  have c: "sound_buff c" using kind assms(6) unfolding sound_buff_def by metis
  then have old: "share a ?c = share a c" for a using assms(5) unfolding touched_buff_def by metis
  have sound: "sound_buff (renewed b ?c)"
    using same assms(6) unfolding sound_buff_def renewed_kind same_buff_def by metis
  have sh: "shares a ((rs_buffs r)[k := renewed b ?c]) = shares a (rs_buffs r) - share a c + share a b" for a
    using assms(2) by (simp add: shares_update old share_renewed[OF same])
  have eff: "balanced r \<Longrightarrow> reading a ?e = short (base a r + shares a ((rs_buffs r)[k := renewed b ?c]))" for a
  proof -
    assume bal: "balanced r"
    then have "reading a r = short (reading a r)" by (simp add: balanced_def)
    then have e: "reading a ?e = short (reading a r - share a c + share a b)" by (rule effect_renew[OF _ assms(3,4)])
    have "reading a r = short (base a r + shares a (rs_buffs r))" using bal by (simp add: balanced_def)
    then show "reading a ?e = short (base a r + shares a ((rs_buffs r)[k := renewed b ?c]))"
      using short_add[of "base a r + shares a (rs_buffs r)" "share a b - share a c"] unfolding e sh by (simp add: algebra_simps)
  qed
  have "\<forall>d \<in> set ((rs_buffs r)[k := renewed b ?c]). sound_buff d" if "\<forall>d \<in> set (rs_buffs r). sound_buff d"
    using that sound set_update_subset_insert[of "rs_buffs r" k "renewed b ?c"] by auto
  then show ?thesis using assms(1) eff by (simp add: fair_role_def balanced_def b rd)
qed

interpretation fair: fight_invariant "fair {}"
proof
  fix pk :: pk and i b
  assume f: "fair {} pk" and i: "has_role pk i" and b: "\<not> by_skill 236 b" "sound_buff b"
  let ?bs = "rs_buffs (pk_role i pk)"
  have new: "fair {} (pk_upd i (buff_effect 1 b None) (pk_upd i (\<lambda>r. r\<lparr>rs_buffs := insert_buff b (rs_buffs r)\<rparr>) q))"
    if "fair {} q" for q
    using that fair_gain[OF _ b(2)] by (auto simp: fair_def find_pk_upd)
  have brk: "fair {} (breakLastSkill i (send_buff i b 1 pk))" by (rule fair.break[OF fair.send[OF f]]) (simp add: i)
  show "fair {} (UpdataBuffer i b UPDATABUFFER_ADD pk)"
  proof (cases "if bf_Type b \<noteq> BUFFER_TYPE_HP \<and> bf_Type b \<noteq> BUFFER_TYPE_MP then buff_slot b ?bs else None")
    case None
    then show ?thesis using new[OF brk] new[OF fair.send[OF f]]
      by (simp add: UpdataBuffer_def UpdataBuffer_with_def add_buff_def)
  next
    case (Some k)
    then have slot: "k < length ?bs" "same_buff b (?bs ! k)" using buff_slot_Some by (metis option.distinct(1))+
    let ?c = "?bs ! k"
    let ?p = "pk_upd i (\<lambda>r. r\<lparr>rs_buffs := (rs_buffs r)[k := ?c\<lparr>bf_EndTime := bf_EndTime b\<rparr>]\<rparr>) pk"
    have p: "fair {} ?p"
      by (rule fair.touch[OF f]) (auto simp: pk_role_def intro!: touched_set)
    have "fair {} (pk_upd i (\<lambda>r. (buff_effect 1 b (Some ?c) r)\<lparr>rs_buffs := (rs_buffs r)[k := renewed b (rs_buffs r ! k)]\<rparr>)
        (send_buff i b 1 ?p))"
    proof (rule fair_upd[OF fair.send[OF p]])
      fix r assume r: "smap_find i (pk_roles (send_buff i b 1 ?p)) = Some r" "fair_role r"
      have "pk_roles (send_buff i b 1 ?p) = pk_roles ?p"
        by (simp add: send_buff_def Brodacast_Skill_Buffer_def)
      then have "r = pk_role i ?p" using r(1) by (simp add: pk_role_def)
      then have "rs_buffs r = ?bs[k := ?c\<lparr>bf_EndTime := bf_EndTime b\<rparr>]" using i by (simp add: own_role)
      then show "fair_role ((buff_effect 1 b (Some ?c) r)\<lparr>rs_buffs := (rs_buffs r)[k := renewed b (rs_buffs r ! k)]\<rparr>)"
        using slot b by (intro fair_renewal[OF r(2)]) simp_all
    qed
    then show ?thesis using Some f fair.send[OF p] by (simp add: UpdataBuffer_def UpdataBuffer_with_def Let_def)
  qed
qed

end
