(* ===== verification/Pk_Report.thy ===== *)
theory Pk_Report
  imports Pk_Fair
begin

text \<open>
  The third invariant of a fight: the main server is told once that it is over.  \<open>CheckOver\<close> is
  the only operation that ends a fight, and it does nothing when the fight has ended.
\<close>

section \<open>One report\<close>

definition reported :: "pk \<Rightarrow> bool" where
  "reported pk \<longleftrightarrow> (if pk_State pk = PK_STATE_OVER then length (pk_end pk) = of_bool (pk_ge_up pk) else pk_end pk = [])"

lemma reported_frame:
  "pk_State pk' = pk_State pk \<Longrightarrow> pk_end pk' = pk_end pk \<Longrightarrow> pk_ge_up pk' = pk_ge_up pk \<Longrightarrow> reported pk' = reported pk"
  unfolding reported_def by simp

lemma reported_upd [simp]: "reported (pk_upd i g pk) = reported pk"
  by (rule reported_frame) simp_all

lemma reported_out [simp]:
  "reported (pk_broadcast ty body pk) = reported pk" "reported (send_buff i b u pk) = reported pk"
  "reported (BrodacastHpChange a n s e pk) = reported pk" "reported (BrodacastDead a pk) = reported pk"
  "reported (Brodacast_Skill a ord pk) = reported pk" "reported (stop_buff i b pk) = reported pk"
  by (rule reported_frame; simp add: send_buff_def Brodacast_Skill_Buffer_def Brodacast_Buffer_Stop_def stop_buff_def
      BrodacastHpChange_def BrodacastDead_def Brodacast_Skill_def)+

lemma reported_over: "reported pk \<Longrightarrow> reported (CheckOver opp pk)"
  unfolding CheckOver_def EndGame_def Let_def by (simp add: reported_def)

lemma reported_ends:
  assumes "\<And>i pk. reported pk \<Longrightarrow> reported (die i pk)" "\<And>i b pk. reported pk \<Longrightarrow> reported (shield i b pk)" "reported pk"
  shows "reported (buff_ends die shield i b pk)"
  unfolding buff_ends_def Let_def using assms by simp

lemma reported_with:
  assumes "\<And>i pk. reported pk \<Longrightarrow> reported (die i pk)" "\<And>i pk. reported pk \<Longrightarrow> reported (brk i pk)"
    "\<And>i b pk. reported pk \<Longrightarrow> reported (shield i b pk)" "reported pk"
  shows "reported (UpdataBuffer_with die brk shield i b u pk)"
  unfolding UpdataBuffer_with_def add_buff_def Let_def
  using assms(2,4) by (auto intro!: reported_ends assms(1,3) split: option.split)

lemma reported_0: "reported pk \<Longrightarrow> reported (UpdataBuffer_0 i b u pk)"
  unfolding UpdataBuffer_0_def by (rule reported_with) simp_all

lemma reported_dead: "reported pk \<Longrightarrow> reported (onRoleDead i pk)"
  unfolding onRoleDead_def Let_def by (simp add: reported_over reported_0 split: option.split)

lemma reported_fold: "(\<And>i pk. reported pk \<Longrightarrow> reported (f i pk)) \<Longrightarrow> reported pk \<Longrightarrow> reported (fold f is pk)"
  by (induction "is" arbitrary: pk) simp_all

lemma reported_break: "reported pk \<Longrightarrow> reported (breakLastSkill i pk)"
  unfolding breakLastSkill_def erase_buff_def by (rule reported_fold) (simp_all add: reported_0)

lemma reported_shield: "reported pk \<Longrightarrow> reported (skill_process_209_buffer i b pk)"
  unfolding skill_process_209_buffer_def CalculateSkillHurt_def by (rule reported_fold) (simp_all add: Let_def reported_dead)

lemma reported_buff: "reported pk \<Longrightarrow> reported (UpdataBuffer i b u pk)"
  unfolding UpdataBuffer_def by (rule reported_with) (simp_all add: reported_dead reported_break reported_shield)

interpretation report: fight_invariant reported
proof
  show "reported (pk\<lparr>pk_State := PK_STATE_PKING, pk_now := 0\<rparr>)" if "reported pk" "pk_State pk = PK_STATE_READY" for pk
    using that by (simp add: reported_def)
  show "reported pk'" if "pk_State pk' = pk_State pk" "pk_end pk' = pk_end pk" "pk_ge_up pk' = pk_ge_up pk" "reported pk" for pk pk'
    using that reported_frame by metis
  show "reported (pk_insert r pk)" if "reported pk" for r pk
    using that by (simp add: pk_insert_def reported_def)
qed (simp_all add: reported_over reported_dead reported_buff)

end
