(* ===== verification/Pk_Typed.thy ===== *)
theory Pk_Typed
  imports Pk_Report
begin

text \<open>
  The well-formedness of the state of a fight as a fourth invariant: the table of roles is ordered, a role
  is stored under its identifier, and its buffs are ordered by their type, the order in which a multimap
  is visited.
\<close>

section \<open>Well-formed fights\<close>

definition typed_role :: "int \<Rightarrow> role_state \<Rightarrow> bool" where
  "typed_role i r \<longleftrightarrow> rs_RoleID r = i \<and> sorted (map bf_Type (rs_buffs r))"

definition typed :: "pk \<Rightarrow> bool" where
  "typed pk \<longleftrightarrow> smap_ok (pk_roles pk) \<and> (\<forall>i r. smap_find i (pk_roles pk) = Some r \<longrightarrow> typed_role i r)"

lemma typed_frame: "pk_roles pk' = pk_roles pk \<Longrightarrow> typed pk' = typed pk"
  by (simp add: typed_def)

lemma typed_upd:
  assumes "typed pk" "\<And>r. smap_find i (pk_roles pk) = Some r \<Longrightarrow> typed_role i r \<Longrightarrow> typed_role i (g r)"
  shows "typed (pk_upd i g pk)"
proof -
  have "smap_ok (pk_roles (pk_upd i g pk))"
    using assms(1) by (auto simp: pk_upd_def typed_def smap_ok_put split: option.split)
  then show ?thesis using assms by (auto simp: typed_def find_pk_upd split: if_splits)
qed

lemma typed_out [simp]:
  "typed (pk_broadcast ty body pk) = typed pk" "typed (send_buff i b u pk) = typed pk"
  "typed (BrodacastHpChange a n s e pk) = typed pk" "typed (BrodacastDead a pk) = typed pk"
  "typed (Brodacast_Skill a ord pk) = typed pk" "typed (stop_buff i b pk) = typed pk" "typed (CheckOver opp pk) = typed pk"
  by (rule typed_frame; simp add: send_buff_def Brodacast_Skill_Buffer_def Brodacast_Buffer_Stop_def stop_buff_def
      BrodacastHpChange_def BrodacastDead_def Brodacast_Skill_def CheckOver_def EndGame_def Let_def)+

lemma typed_role_simps [simp]:
  "typed_role i (r\<lparr>rs_HP := n\<rparr>) = typed_role i r" "typed_role i (r\<lparr>rs_HP := n, rs_MP := m\<rparr>) = typed_role i r"
  "typed_role i (buff_effect u b old r) = typed_role i r" "typed_role i (upd_order f r) = typed_role i r"
  "typed_role i (use_skill k t r) = typed_role i r" "typed_role i (r\<lparr>rs_Live := k\<rparr>) = typed_role i r"
  "typed_role i (r\<lparr>rs_HP := n, rs_Live := k\<rparr>) = typed_role i r"
  by (simp_all add: typed_role_def use_skill_def role_upds)

lemma typed_id: "typed_role i r \<Longrightarrow> rs_RoleID r = i"
  by (simp add: typed_role_def)

lemma typed_cleared [simp]:
  "typed_role i (RoleState_Init (clear_buffs r)) = (rs_RoleID r = i)" "typed_role i (RoleState_Dead r) = (rs_RoleID r = i)"
  by (simp_all add: typed_role_def RoleState_Dead_def RoleState_Init_def clear_buffs_def role_upds)

lemma typed_replaced: "typed_role i r \<Longrightarrow> k < length (rs_buffs r) \<Longrightarrow> bf_Type b = bf_Type (rs_buffs r ! k) \<Longrightarrow>
    sorted (map bf_Type ((rs_buffs r)[k := b]))"
  by (metis list_update_id map_update nth_map typed_role_def)

lemma typed_touched: "touched r r' \<Longrightarrow> typed_role i r \<Longrightarrow> typed_role i r'"
proof -
  assume t: "touched r r'" and r: "typed_role i r"
  have "map bf_Type (rs_buffs r') = map bf_Type (rs_buffs r)"
    using t by (auto simp: touched_def touched_buff_def list_all2_conv_all_nth intro!: nth_equalityI)
  then show ?thesis using t r by (simp add: typed_role_def touched_def identity_def)
qed

lemma typed_ends:
  assumes "\<And>i pk. typed pk \<Longrightarrow> typed (die i pk)" "\<And>i b pk. typed pk \<Longrightarrow> typed (shield i b pk)" "typed pk"
  shows "typed (buff_ends die shield i b pk)"
  unfolding buff_ends_def Let_def using assms(3) by (auto intro!: assms(1,2) typed_upd)

lemma typed_with:
  assumes "\<And>i pk. typed pk \<Longrightarrow> typed (die i pk)" "\<And>i pk. typed pk \<Longrightarrow> typed (brk i pk)"
    "\<And>i b pk. typed pk \<Longrightarrow> typed (shield i b pk)" "typed pk"
  shows "typed (UpdataBuffer_with die brk shield i b u pk)"
proof (cases "u = UPDATABUFFER_ADD")
  case False
  have "typed (pk_upd i (buff_effect u b None) (send_buff i b u pk))" by (rule typed_upd) (use assms(4) in simp_all)
  then show ?thesis using False typed_ends[of die shield, OF assms(1,3)] by (simp add: UpdataBuffer_with_def)
next
  case add: True
  show ?thesis
  proof (cases "if bf_Type b \<noteq> BUFFER_TYPE_HP \<and> bf_Type b \<noteq> BUFFER_TYPE_MP then buff_slot b (rs_buffs (pk_role i pk)) else None")
    case None
    have "typed (add_buff brk i b (send_buff i b u pk))" unfolding add_buff_def Let_def
      by (rule typed_upd) (use assms(2,4) in \<open>auto simp: typed_role_def insert_sorted\<close>)
    then have "typed (pk_upd i (buff_effect u b None) (add_buff brk i b (send_buff i b u pk)))" by (rule typed_upd) simp
    with None add show ?thesis by (simp add: UpdataBuffer_with_def)
  next
    case (Some k)
    let ?bs = "rs_buffs (pk_role i pk)"
    from Some have slot: "k < length ?bs" "same_buff b (?bs ! k)" using buff_slot_Some by (metis option.distinct(1))+
    let ?c = "?bs ! k"
    let ?g = "\<lambda>r. r\<lparr>rs_buffs := (rs_buffs r)[k := ?c\<lparr>bf_EndTime := bf_EndTime b\<rparr>]\<rparr>"
    let ?p = "send_buff i b u (pk_upd i ?g pk)"
    have "typed (pk_upd i ?g pk)"
    proof (rule typed_upd[OF assms(4)])
      fix r assume "smap_find i (pk_roles pk) = Some r" "typed_role i r"
      then show "typed_role i (?g r)" using slot typed_replaced[of i r k "?c\<lparr>bf_EndTime := bf_EndTime b\<rparr>"]
        by (simp add: typed_role_def pk_role_def)
    qed
    then have p: "typed ?p" by simp
    have "typed (pk_upd i (\<lambda>r. (buff_effect u b (Some ?c) r)\<lparr>rs_buffs := (rs_buffs r)[k := renewed b (rs_buffs r ! k)]\<rparr>) ?p)"
    proof (rule typed_upd[OF p])
      fix r assume r: "typed_role i r"
      then show "typed_role i ((buff_effect u b (Some ?c) r)\<lparr>rs_buffs := (rs_buffs r)[k := renewed b (rs_buffs r ! k)]\<rparr>)"
        by (cases "k < length (rs_buffs r)")
          (simp_all add: typed_role_def list_update_beyond typed_replaced[OF r] renewed_kind)
    qed
    then show ?thesis using Some add p assms(4) by (simp add: UpdataBuffer_with_def Let_def)
  qed
qed

lemma typed_0: "typed pk \<Longrightarrow> typed (UpdataBuffer_0 i b u pk)"
  unfolding UpdataBuffer_0_def by (rule typed_with) simp_all

lemma typed_dead: "typed pk \<Longrightarrow> typed (onRoleDead i pk)"
  unfolding onRoleDead_def Let_def
  by (auto intro!: typed_upd typed_0 simp: typed_id split: option.split)

lemma typed_fold: "(\<And>i pk. typed pk \<Longrightarrow> typed (f i pk)) \<Longrightarrow> typed pk \<Longrightarrow> typed (fold f is pk)"
  by (induction "is" arbitrary: pk) simp_all

lemma typed_break: "typed pk \<Longrightarrow> typed (breakLastSkill i pk)"
  unfolding breakLastSkill_def erase_buff_def
  by (rule typed_fold) (auto intro!: typed_upd typed_0 simp: typed_role_def sorted_map_remove1)

lemma typed_shield: "typed pk \<Longrightarrow> typed (skill_process_209_buffer i b pk)"
  unfolding skill_process_209_buffer_def CalculateSkillHurt_def
  by (rule typed_fold) (auto simp: Let_def intro!: typed_dead typed_upd)

lemma typed_buff: "typed pk \<Longrightarrow> typed (UpdataBuffer i b u pk)"
  unfolding UpdataBuffer_def by (rule typed_with) (simp_all add: typed_dead typed_break typed_shield)

interpretation typed: fight_invariant typed
proof
  fix pk :: pk and i and b :: buff and bs
  assume I: "typed pk"
  show "typed (pk_insert r pk)" if "sorted (map bf_Type (rs_buffs r))" for r
    using I that by (auto simp: typed_def pk_insert_def smap typed_role_def split: if_splits)
  show "typed (pk_upd i g pk)" if "\<And>r. smap_find i (pk_roles pk) = Some r \<Longrightarrow> touched r (g r)" for g
    by (rule typed_upd[OF I]) (auto intro: typed_touched that)
  have del: "typed (pk_upd i (\<lambda>r. r\<lparr>rs_buffs := bs\<rparr>) q)"
    if "has_role pk i" "sorted (map bf_Type (rs_buffs (pk_role i pk))) \<Longrightarrow> sorted (map bf_Type bs)" "typed q" for q
  proof (rule typed_upd[OF that(3)])
    have "sorted (map bf_Type (rs_buffs (pk_role i pk)))"
      using I that(1) by (auto simp: typed_def typed_role_def has_role_def pk_role_def)
    then show "typed_role i (r\<lparr>rs_buffs := bs\<rparr>)" if "typed_role i r" for r
      using that \<open>_ \<Longrightarrow> sorted (map bf_Type bs)\<close> by (simp add: typed_role_def)
  qed
  show "typed (pk_upd i (\<lambda>r. r\<lparr>rs_buffs := bs\<rparr>) (UpdataBuffer i b UPDATABUFFER_DEL pk))"
    "typed (pk_upd i (\<lambda>r. r\<lparr>rs_buffs := bs\<rparr>) pk)"
    if "has_role pk i" "sorted (map bf_Type (rs_buffs (pk_role i pk))) \<Longrightarrow> sorted (map bf_Type bs)"
    using that by (auto intro!: del typed_buff I)
  show "typed (pk\<lparr>pk_State := PK_STATE_PKING, pk_now := 0\<rparr>)" using I by (simp add: typed_def)
  show "typed pk'" if "pk_roles pk' = pk_roles pk" for pk' using that I typed_frame by metis
qed (auto intro!: typed_upd typed_dead typed_buff simp: typed_id)

end
