(* ===== verification/Pk_Server.thy ===== *)
theory Pk_Server
  imports Pk_Run
begin

text \<open>
  The fight server around its fights: \<^verbatim>\<open>PK_PE::Init\<close> of
  \<^verbatim>\<open>PkServer/PK_thread.cpp\<close>, which reads the request for a new fight, and
  \<^verbatim>\<open>PkServer/PK_main_thread.cpp\<close>, which cuts the messages of a connection and gives
  orders to the fights.  The threads of the fights and the clock are events of the server
  (\<open>server_event\<close>), one after the other; sockets, the poll array and the logs are left out.

  The tables of the configuration are the parameter \<open>opt\<close>.  \<open>None\<close> is what the code does not
  survive: a message of more than 1839 bytes overruns the buffer \<^verbatim>\<open>broadcast_begin\<close>, and
  an offset beyond 32767 does not fit its \<^verbatim>\<open>short\<close>.
\<close>

section \<open>The request for a fight\<close>

record skill_desc =
  sd_DoingTime :: int
  sd_Area :: int
  sd_MP :: "int list"
  sd_SkillCD :: "int list"

record pk_options =
  opt_maps :: "(int, int \<times> int) smap"
  opt_skills :: "(int, skill_desc) smap"
  opt_srv_req :: int
  opt_bufsize :: int

text \<open>Integers of a message at an offset.\<close>

definition int2 :: "u8 list \<Rightarrow> int \<Rightarrow> int" where
  "int2 m n = short (int_of_bytes (take 2 (drop (nat n) m)))"
definition uint2 :: "u8 list \<Rightarrow> int \<Rightarrow> int" where
  "uint2 m n = int_of_bytes (take 2 (drop (nat n) m))"
definition int4 :: "u8 list \<Rightarrow> int \<Rightarrow> int" where
  "int4 m n = wrap32 (int_of_bytes (take 4 (drop (nat n) m)))"
definition uint4 :: "u8 list \<Rightarrow> int \<Rightarrow> int" where
  "uint4 m n = int_of_bytes (take 4 (drop (nat n) m))"
definition int1 :: "u8 list \<Rightarrow> int \<Rightarrow> int" where
  "int1 m n = (int_of_bytes (take 1 (drop (nat n) m)) + 128) mod 256 - 128"

text \<open>The corner of the fight on the map, moved so that the fight is inside the map.\<close>

definition place_y :: "int \<Rightarrow> int \<Rightarrow> int" where
  "place_y height y = (if height - (y - 15) < MAP_SIZE_Y then short (height - 1 - MAP_SIZE_Y + 15) else if y < 15 then 15 else y)"

definition place_x :: "int \<Rightarrow> int \<Rightarrow> int" where
  "place_x width x = (if width - (x - 25) < MAP_SIZE_X then short (width - 1 - MAP_SIZE_X + 25) else if x < 25 then 25 else x)"

text \<open>The time between two attacks in tenths of a second, \<^verbatim>\<open>40.0 / (1.0 + sqrt(base) / 20.0)\<close>
  cut to an integer: the greatest \<open>n\<close> with \<open>n * (20 + sqrt base) \<le> 800\<close>.  The \<^verbatim>\<open>double\<close>
  computation gives the same number for every \<^verbatim>\<open>short\<close> that is not negative; for a negative
  one it gives 0, the low half of the x86 conversion of a NaN.\<close>

definition attack_cd :: "int \<Rightarrow> int" where
  "attack_cd b = (if b < 0 then 0
     else int (fold (\<lambda>n best. if (800 - 20 * int n)\<^sup>2 \<ge> b * (int n)\<^sup>2 then n else best) [1..<41] 0))"

text \<open>The fixed part of a role, 59 bytes.\<close>

definition read_role :: "u8 list \<Rightarrow> int \<Rightarrow> role_state \<Rightarrow> role_state" where
  "read_role m o' r =
     upd_magic (\<lambda>g. g\<lparr>mg_MagicArmor_Base := int2 m (o' + 51)\<rparr>)
     (upd_phys (\<lambda>p. p\<lparr>ph_AttackPowerHign_Base := int2 m (o' + 31), ph_AttackPowerLow_Base := int2 m (o' + 33),
        ph_AttackArea := int2 m (o' + 35), ph_AttackCDTime_Base := attack_cd (int2 m (o' + 37)),
        ph_AttackIngTime := int2 m (o' + 39), ph_AttackBulletMod := int2 m (o' + 41), ph_AttackHit_Base := int2 m (o' + 43),
        ph_DefenseMiss_Base := int2 m (o' + 45), ph_AttackCrit_Base := int2 m (o' + 47),
        ph_DefenseArmor_Base := int2 m (o' + 49)\<rparr>)
     (upd_move (\<lambda>v. v\<lparr>mv_SpeedMod_Base := int2 m (o' + 24), mv_CurrentPos := \<lparr>posX = int2 m (o' + 26), posY = int2 m (o' + 28)\<rparr>,
        mv_Direct := int1 m (o' + 30)\<rparr>)
     (r\<lparr>rs_ControlID := int4 m o', rs_RoleID := int4 m (o' + 4), rs_Level := int2 m (o' + 8), rs_Opposition := int1 m (o' + 10),
        rs_RoleFlag := int1 m (o' + 11), rs_RoleType := int4 m (o' + 12), rs_HP_MAX := int2 m (o' + 16),
        rs_MP_MAX := int2 m (o' + 18), rs_HP := int2 m (o' + 20), rs_MP := int2 m (o' + 22),
        rs_Strength := int2 m (o' + 53), rs_Agile := int2 m (o' + 55), rs_Wisdom := int2 m (o' + 57)\<rparr>)))"

text \<open>\<open>o'\<close> is \<^verbatim>\<open>current_input_length\<close>.\<close>

fun read_skills :: "pk_options \<Rightarrow> u8 list \<Rightarrow> int \<Rightarrow> nat \<Rightarrow> int \<Rightarrow> (int, skill_attr) smap \<Rightarrow> ((int \<times> (int, skill_attr) smap) option) option" where
  "read_skills opt m len 0 o' sks = Some (Some (o', sks))"
| "read_skills opt m len (Suc n) o' sks =
     (let k = int2 m o'; level = int1 m (o' + 2)
      in if len - o' < 3 then Some None
         else if 32767 < o' + 3 then None
         else if 6 < level \<or> level < 1 then Some None
         else case smap_find k (opt_skills opt) of
                None \<Rightarrow> Some None
              | Some sd \<Rightarrow>
                  let sk = \<lparr>sk_SkillLevel = level, sk_DoingTime = sd_DoingTime sd, sk_Area = sd_Area sd,
                             sk_MP = sd_MP sd ! nat (level - 1), sk_SkillCD = sd_SkillCD sd ! nat (level - 1), sk_LastUseTime = 0\<rparr>
                  in read_skills opt m len n (o' + 3) (smap_insert k sk sks))"

text \<open>A place that is not free is corrected in the message, too.\<close>

definition read_one :: "pk_options \<Rightarrow> u8 list \<Rightarrow> int \<Rightarrow> int \<Rightarrow> pk \<Rightarrow> ((int \<times> u8 list \<times> pk) option) option" where
  "read_one opt m len o' pk =
     (if len - o' < 61 then Some None
      else if 32767 < o' + 61 then None
      else let r0 = read_role m o' (fresh_role pk); p = pos_of r0
           in if \<not> on_map p then Some None
              else let q = (if free_cell pk p then p else GetEmptyPos pk p (mv_Direct (rs_move r0)));
                       m1 = (if free_cell pk p then m
                             else m[nat (o' + 26) := of_int (posX q), nat (o' + 28) := of_int (posY q)]);
                       r1 = upd_move (\<lambda>v. v\<lparr>mv_CurrentPos := q\<rparr>) r0
                   in do {
                     res \<leftarrow> read_skills opt m1 len (nat (uint2 m1 (o' + 59))) (o' + 61) [];
                     Some (case res of
                             None \<Rightarrow> None
                           | Some (o1, sks) \<Rightarrow>
                               Some (o1, m1, pk_insert (RoleState_Init (upd_magic (\<lambda>g. g\<lparr>mg_SkillMap := sks\<rparr>) r1)) pk))
                   })"

fun read_roles :: "pk_options \<Rightarrow> u8 list \<Rightarrow> int \<Rightarrow> nat \<Rightarrow> int \<Rightarrow> pk \<Rightarrow> ((u8 list \<times> pk) option) option" where
  "read_roles opt m len 0 o' pk = Some (Some (m, pk))"
| "read_roles opt m len (Suc n) o' pk = do {
     res \<leftarrow> read_one opt m len o' pk;
     case res of None \<Rightarrow> Some None | Some (o1, m1, pk1) \<Rightarrow> read_roles opt m1 len n o1 pk1
   }"

text \<open>The announcement of a fight: the length in its header is four bytes more than what is
  copied.\<close>

definition ready_body :: "pk_options \<Rightarrow> u8 list \<Rightarrow> int \<Rightarrow> int \<Rightarrow> int \<Rightarrow> int \<Rightarrow> u8 list" where
  "ready_body opt m len key x y =
     bytes_of_int 4 key @ bytes_of_int 2 x @ bytes_of_int 2 y @ bytes_of_int 1 (opt_srv_req opt) @
     take (nat (len - 10)) (drop 10 m) @ replicate 4 0"

text \<open>A new object of \<^verbatim>\<open>PK_PE\<close>; what its constructor does not set is \<open>junk\<close>.  The thread that
  \<^verbatim>\<open>Init\<close> starts sets the state and the clock.\<close>

definition PK_PE_new :: "pk \<Rightarrow> pk" where
  "PK_PE_new junk = junk\<lparr>pk_State := PK_STATE_INIT, pk_roles := [], pk_bullets := [], pk_skill_order_list := [],
     pk_Orders := [], pk_out := [], pk_end := [],
     pk_map_base := (\<lambda>y x. if 0 \<le> y \<and> y < MAP_SIZE_Y \<and> 0 \<le> x \<and> x < MAP_SIZE_X then 0 else pk_map_base junk y x)\<rparr>"

definition pk_Init :: "pk_options \<Rightarrow> u8 list \<Rightarrow> int \<Rightarrow> pk \<Rightarrow> (pk option) option" where
  "pk_Init opt m len pk =
     (if len < 8 then Some None
      else let key = uint4 m 0; map_id = uint2 m 4; pk0 = pk\<lparr>pk_ID := key, pk_map_id := map_id\<rparr>
           in case smap_find map_id (opt_maps opt) of
                None \<Rightarrow> Some None
              | Some (width, height) \<Rightarrow>
                  let x = place_x width (int2 m 6); y = place_y height (int2 m 8);
                      pk1 = pk0\<lparr>pk_map_base := (\<lambda>v u. if 5 \<le> v \<and> v < MAP_SIZE_Y \<and> 0 \<le> u \<and> u < MAP_SIZE_X then 1 else pk_map_base pk0 v u)\<rparr>
                  in do {
                    res \<leftarrow> read_roles opt m len (nat (int2 m 10)) 12 pk1;
                    case res of
                      None \<Rightarrow> Some None
                    | Some (m1, pk2) \<Rightarrow>
                        if len < 10 \<or> 1839 < len then None
                        else Some (Some (pk_broadcast 101 (ready_body opt m1 len key x y)
                               (pk2\<lparr>pk_State := PK_STATE_READY, pk_now := 0\<rparr>)))
                  })"

section \<open>The main thread\<close>

record pk_session =
  ks_mem :: "u8 list"
  ks_len :: int

record pk_server =
  sv_opt :: pk_options
  sv_sessions :: "(int, pk_session) smap"
  sv_fights :: "(int, pk) smap"
  sv_sent :: "(int \<times> u8 list) list"
  sv_new :: pk

text \<open>A second request with the number of a running fight makes an object that no table leads to:
  its thread waits for ever.\<close>

definition process_s_s_begin :: "int \<Rightarrow> u8 list \<Rightarrow> int \<Rightarrow> pk_server \<Rightarrow> pk_server option" where
  "process_s_s_begin fd m len sv =
     (let key = uint4 m 0
      in do {
        res \<leftarrow> pk_Init (sv_opt sv) m len (PK_PE_new (sv_new sv));
        let (code, sv1) = (case res of
              None \<Rightarrow> (- 1, sv)
            | Some pk \<Rightarrow> (0, sv\<lparr>sv_fights := smap_insert key pk (sv_fights sv)\<rparr>));
        let resp = PkgHead_packet \<lparr>hdr_PkgLen = 23, hdr_Direction = 6, hdr_SrvType = 2, hdr_SrvSeq = opt_srv_req (sv_opt sv),
              hdr_MsgType = 101, hdr_UniqID = pk_uniq (sv_new sv), hdr_RoleID = pk_uniq (sv_new sv)\<rparr> @
              bytes_of_int 4 code @ bytes_of_int 4 key;
        Some (sv1\<lparr>sv_sent := sv_sent sv1 @ [(fd, resp)]\<rparr>)
      })"

definition upd_fight :: "int \<Rightarrow> (pk \<Rightarrow> pk) \<Rightarrow> pk_server \<Rightarrow> pk_server" where
  "upd_fight key f sv =
     (case smap_find key (sv_fights sv) of
        None \<Rightarrow> sv
      | Some pk \<Rightarrow> sv\<lparr>sv_fights := smap_put key (f pk) (sv_fights sv)\<rparr>)"

definition server_ready :: "int \<Rightarrow> u8 list \<Rightarrow> int \<Rightarrow> pk_server \<Rightarrow> pk_server" where
  "server_ready RoleID m len sv =
     (if len \<noteq> 4 then sv else upd_fight (uint4 m 0) (\<lambda>pk. snd (process_c_s_ready RoleID pk)) sv)"

text \<open>An order as the client wrote it.  Of the two kinds of target the other one is not set.\<close>

definition read_order :: "int \<Rightarrow> u8 list \<Rightarrow> role_order \<Rightarrow> user_order option" where
  "read_order RoleID m junk =
     (let ord = junk\<lparr>or_Type := int2 m 8\<rparr>
      in if int1 m 10 = 1
         then Some \<lparr>uo_ControlID = RoleID, uo_RoleID = int4 m 4,
                uo_Order = ord\<lparr>or_TargetType := 1, or_TargetPos := \<lparr>posX = int2 m 11, posY = int2 m 13\<rparr>\<rparr>\<rparr>
         else if int1 m 10 = 2
         then Some \<lparr>uo_ControlID = RoleID, uo_RoleID = int4 m 4,
                uo_Order = ord\<lparr>or_TargetType := 2, or_TargetRoleID := int4 m 11\<rparr>\<rparr>
         else None)"

definition AddOrder :: "user_order \<Rightarrow> pk \<Rightarrow> pk" where
  "AddOrder u pk = pk\<lparr>pk_Orders := pk_Orders pk @ [u\<lparr>uo_Order := (uo_Order u)\<lparr>or_OrderTime := pk_now pk\<rparr>\<rparr>]\<rparr>"

definition server_order :: "int \<Rightarrow> u8 list \<Rightarrow> int \<Rightarrow> pk_server \<Rightarrow> pk_server" where
  "server_order RoleID m len sv =
     (if len \<noteq> 15 then sv
      else case read_order RoleID m (rs_CurrentOrder (pk_stack (sv_new sv))) of
             None \<Rightarrow> sv
           | Some u \<Rightarrow> upd_fight (uint4 m 0) (AddOrder u) sv)"

text \<open>One message of a connection; \<open>m\<close> is the receive buffer behind the header.\<close>

definition server_message :: "int \<Rightarrow> pk_head \<Rightarrow> u8 list \<Rightarrow> pk_server \<Rightarrow> pk_server option" where
  "server_message fd h m sv =
     (let len = hdr_PkgLen h - 15; role = wrap32 (hdr_RoleID h)
      in if hdr_Direction h = 1 then
           Some (if hdr_MsgType h = 101 then server_ready role m len sv
                 else if hdr_MsgType h = 102 then server_order role m len sv else sv)
         else if hdr_Direction h = 5 \<and> hdr_MsgType h = 101 then process_s_s_begin fd m len sv
         else Some sv)"

definition close_pk_session :: "int \<Rightarrow> pk_server \<Rightarrow> pk_server" where
  "close_pk_session fd sv = sv\<lparr>sv_sessions := smap_erase fd (sv_sessions sv)\<rparr>"

text \<open>The loop over the messages in the buffer; each round takes at least 15 bytes.\<close>

fun cut_messages :: "nat \<Rightarrow> int \<Rightarrow> pk_server \<Rightarrow> pk_server option" where
  "cut_messages 0 fd sv = Some sv"
| "cut_messages (Suc n) fd sv =
     (case smap_find fd (sv_sessions sv) of
        None \<Rightarrow> Some sv
      | Some s \<Rightarrow>
          let h = PkgHead_unpacket (ks_mem s); k = hdr_PkgLen h
          in if ks_len s < 15 then Some sv
             else if k < 15 \<or> opt_bufsize (sv_opt sv) < k then Some (close_pk_session fd sv)
             else if ks_len s < k then Some sv
             else do {
               sv1 \<leftarrow> server_message fd h (drop 15 (ks_mem s)) sv;
               let rest = take (nat (ks_len s - k)) (drop (nat k) (ks_mem s));
               let s1 = s\<lparr>ks_mem := blit (ks_mem s) 0 rest, ks_len := ks_len s - k\<rparr>;
               let sv2 = sv1\<lparr>sv_sessions := smap_put fd s1 (sv_sessions sv1)\<rparr>;
               if k = ks_len s then Some sv2 else cut_messages n fd sv2
             })"

text \<open>Bytes that arrive, at most as many as the buffer has room for; none when the connection is closed
  or fails.\<close>

definition server_input :: "int \<Rightarrow> u8 list \<Rightarrow> pk_server \<Rightarrow> pk_server option" where
  "server_input fd bs sv =
     (case smap_find fd (sv_sessions sv) of
        None \<Rightarrow> Some sv
      | Some s \<Rightarrow>
          let bs' = take (nat (opt_bufsize (sv_opt sv) - ks_len s)) bs;
              s1 = s\<lparr>ks_mem := blit (ks_mem s) (nat (ks_len s)) bs', ks_len := ks_len s + int (length bs')\<rparr>
          in if bs' = [] then Some (close_pk_session fd sv)
             else cut_messages (Suc (nat (ks_len s1))) fd (sv\<lparr>sv_sessions := smap_put fd s1 (sv_sessions sv)\<rparr>))"

definition kill_thread :: "int \<Rightarrow> pk_server \<Rightarrow> pk_server" where
  "kill_thread key sv = sv\<lparr>sv_fights := smap_erase key (sv_fights sv)\<rparr>"

text \<open>A thread of a fight reads one event from its pipe; when the fight is over it takes itself out of
  the table.\<close>

definition fight_event :: "int \<Rightarrow> int \<Rightarrow> pk_server \<Rightarrow> pk_server option" where
  "fight_event key e sv =
     (case smap_find key (sv_fights sv) of
        None \<Rightarrow> Some sv
      | Some pk \<Rightarrow>
          if pk_State pk = PK_STATE_PKING \<or> pk_State pk = PK_STATE_READY then do {
            pk1 \<leftarrow> run_event e pk;
            Some (sv\<lparr>sv_fights := smap_put key pk1 (sv_fights sv)\<rparr>)
          }
          else Some (kill_thread (pk_ID pk) sv))"

datatype server_event = Accept int "u8 list" | Input int "u8 list" | Fight int int

text \<open>A new session has a buffer of any contents.\<close>

fun server_step :: "server_event \<Rightarrow> pk_server \<Rightarrow> pk_server option" where
  "server_step (Accept fd mem) sv =
     Some (sv\<lparr>sv_sessions := smap_insert fd \<lparr>ks_mem = mem, ks_len = 0\<rparr> (sv_sessions sv)\<rparr>)"
| "server_step (Input fd bs) sv = server_input fd bs sv"
| "server_step (Fight key e) sv = fight_event key e sv"

fun server_run :: "server_event list \<Rightarrow> pk_server \<Rightarrow> pk_server option" where
  "server_run [] sv = Some sv"
| "server_run (e # es) sv = do { sv1 \<leftarrow> server_step e sv; server_run es sv1 }"

end
