(* ===== verification/Pk_Sound.thy ===== *)
theory Pk_Sound
  imports Pk_Typed Pk_Server
begin

text \<open>
  What holds of every fight on the server, whatever messages arrive and in whatever order the threads
  run: the invariants of \<open>Pk_Stay\<close>, \<open>Pk_Fair\<close>, \<open>Pk_Report\<close> and \<open>Pk_Typed\<close>, carried from the
  events of a fight to the events of the server.
\<close>

section \<open>From fights to the server\<close>

locale server_invariant = fight_invariant +
  assumes init: "pk_Init opt m len (PK_PE_new junk) = Some (Some pk) \<Longrightarrow> I pk"

definition all_fights :: "(pk \<Rightarrow> bool) \<Rightarrow> pk_server \<Rightarrow> bool" where
  "all_fights I sv \<longleftrightarrow> (\<forall>key pk. smap_find key (sv_fights sv) = Some pk \<longrightarrow> I pk)"

lemma all_fights_same: "sv_fights sv' = sv_fights sv \<Longrightarrow> all_fights I sv' = all_fights I sv"
  by (simp add: all_fights_def)

lemma all_fights_upd: "all_fights I sv \<Longrightarrow> (\<And>pk. I pk \<Longrightarrow> I (f pk)) \<Longrightarrow> all_fights I (upd_fight key f sv)"
  by (auto simp: all_fights_def upd_fight_def smap split: option.split if_splits)

context server_invariant
begin

lemma all_begin:
  assumes "all_fights I sv" "process_s_s_begin fd m len sv = Some sv'"
  shows "all_fights I sv'"
proof -
  obtain res where res: "pk_Init (sv_opt sv) m len (PK_PE_new (sv_new sv)) = Some res"
    using assms(2) by (auto simp: process_s_s_begin_def Let_def split: Option.bind_splits)
  show ?thesis
  proof (cases res)
    case None
    then show ?thesis using assms res by (auto simp: process_s_s_begin_def Let_def all_fights_def)
  next
    case (Some pk)
    then have "I pk" using init res by simp
    then show ?thesis using assms res Some by (auto simp: process_s_s_begin_def Let_def all_fights_def smap split: if_splits)
  qed
qed

lemma all_ready: "all_fights I sv \<Longrightarrow> all_fights I (server_ready i m len sv)"
  by (simp add: server_ready_def all_fights_upd ready)

lemma all_order: "all_fights I sv \<Longrightarrow> all_fights I (server_order i m len sv)"
  by (simp add: server_order_def AddOrder_def all_fights_upd fields split: option.split)

lemma all_message: "all_fights I sv \<Longrightarrow> server_message fd h m sv = Some sv' \<Longrightarrow> all_fights I sv'"
  by (auto simp: server_message_def Let_def all_ready all_order split: if_splits dest: all_begin)

lemma all_cut: "all_fights I sv \<Longrightarrow> cut_messages n fd sv = Some sv' \<Longrightarrow> all_fights I sv'"
proof (induction n fd sv rule: cut_messages.induct)
  case (2 n fd sv)
  have close: "all_fights I (close_pk_session fd sv)"
    using "2.prems"(1) all_fights_same[of "close_pk_session fd sv" sv] by (simp add: close_pk_session_def)
  have put: "all_fights I (sv1\<lparr>sv_sessions := x\<rparr>) = all_fights I sv1" for sv1 x by (rule all_fights_same) simp
  show ?case
  proof (cases "smap_find fd (sv_sessions sv)")
    case (Some s)
    let ?h = "PkgHead_unpacket (ks_mem s)"
    let ?k = "hdr_PkgLen ?h"
    consider (stop) "sv' = sv \<or> sv' = close_pk_session fd sv"
      | (go) "\<not> ks_len s < 15" "\<not> (?k < 15 \<or> opt_bufsize (sv_opt sv) < ?k)" "\<not> ks_len s < ?k"
      using "2.prems"(2) Some by (fastforce simp: Let_def split: if_splits)
    then show ?thesis
    proof cases
      case stop
      then show ?thesis using "2.prems"(1) close by blast
    next
      case go
      then obtain sv1 where m: "server_message fd ?h (drop 15 (ks_mem s)) sv = Some sv1"
        using "2.prems"(2) Some by (auto simp: Let_def split: Option.bind_splits)
      note sv1 = all_message[OF "2.prems"(1) m]
      show ?thesis
      proof (cases "?k = ks_len s")
        case True
        then show ?thesis using "2.prems"(2) Some go m sv1 by (auto simp: Let_def put)
      next
        case False
        have sv1': "all_fights I (sv1\<lparr>sv_sessions := x\<rparr>)" for x using sv1 put by simp
        show ?thesis using "2.IH"[OF Some refl refl go m refl refl refl False sv1'] "2.prems"(2) Some go m False
          by (simp add: Let_def)
      qed
    qed
  qed (use 2 in simp)
qed simp

lemma all_input: "all_fights I sv \<Longrightarrow> server_input fd bs sv = Some sv' \<Longrightarrow> all_fights I sv'"
  by (auto simp: server_input_def Let_def close_pk_session_def all_fights_def[of I "_\<lparr>sv_sessions := _\<rparr>"] all_fights_def
      split: option.splits if_splits simp del: cut_messages.simps dest!: all_cut[rotated])

lemma all_event: "all_fights I sv \<Longrightarrow> fight_event key e sv = Some sv' \<Longrightarrow> all_fights I sv'"
proof (cases "smap_find key (sv_fights sv)")
  case (Some pk)
  assume a: "all_fights I sv" "fight_event key e sv = Some sv'"
  show ?thesis
  proof (cases "pk_State pk = PK_STATE_PKING \<or> pk_State pk = PK_STATE_READY")
    case True
    then obtain pk1 where "run_event e pk = Some pk1" "sv' = sv\<lparr>sv_fights := smap_put key pk1 (sv_fights sv)\<rparr>"
      using a(2) Some by (auto simp: fight_event_def split: Option.bind_splits)
    moreover have "I pk" using a(1) Some by (simp add: all_fights_def)
    ultimately show ?thesis using event[OF _ True] a(1) by (auto simp: all_fights_def smap)
  next
    case False
    then have "sv' = kill_thread (pk_ID pk) sv" using a(2) Some by (simp add: fight_event_def)
    then show ?thesis using a(1) by (simp add: kill_thread_def all_fights_def smap)
  qed
qed (simp add: fight_event_def)

lemma all_step: "all_fights I sv \<Longrightarrow> server_step e sv = Some sv' \<Longrightarrow> all_fights I sv'"
proof (cases e)
  case (Accept fd mem)
  assume "all_fights I sv" "server_step e sv = Some sv'"
  then show ?thesis using Accept all_fights_same[of sv' sv I] by auto
qed (auto dest: all_input all_event)

lemma all_run: "all_fights I sv \<Longrightarrow> server_run es sv = Some sv' \<Longrightarrow> all_fights I sv'"
  by (induction es arbitrary: sv) (auto split: Option.bind_splits dest: all_step)

end

section \<open>New fights\<close>

lemma read_role_start: "rs_buffs (read_role m o' (fresh_role pk)) = []" "base a (read_role m o' (fresh_role pk)) = short (base a (read_role m o' (fresh_role pk)))"
  by (simp add: read_role_def fresh_role_def role_upds) (cases a; simp add: read_role_def role_upds int2_def short_id)

lemma base_place: "base a (upd_magic (\<lambda>g. g\<lparr>mg_SkillMap := sks\<rparr>) (upd_move (\<lambda>v. v\<lparr>mv_CurrentPos := q\<rparr>) r)) = base a r"
  by (cases a) (simp_all add: role_upds)

lemma read_one_inserts:
  assumes "read_one opt m len o' pk = Some (Some (o1, m1, pk1))"
  shows "\<exists>r. pk1 = pk_insert (RoleState_Init r) pk \<and> rs_buffs r = [] \<and> (\<forall>a. base a r = short (base a r))"
proof -
  obtain sks q where pk1: "pk1 = pk_insert (RoleState_Init (upd_magic (\<lambda>g. g\<lparr>mg_SkillMap := sks\<rparr>)
      (upd_move (\<lambda>v. v\<lparr>mv_CurrentPos := q\<rparr>) (read_role m o' (fresh_role pk))))) pk"
    using assms unfolding read_one_def Let_def by (auto split: if_splits Option.bind_splits option.splits)
  moreover have "rs_buffs (upd_magic (\<lambda>g. g\<lparr>mg_SkillMap := sks\<rparr>)
      (upd_move (\<lambda>v. v\<lparr>mv_CurrentPos := q\<rparr>) (read_role m o' (fresh_role pk)))) = []"
    using read_role_start(1) by simp
  ultimately show ?thesis using read_role_start(2) base_place by metis
qed

lemma read_roles_induct:
  assumes "\<And>q r. P q \<Longrightarrow> rs_buffs r = [] \<Longrightarrow> (\<forall>a. base a r = short (base a r)) \<Longrightarrow> P (pk_insert (RoleState_Init r) q)"
  shows "P pk \<Longrightarrow> read_roles opt m len n o' pk = Some (Some (m', pk')) \<Longrightarrow> P pk'"
proof (induction n arbitrary: m o' pk)
  case (Suc n)
  then obtain o1 m1 pk1 where one: "read_one opt m len o' pk = Some (Some (o1, m1, pk1))"
      "read_roles opt m1 len n o1 pk1 = Some (Some (m', pk'))"
    by (auto split: Option.bind_splits option.splits)
  from read_one_inserts[OF one(1)] have "P pk1" using assms Suc.prems(1) by blast
  then show ?case using Suc.IH one(2) by blast
qed simp

lemma Init_roles:
  assumes "pk_Init opt m len pk = Some (Some pk')"
  shows "\<exists>m' n o' q q'. read_roles opt m len n o' q = Some (Some (m', q')) \<and> pk_roles q = pk_roles pk \<and>
    pk_roles pk' = pk_roles q' \<and> pk_State pk' = PK_STATE_READY \<and> pk_end q = pk_end pk \<and> pk_end pk' = pk_end q'"
  using assms unfolding pk_Init_def Let_def
  by (fastforce split: if_splits option.splits Option.bind_splits prod.splits)

lemma fair_start: "rs_buffs r = [] \<Longrightarrow> (\<forall>a. base a r = short (base a r)) \<Longrightarrow> fair_role (RoleState_Init r)"
proof -
  assume r: "rs_buffs r = []" "\<forall>a. base a r = short (base a r)"
  have b: "base a (RoleState_Init r) = base a r" for a by (rule identity_base) simp
  have rd: "reading a (RoleState_Init r) = base a r" for a
    by (cases a) (simp_all add: RoleState_Init_def role_upds)
  show ?thesis unfolding fair_role_def balanced_def using r by (simp add: b rd)
qed

interpretation fair: server_invariant "fair {}"
proof
  fix opt m len junk pk
  assume "pk_Init opt m len (PK_PE_new junk) = Some (Some pk)"
  from Init_roles[OF this] obtain m' n o' q q' where q: "read_roles opt m len n o' q = Some (Some (m', q'))"
    "pk_roles q = []" "pk_roles pk = pk_roles q'" by (auto simp: PK_PE_new_def)
  have "fair {} q'"
  proof (rule read_roles_induct[OF _ _ q(1)])
    show "fair {} (pk_insert (RoleState_Init r) p)" if "fair {} p" "rs_buffs r = []" "\<forall>a. base a r = short (base a r)" for p r
      using that fair_start by (auto simp: fair_def pk_insert_def smap)
    show "fair {} q" using q(2) by (simp add: fair_def smap_find_def)
  qed
  then show "fair {} pk" using q(3) by (rule fair_frame[rotated])
qed

interpretation report: server_invariant reported
proof
  fix opt m len junk pk
  assume "pk_Init opt m len (PK_PE_new junk) = Some (Some pk)"
  from Init_roles[OF this] obtain m' n o' q q' where q: "read_roles opt m len n o' q = Some (Some (m', q'))"
    "pk_end q = []" "pk_end pk = pk_end q'" "pk_State pk = PK_STATE_READY" by (auto simp: PK_PE_new_def)
  have "pk_end q' = []" using q(2) by (rule read_roles_induct[OF _ _ q(1), rotated]) (simp add: pk_insert_def)
  then show "reported pk" using q(3,4) by (simp add: reported_def)
qed

interpretation typed: server_invariant typed
proof
  fix opt m len junk pk
  assume "pk_Init opt m len (PK_PE_new junk) = Some (Some pk)"
  from Init_roles[OF this] obtain m' n o' q q' where q: "read_roles opt m len n o' q = Some (Some (m', q'))"
    "pk_roles q = []" "pk_roles pk = pk_roles q'" by (auto simp: PK_PE_new_def)
  have "typed q'"
  proof (rule read_roles_induct[OF _ _ q(1)])
    show "typed (pk_insert (RoleState_Init r) p)" if "typed p" "rs_buffs r = []" for p r
      using that by (auto simp: typed_def pk_insert_def smap typed_role_def)
    show "typed q" using q(2) by (simp add: typed_def smap_find_def smap_ok_def)
  qed
  then show "typed pk" using q(3) typed_frame by metis
qed


section \<open>What holds of every fight\<close>

lemma no_fights: "sv_fights sv = [] \<Longrightarrow> all_fights I sv"
  by (simp add: all_fights_def smap_find_def)

lemma fight_of:
  "server_run es sv = Some sv' \<Longrightarrow> sv_fights sv = [] \<Longrightarrow> smap_find key (sv_fights sv') = Some pk \<Longrightarrow>
     fair {} pk \<and> reported pk \<and> typed pk"
  using fair.all_run report.all_run typed.all_run no_fights by (metis all_fights_def)

text \<open>
  C13: in every fight on the server, after any run of connections, messages and events that starts
  without fights, the table of roles is ordered by identifiers, every role is stored under its own
  identifier, and the buffs of a role are ordered by their type.
\<close>

theorem fights_well_formed:
  assumes "server_run es sv = Some sv'" and "sv_fights sv = []" and "smap_find key (sv_fights sv') = Some pk"
  shows "smap_ok (pk_roles pk) \<and> (\<forall>(i, r) \<in> set (pk_roles pk). rs_RoleID r = i \<and> sorted (map bf_Type (rs_buffs r)))"
proof -
  have t: "typed pk" using fight_of[OF assms] by blast
  then have ok: "smap_ok (pk_roles pk)" by (simp add: typed_def)
  then have "distinct (map fst (pk_roles pk))" by (simp add: smap_ok_def strict_sorted_iff)
  then have "smap_find i (pk_roles pk) = Some r" if "(i, r) \<in> set (pk_roles pk)" for i r
    using that by (simp add: smap_find_def)
  then show ?thesis using t ok by (auto simp: typed_def typed_role_def)
qed

text \<open>
  C3: buffs give back what they take, for eleven attributes and counters: speed, hit rate, taken hurt,
  critical rate, armour, the three counters that forbid to move, to attack and to use skills, and the
  three exemption counters.  In every fight on the server each of them is, for a role that is not dead and
  was not called by a skill, the value the role came with (or 0 for a counter and the taken hurt) plus the
  contributions of the buffs the role has now, in 16-bit arithmetic; without buffs it is the value the role
  came with.  Three more fields that buffs change are left out because it does not hold of them: the added
  attack power, which \<^verbatim>\<open>RoleState::Init\<close> does not set back at a revival, and the two
  maxima, whose buffs add their value again when they are removed.
\<close>

theorem buffs_give_back:
  assumes "server_run es sv = Some sv'" and "sv_fights sv = []" and "smap_find key (sv_fights sv') = Some pk"
    and "smap_find i (pk_roles pk) = Some r" and "rs_RoleFlag r \<noteq> RoleType_Call" and "rs_Live r \<noteq> ROLE_STATUS_DEAD"
  shows "reading a r = short (base a r + shares a (rs_buffs r)) \<and> (rs_buffs r = [] \<longrightarrow> reading a r = base a r)"
proof -
  have "fair_role r" using fight_of[OF assms(1-3)] assms(4) by (simp add: fair_def)
  then show ?thesis using assms(5,6) by (auto simp: fair_role_def balanced_def)
qed

text \<open>
  C8: a fight that is over has sent exactly one report to the main server when that server can be
  reached, and none when it cannot; a fight that is not over has sent none.  An event in which the report
  is longer than the array it is built in has no result and so is in no run: see \<open>run_event\<close>.
\<close>

theorem fight_reported_once:
  assumes "server_run es sv = Some sv'" and "sv_fights sv = []" and "smap_find key (sv_fights sv') = Some pk"
  shows "length (pk_end pk) = (if pk_State pk = PK_STATE_OVER \<and> pk_ge_up pk then 1 else 0)"
  using fight_of[OF assms] by (auto simp: reported_def split: if_splits)

text \<open>
  A role never leaves a fight, and neither its identifier, kind, controller and side nor the values
  it came with ever change; this is what the pointers to roles in bullets and pending skills rely on.
\<close>

lemma roles_stay:
  assumes "event_loop es pk = Some pk'" and "smap_find i (pk_roles pk) = Some r"
  shows "\<exists>r'. smap_find i (pk_roles pk') = Some r' \<and> rs_RoleID r' = rs_RoleID r \<and> rs_RoleFlag r' = rs_RoleFlag r \<and>
    rs_ControlID r' = rs_ControlID r \<and> rs_Opposition r' = rs_Opposition r \<and> (\<forall>a. base a r' = base a r)"
proof -
  have "stays i (identity r) pk" using assms(2) by (simp add: stays_def role_id_def)
  from stays.events[OF assms(1) this] obtain r' where "smap_find i (pk_roles pk') = Some r'" "identity r' = identity r"
    by (auto simp: stays_def role_id_def)
  moreover from this have "base a r' = base a r" for a by (intro identity_base)
  ultimately show ?thesis by (simp add: identity_def)
qed

section \<open>A server to evaluate on\<close>

text \<open>A request for a fight of one role who knows skill 230, the message that its player is ready, and the
  clock.\<close>

definition demo_role_bytes :: "int \<Rightarrow> int \<Rightarrow> u8 list" where
  "demo_role_bytes i opp = bytes_of_int 4 i @ bytes_of_int 4 i @ bytes_of_int 2 10 @ bytes_of_int 1 opp @ bytes_of_int 1 1 @
     bytes_of_int 4 1 @ concat (map (bytes_of_int 2) [100, 50, 100, 50, 400, 10 * i, 10]) @ bytes_of_int 1 1 @
     concat (map (bytes_of_int 2) [40, 30, 2, 25, 3, 0, 90, 10, 0, 25, 5, 1, 2, 3]) @ bytes_of_int 2 1 @
     bytes_of_int 2 230 @ bytes_of_int 1 2"

definition demo_begin :: "u8 list" where
  "demo_begin = PkgHead_packet \<lparr>hdr_PkgLen = 91, hdr_Direction = 5, hdr_SrvType = 1, hdr_SrvSeq = 1, hdr_MsgType = 101,
       hdr_UniqID = 0, hdr_RoleID = 0\<rparr> @ bytes_of_int 4 7 @ concat (map (bytes_of_int 2) [1, 30, 20, 1]) @ demo_role_bytes 1 1"

definition demo_ready :: "int \<Rightarrow> u8 list" where
  "demo_ready i = PkgHead_packet \<lparr>hdr_PkgLen = 19, hdr_Direction = 1, hdr_SrvType = 2, hdr_SrvSeq = 1, hdr_MsgType = 101,
       hdr_UniqID = 0, hdr_RoleID = i\<rparr> @ bytes_of_int 4 7"

definition demo_server :: pk_server where
  "demo_server = \<lparr>sv_opt = \<lparr>opt_maps = [(1, (100, 100))],
       opt_skills = [(230, \<lparr>sd_DoingTime = 0, sd_Area = 0, sd_MP = [5, 6, 7, 8, 9, 10], sd_SkillCD = [50, 50, 50, 50, 50, 50]\<rparr>)],
       opt_srv_req = 1, opt_bufsize = 100\<rparr>,
     sv_sessions = [], sv_fights = [], sv_sent = [], sv_new = demo_pk\<rparr>"

definition demo_events :: "server_event list" where
  "demo_events = [Accept 5 (replicate 100 0), Input 5 demo_begin, Input 5 (demo_ready 1), Fight 7 1]"

definition demo_after :: pk_server where
  "demo_after = the (server_run demo_events demo_server)"

definition demo_fight :: pk where
  "demo_fight = the (smap_find 7 (sv_fights demo_after))"

definition demo_caster :: role_state where
  "demo_caster = the (smap_find 1 (pk_roles demo_fight))"

lemma demo_evaluated:
  "map_option (\<lambda>sv. case smap_find 7 (sv_fights sv) of None \<Rightarrow> None | Some pk \<Rightarrow>
      map_option (\<lambda>r. (rs_RoleFlag r, rs_Live r, rs_buffs r, ph_AttackHit_Base (rs_phys r))) (smap_find 1 (pk_roles pk)))
     (server_run demo_events demo_server) = Some (Some (1, 1, [], 90))"
  by code_simp

lemma demo_server_run:
  "server_run demo_events demo_server = Some demo_after" "smap_find 7 (sv_fights demo_after) = Some demo_fight"
  using demo_evaluated by (auto simp: demo_after_def demo_fight_def split: option.splits)

lemma demo_server_empty: "sv_fights demo_server = []"
  by (simp add: demo_server_def)

lemma demo_caster_facts:
  "smap_find 1 (pk_roles demo_fight) = Some demo_caster" "rs_RoleFlag demo_caster \<noteq> RoleType_Call"
  "rs_Live demo_caster \<noteq> ROLE_STATUS_DEAD" "rs_buffs demo_caster = []" "ph_AttackHit_Base (rs_phys demo_caster) = 90"
proof -
  have "map_option (\<lambda>r. (rs_RoleFlag r, rs_Live r, rs_buffs r, ph_AttackHit_Base (rs_phys r)))
      (smap_find 1 (pk_roles demo_fight)) = Some (1, 1, [], 90)"
    using demo_evaluated by (simp add: demo_server_run)
  then show "smap_find 1 (pk_roles demo_fight) = Some demo_caster" "rs_RoleFlag demo_caster \<noteq> RoleType_Call"
    "rs_Live demo_caster \<noteq> ROLE_STATUS_DEAD" "rs_buffs demo_caster = []" "ph_AttackHit_Base (rs_phys demo_caster) = 90"
    by (auto simp: demo_caster_def)
qed

theorem fights_well_formed_witness: "smap_ok (pk_roles demo_fight) \<and> rs_RoleID demo_caster = 1"
proof -
  have "(1, demo_caster) \<in> set (pk_roles demo_fight)" using demo_caster_facts(1) by (simp add: smap_find_def map_of_SomeD)
  then show ?thesis using fights_well_formed[OF demo_server_run(1) demo_server_empty demo_server_run(2)] by auto
qed

theorem buffs_give_back_witness: "ph_AttackHit (rs_phys demo_caster) = 90"
  using buffs_give_back[OF demo_server_run(1) demo_server_empty demo_server_run(2) demo_caster_facts(1-3), of Hit]
    demo_caster_facts(4,5) by simp

section \<open>A fight that is over\<close>

text \<open>The same fight, but the player gives an order 51 fragments of time before saying that he is ready.
  The fight then starts at 0, so that the order seems to be 4294967245 fragments old when the time since
  the last order is looked at, and the player counts as gone.\<close>

definition demo_early_order :: "u8 list" where
  "demo_early_order = PkgHead_packet \<lparr>hdr_PkgLen = 30, hdr_Direction = 1, hdr_SrvType = 2, hdr_SrvSeq = 1, hdr_MsgType = 102,
       hdr_UniqID = 0, hdr_RoleID = 1\<rparr> @ bytes_of_int 4 7 @ bytes_of_int 4 1 @ bytes_of_int 2 2 @ bytes_of_int 1 1 @ bytes_of_int 4 0"

definition demo_early :: "server_event list" where
  "demo_early = [Accept 5 (replicate 100 0), Input 5 demo_begin] @ replicate 51 (Fight 7 1) @
     [Input 5 demo_early_order, Input 5 (demo_ready 1), Fight 7 0]"

definition demo_started :: pk_server where
  "demo_started = the (server_run demo_early demo_server)"

lemma demo_early_evaluated:
  "map_option (\<lambda>sv. map_option (\<lambda>pk. (pk_State pk, pk_now pk, map (\<lambda>(i, r). (rs_RoleFlag r, rs_Live r, rs_buffs r, rs_Waiting r,
       or_Type (rs_CurrentOrder r), or_OrderTime (rs_CurrentOrder r))) (pk_roles pk),
       pk_bullets pk, pk_skill_order_list pk, pk_end pk, list_all hurts_fit (pk_out pk), pk_ge_up pk)) (smap_find 7 (sv_fights sv)))
     (server_run demo_early demo_server) =
   Some (Some (PK_STATE_PKING, 0, [(1, 1, [], 0, 2, 51)], [], [], [], True, True))"
  by code_simp

text \<open>A fight of one player whose order does nothing.\<close>

definition waits :: "pk \<Rightarrow> bool" where
  "waits pk \<longleftrightarrow> pk_State pk = PK_STATE_PKING \<and> pk_bullets pk = [] \<and> pk_skill_order_list pk = [] \<and> pk_end pk = [] \<and>
     list_all hurts_fit (pk_out pk) \<and> (\<exists>i r. pk_roles pk = [(i, r)] \<and> rs_RoleFlag r = RoleType_Player \<and>
       rs_Live r = ROLE_STATUS_LIVE \<and> rs_buffs r = [] \<and> rs_Waiting r = 0 \<and> or_Type (rs_CurrentOrder r) = 2 \<and>
       or_OrderTime (rs_CurrentOrder r) = 51)"

lemma waits_now [simp]: "waits (pk\<lparr>pk_now := n\<rparr>) = waits pk"
  by (simp add: waits_def)

lemma quiet_bullets: "pk_bullets pk = [] \<Longrightarrow> CalculateBullets pk = pk"
  by (cases pk) (simp add: CalculateBullets_def)

lemma quiet_skills: "pk_skill_order_list pk = [] \<Longrightarrow> CalculateSkill pk = Some pk"
  by (cases pk) (simp add: CalculateSkill_def)

lemma wait_tick:
  assumes "waits pk" "0 \<le> pk_now pk" "pk_now pk < 49"
  shows "run_event 1 pk = Some (pk\<lparr>pk_now := pk_now pk + 1\<rparr>)"
proof -
  let ?pk = "pk\<lparr>pk_now := pk_now pk + 1\<rparr>"
  obtain i r where r: "pk_roles pk = [(i, r)]" "rs_Live r = ROLE_STATUS_LIVE" "rs_buffs r = []" "rs_Waiting r = 0"
      "or_Type (rs_CurrentOrder r) = 2"
    using assms(1) by (auto simp: waits_def)
  have role: "pk_role i ?pk = r"
    using r(1) by (simp add: pk_role_def smap_find_def)
  have "run_one i ?pk = Some ?pk"
    using assms r(2-5) by (simp add: run_one_def Let_def role CalculateBuff_def quiet_bullets RunRole_def waits_def)
  then have "RunTime ?pk = Some ?pk"
    using assms(1) r(1) by (simp add: RunTime_def pk_keys_def quiet_skills waits_def)
  then show ?thesis
    using assms by (simp add: run_event_def handle_event_def waits_def uint32_def Let_def)
qed

lemma wait_ticks:
  assumes "smap_find 7 (sv_fights sv) = Some pk" "waits pk" "0 \<le> pk_now pk" "pk_now pk + int n \<le> 49"
  shows "\<exists>sv'. server_run (replicate n (Fight 7 1)) sv = Some sv' \<and>
    smap_find 7 (sv_fights sv') = Some (pk\<lparr>pk_now := pk_now pk + int n\<rparr>)"
  using assms
proof (induction n arbitrary: sv pk)
  case (Suc n)
  let ?pk = "pk\<lparr>pk_now := pk_now pk + 1\<rparr>" and ?sv = "sv\<lparr>sv_fights := smap_put 7 (pk\<lparr>pk_now := pk_now pk + 1\<rparr>) (sv_fights sv)\<rparr>"
  have "run_event 1 pk = Some ?pk"
    using Suc.prems by (intro wait_tick) simp_all
  then have step: "server_step (Fight 7 1) sv = Some ?sv"
    using Suc.prems(1,2) by (simp add: fight_event_def waits_def)
  have "\<exists>sv'. server_run (replicate n (Fight 7 1)) ?sv = Some sv' \<and>
    smap_find 7 (sv_fights sv') = Some (?pk\<lparr>pk_now := pk_now ?pk + int n\<rparr>)"
    using Suc.prems by (intro Suc.IH) (simp_all add: smap)
  then show ?case
    using step by (simp add: algebra_simps)
qed auto

lemma length_bytes_of_int: "length (bytes_of_int n v) = n"
  by (simp add: bytes_of_int_def)

lemma wait_over:
  assumes "waits pk" "pk_now pk = 49"
  shows "\<exists>pk'. run_event 1 pk = Some pk' \<and> pk_State pk' = PK_STATE_OVER \<and> pk_ge_up pk' = pk_ge_up pk"
proof -
  let ?pk = "pk\<lparr>pk_now := 50\<rparr>"
  obtain i r where r: "pk_roles pk = [(i, r)]" "rs_RoleFlag r = RoleType_Player" "rs_Live r = ROLE_STATUS_LIVE"
      "or_OrderTime (rs_CurrentOrder r) = 51"
    using assms(1) by (auto simp: waits_def)
  have role: "pk_role i ?pk = r" "smap_find i (pk_roles pk) = Some r"
    using r(1) by (simp_all add: pk_role_def smap_find_def)
  define q where "q = pk_upd i (\<lambda>r. r\<lparr>rs_Live := ROLE_STATUS_OFFLINE\<rparr>) ?pk"
  have q: "pk_roles q = [(i, r\<lparr>rs_Live := ROLE_STATUS_OFFLINE\<rparr>)]" "pk_State q = PK_STATE_PKING" "pk_ge_up q = pk_ge_up pk"
      "pk_end q = []" "pk_skill_order_list q = []" "pk_out q = pk_out pk"
    using assms(1) r(1) role(2) by (simp_all add: q_def waits_def pk_upd_def)
  define o' where "o' = CheckOver (rs_Opposition r) q"
  have "run_one i ?pk = Some o'"
    using r(2-4) by (simp add: run_one_def Let_def role uint32_def o'_def q_def)
  moreover have o: "pk_State o' = PK_STATE_OVER" "pk_ge_up o' = pk_ge_up pk" "pk_skill_order_list o' = []"
      "list_all report_fits (pk_end o')" "list_all hurts_fit (pk_out o')"
    using assms(1) r(2) by (simp_all add: o'_def CheckOver_def EndGame_def q Let_def pk_broadcast_def pk_players_def waits_def
      report_fits_def end_record_def hurts_fit_def pk_message_def PkgHead_packet_def length_bytes_of_int)
  ultimately have "RunTime ?pk = Some o'"
    using r(1) by (simp add: RunTime_def pk_keys_def quiet_skills)
  then show ?thesis
    using assms o by (simp add: run_event_def handle_event_def waits_def uint32_def Let_def)
qed

lemma server_run_append: "server_run (es @ fs) sv = do { sv1 \<leftarrow> server_run es sv; server_run fs sv1 }"
  by (induction es arbitrary: sv) (simp_all split: Option.bind_split)

lemma demo_over:
  "\<exists>sv pk. server_run (demo_early @ replicate 50 (Fight 7 1)) demo_server = Some sv \<and>
    smap_find 7 (sv_fights sv) = Some pk \<and> pk_State pk = PK_STATE_OVER \<and> pk_ge_up pk"
proof -
  obtain sv pk where sv: "server_run demo_early demo_server = Some sv" "smap_find 7 (sv_fights sv) = Some pk"
      "waits pk" "pk_now pk = 0" "pk_ge_up pk"
    using demo_early_evaluated by (auto simp: waits_def)
  obtain sv1 where sv1: "server_run (replicate 49 (Fight 7 1)) sv = Some sv1"
      "smap_find 7 (sv_fights sv1) = Some (pk\<lparr>pk_now := 49\<rparr>)"
    using wait_ticks [OF sv(2,3), of 49] sv(4) by auto
  obtain pk2 where pk2: "run_event 1 (pk\<lparr>pk_now := 49\<rparr>) = Some pk2" "pk_State pk2 = PK_STATE_OVER" "pk_ge_up pk2"
    using wait_over [of "pk\<lparr>pk_now := 49\<rparr>"] sv(3,5) by auto
  let ?sv2 = "sv1\<lparr>sv_fights := smap_put 7 pk2 (sv_fights sv1)\<rparr>"
  have "server_run [Fight 7 1] sv1 = Some ?sv2"
    using sv1(2) pk2(1) sv(3) by (simp add: fight_event_def waits_def)
  moreover have "replicate 50 (Fight 7 1) = replicate 49 (Fight 7 1) @ [Fight 7 1]"
    by (simp add: replicate_append_same flip: replicate_Suc)
  ultimately have "server_run (demo_early @ replicate 50 (Fight 7 1)) demo_server = Some ?sv2"
    using sv(1) sv1(1) by (simp add: server_run_append del: replicate.simps server_run.simps)
  then show ?thesis
    using pk2(2,3) by (auto simp: smap)
qed

theorem fight_reported_once_witness:
  "\<exists>sv pk. server_run (demo_early @ replicate 50 (Fight 7 1)) demo_server = Some sv \<and>
    smap_find 7 (sv_fights sv) = Some pk \<and> pk_State pk = PK_STATE_OVER \<and> length (pk_end pk) = 1"
proof -
  obtain sv pk where run: "server_run (demo_early @ replicate 50 (Fight 7 1)) demo_server = Some sv"
      "smap_find 7 (sv_fights sv) = Some pk" and over: "pk_State pk = PK_STATE_OVER" "pk_ge_up pk"
    using demo_over by blast
  from fight_reported_once[OF run(1) demo_server_empty run(2)] over show ?thesis
    using run by auto
qed

definition demo_ticked :: pk where
  "demo_ticked = the (event_loop [1, 0, 1] demo_pk)"

lemma roles_stay_witness: "\<exists>r'. smap_find 2 (pk_roles demo_ticked) = Some r' \<and> rs_Opposition r' = 2"
proof -
  have "map_option pk_now (event_loop [1, 0, 1] demo_pk) = Some 102" by code_simp
  then have run: "event_loop [1, 0, 1] demo_pk = Some demo_ticked" by (auto simp: demo_ticked_def)
  have "smap_find 2 (pk_roles demo_pk) = Some (demo_role_state 2 2 \<lparr>posX = 14, posY = 12\<rparr>)"
    by (simp add: demo_pk_def smap_find_def)
  from roles_stay[OF run this] show ?thesis by (auto simp: demo_role_state_def)
qed

end
