(* ===== verification/Pk_Limits.thy ===== *)
theory Pk_Limits
  imports Pk_Sound
begin

text \<open>
  Bounds and failures of a fight: the place within a cell while a role moves, the search for a free cell,
  a charge along a row or column that leaves the map, and a role that revives from the end of its own
  curse.
\<close>

section \<open>The place within a cell\<close>

definition in_cell :: "pk_pos \<Rightarrow> bool" where
  "in_cell p \<longleftrightarrow> 0 \<le> posX p \<and> posX p < 1000 \<and> 0 \<le> posY p \<and> posY p < 1000"

definition on_cell :: "pk_pos \<Rightarrow> bool" where
  "on_cell p \<longleftrightarrow> 0 \<le> posX p \<and> posX p \<le> 1000 \<and> 0 \<le> posY p \<and> posY p \<le> 1000"

lemma round_even_bounds:
  assumes "0 \<le> n" "0 < d" "n \<le> m * d" shows "0 \<le> round_even n d \<and> round_even n d \<le> m"
proof (cases "n mod d = 0")
  case True
  have "n div d \<le> m" using assms(2,3) by (simp add: div_le_dividend zdiv_mono1 order_trans[OF zdiv_mono1[OF assms(3,2)]])
  then show ?thesis using True assms by (simp add: round_even_def pos_imp_zdiv_nonneg_iff)
next
  case False
  have "n div d < m"
  proof (rule ccontr)
    assume "\<not> n div d < m"
    then have "m * d \<le> n div d * d" using assms(2) by (simp add: mult_right_mono)
    also have "\<dots> = n - n mod d" by (simp add: minus_mod_eq_div_mult)
    finally show False using False assms(3) pos_mod_sign[OF assms(2), of n] by linarith
  qed
  then show ?thesis using assms by (simp add: round_even_def Let_def pos_imp_zdiv_nonneg_iff)
qed

lemma diagonal_bounds: "0 \<le> s \<Longrightarrow> 0 \<le> diagonal s \<and> diagonal s \<le> s"
proof -
  assume s: "0 \<le> s"
  define k where "k = fp_scale (s * 6305039478318694) 9007199254740992 0"
  have "s * 6305039478318694 * 2 ^ k \<le> (s * 2 ^ k) * 9007199254740992" using s by simp
  then have "0 \<le> round_even (s * 6305039478318694 * 2 ^ k) 9007199254740992 \<and>
      round_even (s * 6305039478318694 * 2 ^ k) 9007199254740992 \<le> s * 2 ^ k"
    using s by (intro round_even_bounds) simp_all
  moreover have "0 \<le> m div 2 ^ k \<and> m div 2 ^ k \<le> s" if "0 \<le> m \<and> m \<le> s * 2 ^ k" for m :: int
    using that zdiv_mono1[of m "s * 2 ^ k" "2 ^ k"] by (simp add: pos_imp_zdiv_nonneg_iff)
  ultimately have "0 \<le> round_even (s * 6305039478318694 * 2 ^ k) 9007199254740992 div 2 ^ k \<and>
      round_even (s * 6305039478318694 * 2 ^ k) 9007199254740992 div 2 ^ k \<le> s" by blast
  then show ?thesis by (simp add: diagonal_def fp_div_def k_def Let_def del: fp_scale.simps)
qed

text \<open>How far a place is off the diagonal of a move, and where a move ends.\<close>

definition off_diagonal :: "int \<Rightarrow> int \<Rightarrow> pk_pos \<Rightarrow> int" where
  "off_diagonal sx sy p = (if sx = sy then posX p - posY p else posX p + posY p - 1000)"

lemma diag_move_cases:
  assumes "in_cell p" "0 \<le> s" "s < 1000" "sx = 1 \<or> sx = - 1" "sy = 1 \<or> sy = - 1"
  obtains (far) "s \<le> \<bar>off_diagonal sx sy p\<bar>" "off_diagonal sx sy p \<noteq> 0"
      "diag_move sx sy s p = (if (0 < off_diagonal sx sy p) = (sx < 0) then p\<lparr>posX := posX p + sx * s\<rparr> else p\<lparr>posY := posY p + sy * s\<rparr>)"
    | (near) e d where "d = off_diagonal sx sy p" "\<bar>d\<bar> \<le> s" "0 \<le> e" "e \<le> s - \<bar>d\<bar>"
      "diag_move sx sy s p = (if (0 < d) = (sx < 0) then \<lparr>posX = posX p + sx * \<bar>d\<bar> + sx * e, posY = posY p + sy * e\<rparr>
         else \<lparr>posX = posX p + sx * e, posY = posY p + sy * \<bar>d\<bar> + sy * e\<rparr>)"
proof -
  let ?d = "off_diagonal sx sy p"
  have p: "0 \<le> posX p" "posX p < 1000" "0 \<le> posY p" "posY p < 1000" using assms(1) by (simp_all add: in_cell_def)
  have d: "short (if sx = sy then posX p - posY p else posX p - (LENGTH_STRAIGHT - posY p)) = ?d"
    using p by (simp add: off_diagonal_def short_id)
  have bd: "\<bar>?d\<bar> \<le> 1000" using p by (cases "sx = sy") (simp_all add: off_diagonal_def abs_le_iff)
  show ?thesis
  proof (cases "\<bar>?d\<bar> < s \<or> ?d = 0")
    case True
    define e where "e = diagonal (s - \<bar>?d\<bar>)"
    have e: "0 \<le> e" "e \<le> s - \<bar>?d\<bar>" using diagonal_bounds[of "s - \<bar>?d\<bar>"] True assms(2) by (auto simp: e_def)
    have "diag_move sx sy s p = (if (0 < ?d) = (sx < 0) then \<lparr>posX = posX p + sx * \<bar>?d\<bar> + sx * e, posY = posY p + sy * e\<rparr>
         else \<lparr>posX = posX p + sx * e, posY = posY p + sy * \<bar>?d\<bar> + sy * e\<rparr>)"
      using True e p bd assms unfolding diag_move_def d Let_def e_def[symmetric]
      by (cases "?d = 0") (auto simp: short_id e_def)
    then show ?thesis using near[OF refl _ e] True assms(2) by auto
  next
    case False
    then have "diag_move sx sy s p =
        (if (0 < ?d) = (sx < 0) then p\<lparr>posX := posX p + sx * s\<rparr> else p\<lparr>posY := posY p + sy * s\<rparr>)"
      using p assms unfolding diag_move_def d Let_def by (cases p) (auto simp: short_id)
    then show ?thesis using far False by simp
  qed
qed


lemma diag_step:
  assumes "in_cell p" "0 \<le> s" "s < 1000"
  shows "on_cell (fst (move_mini 2 s p))" "on_cell (fst (move_mini 4 s p))" "on_cell (fst (move_mini 6 s p))"
    "on_cell (fst (move_mini 8 s p))"
proof -
  have p: "0 \<le> posX p" "posX p < 1000" "0 \<le> posY p" "posY p < 1000" using assms(1) by (simp_all add: in_cell_def)
  note facts = move_mini_def Let_def on_cell_def off_diagonal_def wrap_x_def wrap_y_def short_id
  show "on_cell (fst (move_mini 2 s p))"
    by (rule diag_move_cases[OF assms, of 1 "- 1"]) (use p assms(2,3) in \<open>auto simp: facts split: if_splits\<close>)
  show "on_cell (fst (move_mini 4 s p))"
    by (rule diag_move_cases[OF assms, of 1 1]) (use p assms(2,3) in \<open>auto simp: facts split: if_splits\<close>)
  show "on_cell (fst (move_mini 6 s p))"
    by (rule diag_move_cases[OF assms, of "- 1" 1]) (use p assms(2,3) in \<open>auto simp: facts split: if_splits\<close>)
  show "on_cell (fst (move_mini 8 s p))"
    by (rule diag_move_cases[OF assms, of "- 1" "- 1"]) (use p assms(2,3) in \<open>auto simp: facts split: if_splits\<close>)
qed

text \<open>
  A step from inside a cell, at any speed below 1000, ends inside the cell or on its border.  From a
  border it need not: a step to the south-east from the north-east corner, where a diagonal step to the
  south-west can end, leads far outside the cell.
\<close>

lemma move_mini_in_cell:
  assumes "in_cell p" and "0 \<le> s" and "s < 1000"
  shows "on_cell (fst (move_mini d s p)) \<and>
    fst (move_mini 6 1 \<lparr>posX = 0, posY = 999\<rparr>) = \<lparr>posX = 1000, posY = 0\<rparr> \<and>
    (0 < s \<longrightarrow> fst (move_mini 4 s \<lparr>posX = 1000, posY = 0\<rparr>) = \<lparr>posX = 0, posY = s - 1000\<rparr>)"
proof -
  have p: "0 \<le> posX p" "posX p < 1000" "0 \<le> posY p" "posY p < 1000" using assms(1) by (simp_all add: in_cell_def)
  have straight: "on_cell (fst (move_mini d s p))" if "d \<notin> {2, 4, 6, 8}"
    using that p assms(2,3) by (auto simp: move_mini_def Let_def on_cell_def wrap_x_def wrap_y_def short_id split: if_splits)
  have "on_cell (fst (move_mini d s p))" using straight diag_step[OF assms] by (cases "d \<in> {2, 4, 6, 8}") auto
  moreover have "fst (move_mini 4 s \<lparr>posX = 1000, posY = 0\<rparr>) = \<lparr>posX = 0, posY = s - 1000\<rparr>" if "0 < s"
    using that assms(3) by (simp add: move_mini_def diag_move_def Let_def wrap_x_def wrap_y_def short_id)
  moreover have "fst (move_mini 6 1 \<lparr>posX = 0, posY = 999\<rparr>) = \<lparr>posX = 1000, posY = 0\<rparr>"
    by (simp add: move_mini_def diag_move_def Let_def wrap_x_def wrap_y_def short_id)
  ultimately show ?thesis by blast
qed

lemma move_mini_in_cell_witness:
  "on_cell (fst (move_mini 2 400 \<lparr>posX = 500, posY = 500\<rparr>)) \<and>
    fst (move_mini 4 400 \<lparr>posX = 1000, posY = 0\<rparr>) = \<lparr>posX = 0, posY = - 600\<rparr>"
  using move_mini_in_cell[of "\<lparr>posX = 500, posY = 500\<rparr>" 400 2] by (simp add: in_cell_def)

section \<open>The search for room\<close>

definition shifted :: "pk_pos \<Rightarrow> nat \<Rightarrow> pk_pos" where
  "shifted p k = \<lparr>posX = short (posX p + 5 * int k), posY = short (posY p + 5 * int k)\<rparr>"

lemma shifted_Suc: "\<lparr>posX = short (posX (shifted p k) + 5), posY = short (posY (shifted p k) + 5)\<rparr> = shifted p (Suc k)"
  using short_add[of "posX p + 5 * int k" 5] short_add[of "posY p + 5 * int k" 5]
  by (simp add: shifted_def algebra_simps)

lemma coprime_65536_5: "coprime (65536::int) 5"
proof (rule coprimeI)
  fix c :: int assume c: "c dvd 65536" "c dvd 5"
  have "c dvd 65536 - 5 * 13107" using c by (intro dvd_diff dvd_mult2)
  then show "is_unit c" by simp
qed

lemma inj_shifted: "inj_on (shifted p) {..<65536}"
proof (rule inj_onI)
  fix k l assume kl: "k \<in> {..<65536}" "l \<in> {..<65536}" "shifted p k = shifted p l"
  then have "(posX p + 5 * int k + 32768) mod 65536 = (posX p + 5 * int l + 32768) mod 65536"
    by (simp add: shifted_def short_def)
  then have "(65536::int) dvd 5 * (int k - int l)"
    by (simp add: mod_eq_dvd_iff right_diff_distrib)
  moreover have "coprime (65536::int) 5" by (rule coprime_65536_5)
  ultimately have "(65536::int) dvd int k - int l" by (simp only: coprime_dvd_mult_right_iff)
  then show "k = l" using kl(1,2) zdvd_imp_le[of 65536 "int k - int l"] zdvd_imp_le[of 65536 "int l - int k"]
    by (cases k l rule: linorder_cases) (simp_all add: dvd_diff_commute[of _ "int k"])
qed

lemma free_shift: "length all < 65536 \<Longrightarrow> \<exists>k. shifted p k \<notin> pos_of ` set all"
proof (rule ccontr)
  assume n: "length all < 65536" and "\<nexists>k. shifted p k \<notin> pos_of ` set all"
  then have "shifted p ` {..length all} \<subseteq> pos_of ` set all" by blast
  then have "card (shifted p ` {..length all}) \<le> length all"
    by (meson List.finite_set card_image_le card_length card_mono finite_imageI order_trans)
  moreover have "inj_on (shifted p) {..length all}" using n by (intro inj_on_subset[OF inj_shifted]) auto
  ultimately show False by (simp add: card_image)
qed

lemma make_room_shifted:
  assumes "shifted p k \<notin> pos_of ` set all" "set ts \<subseteq> set all"
  shows "\<exists>q. make_room all i ts (shifted p j) = Some q \<or> k < j"
  using assms
proof (induction "k - j" arbitrary: j ts rule: less_induct)
  case less
  show ?case using less.prems(2)
  proof (induction ts)
    case Nil
    then show ?case by (subst make_room.simps) simp
  next
    case (Cons t ts)
    show ?case
    proof (cases "rs_RoleID t \<noteq> i \<and> pos_of t = shifted p j \<and> j \<le> k")
      case True
      then have "j \<noteq> k" using less.prems(1) Cons.prems by (metis imageI list.set_intros(1) subsetD)
      then have "k - Suc j < k - j" "j < k" using True by linarith+
      moreover have "set (tl all) \<subseteq> set all" by (cases all) auto
      ultimately obtain q where "make_room all i (tl all) (shifted p (Suc j)) = Some q"
        using less.hyps[of "Suc j" "tl all"] less.prems(1) by auto
      then show ?thesis using True by (subst make_room.simps) (simp add: shifted_Suc)
    next
      case False
      show ?thesis
      proof (cases "k < j")
        case False
        then have "\<not> (rs_RoleID t \<noteq> i \<and> pos_of t = shifted p j)"
          using \<open>\<not> (rs_RoleID t \<noteq> i \<and> pos_of t = shifted p j \<and> j \<le> k)\<close> by auto
        then show ?thesis using Cons.IH Cons.prems by (subst make_room.simps) auto
      qed blast
    qed
  qed
qed

text \<open>The place found is not that of another role, the first role apart, which a second search leaves out.\<close>

lemma make_room_free:
  "make_room all i ts p = Some q \<Longrightarrow>
    \<forall>checked. set (tl all) \<subseteq> checked \<union> set ts \<longrightarrow> (\<forall>t \<in> checked. rs_RoleID t \<noteq> i \<longrightarrow> pos_of t \<noteq> p) \<longrightarrow>
      (\<forall>t \<in> set (tl all). rs_RoleID t \<noteq> i \<longrightarrow> pos_of t \<noteq> q)"
proof (rule make_room.raw_induct[where P = "\<lambda>all i ts p q. \<forall>checked. set (tl all) \<subseteq> checked \<union> set ts \<longrightarrow>
    (\<forall>t \<in> checked. rs_RoleID t \<noteq> i \<longrightarrow> pos_of t \<noteq> p) \<longrightarrow> (\<forall>t \<in> set (tl all). rs_RoleID t \<noteq> i \<longrightarrow> pos_of t \<noteq> q)"])
  fix mr :: "role_state list \<Rightarrow> int \<Rightarrow> role_state list \<Rightarrow> pk_pos \<Rightarrow> pk_pos option" and all i ts p q
  assume 1: "\<And>all i ts p q. mr all i ts p = Some q \<Longrightarrow> \<forall>checked. set (tl all) \<subseteq> checked \<union> set ts \<longrightarrow>
      (\<forall>t \<in> checked. rs_RoleID t \<noteq> i \<longrightarrow> pos_of t \<noteq> p) \<longrightarrow> (\<forall>t \<in> set (tl all). rs_RoleID t \<noteq> i \<longrightarrow> pos_of t \<noteq> q)"
    "(case ts of [] \<Rightarrow> Some p
      | t # ts' \<Rightarrow> if rs_RoleID t \<noteq> i \<and> pos_of t = p
          then mr all i (tl all) \<lparr>posX = short (posX p + 5), posY = short (posY p + 5)\<rparr> else mr all i ts' p) = Some q"
  show "\<forall>checked. set (tl all) \<subseteq> checked \<union> set ts \<longrightarrow>
      (\<forall>t \<in> checked. rs_RoleID t \<noteq> i \<longrightarrow> pos_of t \<noteq> p) \<longrightarrow> (\<forall>t \<in> set (tl all). rs_RoleID t \<noteq> i \<longrightarrow> pos_of t \<noteq> q)"
  proof (cases ts)
    case Nil
    then show ?thesis using 1(2) by auto
  next
    case (Cons t ts')
    show ?thesis
    proof (cases "rs_RoleID t \<noteq> i \<and> pos_of t = p")
      case True
      then have "mr all i (tl all) \<lparr>posX = short (posX p + 5), posY = short (posY p + 5)\<rparr> = Some q"
        using 1(2) Cons by simp
      from 1(1)[OF this, THEN spec, of "{}"] show ?thesis by simp
    next
      case False
      then have "mr all i ts' p = Some q" using 1(2) Cons by auto
      from 1(1)[OF this] have ih: "set (tl all) \<subseteq> c \<union> set ts' \<Longrightarrow> \<forall>t \<in> c. rs_RoleID t \<noteq> i \<longrightarrow> pos_of t \<noteq> p \<Longrightarrow>
        \<forall>t \<in> set (tl all). rs_RoleID t \<noteq> i \<longrightarrow> pos_of t \<noteq> q" for c by blast
      have "\<forall>t \<in> set (tl all). rs_RoleID t \<noteq> i \<longrightarrow> pos_of t \<noteq> q"
        if "set (tl all) \<subseteq> c \<union> set ts" "\<forall>t \<in> c. rs_RoleID t \<noteq> i \<longrightarrow> pos_of t \<noteq> p" for c
        using ih[of "insert t c"] that False Cons by auto
      then show ?thesis by blast
    qed
  qed
qed

lemma make_room_found:
  assumes "length all < 65536" and "set ts \<subseteq> set all" shows "\<exists>q. make_room all i ts p = Some q"
  using assms(2)
proof (induction ts)
  case Nil
  then show ?case by (subst make_room.simps) simp
next
  case (Cons t ts)
  have "\<exists>q. make_room all i (tl all) (shifted p 1) = Some q"
  proof -
    let ?p = "shifted p 1"
    have z: "shifted ?p 0 = ?p" by (simp add: shifted_def short_id)
    obtain k where "shifted ?p k \<notin> pos_of ` set all" using free_shift[OF assms(1)] by blast
    moreover have "set (tl all) \<subseteq> set all" by (cases all) auto
    ultimately show ?thesis using make_room_shifted[of ?p k all "tl all" i 0] unfolding z by simp
  qed
  moreover have "shifted p 1 = \<lparr>posX = short (posX p + 5), posY = short (posY p + 5)\<rparr>" by (simp add: shifted_def)
  ultimately show ?case using Cons by (subst make_room.simps) auto
qed

lemma next_cell_returns:
  assumes "length (pk_roles pk) < 65536"
  shows "\<exists>res pk'. next_cell i pk = Some (res, pk')"
proof (cases "tl (mv_MoveLine (rs_move (pk_role i pk)))")
  case Nil
  then show ?thesis by (simp add: next_cell_def)
next
  case (Cons p line)
  obtain q where "make_room (map snd (pk_roles pk)) (rs_RoleID (pk_role i pk)) (map snd (pk_roles pk)) p = Some q"
    using make_room_found[OF _ subset_refl] assms by (metis length_map)
  then show ?thesis using Cons by (cases line) (simp_all add: next_cell_def Let_def)
qed

lemma map_smap_put:
  "smap_ok m \<Longrightarrow> smap_find k m = Some v \<Longrightarrow> g (k, w) = g (k, v) \<Longrightarrow> map g (smap_put k w m) = map g m"
proof (induction k w m rule: smap_put.induct)
  case (2 k w a b m)
  have "\<not> k < a"
    using "2.prems" by (auto simp: smap_ok_def smap_find_def split: if_splits dest!: map_of_SomeD)
  then show ?case using 2 by (auto simp: smap_ok_def smap_find_def)
qed (simp add: smap_find_def)

definition places :: "pk \<Rightarrow> (int \<times> int \<times> pk_pos) list" where
  "places pk = map (\<lambda>(k, r). (k, rs_RoleID r, pos_of r)) (pk_roles pk)"

definition stands :: "pk \<Rightarrow> pk \<Rightarrow> bool" where
  "stands pk pk' \<longleftrightarrow> smap_ok (pk_roles pk) \<longrightarrow> smap_ok (pk_roles pk') \<and> places pk' = places pk"

lemma stands_upd:
  assumes "stands pk q" "\<And>r. rs_RoleID (f r) = rs_RoleID r \<and> pos_of (f r) = pos_of r"
  shows "stands pk (pk_upd i f q)"
  unfolding stands_def
proof (intro impI)
  assume "smap_ok (pk_roles pk)"
  then have q: "smap_ok (pk_roles q)" "places q = places pk" using assms(1) by (auto simp: stands_def)
  show "smap_ok (pk_roles (pk_upd i f q)) \<and> places (pk_upd i f q) = places pk"
  proof (cases "smap_find i (pk_roles q)")
    case None
    then show ?thesis using q by (simp add: pk_upd_def)
  next
    case (Some r)
    then show ?thesis using q map_smap_put[OF q(1) Some, of "\<lambda>(k, r). (k, rs_RoleID r, pos_of r)" "f r"] assms(2)
      by (simp add: pk_upd_def places_def smap)
  qed
qed

lemma stands_drains: "stands pk (fold (drain i) ks pk)"
proof -
  have drain: "stands pk (drain i k q)" if "stands pk q" for k q
  proof -
    have out: "stands pk (BrodacastMpChange a n s p)" if "stands pk p" for a n s p
      using that by (simp add: stands_def BrodacastMpChange_def places_def)
    show ?thesis using that unfolding drain_def set_buff_def by (auto simp: Let_def intro!: out stands_upd)
  qed
  have "stands pk q \<Longrightarrow> stands pk (fold (drain i) ks q)" for q
    by (induction ks arbitrary: q) (auto intro: drain)
  then show ?thesis by (simp add: stands_def)
qed

lemma next_cell_free:
  assumes "smap_ok (pk_roles q)" "smap_find i (pk_roles q) \<noteq> None" "next_cell i q = Some (res, pk')"
  shows "pos_of (pk_role i pk') = pos_of (pk_role i q) \<or>
    (\<forall>t \<in> set (tl (map snd (pk_roles q))). rs_RoleID t \<noteq> rs_RoleID (pk_role i q) \<longrightarrow> pos_of t \<noteq> pos_of (pk_role i pk'))"
proof (cases "tl (mv_MoveLine (rs_move (pk_role i q)))")
  case Nil
  then show ?thesis using assms(3) by (simp add: next_cell_def)
next
  case (Cons p line)
  let ?ts = "map snd (pk_roles q)" and ?id = "rs_RoleID (pk_role i q)"
  obtain c where c: "make_room ?ts ?id ?ts p = Some c"
    using assms(3) Cons by (cases "make_room ?ts ?id ?ts p") (simp_all add: next_cell_def Let_def)
  have "pos_of (pk_role i pk') = c"
    using assms(2,3) Cons c by (cases line) (auto simp: next_cell_def Let_def pk_role_upd find_pk_upd upd_move_def)
  moreover have "\<forall>t \<in> set (tl ?ts). rs_RoleID t \<noteq> ?id \<longrightarrow> pos_of t \<noteq> c"
    using make_room_free[OF c] list.set_sel(2)[of ?ts] by (cases ?ts) auto
  ultimately show ?thesis by simp
qed

lemma places_find: "map_of (places pk) i = map_option (\<lambda>r. (rs_RoleID r, pos_of r)) (smap_find i (pk_roles pk))"
  unfolding places_def smap_find_def by (simp add: map_of_map)

lemma places_free:
  "(\<forall>(k, t) \<in> set (tl (pk_roles pk)). rs_RoleID t \<noteq> j \<longrightarrow> pos_of t \<noteq> c) \<longleftrightarrow>
    list_all (\<lambda>(k, i, p). i \<noteq> j \<longrightarrow> p \<noteq> c) (tl (places pk))"
  by (cases "pk_roles pk") (auto simp: places_def list_all_iff)

text \<open>
  C17: a role's step always ends, although the search for a free cell has no bound in the code, and it
  ends where the role was or on a cell that no other role has, the first role apart, which the search
  leaves out after it has shifted the place.
\<close>

theorem CalculateMoveP_finds_room:
  assumes "length (pk_roles pk) < 65536" and "smap_ok (pk_roles pk)" and "smap_find i (pk_roles pk) = Some r"
  shows "\<exists>res pk'. CalculateMoveP i pk = Some (res, pk') \<and>
    (pos_of (pk_role i pk') = pos_of r \<or>
     (\<forall>(k, t) \<in> set (tl (pk_roles pk)). rs_RoleID t \<noteq> rs_RoleID r \<longrightarrow> pos_of t \<noteq> pos_of (pk_role i pk')))"
proof -
  let ?q0 = "fold (drain i) [0..<length (rs_buffs (pk_role i pk))] pk"
  let ?f = "\<lambda>c. upd_move (\<lambda>m. m\<lparr>mv_CurrentPosMini := c\<rparr>)"
  have stay: "stands pk ?q0" "stands pk (pk_upd i (?f c) ?q0)" for c
    by (auto intro!: stands_upd stands_drains simp: upd_move_def)
  have there: "smap_find i (pk_roles q) \<noteq> None \<and> rs_RoleID (pk_role i q) = rs_RoleID r \<and> pos_of (pk_role i q) = pos_of r \<and>
      length (pk_roles q) < 65536 \<and> smap_ok (pk_roles q)" if "stands pk q" for q
  proof -
    have e: "places q = places pk" "smap_ok (pk_roles q)" using that assms(2) by (simp_all add: stands_def)
    have "length (pk_roles q) = length (pk_roles pk)" using arg_cong[OF e(1), of length] by (simp add: places_def)
    moreover have "map_option (\<lambda>r. (rs_RoleID r, pos_of r)) (smap_find i (pk_roles q)) = Some (rs_RoleID r, pos_of r)"
      using places_find[of q i] places_find[of pk i] unfolding e(1) assms(3) by simp
    then obtain r' where "smap_find i (pk_roles q) = Some r'" "rs_RoleID r' = rs_RoleID r" "pos_of r' = pos_of r" by auto
    ultimately show ?thesis using e(2) assms(1) by (simp add: pk_role_def)
  qed
  have cell: "\<exists>res pk'. next_cell i q = Some (res, pk') \<and> (pos_of (pk_role i pk') = pos_of r \<or>
     (\<forall>(k, t) \<in> set (tl (pk_roles pk)). rs_RoleID t \<noteq> rs_RoleID r \<longrightarrow> pos_of t \<noteq> pos_of (pk_role i pk')))"
    if "stands pk q" for q
  proof -
    note t = there[OF that]
    obtain res pk' where n: "next_cell i q = Some (res, pk')" using next_cell_returns t by blast
    have "pos_of (pk_role i pk') = pos_of r \<or>
      (\<forall>(k, t) \<in> set (tl (pk_roles q)). rs_RoleID t \<noteq> rs_RoleID r \<longrightarrow> pos_of t \<noteq> pos_of (pk_role i pk'))"
      using next_cell_free[OF _ _ n] t by (auto simp: map_tl[symmetric])
    moreover have "places q = places pk" using that assms(2) by (simp add: stands_def)
    ultimately show ?thesis using n unfolding places_free by metis
  qed
  have r: "pk_role i pk = r" using assms(3) by (simp add: pk_role_def)
  show ?thesis
    using cell[OF stay(2)] there[OF stay(1)] there[OF stay(2)] unfolding CalculateMoveP_def Let_def r
    by (auto simp: case_prod_beta r)
qed

theorem CalculateMoveP_finds_room_witness: "\<exists>res pk'. CalculateMoveP 1 demo_pk = Some (res, pk')"
proof -
  have "length (pk_roles demo_pk) < 65536" "smap_ok (pk_roles demo_pk)"
    by (simp_all add: demo_pk_def smap_ok_def)
  moreover obtain r where "smap_find 1 (pk_roles demo_pk) = Some r" by (simp add: demo_pk_def smap_find_def)
  ultimately show ?thesis using CalculateMoveP_finds_room by blast
qed


section \<open>A charge\<close>

text \<open>Where a line from a place towards another meets the border, by rows and by columns.\<close>

lemma border_shift:
  fixes x dx m :: int
  assumes "0 \<le> x" "x < m" "dx \<noteq> 0"
  defines "t \<equiv> to_border dx m x"
  shows "0 \<le> x + t" "x + t < m" "sgn t = sgn dx \<or> t = 0"
  using assms by (auto simp: to_border_def)

lemma one_border:
  fixes x y dx dy :: int
  assumes "0 \<le> x" "x < 50" "0 \<le> y" "y < 29" "dx \<noteq> 0" "dy \<noteq> 0"
  defines "tx \<equiv> to_border dx 50 x" and "ty \<equiv> to_border dy 29 y"
  shows "0 \<le> y + dy * tx sdiv dx \<and> y + dy * tx sdiv dx < 29 \<or> 0 \<le> x + dx * ty sdiv dy \<and> x + dx * ty sdiv dy < 50"
proof -
  have sd: "a * t sdiv b = sgn a * (\<bar>a\<bar> * \<bar>t\<bar> div \<bar>b\<bar>)" if "sgn t = sgn b \<or> t = 0" for a b t :: int
    using that by (auto simp: signed_divide_int_def abs_mult sgn_mult)
  have tx: "sgn tx = sgn dx \<or> tx = 0" and ty: "sgn ty = sgn dy \<or> ty = 0"
    using assms border_shift[of x 50 dx] border_shift[of y 29 dy] by auto
  show ?thesis
  proof (cases "\<bar>dy\<bar> * \<bar>tx\<bar> div \<bar>dx\<bar> \<le> \<bar>ty\<bar>")
    case True
    moreover have "0 \<le> \<bar>dy\<bar> * \<bar>tx\<bar> div \<bar>dx\<bar>" using assms by (simp add: pos_imp_zdiv_nonneg_iff)
    ultimately show ?thesis using assms(3,4,6) unfolding sd[OF tx] ty_def by (auto simp: to_border_def sgn_if split: if_splits)
  next
    case False
    then have "\<bar>ty\<bar> * \<bar>dx\<bar> < \<bar>dy\<bar> * \<bar>tx\<bar>"
      using assms(5) zdiv_mono1[of "\<bar>dy\<bar> * \<bar>tx\<bar>" "\<bar>ty\<bar> * \<bar>dx\<bar>" "\<bar>dx\<bar>"] by (simp add: not_le) (meson leI)
    then have "\<bar>dx\<bar> * \<bar>ty\<bar> div \<bar>dy\<bar> \<le> \<bar>tx\<bar>"
      using assms(6) zdiv_mono1[of "\<bar>dx\<bar> * \<bar>ty\<bar>" "\<bar>dy\<bar> * \<bar>tx\<bar>" "\<bar>dy\<bar>"] by (simp add: mult.commute)
    moreover have "0 \<le> \<bar>dx\<bar> * \<bar>ty\<bar> div \<bar>dy\<bar>" using assms by (simp add: pos_imp_zdiv_nonneg_iff)
    ultimately show ?thesis using assms(1,2,5) unfolding sd[OF ty] tx_def by (auto simp: to_border_def sgn_if split: if_splits)
  qed
qed

text \<open>The end of a charge before the border is considered.\<close>

definition straight_end :: "pk_pos \<Rightarrow> pk_pos \<Rightarrow> int \<Rightarrow> pk_pos" where
  "straight_end s t reach =
     (let d = short (int_sqrt (dist_sq t s))
      in \<lparr>posX = short (posX s + reach * (posX t - posX s) sdiv (if d = 0 then 1 else d)),
          posY = short (posY s + reach * (posY t - posY s) sdiv (if d = 0 then 1 else d))\<rparr>)"

text \<open>
  When the straight end of a charge is off the map, the charge of skill 222 is cut at the border, and
  it ends on the map; but a target in the caster's row or column makes the code divide by zero, which
  ends the server.
\<close>

lemma charge_leaves_map:
  assumes "on_map s" and "on_map t"
  shows "(charge_end_222 s t reach = None \<longleftrightarrow> \<not> on_map (straight_end s t reach) \<and> (posX s = posX t \<or> posY s = posY t)) \<and>
    (case charge_end_222 s t reach of None \<Rightarrow> True | Some e \<Rightarrow> on_map e)"
proof -
  have b: "0 \<le> posX s" "posX s < 50" "0 \<le> posY s" "posY s < 29" "0 \<le> posX t" "posX t < 50" "0 \<le> posY t" "posY t < 29"
    using assms by (simp_all add: on_map_def)
  let ?dx = "posX t - posX s" and ?dy = "posY t - posY s"
  let ?tx = "to_border ?dx 50 (posX s)" and ?ty = "to_border ?dy 29 (posY s)"
  let ?x = "posX s + ?dx * ?ty sdiv ?dy" and ?y = "posY s + ?dy * ?tx sdiv ?dx"
  have d: "short ?dx = ?dx" "short ?dy = ?dy" "short ?tx = ?tx" "short ?ty = ?ty"
    using b by (simp_all add: short_id to_border_def)
  have "charge_end_222 s t reach = Some (straight_end s t reach)" if "on_map (straight_end s t reach)"
    using that by (simp add: charge_end_222_def straight_end_def Let_def d)
  moreover have "charge_end_222 s t reach = None" if "\<not> on_map (straight_end s t reach)" "?dx = 0 \<or> ?dy = 0"
    using that by (auto simp: charge_end_222_def straight_end_def Let_def d c_div_def split: option.split)
  moreover have "\<exists>e. charge_end_222 s t reach = Some e \<and> on_map e"
    if "\<not> on_map (straight_end s t reach)" "?dx \<noteq> 0" "?dy \<noteq> 0"
  proof -
    have "charge_end_222 s t reach = Some (if 0 \<le> short ?y \<and> short ?y < 29 then \<lparr>posX = short (?tx + posX s), posY = short ?y\<rparr>
        else if 0 \<le> short ?x \<and> short ?x < 50 then \<lparr>posX = short ?x, posY = short (?ty + posY s)\<rparr> else straight_end s t reach)"
      using that by (simp add: charge_end_222_def straight_end_def Let_def d c_div_def)
    moreover have "0 \<le> ?y \<and> ?y < 29 \<or> 0 \<le> ?x \<and> ?x < 50" using one_border[of "posX s" "posY s" ?dx ?dy] b that by blast
    moreover have "0 \<le> posX s + ?tx" "posX s + ?tx < 50" "0 \<le> posY s + ?ty" "posY s + ?ty < 29"
      using border_shift[of "posX s" 50 ?dx] border_shift[of "posY s" 29 ?dy] b that by auto
    ultimately show ?thesis by (auto simp: on_map_def short_id add.commute[of _ "posX s"] add.commute[of _ "posY s"])
  qed
  ultimately show ?thesis by (cases "on_map (straight_end s t reach)"; cases "?dx = 0 \<or> ?dy = 0") force+
qed

lemma charge_leaves_map_witness:
  "charge_end_222 \<lparr>posX = 0, posY = 5\<rparr> \<lparr>posX = 0, posY = 1\<rparr> 5 = Some \<lparr>posX = 0, posY = 0\<rparr> \<and>
    charge_end_222 \<lparr>posX = 0, posY = 3\<rparr> \<lparr>posX = 0, posY = 1\<rparr> 5 = None \<and>
    on_map (the (charge_end_222 \<lparr>posX = 1, posY = 3\<rparr> \<lparr>posX = 0, posY = 1\<rparr> 5))"
proof -
  have "charge_end_222 \<lparr>posX = 0, posY = 5\<rparr> \<lparr>posX = 0, posY = 1\<rparr> 5 = Some \<lparr>posX = 0, posY = 0\<rparr>" by code_simp
  moreover have "\<not> on_map (straight_end \<lparr>posX = 0, posY = 3\<rparr> \<lparr>posX = 0, posY = 1\<rparr> 5)" by code_simp
  then have "charge_end_222 \<lparr>posX = 0, posY = 3\<rparr> \<lparr>posX = 0, posY = 1\<rparr> 5 = None"
    using charge_leaves_map[of "\<lparr>posX = 0, posY = 3\<rparr>" "\<lparr>posX = 0, posY = 1\<rparr>" 5] by (simp add: on_map_def)
  moreover have "on_map (the (charge_end_222 \<lparr>posX = 1, posY = 3\<rparr> \<lparr>posX = 0, posY = 1\<rparr> 5))"
    using charge_leaves_map[of "\<lparr>posX = 1, posY = 3\<rparr>" "\<lparr>posX = 0, posY = 1\<rparr>" 5]
    by (auto simp: on_map_def split: option.splits)
  ultimately show ?thesis by blast
qed

section \<open>The end of a curse\<close>

lemma revived_live:
  assumes "has_role pk i" "revives (pk_now pk) (pk_role i pk) = Some sk"
  shows "rs_Live (pk_role i (onRoleDead i pk)) = ROLE_STATUS_LIVE"
proof -
  let ?p = "pk_upd i (\<lambda>r. RoleState_Init (clear_buffs r)) (BrodacastDead (rs_RoleID (pk_role i pk)) pk)"
  have p: "has_role ?p i" "rs_Live (pk_role i ?p) = ROLE_STATUS_LIVE" "rs_buffs (pk_role i ?p) = []"
    using assms(1) by (simp_all add: own_role RoleState_Init_def clear_buffs_def role_upds)
  have "rs_Live (pk_role i (UpdataBuffer_0 i (revival_buff n s) UPDATABUFFER_ADD ?p)) = rs_Live (pk_role i ?p)" for n s
    using p unfolding UpdataBuffer_0_def UpdataBuffer_with_def
    by (simp add: revival_buff_def Buff_new_def add_buff_def own_role buff_effect_def skill_effect_def role_upds)
  then show ?thesis unfolding onRoleDead_def using assms p
    by (simp add: Let_def own_role role_upds use_skill_def)
qed

lemma curse_kills:
  assumes "has_role pk i" "bf_Type b = BUFFER_TYPE_BYSKILL" "bf_ParentSkill b = 225"
    "short (rs_HP (pk_role i pk) - curse_hurt b) \<le> 0" "revives (pk_now pk) (pk_role i pk) = Some sk"
  obtains q where "UpdataBuffer i b UPDATABUFFER_DEL pk = onRoleDead i q" "has_role q i"
    "rs_cleared (pk_role i q) = rs_cleared (pk_role i pk)" "revives (pk_now q) (pk_role i q) = Some sk"
proof -
  let ?s = "send_buff i b UPDATABUFFER_DEL pk"
  let ?e = "pk_upd i (buff_effect UPDATABUFFER_DEL b None) ?s"
  let ?h = "pk_upd i (\<lambda>r. r\<lparr>rs_HP := short (rs_HP r - curse_hurt b)\<rparr>)
    (BrodacastHpChange (rs_RoleID (pk_role i ?e)) (- curse_hurt b) HPCHANGE_SOURCE_SKILL 225 ?e)"
  let ?q = "pk_upd i (\<lambda>r. r\<lparr>rs_HP := 0\<rparr>) ?h"
  have now: "pk_now ?s = pk_now pk" by (simp add: send_buff_def Brodacast_Skill_Buffer_def Brodacast_Buffer_Stop_def)
  have role: "pk_role i ?e = upd_phys (\<lambda>p. p\<lparr>ph_HurtAdd := trade curse UPDATABUFFER_DEL b None (ph_HurtAdd p)\<rparr>) (pk_role i pk)"
    using assms(1-3) by (simp add: own_role buff_effect_def skill_effect_def)
  have "UpdataBuffer i b UPDATABUFFER_DEL pk = onRoleDead i ?q"
    using assms(1-4) role unfolding UpdataBuffer_def UpdataBuffer_with_def
    by (simp add: buff_ends_def Let_def own_role role_upds)
  moreover have "has_role ?q i" using assms(1) by simp
  moreover have "rs_cleared (pk_role i ?q) = rs_cleared (pk_role i pk)"
    using assms(1) role by (simp add: own_role role_upds)
  moreover have "revives (pk_now ?q) (pk_role i ?q) = Some sk"
    using assms(1,5) role now by (simp add: own_role role_upds revives_def BrodacastHpChange_def)
  ultimately show thesis by (rule that)
qed

text \<open>
  C18: a role that dies of the end of a curse (skill 225) and revives at once (skill 236) breaks the loop
  over its buffs, whose iterator then belongs to a table that was cleared.
\<close>

theorem curse_of_revival:
  assumes "smap_find i (pk_roles pk) = Some r" and "rs_buffs r = b # bs"
    and "bf_Type b = BUFFER_TYPE_BYSKILL" and "bf_ParentSkill b = 225" and "bf_RunTimeLimit b \<le> 0"
    and "bf_EndTime b \<le> pk_now pk" and "short (rs_HP r - curse_hurt b) \<le> 0" and "revives (pk_now pk) r \<noteq> None"
  shows "CalculateBuff i pk = None"
proof -
  obtain sk where sk: "revives (pk_now pk) (pk_role i pk) = Some sk" using assms(1,8) by (auto simp: pk_role_def)
  have r: "has_role pk i" "pk_role i pk = r" using assms(1) by (simp_all add: has_role_def pk_role_def)
  obtain q where q: "UpdataBuffer i b UPDATABUFFER_DEL pk = onRoleDead i q" "has_role q i"
    "rs_cleared (pk_role i q) = rs_cleared (pk_role i pk)" "revives (pk_now q) (pk_role i q) = Some sk"
    using curse_kills[OF r(1) assms(3,4) _ sk] assms(7) r(2) by blast
  have "rs_cleared (pk_role i (onRoleDead i q)) = Suc (rs_cleared (pk_role i pk))"
    using dead_clears[OF q(2)] q(3) by (simp add: own_def)
  then show ?thesis using assms(2,5,6) revived_live[OF q(2,4)] r(2) q(1)
    by (simp add: CalculateBuff_def tick_buff_def Let_def)
qed

definition demo_curse :: buff where
  "demo_curse = (Buff_new BUFFER_TYPE_BYSKILL 225 1 50 10 False True)\<lparr>bf_Parametar1 := 2050, bf_Parametar2 := 300\<rparr>"

definition demo_cursed :: role_state where
  "demo_cursed = (demo_role_state 1 1 \<lparr>posX = 10, posY = 12\<rparr>)\<lparr>rs_HP := 100, rs_buffs := [demo_curse],
     rs_magic := (rs_magic (demo_role_state 1 1 \<lparr>posX = 10, posY = 12\<rparr>))\<lparr>mg_SkillMap :=
       [(236, \<lparr>sk_SkillLevel = 1, sk_DoingTime = 0, sk_Area = 0, sk_MP = 5, sk_SkillCD = 100, sk_LastUseTime = 0\<rparr>)]\<rparr>\<rparr>"

theorem curse_of_revival_witness: "CalculateBuff 1 (demo_pk\<lparr>pk_roles := [(1, demo_cursed)]\<rparr>) = None"
  by (rule curse_of_revival[of 1 _ demo_cursed demo_curse "[]"])
    (simp_all add: smap_find_def demo_cursed_def demo_curse_def Buff_new_def demo_pk_def curse_hurt_def short_def revives_def uint32_def ushort_def)

end
