(* ===== verification/Sql_Access.thy ===== *)
theory Sql_Access
  imports Role
begin

text \<open>
  \<^verbatim>\<open>Framework/BaseDB/DBOperate.cpp\<close>: a statement to the database and the rows it answers
  with.  The database is what the statements of the sources say about its tables, whose type is a
  parameter: a query is a function from the tables to rows, a change a function from tables to tables.
  \<open>db_refuse n\<close> says whether the \<open>n\<close>th statement fails, for whatever reason; it then changes
  nothing.  A query without \<^verbatim>\<open>order by\<close> answers in the order the table is in.

  \<^verbatim>\<open>_record\<close> is not set by the constructor and keeps its value when a query fails, while
  its rows are freed: then it \<open>dangles\<close>.  A loop over the rows that tests \<^verbatim>\<open>_record\<close> does
  not end in this case, because \<^verbatim>\<open>NextRow\<close> does nothing without a result.
\<close>

record 't db =
  db_tables :: 't
  db_refuse :: "nat \<Rightarrow> bool"
  db_time :: nat

record dbo =
  do_results :: bool
  do_rows :: "db_row list"
  do_dangles :: bool
  do_rowNum :: u32

definition DBOperate_new :: "bool \<Rightarrow> dbo" where
  "DBOperate_new junk = \<lparr>do_results = False, do_rows = [], do_dangles = junk, do_rowNum = 0\<rparr>"

definition HasRowData :: "dbo \<Rightarrow> bool" where
  "HasRowData d \<longleftrightarrow> do_dangles d \<or> do_rows d \<noteq> []"

definition FreeResult :: "dbo \<Rightarrow> dbo" where
  "FreeResult d = d\<lparr>do_results := False, do_rows := [], do_dangles := HasRowData d\<rparr>"

text \<open>\<^verbatim>\<open>Operate\<close> with and without a result: 0, 1 for a query without rows, -1 when the
  statement fails.\<close>

definition QuerySQL :: "('t \<Rightarrow> db_row list) \<Rightarrow> dbo \<Rightarrow> 't db \<Rightarrow> int \<times> dbo \<times> 't db" where
  "QuerySQL sql d db =
     (let db' = db\<lparr>db_time := Suc (db_time db)\<rparr>; rows = sql (db_tables db)
      in if db_refuse db (db_time db) then (- 1, FreeResult d, db')
         else (if rows = [] then 1 else 0,
               \<lparr>do_results = True, do_rows = rows, do_dangles = False, do_rowNum = of_nat (length rows)\<rparr>, db'))"

definition ExceSQL :: "('t \<Rightarrow> 't) \<Rightarrow> dbo \<Rightarrow> 't db \<Rightarrow> int \<times> dbo \<times> 't db" where
  "ExceSQL sql d db =
     (let db' = db\<lparr>db_time := Suc (db_time db)\<rparr>
      in if db_refuse db (db_time db) then (- 1, FreeResult d, db')
         else (0, FreeResult d, db'\<lparr>db_tables := sql (db_tables db)\<rparr>))"

definition NextRow :: "dbo \<Rightarrow> dbo" where
  "NextRow d = (if do_results d then d\<lparr>do_rows := tl (do_rows d)\<rparr> else d)"

text \<open>\<open>field k d\<close> is \<^verbatim>\<open>GetIntField(k)\<close> of the current row.\<close>

definition field :: "nat \<Rightarrow> dbo \<Rightarrow> i32" where
  "field k d = (case do_rows d of [] \<Rightarrow> 0 | row # _ \<Rightarrow> if do_results d then GetIntField row k else 0)"

definition string_field :: "nat \<Rightarrow> dbo \<Rightarrow> u8 list" where
  "string_field k d = (case do_rows d of [] \<Rightarrow> [] | row # _ \<Rightarrow> if do_results d then GetStringField row k else [])"

definition RowNum :: "dbo \<Rightarrow> u32" where
  "RowNum d = do_rowNum d"

text \<open>The rows that \<^verbatim>\<open>while(HasRowData()) { ...; NextRow(); }\<close> goes over.\<close>

definition each_row :: "dbo \<Rightarrow> db_row list option" where
  "each_row d = (if do_dangles d then None else Some (do_rows d))"

text \<open>A number in a row, and how \<^verbatim>\<open>%d\<close> writes an unsigned number of 32 bits into a
  statement.\<close>

definition db_int :: "int \<Rightarrow> db_val" where
  "db_int n = DInt (word_of_int n)"

definition d32 :: "u32 \<Rightarrow> int" where
  "d32 w = sint w"

definition d16 :: "u16 \<Rightarrow> int" where
  "d16 w = uint w"

definition db_bool :: "bool \<Rightarrow> db_val" where
  "db_bool b = DInt (if b then 1 else 0)"

section \<open>Answers of statements\<close>

named_theorems sql

lemmas [sql] = QuerySQL_def ExceSQL_def Let_def

lemma field_row [sql]: "do_results d \<Longrightarrow> do_rows d = row # rows \<Longrightarrow> field k d = GetIntField row k"
  by (simp add: field_def)

lemma GetIntField_cons [sql]:
  "GetIntField (v # row) 0 = (case v of DInt n \<Rightarrow> n | DStr _ \<Rightarrow> 0)" "GetIntField (v # row) (Suc k) = GetIntField row k"
  "GetIntField (v # row) (numeral n) = GetIntField row (pred_numeral n)" "GetIntField (v # row) 1 = GetIntField row 0"
  by (simp_all add: GetIntField_def numeral_eq_Suc)

text \<open>The loop over the rows of a failed query: it ends only if nothing was read before.\<close>

lemma each_row_failed: "each_row (FreeResult d) = (if HasRowData d then None else Some [])"
  by (simp add: each_row_def FreeResult_def)

lemma rows_unrolled:
  "HasRowData d \<Longrightarrow> do_results d \<Longrightarrow> \<not> do_dangles d \<Longrightarrow> each_row d = map_option ((#) (hd (do_rows d))) (each_row (NextRow d))"
  by (simp add: each_row_def NextRow_def HasRowData_def)

lemma failed_query_spins: "HasRowData (FreeResult d) \<Longrightarrow> HasRowData (NextRow (FreeResult d))"
  by (simp add: NextRow_def FreeResult_def)

end
