(* ===== verification/Main_State.thy ===== *)
theory Main_State
  imports Sql_Access Core_Data Service_Packets
begin

text \<open>
  What the services of the main server share: the tables behind bags, money and tasks as far as the
  modelled statements use their columns, the core data, the messages sent, and the buffers the messages
  are built in.
\<close>

section \<open>Tables and state\<close>

record bag_row =
  bg_RoleID :: int
  bg_CellType :: int
  bg_CellIndex :: int
  bg_ItemType :: int
  bg_ItemID :: int
  bg_EntityID :: int
  bg_Num :: int

record money_row =
  mn_RoleID :: int
  mn_Money :: int
  mn_BindMoney :: int
  mn_Gold :: int

record entity_row =
  en_EntityID :: int
  en_ItemID :: int
  en_Durability :: int
  en_BindStatus :: int

record item_row =
  it_ItemID :: int
  it_ItemType :: int
  it_CellType :: int
  it_IsStack :: int
  it_Bind :: int
  it_CostBuy :: int
  it_Durability :: int
  it_CdTime :: int

record task_row =
  tk_TaskID :: int
  tk_TaskName :: "u8 list"
  tk_TaskType :: int
  tk_MinLevel :: int
  tk_MaxLevel :: int
  tk_MaxAcceptNum :: int
  tk_ExitNpcID :: int
  tk_CanAcceptScript :: "u8 list"
  tk_TodoScript :: "u8 list"
  tk_AfterDeliverScript :: "u8 list"

record role_task_row =
  rt_RoleID :: int
  rt_TaskID :: int
  rt_FinishStatus :: int
  rt_DeliverNum :: int

record task_detail_row =
  td_DetailID :: int
  td_RoleID :: int
  td_TaskID :: int
  td_GoalType :: int
  td_GoalID :: int
  td_GoalNum :: int
  td_IsFinish :: int
  td_FinishNum :: int

record tables =
  tb_Bag :: "bag_row list"
  tb_RoleMoney :: "money_row list"
  tb_Entity :: "entity_row list"
  tb_Item :: "item_row list"
  tb_Task :: "task_row list"
  tb_RoleTask :: "role_task_row list"
  tb_RoleTaskDetail :: "task_detail_row list"
  tb_nextEntity :: int
  tb_nextDetail :: int

text \<open>What a service sends: the answer to a request and a broadcast.  The other messages are events:
  the status of the NPCs around a role (\<^verbatim>\<open>CoreData::NotifyNpcStatus\<close>), a role's new level or
  experience, and experience for a role that is on no map, which \<^verbatim>\<open>RoleInfoSvc\<close> enters.\<close>

datatype svc_out = Answer "packet option" | Notice "u32 list" "packet option" | NpcStatus u32
  | LevelUp u32 | ExpGain u32 i32 | OfflineExp u32 i32

text \<open>The functions of \<^verbatim>\<open>MainServer/Task/TaskLua.cpp\<close> that a script may call.\<close>

datatype lua_call =
    LuaGetRoleTaskStatus u32
  | LuaGetRoleProID
  | LuaAddRoleMoney u32
  | LuaAddRoleBindMoney u32
  | LuaAddRoleExp u32
  | LuaAddRoleItem u32 u32
  | LuaDeleteItem u32 u32
  | LuaAddRoleTaskKillMonster u32 u32
  | LuaAddRoleTaskHoldItem u32 u32
  | LuaAddRoleTaskUseItem u32
  | LuaAddRoleTaskDress u32
  | LuaAddRoleTaskCallPet u32
  | LuaAddRoleTaskLearnSkill
  | LuaAddRoleTaskComposeEquip
  | LuaAddRoleTaskAddFriend
  | LuaAddRoleTaskAddTeam

record main_state =
  ms_core :: core_data
  ms_db :: "tables db"
  ms_out :: "svc_out list"
  ms_luaTask :: u32

text \<open>\<open>me_record\<close> and \<open>me_word\<close> are the values of an uninitialised pointer and number,
  \<open>me_level\<close> the answer to the query for the experience of a level.  \<open>me_lua\<close> stands for the Lua
  library: what the script does when it has got these answers to its calls so far, make another call or end
  with a code, which is -1 when it fails.  Its first argument tells one run of a script from another.
  \<open>ms_luaTask\<close> is the global \<^verbatim>\<open>__gTaskID__\<close> of the Lua state of the thread, which is not
  set for every script.\<close>

record main_env =
  me_svc :: svc_env
  me_relock :: bool
  me_record :: bool
  me_word :: u32
  me_level :: "u32 \<Rightarrow> db_row query"
  me_lua :: "nat \<Rightarrow> u8 list \<Rightarrow> u32 option list \<Rightarrow> lua_call + i32"

definition dbo_new :: "main_env \<Rightarrow> dbo" where
  "dbo_new env = DBOperate_new (me_record env)"

definition query :: "(tables \<Rightarrow> db_row list) \<Rightarrow> dbo \<Rightarrow> main_state \<Rightarrow> int \<times> dbo \<times> main_state" where
  "query sql d ms = (let (iRet, d', db') = QuerySQL sql d (ms_db ms) in (iRet, d', ms\<lparr>ms_db := db'\<rparr>))"

definition exec :: "(tables \<Rightarrow> tables) \<Rightarrow> dbo \<Rightarrow> main_state \<Rightarrow> int \<times> dbo \<times> main_state" where
  "exec sql d ms = (let (iRet, d', db') = ExceSQL sql d (ms_db ms) in (iRet, d', ms\<lparr>ms_db := db'\<rparr>))"

definition emit :: "svc_out list \<Rightarrow> main_state \<Rightarrow> main_state" where
  "emit out ms = ms\<lparr>ms_out := ms_out ms @ out\<rparr>"

definition role_of :: "main_env \<Rightarrow> u32 \<Rightarrow> main_state \<Rightarrow> (role \<times> main_state) option" where
  "role_of env roleID ms = do {
     (p, cd) \<leftarrow> ProcessGetRolePtr (me_relock env) roleID (ms_core ms);
     Some (deref p cd, ms\<lparr>ms_core := cd\<rparr>)
   }"

abbreviation db_of :: "main_state \<Rightarrow> tables" where
  "db_of ms \<equiv> db_tables (ms_db ms)"

text \<open>A statement that makes a row with an \<^verbatim>\<open>auto_increment\<close> column, and the
  \<^verbatim>\<open>LastInsertID\<close> after it, which is arbitrary when the statement fails.\<close>

definition exec_insert :: "main_env \<Rightarrow> (tables \<Rightarrow> int) \<Rightarrow> (tables \<Rightarrow> tables) \<Rightarrow> dbo \<Rightarrow> main_state \<Rightarrow> int \<times> u32 \<times> dbo \<times> main_state" where
  "exec_insert env counter sql d ms =
     (let (iRet, d', ms') = exec sql d ms
      in (iRet, if iRet = 0 then word_of_int (counter (db_of ms)) else me_word env, d', ms'))"

section \<open>Messages\<close>

definition ERR_SYSTEM_DBERROR :: u32 where "ERR_SYSTEM_DBERROR = 5"
definition ERR_APP_ROLENOTEXISTS :: u32 where "ERR_APP_ROLENOTEXISTS = 1001"
definition ERR_APP_OP :: u32 where "ERR_APP_OP = 1003"
definition ERR_APP_DATA :: u32 where "ERR_APP_DATA = 1004"

text \<open>A notification from a buffer of so many \<open>bytes\<close>, and an answer that goes on after a return code
  0.\<close>

definition notify_sized :: "u32 \<Rightarrow> svc_env \<Rightarrow> u16 \<Rightarrow> u32 \<Rightarrow> (serializer \<Rightarrow> serializer option) \<Rightarrow> packet option" where
  "notify_sized bytes env type tsn body =
     (let p = (env_junk env)\<lparr>p_Direction := DIRECT_S_C_REQ, p_SvrType := 1, p_SvrSeq := 1,
            p_MsgType := type, p_UniqID := tsn, p_buffer := Reset (DataBuffer_new bytes (env_mem env (unat bytes)))\<rparr>
      in do {
        (ok, p1) \<leftarrow> PackHeader p;
        s \<leftarrow> body (Serializer_new (p_buffer p1));
        (ok', p2) \<leftarrow> UpdatePacketLength (p1\<lparr>p_buffer := ser_buf s\<rparr>);
        Some p2
      })"

definition answer_packet :: "svc_env \<Rightarrow> packet \<Rightarrow> u32 \<Rightarrow> (serializer \<Rightarrow> serializer option) \<Rightarrow> packet option" where
  "answer_packet env req RetCode body =
     (let p = (CopyHeader req ((env_junk env)\<lparr>p_buffer := Reset (DataBuffer_new 1024 (env_mem env 1024))\<rparr>))
            \<lparr>p_Direction := DIRECT_C_S_RESP\<rparr>
      in do {
        (ok, p1) \<leftarrow> PackHeader p;
        s \<leftarrow> put_UInt32 RetCode (Serializer_new (p_buffer p1));
        s' \<leftarrow> (if RetCode = 0 then body s else Some s);
        (ok', p2) \<leftarrow> UpdatePacketLength (p1\<lparr>p_buffer := ser_buf s'\<rparr>);
        Some p2
      })"

text \<open>\<^verbatim>\<open>Broadcast\<close> to one role, and the answer to a request.\<close>

definition tell :: "u32 \<Rightarrow> packet option \<Rightarrow> main_state \<Rightarrow> main_state" where
  "tell roleID p = emit [Notice [roleID] p]"

definition answer :: "main_env \<Rightarrow> packet \<Rightarrow> u32 \<Rightarrow> (serializer \<Rightarrow> serializer option) \<Rightarrow> main_state \<Rightarrow> main_state" where
  "answer env req RetCode body = emit [Answer (answer_packet (me_svc env) req RetCode body)]"

text \<open>The rows of a query have all been read.\<close>

definition all_read :: "dbo \<Rightarrow> dbo" where
  "all_read d = (if do_results d then d\<lparr>do_rows := []\<rparr> else d)"

section \<open>Answers of the database\<close>

definition accepts :: "main_state \<Rightarrow> bool" where
  "accepts ms \<longleftrightarrow> \<not> db_refuse (ms_db ms) (db_time (ms_db ms))"

definition reliable :: "main_state \<Rightarrow> bool" where
  "reliable ms \<longleftrightarrow> (\<forall>n. \<not> db_refuse (ms_db ms) n)"

definition ticked :: "main_state \<Rightarrow> main_state" where
  "ticked ms = ms\<lparr>ms_db := (ms_db ms)\<lparr>db_time := Suc (db_time (ms_db ms))\<rparr>\<rparr>"

definition changed :: "(tables \<Rightarrow> tables) \<Rightarrow> main_state \<Rightarrow> main_state" where
  "changed f ms = ms\<lparr>ms_db := (ms_db ms)\<lparr>db_tables := f (db_of ms), db_time := Suc (db_time (ms_db ms))\<rparr>\<rparr>"

definition got :: "db_row list \<Rightarrow> dbo" where
  "got rows = \<lparr>do_results = True, do_rows = rows, do_dangles = False, do_rowNum = of_nat (length rows)\<rparr>"

lemma got_simps [simp]:
  "do_results (got rows)" "do_rows (got rows) = rows" "\<not> do_dangles (got rows)" "do_rowNum (got rows) = of_nat (length rows)"
  "each_row (got rows) = Some rows" "RowNum (got rows) = of_nat (length rows)" "HasRowData (got rows) \<longleftrightarrow> rows \<noteq> []"
  by (simp_all add: got_def each_row_def RowNum_def HasRowData_def)

lemma got_field [simp]: "field k (got (row # rows)) = GetIntField row k" "string_field k (got (row # rows)) = GetStringField row k"
  by (simp_all add: field_def string_field_def)

lemma query_answered [sql]:
  "accepts ms \<Longrightarrow> query q d ms = (if q (db_of ms) = [] then 1 else 0, got (q (db_of ms)), ticked ms)"
  by (simp add: query_def accepts_def ticked_def got_def QuerySQL_def Let_def)

lemma query_refused:
  "\<not> accepts ms \<Longrightarrow> query q d ms = (- 1, FreeResult d, ticked ms)"
  by (simp add: query_def accepts_def ticked_def QuerySQL_def Let_def)

lemma exec_answered [sql]: "accepts ms \<Longrightarrow> exec f d ms = (0, FreeResult d, changed f ms)"
  by (simp add: exec_def accepts_def changed_def ExceSQL_def Let_def)

lemma exec_refused: "\<not> accepts ms \<Longrightarrow> exec f d ms = (- 1, FreeResult d, ticked ms)"
  by (simp add: exec_def accepts_def ticked_def ExceSQL_def Let_def)

lemma reliable_accepts [simp]: "reliable ms \<Longrightarrow> accepts ms"
  by (simp add: reliable_def accepts_def)

lemma reliable_stays [simp]:
  "reliable (ticked ms) = reliable ms" "reliable (changed f ms) = reliable ms" "reliable (emit out ms) = reliable ms"
  "reliable (tell r p ms) = reliable ms" "reliable (ms\<lparr>ms_core := cd\<rparr>) = reliable ms"
  by (simp_all add: reliable_def ticked_def changed_def emit_def tell_def)

lemma db_stays [simp]:
  "db_of (ticked ms) = db_of ms" "db_of (changed f ms) = f (db_of ms)" "db_of (emit out ms) = db_of ms"
  "db_of (tell r p ms) = db_of ms"
  by (simp_all add: ticked_def changed_def emit_def tell_def)

lemma core_stays [simp]:
  "ms_core (ticked ms) = ms_core ms" "ms_core (changed f ms) = ms_core ms" "ms_core (emit out ms) = ms_core ms"
  "ms_core (tell r p ms) = ms_core ms"
  by (simp_all add: ticked_def changed_def emit_def tell_def)

section \<open>A server to evaluate on\<close>

definition no_tables :: tables where
  "no_tables = \<lparr>tb_Bag = [], tb_RoleMoney = [], tb_Entity = [], tb_Item = [], tb_Task = [], tb_RoleTask = [],
     tb_RoleTaskDetail = [], tb_nextEntity = 1, tb_nextDetail = 1\<rparr>"

definition demo_main :: "tables \<Rightarrow> main_state" where
  "demo_main t = \<lparr>ms_core = CoreData_new 1,
     ms_db = \<lparr>db_tables = t, db_refuse = (\<lambda>n. False), db_time = 0\<rparr>, ms_out = [], ms_luaTask = 0\<rparr>"

definition demo_menv :: main_env where
  "demo_menv = \<lparr>me_svc = demo_env, me_relock = False, me_record = False, me_word = 0,
     me_level = (\<lambda>l. q_notfound), me_lua = (\<lambda>n script answers. Inr 0)\<rparr>"

lemma demo_reliable [simp]: "reliable (demo_main t)"
  by (simp add: reliable_def demo_main_def)

lemma demo_tables [simp]: "db_of (demo_main t) = t"
  by (simp add: demo_main_def)

end
