(* ===== verification/Bag_Cells.thy ===== *)
theory Bag_Cells
  imports Main_State
begin

text \<open>
  The search for free cells of a bag in \<^verbatim>\<open>MainServer/Bag/BagSvc.cpp\<close>.
\<close>

section \<open>Free cells\<close>

definition GetRoleCellNum :: "main_env \<Rightarrow> u32 \<Rightarrow> main_state \<Rightarrow> (u32 \<times> main_state) option" where
  "GetRoleCellNum env roleID ms = do {
     (r, ms1) \<leftarrow> role_of env roleID ms;
     Some (if TopCellNum r = 0 then 25 else TopCellNum r, ms1)
   }"

definition cells_of :: "u32 \<Rightarrow> tables \<Rightarrow> db_row list" where
  "cells_of roleID t =
     map (\<lambda>b. [db_int (bg_CellType b), db_int (bg_CellIndex b), db_int (bg_ItemID b), db_int (bg_Num b)])
       (filter (\<lambda>b. bg_RoleID b = d32 roleID) (tb_Bag t))"

definition cells_by_index :: "u32 \<Rightarrow> tables \<Rightarrow> db_row list" where
  "cells_by_index roleID t = cells_of roleID (t\<lparr>tb_Bag := sort_key bg_CellIndex (tb_Bag t)\<rparr>)"

definition cell_index :: "db_row \<Rightarrow> u16" where
  "cell_index row = ucast (GetIntField row 1)"

text \<open>The first cell below the next one in the list, and the last cell looked at.\<close>

fun first_gap :: "u16 list \<Rightarrow> u16 \<Rightarrow> u16 \<Rightarrow> u16 \<Rightarrow> u16 \<times> u16" where
  "first_gap [] count_int now CellIndex = (CellIndex, now)"
| "first_gap (c # cs) count_int now CellIndex =
     (if uint count_int < uint c then (count_int, c) else first_gap cs (c + 1) c CellIndex)"

definition IfhascellIndex :: "main_env \<Rightarrow> u32 \<Rightarrow> main_state \<Rightarrow> (u16 \<times> main_state) option" where
  "IfhascellIndex env RoleID ms = do {
     (TOPCELL_NUM, ms1) \<leftarrow> GetRoleCellNum env RoleID ms;
     let (iRet, d, ms2) = query (cells_of RoleID) (dbo_new env) ms1;
     let count = (ucast (RowNum d) :: u16);
     if TOPCELL_NUM \<le> ucast count then Some (0, ms2)
     else do {
       rows \<leftarrow> each_row d;
       let (CellIndex, now) = first_gap (map cell_index rows) 1 0 (if iRet = 1 then 1 else 0);
       Some (if ucast now < TOPCELL_NUM \<and> CellIndex = 0 then now + 1 else CellIndex, ms2)
     }
   }"

text \<open>The cells between two that are taken, at most as many as are wanted.\<close>

function fill_gap :: "u16 \<Rightarrow> u16 \<Rightarrow> u16 \<Rightarrow> u16 \<times> u16 \<times> u16 list" where
  "fill_gap count_index count_int num =
     (if num \<noteq> 0 \<and> uint count_int + 1 < uint count_index
      then let (k, n, cs) = fill_gap count_index (count_int + 1) (num - 1) in (k, n, (count_int + 1) # cs)
      else (count_int, num, []))"
  by auto
termination
  by (relation "measure (\<lambda>(_, _, num). unat num)") (auto intro: measure_unat)

fun fill_gaps :: "u16 list \<Rightarrow> u16 \<Rightarrow> u16 \<Rightarrow> u16 \<times> u16 \<times> u16 list" where
  "fill_gaps [] count_int num = (count_int, num, [])"
| "fill_gaps (c # cs) count_int num =
     (let (k, n, xs) = fill_gap c count_int num
      in if n = 0 then (c, n, xs) else let (k', n', ys) = fill_gaps cs c n in (k', n', xs @ ys))"

function fill_end :: "u32 \<Rightarrow> u16 \<Rightarrow> u16 \<Rightarrow> u16 \<times> u16 list" where
  "fill_end TOPCELL_NUM count_int num =
     (if ucast count_int < TOPCELL_NUM \<and> num \<noteq> 0
      then let (n, cs) = fill_end TOPCELL_NUM (count_int + 1) (num - 1) in (n, (count_int + 1) # cs)
      else (num, []))"
  by auto
termination
  by (relation "measure (\<lambda>(_, _, num). unat num)") (simp_all add: measure_unat)

definition Ifhassomany :: "main_env \<Rightarrow> u32 \<Rightarrow> u16 list \<Rightarrow> u16 \<Rightarrow> main_state \<Rightarrow> ((u16 \<times> u16 list) \<times> main_state) option" where
  "Ifhassomany env RoleID Cell num ms = do {
     (TOPCELL_NUM, ms1) \<leftarrow> GetRoleCellNum env RoleID ms;
     if num = 0 then Some ((1, Cell), ms1)
     else do {
       let (iRet, d, ms2) = query (cells_by_index RoleID) (dbo_new env) ms1;
       let count = (ucast (RowNum d) :: u16);
       if TOPCELL_NUM < ucast num + ucast count then Some ((0, Cell), ms2)
       else do {
         rows \<leftarrow> each_row d;
         let (k, n, xs) = fill_gaps (map cell_index rows) 0 num;
         let (n', ys) = fill_end TOPCELL_NUM k n;
         Some ((if n' = 0 then 1 else 0, Cell @ xs @ ys), ms2)
       }
     }
   }"

definition GetEmtycellNum :: "main_env \<Rightarrow> u32 \<Rightarrow> main_state \<Rightarrow> (i32 \<times> main_state) option" where
  "GetEmtycellNum env roleID ms = do {
     (TOPCELL_NUM, ms1) \<leftarrow> GetRoleCellNum env roleID ms;
     let (iRet, d, ms2) = query (cells_by_index roleID) (dbo_new env) ms1;
     let count = (ucast (RowNum d) :: u16);
     Some (if iRet = 0 then (if TOPCELL_NUM \<le> ucast count then 0 else TOPCELL_NUM - ucast count)
           else if iRet = 1 then TOPCELL_NUM else 0, ms2)
   }"

section \<open>The search finds the first free cells\<close>

definition free_cells :: "nat set \<Rightarrow> nat \<Rightarrow> nat list" where
  "free_cells taken cap = filter (\<lambda>k. k \<notin> taken) [1..<Suc cap]"

lemma unat_Suc_below: "unat (k :: 'a::len word) < unat (c :: 'b::len word) \<Longrightarrow> unat c < 2 ^ LENGTH('a) \<Longrightarrow> unat (k + 1) = Suc (unat k)"
  by (simp add: unat_word_ariths)

lemma map_of_nat_unat: "map of_nat (map unat xs) = (xs :: 'a::len word list)"
  by (induction xs) simp_all

lemma u16_bound: "unat (k :: u16) < 65536"
  using unsigned_less[of k, where ?'a = nat] by simp

lemma ucast_below: "(ucast (k :: u16) :: u32) < m \<longleftrightarrow> unat k < unat m"
proof -
  have "unat (ucast k :: u32) = unat k" using u16_bound[of k] by (simp add: unsigned_ucast_eq take_bit_nat_eq_self)
  then show ?thesis by (simp add: word_less_nat_alt)
qed

lemma unat_pred: "(n :: 'a::len word) \<noteq> 0 \<Longrightarrow> unat (n - 1) = unat n - 1"
  by (metis unat_minus_one)

lemma take_upt_Cons: "n \<noteq> 0 \<Longrightarrow> k < c \<Longrightarrow> take n [k..<c] = k # take (n - 1) [Suc k..<c]"
  by (cases n) (simp_all add: upt_conv_Cons)

lemma fill_gap_free:
  assumes "fill_gap c k n = (k', n', xs)"
  shows "map unat xs = take (unat n) [unat k + 1..<unat c] \<and> unat n' = unat n - length xs"
  using assms
proof (induction c k n arbitrary: k' n' xs rule: fill_gap.induct)
  case (1 c k n)
  show ?case
  proof (cases "n \<noteq> 0 \<and> uint k + 1 < uint c")
    case True
    obtain k2 n2 ys where r: "fill_gap c (k + 1) (n - 1) = (k2, n2, ys)" by (metis prod_cases3)
    have lt: "unat k + 1 < unat c" using True unfolding uint_nat by linarith
    then have k1: "unat (k + 1) = Suc (unat k)" using u16_bound[of c] by (intro unat_Suc_below[of _ c]) simp_all
    have "(k', n', xs) = (k2, n2, (k + 1) # ys)" using "1.prems" True r by (subst (asm) fill_gap.simps) simp
    moreover note "1.IH"[OF True r]
    ultimately show ?thesis using lt k1 True take_upt_Cons[of "unat n" "unat k + 1" "unat c"] unat_pred[of n]
      by (simp add: unat_eq_zero)
  next
    case False
    then have e: "(k', n', xs) = (k, n, [])" using "1.prems" by (subst (asm) fill_gap.simps) auto
    have "n = 0 \<or> unat c \<le> unat k + 1" using False unfolding uint_nat by linarith
    then show ?thesis using e by auto
  qed
qed

lemma fill_end_free:
  assumes "fill_end cap k n = (n', xs)" "unat cap < 65536"
  shows "map unat xs = take (unat n) [unat k + 1..<unat cap + 1] \<and> unat n' = unat n - length xs"
  using assms
proof (induction cap k n arbitrary: n' xs rule: fill_end.induct)
  case (1 cap k n)
  have cond: "ucast k < cap \<longleftrightarrow> unat k < unat cap" by (rule ucast_below)
  show ?case
  proof (cases "ucast k < cap \<and> n \<noteq> 0")
    case True
    obtain n2 ys where r: "fill_end cap (k + 1) (n - 1) = (n2, ys)" by fastforce
    have k1: "unat (k + 1) = Suc (unat k)" using True cond "1.prems"(2) by (intro unat_Suc_below[of _ cap]) simp_all
    have "(n', xs) = (n2, (k + 1) # ys)" using "1.prems" True r by (subst (asm) fill_end.simps) simp
    moreover note "1.IH"[OF True r "1.prems"(2)]
    ultimately show ?thesis using cond k1 True take_upt_Cons[of "unat n" "unat k + 1" "unat cap + 1"] unat_pred[of n]
      by (simp add: unat_eq_zero)
  next
    case False
    then have "(n', xs) = (n, [])" using "1.prems" by (subst (asm) fill_end.simps) auto
    then show ?thesis using False cond by auto
  qed
qed

lemma filter_gap:
  assumes "k < c" "\<forall>x \<in> S. c < x" "c \<le> m"
  shows "filter (\<lambda>j. j \<notin> insert c S) [Suc k..<Suc m] = [Suc k..<c] @ filter (\<lambda>j. j \<notin> S) [Suc c..<Suc m]"
proof -
  have "[Suc k..<Suc m] = [Suc k..<c] @ c # [Suc c..<Suc m]"
    using assms(1,3) upt_add_eq_append[of "Suc k" c "Suc m - c"] by (simp add: upt_conv_Cons Suc_diff_le)
  moreover have "filter (\<lambda>j. j \<notin> insert c S) [Suc k..<c] = [Suc k..<c]" using assms(2) by (auto simp: filter_id_conv)
  moreover have "filter (\<lambda>j. j \<notin> insert c S) [Suc c..<Suc m] = filter (\<lambda>j. j \<notin> S) [Suc c..<Suc m]"
    by (intro filter_cong) auto
  ultimately show ?thesis by simp
qed

lemma fill_gaps_free:
  assumes "fill_gaps cs k n = (k', n', xs)" "sorted_wrt (<) (map unat (k # cs))"
  shows "map unat xs = take (unat n) (filter (\<lambda>j. j \<notin> unat ` set cs) [Suc (unat k)..<Suc (unat (last (k # cs)))]) \<and>
    unat n' = unat n - length xs \<and> (n' \<noteq> 0 \<longrightarrow> k' = last (k # cs))"
  using assms
proof (induction cs arbitrary: k n k' n' xs)
  case Nil
  then show ?case by simp
next
  case (Cons c cs)
  obtain k1 n1 ys where g: "fill_gap c k n = (k1, n1, ys)" by (metis prod_cases3)
  have gap: "map unat ys = take (unat n) [Suc (unat k)..<unat c]" "unat n1 = unat n - length ys"
    using fill_gap_free[OF g] by simp_all
  have len: "length ys = min (unat n) (length [Suc (unat k)..<unat c])"
    using arg_cong[OF gap(1), of length] by (simp add: min.commute)
  let ?A = "[Suc (unat k)..<unat c]" and ?B = "filter (\<lambda>j. j \<notin> unat ` set cs) [Suc (unat c)..<Suc (unat (last (c # cs)))]"
  have le: "unat c \<le> unat (last (c # cs))" using Cons.prems(2) by (cases cs) (auto intro: less_imp_le)
  have split: "filter (\<lambda>j. j \<notin> unat ` set (c # cs)) [Suc (unat k)..<Suc (unat (last (k # c # cs)))] = ?A @ ?B"
    using filter_gap[of "unat k" "unat c" "unat ` set cs" "unat (last (c # cs))"] Cons.prems(2) le by auto
  show ?case
  proof (cases "n1 = 0")
    case True
    then have "(k', n', xs) = (c, n1, ys)" using Cons.prems(1) g by simp
    moreover have "unat n \<le> length ?A" using len gap True by simp
    ultimately show ?thesis using gap True unfolding split by simp
  next
    case False
    obtain k2 n2 zs where r: "fill_gaps cs c n1 = (k2, n2, zs)" by (metis prod_cases3)
    then have e: "(k', n', xs) = (k2, n2, ys @ zs)" using Cons.prems(1) g False by simp
    have ih: "map unat zs = take (unat n1) ?B \<and> unat n2 = unat n1 - length zs \<and> (n2 \<noteq> 0 \<longrightarrow> k2 = last (c # cs))"
      using Cons.IH[OF r] Cons.prems(2) by simp
    have "length ys = length ?A" using len gap False by (simp add: unat_gt_0[symmetric] min_def split: if_splits)
    then show ?thesis using e ih gap unfolding split by auto
  qed
qed

definition role_bag :: "u32 \<Rightarrow> tables \<Rightarrow> bag_row list" where
  "role_bag roleID t = filter (\<lambda>b. bg_RoleID b = d32 roleID) (tb_Bag t)"

definition taken :: "u32 \<Rightarrow> tables \<Rightarrow> nat set" where
  "taken roleID t = (\<lambda>b. nat (bg_CellIndex b)) ` set (role_bag roleID t)"

text \<open>The cells of a bag are different and lie in it.\<close>

definition bag_ok :: "u32 \<Rightarrow> nat \<Rightarrow> tables \<Rightarrow> bool" where
  "bag_ok roleID cap t \<longleftrightarrow> distinct (map bg_CellIndex (role_bag roleID t)) \<and>
     (\<forall>b \<in> set (role_bag roleID t). 1 \<le> bg_CellIndex b \<and> bg_CellIndex b \<le> int cap)"

lemma u16_of_field: "(ucast (word_of_int n :: i32) :: u16) = word_of_int n"
  by transfer (simp add: take_bit_take_bit)

lemma unat_u16_of_int: "0 \<le> n \<Longrightarrow> n < 65536 \<Longrightarrow> unat (word_of_int n :: u16) = nat n"
  by (simp add: unsigned_of_int take_bit_int_eq_self)

lemma cells_of_indices: "map cell_index (cells_of roleID t) = map (\<lambda>b. word_of_int (bg_CellIndex b)) (role_bag roleID t)"
  by (simp add: cells_of_def role_bag_def cell_index_def db_int_def sql u16_of_field comp_def)

lemma bag_indices:
  assumes "bag_ok roleID cap t" "cap < 65536"
  shows "map unat (map cell_index (cells_of roleID t)) = map (\<lambda>b. nat (bg_CellIndex b)) (role_bag roleID t)"
  using assms unfolding cells_of_indices by (auto simp: bag_ok_def unat_u16_of_int)


lemma role_bag_sorted: "role_bag roleID (t\<lparr>tb_Bag := sort_key bg_CellIndex (tb_Bag t)\<rparr>) = sort_key bg_CellIndex (role_bag roleID t)"
  by (simp add: role_bag_def filter_sort)

lemma bag_ok_sorted: "bag_ok roleID cap t \<Longrightarrow> bag_ok roleID cap (t\<lparr>tb_Bag := sort_key bg_CellIndex (tb_Bag t)\<rparr>)"
  unfolding bag_ok_def role_bag_sorted by (simp add: distinct_map)

lemma indices_sorted:
  assumes "bag_ok roleID cap t" "cap < 65536"
  shows "sorted_wrt (<) (map unat (map cell_index (cells_by_index roleID t)))"
    "unat ` set (map cell_index (cells_by_index roleID t)) = taken roleID t"
    "\<forall>x \<in> set (map cell_index (cells_by_index roleID t)). 1 \<le> unat x \<and> unat x \<le> cap"
    "length (cells_by_index roleID t) = length (role_bag roleID t)"
proof -
  let ?t = "t\<lparr>tb_Bag := sort_key bg_CellIndex (tb_Bag t)\<rparr>" and ?bs = "sort_key bg_CellIndex (role_bag roleID t)"
  have ok: "bag_ok roleID cap ?t" using assms(1) by (rule bag_ok_sorted)
  have e: "map unat (map cell_index (cells_by_index roleID t)) = map (\<lambda>b. nat (bg_CellIndex b)) ?bs"
    unfolding cells_by_index_def bag_indices[OF ok assms(2)] role_bag_sorted ..
  have pos: "\<forall>b \<in> set ?bs. 1 \<le> bg_CellIndex b \<and> bg_CellIndex b \<le> int cap" and d: "distinct (map bg_CellIndex ?bs)"
    using ok unfolding bag_ok_def role_bag_sorted by simp_all
  have "sorted_wrt (<) (map bg_CellIndex ?bs)" using d by (simp add: strict_sorted_iff)
  then show "sorted_wrt (<) (map unat (map cell_index (cells_by_index roleID t)))"
    unfolding e sorted_wrt_map by (rule sorted_wrt_mono_rel[rotated]) (use pos in auto)
  have "unat ` set (map cell_index (cells_by_index roleID t)) = set (map (\<lambda>b. nat (bg_CellIndex b)) ?bs)"
    unfolding e[symmetric] by (simp add: image_image)
  then show tk: "unat ` set (map cell_index (cells_by_index roleID t)) = taken roleID t" by (simp add: taken_def)
  show "\<forall>x \<in> set (map cell_index (cells_by_index roleID t)). 1 \<le> unat x \<and> unat x \<le> cap"
    using tk pos by (force simp: taken_def)
  show "length (cells_by_index roleID t) = length (role_bag roleID t)"
    unfolding cells_by_index_def cells_of_def by (simp add: role_bag_def filter_sort)
qed

lemma card_taken: "bag_ok roleID cap t \<Longrightarrow> card (taken roleID t) = length (role_bag roleID t)"
proof -
  assume ok: "bag_ok roleID cap t"
  have "inj_on (\<lambda>b. nat (bg_CellIndex b)) (set (role_bag roleID t))"
    using ok by (auto simp: bag_ok_def distinct_map inj_on_def)
  moreover have "distinct (role_bag roleID t)" using ok by (simp add: bag_ok_def distinct_map)
  ultimately show ?thesis by (simp add: taken_def card_image distinct_card)
qed

lemma taken_within: "bag_ok roleID cap t \<Longrightarrow> taken roleID t \<subseteq> {1..cap}"
  by (force simp: taken_def bag_ok_def)

lemma length_free:
  assumes "bag_ok roleID cap t" shows "length (free_cells (taken roleID t) cap) = cap - length (role_bag roleID t)"
proof -
  have "length (free_cells (taken roleID t) cap) = card ({1..cap} - taken roleID t)"
    unfolding free_cells_def by (subst distinct_card[symmetric]) (auto intro!: arg_cong[of _ _ card])
  then show ?thesis using taken_within[OF assms] by (simp add: card_Diff_subset finite_subset card_taken[OF assms])
qed

lemma free_cells_split:
  assumes "\<forall>x \<in> S. 1 \<le> x \<and> x \<le> m" "m \<le> cap"
  shows "free_cells S cap = filter (\<lambda>j. j \<notin> S) [Suc 0..<Suc m] @ [Suc m..<Suc cap]"
proof -
  have "[1..<Suc cap] = [Suc 0..<Suc m] @ [Suc m..<Suc cap]"
    using assms(2) upt_add_eq_append[of 1 "Suc m" "cap - m"] by simp
  moreover have "filter (\<lambda>j. j \<notin> S) [Suc m..<Suc cap] = [Suc m..<Suc cap]" using assms(1) by (force simp: filter_id_conv)
  ultimately show ?thesis by (simp add: free_cells_def)
qed

lemma below_last: "sorted (map f xs) \<Longrightarrow> x \<in> set xs \<Longrightarrow> f x \<le> f (last xs)"
  by (induction xs) (auto split: if_splits)

lemma fill_all_free:
  assumes "fill_gaps cs 0 n = (k, n1, xs)" "fill_end cap k n1 = (n2, ys)"
    and "sorted_wrt (<) (map unat cs)" "\<forall>c \<in> set cs. 1 \<le> unat c \<and> unat c \<le> unat cap" "unat cap < 65536"
    and "unat n \<le> length (free_cells (unat ` set cs) (unat cap))"
  shows "map unat (xs @ ys) = take (unat n) (free_cells (unat ` set cs) (unat cap)) \<and> n2 = 0"
proof -
  let ?m = "unat (last ((0::u16) # cs))"
  let ?A = "filter (\<lambda>j. j \<notin> unat ` set cs) [Suc 0..<Suc ?m]"
  have srt: "sorted_wrt (<) (map unat ((0::u16) # cs))" using assms(3,4) by auto
  have xs: "map unat xs = take (unat n) ?A" "unat n1 = unat n - length xs" "n1 \<noteq> 0 \<Longrightarrow> k = last (0 # cs)"
    using fill_gaps_free[OF assms(1) srt] by simp_all
  have lx: "length xs = min (unat n) (length ?A)" using arg_cong[OF xs(1), of length] by (simp add: min.commute)
  have le: "?m \<le> unat cap" using assms(4) by (cases cs) auto
  have "\<forall>x \<in> unat ` set cs. 1 \<le> x \<and> x \<le> ?m"
  proof
    fix x assume "x \<in> unat ` set cs"
    then obtain c where c: "c \<in> set cs" "x = unat c" by blast
    then have ne: "cs \<noteq> []" by auto
    have "unat c \<le> unat (last cs)" using below_last[of unat cs c] assms(3) c(1) by (simp add: strict_sorted_iff)
    then show "1 \<le> x \<and> x \<le> ?m" using c assms(4) ne by auto
  qed
  then have free: "free_cells (unat ` set cs) (unat cap) = ?A @ [Suc ?m..<Suc (unat cap)]" using le by (rule free_cells_split)
  have ys: "map unat ys = take (unat n1) [unat k + 1..<unat cap + 1]" "unat n2 = unat n1 - length ys"
    using fill_end_free[OF assms(2,5)] by simp_all
  show ?thesis
  proof (cases "n1 = 0")
    case True
    then have "ys = []" "unat n \<le> length ?A" using ys(1) xs(2) lx by auto
    moreover have "n2 = 0" using ys(2) True by (simp add: unat_eq_zero)
    ultimately show ?thesis using xs(1) free by simp
  next
    case False
    then have "unat n1 \<noteq> 0" by (simp add: unat_eq_zero)
    then have l: "length xs = length ?A" using lx xs(2) by linarith
    then have "map unat ys = take (unat n - length ?A) [Suc ?m..<Suc (unat cap)]" using ys(1) xs(2,3) False by simp
    moreover have "map unat xs = ?A" using xs(1) l lx by simp
    moreover have "length ys = unat n1"
      using arg_cong[OF ys(1), of length] assms(6) xs(2,3) l False unfolding free by simp
    then have "n2 = 0" using ys(2) by (simp add: unat_eq_zero)
    moreover have "take (unat n) ?A = ?A" using l lx by simp
    ultimately show ?thesis unfolding free by simp
  qed
qed

lemma first_free:
  assumes "1 \<le> j" "j \<le> cap" "j \<notin> S" "\<forall>i. 1 \<le> i \<and> i < j \<longrightarrow> i \<in> S"
  shows "\<exists>js. free_cells S cap = j # js"
proof -
  have "[1..<Suc cap] = [1..<j] @ j # [Suc j..<Suc cap]"
    using assms(1,2) upt_add_eq_append[of 1 j "Suc cap - j"] by (simp add: upt_conv_Cons)
  moreover have "filter (\<lambda>k. k \<notin> S) [1..<j] = []" using assms(4) by auto
  ultimately show ?thesis using assms(3) by (simp add: free_cells_def)
qed

lemma first_gap_cases:
  assumes "sorted_wrt (<) (map unat cs)" "\<forall>c \<in> set cs. unat k \<le> unat c \<and> unat c < 65535"
  obtains (gap) j z where "first_gap cs k now ci = (of_nat j, z)" "unat k \<le> j" "j \<notin> unat ` set cs"
      "\<forall>i. unat k \<le> i \<and> i < j \<longrightarrow> i \<in> unat ` set cs" "\<exists>c \<in> set cs. j < unat c"
    | (full) "first_gap cs k now ci = (ci, last (now # cs))" "unat ` set cs = {unat k..<unat k + length cs}"
  using assms
proof (induction cs arbitrary: k now thesis)
  case Nil
  then show ?case by simp
next
  case (Cons c cs)
  show ?case
  proof (cases "uint k < uint c")
    case True
    then have lt: "unat k < unat c" unfolding uint_nat by linarith
    then have "unat k \<notin> unat ` set (c # cs)" using Cons.prems(3) by (fastforce simp: image_iff)
    moreover have "first_gap (c # cs) k now ci = (of_nat (unat k), c)" using True by simp
    moreover have "\<exists>d \<in> set (c # cs). unat k < unat d" using lt by simp
    moreover have "\<forall>i. unat k \<le> i \<and> i < unat k \<longrightarrow> i \<in> unat ` set (c # cs)" by simp
    ultimately show ?thesis using Cons.prems(1)[of "unat k" c] by blast
  next
    case False
    then have "unat c \<le> unat k" unfolding uint_nat by linarith
    then have k: "unat k = unat c" using Cons.prems(4) by (meson le_antisym list.set_intros(1))
    have c1: "unat (c + 1) = Suc (unat c)" using Cons.prems(4) by (simp add: unat_word_ariths)
    have srt: "sorted_wrt (<) (map unat cs)" "\<forall>d \<in> set cs. unat (c + 1) \<le> unat d \<and> unat d < 65535"
      using Cons.prems(3,4) unfolding c1 by auto
    have e: "first_gap (c # cs) k now ci = first_gap cs (c + 1) c ci" using False by simp
    show ?thesis
    proof (rule Cons.IH[OF _ _ srt, of c])
      fix j z assume g: "first_gap cs (c + 1) c ci = (of_nat j, z)" "unat (c + 1) \<le> j" "j \<notin> unat ` set cs"
        "\<forall>i. unat (c + 1) \<le> i \<and> i < j \<longrightarrow> i \<in> unat ` set cs" "\<exists>d \<in> set cs. j < unat d"
      have "\<forall>i. unat k \<le> i \<and> i < j \<longrightarrow> i \<in> unat ` set (c # cs)"
      proof (intro allI impI)
        fix i assume "unat k \<le> i \<and> i < j"
        then show "i \<in> unat ` set (c # cs)" using g(4) k c1 by (cases "i = unat c") auto
      qed
      moreover have "first_gap (c # cs) k now ci = (of_nat j, z)" using g(1) e by (rule trans[rotated])
      moreover have "unat k \<le> j" "\<exists>d \<in> set (c # cs). j < unat d" using g(2,5) k c1 by auto
      moreover have "j \<notin> unat ` set (c # cs)" using g(2,3) c1 by auto
      ultimately show ?thesis using Cons.prems(1)[of j z] by blast
    next
      assume f: "first_gap cs (c + 1) c ci = (ci, last (c # cs))" "unat ` set cs = {unat (c + 1)..<unat (c + 1) + length cs}"
      have "unat ` set (c # cs) = {unat k..<unat k + length (c # cs)}" using f(2) k c1 by auto
      moreover have "first_gap (c # cs) k now ci = (ci, last (now # c # cs))" using trans[OF e f(1)] by simp
      ultimately show ?thesis using Cons.prems(2) by blast
    qed
  qed
qed

section \<open>Properties\<close>

lemma row_count:
  assumes "bag_ok RoleID (unat (cap::u32)) t" "unat cap < 65536"
  shows "length (role_bag RoleID t) \<le> unat cap"
    "unat (ucast (of_nat (length (role_bag RoleID t)) :: u32) :: u16) = length (role_bag RoleID t)"
proof -
  show le: "length (role_bag RoleID t) \<le> unat cap"
    using card_mono[OF _ taken_within[OF assms(1)]] card_taken[OF assms(1)] by simp
  then show "unat (ucast (of_nat (length (role_bag RoleID t)) :: u32) :: u16) = length (role_bag RoleID t)"
    using assms(2) by (simp add: unsigned_ucast_eq unsigned_of_nat take_bit_nat_eq_self)
qed

lemma u16_sum: "unat (ucast (a :: u16) + ucast (b :: u16) :: u32) = unat a + unat b"
  using u16_bound[of a] u16_bound[of b] by (simp add: unat_word_ariths unsigned_ucast_eq take_bit_nat_eq_self)

lemma Ifhassomany_free:
  assumes "GetRoleCellNum env RoleID ms = Some (cap, ms1)" and "unat cap < 65536" and "accepts ms1"
    and "bag_ok RoleID (unat cap) (db_of ms1)" and "num \<noteq> 0"
  shows "Ifhassomany env RoleID [] num ms =
    (let free = free_cells (taken RoleID (db_of ms1)) (unat cap)
     in Some (if unat num \<le> length free then (1, map of_nat (take (unat num) free)) else (0, []), ticked ms1))"
proof -
  let ?rows = "cells_by_index RoleID (db_of ms1)" and ?free = "free_cells (taken RoleID (db_of ms1)) (unat cap)"
  note srt = indices_sorted[OF assms(4,2)]
  have len: "length ?free = unat cap - length (role_bag RoleID (db_of ms1))" using length_free[OF assms(4)] .
  have cnt: "cap < ucast num + ucast (ucast (of_nat (length ?rows) :: u32) :: u16) \<longleftrightarrow> \<not> unat num \<le> length ?free"
    using row_count[OF assms(4,2)] u16_sum[of num] unfolding srt(4) len word_less_nat_alt by auto
  obtain k n xs where g: "fill_gaps (map cell_index ?rows) 0 num = (k, n, xs)" by (metis prod_cases3)
  obtain n' ys where e: "fill_end cap k n = (n', ys)" by fastforce
  show ?thesis
  proof (cases "unat num \<le> length ?free")
    case True
    have "map unat (xs @ ys) = take (unat num) ?free \<and> n' = 0"
      using fill_all_free[OF g e srt(1) srt(3) assms(2)] True unfolding srt(2) by blast
    then have "xs @ ys = map of_nat (take (unat num) ?free) \<and> n' = 0"
      by (metis map_of_nat_unat)
    then show ?thesis using True assms cnt g e by (simp add: Ifhassomany_def query_answered each_row_def RowNum_def Let_def)
  next
    case False
    then show ?thesis using assms cnt by (simp add: Ifhassomany_def query_answered RowNum_def Let_def)
  qed
qed

text \<open>
  C26: the search for several free cells finds the first free cells of the bag, in order and as many as
  are wanted, or nothing when the bag has fewer.
\<close>

theorem Ifhassomany_first_free:
  assumes "GetRoleCellNum env RoleID ms = Some (cap, ms1)" and "unat cap < 65536" and "accepts ms1"
    and "bag_ok RoleID (unat cap) (db_of ms1)" and "num \<noteq> 0"
  shows "Ifhassomany env RoleID [] num ms =
    (let free = free_cells (taken RoleID (db_of ms1)) (unat cap)
     in Some (if unat num \<le> length free then (1, map of_nat (take (unat num) free)) else (0, []), ticked ms1))"
  using Ifhassomany_free[OF assms] .

text \<open>
  The search for one free cell finds the first free one, or 0 in a full bag, when the database
  answers in the order of the cells.
\<close>

lemma IfhascellIndex_first_free:
  assumes "GetRoleCellNum env RoleID ms = Some (cap, ms1)" and "unat cap < 65535" and "accepts ms1"
    and "bag_ok RoleID (unat cap) (db_of ms1)" and "sorted (map bg_CellIndex (role_bag RoleID (db_of ms1)))"
  shows "IfhascellIndex env RoleID ms =
    Some (case free_cells (taken RoleID (db_of ms1)) (unat cap) of [] \<Rightarrow> 0 | c # _ \<Rightarrow> of_nat c, ticked ms1)"
proof -
  let ?t = "db_of ms1"
  let ?rows = "cells_of RoleID ?t" and ?cs = "map cell_index (cells_of RoleID ?t)"
  have lt: "unat cap < 65536" using assms(2) by simp
  have len: "length ?rows = length (role_bag RoleID ?t)" by (simp add: cells_of_def role_bag_def)
  note cnt = row_count[OF assms(4) lt]
  have e: "map unat ?cs = map (\<lambda>b. nat (bg_CellIndex b)) (role_bag RoleID ?t)" by (rule bag_indices[OF assms(4) lt])
  have tk: "unat ` set ?cs = taken RoleID ?t" using arg_cong[OF e, of set] by (simp add: taken_def image_image)
  have within: "taken RoleID ?t \<subseteq> {1..unat cap}" by (rule taken_within[OF assms(4)])
  have "sorted_wrt (<) (map bg_CellIndex (role_bag RoleID ?t))" using assms(4,5) by (simp add: bag_ok_def strict_sorted_iff)
  then have srt: "sorted_wrt (<) (map unat ?cs)"
    unfolding e sorted_wrt_map by (rule sorted_wrt_mono_rel[rotated]) (use assms(4) in \<open>auto simp: bag_ok_def\<close>)
  have bounds: "\<forall>c \<in> set ?cs. unat (1 :: u16) \<le> unat c \<and> unat c < 65535" "\<forall>c \<in> set ?cs. unat c \<le> unat cap"
    using within assms(2) tk by fastforce+
  have full: "cap \<le> ucast (ucast (of_nat (length ?rows) :: u32) :: u16) \<longleftrightarrow> free_cells (taken RoleID ?t) (unat cap) = []"
    using cnt(2) ucast_below[of "ucast (of_nat (length ?rows) :: u32)" cap] length_free[OF assms(4)] unfolding len
    by (metis diff_is_0_eq length_0_conv linorder_not_less)
  let ?r = "if ?rows = [] then (1 :: int) else 0"
  have run: "IfhascellIndex env RoleID ms = (if free_cells (taken RoleID ?t) (unat cap) = [] then Some (0, ticked ms1)
      else let (CellIndex, now) = first_gap ?cs 1 0 (if ?r = 1 then 1 else 0)
        in Some (if ucast now < cap \<and> CellIndex = 0 then now + 1 else CellIndex, ticked ms1))"
    using assms(1,3) full by (simp add: IfhascellIndex_def query_answered RowNum_def each_row_def Let_def case_prod_beta)
  show ?thesis
  proof (cases "free_cells (taken RoleID ?t) (unat cap) = []")
    case True
    then show ?thesis using run by simp
  next
    case False
    show ?thesis
    proof (rule first_gap_cases[OF srt bounds(1), of 0 "if ?r = 1 then 1 else 0"])
      fix j z assume g: "first_gap ?cs 1 0 (if ?r = 1 then 1 else 0) = (of_nat j, z)" "unat (1 :: u16) \<le> j" "j \<notin> unat ` set ?cs"
        "\<forall>i. unat (1 :: u16) \<le> i \<and> i < j \<longrightarrow> i \<in> unat ` set ?cs" "\<exists>c \<in> set ?cs. j < unat c"
      then have j: "1 \<le> j" "j \<le> unat cap" using bounds(2) by auto
      then obtain js where "free_cells (taken RoleID ?t) (unat cap) = j # js"
        using first_free[of j "unat cap" "taken RoleID ?t"] g(3,4) unfolding tk by auto
      moreover have "(of_nat j :: u16) \<noteq> 0"
        using j assms(2) by (simp add: unat_eq_zero[symmetric] unsigned_of_nat take_bit_nat_eq_self)
      ultimately show ?thesis using run False g(1) by simp
    next
      assume f: "first_gap ?cs 1 0 (if ?r = 1 then 1 else 0) = (if ?r = 1 then 1 else 0, last (0 # ?cs))"
        "unat ` set ?cs = {unat (1 :: u16)..<unat (1 :: u16) + length ?cs}"
      have lt': "length ?cs < unat cap" using False length_free[OF assms(4)] len by (metis length_0_conv length_map zero_less_diff gr_zeroI)
      have S: "taken RoleID ?t = {1..<1 + length ?cs}" using f(2) unfolding tk by simp
      have "1 + length ?cs \<notin> taken RoleID ?t \<and> (\<forall>i. 1 \<le> i \<and> i < 1 + length ?cs \<longrightarrow> i \<in> taken RoleID ?t)" unfolding S by auto
      then obtain js where js: "free_cells (taken RoleID ?t) (unat cap) = (1 + length ?cs) # js"
        using first_free[of "1 + length ?cs" "unat cap" "taken RoleID ?t"] lt' by auto
      show ?thesis
      proof (cases "?rows = []")
        case True
        then show ?thesis using run f(1) js by simp
      next
        case ne: False
        have "unat (last ?cs) = length ?cs"
        proof (rule antisym)
          have "unat (last ?cs) \<in> taken RoleID ?t" using ne tk by (metis imageI last_in_set map_is_Nil_conv)
          then show "unat (last ?cs) \<le> length ?cs" unfolding S by simp
          have "length ?cs \<in> unat ` set ?cs" using ne unfolding tk S by (cases ?rows) auto
          then show "length ?cs \<le> unat (last ?cs)" using below_last[of unat ?cs] srt by (auto simp: strict_sorted_iff)
        qed
        then have l: "unat (last ?cs) = length ?cs" .
        have l1: "ucast (last ?cs) < cap" unfolding ucast_below l by (rule lt')
        have "of_nat (unat (last ?cs)) = last ?cs" by simp
        then have l2: "last ?cs + 1 = of_nat (1 + length ?cs)" unfolding l by simp
        have "last (0 # ?cs) = last ?cs" using ne by simp
        then have "first_gap ?cs 1 0 0 = (0, last ?cs)" using f(1) ne by simp
        then have "IfhascellIndex env RoleID ms = Some (last ?cs + 1, ticked ms1)"
          using run False ne l1 by simp
        then show ?thesis unfolding js l2 by simp
      qed
    qed
  qed
qed

section \<open>A server to evaluate on\<close>

definition bag_item :: "int \<Rightarrow> int \<Rightarrow> int \<Rightarrow> int \<Rightarrow> bag_row" where
  "bag_item role cell item n = \<lparr>bg_RoleID = role, bg_CellType = 1, bg_CellIndex = cell, bg_ItemType = 3, bg_ItemID = item,
     bg_EntityID = 0, bg_Num = n\<rparr>"

lemma demo_cells [simp]: "GetRoleCellNum demo_menv roleID (demo_main t) = Some (25, demo_main t)"
  by (simp add: GetRoleCellNum_def role_of_def ProcessGetRolePtr_def FindRoleMapID_def guarded_def demo_main_def
      CoreData_new_def smap_find_def deref_def TopCellNum_def Role_new_def SetHpMpfullStatue_def set_Status_def set_Flag_def Let_def)

definition demo_bags :: tables where
  "demo_bags = no_tables\<lparr>tb_Bag := [bag_item 7 1 500 1, bag_item 7 3 501 1, bag_item 8 1 502 4]\<rparr>"

lemma demo_bag_ok: "bag_ok 7 25 demo_bags" "taken 7 demo_bags = {1, 3}" "sorted (map bg_CellIndex (role_bag 7 demo_bags))"
  by (simp_all add: bag_ok_def taken_def role_bag_def demo_bags_def no_tables_def bag_item_def d32_def)

lemma demo_free: "free_cells {1, 3} 25 = 2 # [4..<26]"
  by code_simp

theorem Ifhassomany_first_free_witness:
  "Ifhassomany demo_menv 7 [] 3 (demo_main demo_bags) = Some ((1, [2, 4, 5]), ticked (demo_main demo_bags))"
proof -
  have "Ifhassomany demo_menv 7 [] 3 (demo_main demo_bags) = (let free = free_cells (taken 7 demo_bags) 25
     in Some (if 3 \<le> length free then (1, map of_nat (take 3 free)) else (0, []), ticked (demo_main demo_bags)))"
    using Ifhassomany_first_free[of demo_menv 7 "demo_main demo_bags" 25 "demo_main demo_bags" 3] demo_bag_ok(1) by (simp add: Let_def)
  then show ?thesis unfolding demo_bag_ok(2) demo_free by (simp add: upt_conv_Cons)
qed

lemma IfhascellIndex_first_free_witness:
  "IfhascellIndex demo_menv 7 (demo_main demo_bags) = Some (2, ticked (demo_main demo_bags))"
  using IfhascellIndex_first_free[of demo_menv 7 "demo_main demo_bags" 25 "demo_main demo_bags"] demo_bag_ok(1,3)
  unfolding demo_tables demo_bag_ok(2) by (simp add: demo_free del: One_nat_def)

text \<open>The same bag, answered in another order: cell 1 is taken for free.\<close>

lemma unordered_cells_clash:
  "map_option fst (IfhascellIndex demo_menv 7 (demo_main (demo_bags\<lparr>tb_Bag := rev (tb_Bag demo_bags)\<rparr>))) = Some 1"
  by (simp add: IfhascellIndex_def query_answered each_row_def RowNum_def cells_of_def demo_bags_def no_tables_def bag_item_def
      d32_def cell_index_def db_int_def GetIntField_def)

end
