(* ===== verification/Archv_Task.thy ===== *)
theory Archv_Task
  imports Serializer_Ops
begin

text \<open>
  The serialized messages of \<^verbatim>\<open>MainServer/ArchvTask.h\<close>, in the way of
  \<^verbatim>\<open>Archives\<close>: a record per class, its constructor, and the two directions its
  \<^verbatim>\<open>BEGIN_SERIAL_MAP\<close> block expands to, which keep the contract \<open>codec\<close>.
\<close>

record ArchvTaskDetail =
  ad_goalType :: "u8"
  ad_goalID :: "u32"
  ad_isFinish :: "u8"
  ad_goalNum :: "u32"
  ad_finishNum :: "u32"

definition ArchvTaskDetail_new :: ArchvTaskDetail where
  "ArchvTaskDetail_new = \<lparr>ad_goalType = 0, ad_goalID = 0, ad_isFinish = 0, ad_goalNum = 0, ad_finishNum = 0\<rparr>"

definition put_ArchvTaskDetail :: "ArchvTaskDetail \<Rightarrow> serializer \<Rightarrow> serializer option" where
  "put_ArchvTaskDetail a s0 = do {
     s1 \<leftarrow> put_entry (put_Byte (ad_goalType a)) s0;
     s2 \<leftarrow> put_entry (put_UInt32 (ad_goalID a)) s1;
     s3 \<leftarrow> put_entry (put_Byte (ad_isFinish a)) s2;
     s4 \<leftarrow> put_entry (put_UInt32 (ad_goalNum a)) s3;
     s5 \<leftarrow> put_entry (put_UInt32 (ad_finishNum a)) s4;
     Some s5
   }"

definition get_ArchvTaskDetail :: "ArchvTaskDetail \<Rightarrow> serializer \<Rightarrow> ArchvTaskDetail \<times> serializer" where
  "get_ArchvTaskDetail a s0 =
     (let (v1, s1) = get_entry get_Byte (ad_goalType a) s0;
          (v2, s2) = get_entry get_UInt32 (ad_goalID a) s1;
          (v3, s3) = get_entry get_Byte (ad_isFinish a) s2;
          (v4, s4) = get_entry get_UInt32 (ad_goalNum a) s3;
          (v5, s5) = get_entry get_UInt32 (ad_finishNum a) s4
      in (\<lparr>ad_goalType = v1, ad_goalID = v2, ad_isFinish = v3, ad_goalNum = v4, ad_finishNum = v5\<rparr>, s5))"

definition enc_ArchvTaskDetail :: "ArchvTaskDetail \<Rightarrow> u8 list" where
  "enc_ArchvTaskDetail a = bytes_of_word 1 (ad_goalType a) @
     bytes_of_word 4 (ad_goalID a) @
     bytes_of_word 1 (ad_isFinish a) @
     bytes_of_word 4 (ad_goalNum a) @
     bytes_of_word 4 (ad_finishNum a)"

interpretation arch_td: list_element put_ArchvTaskDetail get_ArchvTaskDetail enc_ArchvTaskDetail "\<lambda>_. True" "\<lambda>_. True" ArchvTaskDetail_new
  by unfold_locales (simp_all add: put_ArchvTaskDetail_def get_ArchvTaskDetail_def enc_ArchvTaskDetail_def wire)

record ArchvTaskInfo =
  ai_taskID :: "u32"
  ai_taskName :: "u8 list"
  ai_taskType :: "u8"
  ai_taskStatus :: "u8"
  ai_ltd :: "ArchvTaskDetail list"

definition ArchvTaskInfo_new :: ArchvTaskInfo where
  "ArchvTaskInfo_new = \<lparr>ai_taskID = 0, ai_taskName = [], ai_taskType = 0, ai_taskStatus = 0, ai_ltd = []\<rparr>"

definition put_ArchvTaskInfo :: "ArchvTaskInfo \<Rightarrow> serializer \<Rightarrow> serializer option" where
  "put_ArchvTaskInfo a s0 = do {
     s1 \<leftarrow> put_entry (put_UInt32 (ai_taskID a)) s0;
     s2 \<leftarrow> put_entry (put_string (ai_taskName a)) s1;
     s3 \<leftarrow> put_entry (put_Byte (ai_taskType a)) s2;
     s4 \<leftarrow> put_entry (put_Byte (ai_taskStatus a)) s3;
     s5 \<leftarrow> put_entry (put_List put_ArchvTaskDetail (ai_ltd a)) s4;
     Some s5
   }"

definition get_ArchvTaskInfo :: "ArchvTaskInfo \<Rightarrow> serializer \<Rightarrow> ArchvTaskInfo \<times> serializer" where
  "get_ArchvTaskInfo a s0 =
     (let (v1, s1) = get_entry get_UInt32 (ai_taskID a) s0;
          (v2, s2) = get_entry get_string (ai_taskName a) s1;
          (v3, s3) = get_entry get_Byte (ai_taskType a) s2;
          (v4, s4) = get_entry get_Byte (ai_taskStatus a) s3;
          (v5, s5) = get_entry (get_List get_ArchvTaskDetail ArchvTaskDetail_new) (ai_ltd a) s4
      in (\<lparr>ai_taskID = v1, ai_taskName = v2, ai_taskType = v3, ai_taskStatus = v4, ai_ltd = v5\<rparr>, s5))"

definition enc_ArchvTaskInfo :: "ArchvTaskInfo \<Rightarrow> u8 list" where
  "enc_ArchvTaskInfo a = bytes_of_word 4 (ai_taskID a) @
     enc_string (ai_taskName a) @
     bytes_of_word 1 (ai_taskType a) @
     bytes_of_word 1 (ai_taskStatus a) @
     enc_List enc_ArchvTaskDetail (ai_ltd a)"

definition ok_ArchvTaskInfo :: "ArchvTaskInfo \<Rightarrow> bool" where
  "ok_ArchvTaskInfo a = (length (ai_taskName a) < 65536 \<and> length (ai_ltd a) < 65536)"

definition fresh_ArchvTaskInfo :: "ArchvTaskInfo \<Rightarrow> bool" where
  "fresh_ArchvTaskInfo a = (ai_ltd a = [])"

interpretation arch_ti: codec put_ArchvTaskInfo get_ArchvTaskInfo enc_ArchvTaskInfo ok_ArchvTaskInfo fresh_ArchvTaskInfo
proof unfold_locales
  fix s :: serializer and v :: ArchvTaskInfo
  assume a: "ser_ok s" "ok_ArchvTaskInfo v" "length (enc_ArchvTaskInfo v) \<le> room s"
  show "put_ArchvTaskInfo v s = Some (ser_append (enc_ArchvTaskInfo v) s)"
    using a by (simp add: put_ArchvTaskInfo_def enc_ArchvTaskInfo_def ok_ArchvTaskInfo_def list.pred_True wire
      arch_td.lst.put_enc ser_byte.put_enc ser_string.put_enc ser_u32.put_enc)
next
  fix s :: serializer and v old :: ArchvTaskInfo and rest
  assume a: "ser_ok s" "ok_ArchvTaskInfo v" "fresh_ArchvTaskInfo old" "remaining s = enc_ArchvTaskInfo v @ rest"
  note r0 = a(4) [unfolded enc_ArchvTaskInfo_def append_assoc]
  note g1 = ser_u32.get_step [OF a(1) r0, where old = "ai_taskID old"]
  note f1 = ser_u32.rest_step [OF a(1) r0]
  note g2 = ser_string.get_step [OF f1(1) f1(2), where old = "ai_taskName old"]
  note f2 = ser_string.rest_step [OF f1(1) f1(2)]
  note g3 = ser_byte.get_step [OF f2(1) f2(2), where old = "ai_taskType old"]
  note f3 = ser_byte.rest_step [OF f2(1) f2(2)]
  note g4 = ser_byte.get_step [OF f3(1) f3(2), where old = "ai_taskStatus old"]
  note f4 = ser_byte.rest_step [OF f3(1) f3(2)]
  note g5 = arch_td.lst.get_step [OF f4(1) f4(2), where old = "ai_ltd old"]
  note f5 = arch_td.lst.rest_step [OF f4(1) f4(2)]
  show "get_ArchvTaskInfo old s = (v, ser_advance (length (enc_ArchvTaskInfo v)) s)"
    using a(2,3) g1 g2 g3 g4 g5
    by (simp add: get_ArchvTaskInfo_def enc_ArchvTaskInfo_def ok_ArchvTaskInfo_def fresh_ArchvTaskInfo_def list.pred_True wire add.assoc)
qed

end
