(* ===== verification/Task_Svc.thy ===== *)
theory Task_Svc
  imports Main_State Archv_Task
begin

text \<open>
  \<^verbatim>\<open>MainServer/Task/TaskSvc.cpp\<close>: the tasks of a role, their details, and what happens to
  them when the role kills, collects, uses or learns something.

  A function gives its result and the new state; \<open>None\<close> is a thread that does not come back (a mutex
  locked twice, a loop over the rows of a failed query, a script that does not end).
  \<^verbatim>\<open>CoreData::NotifyNpcStatus\<close> is left as the event \<open>NpcStatus\<close>.
\<close>

record TaskDetail =
  det_detailID :: u32
  det_taskID :: u32
  det_goalNum :: u32

definition UniqID_task :: u32 where "UniqID_task = 123"

section \<open>Statements\<close>

definition tasks_of :: "u32 \<Rightarrow> tables \<Rightarrow> task_row list" where
  "tasks_of taskID t = filter (\<lambda>k. tk_TaskID k = d32 taskID) (tb_Task t)"

definition is_role_task :: "u32 \<Rightarrow> u32 \<Rightarrow> role_task_row \<Rightarrow> bool" where
  "is_role_task roleID taskID r \<longleftrightarrow> rt_RoleID r = d32 roleID \<and> rt_TaskID r = d32 taskID"

definition is_detail :: "u32 \<Rightarrow> u32 \<Rightarrow> task_detail_row \<Rightarrow> bool" where
  "is_detail roleID taskID d \<longleftrightarrow> td_RoleID d = d32 roleID \<and> td_TaskID d = d32 taskID"

definition is_goal :: "u32 \<Rightarrow> u8 \<Rightarrow> u32 \<Rightarrow> task_detail_row \<Rightarrow> bool" where
  "is_goal roleID goalType goalID d \<longleftrightarrow>
     td_RoleID d = d32 roleID \<and> td_GoalType d = uint goalType \<and> td_GoalID d = d32 goalID"

definition on_RoleTask :: "(role_task_row \<Rightarrow> bool) \<Rightarrow> (role_task_row \<Rightarrow> role_task_row) \<Rightarrow> tables \<Rightarrow> tables" where
  "on_RoleTask P f t = t\<lparr>tb_RoleTask := map (\<lambda>r. if P r then f r else r) (tb_RoleTask t)\<rparr>"

definition on_Detail :: "(task_detail_row \<Rightarrow> bool) \<Rightarrow> (task_detail_row \<Rightarrow> task_detail_row) \<Rightarrow> tables \<Rightarrow> tables" where
  "on_Detail P f t = t\<lparr>tb_RoleTaskDetail := map (\<lambda>d. if P d then f d else d) (tb_RoleTaskDetail t)\<rparr>"

definition detail_row :: "task_detail_row \<Rightarrow> db_row" where
  "detail_row d = [db_int (td_GoalType d), db_int (td_GoalID d), db_int (td_IsFinish d), db_int (td_GoalNum d), db_int (td_FinishNum d)]"

section \<open>Status of a task\<close>

text \<open>1 not accepted, 2 not finished, 3 finished, 4 delivered.\<close>

fun task_status :: "main_env \<Rightarrow> u32 \<Rightarrow> u8 \<Rightarrow> u32 \<Rightarrow> u32 \<Rightarrow> db_row list \<Rightarrow> u8 \<Rightarrow> main_state \<Rightarrow> ((int \<times> u8) \<times> main_state) option" where
  "task_status env roleID taskType maxAcceptNum maxLevel [] status ms = Some ((0, status), ms)"
| "task_status env roleID taskType maxAcceptNum maxLevel (row # rows) status ms =
     (let finishStatus = GetIntField row 0; deliverNum = GetIntField row 1
      in if finishStatus = 0 then task_status env roleID taskType maxAcceptNum maxLevel rows 2 ms
         else if finishStatus = 1 then task_status env roleID taskType maxAcceptNum maxLevel rows 3 ms
         else if finishStatus = 2
         then if taskType = 3
              then do {
                (pRole, ms1) \<leftarrow> role_of env roleID ms;
                if ID pRole = 0 then Some ((- 1, status), ms1)
                else task_status env roleID taskType maxAcceptNum maxLevel rows
                       (if deliverNum < maxAcceptNum \<and> Level pRole \<le> maxLevel then 1 else 4) ms1
              }
              else task_status env roleID taskType maxAcceptNum maxLevel rows 4 ms
         else task_status env roleID taskType maxAcceptNum maxLevel rows status ms)"

definition GetRoleTaskStatus :: "main_env \<Rightarrow> u32 \<Rightarrow> u32 \<Rightarrow> main_state \<Rightarrow> ((int \<times> u8) \<times> main_state) option" where
  "GetRoleTaskStatus env roleID taskID ms = do {
     let (iRet, d, ms1) = query (\<lambda>t. map (\<lambda>k. [db_int (tk_TaskType k), db_int (tk_MaxAcceptNum k), db_int (tk_MaxLevel k)])
           (tasks_of taskID t)) (dbo_new env) ms;
     if iRet = 1 \<or> iRet < 0 then Some ((- 1, 0), ms1)
     else do {
       rows \<leftarrow> each_row d;
       let task = last ([] # rows);
       let (iRet2, d2, ms2) = query (\<lambda>t. map (\<lambda>r. [db_int (rt_FinishStatus r), db_int (rt_DeliverNum r)])
             (filter (is_role_task roleID taskID) (tb_RoleTask t))) (all_read d) ms1;
       if iRet2 = 1 then Some ((0, 1), ms2)
       else if iRet2 < 0 then Some ((- 1, 0), ms2)
       else do {
         rows2 \<leftarrow> each_row d2;
         task_status env roleID (ucast (GetIntField task 0)) (GetIntField task 1) (GetIntField task 2) rows2 0 ms2
       }
     }
   }"

definition read_detail :: "db_row \<Rightarrow> ArchvTaskDetail" where
  "read_detail row = \<lparr>ad_goalType = ucast (GetIntField row 0), ad_goalID = GetIntField row 1,
     ad_isFinish = ucast (GetIntField row 2), ad_goalNum = GetIntField row 3, ad_finishNum = GetIntField row 4\<rparr>"

definition GetRoleTaskDetail :: "main_env \<Rightarrow> u32 \<Rightarrow> u32 \<Rightarrow> ArchvTaskDetail list \<Rightarrow> main_state \<Rightarrow> ((int \<times> ArchvTaskDetail list) \<times> main_state) option" where
  "GetRoleTaskDetail env roleID taskID ltd ms = do {
     let (iRet, d, ms1) = query (\<lambda>t. map detail_row (filter (is_detail roleID taskID) (tb_RoleTaskDetail t))) (dbo_new env) ms;
     if iRet < 0 then Some ((- 1, ltd), ms1)
     else do {
       rows \<leftarrow> each_row d;
       Some ((0, ltd @ map read_detail rows), ms1)
     }
   }"

definition AddRoleTaskDetail :: "main_env \<Rightarrow> u32 \<Rightarrow> u32 \<Rightarrow> u8 \<Rightarrow> u32 \<Rightarrow> u32 \<Rightarrow> main_state \<Rightarrow> int \<times> main_state" where
  "AddRoleTaskDetail env roleID taskID goalType goalID goalNum ms =
     (let (iRet, d, ms1) = exec (\<lambda>t. t\<lparr>tb_RoleTaskDetail := tb_RoleTaskDetail t @
               [\<lparr>td_DetailID = tb_nextDetail t, td_RoleID = d32 roleID, td_TaskID = d32 taskID, td_GoalType = uint goalType,
                 td_GoalID = d32 goalID, td_GoalNum = d32 goalNum, td_IsFinish = 0, td_FinishNum = 0\<rparr>],
             tb_nextDetail := tb_nextDetail t + 1\<rparr>) (dbo_new env) ms
      in (if iRet < 0 then - 1 else 0, ms1))"

definition GetRoleProID :: "main_env \<Rightarrow> u32 \<Rightarrow> main_state \<Rightarrow> ((int \<times> u32) \<times> main_state) option" where
  "GetRoleProID env roleID ms = do {
     (pRole, ms1) \<leftarrow> role_of env roleID ms;
     if ID pRole = 0 then Some ((- 1, 0), ms1) else Some ((0, ProID pRole), ms1)
   }"

definition NotifyTaskStatus :: "main_env \<Rightarrow> u32 \<Rightarrow> u32 \<Rightarrow> main_state \<Rightarrow> (unit \<times> main_state) option" where
  "NotifyTaskStatus env roleID taskID ms = do {
     ((iRet, taskStatus), ms1) \<leftarrow> GetRoleTaskStatus env roleID taskID ms;
     if iRet \<noteq> 0 then Some ((), ms1)
     else do {
       ((iRet2, ltd), ms2) \<leftarrow> GetRoleTaskDetail env roleID taskID [] ms1;
       if iRet2 \<noteq> 0 then Some ((), ms2)
       else Some ((), tell roleID (notify_packet (me_svc env) 701 UniqID_task
              (\<lambda>s. do { s1 \<leftarrow> put_UInt32 taskID s; s2 \<leftarrow> put_Byte taskStatus s1; put_List put_ArchvTaskDetail ltd s2 })) ms2)
     }
   }"

section \<open>Progress\<close>

text \<open>A task without details is finished at once; one with details when none of them is open.\<close>

definition finish_task :: "u32 \<Rightarrow> u32 \<Rightarrow> u32 \<Rightarrow> tables \<Rightarrow> tables" where
  "finish_task roleID taskID exitNpcID =
     on_RoleTask (is_role_task roleID taskID)
       (\<lambda>r. if exitNpcID = 0 then r\<lparr>rt_FinishStatus := 2, rt_DeliverNum := rt_DeliverNum r + 1\<rparr> else r\<lparr>rt_FinishStatus := 1\<rparr>)"

definition UpdateTaskStatus :: "main_env \<Rightarrow> u32 \<Rightarrow> u32 \<Rightarrow> main_state \<Rightarrow> (unit \<times> main_state) option" where
  "UpdateTaskStatus env roleID taskID ms = do {
     ((iRet, status), ms1) \<leftarrow> GetRoleTaskStatus env roleID taskID ms;
     if iRet \<noteq> 0 then Some ((), ms1)
     else if status \<le> 1 \<or> 4 \<le> status then Some ((), ms1)
     else do {
       let (iRet2, d2, ms2) = query (\<lambda>t. map (\<lambda>d. [db_int (td_RoleID d), db_int (td_TaskID d)])
             (filter (is_detail roleID taskID) (tb_RoleTaskDetail t))) (dbo_new env) ms1;
       if iRet2 < 0 then Some ((), ms2)
       else do {
         let (iRet3, d3, ms3) = query (\<lambda>t. map (\<lambda>k. [db_int (tk_ExitNpcID k)]) (tasks_of taskID t)) d2 ms2;
         if iRet3 = 1 \<or> iRet3 < 0 then Some ((), ms3)
         else do {
           let exitNpcID = field 0 d3;
           ((failed, d5), ms5) \<leftarrow>
             (if iRet2 = 1 then
                (let (iRet4, d4, ms4) = exec (finish_task roleID taskID exitNpcID) d3 ms3 in Some ((iRet4 < 0, d4), ms4))
              else
                (let (iRet4, d4, ms4) = query (\<lambda>t. map (\<lambda>d. [db_int (td_DetailID d)])
                       (filter (\<lambda>d. is_detail roleID taskID d \<and> td_IsFinish d = 0) (tb_RoleTaskDetail t))) d3 ms3
                 in if iRet4 < 0 then Some ((True, d4), ms4)
                    else if iRet4 = 1 then
                      (let (iRet5, d5, ms5) = exec (finish_task roleID taskID exitNpcID) d4 ms4 in Some ((iRet5 < 0, d5), ms5))
                    else Some ((False, d4), ms4)));
           if failed then Some ((), ms5)
           else do {
             let (iRet6, d6, ms6) = query (\<lambda>t. map (\<lambda>r. [db_int (rt_FinishStatus r)])
                   (filter (is_role_task roleID taskID) (tb_RoleTask t))) d5 ms5;
             if iRet6 = 1 \<or> iRet6 < 0 then Some ((), ms6)
             else Some ((), if (ucast (field 0 d6) :: u8) = 1 then emit [NpcStatus roleID] ms6 else ms6)
           }
         }
       }
     }
   }"

text \<open>The items of one kind in the bag are dealt out to the details that want them, the oldest
  first.\<close>

definition goals :: "(task_detail_row \<Rightarrow> bool) \<Rightarrow> tables \<Rightarrow> task_detail_row list" where
  "goals P t = filter P (tb_RoleTaskDetail t)"

fun deal_out :: "main_env \<Rightarrow> u32 \<Rightarrow> TaskDetail list \<Rightarrow> u32 \<Rightarrow> dbo \<Rightarrow> main_state \<Rightarrow> (bool \<times> main_state) option" where
  "deal_out env roleID [] bagItemNum d ms = Some (True, ms)"
| "deal_out env roleID (it # its) bagItemNum d ms =
     (if bagItemNum < det_goalNum it
      then let (iRet, d1, ms1) = exec (on_Detail (\<lambda>r. td_DetailID r = d32 (det_detailID it))
                 (\<lambda>r. r\<lparr>td_IsFinish := 0, td_FinishNum := d32 bagItemNum\<rparr>)) d ms
           in Some (\<not> iRet < 0, ms1)
      else let (iRet, d1, ms1) = exec (on_Detail (\<lambda>r. td_DetailID r = d32 (det_detailID it))
                 (\<lambda>r. r\<lparr>td_IsFinish := 1, td_FinishNum := d32 (det_goalNum it)\<rparr>)) d ms
           in if iRet < 0 then Some (False, ms1)
              else do {
                (_, ms2) \<leftarrow> UpdateTaskStatus env roleID (det_taskID it) ms1;
                deal_out env roleID its (bagItemNum - det_goalNum it) d1 ms2
              })"

fun notify_all :: "main_env \<Rightarrow> u32 \<Rightarrow> u32 list \<Rightarrow> main_state \<Rightarrow> (unit \<times> main_state) option" where
  "notify_all env roleID [] ms = Some ((), ms)"
| "notify_all env roleID (taskID # ids) ms = do {
     (_, ms1) \<leftarrow> NotifyTaskStatus env roleID taskID ms;
     notify_all env roleID ids ms1
   }"

definition read_TaskDetail :: "db_row \<Rightarrow> TaskDetail" where
  "read_TaskDetail row = \<lparr>det_detailID = GetIntField row 0, det_taskID = GetIntField row 1, det_goalNum = GetIntField row 2\<rparr>"

definition UpdateTaskDetailStatusByHoldItem :: "main_env \<Rightarrow> u32 \<Rightarrow> u32 \<Rightarrow> main_state \<Rightarrow> (unit \<times> main_state) option" where
  "UpdateTaskDetailStatusByHoldItem env roleID itemID ms = do {
     let (iRet, d, ms1) = query (\<lambda>t. map (\<lambda>r. [db_int (td_DetailID r), db_int (td_TaskID r), db_int (td_GoalNum r)])
           (sort_key td_DetailID (goals (is_goal roleID 2 itemID) t))) (dbo_new env) ms;
     if iRet = 1 \<or> iRet < 0 then Some ((), ms1)
     else do {
       rows \<leftarrow> each_row d;
       let ltd = map read_TaskDetail rows;
       let (iRet2, d2, ms2) = exec (on_Detail (is_goal roleID 2 itemID) (\<lambda>r. r\<lparr>td_IsFinish := 0, td_FinishNum := 0\<rparr>)) (all_read d) ms1;
       if iRet2 < 0 then Some ((), ms2)
       else do {
         let (iRet3, d3, ms3) = query (\<lambda>t. map (\<lambda>b. [db_int (bg_Num b)])
               (filter (\<lambda>b. bg_RoleID b = d32 roleID \<and> bg_ItemID b = d32 itemID) (tb_Bag t))) d2 ms2;
         if iRet3 = 1 \<or> iRet3 < 0 then Some ((), ms3)
         else do {
           nums \<leftarrow> each_row d3;
           let bagItemNum = sum_list (map (\<lambda>row. GetIntField row 0) nums);
           (ok, ms4) \<leftarrow> deal_out env roleID ltd bagItemNum (all_read d3) ms3;
           if ok then notify_all env roleID (map det_taskID ltd) ms4 else Some ((), ms4)
         }
       }
     }
   }"

fun count_up :: "main_env \<Rightarrow> u32 \<Rightarrow> u32 \<Rightarrow> db_row list \<Rightarrow> dbo \<Rightarrow> main_state \<Rightarrow> (bool \<times> main_state) option" where
  "count_up env roleID inputNum [] sub ms = Some (True, ms)"
| "count_up env roleID inputNum (row # rows) sub ms =
     (let detailID = GetIntField row 0; taskID = GetIntField row 1; goalNum = GetIntField row 2; finishNum = GetIntField row 3
      in if finishNum + inputNum < goalNum
         then let (iRet, sub1, ms1) = exec (on_Detail (\<lambda>r. td_DetailID r = d32 detailID)
                    (\<lambda>r. r\<lparr>td_FinishNum := d32 (finishNum + inputNum)\<rparr>)) sub ms
              in if iRet < 0 then Some (False, ms1) else count_up env roleID inputNum rows sub1 ms1
         else let (iRet, sub1, ms1) = exec (on_Detail (\<lambda>r. td_DetailID r = d32 detailID)
                    (\<lambda>r. r\<lparr>td_IsFinish := 1, td_FinishNum := d32 goalNum\<rparr>)) sub ms
              in if iRet < 0 then Some (False, ms1)
                 else do {
                   (_, ms2) \<leftarrow> UpdateTaskStatus env roleID taskID ms1;
                   count_up env roleID inputNum rows sub1 ms2
                 })"

definition UpdateTaskDetailStatusByNum :: "main_env \<Rightarrow> u32 \<Rightarrow> u8 \<Rightarrow> u32 \<Rightarrow> u32 \<Rightarrow> main_state \<Rightarrow> (unit \<times> main_state) option" where
  "UpdateTaskDetailStatusByNum env roleID goalType goalID inputNum ms =
     (if inputNum = 0 then Some ((), ms)
      else do {
        let (iRet, d, ms1) = query (\<lambda>t. map (\<lambda>r. [db_int (td_DetailID r), db_int (td_TaskID r), db_int (td_GoalNum r), db_int (td_FinishNum r)])
              (goals (\<lambda>r. is_goal roleID goalType goalID r \<and> td_IsFinish r = 0) t)) (dbo_new env) ms;
        if iRet = 1 \<or> iRet < 0 then Some ((), ms1)
        else do {
          rows \<leftarrow> each_row d;
          (ok, ms2) \<leftarrow> count_up env roleID inputNum rows (dbo_new env) ms1;
          if ok then notify_all env roleID (map (\<lambda>row. GetIntField row 1) rows) ms2 else Some ((), ms2)
        }
      })"

text \<open>Different values in the order they are first met.\<close>

fun distinct_values :: "'a list \<Rightarrow> 'a list" where
  "distinct_values [] = []"
| "distinct_values (x # xs) = x # filter (\<lambda>y. y \<noteq> x) (distinct_values xs)"

fun hold_items :: "main_env \<Rightarrow> u32 \<Rightarrow> u32 list \<Rightarrow> main_state \<Rightarrow> (unit \<times> main_state) option" where
  "hold_items env roleID [] ms = Some ((), ms)"
| "hold_items env roleID (itemID # ids) ms = do {
     (_, ms1) \<leftarrow> UpdateTaskDetailStatusByHoldItem env roleID itemID ms;
     hold_items env roleID ids ms1
   }"

definition CheckAllItemTypeTaskStatus :: "main_env \<Rightarrow> u32 \<Rightarrow> main_state \<Rightarrow> (unit \<times> main_state) option" where
  "CheckAllItemTypeTaskStatus env roleID ms = do {
     let (iRet, d, ms1) = query (\<lambda>t. map (\<lambda>i. [db_int i])
           (distinct_values (map bg_ItemID (filter (\<lambda>b. bg_RoleID b = d32 roleID) (tb_Bag t))))) (dbo_new env) ms;
     if iRet = 1 \<or> iRet < 0 then Some ((), ms1)
     else do {
       rows \<leftarrow> each_row d;
       hold_items env roleID (map (\<lambda>row. GetIntField row 0) rows) ms1
     }
   }"

section \<open>Events\<close>

definition OnAfterKillMonster :: "main_env \<Rightarrow> u32 \<Rightarrow> u32 \<Rightarrow> u32 \<Rightarrow> main_state \<Rightarrow> (unit \<times> main_state) option" where
  "OnAfterKillMonster env roleID monsterType killNum = UpdateTaskDetailStatusByNum env roleID 1 monsterType killNum"

definition OnBagItemAddOrDelete :: "main_env \<Rightarrow> u32 \<Rightarrow> u32 \<Rightarrow> main_state \<Rightarrow> (unit \<times> main_state) option" where
  "OnBagItemAddOrDelete env roleID itemID = UpdateTaskDetailStatusByHoldItem env roleID itemID"

definition OnUseItem :: "main_env \<Rightarrow> u32 \<Rightarrow> u32 \<Rightarrow> main_state \<Rightarrow> (unit \<times> main_state) option" where
  "OnUseItem env roleID itemID = UpdateTaskDetailStatusByNum env roleID 3 itemID 1"

definition OnRoleDress :: "main_env \<Rightarrow> u32 \<Rightarrow> u32 \<Rightarrow> main_state \<Rightarrow> (unit \<times> main_state) option" where
  "OnRoleDress env roleID itemID = UpdateTaskDetailStatusByNum env roleID 4 itemID 1"

definition OnCallPet :: "main_env \<Rightarrow> u32 \<Rightarrow> u32 \<Rightarrow> main_state \<Rightarrow> (unit \<times> main_state) option" where
  "OnCallPet env roleID petType = UpdateTaskDetailStatusByNum env roleID 5 petType 1"

definition OnRoleLearnSkill :: "main_env \<Rightarrow> u32 \<Rightarrow> main_state \<Rightarrow> (unit \<times> main_state) option" where
  "OnRoleLearnSkill env roleID = UpdateTaskDetailStatusByNum env roleID 6 0 1"

definition OnComposeEquip :: "main_env \<Rightarrow> u32 \<Rightarrow> main_state \<Rightarrow> (unit \<times> main_state) option" where
  "OnComposeEquip env roleID = UpdateTaskDetailStatusByNum env roleID 7 0 1"

definition OnRoleAddFriend :: "main_env \<Rightarrow> u32 \<Rightarrow> main_state \<Rightarrow> (unit \<times> main_state) option" where
  "OnRoleAddFriend env roleID = UpdateTaskDetailStatusByNum env roleID 8 0 1"

definition OnRoleAddTeam :: "main_env \<Rightarrow> u32 \<Rightarrow> main_state \<Rightarrow> (unit \<times> main_state) option" where
  "OnRoleAddTeam env roleID = UpdateTaskDetailStatusByNum env roleID 9 0 1"

end
