(* ===== verification/Bag_Items.thy ===== *)
theory Bag_Items
  imports Bag_Cells Task_Svc Archives
begin

text \<open>
  Items and money in \<^verbatim>\<open>MainServer/Bag/BagSvc.cpp\<close>: giving a role money and items,
  taking them away, and exchanging cells between two bags.  After a change the task service is told
  (\<^verbatim>\<open>OnBagItemAddOrDelete\<close>) and then the role.
\<close>

record DBBagItem =
  bi_RoleID :: u32
  bi_CellIndex :: u16
  bi_CellType :: u16
  bi_ItemType :: u16
  bi_ItemID :: u32
  bi_EntityID :: u32
  bi_NUM :: u32

definition DBBagItem_new :: DBBagItem where
  "DBBagItem_new = \<lparr>bi_RoleID = 0, bi_CellIndex = 0, bi_CellType = 0, bi_ItemType = 0, bi_ItemID = 0, bi_EntityID = 0, bi_NUM = 0\<rparr>"

section \<open>Statements\<close>

definition money_of :: "u32 \<Rightarrow> tables \<Rightarrow> money_row list" where
  "money_of roleID t = filter (\<lambda>m. mn_RoleID m = d32 roleID) (tb_RoleMoney t)"

definition on_Money :: "u32 \<Rightarrow> (money_row \<Rightarrow> money_row) \<Rightarrow> tables \<Rightarrow> tables" where
  "on_Money roleID f t = t\<lparr>tb_RoleMoney := map (\<lambda>m. if mn_RoleID m = d32 roleID then f m else m) (tb_RoleMoney t)\<rparr>"

definition in_cell :: "u32 \<Rightarrow> u16 \<Rightarrow> bag_row \<Rightarrow> bool" where
  "in_cell roleID cell b \<longleftrightarrow> bg_RoleID b = d32 roleID \<and> bg_CellIndex b = d16 cell"

definition in_cells :: "u32 \<Rightarrow> u16 list \<Rightarrow> bag_row \<Rightarrow> bool" where
  "in_cells roleID cells b \<longleftrightarrow> bg_RoleID b = d32 roleID \<and> bg_CellIndex b \<in> d16 ` set cells"

definition drop_bag :: "(bag_row \<Rightarrow> bool) \<Rightarrow> tables \<Rightarrow> tables" where
  "drop_bag P t = t\<lparr>tb_Bag := filter (\<lambda>b. \<not> P b) (tb_Bag t)\<rparr>"

definition add_bag :: "bag_row \<Rightarrow> tables \<Rightarrow> tables" where
  "add_bag b t = t\<lparr>tb_Bag := tb_Bag t @ [b]\<rparr>"

definition drop_entities :: "int set \<Rightarrow> tables \<Rightarrow> tables" where
  "drop_entities ids t = t\<lparr>tb_Entity := filter (\<lambda>e. en_EntityID e \<notin> ids) (tb_Entity t)\<rparr>"

definition bag_item_row :: "bag_row \<Rightarrow> db_row" where
  "bag_item_row b = [db_int (bg_RoleID b), db_int (bg_CellIndex b), db_int (bg_CellType b), db_int (bg_ItemType b),
     db_int (bg_ItemID b), db_int (bg_EntityID b), db_int (bg_Num b)]"

definition read_DBBagItem :: "dbo \<Rightarrow> DBBagItem" where
  "read_DBBagItem d = \<lparr>bi_RoleID = field 0 d, bi_CellIndex = ucast (field 1 d), bi_CellType = ucast (field 2 d),
     bi_ItemType = ucast (field 3 d), bi_ItemID = field 4 d, bi_EntityID = field 5 d, bi_NUM = field 6 d\<rparr>"

definition CdTime_of :: "u32 \<Rightarrow> tables \<Rightarrow> db_row list" where
  "CdTime_of itemID t = map (\<lambda>i. [db_int (it_CdTime i)]) (filter (\<lambda>i. it_ItemID i = d32 itemID) (tb_Item t))"

definition Entity_of :: "u32 \<Rightarrow> tables \<Rightarrow> db_row list" where
  "Entity_of entityID t = map (\<lambda>e. [db_int (en_Durability e), db_int (en_BindStatus e)])
     (filter (\<lambda>e. en_EntityID e = d32 entityID) (tb_Entity t))"

text \<open>A statement the database cannot parse.\<close>

definition syntax_error :: "dbo \<Rightarrow> main_state \<Rightarrow> int \<times> dbo \<times> main_state" where
  "syntax_error d ms = (- 1, FreeResult d, ticked ms)"

section \<open>Notifications\<close>

definition NotifyMoney :: "main_env \<Rightarrow> u32 \<Rightarrow> main_state \<Rightarrow> main_state" where
  "NotifyMoney env roleID ms =
     (let (iRet, d, ms1) = query (\<lambda>t. map (\<lambda>m. [db_int (mn_Money m), db_int (mn_BindMoney m), db_int (mn_Gold m)]) (money_of roleID t))
            (dbo_new env) ms;
          (money, Bindmoney, Gold) = (if iRet = 0 then (field 0 d, field 1 d, field 2 d) else (0, 0, 0))
      in tell roleID (notify_sized 1024 (me_svc env) 802 251
           (\<lambda>s. do { s1 \<leftarrow> put_UInt32 money s; s2 \<leftarrow> put_UInt32 Bindmoney s1; put_UInt32 Gold s2 })) ms1)"

definition NotifyBag :: "main_env \<Rightarrow> u32 \<Rightarrow> ItemCell list \<Rightarrow> main_state \<Rightarrow> main_state" where
  "NotifyBag env roleID lic = tell roleID (notify_sized 1024 (me_svc env) 801 250 (put_List put_ItemCell lic))"

section \<open>Money\<close>

definition Getmoney :: "main_env \<Rightarrow> u32 \<Rightarrow> u32 \<Rightarrow> main_state \<Rightarrow> i16 \<times> main_state" where
  "Getmoney env RoleID num ms =
     (let (iRet, d, ms1) = exec (on_Money RoleID (\<lambda>m. m\<lparr>mn_Money := mn_Money m + d32 num\<rparr>)) (dbo_new env) ms
      in if iRet < 0 then (0, ms1) else (1, NotifyMoney env RoleID ms1))"

definition GetBindMoney :: "main_env \<Rightarrow> u32 \<Rightarrow> u32 \<Rightarrow> main_state \<Rightarrow> i16 \<times> main_state" where
  "GetBindMoney env RoleID num ms =
     (let (iRet, d, ms1) = exec (on_Money RoleID (\<lambda>m. m\<lparr>mn_BindMoney := mn_BindMoney m + d32 num\<rparr>)) (dbo_new env) ms
      in if iRet \<noteq> 0 then (0, ms1) else (1, NotifyMoney env RoleID ms1))"

definition GetBindAndMoney :: "main_env \<Rightarrow> u32 \<Rightarrow> u32 \<Rightarrow> u32 \<Rightarrow> main_state \<Rightarrow> i16 \<times> main_state" where
  "GetBindAndMoney env RoleID num1 num2 ms =
     (let (iRet, d, ms1) = exec (on_Money RoleID (\<lambda>m. m\<lparr>mn_Money := mn_Money m + d32 num1, mn_BindMoney := mn_BindMoney m + d32 num2\<rparr>))
            (dbo_new env) ms
      in if iRet < 0 then (0, ms1) else (1, NotifyMoney env RoleID ms1))"

definition GetGold :: "main_env \<Rightarrow> u32 \<Rightarrow> u32 \<Rightarrow> main_state \<Rightarrow> i16 \<times> main_state" where
  "GetGold env RoleID num ms =
     (let (iRet, d, ms1) = exec (on_Money RoleID (\<lambda>m. m\<lparr>mn_Gold := mn_Gold m + d32 num\<rparr>)) (dbo_new env) ms
      in if iRet < 0 then (0, ms1) else (1, NotifyMoney env RoleID ms1))"

text \<open>\<^verbatim>\<open>iRet\<close> is unsigned in \<^verbatim>\<open>selectmoney\<close> and
  \<^verbatim>\<open>selectGold\<close>, so that a failed query is not seen and the number returned is not
  initialised.\<close>

definition selectmoney :: "main_env \<Rightarrow> u32 \<Rightarrow> u32 \<Rightarrow> main_state \<Rightarrow> (u32 \<times> u32) \<times> main_state" where
  "selectmoney env RoleID BindMoney ms =
     (let (iRet, d, ms1) = query (\<lambda>t. map (\<lambda>m. [db_int (mn_Money m), db_int (mn_BindMoney m)]) (money_of RoleID t)) (dbo_new env) ms
      in (if iRet = 0 then (field 0 d, field 1 d) else if iRet = 1 then (0, BindMoney) else (me_word env, BindMoney), ms1))"

definition selectGold :: "main_env \<Rightarrow> u32 \<Rightarrow> main_state \<Rightarrow> u32 \<times> main_state" where
  "selectGold env RoleID ms =
     (let (iRet, d, ms1) = query (\<lambda>t. map (\<lambda>m. [db_int (mn_Gold m)]) (money_of RoleID t)) (dbo_new env) ms
      in (if iRet = 0 then field 0 d else if iRet = 1 then 0 else me_word env, ms1))"

definition DropMoneyOnly :: "main_env \<Rightarrow> u32 \<Rightarrow> u32 \<Rightarrow> main_state \<Rightarrow> i16 \<times> main_state" where
  "DropMoneyOnly env RoleID num ms =
     (let ((money, BindMoney), ms1) = selectmoney env RoleID 0 ms
      in if money < num then (- 1, ms1)
         else let (iRet, d, ms2) = exec (on_Money RoleID (\<lambda>m. m\<lparr>mn_Money := d32 (money - num)\<rparr>)) (dbo_new env) ms1
              in if iRet \<noteq> 0 then (0, ms2) else (1, NotifyMoney env RoleID ms2))"

definition Dropmoney :: "main_env \<Rightarrow> u32 \<Rightarrow> u32 \<Rightarrow> main_state \<Rightarrow> i16 \<times> main_state" where
  "Dropmoney env RoleID num ms =
     (let ((money, BindMoney), ms1) = selectmoney env RoleID 0 ms
      in if money + BindMoney < num then (- 1, ms1)
         else let (money', BindMoney') = (if num \<le> BindMoney then (money, BindMoney - num) else (money - (num - BindMoney), 0));
                  (iRet, d, ms2) = exec (on_Money RoleID (\<lambda>m. m\<lparr>mn_Money := d32 money', mn_BindMoney := d32 BindMoney'\<rparr>)) (dbo_new env) ms1
              in if iRet \<noteq> 0 then (0, ms2) else (1, NotifyMoney env RoleID ms2))"

definition DropGold :: "main_env \<Rightarrow> u32 \<Rightarrow> u32 \<Rightarrow> main_state \<Rightarrow> i16 \<times> main_state" where
  "DropGold env RoleID num ms =
     (let (Gold, ms1) = selectGold env RoleID ms
      in if Gold < num then (- 1, ms1)
         else let (iRet, d, ms2) = exec (on_Money RoleID (\<lambda>m. m\<lparr>mn_Gold := mn_Gold m - d32 num\<rparr>)) (dbo_new env) ms1
              in if iRet \<noteq> 0 then (0, ms2) else (1, NotifyMoney env RoleID ms2))"

section \<open>Getting items\<close>

text \<open>The columns of \<^verbatim>\<open>Item\<close>, which stay 0 unless there is one row.\<close>

definition GetItem :: "main_env \<Rightarrow> u32 \<Rightarrow> u32 \<Rightarrow> ItemCell list \<Rightarrow> u16 \<Rightarrow> main_state \<Rightarrow> ((u16 \<times> ItemCell list) \<times> main_state) option" where
  "GetItem env roleID ItemID lic num ms = do {
     (cell, ms1) \<leftarrow> IfhascellIndex env roleID ms;
     if cell = 0 then Some ((0, lic), ms1)
     else do {
       let (iRet, d, ms2) = query (\<lambda>t. map (\<lambda>i. [db_int (it_IsStack i), db_int (it_Bind i), db_int (it_CostBuy i),
               db_int (it_Durability i), db_int (it_ItemType i), db_int (it_CellType i)])
             (filter (\<lambda>i. it_ItemID i = d32 ItemID) (tb_Item t))) (dbo_new env) ms1;
       if iRet = 1 \<or> iRet < 0 then Some ((0, lic), ms2)
       else do {
         let one = (RowNum d = 1);
         let (IsStack, Bind, Dur, itemType, cellType) =
           ((if one then (ucast (field 0 d), ucast (field 1 d), field 3 d, ucast (field 4 d), ucast (field 5 d)) else (0, 0, 0, 0, 0))
            :: u16 \<times> u16 \<times> u32 \<times> u16 \<times> u16);
         let d2 = (if one then all_read d else d);
         ((found, cell', cdTime, EntityID, d5), ms5) \<leftarrow>
           (if itemType = 2 then
              let (iRet3, id, d3, ms3) = exec_insert env tb_nextEntity
                    (\<lambda>t. t\<lparr>tb_Entity := tb_Entity t @ [\<lparr>en_EntityID = tb_nextEntity t, en_ItemID = d32 ItemID,
                           en_Durability = d32 Dur, en_BindStatus = d16 Bind\<rparr>], tb_nextEntity := tb_nextEntity t + 1\<rparr>) d2 ms2
              in Some ((True, cell, 0, id, d3), ms3)
            else do {
              (cell', ms3) \<leftarrow> (if IsStack = 0 then IfhascellIndex env roleID ms2 else Some (cell, ms2));
              if IsStack = 0 \<and> (num \<noteq> 1 \<or> cell' = 0) then Some ((False, cell', 0, 0, d2), ms3)
              else let (iRet4, d4, ms4) = query (CdTime_of ItemID) d2 ms3
                   in Some ((True, cell', if iRet4 = 0 then ucast (field 0 d4) else 0, 0, d4), ms4)
            });
         if \<not> found then Some ((0, lic), ms5)
         else do {
           let lic1 = \<lparr>cell_celIndex = cell', cell_ItemID = ItemID, cell_EntityID = EntityID, cell_cdTime = cdTime,
                 cell_num = num, cell_durability = ucast Dur, cell_bindStatus = ucast Bind\<rparr>;
           let (iRet6, d6, ms6) = exec (add_bag \<lparr>bg_RoleID = d32 roleID, bg_CellType = d16 cellType, bg_CellIndex = d16 cell',
                 bg_ItemType = d16 itemType, bg_ItemID = d32 ItemID, bg_EntityID = d32 EntityID, bg_Num = d16 num\<rparr>) d5 ms5;
           if iRet6 \<noteq> 0 then Some ((0, lic @ [lic1]), ms6)
           else do {
             (_, ms7) \<leftarrow> OnBagItemAddOrDelete env roleID ItemID ms6;
             Some ((cell', lic @ [lic1]), ms7)
           }
         }
       }
     }
   }"

definition bag_row_of :: "u32 \<Rightarrow> u16 \<Rightarrow> DBBagItem \<Rightarrow> bag_row" where
  "bag_row_of RoleID cell item = \<lparr>bg_RoleID = d32 RoleID, bg_CellType = d16 (bi_CellType item), bg_CellIndex = d16 cell,
     bg_ItemType = d16 (bi_ItemType item), bg_ItemID = d32 (bi_ItemID item), bg_EntityID = d32 (bi_EntityID item),
     bg_Num = d32 (bi_NUM item)\<rparr>"

definition GetToBag :: "main_env \<Rightarrow> u32 \<Rightarrow> u16 \<Rightarrow> DBBagItem \<Rightarrow> main_state \<Rightarrow> (u16 \<times> main_state) option" where
  "GetToBag env RoleID cell item ms =
     (let entity = (bi_EntityID item \<noteq> 0);
          (iRet1, d1, ms1) = (if entity then query (Entity_of (bi_EntityID item)) (dbo_new env) ms else (1, dbo_new env, ms));
          (durability, bindStatus) = (if iRet1 = 0 then (ucast (field 0 d1), ucast (field 1 d1)) else (0, 0));
          (iRet2, d2, ms2) = (if entity then query (CdTime_of (bi_ItemID item)) d1 ms1 else (1, d1, ms1));
          cdTime = (if iRet2 = 0 then ucast (field 0 d2) else 0);
          lic1 = \<lparr>cell_celIndex = cell, cell_ItemID = bi_ItemID item, cell_EntityID = bi_EntityID item, cell_cdTime = cdTime,
            cell_num = ucast (bi_NUM item), cell_durability = durability, cell_bindStatus = bindStatus\<rparr>;
          (iRet3, d3, ms3) = exec (add_bag (bag_row_of RoleID cell item)) d2 ms2
      in if iRet3 \<noteq> 0 then Some (0, ms3)
         else do {
           (_, ms4) \<leftarrow> OnBagItemAddOrDelete env RoleID (bi_ItemID item) ms3;
           Some (1, NotifyBag env RoleID [lic1] ms4)
         })"

definition GetItemFromEmail :: "main_env \<Rightarrow> u32 \<Rightarrow> ItemList \<Rightarrow> u32 \<Rightarrow> main_state \<Rightarrow> (i16 \<times> main_state) option" where
  "GetItemFromEmail env RoleID lis EntityID ms = do {
     (cell, ms1) \<leftarrow> IfhascellIndex env RoleID ms;
     if cell = 0 then Some (0, ms1)
     else do {
       let (iRet, d, ms2) = query (\<lambda>t. map (\<lambda>i. [db_int (it_ItemType i), db_int (it_CdTime i)])
             (filter (\<lambda>i. it_ItemID i = d32 (il_ItemID lis)) (tb_Item t))) (dbo_new env) ms1;
       let (ItemType, cdTime) = (if iRet = 0 then (field 0 d, ucast (field 1 d)) else (0, 0));
       let (iRet2, d2, ms3) = exec (add_bag \<lparr>bg_RoleID = d32 RoleID, bg_CellType = 1, bg_CellIndex = d16 cell, bg_ItemType = d32 ItemType,
             bg_ItemID = d32 (il_ItemID lis), bg_EntityID = d32 EntityID, bg_Num = d16 (il_num lis)\<rparr>) d ms2;
       if iRet2 \<noteq> 0 then Some (0, ms3)
       else do {
         let (iRet3, d3, ms4) = (if EntityID \<noteq> 0 then query (Entity_of EntityID) d2 ms3 else (1, d2, ms3));
         let (durability, bindStatus) = (if iRet3 = 0 then (ucast (field 0 d3), ucast (field 1 d3)) else (0, 0));
         (_, ms5) \<leftarrow> OnBagItemAddOrDelete env RoleID (il_ItemID lis) ms4;
         Some (1, NotifyBag env RoleID [\<lparr>cell_celIndex = cell, cell_ItemID = il_ItemID lis, cell_EntityID = EntityID,
           cell_cdTime = cdTime, cell_num = il_num lis, cell_durability = durability, cell_bindStatus = bindStatus\<rparr>] ms5)
       }
     }
   }"

fun get_items :: "main_env \<Rightarrow> u32 \<Rightarrow> ItemList list \<Rightarrow> ItemCell list \<Rightarrow> main_state \<Rightarrow> (ItemCell list \<times> main_state) option" where
  "get_items env roleID [] lic ms = Some (lic, ms)"
| "get_items env roleID (it # its) lic ms = do {
     ((f, lic'), ms1) \<leftarrow> GetItem env roleID (il_ItemID it) lic (il_num it) ms;
     get_items env roleID its lic' ms1
   }"

definition RoleGetItem :: "main_env \<Rightarrow> u32 \<Rightarrow> ItemList list \<Rightarrow> main_state \<Rightarrow> (int \<times> main_state) option" where
  "RoleGetItem env roleID items ms = do {
     (num, ms1) \<leftarrow> GetEmtycellNum env roleID ms;
     if num < of_nat (length items) then Some (- 1, ms1)
     else do {
       (lic, ms2) \<leftarrow> get_items env roleID items [] ms1;
       Some (0, NotifyBag env roleID lic ms2)
     }
   }"

fun get_each :: "main_env \<Rightarrow> u32 \<Rightarrow> u32 list \<Rightarrow> ItemCell list \<Rightarrow> main_state \<Rightarrow> ((bool \<times> ItemCell list) \<times> main_state) option" where
  "get_each env roleID [] lic ms = Some ((True, lic), ms)"
| "get_each env roleID (it # its) lic ms = do {
     ((f, lic'), ms1) \<leftarrow> GetItem env roleID it lic 1 ms;
     if f = 0 then Some ((False, lic'), ms1) else get_each env roleID its lic' ms1
   }"

definition RoleGetItem_ids :: "main_env \<Rightarrow> u32 \<Rightarrow> u32 list \<Rightarrow> main_state \<Rightarrow> (int \<times> main_state) option" where
  "RoleGetItem_ids env roleID items ms = do {
     (num, ms1) \<leftarrow> GetEmtycellNum env roleID ms;
     if num < of_nat (length items) then Some (- 1, ms1)
     else do {
       ((ok, lic), ms2) \<leftarrow> get_each env roleID items [] ms1;
       Some (if ok then (0, NotifyBag env roleID lic ms2) else (1, ms2))
     }
   }"

end
