(* ===== verification/Bag_Drop.thy ===== *)
theory Bag_Drop
  imports Bag_Items
begin

text \<open>
  Taking items from a bag in \<^verbatim>\<open>MainServer/Bag/BagSvc.cpp\<close>, and \<^verbatim>\<open>TradeItem\<close>,
  which takes cells from two bags and puts each in the other.

  Statements over several cells are written into local arrays with \<^verbatim>\<open>strcat\<close>;
  \<open>None\<close> is also a thread that writes past the end of one.
\<close>

section \<open>Finding items\<close>

definition item_cells :: "u32 \<Rightarrow> u32 \<Rightarrow> tables \<Rightarrow> db_row list" where
  "item_cells RoleID ItemID t = map (\<lambda>b. [db_int (bg_CellIndex b), db_int (bg_EntityID b), db_int (bg_Num b)])
     (filter (\<lambda>b. bg_RoleID b = d32 RoleID \<and> bg_ItemID b = d32 ItemID) (tb_Bag t))"

text \<open>The cells of an item with an entity: one item in each.\<close>

definition entity_cells :: "u32 \<Rightarrow> nat \<Rightarrow> db_row list \<Rightarrow> ItemCell \<Rightarrow> ItemCell list" where
  "entity_cells ItemID n rows lic1 = map (\<lambda>row. lic1\<lparr>cell_ItemID := ItemID, cell_EntityID := GetIntField row 1, cell_num := 1,
     cell_celIndex := ucast (GetIntField row 0)\<rparr>) (take n rows)"

text \<open>The cells of an item that is stacked, until there are enough.\<close>

fun stack_cells :: "u32 \<Rightarrow> u32 \<Rightarrow> db_row list \<Rightarrow> u32 \<Rightarrow> ItemCell \<Rightarrow> u32 \<times> ItemCell list" where
  "stack_cells ItemID want [] num lic1 = (num, [])"
| "stack_cells ItemID want (row # rows) num lic1 =
     (if num < want
      then let count = GetIntField row 2;
               num' = num + count;
               cell = lic1\<lparr>cell_ItemID := ItemID, cell_celIndex := ucast (GetIntField row 0),
                 cell_num := ucast (if want < num' then count - (num' - want) else count)\<rparr>;
               (n, cells) = stack_cells ItemID want rows num' cell
           in (n, cell # cells)
      else (num, []))"

fun find_items :: "u32 \<Rightarrow> ItemList list \<Rightarrow> int \<Rightarrow> ItemCell \<Rightarrow> ItemCell list \<Rightarrow> dbo \<Rightarrow> main_state \<Rightarrow> ((int \<times> ItemCell list) \<times> main_state) option" where
  "find_items RoleID [] i lic1 lic d ms = Some ((i, lic), ms)"
| "find_items RoleID (it # its) i lic1 lic d ms = do {
     let (iRet, d1, ms1) = query (item_cells RoleID (il_ItemID it)) d ms;
     if iRet = 1 then Some ((- 1, lic), ms1)
     else if iRet = 0 then do {
       rows \<leftarrow> each_row d1;
       if GetIntField (hd rows) 1 \<noteq> 0 then
         (if unat (il_num it) \<le> length rows
          then let cells = entity_cells (il_ItemID it) (unat (il_num it)) rows lic1
               in find_items RoleID its i (last (lic1 # cells)) (lic @ cells)
                    (d1\<lparr>do_rows := drop (unat (il_num it)) rows\<rparr>) ms1
          else Some ((- 1, lic), ms1))
       else
         (let (num, cells) = stack_cells (il_ItemID it) (ucast (il_num it)) rows 0 lic1
          in if num < ucast (il_num it) then Some ((- 1, lic @ cells), ms1)
             else find_items RoleID its (sint num) (last (lic1 # cells)) (lic @ cells)
                    (d1\<lparr>do_rows := drop (length cells) rows\<rparr>) ms1)
     }
     else find_items RoleID its i lic1 lic d1 ms1
   }"

definition SelectIfhasItems :: "main_env \<Rightarrow> u32 \<Rightarrow> ItemList list \<Rightarrow> main_state \<Rightarrow> ((int \<times> ItemCell list) \<times> main_state) option" where
  "SelectIfhasItems env RoleID items ms = find_items RoleID items 0 ItemCell_new [] (dbo_new env) ms"

section \<open>Dropping items\<close>

text \<open>Of each cell found the whole cell is deleted: the branch for a part of a stack compares an item with
  itself.  The list of entities is closed only if the last cell has one.\<close>

definition cells_text :: "u32 \<Rightarrow> ItemCell list \<Rightarrow> nat" where
  "cells_text RoleID licc = length ''delete from Bag where RoleID= and CellIndex in('' + dec_len (d32 RoleID) +
     sum_list (map (\<lambda>c. dec_len (d16 (cell_celIndex c)) + 1) licc)"

definition entities_text :: "ItemCell list \<Rightarrow> nat" where
  "entities_text ents = length ''delete from Entity where EntityID in( '' +
     sum_list (map (\<lambda>c. dec_len (d32 (cell_EntityID c)) + 1) ents)"

definition DropItems :: "main_env \<Rightarrow> u32 \<Rightarrow> ItemList list \<Rightarrow> ItemCell list \<Rightarrow> main_state \<Rightarrow> ((int \<times> ItemCell list) \<times> main_state) option" where
  "DropItems env RoleID items lic ms = do {
     ((i, licc), ms1) \<leftarrow> SelectIfhasItems env RoleID items ms;
     if i = - 1 then Some ((- 1, lic), ms1)
     else if licc = [] then Some ((0, lic), ms1)
     else do {
       let ents = filter (\<lambda>c. cell_EntityID c \<noteq> 0) licc;
       let lic' = lic @ map (\<lambda>c. ItemCell_new\<lparr>cell_bindStatus := cell_bindStatus c, cell_num := 0, cell_celIndex := cell_celIndex c,
             cell_EntityID := cell_EntityID c, cell_ItemID := cell_ItemID c, cell_durability := cell_durability c\<rparr>) licc;
       if 1024 \<le> cells_text RoleID licc \<or> 256 \<le> entities_text ents then None
       else do {
         let (iRet, d, ms2) = exec (drop_bag (in_cells RoleID (map cell_celIndex licc))) (dbo_new env) ms1;
         if iRet \<noteq> 0 then Some ((- 1, lic'), ms2)
         else do {
           let (iRet2, d2, ms3) =
             (if ents = [] then (0, d, ms2)
              else if cell_EntityID (last licc) \<noteq> 0 then exec (drop_entities ((\<lambda>c. d32 (cell_EntityID c)) ` set ents)) d ms2
              else syntax_error d ms2);
           Some ((0, lic'), ms3)
         }
       }
     }
   }"

fun items_changed :: "main_env \<Rightarrow> u32 \<Rightarrow> u32 list \<Rightarrow> main_state \<Rightarrow> (unit \<times> main_state) option" where
  "items_changed env roleID [] ms = Some ((), ms)"
| "items_changed env roleID (itemID # ids) ms = do {
     (_, ms1) \<leftarrow> OnBagItemAddOrDelete env roleID itemID ms;
     items_changed env roleID ids ms1
   }"

definition RoleDropItem :: "main_env \<Rightarrow> u32 \<Rightarrow> ItemList list \<Rightarrow> main_state \<Rightarrow> (int \<times> main_state) option" where
  "RoleDropItem env roleID items ms = do {
     ((f, lic), ms1) \<leftarrow> DropItems env roleID items [] ms;
     if f = - 1 then Some (1, ms1)
     else do {
       (_, ms2) \<leftarrow> items_changed env roleID (map il_ItemID items) ms1;
       Some (0, NotifyBag env roleID lic ms2)
     }
   }"

text \<open>One item.  A statement that fails is not 1 either, so that the item counts as dropped.\<close>

definition DropItem :: "main_env \<Rightarrow> u32 \<Rightarrow> u32 \<Rightarrow> ItemCell list \<Rightarrow> main_state \<Rightarrow> ((u16 \<times> ItemCell list) \<times> main_state) option" where
  "DropItem env RoleID ItemID lic ms = do {
     let (iRet, d, ms1) = query (\<lambda>t. map (\<lambda>b. [db_int (bg_CellIndex b), db_int (bg_EntityID b), db_int (bg_Num b)])
           (sort_key bg_CellIndex (filter (\<lambda>b. bg_RoleID b = d32 RoleID \<and> bg_ItemID b = d32 ItemID) (tb_Bag t)))) (dbo_new env) ms;
     if iRet = 1 then Some ((0, lic), ms1)
     else do {
       let (CellIndex, entityID, Num) =
         ((if iRet = 0 then (ucast (field 0 d), field 1 d, ucast (field 2 d)) else (0, 0, ucast (me_word env))) :: u16 \<times> u32 \<times> u16);
       let cell = ItemCell_new\<lparr>cell_EntityID := entityID, cell_celIndex := CellIndex, cell_num := 0, cell_ItemID := ItemID\<rparr>;
       ((found, cell'), ms2) \<leftarrow>
         (if entityID = 0 then
            let (iRet2, d2, ms2) =
              (if Num = 1 then exec (drop_bag (in_cell RoleID CellIndex)) d ms1
               else exec (\<lambda>t. t\<lparr>tb_Bag := map (\<lambda>b. if in_cell RoleID CellIndex b then b\<lparr>bg_Num := bg_Num b - 1\<rparr> else b) (tb_Bag t)\<rparr>) d ms1)
            in Some ((True, cell), ms2)
          else do {
            let (iRet2, d2, ms2) = query (Entity_of entityID) d ms1;
            if iRet2 = 1 then Some ((False, cell), ms2)
            else do {
              let cell' = (if RowNum d2 = 1 then cell\<lparr>cell_durability := ucast (field 0 d2), cell_bindStatus := ucast (field 1 d2)\<rparr> else cell);
              let (iRet3, d3, ms3) = exec (drop_entities {d32 entityID}) d2 ms2;
              let (iRet4, d4, ms4) = exec (drop_bag (in_cell RoleID CellIndex)) d3 ms3;
              Some ((True, cell'), ms4)
            }
          });
       if \<not> found then Some ((0, lic), ms2)
       else do {
         (_, ms3) \<leftarrow> OnBagItemAddOrDelete env RoleID ItemID ms2;
         Some ((1, lic @ [cell']), ms3)
       }
     }
   }"

section \<open>Cells\<close>

text \<open>The length of the list of cells: every number is followed by a comma and a blank, the last one by
  \<^verbatim>\<open>); \<close>.\<close>

definition cell_list_text :: "u16 list \<Rightarrow> nat" where
  "cell_list_text cell = length '' '' + sum_list (map (\<lambda>c. dec_len (d16 c) + 2) cell) + 1"

definition DeletefromBag :: "main_env \<Rightarrow> u32 \<Rightarrow> u16 list \<Rightarrow> DBBagItem list \<Rightarrow> main_state \<Rightarrow> ((u16 \<times> DBBagItem list) \<times> main_state) option" where
  "DeletefromBag env RoleID cell bagitem ms =
     (if 256 \<le> cell_list_text cell then None
      else do {
        let (iRet, d, ms1) = (if cell = [] then syntax_error (dbo_new env) ms
              else query (\<lambda>t. map bag_item_row (filter (in_cells RoleID cell) (tb_Bag t))) (dbo_new env) ms);
        if iRet \<noteq> 0 then Some ((0, bagitem), ms1)
        else do {
          let item = read_DBBagItem d;
          let lic1 = ItemCell_new\<lparr>cell_celIndex := bi_CellIndex item, cell_ItemID := bi_ItemID item, cell_num := 0\<rparr>;
          let (iRet2, d2, ms2) = exec (drop_bag (in_cells RoleID cell)) d ms1;
          if iRet2 \<noteq> 0 then Some ((0, bagitem @ [item]), ms2)
          else do {
            (_, ms3) \<leftarrow> OnBagItemAddOrDelete env RoleID (cell_ItemID lic1) ms2;
            Some ((1, bagitem @ [item]), NotifyBag env RoleID [lic1] ms3)
          }
        }
      })"

definition DeletefromBagitem :: "main_env \<Rightarrow> u32 \<Rightarrow> u16 \<Rightarrow> DBBagItem \<Rightarrow> main_state \<Rightarrow> ((u16 \<times> DBBagItem) \<times> main_state) option" where
  "DeletefromBagitem env RoleID cell item0 ms = do {
     let (iRet, d, ms1) = query (\<lambda>t. map bag_item_row (filter (in_cell RoleID cell) (tb_Bag t))) (dbo_new env) ms;
     if iRet \<noteq> 0 then Some ((0, item0), ms1)
     else do {
       let item = read_DBBagItem d;
       let (iRet2, d2, ms2) = exec (drop_bag (in_cell RoleID cell)) d ms1;
       if iRet2 \<noteq> 0 then Some ((0, item), ms2)
       else do {
         (_, ms3) \<leftarrow> OnBagItemAddOrDelete env RoleID (bi_ItemID item) ms2;
         Some ((1, item), NotifyBag env RoleID [ItemCell_new\<lparr>cell_celIndex := bi_CellIndex item, cell_ItemID := bi_ItemID item,
           cell_EntityID := bi_EntityID item, cell_num := 0\<rparr>] ms3)
       }
     }
   }"

definition DleteItemForEmail :: "main_env \<Rightarrow> u32 \<Rightarrow> u16 \<Rightarrow> ItemList \<Rightarrow> u32 \<Rightarrow> main_state \<Rightarrow> ((int \<times> ItemList \<times> u32) \<times> main_state) option" where
  "DleteItemForEmail env RoleID CellIndex lis EntityID ms = do {
     ((f, item), ms1) \<leftarrow> DeletefromBagitem env RoleID CellIndex DBBagItem_new ms;
     Some (if f \<noteq> 1 then (- 1, lis, EntityID)
           else (0, \<lparr>il_ItemID = bi_ItemID item, il_num = ucast (bi_NUM item)\<rparr>, bi_EntityID item), ms1)
   }"

text \<open>The left join gives a bag cell without its entity with two columns of \<^verbatim>\<open>NULL\<close>, which
  read as 0.\<close>

definition cell_rows :: "u32 \<Rightarrow> u16 \<Rightarrow> tables \<Rightarrow> db_row list" where
  "cell_rows roleID cellIndex t =
     concat (map (\<lambda>b. let head = [db_int (bg_CellIndex b), db_int (bg_ItemID b), db_int (bg_EntityID b), db_int (bg_Num b)];
            ents = filter (\<lambda>e. en_EntityID e = bg_EntityID b) (tb_Entity t)
        in if ents = [] then [head @ [db_int 0, db_int 0]]
           else map (\<lambda>e. head @ [db_int (en_Durability e), db_int (en_BindStatus e)]) ents)
       (filter (in_cell roleID cellIndex) (tb_Bag t)))"

definition read_cell :: "db_row \<Rightarrow> ItemCell \<Rightarrow> ItemCell" where
  "read_cell row lic = lic\<lparr>cell_celIndex := ucast (GetIntField row 0), cell_ItemID := GetIntField row 1, cell_EntityID := GetIntField row 2,
     cell_num := ucast (GetIntField row 3), cell_durability := ucast (GetIntField row 4), cell_bindStatus := ucast (GetIntField row 5)\<rparr>"

definition RoleSelectCell :: "main_env \<Rightarrow> u32 \<Rightarrow> u16 \<Rightarrow> ItemCell \<Rightarrow> main_state \<Rightarrow> ((int \<times> ItemCell) \<times> main_state) option" where
  "RoleSelectCell env roleID cellIndex lic ms = do {
     let (iRet, d, ms1) = query (cell_rows roleID cellIndex) (dbo_new env) ms;
     if iRet = 1 then Some ((- 1, lic), ms1)
     else if iRet < 0 then Some ((1, lic), ms1)
     else do {
       rows \<leftarrow> each_row d;
       let lic' = fold read_cell rows lic;
       if cell_EntityID lic' \<noteq> 0 then Some ((0, lic'\<lparr>cell_cdTime := 0\<rparr>), ms1)
       else do {
         let (iRet2, d2, ms2) = query (CdTime_of (cell_ItemID lic')) (all_read d) ms1;
         Some ((0, if iRet2 = 0 then lic'\<lparr>cell_cdTime := ucast (field 0 d2)\<rparr> else lic'), ms2)
       }
     }
   }"

section \<open>Exchange\<close>

fun put_in_bag :: "main_env \<Rightarrow> u32 \<Rightarrow> (u16 \<times> DBBagItem) list \<Rightarrow> main_state \<Rightarrow> (unit \<times> main_state) option" where
  "put_in_bag env RoleID [] ms = Some ((), ms)"
| "put_in_bag env RoleID ((cell, item) # items) ms = do {
     (_, ms1) \<leftarrow> GetToBag env RoleID cell item ms;
     put_in_bag env RoleID items ms1
   }"

text \<open>0 when a bag has no room, -1 when something failed on the way, 1 when both have what the other
  offered.\<close>

definition TradeItem :: "main_env \<Rightarrow> u32 \<Rightarrow> u16 list \<Rightarrow> u32 \<Rightarrow> u16 list \<Rightarrow> main_state \<Rightarrow> (int \<times> main_state) option" where
  "TradeItem env RoleID cell ToRoleID cell1 ms = do {
     let size1 = (of_nat (length cell) :: u16);
     let size2 = (of_nat (length cell1) :: u16);
     ((room, lic), ms1) \<leftarrow> Ifhassomany env RoleID [] size2 ms;
     if room = 0 then Some (0, ms1)
     else do {
       ((room2, lic2), ms2) \<leftarrow> Ifhassomany env ToRoleID [] size1 ms1;
       if room2 = 0 then Some (0, ms2)
       else do {
         ((ok1, bagitem), ms3) \<leftarrow> (if size1 \<noteq> 0 then DeletefromBag env RoleID cell [] ms2 else Some ((1, []), ms2));
         if ok1 = 0 then Some (- 1, ms3)
         else do {
           ((ok2, bagitem2), ms4) \<leftarrow> (if size2 \<noteq> 0 then DeletefromBag env ToRoleID cell1 [] ms3 else Some ((1, []), ms3));
           if ok2 = 0 then Some (- 1, ms4)
           else if size1 \<noteq> of_nat (length bagitem) \<or> size2 \<noteq> of_nat (length bagitem2) then Some (- 1, ms4)
           else do {
             (_, ms5) \<leftarrow> (if lic2 \<noteq> [] then put_in_bag env ToRoleID (zip lic2 bagitem) ms4 else Some ((), ms4));
             (_, ms6) \<leftarrow> (if lic \<noteq> [] then put_in_bag env RoleID (zip lic bagitem2) ms5 else Some ((), ms5));
             Some (1, ms6)
           }
         }
       }
     }
   }"

end
