(* ===== verification/Task_Frame.thy ===== *)
theory Task_Frame
  imports Task_Svc
begin

text \<open>
  What the task functions leave alone.  They always return when the core data is not locked, and change
  only tasks and details: details at will, the record of a task when it gets finished.  \<open>status_relation\<close> and
  \<open>task_relation\<close> are the interfaces for statements about what may become of the tables.
\<close>

section \<open>Runs\<close>

definition idle :: "main_state \<Rightarrow> bool" where
  "idle ms \<longleftrightarrow> cd_held (ms_core ms) = 0"

definition evolves :: "(tables \<Rightarrow> tables \<Rightarrow> bool) \<Rightarrow> main_state \<Rightarrow> main_state \<Rightarrow> bool" where
  "evolves R ms ms' \<longleftrightarrow> ms_core ms' = ms_core ms \<and> ms_luaTask ms' = ms_luaTask ms \<and>
     db_refuse (ms_db ms') = db_refuse (ms_db ms) \<and> R (db_of ms) (db_of ms')"

definition runs :: "(tables \<Rightarrow> tables \<Rightarrow> bool) \<Rightarrow> main_state \<Rightarrow> ('a \<times> main_state) option \<Rightarrow> bool" where
  "runs R ms x \<longleftrightarrow> (case x of None \<Rightarrow> False | Some (r, ms') \<Rightarrow> evolves R ms ms')"

lemma runs_Some [simp]: "runs R ms (Some (r, ms')) \<longleftrightarrow> evolves R ms ms'"
  by (simp add: runs_def)

lemma runsE:
  assumes "runs R ms x"
  obtains r ms' where "x = Some (r, ms')" "evolves R ms ms'"
  using assms by (auto simp: runs_def split: option.splits)

lemma evolves_idle: "evolves R ms ms' \<Longrightarrow> idle ms' = idle ms"
  by (simp add: evolves_def idle_def)

lemma evolves_reliable: "evolves R ms ms' \<Longrightarrow> reliable ms' = reliable ms"
  by (simp add: evolves_def reliable_def)

lemma query_cases:
  obtains (refused) "query q d ms = (- 1, FreeResult d, ticked ms)"
    | (none) "query q d ms = (1, got [], ticked ms)" "q (db_of ms) = []"
    | (rows) "query q d ms = (0, got (q (db_of ms)), ticked ms)" "q (db_of ms) \<noteq> []"
  by (cases "accepts ms"; cases "q (db_of ms) = []") (auto simp: query_answered query_refused)

lemma exec_cases:
  obtains (refused) "exec f d ms = (- 1, FreeResult d, ticked ms)" | (ran) "exec f d ms = (0, FreeResult d, changed f ms)"
  by (cases "accepts ms") (auto simp: exec_answered exec_refused)

lemma role_of_idle: "idle ms \<Longrightarrow> \<exists>r. role_of env roleID ms = Some (r, ms)"
  by (auto simp: idle_def role_of_def ProcessGetRolePtr_def FindRoleMapID_def guarded_def)

text \<open>A task with a record that is neither delivered nor unknown.\<close>

definition open_task :: "u32 \<Rightarrow> u32 \<Rightarrow> tables \<Rightarrow> bool" where
  "open_task roleID taskID t \<longleftrightarrow>
     (\<exists>r \<in> set (tb_RoleTask t). is_role_task roleID taskID r \<and> (word_of_int (rt_FinishStatus r) :: u32) \<in> {0, 1})"

lemma last_status:
  assumes "task_status env roleID ty mx lv rows st ms = Some ((i, st'), ms')" "st' = 2 \<or> st' = 3"
  shows "st = st' \<or> (\<exists>row \<in> set rows. GetIntField row 0 \<in> {0, 1})"
  using assms
proof (induction rows arbitrary: st ms)
  case (Cons row rows)
  show ?case
  proof (rule ccontr)
    assume c: "\<not> ?thesis"
    have IH: "s = st'" if "task_status env roleID ty mx lv rows s ms1 = Some ((i, st'), ms')" for s ms1
      using Cons.IH[OF that Cons.prems(2)] c by auto
    have no: "\<not> task_status env roleID ty mx lv rows 1 ms1 = Some ((i, st'), ms')" "\<not> task_status env roleID ty mx lv rows 4 ms1 = Some ((i, st'), ms')"
      for ms1 using IH[of 1 ms1] IH[of 4 ms1] Cons.prems(2) by auto
    show False
      using Cons.prems(1) c no IH[of st ms] by (auto simp: Let_def Option.bind_eq_Some_conv split: if_splits)
  qed
qed simp

lemma task_status_idle:
  "idle ms \<Longrightarrow> \<exists>i st'. task_status env roleID ty mx lv rows st ms = Some ((i, st'), ms)"
proof (induction env roleID ty mx lv rows st ms rule: task_status.induct)
  case (2 env roleID ty mx lv row rows st ms)
  obtain r where "role_of env roleID ms = Some (r, ms)" using role_of_idle[OF 2(6)] by blast
  then show ?case using 2 by (auto simp: Let_def)
qed simp

lemma GetRoleTaskStatus_idle:
  assumes "idle ms"
  obtains i st ms' where "GetRoleTaskStatus env roleID taskID ms = Some ((i, st), ms')" "ms' = ticked ms \<or> ms' = ticked (ticked ms)"
    "i = 0 \<Longrightarrow> st = 2 \<or> st = 3 \<Longrightarrow> open_task roleID taskID (db_of ms)"
proof -
  let ?q1 = "\<lambda>t. map (\<lambda>k. [db_int (tk_TaskType k), db_int (tk_MaxAcceptNum k), db_int (tk_MaxLevel k)]) (tasks_of taskID t)"
  let ?q2 = "\<lambda>t. map (\<lambda>r. [db_int (rt_FinishStatus r), db_int (rt_DeliverNum r)]) (filter (is_role_task roleID taskID) (tb_RoleTask t))"
  show thesis
  proof (cases rule: query_cases[of ?q1 "dbo_new env" ms])
    case refused
    show ?thesis by (rule that[of "- 1" 0 "ticked ms"]) (simp_all add: GetRoleTaskStatus_def refused)
  next
    case none
    show ?thesis by (rule that[of "- 1" 0 "ticked ms"]) (simp_all add: GetRoleTaskStatus_def none)
  next
    case rows
    show ?thesis
    proof (cases rule: query_cases[of ?q2 "all_read (got (?q1 (db_of ms)))" "ticked ms"])
      case refused
      show ?thesis by (rule that[of "- 1" 0 "ticked (ticked ms)"]) (simp_all add: GetRoleTaskStatus_def rows refused Let_def)
    next
      case none
      show ?thesis by (rule that[of 0 1 "ticked (ticked ms)"]) (simp_all add: GetRoleTaskStatus_def rows none Let_def)
    next
      case r2: rows
      let ?task = "last ([] # ?q1 (db_of ms))"
      have "idle (ticked (ticked ms))" using assms by (simp add: idle_def)
      then obtain i st where run: "task_status env roleID (ucast (GetIntField ?task 0)) (GetIntField ?task 1) (GetIntField ?task 2)
          (?q2 (db_of ms)) 0 (ticked (ticked ms)) = Some ((i, st), ticked (ticked ms))"
        using task_status_idle by blast
      have eq: "GetRoleTaskStatus env roleID taskID ms = Some ((i, st), ticked (ticked ms))"
        using run by (simp add: GetRoleTaskStatus_def rows r2 Let_def)
      show ?thesis
      proof (rule that[OF eq])
        assume "i = 0" "st = 2 \<or> st = 3"
        with last_status[OF run] have "\<exists>row \<in> set (?q2 (db_of ms)). GetIntField row 0 \<in> {0, 1}" by auto
        then show "open_task roleID taskID (db_of ms)"
          by (auto simp: open_task_def db_int_def GetIntField_cons)
      qed simp
    qed
  qed
qed

section \<open>The interface\<close>

lemma evolves_core [simp]:
  "evolves R ms (ticked ms1) = evolves R ms ms1" "evolves R ms (emit out ms1) = evolves R ms ms1"
  "evolves R ms (tell r p ms1) = evolves R ms ms1"
  "evolves R (ticked ms) ms1 = evolves R ms ms1" "evolves R (emit out ms) ms1 = evolves R ms ms1"
  "evolves R (tell r p ms) ms1 = evolves R ms ms1"
  by (simp_all add: evolves_def) (simp_all add: ticked_def emit_def tell_def)

lemma idle_core [simp]: "idle (ticked ms) = idle ms" "idle (emit out ms) = idle ms" "idle (tell r p ms) = idle ms" "idle (changed f ms) = idle ms"
  by (simp_all add: idle_def)

lemma GetRoleTaskDetail_idle: "\<exists>i l. GetRoleTaskDetail env roleID taskID ltd ms = Some ((i, l), ticked ms)"
  by (cases rule: query_cases[of "\<lambda>t. map detail_row (filter (is_detail roleID taskID) (tb_RoleTaskDetail t))" "dbo_new env" ms])
    (auto simp: GetRoleTaskDetail_def)

locale status_relation =
  fixes R :: "tables \<Rightarrow> tables \<Rightarrow> bool"
  assumes refl: "R t t"
    and trans: "R t t' \<Longrightarrow> R t' t'' \<Longrightarrow> R t t''"
    and finish: "open_task roleID taskID t \<Longrightarrow> R t (finish_task roleID taskID npc t)"
begin

lemma evolves_refl: "evolves R ms ms"
  by (simp add: evolves_def refl)

lemma evolves_trans: "evolves R ms ms1 \<Longrightarrow> evolves R ms1 ms2 \<Longrightarrow> evolves R ms ms2"
  by (auto simp: evolves_def intro: trans)

lemma evolves_changed: "R (db_of ms) (f (db_of ms)) \<Longrightarrow> evolves R ms (changed f ms)"
  by (simp add: evolves_def) (simp add: changed_def)

lemma runs_after: "evolves R ms ms1 \<Longrightarrow> runs R ms1 x \<Longrightarrow> runs R ms x"
  by (auto simp: runs_def intro: evolves_trans split: option.splits)

lemma runs_bind:
  assumes "runs R ms x" "\<And>r ms1. evolves R ms ms1 \<Longrightarrow> idle ms1 = idle ms \<Longrightarrow> runs R ms1 (f (r, ms1))"
  shows "runs R ms (Option.bind x f)"
proof -
  obtain r ms1 where x: "x = Some (r, ms1)" "evolves R ms ms1" using assms(1) by (rule runsE)
  then show ?thesis using runs_after[OF x(2) assms(2)[OF x(2) evolves_idle[OF x(2)]]] by simp
qed

lemma runs_NotifyTaskStatus:
  assumes "idle ms"
  shows "runs R ms (NotifyTaskStatus env roleID taskID ms)"
proof -
  obtain i st ms1 where s: "GetRoleTaskStatus env roleID taskID ms = Some ((i, st), ms1)" "ms1 = ticked ms \<or> ms1 = ticked (ticked ms)"
    by (rule GetRoleTaskStatus_idle[OF assms])
  obtain j l where "GetRoleTaskDetail env roleID taskID [] ms1 = Some ((j, l), ticked ms1)" using GetRoleTaskDetail_idle by blast
  then show ?thesis using s by (auto simp: NotifyTaskStatus_def evolves_refl)
qed

lemma runs_if: "(b \<Longrightarrow> runs R ms x) \<Longrightarrow> (\<not> b \<Longrightarrow> runs R ms y) \<Longrightarrow> runs R ms (if b then x else y)"
  by simp

lemma runs_split: "(\<And>a b. p = (a, b) \<Longrightarrow> runs R ms (f a b)) \<Longrightarrow> runs R ms (case p of (a, b) \<Rightarrow> f a b)"
  by (cases p) simp

lemma runs_query:
  assumes "\<And>a b. a < 0 \<or> (\<exists>rows. b = got rows) \<Longrightarrow> runs R (ticked ms) (F a b (ticked ms))"
  shows "runs R ms (case query q d ms of (a, b, c) \<Rightarrow> F a b c)"
  by (cases rule: query_cases[of q d ms]) (use runs_after[OF _ assms] evolves_refl in auto)

lemma runs_exec:
  assumes "R (db_of ms) (f (db_of ms))" "\<And>d'. runs R (ticked ms) (F (- 1) d' (ticked ms))" "\<And>d'. runs R (changed f ms) (F 0 d' (changed f ms))"
  shows "runs R ms (case exec f d ms of (a, b, c) \<Rightarrow> F a b c)"
  by (cases rule: exec_cases[of f d ms]) (use runs_after[OF _ assms(2)] runs_after[OF evolves_changed assms(3)] evolves_refl assms(1) in auto)

lemma runs_bind2:
  assumes "runs R ms x" "\<And>a b ms1. evolves R ms ms1 \<Longrightarrow> idle ms1 = idle ms \<Longrightarrow> runs R ms1 (f ((a, b), ms1))"
  shows "runs R ms (Option.bind x f)"
  using assms by (intro runs_bind) auto

lemmas runs_steps = conjI impI runs_if runs_query runs_exec

lemma runs_UpdateTaskStatus:
  assumes "idle ms"
  shows "runs R ms (UpdateTaskStatus env roleID taskID ms)"
proof -
  obtain i st ms1 where s: "GetRoleTaskStatus env roleID taskID ms = Some ((i, st), ms1)" "ms1 = ticked ms \<or> ms1 = ticked (ticked ms)"
    "i = 0 \<Longrightarrow> st = 2 \<or> st = 3 \<Longrightarrow> open_task roleID taskID (db_of ms)"
    using GetRoleTaskStatus_idle[OF assms, of env roleID taskID] by blast
  have st: "st = 2 \<or> st = 3" if "\<not> st \<le> 1" "\<not> 4 \<le> st"
  proof -
    have "unat st = 2 \<or> unat st = 3" using that by (auto simp: word_le_nat_alt)
    then show ?thesis by (auto simp: word_unat_eq_iff)
  qed
  have db: "db_of ms1 = db_of ms" "evolves R ms ms1" using s(2) by (auto simp: evolves_refl)
  have fin: "R (db_of ms) (finish_task roleID taskID npc (db_of ms))" if "i = 0" "\<not> st \<le> 1" "\<not> 4 \<le> st" for npc
    using finish[OF s(3)[OF that(1) st[OF that(2,3)]]] .
  show ?thesis
    unfolding UpdateTaskStatus_def s(1) Let_def
    apply (simp only: Option.bind.simps prod.case)
    apply (rule runs_after[OF db(2)])
    apply (intro runs_if runs_query)
    apply (simp_all only: runs_Some)
    apply (simp_all add: evolves_refl db)
    apply (intro conjI impI runs_bind2)
       apply (intro runs_steps; simp add: db fin evolves_refl)
      apply (simp, intro runs_steps; simp add: evolves_refl)
     apply (intro runs_steps; simp add: db fin evolves_refl)
    apply (simp, intro runs_steps; simp add: evolves_refl)
    done
qed

lemma runs_notify_all: "idle ms \<Longrightarrow> runs R ms (notify_all env roleID ids ms)"
  by (induction ids arbitrary: ms) (auto intro!: runs_bind runs_NotifyTaskStatus simp: evolves_refl)

end

locale task_relation = status_relation +
  assumes detail: "R t (on_Detail P (\<lambda>r. r\<lparr>td_IsFinish := a, td_FinishNum := b\<rparr>) t)"
    and counted: "R t (on_Detail P (\<lambda>r. r\<lparr>td_FinishNum := b\<rparr>) t)"
begin

lemma runs_deal_out: "idle ms \<Longrightarrow> runs R ms (deal_out env roleID its n d ms)"
proof (induction its arbitrary: n d ms)
  case (Cons it its)
  then show ?case
    unfolding deal_out.simps Let_def
    by (intro runs_if runs_exec; (simp add: evolves_refl detail)?; intro runs_bind runs_UpdateTaskStatus; simp)
qed (simp add: evolves_refl)

lemma runs_HoldItem:
  assumes "idle ms"
  shows "runs R ms (UpdateTaskDetailStatusByHoldItem env roleID itemID ms)"
  unfolding UpdateTaskDetailStatusByHoldItem_def Let_def
  apply (intro runs_if runs_query; (simp add: evolves_refl)?)
  apply (clarsimp; intro runs_if runs_exec; (simp add: evolves_refl detail)?)
  apply (intro runs_if runs_query; (simp add: evolves_refl)?)
  apply (clarsimp; intro runs_bind runs_deal_out; clarsimp simp: assms)
  by (auto simp: evolves_refl intro: runs_notify_all)

lemma runs_count_up: "idle ms \<Longrightarrow> runs R ms (count_up env roleID inputNum rows sub ms)"
proof (induction rows arbitrary: sub ms)
  case (Cons row rows)
  then show ?case
    unfolding count_up.simps Let_def
    by (intro runs_if runs_exec; (simp add: evolves_refl detail counted)?; intro runs_bind runs_UpdateTaskStatus; simp)
qed (simp add: evolves_refl)

lemma runs_ByNum:
  assumes "idle ms"
  shows "runs R ms (UpdateTaskDetailStatusByNum env roleID goalType goalID inputNum ms)"
  unfolding UpdateTaskDetailStatusByNum_def Let_def
  apply (intro runs_if runs_query; (simp add: evolves_refl)?)
  apply (auto simp: evolves_refl assms intro!: runs_if runs_bind runs_count_up runs_notify_all)
  done

lemma runs_hold_items: "idle ms \<Longrightarrow> runs R ms (hold_items env roleID ids ms)"
  by (induction ids arbitrary: ms) (auto intro!: runs_bind runs_HoldItem simp: evolves_refl)

lemma runs_CheckAll:
  assumes "idle ms"
  shows "runs R ms (CheckAllItemTypeTaskStatus env roleID ms)"
  unfolding CheckAllItemTypeTaskStatus_def Let_def
  apply (intro runs_if runs_query; (simp add: evolves_refl)?)
  apply (auto simp: evolves_refl assms intro!: runs_hold_items)
  done

lemma runs_OnBagItem: "idle ms \<Longrightarrow> runs R ms (OnBagItemAddOrDelete env roleID itemID ms)"
  by (simp add: OnBagItemAddOrDelete_def runs_HoldItem)

end

section \<open>The other tables\<close>

text \<open>Everything but tasks and details stays as it is.\<close>

definition but_tasks :: "tables \<Rightarrow> tables" where
  "but_tasks t = t\<lparr>tb_RoleTask := [], tb_RoleTaskDetail := []\<rparr>"

interpretation other: task_relation "\<lambda>t t'. but_tasks t' = but_tasks t"
  by unfold_locales (simp_all add: but_tasks_def on_Detail_def finish_task_def on_RoleTask_def)

section \<open>Records of tasks\<close>

text \<open>A task without an open record keeps the records it has; a finished record is never reopened.\<close>

definition spares_closed :: "tables \<Rightarrow> tables \<Rightarrow> bool" where
  "spares_closed t t' \<longleftrightarrow> (\<forall>roleID taskID. open_task roleID taskID t \<or>
     filter (is_role_task roleID taskID) (tb_RoleTask t') = filter (is_role_task roleID taskID) (tb_RoleTask t))"

definition finished :: "u32 \<Rightarrow> u32 \<Rightarrow> tables \<Rightarrow> bool" where
  "finished roleID taskID t \<longleftrightarrow> (\<forall>r \<in> set (tb_RoleTask t). is_role_task roleID taskID r \<longrightarrow> rt_FinishStatus r \<in> {1, 2})"

lemma same_role_task: "is_role_task R T r \<Longrightarrow> is_role_task R' T' r \<Longrightarrow> R = R' \<and> T = T'"
  by (auto simp: is_role_task_def d32_def intro: signed_word_eqI)

lemma open_same:
  assumes "filter (is_role_task R T) (tb_RoleTask t') = filter (is_role_task R T) (tb_RoleTask t)"
  shows "open_task R T t' = open_task R T t"
proof -
  have "open_task R T t \<longleftrightarrow> (\<exists>r \<in> set (filter (is_role_task R T) (tb_RoleTask t)). (word_of_int (rt_FinishStatus r) :: u32) \<in> {0, 1})" for t
    by (auto simp: open_task_def)
  then show ?thesis using assms by (simp only:)
qed

lemma finish_other:
  assumes "open_task R T t" "\<not> open_task R' T' t"
  shows "filter (is_role_task R' T') (tb_RoleTask (finish_task R T npc t)) = filter (is_role_task R' T') (tb_RoleTask t)"
proof -
  have "\<not> (R = R' \<and> T = T')" using assms by auto
  then have "\<not> is_role_task R T r" if "is_role_task R' T' r" for r using same_role_task that by blast
  moreover have "is_role_task R' T' (r\<lparr>rt_FinishStatus := x, rt_DeliverNum := y\<rparr>) = is_role_task R' T' r"
    "is_role_task R' T' (r\<lparr>rt_FinishStatus := x\<rparr>) = is_role_task R' T' r" for r x y
    by (simp_all add: is_role_task_def)
  ultimately have "filter (is_role_task R' T') (map (\<lambda>r. if is_role_task R T r then if npc = 0 then
        r\<lparr>rt_FinishStatus := 2, rt_DeliverNum := rt_DeliverNum r + 1\<rparr> else r\<lparr>rt_FinishStatus := 1\<rparr> else r) rows) =
      filter (is_role_task R' T') rows" for rows
    by (induction rows) auto
  then show ?thesis by (simp add: finish_task_def on_RoleTask_def)
qed

interpretation spare: task_relation spares_closed
proof
  fix t t' t'' assume a: "spares_closed t t'" "spares_closed t' t''"
  show "spares_closed t t''" using a open_same unfolding spares_closed_def by metis
next
  fix R T t npc assume "open_task R T t"
  then show "spares_closed t (finish_task R T npc t)" using finish_other unfolding spares_closed_def by blast
qed (simp_all add: spares_closed_def on_Detail_def)

interpretation firm: task_relation "\<lambda>t t'. \<forall>R T. finished R T t \<longrightarrow> finished R T t'"
proof (unfold_locales, blast, blast)
  fix R T t npc
  show "\<forall>R' T'. finished R' T' t \<longrightarrow> finished R' T' (finish_task R T npc t)"
    by (auto simp: finished_def finish_task_def on_RoleTask_def is_role_task_def)
qed (auto simp: finished_def on_Detail_def)

text \<open>Making a task finished leaves details and bags alone.\<close>

interpretation rows: status_relation "\<lambda>t t'. t'\<lparr>tb_RoleTask := []\<rparr> = t\<lparr>tb_RoleTask := []\<rparr>"
  by unfold_locales (simp_all add: finish_task_def on_RoleTask_def)

text \<open>A detail keeps its number, role, task and goal.\<close>

definition detail_key :: "task_detail_row \<Rightarrow> task_detail_row" where
  "detail_key d = d\<lparr>td_IsFinish := 0, td_FinishNum := 0\<rparr>"

interpretation keys: task_relation "\<lambda>t t'. map detail_key (tb_RoleTaskDetail t') = map detail_key (tb_RoleTaskDetail t)"
  by unfold_locales (simp_all add: finish_task_def on_RoleTask_def on_Detail_def detail_key_def)

end
