(* ===== verification/Bag_Rules.thy ===== *)
theory Bag_Rules
  imports Bag_Drop Task_Frame
begin

text \<open>
  What the operations on bags and money do when the database answers: the exchange of two bags, dropping
  items, paying.  \<open>became\<close> says that a run changed the tables by a function, tasks and details aside, and
  nothing else.
\<close>

section \<open>Roles\<close>

definition ptr_at :: "u32 \<Rightarrow> core_data \<Rightarrow> role_ptr" where
  "ptr_at roleID cd =
     (let mapID = (case smap_find roleID (cd_mapRoleMapID cd) of Some m \<Rightarrow> m | None \<Rightarrow> 0)
      in if mapID = 0 \<or> CheckMapID mapID cd \<noteq> 0 then None else Map_GetRolePtr (unat mapID - 1) roleID cd)"

definition role_at :: "u32 \<Rightarrow> core_data \<Rightarrow> role" where
  "role_at roleID cd = deref (ptr_at roleID cd) cd"

lemma ms_core_same [simp]: "ms\<lparr>ms_core := ms_core ms\<rparr> = ms"
  by simp

lemma GetRolePtr_at: "cd_held cd = 0 \<Longrightarrow> ProcessGetRolePtr relock roleID cd = Some (ptr_at roleID cd, cd)"
  by (auto simp: ProcessGetRolePtr_def FindRoleMapID_def guarded_def ptr_at_def CheckMapID_def Let_def Map_GetRolePtr_def split: option.splits)

lemma role_of_at: "idle ms \<Longrightarrow> role_of env roleID ms = Some (role_at roleID (ms_core ms), ms)"
  by (simp add: role_of_def GetRolePtr_at idle_def role_at_def)

definition cell_cap :: "u32 \<Rightarrow> core_data \<Rightarrow> u32" where
  "cell_cap roleID cd = (if TopCellNum (role_at roleID cd) = 0 then 25 else TopCellNum (role_at roleID cd))"

lemma GetRoleCellNum_at: "idle ms \<Longrightarrow> GetRoleCellNum env roleID ms = Some (cell_cap roleID (ms_core ms), ms)"
  by (simp add: GetRoleCellNum_def role_of_at cell_cap_def)

section \<open>Changes\<close>

definition became :: "(tables \<Rightarrow> tables) \<Rightarrow> main_state \<Rightarrow> main_state \<Rightarrow> bool" where
  "became f ms ms' \<longleftrightarrow> ms_core ms' = ms_core ms \<and> ms_luaTask ms' = ms_luaTask ms \<and>
     db_refuse (ms_db ms') = db_refuse (ms_db ms) \<and> but_tasks (db_of ms') = but_tasks (f (db_of ms))"

definition local_change :: "(tables \<Rightarrow> tables) \<Rightarrow> bool" where
  "local_change f \<longleftrightarrow> (\<forall>t t'. but_tasks t = but_tasks t' \<longrightarrow> but_tasks (f t) = but_tasks (f t'))"

lemma became_idle: "became f ms ms' \<Longrightarrow> idle ms' = idle ms"
  by (simp add: became_def idle_def)

lemma became_reliable: "became f ms ms' \<Longrightarrow> reliable ms' = reliable ms"
  by (simp add: became_def reliable_def)

lemma became_core: "became f ms ms' \<Longrightarrow> ms_core ms' = ms_core ms"
  by (simp add: became_def)

lemma became_refl [simp]: "became (\<lambda>t. t) ms ms"
  by (simp add: became_def)

lemma became_ends [simp]:
  "became f ms (ticked ms') = became f ms ms'" "became f ms (tell r p ms') = became f ms ms'" "became f ms (emit out ms') = became f ms ms'"
  "became f (ticked ms) ms' = became f ms ms'" "became f (tell r p ms) ms' = became f ms ms'" "became f (emit out ms) ms' = became f ms ms'"
  by (simp_all add: became_def) (simp_all add: ticked_def tell_def emit_def)

lemma became_changed [simp]: "became f ms (changed f ms)"
  by (simp add: became_def) (simp add: changed_def)

lemma became_then: "became f ms ms1 \<Longrightarrow> became g ms1 ms2 \<Longrightarrow> local_change g \<Longrightarrow> became (\<lambda>t. g (f t)) ms ms2"
  unfolding became_def local_change_def by metis

lemma became_evolves: "evolves (\<lambda>t t'. but_tasks t' = but_tasks t) ms ms' \<longleftrightarrow> became (\<lambda>t. t) ms ms'"
  by (simp add: became_def evolves_def)

lemma but_tasks_sel:
  assumes "but_tasks t = but_tasks t'"
  shows "tb_Bag t = tb_Bag t'" "tb_RoleMoney t = tb_RoleMoney t'" "tb_Entity t = tb_Entity t'" "tb_Item t = tb_Item t'" "tb_Task t = tb_Task t'"
  using arg_cong[OF assms, of tb_Bag] arg_cong[OF assms, of tb_RoleMoney] arg_cong[OF assms, of tb_Entity] arg_cong[OF assms, of tb_Item]
    arg_cong[OF assms, of tb_Task] by (simp_all add: but_tasks_def)

lemma but_tasks_upd:
  "but_tasks (t\<lparr>tb_Bag := x\<rparr>) = (but_tasks t)\<lparr>tb_Bag := x\<rparr>" "but_tasks (t\<lparr>tb_RoleMoney := y\<rparr>) = (but_tasks t)\<lparr>tb_RoleMoney := y\<rparr>"
  "but_tasks (t\<lparr>tb_Entity := z\<rparr>) = (but_tasks t)\<lparr>tb_Entity := z\<rparr>"
  by (simp_all add: but_tasks_def)

lemma local_changes [simp]:
  "local_change (drop_bag P)" "local_change (add_bag b)" "local_change (on_Money r h)" "local_change (drop_entities ids)" "local_change (\<lambda>t. t)"
  by (auto simp: local_change_def drop_bag_def add_bag_def on_Money_def drop_entities_def but_tasks_upd dest: but_tasks_sel)

lemma became_tables:
  assumes "became f ms ms'"
  shows "tb_Bag (db_of ms') = tb_Bag (f (db_of ms))" "tb_RoleMoney (db_of ms') = tb_RoleMoney (f (db_of ms))"
    "tb_Entity (db_of ms') = tb_Entity (f (db_of ms))"
  using assms but_tasks_sel[of "db_of ms'" "f (db_of ms)"] by (auto simp: became_def)

lemma OnBagItem_became:
  assumes "idle ms"
  obtains ms' where "OnBagItemAddOrDelete env roleID itemID ms = Some ((), ms')" "became (\<lambda>t. t) ms ms'"
  using other.runs_OnBagItem[OF assms, of env roleID itemID] unfolding became_evolves[symmetric] by (auto elim: runsE)

section \<open>Exchange\<close>

definition item_of :: "bag_row \<Rightarrow> DBBagItem" where
  "item_of b = read_DBBagItem (got [bag_item_row b])"

lemma read_first: "read_DBBagItem (got (bag_item_row b # rows)) = item_of b"
  by (simp add: item_of_def read_DBBagItem_def)

lemma DeletefromBag_first:
  assumes "idle ms" "reliable ms" "cell \<noteq> []" "cell_list_text cell < 256" "filter (in_cells RoleID cell) (tb_Bag (db_of ms)) = b # bs"
  shows "\<exists>ms'. DeletefromBag env RoleID cell acc ms = Some ((1, acc @ [item_of b]), ms') \<and>
    became (drop_bag (in_cells RoleID cell)) ms ms'"
proof -
  let ?ms2 = "changed (drop_bag (in_cells RoleID cell)) (ticked ms)"
  have "idle ?ms2" using assms(1) by simp
  then obtain ms3 where m: "OnBagItemAddOrDelete env RoleID (bi_ItemID (item_of b)) ?ms2 = Some ((), ms3)" "became (\<lambda>t. t) ?ms2 ms3"
    by (rule OnBagItem_became)
  have "became (drop_bag (in_cells RoleID cell)) (ticked ms) ms3" using became_then[OF became_changed m(2)] by simp
  then show ?thesis
    using assms m(1) by (simp add: DeletefromBag_def sql read_first ItemCell_new_def NotifyBag_def)
qed

lemma GetToBag_puts:
  assumes "idle ms" "reliable ms"
  shows "\<exists>ms'. GetToBag env RoleID cell item ms = Some (1, ms') \<and> became (add_bag (bag_row_of RoleID cell item)) ms ms'"
proof -
  let ?f = "add_bag (bag_row_of RoleID cell item)"
  define ms2 where "ms2 = (if bi_EntityID item \<noteq> 0 then ticked (ticked ms) else ms)"
  have idl: "idle ms2" "reliable ms2" using assms by (simp_all add: ms2_def)
  obtain ms3 where m: "OnBagItemAddOrDelete env RoleID (bi_ItemID item) (changed ?f ms2) = Some ((), ms3)" "became (\<lambda>t. t) (changed ?f ms2) ms3"
    using OnBagItem_became[of "changed ?f ms2" env RoleID "bi_ItemID item"] idl by auto
  have b: "became ?f ms ms3" using became_then[OF became_changed m(2)] by (simp add: ms2_def split: if_splits)
  show ?thesis
    using assms m(1) b by (cases "bi_EntityID item = 0") (simp_all add: GetToBag_def sql NotifyBag_def ms2_def)
qed

definition add_bags :: "bag_row list \<Rightarrow> tables \<Rightarrow> tables" where
  "add_bags bs t = t\<lparr>tb_Bag := tb_Bag t @ bs\<rparr>"

lemma local_add_bags [simp]: "local_change (add_bags bs)"
  by (auto simp: local_change_def add_bags_def but_tasks_upd dest: but_tasks_sel)

lemma put_in_bag_puts:
  assumes "idle ms" "reliable ms"
  shows "\<exists>ms'. put_in_bag env RoleID items ms = Some ((), ms') \<and> became (add_bags (map (\<lambda>(c, i). bag_row_of RoleID c i) items)) ms ms'"
  using assms
proof (induction items arbitrary: ms)
  case Nil
  then show ?case by (simp add: add_bags_def)
next
  case (Cons ci items)
  obtain c i where ci: "ci = (c, i)" by fastforce
  obtain ms1 where m: "GetToBag env RoleID c i ms = Some (1, ms1)" "became (add_bag (bag_row_of RoleID c i)) ms ms1"
    using GetToBag_puts[OF Cons.prems] by blast
  obtain ms2 where m2: "put_in_bag env RoleID items ms1 = Some ((), ms2)"
      "became (add_bags (map (\<lambda>(c, i). bag_row_of RoleID c i) items)) ms1 ms2"
    using Cons.IH[of ms1] Cons.prems became_idle[OF m(2)] became_reliable[OF m(2)] by auto
  have "became (\<lambda>t. add_bags (map (\<lambda>(c, i). bag_row_of RoleID c i) items) (add_bag (bag_row_of RoleID c i) t)) ms ms2"
    using became_then[OF m(2) m2(2)] by simp
  then show ?case using m(1) m2(1) by (simp add: ci add_bags_def add_bag_def)
qed

lemma free_below: "length (free_cells S cap) \<le> cap"
  unfolding free_cells_def by (rule order_trans[OF length_filter_le]) simp

lemma room_for:
  assumes "idle ms" "reliable ms" "unat (cell_cap R (ms_core ms)) < 65536" "bag_ok R (unat (cell_cap R (ms_core ms))) (db_of ms)"
    and "n \<le> length (free_cells (taken R (db_of ms)) (unat (cell_cap R (ms_core ms))))"
  shows "\<exists>ms'. Ifhassomany env R [] (of_nat n) ms =
      Some ((1, map of_nat (take n (free_cells (taken R (db_of ms)) (unat (cell_cap R (ms_core ms)))))), ms') \<and> became (\<lambda>t. t) ms ms'"
proof -
  have n: "unat (of_nat n :: u16) = n" using assms(3,5) free_below[of "taken R (db_of ms)" "unat (cell_cap R (ms_core ms))"]
    by (simp add: unsigned_of_nat take_bit_nat_eq_self)
  show ?thesis
  proof (cases "n = 0")
    case True
    then show ?thesis using assms(1) by (simp add: Ifhassomany_def GetRoleCellNum_at)
  next
    case False
    then have "(of_nat n :: u16) \<noteq> 0" using n by (metis unsigned_0)
    then show ?thesis
      using Ifhassomany_free[OF GetRoleCellNum_at[OF assms(1)] assms(3) reliable_accepts[OF assms(2)] assms(4), of "of_nat n"] n assms(5)
      by (simp add: Let_def)
  qed
qed

lemma filter_after_drop:
  "filter (in_cells B ys) (tb_Bag (drop_bag (in_cells A xs) t)) = filter (in_cells B ys) (tb_Bag t)" if "A \<noteq> B"
proof -
  have "d32 A \<noteq> d32 B" using that by (auto simp: d32_def intro: signed_word_eqI)
  then have "in_cells B ys b \<Longrightarrow> \<not> in_cells A xs b" for b by (auto simp: in_cells_def)
  then show ?thesis by (simp add: drop_bag_def) (metis (mono_tags, lifting))
qed

text \<open>The first half of an exchange: what is offered on both sides is taken, and of each side the first cell
  is remembered.\<close>

definition offer_taken :: "main_env \<Rightarrow> u32 \<Rightarrow> u16 list \<Rightarrow> bag_row list \<Rightarrow> main_state \<Rightarrow> bool" where
  "offer_taken env R xs bs ms \<longleftrightarrow> filter (in_cells R xs) (tb_Bag (db_of ms)) = bs \<and> (xs = [] \<longleftrightarrow> bs = []) \<and> cell_list_text xs < 256 \<and>
     length xs < 65536"

lemma offer_removed:
  assumes "idle ms" "reliable ms" "offer_taken env R xs bs ms"
  shows "\<exists>ms'. (if (of_nat (length xs) :: u16) \<noteq> 0 then DeletefromBag env R xs [] ms else Some ((1, []), ms)) =
      Some ((1, map item_of (take 1 bs)), ms') \<and> became (drop_bag (in_cells R xs)) ms ms'"
proof (cases xs)
  case Nil
  then have "drop_bag (in_cells R xs) = (\<lambda>t. t)" by (auto simp: drop_bag_def in_cells_def)
  then show ?thesis using Nil assms(3) by (simp add: offer_taken_def)
next
  case (Cons x xs')
  then obtain b bs' where bs: "bs = b # bs'" using assms(3) by (cases bs) (auto simp: offer_taken_def)
  have "(of_nat (length xs) :: u16) \<noteq> 0"
    using assms(3) Cons by (simp add: offer_taken_def unat_eq_zero[symmetric] unsigned_of_nat take_bit_nat_eq_self del: of_nat_Suc)
  moreover obtain ms' where "DeletefromBag env R xs [] ms = Some ((1, [] @ [item_of b]), ms')" "became (drop_bag (in_cells R xs)) ms ms'"
    using DeletefromBag_first[OF assms(1,2), of xs R b bs' env "[]"] assms(3) Cons by (auto simp: offer_taken_def bs)
  ultimately show ?thesis by (simp add: bs)
qed

text \<open>A row whose numbers fit the columns, and the row that another bag gets.\<close>

definition row_ok :: "bag_row \<Rightarrow> bool" where
  "row_ok b \<longleftrightarrow> bg_CellType b \<in> {0..<2 ^ 16} \<and> bg_ItemType b \<in> {0..<2 ^ 16} \<and> bg_ItemID b \<in> {- (2 ^ 31)..<2 ^ 31} \<and>
     bg_EntityID b \<in> {- (2 ^ 31)..<2 ^ 31} \<and> bg_Num b \<in> {- (2 ^ 31)..<2 ^ 31}"

definition moved :: "u32 \<Rightarrow> nat \<Rightarrow> bag_row \<Rightarrow> bag_row" where
  "moved R c b = b\<lparr>bg_RoleID := d32 R, bg_CellIndex := int c\<rparr>"

lemma d32_of_int: "n \<in> {- (2 ^ 31)..<2 ^ 31} \<Longrightarrow> d32 (word_of_int n) = n"
  unfolding d32_def by (simp add: signed_of_int signed_take_bit_int_eq_self)

lemma d16_of_field: "n \<in> {0..<2 ^ 16} \<Longrightarrow> d16 (ucast (word_of_int n :: i32)) = n"
  unfolding d16_def u16_of_field by (simp add: unsigned_of_int take_bit_int_eq_self)

lemma bag_row_moved: "row_ok b \<Longrightarrow> c < 65536 \<Longrightarrow> bag_row_of R (of_nat c) (item_of b) = moved R c b"
  by (cases b) (simp add: bag_row_of_def item_of_def read_DBBagItem_def bag_item_row_def moved_def row_ok_def sql db_int_def
      d32_of_int d16_of_field del: One_nat_def, simp add: d16_def unsigned_of_nat take_bit_nat_eq_self uint_nat)

abbreviation free_of :: "u32 \<Rightarrow> main_state \<Rightarrow> nat list" where
  "free_of R ms \<equiv> free_cells (taken R (db_of ms)) (unat (cell_cap R (ms_core ms)))"

definition bag_fine :: "u32 \<Rightarrow> main_state \<Rightarrow> bool" where
  "bag_fine R ms \<longleftrightarrow> unat (cell_cap R (ms_core ms)) < 65536 \<and> bag_ok R (unat (cell_cap R (ms_core ms))) (db_of ms)"

lemma became_free: "became (\<lambda>t. t) ms ms' \<Longrightarrow> free_of R ms' = free_of R ms \<and> bag_fine R ms' = bag_fine R ms"
  using became_tables(1)[of "\<lambda>t. t" ms ms'] by (simp add: became_def bag_fine_def bag_ok_def taken_def role_bag_def)

lemma became_offer: "became (\<lambda>t. t) ms ms' \<Longrightarrow> offer_taken env R xs bs ms' = offer_taken env R xs bs ms"
  using became_tables(1)[of "\<lambda>t. t" ms ms'] by (simp add: offer_taken_def)

lemma of_nat_u16_inj: "m < 65536 \<Longrightarrow> n < 65536 \<Longrightarrow> (of_nat m :: u16) = of_nat n \<longleftrightarrow> m = n"
  by (simp add: word_unat_eq_iff unsigned_of_nat take_bit_nat_eq_self)

lemma TradeItem_removed:
  assumes "idle ms" "reliable ms" "A \<noteq> B" "offer_taken env A xs bsA ms" "offer_taken env B ys bsB ms" "bag_fine A ms" "bag_fine B ms"
    and "length ys \<le> length (free_of A ms)" "length xs \<le> length (free_of B ms)"
  shows "\<exists>ms4. became (\<lambda>t. drop_bag (in_cells B ys) (drop_bag (in_cells A xs) t)) ms ms4 \<and>
    TradeItem env A xs B ys ms =
      (if length xs \<noteq> length (take 1 bsA) \<or> length ys \<noteq> length (take 1 bsB) then Some (- 1, ms4)
       else do {
         let lic = map of_nat (take (length ys) (free_of A ms));
         let lic2 = map of_nat (take (length xs) (free_of B ms));
         (_, ms5) \<leftarrow> (if lic2 \<noteq> [] then put_in_bag env B (zip lic2 (map item_of (take 1 bsA))) ms4 else Some ((), ms4));
         (_, ms6) \<leftarrow> (if lic \<noteq> [] then put_in_bag env A (zip lic (map item_of (take 1 bsB))) ms5 else Some ((), ms5));
         Some (1, ms6)
       })"
proof -
  have cap: "unat (cell_cap A (ms_core ms)) < 65536" "bag_ok A (unat (cell_cap A (ms_core ms))) (db_of ms)"
    "unat (cell_cap B (ms_core ms)) < 65536" "bag_ok B (unat (cell_cap B (ms_core ms))) (db_of ms)"
    using assms(6,7) by (simp_all add: bag_fine_def)
  obtain ms1 where 1: "Ifhassomany env A [] (of_nat (length ys)) ms = Some ((1, map of_nat (take (length ys) (free_of A ms))), ms1)"
      "became (\<lambda>t. t) ms ms1"
    using room_for[OF assms(1,2) cap(1,2) assms(8)] by blast
  note st1 = became_idle[OF 1(2)] became_reliable[OF 1(2)] became_free[OF 1(2), of B] became_core[OF 1(2)]
  obtain ms2 where 2: "Ifhassomany env B [] (of_nat (length xs)) ms1 = Some ((1, map of_nat (take (length xs) (free_of B ms))), ms2)"
      "became (\<lambda>t. t) ms1 ms2"
    using room_for[of ms1 B "length xs" env] assms(1,2,7,9) st1 by (auto simp: bag_fine_def)
  have b2: "became (\<lambda>t. t) ms ms2" using became_then[OF 1(2) 2(2)] by simp
  note st2 = became_idle[OF b2] became_reliable[OF b2]
  obtain ms3 where 3: "(if (of_nat (length xs) :: u16) \<noteq> 0 then DeletefromBag env A xs [] ms2 else Some ((1, []), ms2)) =
      Some ((1, map item_of (take 1 bsA)), ms3)" "became (drop_bag (in_cells A xs)) ms2 ms3"
    using offer_removed[of ms2 env A xs bsA] assms(1,2,4) st2 became_offer[OF b2, of env A xs bsA] by auto
  have b3: "became (drop_bag (in_cells A xs)) ms ms3" using became_then[OF b2 3(2)] by simp
  note st3 = became_idle[OF b3] became_reliable[OF b3]
  have "offer_taken env B ys bsB ms3"
    using assms(5) filter_after_drop[OF assms(3), of ys xs "db_of ms"] became_tables(1)[OF b3] by (simp add: offer_taken_def)
  then obtain ms4 where 4: "(if (of_nat (length ys) :: u16) \<noteq> 0 then DeletefromBag env B ys [] ms3 else Some ((1, []), ms3)) =
      Some ((1, map item_of (take 1 bsB)), ms4)" "became (drop_bag (in_cells B ys)) ms3 ms4"
    using offer_removed[of ms3 env B ys bsB] assms(1,2) st3 by auto
  have b4: "became (\<lambda>t. drop_bag (in_cells B ys) (drop_bag (in_cells A xs) t)) ms ms4"
    using became_then[OF b3 4(2)] by simp
  have sizes: "(of_nat (length xs) :: u16) = of_nat (length (take 1 bsA)) \<longleftrightarrow> length xs = length (take 1 bsA)"
    "(of_nat (length ys) :: u16) = of_nat (length (take 1 bsB)) \<longleftrightarrow> length ys = length (take 1 bsB)"
    using assms(4,5) by (intro of_nat_u16_inj; simp add: offer_taken_def)+
  show ?thesis
    using b4 1(1) 2(1) 3(1) 4(1) sizes by (intro exI[of _ ms4]) (simp add: TradeItem_def Let_def)
qed


lemma put_exchange:
  assumes "idle ms" "reliable ms" "length cs = length bs" "\<forall>b \<in> set bs. row_ok b" "\<forall>c \<in> set cs. c < 65536"
  shows "\<exists>ms'. (if map of_nat cs \<noteq> ([] :: u16 list) then put_in_bag env R (zip (map of_nat cs) (map item_of bs)) ms else Some ((), ms)) =
      Some ((), ms') \<and> became (add_bags (map2 (moved R) cs bs)) ms ms'"
proof -
  have "map (\<lambda>(c, i). bag_row_of R c i) (zip (map of_nat cs) (map item_of bs)) = map2 (moved R) cs bs"
    using assms(3-5) by (induction cs bs rule: list_induct2) (simp_all add: bag_row_moved)
  then show ?thesis
    using put_in_bag_puts[OF assms(1,2), of env R "zip (map of_nat cs) (map item_of bs)"] by (cases cs) (simp_all add: add_bags_def)
qed

lemma free_small: "c \<in> set (free_cells S cap) \<Longrightarrow> c \<le> cap"
  by (auto simp: free_cells_def)

lemma TradeItem_moves:
  assumes "idle ms" "reliable ms" "A \<noteq> B" "offer_taken env A xs bsA ms" "offer_taken env B ys bsB ms" "bag_fine A ms" "bag_fine B ms"
    and "length ys \<le> length (free_of A ms)" "length xs \<le> length (free_of B ms)"
    and "length xs = length bsA" "length ys = length bsB" "length xs \<le> 1" "length ys \<le> 1" "\<forall>b \<in> set (bsA @ bsB). row_ok b"
  shows "\<exists>ms'. TradeItem env A xs B ys ms = Some (1, ms') \<and>
    became (\<lambda>t. add_bags (map2 (moved A) (take (length ys) (free_of A ms)) bsB)
        (add_bags (map2 (moved B) (take (length xs) (free_of B ms)) bsA)
        (drop_bag (in_cells B ys) (drop_bag (in_cells A xs) t)))) ms ms'"
proof -
  have one: "take 1 bsA = bsA" "take 1 bsB = bsB" using assms(10-13) by (cases bsA; cases bsB; simp)+
  obtain ms4 where 4: "became (\<lambda>t. drop_bag (in_cells B ys) (drop_bag (in_cells A xs) t)) ms ms4"
      "TradeItem env A xs B ys ms = do {
         let lic = map of_nat (take (length ys) (free_of A ms));
         let lic2 = map of_nat (take (length xs) (free_of B ms));
         (_, ms5) \<leftarrow> (if lic2 \<noteq> [] then put_in_bag env B (zip lic2 (map item_of bsA)) ms4 else Some ((), ms4));
         (_, ms6) \<leftarrow> (if lic \<noteq> [] then put_in_bag env A (zip lic (map item_of bsB)) ms5 else Some ((), ms5));
         Some (1, ms6) }"
    using TradeItem_removed[OF assms(1-9)] assms(10,11) unfolding one by auto
  have small: "\<forall>c \<in> set (take n (free_of R ms)). c < 65536" if "bag_fine R ms" for n R
    using that free_small in_set_takeD unfolding bag_fine_def by (metis order_le_less_trans)
  obtain ms5 where 5: "(if map of_nat (take (length xs) (free_of B ms)) \<noteq> ([] :: u16 list)
       then put_in_bag env B (zip (map of_nat (take (length xs) (free_of B ms))) (map item_of bsA)) ms4 else Some ((), ms4)) = Some ((), ms5)"
      "became (add_bags (map2 (moved B) (take (length xs) (free_of B ms)) bsA)) ms4 ms5"
    using put_exchange[of ms4 "take (length xs) (free_of B ms)" bsA env B] small[OF assms(7)] assms(1,2,9,10,14) became_idle[OF 4(1)] became_reliable[OF 4(1)]
    by auto
  obtain ms6 where 6: "(if map of_nat (take (length ys) (free_of A ms)) \<noteq> ([] :: u16 list)
       then put_in_bag env A (zip (map of_nat (take (length ys) (free_of A ms))) (map item_of bsB)) ms5 else Some ((), ms5)) = Some ((), ms6)"
      "became (add_bags (map2 (moved A) (take (length ys) (free_of A ms)) bsB)) ms5 ms6"
    using put_exchange[of ms5 "take (length ys) (free_of A ms)" bsB env A] small[OF assms(6)] assms(1,2,8,11,14)
      became_idle[OF 4(1)] became_reliable[OF 4(1)] became_idle[OF 5(2)] became_reliable[OF 5(2)] by auto
  show ?thesis
    using became_then[OF became_then[OF 4(1) 5(2)] 6(2)] 4(2) 5(1) 6(1) by (intro exI[of _ ms6]) (simp add: Let_def)
qed

lemma became_exchange:
  assumes "became (\<lambda>t. add_bags as (add_bags bs (drop_bag Q (drop_bag P t)))) ms ms'"
  shows "tb_Bag (db_of ms') = filter (\<lambda>b. \<not> P b \<and> \<not> Q b) (tb_Bag (db_of ms)) @ bs @ as"
    "tb_RoleMoney (db_of ms') = tb_RoleMoney (db_of ms)" "tb_Entity (db_of ms') = tb_Entity (db_of ms)"
  using became_tables[OF assms] by (simp_all add: add_bags_def drop_bag_def conj_commute)

text \<open>
  An exchange of at most one cell against at most one cell moves what is offered, whole, to the first
  free cell of the other bag, and changes nothing else; it needs room on both sides beside the cells that
  become free.
\<close>

lemma trade_moves_items:
  assumes "idle ms" "reliable ms" "A \<noteq> B" "bag_fine A ms" "bag_fine B ms"
    and "offer_taken env A xs bsA ms" "length xs = length bsA" "length xs \<le> 1" "length xs \<le> length (free_of B ms)"
    and "offer_taken env B ys bsB ms" "length ys = length bsB" "length ys \<le> 1" "length ys \<le> length (free_of A ms)"
    and "\<forall>b \<in> set (bsA @ bsB). row_ok b"
  shows "\<exists>ms'. TradeItem env A xs B ys ms = Some (1, ms') \<and>
    tb_Bag (db_of ms') = filter (\<lambda>b. \<not> in_cells A xs b \<and> \<not> in_cells B ys b) (tb_Bag (db_of ms)) @
      map2 (moved B) (take (length xs) (free_of B ms)) bsA @ map2 (moved A) (take (length ys) (free_of A ms)) bsB \<and>
    tb_RoleMoney (db_of ms') = tb_RoleMoney (db_of ms) \<and> tb_Entity (db_of ms') = tb_Entity (db_of ms)"
  using TradeItem_moves[OF assms(1-3,6,10,4,5,13,9,7,11,8,12,14)] became_exchange by blast

text \<open>
  C23: an exchange in which a side offers two cells or more fails after both sides have lost everything they
  offered: the cells are deleted, nobody gets them.
\<close>

theorem trade_destroys_many:
  assumes "idle ms" "reliable ms" "A \<noteq> B" "bag_fine A ms" "bag_fine B ms"
    and "offer_taken env A xs bsA ms" "length xs \<le> length (free_of B ms)"
    and "offer_taken env B ys bsB ms" "length ys \<le> length (free_of A ms)"
    and "2 \<le> length xs \<or> 2 \<le> length ys"
  shows "\<exists>ms'. TradeItem env A xs B ys ms = Some (- 1, ms') \<and>
    tb_Bag (db_of ms') = filter (\<lambda>b. \<not> in_cells A xs b \<and> \<not> in_cells B ys b) (tb_Bag (db_of ms))"
proof -
  have "length (take 1 bsA) \<le> 1" "length (take 1 bsB) \<le> 1" unfolding length_take by simp_all
  then have many: "length xs \<noteq> length (take 1 bsA) \<or> length ys \<noteq> length (take 1 bsB)" using assms(10) by linarith
  obtain ms4 where "became (\<lambda>t. drop_bag (in_cells B ys) (drop_bag (in_cells A xs) t)) ms ms4" "TradeItem env A xs B ys ms = Some (- 1, ms4)"
    using TradeItem_removed[OF assms(1-3,6,8,4,5,9,7)] many by auto
  then show ?thesis using became_tables(1) by (fastforce simp: drop_bag_def conj_commute)
qed

lemma demo_idle [simp]: "idle (demo_main t)"
  by (simp add: idle_def demo_main_def CoreData_new_def)

lemma demo_cap [simp]: "cell_cap roleID (ms_core (demo_main t)) = 25"
  using demo_cells[of roleID t] GetRoleCellNum_at[OF demo_idle, of demo_menv roleID t] by (metis Pair_inject option.inject)

lemma demo_fine: "bag_fine 7 (demo_main demo_bags)" "bag_fine 8 (demo_main demo_bags)"
  using demo_bag_ok(1) by (simp_all add: bag_fine_def) (simp add: bag_ok_def role_bag_def demo_bags_def no_tables_def bag_item_def d32_def)

lemma demo_free_cells: "free_of 7 (demo_main demo_bags) = 2 # [4..<26]" "free_of 8 (demo_main demo_bags) = [2..<26]"
proof -
  have "taken 8 demo_bags = {1}" by (simp add: taken_def role_bag_def demo_bags_def no_tables_def bag_item_def d32_def)
  moreover have "free_cells {1} 25 = [2..<26]" by code_simp
  ultimately show "free_of 7 (demo_main demo_bags) = 2 # [4..<26]" "free_of 8 (demo_main demo_bags) = [2..<26]"
    by (simp_all add: demo_bag_ok(2) demo_free del: One_nat_def)
qed

lemma demo_offers:
  "offer_taken demo_menv 7 [1] [bag_item 7 1 500 1] (demo_main demo_bags)" "offer_taken demo_menv 8 [1] [bag_item 8 1 502 4] (demo_main demo_bags)"
  "offer_taken demo_menv 7 [1, 3] [bag_item 7 1 500 1, bag_item 7 3 501 1] (demo_main demo_bags)" "offer_taken demo_menv 8 [] [] (demo_main demo_bags)"
  by (simp_all add: offer_taken_def in_cells_def demo_bags_def no_tables_def bag_item_def d32_def d16_def cell_list_text_def dec_len_def)

lemma trade_moves_items_witness:
  "\<exists>ms'. TradeItem demo_menv 7 [1] 8 [1] (demo_main demo_bags) = Some (1, ms') \<and>
    tb_Bag (db_of ms') = [bag_item 7 3 501 1, bag_item 8 2 500 1, bag_item 7 2 502 4]"
proof -
  have "\<forall>b \<in> set ([bag_item 7 1 500 1] @ [bag_item 8 1 502 4]). row_ok b" by (simp add: row_ok_def bag_item_def)
  then show ?thesis
    using trade_moves_items[of "demo_main demo_bags" 7 8 demo_menv "[1]" "[bag_item 7 1 500 1]" "[1]" "[bag_item 8 1 502 4]"]
    by (simp add: demo_fine demo_offers demo_free_cells moved_def del: demo_tables demo_cap)
      (auto simp: demo_bags_def no_tables_def bag_item_def in_cells_def d32_def d16_def upt_conv_Cons)
qed

theorem trade_destroys_many_witness:
  "\<exists>ms'. TradeItem demo_menv 7 [1, 3] 8 [] (demo_main demo_bags) = Some (- 1, ms') \<and> tb_Bag (db_of ms') = [bag_item 8 1 502 4]"
  using trade_destroys_many[of "demo_main demo_bags" 7 8 demo_menv "[1, 3]" "[bag_item 7 1 500 1, bag_item 7 3 501 1]" "[]" "[]"]
  by (simp add: demo_fine demo_offers demo_free_cells del: demo_tables demo_cap)
    (simp add: demo_bags_def no_tables_def bag_item_def in_cells_def d32_def d16_def)

section \<open>Dropping and paying\<close>

lemma digits_le: "n < 10 ^ k \<Longrightarrow> 0 < k \<Longrightarrow> digits n \<le> k"
proof (induction n arbitrary: k rule: digits.induct)
  case (1 n)
  show ?case
  proof (cases "n < 10")
    case False
    then have "k \<noteq> 1" using 1(2) by auto
    then obtain j where k: "k = Suc j" "0 < j" using 1(3) by (cases k) auto
    have "n div 10 < 10 ^ j" using 1(2) k(1) by (simp add: div_less_iff_less_mult mult.commute)
    then show ?thesis using 1(1)[OF False] False k by (subst digits.simps) simp
  qed (use 1(3) in simp)
qed

lemma dec_len_le: "\<bar>n\<bar> < 10 ^ k \<Longrightarrow> 0 < k \<Longrightarrow> dec_len n \<le> Suc k"
  using digits_le[of "nat \<bar>n\<bar>" k] by (auto simp: dec_len_def nat_less_iff)

lemma dec_len_d32: "dec_len (d32 w) \<le> 11"
proof -
  have "\<bar>d32 w\<bar> < 10000000000" unfolding d32_def using sint_i32_bounds[of w] by linarith
  then show ?thesis using dec_len_le[of "d32 w" 10] by simp
qed

lemma dec_len_d16: "dec_len (d16 w) \<le> 6"
proof -
  have "uint w < 65536" using u16_bound[of w] unfolding uint_nat by linarith
  then have "\<bar>d16 w\<bar> < 100000" unfolding d16_def using uint_ge_0[of w] by linarith
  then show ?thesis using dec_len_le[of "d16 w" 5] by simp
qed

definition has_item :: "u32 \<Rightarrow> u32 \<Rightarrow> bag_row \<Rightarrow> bool" where
  "has_item R i b \<longleftrightarrow> bg_RoleID b = d32 R \<and> bg_ItemID b = d32 i"

lemma stack_enough: "\<not> num < want \<Longrightarrow> stack_cells i want rows num c = (num, [])"
  by (cases rows) simp_all

lemma stack_found:
  assumes "row_ok b" "0 < n" "int (unat (n :: u16)) < bg_Num b"
  shows "stack_cells i (ucast n) (map (\<lambda>b. [db_int (bg_CellIndex b), db_int (bg_EntityID b), db_int (bg_Num b)]) (b # bs)) 0 c =
    (word_of_int (bg_Num b), [c\<lparr>cell_ItemID := i, cell_celIndex := ucast (word_of_int (bg_CellIndex b) :: i32), cell_num := n\<rparr>]) \<and>
    \<not> (word_of_int (bg_Num b) :: u32) < ucast n"
proof -
  have "0 \<le> bg_Num b" using assms(3) by linarith
  moreover have "bg_Num b < 2 ^ 32" using assms(1) unfolding row_ok_def by simp
  ultimately have num: "uint (word_of_int (bg_Num b) :: u32) = bg_Num b"
    by (simp add: unsigned_of_int take_bit_int_eq_self)
  have u: "unat (ucast n :: u32) = unat n" using u16_bound[of n] by (simp add: unsigned_ucast_eq take_bit_nat_eq_self)
  have v: "unat (word_of_int (bg_Num b) :: u32) = nat (bg_Num b)" using num by (simp flip: nat_uint_eq)
  have "unat n < nat (bg_Num b)" using assms(3) by linarith
  moreover have "0 < unat n" using assms(2) by (simp add: word_less_nat_alt)
  ultimately have lt: "\<not> word_of_int (bg_Num b) < (ucast n :: u32)" "ucast n < (word_of_int (bg_Num b) :: u32)" "(0 :: u32) < ucast n"
    unfolding word_less_nat_alt u v by simp_all
  have "(ucast (ucast n :: u32) :: u16) = n"
    unfolding word_unat_eq_iff unsigned_ucast_eq[of "ucast n :: u32"] u using u16_bound[of n] by (simp add: take_bit_nat_eq_self)
  then show ?thesis using lt by (simp add: db_int_def GetIntField_cons stack_enough Let_def)
qed

lemma item_cells_has: "item_cells R i t = map (\<lambda>b. [db_int (bg_CellIndex b), db_int (bg_EntityID b), db_int (bg_Num b)]) (filter (has_item R i) (tb_Bag t))"
  by (simp add: item_cells_def has_item_def[abs_def])

text \<open>
  C29: dropping some of a stack deletes the whole cell, however many are in it.
\<close>

theorem drop_takes_whole_stack:
  assumes "idle ms" "reliable ms" "filter (has_item R i) (tb_Bag (db_of ms)) = b # bs" "row_ok b" "bg_EntityID b = 0"
    and "bg_CellIndex b \<in> {0..<2 ^ 16}" "0 < n" "int (unat n) < bg_Num b"
  shows "\<exists>ms'. RoleDropItem env R [\<lparr>il_ItemID = i, il_num = n\<rparr>] ms = Some (0, ms') \<and>
    tb_Bag (db_of ms') = filter (\<lambda>x. \<not> (bg_RoleID x = d32 R \<and> bg_CellIndex x = bg_CellIndex b)) (tb_Bag (db_of ms))"
proof -
  let ?cell = "ItemCell_new\<lparr>cell_ItemID := i, cell_celIndex := ucast (word_of_int (bg_CellIndex b) :: i32), cell_num := n\<rparr>"
  let ?num = "word_of_int (bg_Num b) :: u32"
  have cell: "d16 (cell_celIndex ?cell) = bg_CellIndex b" using assms(6) d16_of_field by simp
  have "bg_Num b \<in> {- (2 ^ 31)..<2 ^ 31}" using assms(4) unfolding row_ok_def by blast
  then have sn: "sint ?num = bg_Num b" "bg_Num b \<noteq> - 1" using assms(8) d32_of_int[of "bg_Num b"] unfolding d32_def by linarith+
  have sel: "SelectIfhasItems env R [\<lparr>il_ItemID = i, il_num = n\<rparr>] ms = Some ((bg_Num b, [?cell]), ticked ms)"
    using assms(2,3,5) stack_found[OF assms(4,7,8), of i bs ItemCell_new] sn(1)
    by (simp add: SelectIfhasItems_def sql item_cells_has db_int_def Let_def del: stack_cells.simps)
  have tx: "cells_text R [?cell] < 1024" "entities_text [] < 256"
    using dec_len_d32[of R] dec_len_d16[of "cell_celIndex ?cell"] by (simp_all add: cells_text_def entities_text_def)
  let ?f = "drop_bag (in_cells R [cell_celIndex ?cell])"
  let ?lic = "[ItemCell_new\<lparr>cell_bindStatus := cell_bindStatus ?cell, cell_num := 0, cell_celIndex := cell_celIndex ?cell,
             cell_EntityID := cell_EntityID ?cell, cell_ItemID := cell_ItemID ?cell, cell_durability := cell_durability ?cell\<rparr>]"
  have "cell_EntityID ?cell = 0" by (simp add: ItemCell_new_def)
  then have drop: "DropItems env R [\<lparr>il_ItemID = i, il_num = n\<rparr>] [] ms = Some ((0, ?lic), changed ?f (ticked ms))"
    using assms(2) sel tx sn(2) unfolding DropItems_def by (simp add: sql Let_def)
  have "idle (changed ?f (ticked ms))" using assms(1) by simp
  then obtain ms2 where m: "OnBagItemAddOrDelete env R i (changed ?f (ticked ms)) = Some ((), ms2)" "became (\<lambda>t. t) (changed ?f (ticked ms)) ms2"
    by (rule OnBagItem_became)
  have "tb_Bag (db_of ms2) = filter (\<lambda>x. \<not> (bg_RoleID x = d32 R \<and> bg_CellIndex x = bg_CellIndex b)) (tb_Bag (db_of ms))"
    using became_tables(1)[OF m(2)] cell by (simp add: drop_bag_def in_cells_def)
  then show ?thesis using drop m(1) by (simp add: RoleDropItem_def NotifyBag_def)
qed

lemma d32_of_unat:
  assumes "int (unat (w :: u32)) = n" "n < 2147483648"
  shows "d32 w = n"
proof -
  have "n \<in> {- (2 ^ 31)..<2 ^ 31}" using assms uint_ge_0[of w] by (auto intro: order_trans[of _ 0])
  moreover have "word_of_int n = w" unfolding assms(1)[symmetric] by simp
  ultimately show ?thesis using d32_of_int[of n] by simp
qed

lemma d32_zero: "d32 0 = 0"
  by (simp add: d32_def)

lemma bound_pays:
  fixes num mo bi :: u32
  assumes "num \<le> bi"
  shows "int (unat (bi - num)) = int (unat bi) - int (unat num)"
  using assms unat_sub[OF assms] unfolding word_le_nat_alt by simp

lemma both_pay:
  fixes num mo bi :: u32
  assumes "unat mo + unat bi < 2 ^ 32" "\<not> num \<le> bi" "num \<le> mo + bi"
  shows "int (unat (mo - (num - bi))) = int (unat mo) + int (unat bi) - int (unat num)"
proof -
  have "unat (num - bi) = unat num - unat bi" "unat bi < unat num" using assms(2) unat_sub[of bi num] unfolding word_le_nat_alt by simp_all
  moreover have "unat (mo + bi) = unat mo + unat bi" using assms(1) by (simp add: unat_word_ariths)
  moreover have "unat num \<le> unat (mo + bi)" using assms(3) unfolding word_le_nat_alt .
  ultimately show ?thesis using unat_sub[of "num - bi" mo] unfolding word_le_nat_alt by simp
qed

lemma query_ticks: "snd (snd (query q d ms)) = ticked ms"
  by (cases "accepts ms") (simp_all add: query_answered query_refused)

lemma NotifyMoney_keeps [simp]: "db_of (NotifyMoney env R ms) = db_of ms"
  using query_ticks by (auto simp: NotifyMoney_def Let_def case_prod_beta)

text \<open>
  C25: paying takes bound money first and never more than there is: with an answering database and one
  row for the role either nothing is taken, or exactly the price, and no balance becomes negative.
\<close>

theorem Dropmoney_pays:
  assumes "reliable ms" "money_of R (db_of ms) = [m]" "mn_Money m \<in> {0..<2 ^ 31}" "mn_BindMoney m \<in> {0..<2 ^ 31}"
  shows "if mn_Money m + mn_BindMoney m < int (unat num)
    then Dropmoney env R num ms = (- 1, ticked ms)
    else fst (Dropmoney env R num ms) = 1 \<and> db_of (snd (Dropmoney env R num ms)) =
      on_Money R (\<lambda>m'. m'\<lparr>mn_Money := mn_Money m - max 0 (int (unat num) - mn_BindMoney m),
        mn_BindMoney := max 0 (mn_BindMoney m - int (unat num))\<rparr>) (db_of ms)"
proof -
  have nn: "0 \<le> mn_Money m" "0 \<le> mn_BindMoney m" "mn_Money m < 2147483648" "mn_BindMoney m < 2147483648" using assms(3,4) by simp_all
  obtain mo bi where un: "int (unat mo) = mn_Money m" "int (unat bi) = mn_BindMoney m" and sel: "selectmoney env R 0 ms = ((mo, bi), ticked ms)"
  proof
    show "int (unat (word_of_int (mn_Money m) :: u32)) = mn_Money m" "int (unat (word_of_int (mn_BindMoney m) :: u32)) = mn_BindMoney m"
      using nn by (simp_all add: unsigned_of_int take_bit_int_eq_self)
  qed (use assms(1,2) in \<open>simp add: selectmoney_def sql db_int_def Let_def\<close>)
  have s: "unat (mo + bi) = unat mo + unat bi" proof -
    have "unat mo + unat bi < 4294967296" using un nn by linarith
    then show ?thesis unfolding unat_word_ariths by simp
  qed
  have lt: "mo + bi < num \<longleftrightarrow> mn_Money m + mn_BindMoney m < int (unat num)"
    unfolding word_less_nat_alt s using un by linarith
  have le: "num \<le> bi \<longleftrightarrow> int (unat num) \<le> mn_BindMoney m" unfolding word_le_nat_alt using un by linarith
  show ?thesis
  proof (cases "mo + bi < num")
    case True
    then show ?thesis using lt sel by (simp add: Dropmoney_def)
  next
    case False
    show ?thesis
    proof (cases "num \<le> bi")
      case True
      have "d32 (bi - num) = mn_BindMoney m - int (unat num)" "d32 mo = mn_Money m"
        proof -
        have "mn_BindMoney m - int (unat num) < 2147483648" using nn by linarith
        then show "d32 (bi - num) = mn_BindMoney m - int (unat num)" using bound_pays[OF True] un by (intro d32_of_unat) simp_all
      qed (use un nn in \<open>auto intro!: d32_of_unat\<close>)
      then show ?thesis using True False lt le sel assms(1) by (simp add: Dropmoney_def exec_answered Let_def case_prod_beta)
    next
      case big: False
      have "d32 (mo - (num - bi)) = mn_Money m + mn_BindMoney m - int (unat num)"
        using both_pay[of mo bi num] big False un nn le by (intro d32_of_unat) auto
      then show ?thesis using big False lt le sel assms(1) by (simp add: Dropmoney_def exec_answered Let_def case_prod_beta max_def d32_zero diff_diff_eq2)
    qed
  qed
qed

text \<open>
  C31: a query that fails is not noticed when a role pays: the balance becomes an uninitialised number less the
  price, and the bound money is gone.
\<close>

theorem failed_query_sets_balance:
  assumes "\<not> accepts ms" "accepts (ticked ms)" "0 < num" "num \<le> me_word env"
  shows "fst (Dropmoney env R num ms) = 1 \<and>
    db_of (snd (Dropmoney env R num ms)) = on_Money R (\<lambda>m. m\<lparr>mn_Money := d32 (me_word env - num), mn_BindMoney := 0\<rparr>) (db_of ms)"
proof -
  have "\<not> me_word env < num" "\<not> num \<le> 0" using assms(3,4) by auto
  moreover have "selectmoney env R 0 ms = ((me_word env, 0), ticked ms)"
    using assms(1) by (simp add: selectmoney_def query_refused)
  ultimately show ?thesis
    using assms(2) by (simp add: Dropmoney_def exec_answered Let_def case_prod_beta d32_def)
qed

definition demo_purse :: tables where
  "demo_purse = no_tables\<lparr>tb_RoleMoney := [\<lparr>mn_RoleID = 7, mn_Money = 100, mn_BindMoney = 30, mn_Gold = 5\<rparr>]\<rparr>"

theorem Dropmoney_pays_witness:
  "tb_RoleMoney (db_of (snd (Dropmoney demo_menv 7 50 (demo_main demo_purse)))) =
     [\<lparr>mn_RoleID = 7, mn_Money = 80, mn_BindMoney = 0, mn_Gold = 5\<rparr>]"
  using Dropmoney_pays[of "demo_main demo_purse" 7 "\<lparr>mn_RoleID = 7, mn_Money = 100, mn_BindMoney = 30, mn_Gold = 5\<rparr>" 50 demo_menv]
  by (simp add: demo_purse_def no_tables_def money_of_def on_Money_def d32_def)

definition demo_flaky :: main_state where
  "demo_flaky = (demo_main demo_purse)\<lparr>ms_db := \<lparr>db_tables = demo_purse, db_refuse = (\<lambda>n. n = 0), db_time = 0\<rparr>\<rparr>"

theorem failed_query_sets_balance_witness:
  "tb_RoleMoney (db_of (snd (Dropmoney (demo_menv\<lparr>me_word := 90000\<rparr>) 7 50 demo_flaky))) =
     [\<lparr>mn_RoleID = 7, mn_Money = 89950, mn_BindMoney = 0, mn_Gold = 5\<rparr>]"
  using failed_query_sets_balance[of demo_flaky 50 "demo_menv\<lparr>me_word := 90000\<rparr>" 7]
  by (simp add: demo_flaky_def accepts_def ticked_def demo_purse_def no_tables_def on_Money_def d32_def demo_menv_def)

theorem drop_takes_whole_stack_witness:
  "\<exists>ms'. RoleDropItem demo_menv 8 [\<lparr>il_ItemID = 502, il_num = 1\<rparr>] (demo_main demo_bags) = Some (0, ms') \<and>
     tb_Bag (db_of ms') = [bag_item 7 1 500 1, bag_item 7 3 501 1]"
  using drop_takes_whole_stack[of "demo_main demo_bags" 8 502 "bag_item 8 1 502 4" "[]" 1 demo_menv]
  by (simp add: has_item_def row_ok_def bag_item_def demo_bags_def no_tables_def d32_def)

end
