(* ===== verification/Trade_Svc.thy ===== *)
theory Trade_Svc
  imports Bag_Drop Team_Svc
begin

text \<open>
  \<^verbatim>\<open>MainServer/Trade/TradeSvc.cpp\<close>: trades between two roles.  What a role has on the table
  is the \<^verbatim>\<open>TradeItem\<close> of the role object in the core data; a trade goes through when the second
  of the two clicks.
\<close>

definition UniqID_trade :: u32 where "UniqID_trade = 212"

text \<open>\<^verbatim>\<open>CoreData::TradeInfo\<close> and \<^verbatim>\<open>Map::TradeInfo\<close>; a role that is not on its
  map is not an error.\<close>

definition Map_TradeInfo :: "nat \<Rightarrow> TradeItem \<Rightarrow> u32 \<Rightarrow> core_data \<Rightarrow> core_data" where
  "Map_TradeInfo i tradeItem roleID cd = upd_role (Map_GetRolePtr i roleID cd) (set_TradeInfo tradeItem) cd"

definition CoreData_TradeInfo :: "main_env \<Rightarrow> TradeItem \<Rightarrow> u32 \<Rightarrow> main_state \<Rightarrow> (int \<times> main_state) option" where
  "CoreData_TradeInfo env tradeItem roleID ms = do {
     (mapID, cd1) \<leftarrow> FindRoleMapID (me_relock env) roleID (ms_core ms);
     let ms1 = ms\<lparr>ms_core := cd1\<rparr>;
     if mapID = 0 then Some (- 1, ms1)
     else if CheckMapID mapID cd1 \<noteq> 0 then Some (- 1, ms1)
     else Some (0, ms1\<lparr>ms_core := Map_TradeInfo (unat mapID - 1) tradeItem roleID cd1\<rparr>)
   }"

section \<open>Notifications\<close>

definition NotifyToRoleBagItem :: "main_env \<Rightarrow> u32 \<Rightarrow> u32 \<Rightarrow> ItemCell \<Rightarrow> u8 \<Rightarrow> main_state \<Rightarrow> main_state" where
  "NotifyToRoleBagItem env roleID who lic type = tell roleID (notify_sized 2048 (me_svc env) 1303 UniqID_trade
     (\<lambda>s. do { s1 \<leftarrow> put_UInt32 who s; s2 \<leftarrow> put_Byte type s1; put_ItemCell lic s2 }))"

definition NotifyToRoleMoney :: "main_env \<Rightarrow> u32 \<Rightarrow> u32 \<Rightarrow> u32 \<Rightarrow> u32 \<Rightarrow> main_state \<Rightarrow> main_state" where
  "NotifyToRoleMoney env roleID who Money Gold = tell who (notify_sized 1024 (me_svc env) 1304 UniqID_trade
     (\<lambda>s. do { s1 \<leftarrow> put_UInt32 roleID s; s2 \<leftarrow> put_UInt32 Money s1; put_UInt32 Gold s2 }))"

definition NotifyLockTrade :: "main_env \<Rightarrow> u32 \<Rightarrow> u32 \<Rightarrow> main_state \<Rightarrow> main_state" where
  "NotifyLockTrade env roleID toRoleID = tell toRoleID (notify_sized 1024 (me_svc env) 1305 UniqID_trade (put_UInt32 roleID))"

definition NotifyCancelTrade :: "main_env \<Rightarrow> u32 \<Rightarrow> u32 \<Rightarrow> u8 list \<Rightarrow> u8 \<Rightarrow> main_state \<Rightarrow> main_state" where
  "NotifyCancelTrade env toRoleID roleID roleName result = tell toRoleID (notify_sized 1024 (me_svc env) 1307 UniqID_trade
     (\<lambda>s. do { s1 \<leftarrow> put_Byte result s; s2 \<leftarrow> put_UInt32 roleID s1; put_string roleName s2 }))"

definition NotifyTradeOk :: "main_env \<Rightarrow> u32 \<Rightarrow> u8 \<Rightarrow> u32 \<Rightarrow> u8 list \<Rightarrow> main_state \<Rightarrow> main_state" where
  "NotifyTradeOk env toRoleID TradeResult RoleID RoleName = tell toRoleID (notify_sized 1024 (me_svc env) 1306 UniqID_trade
     (\<lambda>s. do { s1 \<leftarrow> put_Byte TradeResult s; s2 \<leftarrow> put_UInt32 RoleID s1; put_string RoleName s2 }))"

definition NotifyRequest :: "main_env \<Rightarrow> u32 \<Rightarrow> u8 list \<Rightarrow> u32 \<Rightarrow> main_state \<Rightarrow> main_state" where
  "NotifyRequest env roleID name toRoleID = tell toRoleID (notify_sized 1024 (me_svc env) 1301 UniqID_trade
     (\<lambda>s. do { s1 \<leftarrow> put_UInt32 roleID s; put_string name s1 }))"

definition NotifyRequestResult :: "main_env \<Rightarrow> u32 \<Rightarrow> u8 list \<Rightarrow> u32 \<Rightarrow> u8 \<Rightarrow> main_state \<Rightarrow> main_state" where
  "NotifyRequestResult env roleID name ToroleID type = tell ToroleID (notify_sized 1024 (me_svc env) 1302 UniqID_trade
     (\<lambda>s. do { s1 \<leftarrow> put_UInt32 roleID s; s2 \<leftarrow> put_string name s1; put_Byte type s2 }))"

section \<open>State of a trade\<close>

definition InitTradeItem :: "main_env \<Rightarrow> u32 \<Rightarrow> main_state \<Rightarrow> (int \<times> main_state) option" where
  "InitTradeItem env roleID ms = do {
     (iRet, ms1) \<leftarrow> CoreData_TradeInfo env TradeItem_new roleID ms;
     Some (if iRet \<noteq> 0 then - 1 else 0, ms1)
   }"

definition IsLockTrade :: "main_env \<Rightarrow> u32 \<Rightarrow> main_state \<Rightarrow> (int \<times> main_state) option" where
  "IsLockTrade env roleID ms = do {
     (role, ms1) \<leftarrow> role_of env roleID ms;
     Some (if ID role = 0 then - 1 else if ti_isLockTrade (TradeInfo role) = 1 then 1 else 0, ms1)
   }"

definition IsOnTrade :: "main_env \<Rightarrow> u32 \<Rightarrow> main_state \<Rightarrow> (int \<times> main_state) option" where
  "IsOnTrade env roleID ms = do {
     (role, ms1) \<leftarrow> role_of env roleID ms;
     Some (if ID role = 0 then - 1 else if ti_isOnTrade (TradeInfo role) = 1 then 1 else 0, ms1)
   }"

text \<open>The first statement is for the role the partner trades with, the second for the partner; an amount
  of 2^31 or more is written as a negative number.\<close>

definition pay :: "u32 \<Rightarrow> u32 \<Rightarrow> u32 \<Rightarrow> u32 \<Rightarrow> money_row \<Rightarrow> money_row" where
  "pay moneyIn moneyOut goldIn goldOut m =
     m\<lparr>mn_Money := mn_Money m + d32 moneyIn - d32 moneyOut, mn_Gold := mn_Gold m + d32 goldIn - d32 goldOut\<rparr>"

definition TradeMoney :: "main_env \<Rightarrow> TradeItem \<Rightarrow> TradeItem \<Rightarrow> main_state \<Rightarrow> int \<times> main_state" where
  "TradeMoney env lic1 lic2 ms =
     (let money = ti_tradeMoney lic1 - ti_tradeMoney lic2; gold = ti_tradeGold lic1 - ti_tradeGold lic2
      in if gold = 0 \<and> money = 0 then (0, ms)
         else let (iRet, d, ms1) = exec (on_Money (ti_tradeRoleID lic2)
                    (pay (ti_tradeMoney lic2) (ti_tradeMoney lic1) (ti_tradeGold lic2) (ti_tradeGold lic1))) (dbo_new env) ms
              in if iRet \<noteq> 0 then (- 1, ms1)
                 else let (iRet2, d2, ms2) = exec (on_Money (ti_tradeRoleID lic1)
                            (pay (ti_tradeMoney lic1) (ti_tradeMoney lic2) (ti_tradeGold lic1) (ti_tradeGold lic2))) d ms1
                      in if iRet2 \<noteq> 0 then (- 1, ms2)
                         else (0, NotifyMoney env (ti_tradeRoleID lic2) (NotifyMoney env (ti_tradeRoleID lic1) ms2)))"

section \<open>Requests\<close>

definition ProcessRequestTrade :: "main_env \<Rightarrow> packet \<Rightarrow> main_state \<Rightarrow> main_state option" where
  "ProcessRequestTrade env req ms =
     (let roleID = p_RoleID req; (who, s) = get_UInt32 0 (Serializer_new (p_buffer req))
      in do {
        (role, ms1) \<leftarrow> role_of env who ms;
        if GetErrorCode s \<noteq> 0 then Some (answer env req ERR_SYSTEM_SERERROR Some ms1)
        else if who = roleID then Some (answer env req ERR_SYSTEM_SERERROR Some ms1)
        else if ID role = 0 then Some (answer env req ERR_SYSTEM_SERERROR Some ms1)
        else do {
          (self, ms2) \<leftarrow> role_of env roleID ms1;
          Some (if ID self \<noteq> 0 then NotifyRequest env roleID (Name self) who (answer env req 0 Some ms2)
                else answer env req ERR_SYSTEM_DBNORECORD Some ms2)
        }
      })"

definition on_trade_with :: "u32 \<Rightarrow> TradeItem \<Rightarrow> TradeItem" where
  "on_trade_with who t = t\<lparr>ti_isOnTrade := 1, ti_tradeRoleID := who\<rparr>"

definition ProcessAnswerTrade :: "main_env \<Rightarrow> packet \<Rightarrow> main_state \<Rightarrow> main_state option" where
  "ProcessAnswerTrade env req ms =
     (let roleID = p_RoleID req;
          (who, s1) = get_UInt32 0 (Serializer_new (p_buffer req));
          (type, s2) = get_Byte 0 s1
      in do {
        (role, ms1) \<leftarrow> role_of env roleID ms;
        if GetErrorCode s2 \<noteq> 0 then Some (answer env req ERR_SYSTEM_SERERROR Some ms1)
        else if who = roleID then Some (answer env req ERR_APP_DATA Some ms1)
        else if type \<noteq> 0 \<and> type \<noteq> 1 then Some (answer env req ERR_APP_DATA Some ms1)
        else if ID role = 0 then Some (answer env req ERR_APP_OP Some ms1)
        else if type = 0 then Some (NotifyRequestResult env roleID (Name role) who 2 (answer env req 0 Some ms1))
        else do {
          let roleItem = TradeInfo role;
          (other, ms2) \<leftarrow> role_of env who ms1;
          if ID other = 0 then Some (answer env req ERR_APP_OP Some ms2)
          else do {
            let tradeRoleItem = TradeInfo other;
            if ti_isOnTrade tradeRoleItem = 1 \<and> ti_tradeRoleID tradeRoleItem = roleID
            then Some (answer env req ERR_APP_OP Some ms2)
            else do {
              (iRet, ms3) \<leftarrow> CoreData_TradeInfo env (on_trade_with roleID tradeRoleItem) who ms2;
              if iRet \<noteq> 0 then Some (answer env req ERR_APP_OP Some ms3)
              else do {
                (iRet2, ms4) \<leftarrow> CoreData_TradeInfo env (on_trade_with who roleItem) roleID ms3;
                Some (if iRet2 \<noteq> 0 then answer env req ERR_APP_OP Some ms4
                      else NotifyRequestResult env who (Name other) roleID 1
                             (NotifyRequestResult env roleID (Name role) who 1 (answer env req 0 Some ms4)))
              }
            }
          }
        }
      })"

text \<open>The answer carries the cell after any return code.\<close>

definition cell_answer :: "main_env \<Rightarrow> packet \<Rightarrow> u32 \<Rightarrow> u16 \<Rightarrow> main_state \<Rightarrow> main_state" where
  "cell_answer env req RetCode CellIndex =
     (let p = (CopyHeader req ((env_junk (me_svc env))\<lparr>p_buffer := Reset (DataBuffer_new 2048 (env_mem (me_svc env) 2048))\<rparr>))
            \<lparr>p_Direction := DIRECT_C_S_RESP\<rparr>
      in emit [Answer (do {
        (ok, p1) \<leftarrow> PackHeader p;
        s \<leftarrow> put_UInt32 RetCode (Serializer_new (p_buffer p1));
        s' \<leftarrow> put_UInt16 CellIndex s;
        (ok', p2) \<leftarrow> UpdatePacketLength (p1\<lparr>p_buffer := ser_buf s'\<rparr>);
        Some p2
      })])"

definition BIND_ITEM :: u32 where "BIND_ITEM = 1399"

definition ProcessItemPast :: "main_env \<Rightarrow> packet \<Rightarrow> main_state \<Rightarrow> main_state option" where
  "ProcessItemPast env req ms =
     (let roleID = p_RoleID req;
          (who, s1) = get_UInt32 0 (Serializer_new (p_buffer req));
          (CellIndex, s2) = get_UInt16 0 s1;
          (type, s3) = get_Byte 0 s2
      in do {
        (role, ms1) \<leftarrow> role_of env roleID ms;
        if GetErrorCode s3 \<noteq> 0 then Some (cell_answer env req ERR_SYSTEM_SERERROR CellIndex ms1)
        else if who = roleID then Some (cell_answer env req ERR_APP_DATA CellIndex ms1)
        else if ID role = 0 then Some (cell_answer env req ERR_APP_DATA CellIndex ms1)
        else if ti_tradeRoleID (TradeInfo role) \<noteq> who then Some (cell_answer env req ERR_APP_DATA CellIndex ms1)
        else if type \<noteq> 0 \<and> type \<noteq> 1 then Some (cell_answer env req ERR_APP_DATA CellIndex ms1)
        else do {
          ((iRet, lic1), ms2) \<leftarrow> RoleSelectCell env roleID CellIndex ItemCell_new ms1;
          Some (if iRet \<noteq> 0 then cell_answer env req ERR_APP_OP CellIndex ms2
                else if cell_bindStatus lic1 = 1 then cell_answer env req BIND_ITEM CellIndex ms2
                else NotifyToRoleBagItem env who roleID lic1 type (cell_answer env req 0 CellIndex ms2))
        }
      })"

definition lock_trade :: "u32 \<Rightarrow> u32 \<Rightarrow> u16 list \<Rightarrow> TradeItem \<Rightarrow> TradeItem" where
  "lock_trade money gold lic t = t\<lparr>ti_isLockTrade := 1, ti_tradeMoney := money, ti_tradeGold := gold,
     ti_tradeCellIndex := ti_tradeCellIndex t @ lic\<rparr>"

definition ProcessLockTrade :: "main_env \<Rightarrow> packet \<Rightarrow> main_state \<Rightarrow> main_state option" where
  "ProcessLockTrade env req ms =
     (let roleID = p_RoleID req;
          (who, s1) = get_UInt32 0 (Serializer_new (p_buffer req));
          (money, s2) = get_UInt32 0 s1;
          (gold, s3) = get_UInt32 0 s2;
          (lic, s4) = get_List get_UInt16 (ucast (me_word env)) [] s3
      in do {
        (role, ms1) \<leftarrow> role_of env roleID ms;
        if GetErrorCode s4 \<noteq> 0 then Some (answer env req ERR_SYSTEM_SERERROR Some ms1)
        else if who = roleID then Some (answer env req ERR_APP_OP Some ms1)
        else if ID role = 0 then Some (answer env req ERR_APP_OP Some ms1)
        else if ti_isOnTrade (TradeInfo role) \<noteq> 1 \<or> ti_tradeRoleID (TradeInfo role) \<noteq> who
        then Some (answer env req ERR_APP_OP Some ms1)
        else do {
          (iRet, ms2) \<leftarrow> CoreData_TradeInfo env (lock_trade money gold lic (TradeInfo role)) roleID ms1;
          Some (if iRet \<noteq> 0 then answer env req ERR_APP_OP Some ms2
                else NotifyLockTrade env roleID who (answer env req 0 Some ms2))
        }
      })"

text \<open>The amount is compared with the balance here, and only here.\<close>

definition ProcessMoney :: "main_env \<Rightarrow> packet \<Rightarrow> main_state \<Rightarrow> main_state option" where
  "ProcessMoney env req ms =
     (let roleID = p_RoleID req;
          (who, s1) = get_UInt32 0 (Serializer_new (p_buffer req));
          (Money, s2) = get_UInt32 0 s1;
          (Gold, s3) = get_UInt32 0 s2
      in do {
        (role, ms1) \<leftarrow> role_of env roleID ms;
        if GetErrorCode s3 \<noteq> 0 then Some (answer env req ERR_SYSTEM_SERERROR Some ms1)
        else if who = roleID then Some (answer env req ERR_APP_DATA Some ms1)
        else if ID role = 0 then Some (answer env req ERR_APP_DATA Some ms1)
        else if ti_tradeRoleID (TradeInfo role) \<noteq> who then Some (answer env req ERR_APP_DATA Some ms1)
        else if Money = 0 \<and> Gold = 0 then Some (answer env req 0 Some ms1)
        else let (iRet, d, ms2) = query (\<lambda>t. map (\<lambda>m. [db_bool (d32 Money \<le> mn_Money m), db_bool (d32 Gold \<le> mn_Gold m)])
                    (money_of roleID t)) (dbo_new env) ms1
             in Some (if iRet \<noteq> 0 then answer env req ERR_SYSTEM_DBERROR Some ms2
                      else if field 0 d = 0 \<or> field 1 d = 0 then answer env req ERR_APP_OP Some ms2
                      else NotifyToRoleMoney env roleID who Money Gold (answer env req 0 Some ms2))
      })"

text \<open>What a click does, with the partner's id and whether the trade went through.  That the partner
  trades with this role is not asked.\<close>

definition click_trade :: "main_env \<Rightarrow> u32 \<Rightarrow> main_state \<Rightarrow> ((u32 \<times> bool \<times> role \<times> role) \<times> main_state) option" where
  "click_trade env roleID ms = do {
     (self, ms1) \<leftarrow> role_of env roleID ms;
     if ID self = 0 then Some ((ERR_APP_DATA, False, self, self), ms1)
     else do {
       let roleSelfInfo = TradeInfo self;
       let desRoleID = ti_tradeRoleID roleSelfInfo;
       (dest, ms2) \<leftarrow> role_of env desRoleID ms1;
       let desRoleInfo = TradeInfo dest;
       if ID dest = 0 then Some ((ERR_APP_DATA, False, self, dest), ms2)
       else if ti_isLockTrade roleSelfInfo \<noteq> 1 \<or> ti_isLockTrade desRoleInfo \<noteq> 1 then Some ((ERR_APP_DATA, False, self, dest), ms2)
       else if ti_isTrade desRoleInfo = 1 then do {
         (iRet, ms3) \<leftarrow> TradeItem env roleID (ti_tradeCellIndex roleSelfInfo) desRoleID (ti_tradeCellIndex desRoleInfo) ms2;
         if iRet = 0 \<or> iRet = - 1 then Some ((ERR_APP_DATA, True, self, dest), ms3)
         else do {
           let (iRet2, ms4) = TradeMoney env roleSelfInfo desRoleInfo ms3;
           if iRet2 \<noteq> 0 then Some ((ERR_APP_DATA, True, self, dest), ms4)
           else do {
             (iRet3, ms5) \<leftarrow> InitTradeItem env roleID ms4;
             if iRet3 \<noteq> 0 then Some ((ERR_APP_DATA, True, self, dest), ms5)
             else do {
               (iRet4, ms6) \<leftarrow> InitTradeItem env desRoleID ms5;
               Some ((if iRet4 \<noteq> 0 then ERR_APP_DATA else 0, True, self, dest), ms6)
             }
           }
         }
       }
       else do {
         (iRet, ms3) \<leftarrow> CoreData_TradeInfo env (roleSelfInfo\<lparr>ti_isTrade := 1\<rparr>) roleID ms2;
         Some ((if iRet \<noteq> 0 then ERR_APP_DATA else 0, False, self, dest), ms3)
       }
     }
   }"

definition ProcessTrade :: "main_env \<Rightarrow> packet \<Rightarrow> main_state \<Rightarrow> main_state option" where
  "ProcessTrade env req ms =
     (let roleID = p_RoleID req
      in if GetErrorCode (Serializer_new (p_buffer req)) \<noteq> 0 then Some (answer env req ERR_SYSTEM_SERERROR Some ms)
         else do {
           ((RetCode, isClickTrade, self, dest), ms1) \<leftarrow> click_trade env roleID ms;
           let desRoleID = ti_tradeRoleID (TradeInfo self);
           let ms2 = answer env req RetCode Some ms1;
           Some (if RetCode = 0 \<and> isClickTrade
                 then NotifyTradeOk env desRoleID 1 roleID (Name self) (NotifyTradeOk env roleID 1 desRoleID (Name dest) ms2)
                 else ms2)
         })"

text \<open>The partner whose trade is ended is the role named in the request.\<close>

definition ProcessCancelTrade :: "main_env \<Rightarrow> packet \<Rightarrow> main_state \<Rightarrow> main_state option" where
  "ProcessCancelTrade env req ms =
     (let roleID = p_RoleID req; (desRoleID, s) = get_UInt32 0 (Serializer_new (p_buffer req))
      in do {
        (role, ms1) \<leftarrow> role_of env roleID ms;
        if GetErrorCode s \<noteq> 0 then Some (answer env req ERR_SYSTEM_SERERROR Some ms1)
        else if ID role = 0 then Some (answer env req ERR_APP_DATA Some ms1)
        else if ti_isOnTrade (TradeInfo role) \<noteq> 1 then Some (answer env req ERR_APP_DATA Some ms1)
        else do {
          (iRet, ms2) \<leftarrow> InitTradeItem env roleID ms1;
          if iRet \<noteq> 0 then Some (answer env req ERR_APP_DATA Some ms2)
          else do {
            (iRet2, ms3) \<leftarrow> InitTradeItem env desRoleID ms2;
            Some (if iRet2 \<noteq> 0 then answer env req ERR_APP_DATA Some ms3
                  else NotifyCancelTrade env desRoleID roleID (Name role) 1 (answer env req 0 Some ms3))
          }
        }
      })"

definition Trade_ClientErrorAck :: "main_env \<Rightarrow> packet \<Rightarrow> u32 \<Rightarrow> main_state \<Rightarrow> main_state" where
  "Trade_ClientErrorAck env req RetCode = emit [Answer (reply_packet (me_svc env) req RetCode)]"

definition Trade_OnProcessPacket :: "main_env \<Rightarrow> packet \<Rightarrow> main_state \<Rightarrow> main_state option" where
  "Trade_OnProcessPacket env req ms =
     (if p_MsgType req = 1301 then ProcessRequestTrade env req ms
      else if p_MsgType req = 1302 then ProcessAnswerTrade env req ms
      else if p_MsgType req = 1303 then ProcessItemPast env req ms
      else if p_MsgType req = 1304 then ProcessLockTrade env req ms
      else if p_MsgType req = 1305 then ProcessMoney env req ms
      else if p_MsgType req = 1306 then ProcessTrade env req ms
      else if p_MsgType req = 1307 then ProcessCancelTrade env req ms
      else Some (Trade_ClientErrorAck env req ERR_SYSTEM_PARAM ms))"

end
