(* ===== verification/Trade_Rules.thy ===== *)
theory Trade_Rules
  imports Bag_Rules Trade_Svc Team_Rules
begin

text \<open>
  What trades do: an exchange that goes through, what a stranger can get out of a waiting trade, and what an
  offer of more than 2^31 does.
\<close>

section \<open>Trade state of a role\<close>

definition with_trade :: "u32 \<Rightarrow> TradeItem \<Rightarrow> core_data \<Rightarrow> core_data" where
  "with_trade R t cd = upd_role (ptr_at R cd) (set_TradeInfo t) cd"

definition online :: "u32 \<Rightarrow> main_state \<Rightarrow> bool" where
  "online R ms \<longleftrightarrow> ID (role_at R (ms_core ms)) \<noteq> 0"

abbreviation trade_of :: "u32 \<Rightarrow> main_state \<Rightarrow> TradeItem" where
  "trade_of R ms \<equiv> TradeInfo (role_at R (ms_core ms))"

lemma nobody [simp]: "ID (Role_new 0 0) = 0"
  by code_simp

lemma ptr_at_placed: "ID (role_at R cd) \<noteq> 0 \<Longrightarrow> \<exists>i r. ptr_at R cd = Some (i, R) \<and> i < length (cd_vecMap cd) \<and>
    smap_find R (gm_mapRole (cd_vecMap cd ! i)) = Some r"
  by (auto simp: role_at_def ptr_at_def deref_def Map_GetRolePtr_def Let_def split: if_splits option.splits)

lemma ptr_at_with_trade [simp]: "ptr_at X (with_trade R t cd) = ptr_at X cd"
proof (cases "ptr_at R cd")
  case (Some p)
  then obtain i r where "p = (i, R)" "i < length (cd_vecMap cd)" "smap_find R (gm_mapRole (cd_vecMap cd ! i)) = Some r"
    by (auto simp: ptr_at_def Map_GetRolePtr_def Let_def split: if_splits option.splits)
  then show ?thesis
    using Some by (auto simp: with_trade_def upd_role_def ptr_at_def[of X] Let_def CheckMapID_def Map_GetRolePtr_def smap_find_put
        nth_list_update split: option.splits)
qed (simp add: with_trade_def upd_role_def)

lemma role_at_with_trade:
  assumes "ID (role_at R cd) \<noteq> 0"
  shows "role_at X (with_trade R t cd) = (if X = R then set_TradeInfo t (role_at R cd) else role_at X cd)"
proof -
  obtain i r where p: "ptr_at R cd = Some (i, R)" "i < length (cd_vecMap cd)" using ptr_at_placed[OF assms] by blast
  show ?thesis
  proof (cases "ptr_at X cd")
    case None
    then show ?thesis using p by (auto simp: role_at_def deref_def)
  next
    case (Some q)
    then obtain j where "q = (j, X)" by (auto simp: ptr_at_def Map_GetRolePtr_def Let_def split: if_splits option.splits)
    then show ?thesis
      using p Some by (auto simp: role_at_def) (auto simp: deref_def with_trade_def upd_role_def Let_def smap_find_put nth_list_update)
  qed
qed

lemma with_trade_sel [simp]: "cd_held (with_trade R t cd) = cd_held cd"
  by (simp add: with_trade_def upd_role_def Let_def split: option.split prod.split)

lemma role_trade_sel [simp]: "TradeInfo (set_TradeInfo t r) = t" "ID (set_TradeInfo t r) = ID r" "Name (set_TradeInfo t r) = Name r"
    "TopCellNum (set_TradeInfo t r) = TopCellNum r"
  by (simp_all add: TradeInfo_def set_TradeInfo_def ID_def Name_def TopCellNum_def)

lemma FindRoleMapID_at: "cd_held cd = 0 \<Longrightarrow>
    FindRoleMapID relock R cd = Some (case smap_find R (cd_mapRoleMapID cd) of Some m \<Rightarrow> m | None \<Rightarrow> 0, cd)"
  by (simp add: FindRoleMapID_def guarded_def)

lemma TradeInfo_idle:
  assumes "idle ms" "online R ms"
  shows "CoreData_TradeInfo env t R ms = Some (0, ms\<lparr>ms_core := with_trade R t (ms_core ms)\<rparr>)"
proof -
  obtain i r where p: "ptr_at R (ms_core ms) = Some (i, R)" using ptr_at_placed assms(2) unfolding online_def by blast
  then show ?thesis
    using p assms(1) by (auto simp: CoreData_TradeInfo_def FindRoleMapID_at idle_def ptr_at_def with_trade_def Map_TradeInfo_def
        CheckMapID_def Let_def split: if_splits)
qed

definition set_trade :: "u32 \<Rightarrow> TradeItem \<Rightarrow> main_state \<Rightarrow> main_state" where
  "set_trade R t ms = ms\<lparr>ms_core := with_trade R t (ms_core ms)\<rparr>"

lemma TradeInfo_sets: "idle ms \<Longrightarrow> online R ms \<Longrightarrow> CoreData_TradeInfo env t R ms = Some (0, set_trade R t ms)"
  by (simp add: TradeInfo_idle set_trade_def)

lemma set_trade_sel [simp]:
  "idle (set_trade R t ms) = idle ms" "reliable (set_trade R t ms) = reliable ms" "db_of (set_trade R t ms) = db_of ms"
  by (simp_all add: set_trade_def idle_def reliable_def)

lemma set_trade_role [simp]:
  assumes "online R ms"
  shows "online X (set_trade R t ms) = online X ms"
    "trade_of X (set_trade R t ms) = (if X = R then t else trade_of X ms)"
    "cell_cap X (ms_core (set_trade R t ms)) = cell_cap X (ms_core ms)"
    "Name (role_at X (ms_core (set_trade R t ms))) = Name (role_at X (ms_core ms))"
  using assms by (simp_all add: set_trade_def online_def role_at_with_trade cell_cap_def)

lemma set_trade_fine [simp]:
  assumes "online R ms"
  shows "bag_fine X (set_trade R t ms) = bag_fine X ms" "free_of X (set_trade R t ms) = free_of X ms"
    "offer_taken env X xs bs (set_trade R t ms) = offer_taken env X xs bs ms"
  using assms by (simp_all add: bag_fine_def offer_taken_def)

lemma emit_same [simp]:
  "idle (emit out ms) = idle ms" "ms_core (emit out ms) = ms_core ms" "online X (emit out ms) = online X ms"
  "bag_fine X (emit out ms) = bag_fine X ms" "offer_taken env X xs bs (emit out ms) = offer_taken env X xs bs ms"
  by (simp_all add: idle_def online_def emit_def bag_fine_def offer_taken_def)

lemma sent [simp]: "answer env req c b ms = emit [Answer (answer_packet (me_svc env) req c b)] ms" "tell r p ms = emit [Notice [r] p] ms"
  by (simp_all add: answer_def tell_def)

section \<open>Money\<close>

lemma pay_nothing [simp]: "pay a a b b = (\<lambda>m. m)"
  by (simp add: pay_def fun_eq_iff)

lemma on_Money_same [simp]: "on_Money R (\<lambda>m. m) t = t"
  by (simp add: on_Money_def)

definition money_swapped :: "TradeItem \<Rightarrow> TradeItem \<Rightarrow> tables \<Rightarrow> tables" where
  "money_swapped lic1 lic2 t =
     on_Money (ti_tradeRoleID lic1) (pay (ti_tradeMoney lic1) (ti_tradeMoney lic2) (ti_tradeGold lic1) (ti_tradeGold lic2))
       (on_Money (ti_tradeRoleID lic2) (pay (ti_tradeMoney lic2) (ti_tradeMoney lic1) (ti_tradeGold lic2) (ti_tradeGold lic1)) t)"

lemma TradeMoney_swaps:
  assumes "reliable ms"
  shows "\<exists>ms'. TradeMoney env lic1 lic2 ms = (0, ms') \<and> db_of ms' = money_swapped lic1 lic2 (db_of ms) \<and> ms_core ms' = ms_core ms"
proof (cases "ti_tradeGold lic1 - ti_tradeGold lic2 = 0 \<and> ti_tradeMoney lic1 - ti_tradeMoney lic2 = 0")
  case True
  then have "ti_tradeGold lic1 = ti_tradeGold lic2" "ti_tradeMoney lic1 = ti_tradeMoney lic2" by simp_all
  then show ?thesis by (simp add: TradeMoney_def money_swapped_def)
next
  case False
  have core: "ms_core (NotifyMoney env R ms1) = ms_core ms1" for R ms1
    using query_ticks by (auto simp: NotifyMoney_def Let_def case_prod_beta)
  show ?thesis using False assms by (simp add: TradeMoney_def sql Let_def core money_swapped_def del: sent)
qed

lemma sum_paid:
  "sum_list (map mn_Money (tb_RoleMoney (on_Money R (pay a b c d) t))) =
     sum_list (map mn_Money (tb_RoleMoney t)) + (d32 a - d32 b) * int (length (money_of R t))"
  "sum_list (map mn_Gold (tb_RoleMoney (on_Money R (pay a b c d) t))) =
     sum_list (map mn_Gold (tb_RoleMoney t)) + (d32 c - d32 d) * int (length (money_of R t))"
proof -
  let ?upd = "\<lambda>m. if mn_RoleID m = d32 R then pay a b c d m else m"
  have "sum_list (map mn_Money (map ?upd rows)) = sum_list (map mn_Money rows) + (d32 a - d32 b) * int (length (filter (\<lambda>m. mn_RoleID m = d32 R) rows))"
    "sum_list (map mn_Gold (map ?upd rows)) = sum_list (map mn_Gold rows) + (d32 c - d32 d) * int (length (filter (\<lambda>m. mn_RoleID m = d32 R) rows))"
    for rows by (induction rows) (simp_all add: pay_def algebra_simps)
  then show "sum_list (map mn_Money (tb_RoleMoney (on_Money R (pay a b c d) t))) =
     sum_list (map mn_Money (tb_RoleMoney t)) + (d32 a - d32 b) * int (length (money_of R t))"
  "sum_list (map mn_Gold (tb_RoleMoney (on_Money R (pay a b c d) t))) =
     sum_list (map mn_Gold (tb_RoleMoney t)) + (d32 c - d32 d) * int (length (money_of R t))"
    by (simp_all add: on_Money_def money_of_def)
qed

lemma length_paid: "length (money_of X (on_Money R (pay a b c d) t)) = length (money_of X t)"
proof -
  have "(\<lambda>m. mn_RoleID m = d32 X) \<circ> (\<lambda>m. if mn_RoleID m = d32 R then pay a b c d m else m) = (\<lambda>m. mn_RoleID m = d32 X)"
    by (auto simp: fun_eq_iff pay_def)
  then show ?thesis by (simp add: on_Money_def money_of_def filter_map)
qed

text \<open>
  C28: a trade makes no money: whatever two roles offer, with one row of money for each the total of all
  money and of all gold is the same afterwards.
\<close>

theorem trade_conserves_money:
  assumes "reliable ms" "ti_tradeRoleID lic1 \<noteq> ti_tradeRoleID lic2"
    "length (money_of (ti_tradeRoleID lic1) (db_of ms)) = 1" "length (money_of (ti_tradeRoleID lic2) (db_of ms)) = 1"
  shows "\<exists>ms'. TradeMoney env lic1 lic2 ms = (0, ms') \<and>
    sum_list (map mn_Money (tb_RoleMoney (db_of ms'))) = sum_list (map mn_Money (tb_RoleMoney (db_of ms))) \<and>
    sum_list (map mn_Gold (tb_RoleMoney (db_of ms'))) = sum_list (map mn_Gold (tb_RoleMoney (db_of ms)))"
  using TradeMoney_swaps[OF assms(1), of env lic1 lic2] assms(3,4)
  by (auto simp: money_swapped_def sum_paid length_paid algebra_simps)

section \<open>The click\<close>

lemma role_of_here: "idle ms \<Longrightarrow> role_of env R ms = Some (role_at R (ms_core ms), ms)"
  by (rule role_of_at)

lemma InitTradeItem_sets: "idle ms \<Longrightarrow> online R ms \<Longrightarrow> InitTradeItem env R ms = Some (0, set_trade R TradeItem_new ms)"
  by (simp add: InitTradeItem_def TradeInfo_sets)

text \<open>What a click of \<open>A\<close> needs to carry the trade out: both have locked their offers, the partner has
  clicked; the cells offered are there and have room in the other bag.  How many they are is not said
  here: what follows holds for at most one on each side and says so.\<close>

definition ready_to_click :: "main_env \<Rightarrow> u32 \<Rightarrow> bag_row list \<Rightarrow> u32 \<Rightarrow> bag_row list \<Rightarrow> main_state \<Rightarrow> bool" where
  "ready_to_click env A bsA B bsB ms \<longleftrightarrow> (let tA = trade_of A ms; tB = trade_of B ms; xs = ti_tradeCellIndex tA; ys = ti_tradeCellIndex tB
     in A \<noteq> B \<and> online A ms \<and> online B ms \<and> ti_tradeRoleID tA = B \<and> ti_isLockTrade tA = 1 \<and> ti_isLockTrade tB = 1 \<and> ti_isTrade tB = 1 \<and>
       bag_fine A ms \<and> bag_fine B ms \<and> offer_taken env A xs bsA ms \<and> offer_taken env B ys bsB ms \<and>
       length xs = length bsA \<and> length ys = length bsB \<and> length xs \<le> length (free_of B ms) \<and>
       length ys \<le> length (free_of A ms) \<and> (\<forall>b \<in> set (bsA @ bsB). row_ok b))"

lemma click_completes:
  assumes "idle ms" "reliable ms" "ready_to_click env A bsA B bsB ms"
    and "length (ti_tradeCellIndex (trade_of A ms)) \<le> 1" "length (ti_tradeCellIndex (trade_of B ms)) \<le> 1"
  shows "\<exists>ms'. click_trade env A ms = Some ((0, True, role_at A (ms_core ms), role_at B (ms_core ms)), ms') \<and>
    tb_Bag (db_of ms') = filter (\<lambda>b. \<not> in_cells A (ti_tradeCellIndex (trade_of A ms)) b \<and> \<not> in_cells B (ti_tradeCellIndex (trade_of B ms)) b)
        (tb_Bag (db_of ms)) @
      map2 (moved B) (take (length bsA) (free_of B ms)) bsA @ map2 (moved A) (take (length bsB) (free_of A ms)) bsB \<and>
    tb_RoleMoney (db_of ms') = tb_RoleMoney (money_swapped (trade_of A ms) (trade_of B ms) (db_of ms)) \<and>
    trade_of A ms' = TradeItem_new \<and> trade_of B ms' = TradeItem_new"
proof -
  let ?tA = "trade_of A ms" and ?tB = "trade_of B ms"
  have r: "A \<noteq> B" "online A ms" "online B ms" "ti_tradeRoleID ?tA = B" "ti_isLockTrade ?tA = 1" "ti_isLockTrade ?tB = 1" "ti_isTrade ?tB = 1"
    "bag_fine A ms" "bag_fine B ms" "offer_taken env A (ti_tradeCellIndex ?tA) bsA ms" "offer_taken env B (ti_tradeCellIndex ?tB) bsB ms"
    "length (ti_tradeCellIndex ?tA) = length bsA" "length (ti_tradeCellIndex ?tB) = length bsB"
    "length (ti_tradeCellIndex ?tA) \<le> 1" "length (ti_tradeCellIndex ?tB) \<le> 1"
    "length (ti_tradeCellIndex ?tA) \<le> length (free_of B ms)" "length (ti_tradeCellIndex ?tB) \<le> length (free_of A ms)"
    "\<forall>b \<in> set (bsA @ bsB). row_ok b"
    using assms(3-5) unfolding ready_to_click_def Let_def by auto
  obtain ms3 where 3: "TradeItem env A (ti_tradeCellIndex ?tA) B (ti_tradeCellIndex ?tB) ms = Some (1, ms3)"
     "became (\<lambda>t. add_bags (map2 (moved A) (take (length bsB) (free_of A ms)) bsB)
        (add_bags (map2 (moved B) (take (length bsA) (free_of B ms)) bsA)
        (drop_bag (in_cells B (ti_tradeCellIndex ?tB)) (drop_bag (in_cells A (ti_tradeCellIndex ?tA)) t)))) ms ms3"
    using TradeItem_moves[OF assms(1,2) r(1,10,11,8,9,17,16,12,13,14,15,18)] unfolding r(12,13) by blast
  obtain ms4 where 4: "TradeMoney env ?tA ?tB ms3 = (0, ms4)" "db_of ms4 = money_swapped ?tA ?tB (db_of ms3)" "ms_core ms4 = ms_core ms3"
    using TradeMoney_swaps[of ms3 env ?tA ?tB] assms(2) became_reliable[OF 3(2)] by auto
  have same: "idle ms4" "online A ms4" "online B ms4"
    using assms(1) r(2,3) 4(3) became_core[OF 3(2)] by (simp_all add: idle_def online_def)
  have click: "click_trade env A ms = Some ((0, True, role_at A (ms_core ms), role_at B (ms_core ms)),
      set_trade B TradeItem_new (set_trade A TradeItem_new ms4))"
    using r(1-7) 3(1) 4(1) same assms(1)
    by (simp add: click_trade_def role_of_here online_def[symmetric] InitTradeItem_sets Let_def del: online_def)
  have "tb_RoleMoney (db_of ms3) = tb_RoleMoney (db_of ms)" "tb_Bag (db_of ms4) = tb_Bag (db_of ms3)"
    using became_exchange[OF 3(2)] 4(2) by (simp_all add: money_swapped_def on_Money_def)
  then show ?thesis
    using click same r(1) became_exchange(1)[OF 3(2)] 4(2) by (simp add: money_swapped_def on_Money_def)
qed


section \<open>Messages\<close>

lemma online_ID: "online R ms \<Longrightarrow> ID (role_at R (ms_core ms)) \<noteq> 0"
  by (simp add: online_def)

lemma emit_emit [simp]: "emit b (emit a ms) = emit (a @ b) ms"
  by (simp add: emit_def)

lemma emit_some [simp]: "\<exists>out. emit a ms = emit out ms"
  by blast

lemma Trade_message:
  assumes "p_MsgType req = 1306" "click_trade env (p_RoleID req) ms = Some ((0, True, self, dest), ms1)"
  shows "\<exists>out. Trade_OnProcessPacket env req ms = Some (emit out ms1)"
  using assms by (simp add: Trade_OnProcessPacket_def ProcessTrade_def GetErrorCode_def Serializer_new_def NotifyTradeOk_def Let_def)

text \<open>
  C9: the second click carries a trade out in which each side offers at most one cell: what each side
  offered is in the other's bag, the money has changed hands, and neither role is on a trade any more.
  With two or more cells on a side the offers are destroyed instead, see C23.
\<close>

theorem trade_goes_through:
  assumes "idle ms" "reliable ms" "p_MsgType req = 1306" "ready_to_click env (p_RoleID req) bsA B bsB ms"
    and "length (ti_tradeCellIndex (trade_of (p_RoleID req) ms)) \<le> 1" "length (ti_tradeCellIndex (trade_of B ms)) \<le> 1"
  shows "\<exists>ms'. Trade_OnProcessPacket env req ms = Some ms' \<and>
    (let A = p_RoleID req in
     tb_Bag (db_of ms') = filter (\<lambda>b. \<not> in_cells A (ti_tradeCellIndex (trade_of A ms)) b \<and>
          \<not> in_cells B (ti_tradeCellIndex (trade_of B ms)) b) (tb_Bag (db_of ms)) @
        map2 (moved B) (take (length bsA) (free_of B ms)) bsA @ map2 (moved A) (take (length bsB) (free_of A ms)) bsB \<and>
     tb_RoleMoney (db_of ms') = tb_RoleMoney (money_swapped (trade_of A ms) (trade_of B ms) (db_of ms)) \<and>
     trade_of A ms' = TradeItem_new \<and> trade_of B ms' = TradeItem_new)"
proof -
  obtain ms1 where 1: "click_trade env (p_RoleID req) ms =
      Some ((0, True, role_at (p_RoleID req) (ms_core ms), role_at B (ms_core ms)), ms1)"
    "tb_Bag (db_of ms1) = filter (\<lambda>b. \<not> in_cells (p_RoleID req) (ti_tradeCellIndex (trade_of (p_RoleID req) ms)) b \<and>
          \<not> in_cells B (ti_tradeCellIndex (trade_of B ms)) b) (tb_Bag (db_of ms)) @
        map2 (moved B) (take (length bsA) (free_of B ms)) bsA @
        map2 (moved (p_RoleID req)) (take (length bsB) (free_of (p_RoleID req) ms)) bsB"
    "tb_RoleMoney (db_of ms1) = tb_RoleMoney (money_swapped (trade_of (p_RoleID req) ms) (trade_of B ms) (db_of ms))"
    "trade_of (p_RoleID req) ms1 = TradeItem_new" "trade_of B ms1 = TradeItem_new"
    using click_completes[OF assms(1,2,4-6)] by blast
  show ?thesis using Trade_message[OF assms(3) 1(1)] 1(2-) by (auto simp: Let_def)
qed

text \<open>The body of an answer that accepts, and of an offer of money without items.\<close>

definition accept_body :: "u32 \<Rightarrow> u8 list" where
  "accept_body who = bytes_of_word 4 who @ [1]"

definition offer_body :: "u32 \<Rightarrow> u32 \<Rightarrow> u32 \<Rightarrow> u8 list" where
  "offer_body who money gold = bytes_of_word 4 who @ bytes_of_word 4 money @ bytes_of_word 4 gold @ [0, 0]"

lemma accept_message:
  assumes "idle ms" "p_MsgType req = 1302" "holds (p_buffer req) (accept_body who)" "who \<noteq> p_RoleID req"
    "online (p_RoleID req) ms" "online who ms" "ti_tradeRoleID (trade_of who ms) \<noteq> p_RoleID req"
  shows "\<exists>out. Trade_OnProcessPacket env req ms = Some (emit out
    (set_trade (p_RoleID req) (on_trade_with who (trade_of (p_RoleID req) ms)) (set_trade who (on_trade_with (p_RoleID req) (trade_of who ms)) ms)))"
proof -
  obtain s where s: "get_UInt32 0 (Serializer_new (p_buffer req)) = (who, s)" "ser_ok s" "remaining s = [1]"
    using request_role[of req who "[1]"] assms(3) by (auto simp: accept_body_def)
  obtain s' where s': "get_Byte 0 s = (1, s')" "GetErrorCode s' = 0"
    using request_byte[OF s(2,3)] by blast
  show ?thesis
    using assms(1,2,4-7)
    by (simp add: Trade_OnProcessPacket_def ProcessAnswerTrade_def s(1) s' Let_def role_of_here online_ID TradeInfo_sets
        NotifyRequestResult_def)
qed

lemma lock_message:
  assumes "idle ms" "p_MsgType req = 1304" "holds (p_buffer req) (offer_body who money gold)" "who \<noteq> p_RoleID req"
    "online (p_RoleID req) ms" "ti_isOnTrade (trade_of (p_RoleID req) ms) = 1" "ti_tradeRoleID (trade_of (p_RoleID req) ms) = who"
  shows "\<exists>out. Trade_OnProcessPacket env req ms = Some (emit out
    (set_trade (p_RoleID req) (lock_trade money gold [] (trade_of (p_RoleID req) ms)) ms))"
proof -
  obtain s where s: "get_UInt32 0 (Serializer_new (p_buffer req)) = (who, s)" "ser_ok s"
      "remaining s = bytes_of_word 4 money @ bytes_of_word 4 gold @ [0, 0]"
    using request_role[of req who "bytes_of_word 4 money @ bytes_of_word 4 gold @ [0, 0]"] assms(3) by (auto simp: offer_body_def)
  have "word_of_bytes [0, 0] = (0 :: u16)" by code_simp
  then have g: "get_UInt32 0 s = (money, ser_advance 4 s)" "get_UInt32 0 (ser_advance 4 s) = (gold, ser_advance 8 s)"
      "get_UInt16 0 (ser_advance 8 s) = (0, ser_advance 10 s)" "GetErrorCode (ser_advance 10 s) = 0"
    using s(2,3) by (simp_all add: wire GetErrorCode_def ser_ok_err)
  show ?thesis
    using assms(1,2,4-7)
    by (simp add: Trade_OnProcessPacket_def ProcessLockTrade_def s(1) g get_List_def Let_def role_of_here online_ID TradeInfo_sets
        NotifyLockTrade_def)
qed

fun serve_trades :: "main_env \<Rightarrow> packet list \<Rightarrow> main_state \<Rightarrow> main_state option" where
  "serve_trades env [] ms = Some ms"
| "serve_trades env (req # reqs) ms = do { ms1 \<leftarrow> Trade_OnProcessPacket env req ms; serve_trades env reqs ms1 }"

lemma ready_emit [simp]: "ready_to_click env A bsA B bsB (emit out ms) = ready_to_click env A bsA B bsB ms"
  by (simp add: ready_to_click_def)

lemma empty_offer [simp]: "offer_taken env R [] [] ms"
  by (simp add: offer_taken_def in_cells_def cell_list_text_def)

lemma serve_click:
  assumes "idle ms" "reliable ms" "p_MsgType req = 1306" "ready_to_click env (p_RoleID req) bsA B bsB ms"
    and "length (ti_tradeCellIndex (trade_of (p_RoleID req) ms)) \<le> 1" "length (ti_tradeCellIndex (trade_of B ms)) \<le> 1"
  shows "\<exists>ms'. serve_trades env [req] (emit out ms) = Some ms' \<and>
    tb_Bag (db_of ms') = filter (\<lambda>b. \<not> in_cells (p_RoleID req) (ti_tradeCellIndex (trade_of (p_RoleID req) ms)) b \<and>
          \<not> in_cells B (ti_tradeCellIndex (trade_of B ms)) b) (tb_Bag (db_of ms)) @
        map2 (moved B) (take (length bsA) (free_of B ms)) bsA @
        map2 (moved (p_RoleID req)) (take (length bsB) (free_of (p_RoleID req) ms)) bsB \<and>
    tb_RoleMoney (db_of ms') = tb_RoleMoney (money_swapped (trade_of (p_RoleID req) ms) (trade_of B ms) (db_of ms))"
proof -
  have pre: "idle (emit out ms)" "reliable (emit out ms)" "ready_to_click env (p_RoleID req) bsA B bsB (emit out ms)"
    "length (ti_tradeCellIndex (trade_of (p_RoleID req) (emit out ms))) \<le> 1" "length (ti_tradeCellIndex (trade_of B (emit out ms))) \<le> 1"
    using assms by simp_all
  obtain self dest ms1 where 1: "click_trade env (p_RoleID req) (emit out ms) = Some ((0, True, self, dest), ms1)"
    "tb_Bag (db_of ms1) = filter (\<lambda>b. \<not> in_cells (p_RoleID req) (ti_tradeCellIndex (trade_of (p_RoleID req) ms)) b \<and>
          \<not> in_cells B (ti_tradeCellIndex (trade_of B ms)) b) (tb_Bag (db_of ms)) @
        map2 (moved B) (take (length bsA) (free_of B ms)) bsA @
        map2 (moved (p_RoleID req)) (take (length bsB) (free_of (p_RoleID req) ms)) bsB"
    "tb_RoleMoney (db_of ms1) = tb_RoleMoney (money_swapped (trade_of (p_RoleID req) ms) (trade_of B ms) (db_of ms))"
    using click_completes[OF pre] by auto
  show ?thesis using Trade_message[OF assms(3) 1(1)] 1(2,3) by auto
qed

text \<open>
  C10: anybody can take what a role has on the table in a trade with somebody else, once that role has
  locked and clicked: an answer to a request never made, an empty offer and a click are enough, and the
  waiting role gets nothing.
\<close>

theorem stranger_takes_offer:
  assumes "idle ms" "reliable ms" "online S ms" "online V ms" "ti_tradeRoleID (trade_of V ms) \<noteq> S"
    and "p_RoleID r1 = S" "p_MsgType r1 = 1302" "holds (p_buffer r1) (accept_body V)"
    and "p_RoleID r2 = S" "p_MsgType r2 = 1304" "holds (p_buffer r2) (offer_body V 0 0)"
    and "p_RoleID r3 = S" "p_MsgType r3 = 1306"
    and "V \<noteq> S" "ti_isLockTrade (trade_of V ms) = 1" "ti_isTrade (trade_of V ms) = 1" "ti_tradeCellIndex (trade_of V ms) = [c]"
    and "offer_taken env V [c] [b] ms" "row_ok b" "bag_fine S ms" "bag_fine V ms" "free_of S ms = f # fs" "ti_tradeCellIndex (trade_of S ms) = []"
  shows "\<exists>ms'. serve_trades env [r1, r2, r3] ms = Some ms' \<and>
    tb_Bag (db_of ms') = filter (\<lambda>b. \<not> in_cells V [c] b) (tb_Bag (db_of ms)) @ [moved S f b] \<and>
    tb_RoleMoney (db_of ms') = tb_RoleMoney (on_Money V (pay 0 (ti_tradeMoney (trade_of V ms)) 0 (ti_tradeGold (trade_of V ms)))
      (on_Money S (pay (ti_tradeMoney (trade_of V ms)) 0 (ti_tradeGold (trade_of V ms)) 0) (db_of ms)))"
proof -
  let ?ms1 = "set_trade S (on_trade_with V (trade_of S ms)) (set_trade V (on_trade_with S (trade_of V ms)) ms)"
  obtain out1 where 1: "Trade_OnProcessPacket env r1 ms = Some (emit out1 ?ms1)"
    using accept_message[of ms r1 V env] assms by auto
  let ?ms2 = "set_trade S (lock_trade 0 0 [] (trade_of S ?ms1)) (emit out1 ?ms1)"
  obtain out2 where 2: "Trade_OnProcessPacket env r2 (emit out1 ?ms1) = Some (emit out2 ?ms2)"
    using lock_message[of "emit out1 ?ms1" r2 V 0 0 env] assms by (auto simp: on_trade_with_def)
  have "ready_to_click env S [] V [b] ?ms2"
    using assms by (simp add: ready_to_click_def on_trade_with_def lock_trade_def)
  then obtain ms3 where 3: "serve_trades env [r3] (emit out2 ?ms2) = Some ms3"
      "tb_Bag (db_of ms3) = filter (\<lambda>b. \<not> in_cells S [] b \<and> \<not> in_cells V [c] b) (tb_Bag (db_of ms)) @ [moved S f b]"
      "tb_RoleMoney (db_of ms3) = tb_RoleMoney (money_swapped (trade_of S ?ms2) (trade_of V ?ms2) (db_of ms))"
    using serve_click[of ?ms2 r3 env "[]" V "[b]" out2] assms by (auto simp: on_trade_with_def lock_trade_def)
  then show ?thesis
    using 1 2 assms(3,4,14) by (simp add: money_swapped_def on_trade_with_def lock_trade_def in_cells_def)
qed

lemma lock_trade_no_cells [simp]: "ti_tradeCellIndex (lock_trade money gold [] t) = ti_tradeCellIndex t"
  by (simp add: lock_trade_def)

text \<open>
  C24: an offer of 2^32 - k, which is - k as a word, takes k from the partner: amounts are not compared with the balance when they are
  locked, and are written as signed numbers.  It works until the last moment, when the partner has locked
  and clicked.
\<close>

theorem negative_offer_steals:
  assumes "idle ms" "reliable ms" "online A ms" "online B ms" "A \<noteq> B" "0 < k" "k < 2 ^ 31"
    and "p_RoleID r1 = A" "p_MsgType r1 = 1304" "holds (p_buffer r1) (offer_body B (- word_of_int k) 0)"
    and "p_RoleID r2 = A" "p_MsgType r2 = 1306"
    and "ti_isOnTrade (trade_of A ms) = 1" "ti_tradeRoleID (trade_of A ms) = B" "ti_tradeRoleID (trade_of B ms) = A"
    and "ti_isLockTrade (trade_of B ms) = 1" "ti_isTrade (trade_of B ms) = 1" "ti_tradeMoney (trade_of B ms) = 0" "ti_tradeGold (trade_of B ms) = 0"
    and "ti_tradeCellIndex (trade_of A ms) = []" "ti_tradeCellIndex (trade_of B ms) = []" "bag_fine A ms" "bag_fine B ms"
  shows "\<exists>ms'. serve_trades env [r1, r2] ms = Some ms' \<and>
    tb_RoleMoney (db_of ms') = tb_RoleMoney (on_Money B (\<lambda>m. m\<lparr>mn_Money := mn_Money m - k\<rparr>)
      (on_Money A (\<lambda>m. m\<lparr>mn_Money := mn_Money m + k\<rparr>) (db_of ms)))"
proof -
  let ?w = "- word_of_int k :: u32"
  have w: "d32 ?w = - k" "d32 0 = 0"
    using assms(6,7) d32_of_int[of "- k"] by (simp_all add: d32_zero)
  let ?ms1 = "set_trade A (lock_trade ?w 0 [] (trade_of A ms)) ms"
  obtain out1 where 1: "Trade_OnProcessPacket env r1 ms = Some (emit out1 ?ms1)"
    using lock_message[of ms r1 B ?w 0 env] assms by (auto simp: on_trade_with_def)
  have "ready_to_click env A [] B [] ?ms1"
    using assms by (simp add: ready_to_click_def lock_trade_def)
  then obtain ms2 where 2: "serve_trades env [r2] (emit out1 ?ms1) = Some ms2"
      "tb_RoleMoney (db_of ms2) = tb_RoleMoney (money_swapped (trade_of A ?ms1) (trade_of B ?ms1) (db_of ms))"
    using serve_click[of ?ms1 r2 env "[]" B "[]" out1] assms by auto
  have "pay ?w 0 0 0 = (\<lambda>m. m\<lparr>mn_Money := mn_Money m - k\<rparr>)" "pay 0 ?w 0 0 = (\<lambda>m. m\<lparr>mn_Money := mn_Money m + k\<rparr>)"
    unfolding pay_def w by simp_all
  then show ?thesis
    using 1 2 assms(3,5,14,15,18,19) by (simp add: money_swapped_def lock_trade_def)
qed

section \<open>Witnesses\<close>

text \<open>Roles 7 and 8 on map 1 of a server, with given offers; and messages.\<close>

definition demo_trader :: "u32 \<Rightarrow> TradeItem \<Rightarrow> role" where
  "demo_trader R t = set_TradeInfo t (set_ID R (Role_new 0 0))"

definition demo_market :: "TradeItem \<Rightarrow> TradeItem \<Rightarrow> tables \<Rightarrow> main_state" where
  "demo_market t7 t8 t = (demo_main t)\<lparr>ms_core := (CoreData_new 1)\<lparr>cd_mapRoleMapID := [(7, 1), (8, 1)],
     cd_vecMap := [\<lparr>gm_mapID = 1, gm_mapRole = [(7, demo_trader 7 t7), (8, demo_trader 8 t8)]\<rparr>]\<rparr>\<rparr>"

definition trade_request :: "u32 \<Rightarrow> u16 \<Rightarrow> u8 list \<Rightarrow> packet" where
  "trade_request R type body = demo_packet\<lparr>p_RoleID := R, p_MsgType := type,
     p_buffer := append_db body (DataBuffer_new 64 (replicate 64 0))\<rparr>"

lemma trade_request_sel [simp]: "p_RoleID (trade_request R type body) = R" "p_MsgType (trade_request R type body) = type"
  by (simp_all add: trade_request_def)

lemma trade_request_holds: "length body \<le> 64 \<Longrightarrow> holds (p_buffer (trade_request R type body)) body"
  using holds_append [of "DataBuffer_new 64 (replicate 64 0)" "[]" body]
  by (simp add: trade_request_def holds_def db_inv_def DataBuffer_new_def unread_def space_def)

lemma demo_body_holds [simp]:
  "holds (p_buffer (trade_request R type (accept_body who))) (accept_body who)"
  "holds (p_buffer (trade_request R type (offer_body who money gold))) (offer_body who money gold)"
  by (simp_all add: trade_request_holds accept_body_def offer_body_def)

lemma demo_market_roles:
  "role_at 7 (ms_core (demo_market t7 t8 t)) = demo_trader 7 t7" "role_at 8 (ms_core (demo_market t7 t8 t)) = demo_trader 8 t8"
  by (simp_all add: role_at_def ptr_at_def demo_market_def demo_main_def CoreData_new_def smap_find_def CheckMapID_def Map_GetRolePtr_def deref_def)

lemma demo_trader_sel [simp]: "ID (demo_trader R t) = R" "TradeInfo (demo_trader R t) = t" "TopCellNum (demo_trader R t) = 0"
proof -
  have "TopCellNum (Role_new 0 0) = 0" by code_simp
  then show "ID (demo_trader R t) = R" "TradeInfo (demo_trader R t) = t" "TopCellNum (demo_trader R t) = 0"
    by (simp_all add: demo_trader_def) (simp_all add: ID_def set_ID_def TopCellNum_def)
qed

lemma demo_market_sel [simp]:
  "idle (demo_market t7 t8 t)" "reliable (demo_market t7 t8 t)" "db_of (demo_market t7 t8 t) = t"
  "online 7 (demo_market t7 t8 t)" "online 8 (demo_market t7 t8 t)"
  "trade_of 7 (demo_market t7 t8 t) = t7" "trade_of 8 (demo_market t7 t8 t) = t8"
  "cell_cap 7 (ms_core (demo_market t7 t8 t)) = 25" "cell_cap 8 (ms_core (demo_market t7 t8 t)) = 25"
  by (simp_all add: online_def demo_market_roles cell_cap_def)
    (simp_all add: demo_market_def demo_main_def idle_def reliable_def CoreData_new_def)

lemma demo_market_bags:
  "bag_fine 7 (demo_market t7 t8 demo_bags)" "bag_fine 8 (demo_market t7 t8 demo_bags)"
  "free_cells (taken 7 demo_bags) 25 = 2 # [4..<26]" "free_cells (taken 8 demo_bags) 25 = [2..<26]"
  using demo_fine demo_free_cells by (simp_all add: bag_fine_def del: One_nat_def)

lemma demo_market_offers:
  "offer_taken env 7 [1] [bag_item 7 1 500 1] (demo_market t7 t8 demo_bags)"
  "offer_taken env 8 [1] [bag_item 8 1 502 4] (demo_market t7 t8 demo_bags)"
  using demo_offers by (simp_all add: offer_taken_def)

lemma demo_rows_ok: "row_ok (bag_item 7 1 500 1)" "row_ok (bag_item 8 1 502 4)"
  by (simp_all add: row_ok_def bag_item_def)

definition demo_offer :: "u32 \<Rightarrow> u32 \<Rightarrow> u16 list \<Rightarrow> TradeItem" where
  "demo_offer who money cells = TradeItem_new\<lparr>ti_isOnTrade := 1, ti_tradeRoleID := who, ti_isLockTrade := 1, ti_isTrade := 1,
     ti_tradeMoney := money, ti_tradeCellIndex := cells\<rparr>"

lemma demo_offer_sel [simp]:
  "ti_isOnTrade (demo_offer who money cells) = 1" "ti_tradeRoleID (demo_offer who money cells) = who"
  "ti_isLockTrade (demo_offer who money cells) = 1" "ti_isTrade (demo_offer who money cells) = 1"
  "ti_tradeMoney (demo_offer who money cells) = money" "ti_tradeGold (demo_offer who money cells) = 0"
  "ti_tradeCellIndex (demo_offer who money cells) = cells"
  by (simp_all add: demo_offer_def TradeItem_new_def)

definition demo_purses :: tables where
  "demo_purses = demo_bags\<lparr>tb_RoleMoney := [\<lparr>mn_RoleID = 7, mn_Money = 100, mn_BindMoney = 30, mn_Gold = 5\<rparr>,
     \<lparr>mn_RoleID = 8, mn_Money = 100, mn_BindMoney = 0, mn_Gold = 0\<rparr>]\<rparr>"

theorem trade_goes_through_witness:
  "\<exists>ms'. Trade_OnProcessPacket demo_menv (trade_request 7 1306 []) (demo_market (demo_offer 8 0 [1]) (demo_offer 7 0 [1]) demo_bags) = Some ms' \<and>
    tb_Bag (db_of ms') = [bag_item 7 3 501 1, bag_item 8 2 500 1, bag_item 7 2 502 4]"
  using trade_goes_through[of "demo_market (demo_offer 8 0 [1]) (demo_offer 7 0 [1]) demo_bags" "trade_request 7 1306 []" demo_menv
      "[bag_item 7 1 500 1]" 8 "[bag_item 8 1 502 4]"]
  apply (simp add: ready_to_click_def Let_def demo_market_bags demo_market_offers demo_rows_ok del: demo_tables demo_cap)
  by (auto simp: demo_bags_def no_tables_def bag_item_def in_cells_def d32_def d16_def upt_conv_Cons moved_def)

theorem stranger_takes_offer_witness:
  "\<exists>ms'. serve_trades demo_menv [trade_request 8 1302 (accept_body 7), trade_request 8 1304 (offer_body 7 0 0), trade_request 8 1306 []]
      (demo_market (demo_offer 9 0 [1]) TradeItem_new demo_bags) = Some ms' \<and>
    tb_Bag (db_of ms') = [bag_item 7 3 501 1, bag_item 8 1 502 4, bag_item 8 2 500 1]"
  using stranger_takes_offer[of "demo_market (demo_offer 9 0 [1]) TradeItem_new demo_bags" 8 7
      "trade_request 8 1302 (accept_body 7)" "trade_request 8 1304 (offer_body 7 0 0)" "trade_request 8 1306 []" 1 demo_menv
      "bag_item 7 1 500 1" 2 "[3..<26]"]
  apply (simp add: demo_market_bags demo_market_offers demo_rows_ok upt_conv_Cons TradeItem_new_def del: demo_tables demo_cap)
  by (auto simp: demo_bags_def no_tables_def bag_item_def in_cells_def d32_def d16_def moved_def)

theorem negative_offer_steals_witness:
  "\<exists>ms'. serve_trades demo_menv [trade_request 7 1304 (offer_body 8 (- word_of_int 60) 0), trade_request 7 1306 []]
      (demo_market (demo_offer 8 0 []) (demo_offer 7 0 []) demo_purses) = Some ms' \<and>
    map mn_Money (tb_RoleMoney (db_of ms')) = [160, 40]"
  using negative_offer_steals[of "demo_market (demo_offer 8 0 []) (demo_offer 7 0 []) demo_purses" 7 8 60
      "trade_request 7 1304 (offer_body 8 (- word_of_int 60) 0)" "trade_request 7 1306 []" demo_menv]
  by (auto simp: bag_fine_def bag_ok_def role_bag_def demo_purses_def demo_bags_def no_tables_def bag_item_def on_Money_def d32_def)

theorem trade_conserves_money_witness:
  "\<exists>ms'. TradeMoney demo_menv (demo_offer 8 30 []) (demo_offer 7 10 []) (demo_main demo_purses) = (0, ms') \<and>
    sum_list (map mn_Money (tb_RoleMoney (db_of ms'))) = 200"
  using trade_conserves_money[of "demo_main demo_purses" "demo_offer 8 30 []" "demo_offer 7 10 []" demo_menv]
  by (auto simp: money_of_def demo_purses_def d32_def)

end
