(* ===== verification/Task_Lua.thy ===== *)
theory Task_Lua
  imports Bag_Drop
begin

text \<open>
  The scripts of tasks: the C functions of \<^verbatim>\<open>MainServer/Task/TaskLua.cpp\<close>, the functions
  of \<^verbatim>\<open>TaskSvc.cpp\<close> behind them, and the run of a script, which is a conversation between the
  Lua library (\<open>me_lua\<close>) and these functions.
\<close>

section \<open>Behind the C functions\<close>

text \<open>\<^verbatim>\<open>CoreData::RoleExpAdd\<close>.\<close>

definition CoreData_RoleExpAdd :: "main_env \<Rightarrow> u32 \<Rightarrow> i32 \<Rightarrow> main_state \<Rightarrow> (i32 \<times> main_state) option" where
  "CoreData_RoleExpAdd env roleID input ms = do {
     (mapID, cd1) \<leftarrow> FindRoleMapID (me_relock env) roleID (ms_core ms);
     let ms1 = ms\<lparr>ms_core := cd1\<rparr>;
     if mapID = 0 then Some (0, emit [OfflineExp roleID input] ms1)
     else if CheckMapID mapID cd1 \<noteq> 0 then Some (- 1, ms1)
     else do {
       (p, cd2) \<leftarrow> ProcessGetRolePtr (me_relock env) roleID cd1;
       (iRet, r) \<leftarrow> RoleExpAdd (me_level env) input (deref p cd2);
       let ms2 = ms1\<lparr>ms_core := upd_role p (\<lambda>_. r) cd2\<rparr>;
       Some (iRet, if 1 \<le> sint iRet then emit [LevelUp roleID] ms2 else emit [ExpGain roleID input] ms2)
     }
   }"

definition AddRoleExp :: "main_env \<Rightarrow> u32 \<Rightarrow> u32 \<Rightarrow> main_state \<Rightarrow> (i32 \<times> main_state) option" where
  "AddRoleExp env roleID num = CoreData_RoleExpAdd env roleID num"

definition AddRoleMoney :: "main_env \<Rightarrow> u32 \<Rightarrow> u32 \<Rightarrow> main_state \<Rightarrow> i16 \<times> main_state" where
  "AddRoleMoney env roleID money = Getmoney env roleID money"

definition AddRoleBindMoney :: "main_env \<Rightarrow> u32 \<Rightarrow> u32 \<Rightarrow> main_state \<Rightarrow> i16 \<times> main_state" where
  "AddRoleBindMoney env roleID money = GetBindMoney env roleID money"

definition AddRoleItem :: "main_env \<Rightarrow> u32 \<Rightarrow> u32 \<Rightarrow> u32 \<Rightarrow> main_state \<Rightarrow> (int \<times> main_state) option" where
  "AddRoleItem env roleID ItemID num = RoleGetItem env roleID [\<lparr>il_ItemID = ItemID, il_num = ucast num\<rparr>]"

definition DeleteItem :: "main_env \<Rightarrow> u32 \<Rightarrow> u32 \<Rightarrow> u32 \<Rightarrow> main_state \<Rightarrow> (int \<times> main_state) option" where
  "DeleteItem env roleID ItemID num = RoleDropItem env roleID [\<lparr>il_ItemID = ItemID, il_num = ucast num\<rparr>]"

definition callNotifybag :: "main_env \<Rightarrow> u32 \<Rightarrow> ItemCell list \<Rightarrow> u8 \<Rightarrow> main_state \<Rightarrow> main_state" where
  "callNotifybag env roleID lic flag = NotifyBag env roleID lic"

section \<open>C functions\<close>

text \<open>The role is the one the script runs for, the task the global of the Lua state.  A function pushes a
  number or nothing.\<close>

definition Lua_GetRoleTaskStatus :: "main_env \<Rightarrow> u32 \<Rightarrow> u32 \<Rightarrow> main_state \<Rightarrow> (u32 option \<times> main_state) option" where
  "Lua_GetRoleTaskStatus env roleID taskID ms = do {
     ((iRet, status), ms1) \<leftarrow> GetRoleTaskStatus env roleID taskID ms;
     Some (if iRet \<noteq> 0 then None else Some (ucast status), ms1)
   }"

definition Lua_GetRoleProID :: "main_env \<Rightarrow> u32 \<Rightarrow> main_state \<Rightarrow> (u32 option \<times> main_state) option" where
  "Lua_GetRoleProID env roleID ms = do {
     ((iRet, proID), ms1) \<leftarrow> GetRoleProID env roleID ms;
     Some (if iRet \<noteq> 0 then None else Some proID, ms1)
   }"

definition Lua_AddRoleMoney :: "main_env \<Rightarrow> u32 \<Rightarrow> u32 \<Rightarrow> main_state \<Rightarrow> (u32 option \<times> main_state) option" where
  "Lua_AddRoleMoney env roleID num ms = Some (None, snd (AddRoleMoney env roleID num ms))"

definition Lua_AddRoleBindMoney :: "main_env \<Rightarrow> u32 \<Rightarrow> u32 \<Rightarrow> main_state \<Rightarrow> (u32 option \<times> main_state) option" where
  "Lua_AddRoleBindMoney env roleID num ms = Some (None, snd (AddRoleBindMoney env roleID num ms))"

definition Lua_AddRoleExp :: "main_env \<Rightarrow> u32 \<Rightarrow> u32 \<Rightarrow> main_state \<Rightarrow> (u32 option \<times> main_state) option" where
  "Lua_AddRoleExp env roleID num ms = map_option (\<lambda>(_, ms1). (None, ms1)) (AddRoleExp env roleID num ms)"

definition Lua_AddRoleItem :: "main_env \<Rightarrow> u32 \<Rightarrow> u32 \<Rightarrow> u32 \<Rightarrow> main_state \<Rightarrow> (u32 option \<times> main_state) option" where
  "Lua_AddRoleItem env roleID ItemID num ms = map_option (\<lambda>(_, ms1). (None, ms1)) (AddRoleItem env roleID ItemID num ms)"

definition Lua_DeleteItem :: "main_env \<Rightarrow> u32 \<Rightarrow> u32 \<Rightarrow> u32 \<Rightarrow> main_state \<Rightarrow> (u32 option \<times> main_state) option" where
  "Lua_DeleteItem env roleID ItemID num ms = map_option (\<lambda>(_, ms1). (None, ms1)) (DeleteItem env roleID ItemID num ms)"

definition Lua_AddRoleTaskKillMonster :: "main_env \<Rightarrow> u32 \<Rightarrow> u32 \<Rightarrow> u32 \<Rightarrow> u32 \<Rightarrow> main_state \<Rightarrow> (u32 option \<times> main_state) option" where
  "Lua_AddRoleTaskKillMonster env roleID taskID goalID goalNum ms = Some (None, snd (AddRoleTaskDetail env roleID taskID 1 goalID goalNum ms))"

definition Lua_AddRoleTaskHoldItem :: "main_env \<Rightarrow> u32 \<Rightarrow> u32 \<Rightarrow> u32 \<Rightarrow> u32 \<Rightarrow> main_state \<Rightarrow> (u32 option \<times> main_state) option" where
  "Lua_AddRoleTaskHoldItem env roleID taskID goalID goalNum ms = Some (None, snd (AddRoleTaskDetail env roleID taskID 2 goalID goalNum ms))"

definition Lua_AddRoleTaskUseItem :: "main_env \<Rightarrow> u32 \<Rightarrow> u32 \<Rightarrow> u32 \<Rightarrow> main_state \<Rightarrow> (u32 option \<times> main_state) option" where
  "Lua_AddRoleTaskUseItem env roleID taskID goalID ms = Some (None, snd (AddRoleTaskDetail env roleID taskID 3 goalID 1 ms))"

definition Lua_AddRoleTaskDress :: "main_env \<Rightarrow> u32 \<Rightarrow> u32 \<Rightarrow> u32 \<Rightarrow> main_state \<Rightarrow> (u32 option \<times> main_state) option" where
  "Lua_AddRoleTaskDress env roleID taskID goalID ms = Some (None, snd (AddRoleTaskDetail env roleID taskID 4 goalID 1 ms))"

definition Lua_AddRoleTaskCallPet :: "main_env \<Rightarrow> u32 \<Rightarrow> u32 \<Rightarrow> u32 \<Rightarrow> main_state \<Rightarrow> (u32 option \<times> main_state) option" where
  "Lua_AddRoleTaskCallPet env roleID taskID goalID ms = Some (None, snd (AddRoleTaskDetail env roleID taskID 5 goalID 1 ms))"

definition Lua_AddRoleTaskLearnSkill :: "main_env \<Rightarrow> u32 \<Rightarrow> u32 \<Rightarrow> main_state \<Rightarrow> (u32 option \<times> main_state) option" where
  "Lua_AddRoleTaskLearnSkill env roleID taskID ms = Some (None, snd (AddRoleTaskDetail env roleID taskID 6 0 1 ms))"

definition Lua_AddRoleTaskComposeEquip :: "main_env \<Rightarrow> u32 \<Rightarrow> u32 \<Rightarrow> main_state \<Rightarrow> (u32 option \<times> main_state) option" where
  "Lua_AddRoleTaskComposeEquip env roleID taskID ms = Some (None, snd (AddRoleTaskDetail env roleID taskID 7 0 1 ms))"

definition Lua_AddRoleTaskAddFriend :: "main_env \<Rightarrow> u32 \<Rightarrow> u32 \<Rightarrow> main_state \<Rightarrow> (u32 option \<times> main_state) option" where
  "Lua_AddRoleTaskAddFriend env roleID taskID ms = Some (None, snd (AddRoleTaskDetail env roleID taskID 8 0 1 ms))"

definition Lua_AddRoleTaskAddTeam :: "main_env \<Rightarrow> u32 \<Rightarrow> u32 \<Rightarrow> main_state \<Rightarrow> (u32 option \<times> main_state) option" where
  "Lua_AddRoleTaskAddTeam env roleID taskID ms = Some (None, snd (AddRoleTaskDetail env roleID taskID 9 0 1 ms))"

section \<open>Running a script\<close>

definition lua_api :: "main_env \<Rightarrow> u32 \<Rightarrow> lua_call \<Rightarrow> main_state \<Rightarrow> (u32 option \<times> main_state) option" where
  "lua_api env roleID call ms =
     (let taskID = ms_luaTask ms
      in case call of
           LuaGetRoleTaskStatus k \<Rightarrow> Lua_GetRoleTaskStatus env roleID k ms
         | LuaGetRoleProID \<Rightarrow> Lua_GetRoleProID env roleID ms
         | LuaAddRoleMoney n \<Rightarrow> Lua_AddRoleMoney env roleID n ms
         | LuaAddRoleBindMoney n \<Rightarrow> Lua_AddRoleBindMoney env roleID n ms
         | LuaAddRoleExp n \<Rightarrow> Lua_AddRoleExp env roleID n ms
         | LuaAddRoleItem i n \<Rightarrow> Lua_AddRoleItem env roleID i n ms
         | LuaDeleteItem i n \<Rightarrow> Lua_DeleteItem env roleID i n ms
         | LuaAddRoleTaskKillMonster g n \<Rightarrow> Lua_AddRoleTaskKillMonster env roleID taskID g n ms
         | LuaAddRoleTaskHoldItem g n \<Rightarrow> Lua_AddRoleTaskHoldItem env roleID taskID g n ms
         | LuaAddRoleTaskUseItem g \<Rightarrow> Lua_AddRoleTaskUseItem env roleID taskID g ms
         | LuaAddRoleTaskDress g \<Rightarrow> Lua_AddRoleTaskDress env roleID taskID g ms
         | LuaAddRoleTaskCallPet g \<Rightarrow> Lua_AddRoleTaskCallPet env roleID taskID g ms
         | LuaAddRoleTaskLearnSkill \<Rightarrow> Lua_AddRoleTaskLearnSkill env roleID taskID ms
         | LuaAddRoleTaskComposeEquip \<Rightarrow> Lua_AddRoleTaskComposeEquip env roleID taskID ms
         | LuaAddRoleTaskAddFriend \<Rightarrow> Lua_AddRoleTaskAddFriend env roleID taskID ms
         | LuaAddRoleTaskAddTeam \<Rightarrow> Lua_AddRoleTaskAddTeam env roleID taskID ms)"

text \<open>A script may call for ever.\<close>

partial_function (option) run_script :: "main_env \<Rightarrow> nat \<Rightarrow> u8 list \<Rightarrow> u32 \<Rightarrow> u32 option list \<Rightarrow> main_state \<Rightarrow> (i32 \<times> main_state) option" where
  "run_script env n script roleID answers ms =
     (case me_lua env n script answers of
        Inr code \<Rightarrow> Some (code, ms)
      | Inl call \<Rightarrow> Option.bind (lua_api env roleID call ms) (\<lambda>(r, ms1). run_script env n script roleID (answers @ [r]) ms1))"

definition exec_script :: "main_env \<Rightarrow> u8 list \<Rightarrow> u32 \<Rightarrow> main_state \<Rightarrow> (i32 \<times> main_state) option" where
  "exec_script env script roleID ms =
     (if script = [] then Some (0, ms) else run_script env (db_time (ms_db ms)) script roleID [] ms)"

definition ExecCanAcceptScript :: "main_env \<Rightarrow> u32 \<Rightarrow> u8 list \<Rightarrow> main_state \<Rightarrow> (i32 \<times> main_state) option" where
  "ExecCanAcceptScript env roleID script ms = exec_script env script roleID ms"

definition ExecToDoScript :: "main_env \<Rightarrow> u32 \<Rightarrow> u32 \<Rightarrow> u8 list \<Rightarrow> main_state \<Rightarrow> (i32 \<times> main_state) option" where
  "ExecToDoScript env roleID taskID script ms =
     (if script = [] then Some (0, ms) else exec_script env script roleID (ms\<lparr>ms_luaTask := taskID\<rparr>))"

definition ExecAfterDeliverScript :: "main_env \<Rightarrow> u32 \<Rightarrow> u8 list \<Rightarrow> main_state \<Rightarrow> (i32 \<times> main_state) option" where
  "ExecAfterDeliverScript env roleID script ms = exec_script env script roleID ms"

end
