(* ===== verification/Task_Requests.thy ===== *)
theory Task_Requests
  imports Task_Lua
begin

text \<open>
  The requests of \<^verbatim>\<open>MainServer/Task/TaskSvc.cpp\<close>: the list of tasks, accepting,
  delivering and abandoning one.
\<close>


section \<open>Lists of tasks\<close>

definition can_accept_row :: "task_row \<Rightarrow> db_row" where
  "can_accept_row k = [db_int (tk_TaskID k), DStr (tk_TaskName k), db_int (tk_TaskType k), db_int 1, DStr (tk_CanAcceptScript k)]"

text \<open>Tasks the role has no record of, and daily ones that are delivered and not yet done as often as a
  day allows.\<close>

definition can_accept_rows :: "int \<Rightarrow> u32 \<Rightarrow> tables \<Rightarrow> db_row list" where
  "can_accept_rows level roleID t =
     distinct_values
       (map can_accept_row (filter (\<lambda>k. tk_MinLevel k \<le> level \<and>
            tk_TaskID k \<notin> set (map rt_TaskID (filter (\<lambda>r. rt_RoleID r = d32 roleID) (tb_RoleTask t)))) (tb_Task t)) @
        concat (map (\<lambda>k. map (\<lambda>r. can_accept_row k)
            (filter (\<lambda>r. tk_TaskType k = 3 \<and> tk_MinLevel k \<le> level \<and> level \<le> tk_MaxLevel k \<and> rt_RoleID r = d32 roleID \<and>
                tk_TaskID k = rt_TaskID r \<and> rt_FinishStatus r = 2 \<and> rt_DeliverNum r < tk_MaxAcceptNum k) (tb_RoleTask t)))
          (tb_Task t)))"

definition accepted_rows :: "u32 \<Rightarrow> tables \<Rightarrow> db_row list" where
  "accepted_rows roleID t =
     (let having = (\<lambda>finish status. map (\<lambda>k. [db_int (tk_TaskID k), DStr (tk_TaskName k), db_int (tk_TaskType k), db_int status])
            (filter (\<lambda>k. tk_TaskID k \<in> set (map rt_TaskID
               (filter (\<lambda>r. rt_RoleID r = d32 roleID \<and> rt_FinishStatus r = finish) (tb_RoleTask t)))) (tb_Task t)))
      in distinct_values (having 0 2 @ having 1 3))"

definition read_TaskInfo :: "db_row \<Rightarrow> ArchvTaskInfo" where
  "read_TaskInfo row = ArchvTaskInfo_new\<lparr>ai_taskID := GetIntField row 0, ai_taskName := GetStringField row 1,
     ai_taskType := ucast (GetIntField row 2), ai_taskStatus := ucast (GetIntField row 3)\<rparr>"

fun acceptable :: "main_env \<Rightarrow> u32 \<Rightarrow> db_row list \<Rightarrow> main_state \<Rightarrow> (ArchvTaskInfo list \<times> main_state) option" where
  "acceptable env roleID [] ms = Some ([], ms)"
| "acceptable env roleID (row # rows) ms = do {
     (iRet, ms1) \<leftarrow> ExecCanAcceptScript env roleID (GetStringField row 4) ms;
     (lti, ms2) \<leftarrow> acceptable env roleID rows ms1;
     Some (if iRet = 0 then read_TaskInfo row # lti else lti, ms2)
   }"

text \<open>The details of each task; the search ends at the first query that fails.\<close>

fun with_details :: "u32 \<Rightarrow> ArchvTaskInfo list \<Rightarrow> dbo \<Rightarrow> main_state \<Rightarrow> ((bool \<times> ArchvTaskInfo list) \<times> main_state) option" where
  "with_details roleID [] d ms = Some ((True, []), ms)"
| "with_details roleID (it # its) d ms = do {
     let (iRet, d1, ms1) = query (\<lambda>t. map detail_row (filter (is_detail roleID (ai_taskID it)) (tb_RoleTaskDetail t))) d ms;
     if iRet < 0 then Some ((False, it # its), ms1)
     else do {
       rows \<leftarrow> each_row d1;
       ((ok, rest), ms2) \<leftarrow> with_details roleID its (all_read d1) ms1;
       Some ((ok, it\<lparr>ai_ltd := ai_ltd it @ map read_detail rows\<rparr> # rest), ms2)
     }
   }"

definition GetRoleCanAcceptTask :: "main_env \<Rightarrow> u32 \<Rightarrow> ArchvTaskInfo list \<Rightarrow> main_state \<Rightarrow> (ArchvTaskInfo list \<times> main_state) option" where
  "GetRoleCanAcceptTask env roleID lti ms = do {
     (pRole, ms1) \<leftarrow> role_of env roleID ms;
     if ID pRole = 0 then Some (lti, ms1)
     else do {
       let (iRet, d, ms2) = query (can_accept_rows (d32 (Level pRole)) roleID) (dbo_new env) ms1;
       if iRet < 0 then Some (lti, ms2)
       else do {
         rows \<leftarrow> each_row d;
         (more, ms3) \<leftarrow> acceptable env roleID rows ms2;
         ((ok, lti'), ms4) \<leftarrow> with_details roleID (lti @ more) (all_read d) ms3;
         Some (lti', ms4)
       }
     }
   }"

definition NotifyTaskCanAccept :: "main_env \<Rightarrow> u32 \<Rightarrow> main_state \<Rightarrow> (unit \<times> main_state) option" where
  "NotifyTaskCanAccept env roleID ms = do {
     (lti, ms1) \<leftarrow> GetRoleCanAcceptTask env roleID [] ms;
     Some ((), tell roleID (notify_packet (me_svc env) 702 UniqID_task (put_List put_ArchvTaskInfo lti)) ms1)
   }"

text \<open>The task ids are added to one variable for all roles, so each role is listed with those of the
  roles before it too.\<close>

record ArchvUnfinishedTask =
  au_roleID :: u32
  au_licTaskID :: "u32 list"

fun GetRoleUnFinishedTask_loop :: "u32 list \<Rightarrow> ArchvUnfinishedTask \<Rightarrow> ArchvUnfinishedTask list \<Rightarrow> dbo \<Rightarrow> main_state \<Rightarrow> (ArchvUnfinishedTask list \<times> main_state) option" where
  "GetRoleUnFinishedTask_loop [] roleTask found d ms = Some (found, ms)"
| "GetRoleUnFinishedTask_loop (roleID # ids) roleTask found d ms = do {
     let (iRet, d1, ms1) = query (\<lambda>t. map (\<lambda>r. [db_int (td_TaskID r)])
           (filter (\<lambda>r. td_RoleID r = d32 roleID \<and> td_GoalType r = 2 \<and> td_IsFinish r = 0) (tb_RoleTaskDetail t))) d ms;
     if iRet = 0 then do {
       rows \<leftarrow> each_row d1;
       let roleTask' = \<lparr>au_roleID = roleID, au_licTaskID = au_licTaskID roleTask @ map (\<lambda>row. GetIntField row 0) rows\<rparr>;
       GetRoleUnFinishedTask_loop ids roleTask' (found @ [roleTask']) (all_read d1) ms1
     }
     else GetRoleUnFinishedTask_loop ids roleTask found d1 ms1
   }"

definition GetRoleUnFinishedTask :: "main_env \<Rightarrow> u32 list \<Rightarrow> ArchvUnfinishedTask list \<Rightarrow> main_state \<Rightarrow> ((int \<times> ArchvUnfinishedTask list) \<times> main_state) option" where
  "GetRoleUnFinishedTask env licRoleID licRoleTask ms = do {
     (found, ms1) \<leftarrow> GetRoleUnFinishedTask_loop licRoleID \<lparr>au_roleID = 0, au_licTaskID = []\<rparr> licRoleTask (dbo_new env) ms;
     Some ((if found \<noteq> [] then 0 else - 1, found), ms1)
   }"

definition ProcessGetRoleTask :: "main_env \<Rightarrow> packet \<Rightarrow> main_state \<Rightarrow> main_state option" where
  "ProcessGetRoleTask env req ms =
     (let roleID = p_RoleID req; s = Serializer_new (p_buffer req)
      in do {
        (pRole, ms1) \<leftarrow> role_of env roleID ms;
        if GetErrorCode s \<noteq> 0 then Some (answer env req ERR_SYSTEM_SERERROR Some ms1)
        else if ID pRole = 0 then Some (answer env req ERR_APP_ROLENOTEXISTS Some ms1)
        else do {
          let (iRet, d, ms2) = query (can_accept_rows (d32 (Level pRole)) roleID) (dbo_new env) ms1;
          if iRet < 0 then Some (answer env req ERR_SYSTEM_DBERROR Some ms2)
          else do {
            rows \<leftarrow> each_row d;
            (lti, ms3) \<leftarrow> acceptable env roleID rows ms2;
            let (iRet2, d2, ms4) = query (accepted_rows roleID) (all_read d) ms3;
            if iRet2 < 0 then Some (answer env req ERR_SYSTEM_DBERROR Some ms4)
            else do {
              rows2 \<leftarrow> each_row d2;
              ((ok, lti'), ms5) \<leftarrow> with_details roleID (lti @ map read_TaskInfo rows2) (all_read d2) ms4;
              Some (if ok then answer env req 0 (put_List put_ArchvTaskInfo lti') ms5
                    else answer env req ERR_SYSTEM_DBERROR Some ms5)
            }
          }
        }
      })"

section \<open>Accepting a task\<close>

text \<open>The clean-up asks for tasks of the role whose number is \<^verbatim>\<open>taskID\<close>, not for tasks of the
  detail.\<close>

definition clean_details :: "u32 \<Rightarrow> u32 \<Rightarrow> tables \<Rightarrow> tables" where
  "clean_details roleID taskID t =
     t\<lparr>tb_RoleTaskDetail := filter (\<lambda>d. \<not> (td_RoleID d = d32 roleID \<and>
         \<not> (\<exists>r \<in> set (tb_RoleTask t). rt_RoleID r = d32 taskID))) (tb_RoleTaskDetail t)\<rparr>"

definition drop_role_task :: "u32 \<Rightarrow> u32 \<Rightarrow> tables \<Rightarrow> tables" where
  "drop_role_task roleID taskID t = t\<lparr>tb_RoleTask := filter (\<lambda>r. \<not> is_role_task roleID taskID r) (tb_RoleTask t)\<rparr>"

definition drop_details :: "u32 \<Rightarrow> u32 \<Rightarrow> tables \<Rightarrow> tables" where
  "drop_details roleID taskID t = t\<lparr>tb_RoleTaskDetail := filter (\<lambda>d. \<not> is_detail roleID taskID d) (tb_RoleTaskDetail t)\<rparr>"

definition insert_role_task :: "u32 \<Rightarrow> u32 \<Rightarrow> tables \<Rightarrow> tables" where
  "insert_role_task roleID taskID t =
     t\<lparr>tb_RoleTask := tb_RoleTask t @ [\<lparr>rt_RoleID = d32 roleID, rt_TaskID = d32 taskID, rt_FinishStatus = 0, rt_DeliverNum = 0\<rparr>]\<rparr>"

text \<open>The statements that make the record of the task, with the code that ends the request early.\<close>

definition record_task :: "main_env \<Rightarrow> u32 \<Rightarrow> u32 \<Rightarrow> u32 \<Rightarrow> u8 list \<Rightarrow> dbo \<Rightarrow> main_state \<Rightarrow> (u32 option \<times> main_state) option" where
  "record_task env roleID taskID taskType toDoScript d ms = do {
     let (iRet, d1, ms1) = query (\<lambda>t. map (\<lambda>r. [db_int (rt_TaskID r)]) (filter (is_role_task roleID taskID) (tb_RoleTask t))) d ms;
     if iRet < 0 then Some (Some ERR_SYSTEM_DBERROR, ms1)
     else do {
       let iHasRecord = (iRet \<noteq> 1);
       let (iRet2, d2, ms2) = exec (clean_details roleID taskID) d1 ms1;
       if iRet2 < 0 then Some (Some ERR_SYSTEM_DBERROR, ms2)
       else do {
         (iRet3, ms3) \<leftarrow> ExecToDoScript env roleID taskID toDoScript ms2;
         if iRet3 \<noteq> 0 then Some (Some ERR_APP_OP, ms3)
         else do {
           let (iRet4, d4, ms4) = (if taskType \<noteq> 3 \<and> iHasRecord then exec (drop_role_task roleID taskID) d2 ms3 else (0, d2, ms3));
           if iRet4 < 0 then Some (Some ERR_SYSTEM_DBERROR, ms4)
           else do {
             let (iRet5, d5, ms5) =
               (if iHasRecord then exec (on_RoleTask (is_role_task roleID taskID) (\<lambda>r. r\<lparr>rt_FinishStatus := 0\<rparr>)) d4 ms4
                else exec (insert_role_task roleID taskID) d4 ms4);
             Some (if iRet5 < 0 then Some ERR_SYSTEM_DBERROR else None, ms5)
           }
         }
       }
     }
   }"

text \<open>The work of \<^verbatim>\<open>ProcessAcceptTask\<close> before its answer: the return code and the status
  in it.\<close>

definition accept_task :: "main_env \<Rightarrow> u32 \<Rightarrow> u32 \<Rightarrow> role \<Rightarrow> main_state \<Rightarrow> ((u32 \<times> u8) \<times> main_state) option" where
  "accept_task env roleID taskID pRole ms = do {
     let (iRet, d, ms1) = query (\<lambda>t. map (\<lambda>k. [db_int (tk_TaskType k), db_int (tk_MinLevel k), DStr (tk_CanAcceptScript k),
           DStr (tk_TodoScript k), DStr (tk_AfterDeliverScript k), db_int (tk_MaxAcceptNum k), db_int (tk_MaxLevel k)])
           (tasks_of taskID t)) (dbo_new env) ms;
     if iRet = 1 then Some ((ERR_SYSTEM_DBNORECORD, 0), ms1)
     else if iRet < 0 then Some ((ERR_SYSTEM_DBERROR, 0), ms1)
     else do {
       let (taskType, minLevel, maxLevel) = (field 0 d, field 1 d, field 6 d);
       if ID pRole = 0 then Some ((ERR_APP_ROLENOTEXISTS, 0), ms1)
       else if Level pRole < minLevel \<or> maxLevel < Level pRole then Some ((ERR_APP_DATA, 0), ms1)
       else do {
         ((iRet2, status), ms2) \<leftarrow> GetRoleTaskStatus env roleID taskID ms1;
         if iRet2 \<noteq> 0 then Some ((ERR_APP_OP, status), ms2)
         else if status \<noteq> 1 then Some ((ERR_APP_DATA, status), ms2)
         else do {
           (iRet3, ms3) \<leftarrow> ExecCanAcceptScript env roleID (string_field 2 d) ms2;
           (failed, ms4) \<leftarrow> (if iRet3 = 0 then record_task env roleID taskID taskType (string_field 3 d) d ms3 else Some (None, ms3));
           case failed of
             Some RetCode \<Rightarrow> Some ((RetCode, status), ms4)
           | None \<Rightarrow> do {
               (_, ms5) \<leftarrow> CheckAllItemTypeTaskStatus env roleID ms4;
               (_, ms6) \<leftarrow> UpdateTaskStatus env roleID taskID ms5;
               ((iRet4, status'), ms7) \<leftarrow> GetRoleTaskStatus env roleID taskID ms6;
               Some ((if iRet4 \<noteq> 0 then ERR_APP_OP else 0, status'), ms7)
             }
         }
       }
     }
   }"

definition ProcessAcceptTask :: "main_env \<Rightarrow> packet \<Rightarrow> main_state \<Rightarrow> main_state option" where
  "ProcessAcceptTask env req ms =
     (let roleID = p_RoleID req; (taskID, s) = get_UInt32 0 (Serializer_new (p_buffer req))
      in do {
        (pRole, ms1) \<leftarrow> role_of env roleID ms;
        if GetErrorCode s \<noteq> 0 then Some (answer env req ERR_SYSTEM_SERERROR Some ms1)
        else do {
          ((RetCode, status), ms2) \<leftarrow> accept_task env roleID taskID pRole ms1;
          let ms3 = answer env req RetCode (\<lambda>s. do { s1 \<leftarrow> put_UInt32 taskID s; put_Byte status s1 }) ms2;
          if RetCode = 0 then do {
            (_, ms4) \<leftarrow> NotifyTaskStatus env roleID taskID ms3;
            Some (emit [NpcStatus roleID] ms4)
          }
          else Some ms3
        }
      })"

section \<open>Delivering and abandoning a task\<close>

definition deliver_task :: "main_env \<Rightarrow> u32 \<Rightarrow> u32 \<Rightarrow> u32 \<Rightarrow> main_state \<Rightarrow> (u32 \<times> main_state) option" where
  "deliver_task env roleID taskID npcID ms = do {
     let (iRet, d, ms1) = query (\<lambda>t. map (\<lambda>k. [db_int (tk_TaskType k), db_int (tk_ExitNpcID k), DStr (tk_CanAcceptScript k),
           DStr (tk_TodoScript k), DStr (tk_AfterDeliverScript k)]) (tasks_of taskID t)) (dbo_new env) ms;
     if iRet = 1 then Some (ERR_SYSTEM_DBNORECORD, ms1)
     else if iRet < 0 then Some (ERR_SYSTEM_DBERROR, ms1)
     else if npcID \<noteq> field 1 d then Some (ERR_APP_DATA, ms1)
     else do {
       ((iRet2, status), ms2) \<leftarrow> GetRoleTaskStatus env roleID taskID ms1;
       if iRet2 \<noteq> 0 then Some (ERR_APP_OP, ms2)
       else if status \<noteq> 3 then Some (ERR_APP_DATA, ms2)
       else do {
         let (iRet3, d3, ms3) = exec (drop_details roleID taskID) d ms2;
         if iRet3 < 0 then Some (ERR_SYSTEM_DBERROR, ms3)
         else do {
           let (iRet4, d4, ms4) = exec (on_RoleTask (is_role_task roleID taskID)
                 (\<lambda>r. r\<lparr>rt_FinishStatus := 2, rt_DeliverNum := rt_DeliverNum r + 1\<rparr>)) d3 ms3;
           if iRet4 < 0 then Some (ERR_SYSTEM_DBERROR, ms4)
           else do {
             (_, ms5) \<leftarrow> ExecAfterDeliverScript env roleID (string_field 4 d) ms4;
             Some (0, ms5)
           }
         }
       }
     }
   }"

definition ProcessDeliverTask :: "main_env \<Rightarrow> packet \<Rightarrow> main_state \<Rightarrow> main_state option" where
  "ProcessDeliverTask env req ms =
     (let roleID = p_RoleID req;
          (taskID, s1) = get_UInt32 0 (Serializer_new (p_buffer req));
          (npcID, s2) = get_UInt32 0 s1
      in if GetErrorCode s2 \<noteq> 0 then Some (answer env req ERR_SYSTEM_SERERROR Some ms)
         else do {
           (RetCode, ms1) \<leftarrow> deliver_task env roleID taskID npcID ms;
           let ms2 = answer env req RetCode (put_UInt32 taskID) ms1;
           if RetCode = 0 then do {
             (_, ms3) \<leftarrow> NotifyTaskCanAccept env roleID (emit [NpcStatus roleID] ms2);
             Some ms3
           }
           else Some ms2
         })"

definition abandon_task :: "main_env \<Rightarrow> u32 \<Rightarrow> u32 \<Rightarrow> main_state \<Rightarrow> (u32 \<times> main_state) option" where
  "abandon_task env roleID taskID ms = do {
     ((iRet, status), ms1) \<leftarrow> GetRoleTaskStatus env roleID taskID ms;
     if iRet \<noteq> 0 then Some (ERR_APP_OP, ms1)
     else if status \<noteq> 2 \<and> status \<noteq> 3 then Some (ERR_APP_DATA, ms1)
     else do {
       let (iRet2, d2, ms2) = query (\<lambda>t. map (\<lambda>k. [db_int (tk_TaskType k)]) (tasks_of taskID t)) (dbo_new env) ms1;
       if iRet2 \<noteq> 0 then Some (ERR_SYSTEM_DBERROR, ms2)
       else do {
         let taskType = (ucast (field 0 d2) :: u8);
         let (iRet3, d3, ms3) = exec (drop_details roleID taskID) d2 ms2;
         if iRet3 < 0 then Some (ERR_SYSTEM_DBERROR, ms3)
         else do {
           let (iRet4, d4, ms4) =
             (if taskType \<noteq> 3 then exec (drop_role_task roleID taskID) d3 ms3
              else exec (on_RoleTask (is_role_task roleID taskID) (\<lambda>r. r\<lparr>rt_FinishStatus := 2\<rparr>)) d3 ms3);
           Some (if iRet4 < 0 then ERR_SYSTEM_DBERROR else 0, ms4)
         }
       }
     }
   }"

definition ProcessAbandonTask :: "main_env \<Rightarrow> packet \<Rightarrow> main_state \<Rightarrow> main_state option" where
  "ProcessAbandonTask env req ms =
     (let roleID = p_RoleID req; (taskID, s) = get_UInt32 0 (Serializer_new (p_buffer req))
      in if GetErrorCode s \<noteq> 0 then Some (answer env req ERR_SYSTEM_SERERROR Some ms)
         else do {
           (RetCode, ms1) \<leftarrow> abandon_task env roleID taskID ms;
           let ms2 = answer env req RetCode Some ms1;
           Some (if RetCode = 0 then emit [NpcStatus roleID] ms2 else ms2)
         })"

definition Task_ClientErrorAck :: "main_env \<Rightarrow> packet \<Rightarrow> u32 \<Rightarrow> main_state \<Rightarrow> main_state" where
  "Task_ClientErrorAck env req RetCode = emit [Answer (reply_packet (me_svc env) req RetCode)]"

definition Task_OnProcessPacket :: "main_env \<Rightarrow> packet \<Rightarrow> main_state \<Rightarrow> main_state option" where
  "Task_OnProcessPacket env req ms =
     (if p_MsgType req = 701 then ProcessGetRoleTask env req ms
      else if p_MsgType req = 703 then ProcessAcceptTask env req ms
      else if p_MsgType req = 704 then ProcessDeliverTask env req ms
      else if p_MsgType req = 705 then ProcessAbandonTask env req ms
      else Some (Task_ClientErrorAck env req ERR_SYSTEM_PARAM ms))"

end
