(* ===== verification/Task_Rules.thy ===== *)
theory Task_Rules
  imports Bag_Rules Task_Requests
begin

text \<open>
  What becomes of tasks: events of a role leave closed records alone and never reopen a finished one, the
  items a task wants are credited first come first served, a task is delivered once for each time it is
  finished, and accepting one clears the details of all others.
\<close>

section \<open>Events\<close>

text \<open>What the other services tell the task service of.\<close>

datatype task_event = Killed u32 u32 | BagChanged u32 | UsedItem u32 | Dressed u32 | CalledPet u32
  | LearnedSkill | ComposedEquip | AddedFriend | AddedTeam

fun on_event :: "main_env \<Rightarrow> u32 \<Rightarrow> task_event \<Rightarrow> main_state \<Rightarrow> (unit \<times> main_state) option" where
  "on_event env roleID (Killed m n) = OnAfterKillMonster env roleID m n"
| "on_event env roleID (BagChanged i) = OnBagItemAddOrDelete env roleID i"
| "on_event env roleID (UsedItem i) = OnUseItem env roleID i"
| "on_event env roleID (Dressed i) = OnRoleDress env roleID i"
| "on_event env roleID (CalledPet p) = OnCallPet env roleID p"
| "on_event env roleID LearnedSkill = OnRoleLearnSkill env roleID"
| "on_event env roleID ComposedEquip = OnComposeEquip env roleID"
| "on_event env roleID AddedFriend = OnRoleAddFriend env roleID"
| "on_event env roleID AddedTeam = OnRoleAddTeam env roleID"

fun on_events :: "main_env \<Rightarrow> (u32 \<times> task_event) list \<Rightarrow> main_state \<Rightarrow> (unit \<times> main_state) option" where
  "on_events env [] ms = Some ((), ms)"
| "on_events env ((roleID, ev) # evs) ms = do { (_, ms1) \<leftarrow> on_event env roleID ev ms; on_events env evs ms1 }"

context task_relation begin

lemma runs_event: "idle ms \<Longrightarrow> runs R ms (on_event env roleID ev ms)"
  by (cases ev) (simp_all add: OnAfterKillMonster_def OnUseItem_def OnRoleDress_def OnCallPet_def OnRoleLearnSkill_def OnComposeEquip_def
      OnRoleAddFriend_def OnRoleAddTeam_def runs_ByNum runs_OnBagItem)

lemma runs_events: "idle ms \<Longrightarrow> runs R ms (on_events env evs ms)"
  by (induction evs arbitrary: ms) (auto intro!: runs_bind runs_event simp: evolves_refl)

end

text \<open>
  C22: the events of the game always come back when the core data is not locked, whatever statements the
  database refuses, and they change no record of a task that the role has not accepted or has delivered.
\<close>

theorem events_spare_closed_tasks:
  assumes "idle ms" "\<not> open_task roleID taskID (db_of ms)"
  shows "\<exists>ms'. on_events env evs ms = Some ((), ms') \<and> idle ms' \<and>
    filter (is_role_task roleID taskID) (tb_RoleTask (db_of ms')) = filter (is_role_task roleID taskID) (tb_RoleTask (db_of ms))"
proof -
  obtain r ms' where "on_events env evs ms = Some (r, ms')" "evolves spares_closed ms ms'"
    using spare.runs_events[OF assms(1)] by (rule runsE)
  then show ?thesis using assms evolves_idle by (auto simp: evolves_def spares_closed_def idle_def)
qed

text \<open>
  C30: no event takes a finished task back: a task that was finished because the role had the items stays
  finished when the items are gone.
\<close>

theorem finished_task_stays_finished:
  assumes "idle ms" "finished roleID taskID (db_of ms)"
  shows "\<exists>ms'. on_events env evs ms = Some ((), ms') \<and> finished roleID taskID (db_of ms')"
proof -
  obtain r ms' where "on_events env evs ms = Some (r, ms')" "evolves (\<lambda>t t'. \<forall>R T. finished R T t \<longrightarrow> finished R T t') ms ms'"
    using firm.runs_events[OF assms(1)] by (rule runsE)
  then show ?thesis using assms by (auto simp: evolves_def)
qed

section \<open>Items that tasks want\<close>

text \<open>The details after the items have been dealt out, as a function of the details alone.\<close>

fun dealt :: "TaskDetail list \<Rightarrow> u32 \<Rightarrow> task_detail_row list \<Rightarrow> task_detail_row list" where
  "dealt [] n ds = ds"
| "dealt (it # its) n ds =
     (let give = (\<lambda>fin num. map (\<lambda>r. if td_DetailID r = d32 (det_detailID it) then r\<lparr>td_IsFinish := fin, td_FinishNum := num\<rparr> else r) ds)
      in if n < det_goalNum it then give 0 (d32 n) else dealt its (n - det_goalNum it) (give 1 (d32 (det_goalNum it))))"

abbreviation details_of :: "main_state \<Rightarrow> task_detail_row list" where
  "details_of ms \<equiv> tb_RoleTaskDetail (db_of ms)"

lemma rows_same:
  assumes "evolves (\<lambda>t t'. t'\<lparr>tb_RoleTask := []\<rparr> = t\<lparr>tb_RoleTask := []\<rparr>) ms ms'"
  shows "details_of ms' = details_of ms" "tb_Bag (db_of ms') = tb_Bag (db_of ms)"
proof -
  have "(db_of ms')\<lparr>tb_RoleTask := []\<rparr> = (db_of ms)\<lparr>tb_RoleTask := []\<rparr>" using assms unfolding evolves_def by blast
  from arg_cong[OF this, of tb_RoleTaskDetail] arg_cong[OF this, of tb_Bag]
  show "details_of ms' = details_of ms" "tb_Bag (db_of ms') = tb_Bag (db_of ms)" by simp_all
qed

lemma UpdateTaskStatus_rows:
  assumes "idle ms"
  shows "\<exists>ms'. UpdateTaskStatus env roleID taskID ms = Some ((), ms') \<and> idle ms' \<and> reliable ms' = reliable ms \<and> details_of ms' = details_of ms"
proof -
  obtain r ms' where "UpdateTaskStatus env roleID taskID ms = Some (r, ms')"
      "evolves (\<lambda>t t'. t'\<lparr>tb_RoleTask := []\<rparr> = t\<lparr>tb_RoleTask := []\<rparr>) ms ms'"
    using rows.runs_UpdateTaskStatus[OF assms] by (rule runsE)
  then show ?thesis using rows_same assms evolves_idle evolves_reliable by auto
qed

lemma notify_all_rows:
  assumes "idle ms"
  shows "\<exists>ms'. notify_all env roleID ids ms = Some ((), ms') \<and> details_of ms' = details_of ms"
proof -
  obtain r ms' where "notify_all env roleID ids ms = Some (r, ms')"
      "evolves (\<lambda>t t'. t'\<lparr>tb_RoleTask := []\<rparr> = t\<lparr>tb_RoleTask := []\<rparr>) ms ms'"
    using rows.runs_notify_all[OF assms] by (rule runsE)
  then show ?thesis using rows_same by auto
qed

lemma deal_out_dealt:
  assumes "idle ms" "reliable ms"
  shows "\<exists>ms'. deal_out env roleID its n d ms = Some (True, ms') \<and> idle ms' \<and> details_of ms' = dealt its n (details_of ms)"
  using assms
proof (induction its arbitrary: n d ms)
  case (Cons it its)
  show ?case
  proof (cases "n < det_goalNum it")
    case True
    then show ?thesis using Cons.prems by (simp add: sql on_Detail_def)
  next
    case False
    let ?ms1 = "changed (on_Detail (\<lambda>r. td_DetailID r = d32 (det_detailID it)) (\<lambda>r. r\<lparr>td_IsFinish := 1, td_FinishNum := d32 (det_goalNum it)\<rparr>)) ms"
    have "idle ?ms1" using Cons.prems by simp
    then obtain ms2 where 2: "UpdateTaskStatus env roleID (det_taskID it) ?ms1 = Some ((), ms2)" "idle ms2" "reliable ms2 = reliable ?ms1"
        "details_of ms2 = details_of ?ms1"
      using UpdateTaskStatus_rows by blast
    obtain ms3 where 3: "deal_out env roleID its (n - det_goalNum it) (FreeResult d) ms2 = Some (True, ms3)" "idle ms3"
        "details_of ms3 = dealt its (n - det_goalNum it) (details_of ms2)"
      using Cons.IH[of ms2] 2 Cons.prems by fastforce
    then show ?thesis using False 2 Cons.prems by (simp add: sql Let_def) (simp add: on_Detail_def)
  qed
qed simp

text \<open>First come, first served.\<close>

fun shares :: "int \<Rightarrow> int list \<Rightarrow> int list" where
  "shares n [] = []"
| "shares n (g # gs) = min n g # shares (n - min n g) gs"

lemma length_shares [simp]: "length (shares n gs) = length gs"
  by (induction gs arbitrary: n) simp_all

lemma shares_none: "\<forall>g \<in> set gs. 0 < g \<Longrightarrow> shares 0 gs = map (\<lambda>_. 0) gs"
  by (induction gs) auto

lemma sum_shares: "\<forall>g \<in> set gs. 0 \<le> g \<Longrightarrow> 0 \<le> n \<Longrightarrow> sum_list (shares n gs) = min n (sum_list gs)"
proof (induction gs arbitrary: n)
  case (Cons g gs)
  have "0 \<le> sum_list gs" using Cons.prems(1) by (intro sum_list_nonneg) simp
  then show ?case using Cons by (auto simp: min_def)
qed simp

definition credit :: "(int \<times> int \<times> int) list \<Rightarrow> task_detail_row \<Rightarrow> task_detail_row" where
  "credit ws r = (case map_of ws (td_DetailID r) of
     Some (s, g) \<Rightarrow> r\<lparr>td_IsFinish := if s = g then 1 else 0, td_FinishNum := s\<rparr> | None \<Rightarrow> r)"

lemma credit_none:
  assumes "\<forall>g \<in> set gs. 0 < g" "td_DetailID r \<in> set ids \<longrightarrow> td_IsFinish r = 0 \<and> td_FinishNum r = 0"
  shows "credit (zip ids (zip (map (\<lambda>_. 0) gs) gs)) r = r"
proof (cases "map_of (zip ids (zip (map (\<lambda>_. 0 :: int) gs) gs)) (td_DetailID r)")
  case (Some w)
  then have "(td_DetailID r, w) \<in> set (zip ids (zip (map (\<lambda>_. 0 :: int) gs) gs))" by (rule map_of_SomeD)
  then have i: "td_DetailID r \<in> set ids" and w: "(fst w, snd w) \<in> set (zip (map (\<lambda>_. 0 :: int) gs) gs)"
    by (auto dest: set_zip_leftD set_zip_rightD)
  have "fst w = 0" "0 < snd w" using set_zip_leftD[OF w] set_zip_rightD[OF w] assms(1) by auto
  then show ?thesis using i Some assms(2) by (cases w) (auto simp: credit_def)
qed (simp add: credit_def)

lemma dealt_shares:
  assumes "map (\<lambda>it. d32 (det_detailID it)) its = ids" "map (\<lambda>it. int (unat (det_goalNum it))) its = gs" "distinct ids"
    and "\<forall>g \<in> set gs. 0 < g \<and> g < 2147483648" "int (unat n) < 2147483648"
    and "\<forall>r \<in> set ds. td_DetailID r \<in> set ids \<longrightarrow> td_IsFinish r = 0 \<and> td_FinishNum r = 0"
  shows "dealt its n ds = map (credit (zip ids (zip (shares (int (unat n)) gs) gs))) ds"
  using assms
proof (induction its arbitrary: ids gs n ds)
  case Nil
  then show ?case by (simp add: credit_def)
next
  case (Cons it its)
  obtain i ids' g gs' where l: "ids = i # ids'" "gs = g # gs'" "d32 (det_detailID it) = i" "int (unat (det_goalNum it)) = g"
      "map (\<lambda>it. d32 (det_detailID it)) its = ids'" "map (\<lambda>it. int (unat (det_goalNum it))) its = gs'"
    using Cons.prems(1,2) by auto
  have len: "length ids' = length gs'" using l(5,6) by auto
  show ?case
  proof (cases "n < det_goalNum it")
    case True
    have lt: "int (unat n) < g" using True l(4) unfolding word_less_nat_alt by linarith
    have "d32 n = int (unat n)" by (rule d32_of_unat[OF HOL.refl Cons.prems(5)])
    moreover have "shares 0 gs' = map (\<lambda>_. 0) gs'" using Cons.prems(4) l(2) by (intro shares_none) auto
    moreover have "credit (zip ids' (zip (map (\<lambda>_. 0) gs') gs')) r = r" if "r \<in> set ds" for r
      using Cons.prems(4,6) that l(1,2) by (intro credit_none) auto
    ultimately show ?thesis
      using True lt l(1-3) by (auto simp: credit_def)
  next
    case False
    let ?ds = "map (\<lambda>r. if td_DetailID r = i then r\<lparr>td_IsFinish := 1, td_FinishNum := g\<rparr> else r) ds"
    have le: "det_goalNum it \<le> n" using False by simp
    have le': "g \<le> int (unat n)" using le l(4) unfolding word_le_nat_alt by linarith
    have rest: "int (unat (n - det_goalNum it)) = int (unat n) - g"
      using bound_pays[OF le] l(4) by simp
    have give: "d32 (det_goalNum it) = g" using Cons.prems(4) l(2,4) by (intro d32_of_unat) auto
    have "dealt its (n - det_goalNum it) ?ds = map (credit (zip ids' (zip (shares (int (unat n) - g) gs') gs'))) ?ds"
      unfolding rest[symmetric] using Cons.prems(3-6) l(1,2,5,6) le' rest by (intro Cons.IH) (auto simp del: of_nat_less_iff)
    moreover have "map_of (zip ids' xs) i = None" for xs :: "(int \<times> int) list"
      using Cons.prems(3) l(1) by (auto simp: map_of_eq_None_iff dest: set_zip_leftD)
    ultimately show ?thesis
      using False le' l(1-3) by (auto simp: credit_def give min_def)
  qed
qed

lemma map_zip_lookup:
  assumes "distinct ks" "length vs = length ks"
  shows "map (\<lambda>k. map_of (zip ks vs) k) ks = map Some vs"
  using assms by (intro nth_equalityI) (simp_all add: map_of_zip_nth)

lemma sort_key_map:
  assumes "\<And>x. k (f x) = k x"
  shows "sort_key k (map f xs) = map f (sort_key k xs)"
proof -
  have "insort_key k (f x) (map f ys) = map f (insort_key k x ys)" for x ys by (induction ys) (simp_all add: assms)
  then show ?thesis by (induction xs) simp_all
qed

definition clear_goal :: "u32 \<Rightarrow> u32 \<Rightarrow> task_detail_row \<Rightarrow> task_detail_row" where
  "clear_goal R i r = (if is_goal R 2 i r then r\<lparr>td_IsFinish := 0, td_FinishNum := 0\<rparr> else r)"

definition wanted :: "u32 \<Rightarrow> u32 \<Rightarrow> tables \<Rightarrow> task_detail_row list" where
  "wanted R i t = sort_key td_DetailID (goals (is_goal R 2 i) t)"

definition held :: "u32 \<Rightarrow> u32 \<Rightarrow> tables \<Rightarrow> int" where
  "held R i t = sum_list (map bg_Num (filter (has_item R i) (tb_Bag t)))"

definition wanted_ok :: "u32 \<Rightarrow> u32 \<Rightarrow> tables \<Rightarrow> bool" where
  "wanted_ok R i t \<longleftrightarrow> distinct (map td_DetailID (tb_RoleTaskDetail t)) \<and>
     (\<forall>d \<in> set (wanted R i t). td_DetailID d \<in> {- (2 ^ 31)..<2 ^ 31} \<and> 0 < td_GoalNum d \<and> td_GoalNum d < 2147483648) \<and>
     (\<forall>b \<in> set (tb_Bag t). has_item R i b \<longrightarrow> 0 \<le> bg_Num b) \<and> held R i t < 2147483648"

lemma wanted_after:
  assumes "tb_RoleTaskDetail t' = map (credit ws) (map (clear_goal R i) (tb_RoleTaskDetail t))"
  shows "wanted R i t' = map (\<lambda>d. credit ws (clear_goal R i d)) (wanted R i t)"
proof -
  have "is_goal R 2 i (credit ws (clear_goal R i d)) = is_goal R 2 i d" for d
    by (auto simp: is_goal_def credit_def clear_goal_def split: option.split)
  then have "goals (is_goal R 2 i) t' = map (\<lambda>d. credit ws (clear_goal R i d)) (goals (is_goal R 2 i) t)"
    by (simp add: goals_def assms filter_map comp_def)
  moreover have "td_DetailID (credit ws (clear_goal R i d)) = td_DetailID d" for d
    by (auto simp: credit_def clear_goal_def split: option.split)
  ultimately show ?thesis by (simp add: wanted_def sort_key_map)
qed

lemma wanted_distinct:
  assumes "wanted_ok R i t"
  shows "distinct (map td_DetailID (wanted R i t))"
proof -
  have "distinct (map td_DetailID (goals (is_goal R 2 i) t))"
    using assms unfolding wanted_ok_def goals_def by (simp add: distinct_map_filter)
  then show ?thesis by (simp add: wanted_def distinct_map)
qed

lemma sum_words: "sum_list (map (\<lambda>row. GetIntField row 0) (map (\<lambda>b. [db_int (bg_Num b)]) bs)) = word_of_int (sum_list (map bg_Num bs))"
  by (induction bs) (simp_all add: db_int_def GetIntField_cons)

lemma HoldItem_details:
  assumes "idle ms" "reliable ms" "wanted_ok R i (db_of ms)"
  shows "\<exists>ms'. UpdateTaskDetailStatusByHoldItem env R i ms = Some ((), ms') \<and>
    (let W = wanted R i (db_of ms); gs = map td_GoalNum W
     in details_of ms' = map (credit (zip (map td_DetailID W) (zip (shares (held R i (db_of ms)) gs) gs))) (map (clear_goal R i) (details_of ms)))"
proof -
  let ?t = "db_of ms" let ?W = "wanted R i ?t"
  let ?ids = "map td_DetailID ?W" and ?gs = "map td_GoalNum ?W" and ?ds = "map (clear_goal R i) (tb_RoleTaskDetail ?t)"
  let ?its = "map read_TaskDetail (map (\<lambda>r. [db_int (td_DetailID r), db_int (td_TaskID r), db_int (td_GoalNum r)]) ?W)"
  let ?b = "filter (has_item R i) (tb_Bag ?t)"
  let ?n = "sum_list (map (\<lambda>row. GetIntField row 0) (map (\<lambda>b. [db_int (bg_Num b)]) ?b))"
  let ?clr = "on_Detail (is_goal R 2 i) (\<lambda>r. r\<lparr>td_IsFinish := 0, td_FinishNum := 0\<rparr>)"
  have clr: "tb_RoleTaskDetail (?clr ?t) = ?ds" "tb_Bag (?clr ?t) = tb_Bag ?t"
    by (simp_all add: on_Detail_def clear_goal_def[abs_def])
  have has: "(\<lambda>b. bg_RoleID b = d32 R \<and> bg_ItemID b = d32 i) = has_item R i" by (simp add: has_item_def fun_eq_iff)
  have its: "map (\<lambda>it. d32 (det_detailID it)) ?its = ?ids" "map (\<lambda>it. int (unat (det_goalNum it))) ?its = ?gs"
    using assms(3) by (auto simp: wanted_ok_def read_TaskDetail_def db_int_def GetIntField_cons d32_of_int unsigned_of_int take_bit_int_eq_self)
  have gs: "\<forall>g \<in> set ?gs. 0 < g \<and> g < 2147483648" using assms(3) by (auto simp: wanted_ok_def)
  have zero: "\<forall>r \<in> set ?ds. td_DetailID r \<in> set ?ids \<longrightarrow> td_IsFinish r = 0 \<and> td_FinishNum r = 0"
  proof (intro ballI impI)
    fix r assume "r \<in> set ?ds" "td_DetailID r \<in> set ?ids"
    then obtain d w where d: "d \<in> set (tb_RoleTaskDetail ?t)" "r = clear_goal R i d" and w: "w \<in> set (tb_RoleTaskDetail ?t)" "is_goal R 2 i w"
      "td_DetailID r = td_DetailID w" by (auto simp: wanted_def goals_def)
    have "td_DetailID d = td_DetailID w" using d w by (simp add: clear_goal_def split: if_splits)
    then have "d = w" using assms(3) d(1) w(1) by (auto simp: wanted_ok_def distinct_map dest: inj_onD)
    then show "td_IsFinish r = 0 \<and> td_FinishNum r = 0" using d w by (simp add: clear_goal_def)
  qed
  have n: "int (unat ?n) = held R i ?t" "held R i ?t < 2147483648"
  proof -
    have "?n = word_of_int (held R i ?t)"
      unfolding held_def by (rule sum_words)
    moreover have "0 \<le> held R i ?t" using assms(3) unfolding held_def by (intro sum_list_nonneg) (auto simp: wanted_ok_def)
    moreover show "held R i ?t < 2147483648" using assms(3) by (simp add: wanted_ok_def)
    ultimately show "int (unat ?n) = held R i ?t" by (simp add: unsigned_of_int take_bit_int_eq_self)
  qed
  have credit: "dealt ?its ?n ?ds = map (credit (zip ?ids (zip (shares (held R i ?t) ?gs) ?gs))) ?ds"
    using dealt_shares[OF its wanted_distinct[OF assms(3)] gs _ zero, of ?n] n by simp
  show ?thesis
  proof (cases "?W = []")
    case True
    then have "set (goals (is_goal R 2 i) ?t) = {}" unfolding wanted_def by (metis set_sort set_empty)
    then have "map (clear_goal R i) (tb_RoleTaskDetail ?t) = tb_RoleTaskDetail ?t"
      by (auto simp: goals_def filter_empty_conv clear_goal_def intro: map_idI)
    then show ?thesis using True assms(2)
      by (simp add: UpdateTaskDetailStatusByHoldItem_def sql wanted_def credit_def[abs_def] Let_def)
  next
    case W: False
    show ?thesis
    proof (cases "?b = []")
      case True
      have "held R i ?t = 0" using True by (simp add: held_def)
      moreover have "shares 0 ?gs = map (\<lambda>_. 0) ?gs" using gs by (intro shares_none) blast
      moreover have "credit (zip ?ids (zip (map (\<lambda>_. 0) ?gs) ?gs)) r = r" if "r \<in> set ?ds" for r
        using gs zero that by (intro credit_none) blast+
      ultimately have "map (credit (zip ?ids (zip (shares (held R i ?t) ?gs) ?gs))) ?ds = ?ds" by (intro map_idI) (simp only:)
      then show ?thesis using True W assms(2) clr
        by (simp add: UpdateTaskDetailStatusByHoldItem_def sql wanted_def has Let_def)
    next
      case False
      let ?ms3 = "ticked (changed ?clr (ticked ms))"
      have run: "UpdateTaskDetailStatusByHoldItem env R i ms = do {
          (ok, ms4) \<leftarrow> deal_out env R ?its ?n (all_read (got (map (\<lambda>b. [db_int (bg_Num b)]) ?b))) ?ms3;
          if ok then notify_all env R (map det_taskID ?its) ms4 else Some ((), ms4) }"
        using False W assms(2) unfolding wanted_def
        by (simp add: UpdateTaskDetailStatusByHoldItem_def sql has clr Let_def del: map_map)
      have "idle ?ms3" "reliable ?ms3" using assms by simp_all
      from deal_out_dealt[OF this] obtain ms4 where 4: "deal_out env R ?its ?n (all_read (got (map (\<lambda>b. [db_int (bg_Num b)]) ?b))) ?ms3 = Some (True, ms4)"
          "idle ms4" "details_of ms4 = dealt ?its ?n (details_of ?ms3)" by blast
      obtain ms5 where "notify_all env R (map det_taskID ?its) ms4 = Some ((), ms5)" "details_of ms5 = details_of ms4"
        using notify_all_rows[OF 4(2)] by blast
      then show ?thesis using 4 credit clr(1) by (simp add: run Let_def)
    qed
  qed
qed

text \<open>
  C11: after a change of the bag the items a role holds are credited to its tasks first come first served:
  the wishes in the order they were made get shares of what is there, complete ones exactly what they ask for,
  and all together as much as is asked for or there.
\<close>

theorem held_items_are_shared:
  assumes "idle ms" "reliable ms" "wanted_ok R i (db_of ms)"
  shows "\<exists>ms'. OnBagItemAddOrDelete env R i ms = Some ((), ms') \<and>
    (let W = wanted R i (db_of ms); W' = wanted R i (db_of ms'); have_now = held R i (db_of ms)
     in map td_DetailID W' = map td_DetailID W \<and> map td_GoalNum W' = map td_GoalNum W \<and>
        map td_FinishNum W' = shares have_now (map td_GoalNum W) \<and>
        map td_IsFinish W' = map2 (\<lambda>s g. if s = g then 1 else 0) (shares have_now (map td_GoalNum W)) (map td_GoalNum W) \<and>
        sum_list (map td_FinishNum W') = min have_now (sum_list (map td_GoalNum W)))"
proof -
  let ?W = "wanted R i (db_of ms)" let ?gs = "map td_GoalNum ?W" let ?S = "shares (held R i (db_of ms)) ?gs"
  let ?ws = "zip (map td_DetailID ?W) (zip ?S ?gs)" let ?h = "\<lambda>d. credit ?ws (clear_goal R i d)"
  obtain ms' where ms': "UpdateTaskDetailStatusByHoldItem env R i ms = Some ((), ms')"
      "details_of ms' = map (credit ?ws) (map (clear_goal R i) (details_of ms))"
    using HoldItem_details[OF assms] unfolding Let_def by blast
  have W': "wanted R i (db_of ms') = map ?h ?W" by (rule wanted_after[OF ms'(2)])
  have look: "map_of ?ws (td_DetailID (?W ! k)) = Some (?S ! k, ?gs ! k)" if "k < length ?W" for k
    using that map_of_zip_nth[of "map td_DetailID ?W" "zip ?S ?gs" k] wanted_distinct[OF assms(3)] by simp
  have cl: "td_DetailID (clear_goal R i d) = td_DetailID d" "td_GoalNum (clear_goal R i d) = td_GoalNum d" for d
    by (simp_all add: clear_goal_def)
  have nth: "td_FinishNum (?h (?W ! k)) = ?S ! k" "td_IsFinish (?h (?W ! k)) = (if ?S ! k = ?gs ! k then 1 else 0)"
    "td_DetailID (?h (?W ! k)) = td_DetailID (?W ! k)" "td_GoalNum (?h (?W ! k)) = td_GoalNum (?W ! k)" if "k < length ?W" for k
    unfolding credit_def cl look[OF that] by (simp_all add: cl)
  have "0 \<le> held R i (db_of ms)" using assms(3) unfolding held_def by (intro sum_list_nonneg) (auto simp: wanted_ok_def)
  moreover have "\<forall>g \<in> set ?gs. 0 \<le> g" using assms(3) by (auto simp: wanted_ok_def)
  ultimately have sum: "sum_list ?S = min (held R i (db_of ms)) (sum_list ?gs)" by (intro sum_shares)
  have after: "map td_FinishNum (wanted R i (db_of ms')) = ?S"
    "map td_IsFinish (wanted R i (db_of ms')) = map2 (\<lambda>s g. if s = g then 1 else 0) ?S ?gs"
    "map td_DetailID (wanted R i (db_of ms')) = map td_DetailID ?W" "map td_GoalNum (wanted R i (db_of ms')) = ?gs"
    unfolding W' by (rule nth_equalityI; simp add: nth)+
  show ?thesis
    unfolding Let_def OnBagItemAddOrDelete_def
    by (intro exI[of _ ms'] conjI) (simp_all only: ms'(1) after sum)
qed

section \<open>Delivering\<close>

text \<open>Status of a task that the role has one record of.\<close>

lemma status_of_record:
  assumes "idle ms" "reliable ms" "tasks_of T (db_of ms) = [k]" "filter (is_role_task R T) (tb_RoleTask (db_of ms)) = [r]"
  shows "rt_FinishStatus r = 1 \<Longrightarrow> GetRoleTaskStatus env R T ms = Some ((0, 3), ticked (ticked ms))"
    and "rt_FinishStatus r \<in> {0, 2} \<Longrightarrow> \<exists>i s. GetRoleTaskStatus env R T ms = Some ((i, s), ticked (ticked ms)) \<and> (i \<noteq> 0 \<or> s \<noteq> 3)"
proof -
  show "rt_FinishStatus r = 1 \<Longrightarrow> GetRoleTaskStatus env R T ms = Some ((0, 3), ticked (ticked ms))"
    using assms(2-4) by (simp add: GetRoleTaskStatus_def sql db_int_def GetIntField_cons Let_def)
  obtain role where "role_of env R (ticked (ticked ms)) = Some (role, ticked (ticked ms))"
    using role_of_idle[of "ticked (ticked ms)"] assms(1) by auto
  then show "rt_FinishStatus r \<in> {0, 2} \<Longrightarrow> \<exists>i s. GetRoleTaskStatus env R T ms = Some ((i, s), ticked (ticked ms)) \<and> (i \<noteq> 0 \<or> s \<noteq> 3)"
    using assms(2-4) by (auto simp: GetRoleTaskStatus_def sql db_int_def GetIntField_cons Let_def)
qed

definition delivered :: "role_task_row \<Rightarrow> role_task_row" where
  "delivered r = r\<lparr>rt_FinishStatus := 2, rt_DeliverNum := rt_DeliverNum r + 1\<rparr>"

lemma deliver_refused:
  assumes "idle ms" "reliable ms" "tasks_of T (db_of ms) = [k]" "filter (is_role_task R T) (tb_RoleTask (db_of ms)) = [r]"
    and "npcID = word_of_int (tk_ExitNpcID k)" "rt_FinishStatus r \<in> {0, 2}"
  shows "\<exists>c ms'. deliver_task env R T npcID ms = Some (c, ms') \<and> c \<noteq> 0 \<and> db_of ms' = db_of ms"
proof -
  have "idle (ticked ms)" "reliable (ticked ms)" "tasks_of T (db_of (ticked ms)) = [k]"
    "filter (is_role_task R T) (tb_RoleTask (db_of (ticked ms))) = [r]" using assms by simp_all
  from status_of_record(2)[OF this assms(6)] obtain i s
    where "GetRoleTaskStatus env R T (ticked ms) = Some ((i, s), ticked (ticked (ticked ms)))" "i \<noteq> 0 \<or> s \<noteq> 3" by blast
  then show ?thesis
    using assms(2,3,5) by (auto simp: deliver_task_def sql db_int_def GetIntField_cons Let_def ERR_APP_OP_def ERR_APP_DATA_def)
qed

lemma deliver_done:
  assumes "idle ms" "reliable ms" "tasks_of T (db_of ms) = [k]" "filter (is_role_task R T) (tb_RoleTask (db_of ms)) = [r]"
    and "npcID = word_of_int (tk_ExitNpcID k)" "tk_AfterDeliverScript k = []" "rt_FinishStatus r = 1"
  shows "\<exists>ms'. deliver_task env R T npcID ms = Some (0, ms') \<and> idle ms' \<and> reliable ms' \<and>
    db_of ms' = on_RoleTask (is_role_task R T) delivered (drop_details R T (db_of ms))"
proof -
  have "idle (ticked ms)" "reliable (ticked ms)" "tasks_of T (db_of (ticked ms)) = [k]"
    "filter (is_role_task R T) (tb_RoleTask (db_of (ticked ms))) = [r]" using assms by simp_all
  from status_of_record(1)[OF this assms(7)]
  have "GetRoleTaskStatus env R T (ticked ms) = Some ((0, 3), ticked (ticked (ticked ms)))" .
  moreover have "GetStringField [db_int a, db_int b, DStr c, DStr d, DStr e] 4 = e" for a b c d e
    by (simp add: GetStringField_def)
  ultimately show ?thesis
    using assms(1-3,5,6)
    by (auto simp: deliver_task_def sql db_int_def GetIntField_cons Let_def ExecAfterDeliverScript_def exec_script_def delivered_def[abs_def])
qed

text \<open>
  C12: a finished task is delivered once: its record is counted and closed, its details are removed, other
  tasks stay as they are, and a second delivery is refused.
\<close>

theorem task_delivered_once:
  assumes "idle ms" "reliable ms" "tasks_of T (db_of ms) = [k]" "filter (is_role_task R T) (tb_RoleTask (db_of ms)) = [r]"
    and "npcID = word_of_int (tk_ExitNpcID k)" "tk_AfterDeliverScript k = []" "rt_FinishStatus r = 1"
  shows "\<exists>ms' c ms''. deliver_task env R T npcID ms = Some (0, ms') \<and>
    filter (is_role_task R T) (tb_RoleTask (db_of ms')) = [delivered r] \<and>
    filter (\<lambda>x. \<not> is_role_task R T x) (tb_RoleTask (db_of ms')) = filter (\<lambda>x. \<not> is_role_task R T x) (tb_RoleTask (db_of ms)) \<and>
    tb_RoleTaskDetail (db_of ms') = filter (\<lambda>d. \<not> is_detail R T d) (tb_RoleTaskDetail (db_of ms)) \<and>
    deliver_task env R T npcID ms' = Some (c, ms'') \<and> c \<noteq> 0 \<and> db_of ms'' = db_of ms'"
proof -
  obtain ms' where 1: "deliver_task env R T npcID ms = Some (0, ms')" "idle ms'" "reliable ms'"
    "db_of ms' = on_RoleTask (is_role_task R T) delivered (drop_details R T (db_of ms))"
    using deliver_done[OF assms] by blast
  have key: "is_role_task R T (delivered x) = is_role_task R T x" for x by (simp add: is_role_task_def delivered_def)
  have "filter (is_role_task R T) (map (\<lambda>x. if is_role_task R T x then delivered x else x) rows) =
      map delivered (filter (is_role_task R T) rows)"
    "filter (\<lambda>x. \<not> is_role_task R T x) (map (\<lambda>x. if is_role_task R T x then delivered x else x) rows) =
      filter (\<lambda>x. \<not> is_role_task R T x) rows" for rows
    by (induction rows) (simp_all add: key)
  then have recs: "filter (is_role_task R T) (tb_RoleTask (db_of ms')) = [delivered r]"
    "filter (\<lambda>x. \<not> is_role_task R T x) (tb_RoleTask (db_of ms')) = filter (\<lambda>x. \<not> is_role_task R T x) (tb_RoleTask (db_of ms))"
    "tb_RoleTaskDetail (db_of ms') = filter (\<lambda>d. \<not> is_detail R T d) (tb_RoleTaskDetail (db_of ms))"
    "tasks_of T (db_of ms') = [k]"
    using assms(3,4) by (simp_all add: 1(4) on_RoleTask_def drop_details_def tasks_of_def)
  have "rt_FinishStatus (delivered r) \<in> {0, 2}" by (simp add: delivered_def)
  from deliver_refused[OF 1(2,3) recs(4,1) assms(5) this] 1(1) recs(1-3) show ?thesis by blast
qed

section \<open>Accepting\<close>

lemma same_keys_bare:
  assumes "map detail_key ds' = map detail_key ds" "filter (\<lambda>d. td_RoleID d = x) ds = []"
  shows "filter (\<lambda>d. td_RoleID d = x) ds' = []"
proof -
  have "filter (\<lambda>d. td_RoleID d = x) (map detail_key l) = map detail_key (filter (\<lambda>d. td_RoleID d = x) l)" for l
    by (simp add: filter_map comp_def detail_key_def)
  then show ?thesis using assms by (metis map_is_Nil_conv list.simps(8))
qed

lemma status_unrecorded:
  "reliable ms \<Longrightarrow> tasks_of T (db_of ms) = [k] \<Longrightarrow> filter (is_role_task R T) (tb_RoleTask (db_of ms)) = [] \<Longrightarrow>
    GetRoleTaskStatus env R T ms = Some ((0, 1), ticked (ticked ms))"
  by (simp add: GetRoleTaskStatus_def sql Let_def)

lemma record_task_new:
  assumes "idle ms" "reliable ms" "filter (is_role_task R T) (tb_RoleTask (db_of ms)) = []"
    and "\<forall>r \<in> set (tb_RoleTask (db_of ms)). rt_RoleID r \<noteq> d32 T"
  shows "\<exists>ms'. record_task env R T ty [] d ms = Some (None, ms') \<and> idle ms' \<and>
    filter (\<lambda>x. td_RoleID x = d32 R) (tb_RoleTaskDetail (db_of ms')) = []"
  using assms by (simp add: record_task_def sql ExecToDoScript_def Let_def)
    (auto simp: insert_role_task_def clean_details_def filter_empty_conv)

text \<open>
  C27: accepting a task deletes the progress of all other tasks of the role, unless some role happens to have
  the number of the task and a task: the clean-up takes the number of the task for that of a role.
\<close>

theorem accept_clears_other_details:
  assumes "idle ms" "reliable ms" "tasks_of T (db_of ms) = [k]" "tk_TodoScript k = []" "tk_CanAcceptScript k = []"
    and "filter (is_role_task R T) (tb_RoleTask (db_of ms)) = []"
    and "\<forall>r \<in> set (tb_RoleTask (db_of ms)). rt_RoleID r \<noteq> d32 T"
    and "ID pRole \<noteq> 0" "word_of_int (tk_MinLevel k) \<le> Level pRole" "Level pRole \<le> word_of_int (tk_MaxLevel k)"
  shows "\<exists>c status ms'. accept_task env R T pRole ms = Some ((c, status), ms') \<and>
    filter (\<lambda>d. td_RoleID d = d32 R) (tb_RoleTaskDetail (db_of ms')) = []"
proof -
  have row: "GetStringField (a # b # DStr c # DStr d # xs) 2 = c" "GetStringField (a # b # DStr c # DStr d # xs) 3 = d" for a b c d xs
    by (simp_all add: GetStringField_def)
  have level: "\<not> Level pRole < word_of_int (tk_MinLevel k)" "\<not> word_of_int (tk_MaxLevel k) < Level pRole" using assms(9,10) by simp_all
  let ?ms3 = "ticked (ticked (ticked ms))"
  have st: "GetRoleTaskStatus env R T (ticked ms) = Some ((0, 1), ?ms3)"
    using status_unrecorded[of "ticked ms" T k R env] assms(2,3,6) by simp
  let ?d = "got [[db_int (tk_TaskType k), db_int (tk_MinLevel k), DStr (tk_CanAcceptScript k), DStr (tk_TodoScript k),
      DStr (tk_AfterDeliverScript k), db_int (tk_MaxAcceptNum k), db_int (tk_MaxLevel k)]]"
  obtain ms4 where 4: "record_task env R T (word_of_int (tk_TaskType k)) [] ?d ?ms3 = Some (None, ms4)" "idle ms4"
      "filter (\<lambda>x. td_RoleID x = d32 R) (tb_RoleTaskDetail (db_of ms4)) = []"
    using record_task_new[of ?ms3 R T env "word_of_int (tk_TaskType k)" ?d] assms(1,2,6,7) by auto
  obtain u ms5 where 5: "CheckAllItemTypeTaskStatus env R ms4 = Some (u, ms5)"
      "evolves (\<lambda>t t'. map detail_key (tb_RoleTaskDetail t') = map detail_key (tb_RoleTaskDetail t)) ms4 ms5"
    using keys.runs_CheckAll[OF 4(2)] by (rule runsE)
  have i5: "idle ms5" using evolves_idle[OF 5(2)] 4(2) by simp
  obtain v ms6 where 6: "UpdateTaskStatus env R T ms5 = Some (v, ms6)"
      "evolves (\<lambda>t t'. map detail_key (tb_RoleTaskDetail t') = map detail_key (tb_RoleTaskDetail t)) ms5 ms6"
    using keys.runs_UpdateTaskStatus[OF i5] by (rule runsE)
  have i6: "idle ms6" using evolves_idle[OF 6(2)] i5 by simp
  obtain i s ms7 where 7: "GetRoleTaskStatus env R T ms6 = Some ((i, s), ms7)" "ms7 = ticked ms6 \<or> ms7 = ticked (ticked ms6)"
    by (rule GetRoleTaskStatus_idle[OF i6])
  have "map detail_key (tb_RoleTaskDetail (db_of ms6)) = map detail_key (tb_RoleTaskDetail (db_of ms4))"
    using 5(2) 6(2) by (simp add: evolves_def)
  from same_keys_bare[OF this 4(3)] have bare: "filter (\<lambda>x. td_RoleID x = d32 R) (tb_RoleTaskDetail (db_of ms7)) = []"
    using 7(2) by auto
  have "accept_task env R T pRole ms = Some ((if i \<noteq> 0 then ERR_APP_OP else 0, s), ms7)"
    using assms(2-5,8) level st 4(1) 5(1) 6(1) 7(1)
    by (simp add: accept_task_def sql db_int_def GetIntField_cons row ExecCanAcceptScript_def exec_script_def Let_def)
  then show ?thesis using bare by blast
qed

section \<open>Witnesses\<close>

text \<open>Role 7 has four of item 500; task 31 wants three and then five of it; task 32 is delivered, task 33 is
  finished, and task 34 can be accepted.\<close>

definition demo_wish :: "int \<Rightarrow> int \<Rightarrow> int \<Rightarrow> task_detail_row" where
  "demo_wish n goal fin = \<lparr>td_DetailID = n, td_RoleID = 7, td_TaskID = 31, td_GoalType = 2, td_GoalID = 500, td_GoalNum = goal,
     td_IsFinish = 0, td_FinishNum = fin\<rparr>"

definition demo_task :: "int \<Rightarrow> task_row" where
  "demo_task n = \<lparr>tk_TaskID = n, tk_TaskName = [], tk_TaskType = 1, tk_MinLevel = 0, tk_MaxLevel = 50, tk_MaxAcceptNum = 1,
     tk_ExitNpcID = 9, tk_CanAcceptScript = [], tk_TodoScript = [], tk_AfterDeliverScript = []\<rparr>"

definition demo_quests :: tables where
  "demo_quests = no_tables\<lparr>tb_Bag := [bag_item 7 1 500 4], tb_Task := map demo_task [31, 32, 33, 34],
     tb_RoleTask := [\<lparr>rt_RoleID = 7, rt_TaskID = 31, rt_FinishStatus = 0, rt_DeliverNum = 0\<rparr>,
       \<lparr>rt_RoleID = 7, rt_TaskID = 32, rt_FinishStatus = 2, rt_DeliverNum = 1\<rparr>,
       \<lparr>rt_RoleID = 7, rt_TaskID = 33, rt_FinishStatus = 1, rt_DeliverNum = 0\<rparr>],
     tb_RoleTaskDetail := [demo_wish 2 5 0, demo_wish 1 3 0]\<rparr>"

lemma demo_quests_sel [simp]:
  "tb_Bag demo_quests = [bag_item 7 1 500 4]" "tb_Task demo_quests = map demo_task [31, 32, 33, 34]"
  "tb_RoleTask demo_quests = [\<lparr>rt_RoleID = 7, rt_TaskID = 31, rt_FinishStatus = 0, rt_DeliverNum = 0\<rparr>,
       \<lparr>rt_RoleID = 7, rt_TaskID = 32, rt_FinishStatus = 2, rt_DeliverNum = 1\<rparr>,
       \<lparr>rt_RoleID = 7, rt_TaskID = 33, rt_FinishStatus = 1, rt_DeliverNum = 0\<rparr>]"
  "tb_RoleTaskDetail demo_quests = [demo_wish 2 5 0, demo_wish 1 3 0]"
  by (simp_all add: demo_quests_def)

lemma demo_wishes [simp]: "wanted 7 500 demo_quests = [demo_wish 1 3 0, demo_wish 2 5 0]" "held 7 500 demo_quests = 4"
  by (simp_all add: wanted_def goals_def is_goal_def held_def has_item_def demo_wish_def bag_item_def d32_def)

theorem events_spare_closed_tasks_witness:
  "\<exists>ms'. on_events demo_menv [(7, BagChanged 500), (7, Killed 3 1)] (demo_main demo_quests) = Some ((), ms') \<and>
    filter (is_role_task 7 32) (tb_RoleTask (db_of ms')) = [\<lparr>rt_RoleID = 7, rt_TaskID = 32, rt_FinishStatus = 2, rt_DeliverNum = 1\<rparr>]"
  using events_spare_closed_tasks[of "demo_main demo_quests" 7 32 demo_menv "[(7, BagChanged 500), (7, Killed 3 1)]"]
  by (simp add: open_task_def is_role_task_def d32_def) blast

theorem finished_task_stays_finished_witness:
  "\<exists>ms'. on_events demo_menv [(7, BagChanged 500), (7, Killed 3 1)] (demo_main demo_quests) = Some ((), ms') \<and>
    finished 7 33 (db_of ms')"
  using finished_task_stays_finished[of "demo_main demo_quests" 7 33 demo_menv "[(7, BagChanged 500), (7, Killed 3 1)]"]
  by (simp add: finished_def is_role_task_def d32_def)

theorem held_items_are_shared_witness:
  "\<exists>ms'. OnBagItemAddOrDelete demo_menv 7 500 (demo_main demo_quests) = Some ((), ms') \<and>
    map td_FinishNum (wanted 7 500 (db_of ms')) = [3, 1] \<and> map td_IsFinish (wanted 7 500 (db_of ms')) = [1, 0]"
  using held_items_are_shared[of "demo_main demo_quests" 7 500 demo_menv]
  by (simp add: wanted_ok_def) (auto simp: demo_wish_def bag_item_def Let_def)

theorem task_delivered_once_witness:
  "\<exists>ms' c ms''. deliver_task demo_menv 7 33 9 (demo_main demo_quests) = Some (0, ms') \<and>
    deliver_task demo_menv 7 33 9 ms' = Some (c, ms'') \<and> c \<noteq> 0"
  using task_delivered_once[of "demo_main demo_quests" 33 "demo_task 33" 7 "\<lparr>rt_RoleID = 7, rt_TaskID = 33, rt_FinishStatus = 1, rt_DeliverNum = 0\<rparr>" 9 demo_menv]
  by (simp add: tasks_of_def is_role_task_def d32_def demo_task_def) blast

theorem accept_clears_other_details_witness:
  "\<exists>c status ms'. accept_task demo_menv 7 34 (set_ID 7 (Role_new 0 0)) (demo_main demo_quests) = Some ((c, status), ms') \<and>
    filter (\<lambda>d. td_RoleID d = 7) (tb_RoleTaskDetail (db_of ms')) = []"
proof -
  have "ID (set_ID 7 (Role_new 0 0)) = 7" by (simp add: ID_def set_ID_def)
  moreover have "Level (set_ID 7 (Role_new 0 0)) = 0" by code_simp
  ultimately show ?thesis
    using accept_clears_other_details[of "demo_main demo_quests" 34 "demo_task 34" 7 "set_ID 7 (Role_new 0 0)" demo_menv]
    by (simp add: tasks_of_def is_role_task_def d32_def demo_task_def)
qed

end
