(* ===== verification/Spec2Isabelle.thy ===== *)
theory Spec2Isabelle
  imports Archives Timer_Wheel App_Gateway Proxy_Poll Role Team_Rules Pk_Limits Trade_Rules Task_Rules
begin

text \<open>
  The servers of an online game, from their sources: a gateway that clients and servers connect to, a
  main server with the roles and their teams, and a server that runs the fights.

  \<^bold>\<open>How the parts work together.\<close>  Every message has a header of 15 bytes (length, direction, service,
  sequence, type, two identifiers).  A client connects to the gateway (\<^verbatim>\<open>Gateway/\<close>), which cuts
  the stream of a connection into messages, relays requests to the server registered for the service, with
  the role of the session put into the header, and relays answers to the client of the role they name.  A
  server connects to its gateways through \<^verbatim>\<open>Framework/BaseServer/GWProxy.h\<close>, which registers it,
  cuts the incoming stream in turn, and hands messages to the services.  The services of the main server
  (\<^verbatim>\<open>MainServer/\<close>) read requests with the serializer of the framework, change the tables of
  \<^verbatim>\<open>CoreData\<close>, and answer with packets of the same framework.  For a fight the main server sends
  the roles to the fight server (\<^verbatim>\<open>PkServer/\<close>), which runs it and reports its end.

  \<^bold>\<open>The framework.\<close>  \<open>Prelude\<close>: integers as words, their bytes, ordered maps as ordered lists
  (\<open>smap\<close>), with the laws of \<^verbatim>\<open>std::map\<close> as locale \<open>std_map\<close>.
  \<open>Data_Buffer\<close> (\<^verbatim>\<open>DataBuffer.h\<close>): the byte buffer, which refines a bounded queue.
  \<open>Packet_Header\<close> (\<^verbatim>\<open>Packet.cpp\<close>): packing and unpacking the header.
  \<open>Serializer_Ops\<close> (\<^verbatim>\<open>Serializer.cpp\<close>, \<^verbatim>\<open>List.h\<close>): loading and storing integers,
  strings and lists; the locales \<open>codec\<close> and \<open>list_element\<close> state what loading after storing
  returns, and a list of elements is a codec again.  \<open>Archives\<close> (\<^verbatim>\<open>MainServer/Archv*.h\<close>)
  interprets them for eleven messages.  \<open>Timer_Wheel\<close> (\<^verbatim>\<open>NewTimer.cpp\<close>,
  \<^verbatim>\<open>TimerManager.cpp\<close>): when an attached timer fires.

  \<^bold>\<open>The gateway.\<close>  \<open>Pkg_Buff\<close> (\<^verbatim>\<open>PkgHead.cpp\<close>, \<^verbatim>\<open>PkgBuff.cpp\<close>),
  \<open>Connect_Session\<close> (\<^verbatim>\<open>ConnectSession.cpp\<close>: receiving, cutting, sending, closing) and
  \<open>App_Gateway\<close> (\<^verbatim>\<open>AppGwSvc.cpp\<close>: the tables of descriptors, roles and addresses, the handlers
  of messages, accepting and removing).  The tables stay well formed in every reachable state and lead only
  to sessions that are alive; a request carries the role of its session, and an answer goes to the client it names.

  \<^bold>\<open>A server's side of the gateway.\<close>  \<open>Our_Def\<close> (constants), \<open>GW_Proxy\<close>
  (\<^verbatim>\<open>Session.cpp\<close>, \<^verbatim>\<open>GWProxy.h\<close>: one function for one of the source),
  \<open>Proxy_Receive\<close> (what the receive routine makes of a stream) and \<open>Proxy_Poll\<close> (the poll array
  and its indices under connecting and closing).  This root theory joins both sides: what a server builds
  and sends is what the gateway hands to its handlers, and what the two conclude from a registration.

  \<^bold>\<open>The main server.\<close>  \<open>Creature\<close>, \<open>Role\<close>, \<open>Team\<close>
  (\<^verbatim>\<open>CoreData/Creature.cpp\<close>, \<^verbatim>\<open>Role.cpp\<close>, \<^verbatim>\<open>Team.cpp\<close>): attributes, levels,
  talents, loading and saving (a save has the text of its statements' length, their refusal, and unescaped strings), members.  \<open>Core_Data\<close> and \<open>Core_Teams\<close>
  (\<^verbatim>\<open>CoreData.cpp\<close>): the tables of roles, teams and fights behind one mutex; locale
  \<open>core_invariant\<close> for what every operation keeps.  \<open>Service_Packets\<close>, \<open>Team_Svc\<close>,
  \<open>Team_Rules\<close> (\<^verbatim>\<open>Team/TeamSvc.cpp\<close>): the seven requests, their effect on the tables, and
  the state of the tables after any run of requests, logouts and map changes.

  \<^bold>\<open>Bags, tasks and trades.\<close>  \<open>Sql_Access\<close> (\<^verbatim>\<open>Framework/BaseDB/DBOperate.cpp\<close>): a
  statement is a function on the tables, a query one from the tables to rows; each can be refused.
  \<open>Main_State\<close>: the tables, the core data, the messages and events the services put out, and the
  buffers of an answer.  \<open>Bag_Cells\<close>, \<open>Bag_Items\<close>, \<open>Bag_Drop\<close>
  (\<^verbatim>\<open>MainServer/Bag/BagSvc.cpp\<close>): free cells, giving, taking, paying, and the exchange of
  cells between two bags.  \<open>Archv_Task\<close> (\<^verbatim>\<open>ArchvTask.h\<close>), \<open>Task_Svc\<close>,
  \<open>Task_Lua\<close>, \<open>Task_Requests\<close> (\<^verbatim>\<open>Task/TaskSvc.cpp\<close>, \<^verbatim>\<open>Task/TaskLua.cpp\<close>,
  \<^verbatim>\<open>LuaState::Do\<close>): the records of tasks and of their details, what the events of the game do to
  them, the functions that scripts call, the four requests.  \<open>Trade_Svc\<close>
  (\<^verbatim>\<open>Trade/TradeSvc.cpp\<close>): the requests of two roles that trade.  \<open>Task_Frame\<close> states the
  locales \<open>status_relation\<close> and \<open>task_relation\<close>: a relation between tables that the statements of the
  handlers obey holds over any run of events; five interpretations give what events leave alone, that they
  spare closed tasks, keep finished ones, and keep the keys.  \<open>Bag_Rules\<close>, \<open>Trade_Rules\<close> and
  \<open>Task_Rules\<close> say when an exchange, a payment, a trade and a delivery go through, and what goes wrong
  otherwise.

  \<^bold>\<open>The fight server.\<close>  \<open>Pk_Base\<close> (the state of roles, bullets and a fight, the messages it
  sends), \<open>Pk_Path\<close> (free cells and the path search), \<open>Pk_Buff\<close> (buffs, death, damage),
  \<open>Pk_Skills\<close>, \<open>Pk_Casts\<close> (skills and summons), \<open>Pk_Attack\<close> (attacks, bullets, running
  buffs, choosing a skill), \<open>Pk_Run\<close> (movement, orders, computer players, the clock), all from
  \<^verbatim>\<open>PkServer/PK_thread.cpp\<close>, and \<open>Pk_Server\<close> (\<^verbatim>\<open>PK_main_thread.cpp\<close> and
  \<^verbatim>\<open>PK_PE::Init\<close>: connections, messages, and fights that are made, run and removed).
  A role is addressed by its key where the code holds a pointer, which is the same because no role ever
  leaves a fight.  The proofs about fights form a calculus: \<open>Pk_Accounts\<close> says what each buff adds to which
  attribute, \<open>Pk_Rules\<close> states the locale \<open>fight_base\<close> of laws for an invariant of a fight,
  \<open>Pk_Keeps\<close> extends it to \<open>fight_lose\<close> and \<open>fight_invariant\<close>, and there and in
  \<open>Pk_Loop\<close> every operation up to the clock is shown to keep an invariant that obeys the laws, with
  \<open>Pk_Own\<close> for what an operation does to its own role.  \<open>Pk_Stay\<close>, \<open>Pk_Fair\<close>,
  \<open>Pk_Report\<close> and \<open>Pk_Typed\<close> interpret the locale (roles stay; attributes are balanced; the end
  is reported once, if the main server can be reached; tables are well formed), and \<open>Pk_Sound\<close> carries them to all fights of a server.
  \<open>Pk_Limits\<close> has bounds and failures: places within a cell, the search for room, charges, curses.

  \<^bold>\<open>Parameters and hypotheses.\<close>  What the sources only call is an argument: the results of socket
  calls and of \<^verbatim>\<open>poll\<close>, the answers to the queries that load and save a role, which statements the database refuses
  (\<open>db_refuse\<close>, and \<open>refuse\<close> for the save of a role), the Lua library (\<open>me_lua\<close>), whether a mutex can be locked twice (\<open>relock\<close>), arithmetic on floating point numbers of the main server (\<open>fp_ops\<close>), the random
  numbers of a fight (\<open>pk_rand\<close>), the tables of maps and skills read at start-up, and the contents of
  memory that the code reads before it writes it.  The two floating point constants of the fight server are
  computed with exact rationals rounded as \<^verbatim>\<open>double\<close> does.  What the environment of the
  main server's services holds is the record \<open>main_env\<close>: in it \<open>me_word\<close> and \<open>me_record\<close> are
  what an uninitialised variable has.

  \<^bold>\<open>Loops.\<close>  Loops over lists and arrays are structural, and those around socket
  calls run over the list of the results of the calls.  The loop of the fight server over the bytes received has
  as fuel the length of the buffer, and every round takes at least the 15 bytes of a header.  The path
  search, the search for a free place next to other roles, the random place of skill 224, the gain of
  levels and the run of a script are partial functions, so that not returning is \<open>None\<close>; all but the
  random place and the script, which is the library's, are proved to return.  Failures of the
  program (division by zero, a lookup through an end iterator, use of an iterator into a cleared table,
  a write in front of an array, a message, report or statement that is longer than the array it is put into,
  a negative length of a copy, a lock that never returns) are the value \<open>None\<close>.

  \<^bold>\<open>Not modelled.\<close>  Threads and their interleaving: an operation under a mutex is one step, a
  round of a fight is one step, and so is a request to a service.  Start-up, configuration, logging, signals, daemon and socket set-up, the
  connections to the database and the registration of Lua functions: input and output around library calls.
  Of the bag service, the requests and the work on equipment (composing, upgrading, identifying).  Of the
  main server, the other services (accounts, avatars, chat, friends, guides, login, mail, shops, pets), maps,
  monsters and the login of roles.  The
  links between servers, whose receive routine is that of \<^verbatim>\<open>GWProxy.h\<close> again.
\<close>

section \<open>A server's messages at the gateway\<close>

text \<open>A message as every service builds and sends it: header, body, length, then the send.\<close>

definition send_packet :: "sock_send list \<Rightarrow> sock_poll list \<Rightarrow> packet \<Rightarrow> u8 list \<Rightarrow> (int \<times> u8 list) option" where
  "send_packet ss ps p body = do {
     (ok, p1) \<leftarrow> PackHeader p;
     (r, b) \<leftarrow> Write body (p_buffer p1);
     (ok', p2) \<leftarrow> UpdatePacketLength (p1\<lparr>p_buffer := b\<rparr>);
     (r', out, rest) \<leftarrow> SendProc ss ps (p_buffer p2);
     Some (r', out)
   }"

lemma send_packet_run:
  assumes "db_inv (p_buffer p)" and "15 + length body \<le> unat (db_size (p_buffer p))"
    and "15 + length body < 65536"
  shows "\<exists>b. holds b (frame p body) \<and>
    send_packet ss ps p body = map_option (\<lambda>(r, out, rest). (r, out)) (SendProc ss ps b)"
proof -
  let ?b1 = "append_db (header_bytes p) (Reset (p_buffer p))"
  let ?p1 = "p\<lparr>p_buffer := ?b1\<rparr>"
  have pack: "PackHeader p = Some (True, ?p1)"
    using assms(1,2) by (intro PackHeader_append) simp_all
  have wr: "Write body ?b1 = Some (0, append_db body ?b1)"
    using assms(1,2) by (intro Write_append) (simp_all add: wire db_inv_Reset space_Reset)
  have "holds (append_db body ?b1) (header_bytes p @ body)"
    using assms(1,2) holds_append [OF holds_append [OF holds_Reset], of "p_buffer p" "header_bytes p" body]
    by (simp add: wire space_Reset)
  moreover have "db_read (append_db body ?b1) = 0"
    by (simp add: Reset_def)
  ultimately obtain b where upd: "UpdatePacketLength (p\<lparr>p_buffer := append_db body ?b1\<rparr>) =
      Some (True, p\<lparr>p_buffer := append_db body ?b1, p_Length := of_nat (15 + length body), p_buffer := b\<rparr>)"
    and b: "holds b (frame p body)"
    using UpdatePacketLength_holds [of "p\<lparr>p_buffer := append_db body ?b1\<rparr>" p body] assms(3) by auto
  have "send_packet ss ps p body = map_option (\<lambda>(r, out, rest). (r, out)) (SendProc ss ps b)"
    by (auto simp: send_packet_def pack wr upd map_option_case case_prod_unfold split: option.split)
  then show ?thesis
    using b by blast
qed

lemma send_packet_frame:
  assumes "db_inv (p_buffer p)" and "15 + length body \<le> unat (db_size (p_buffer p))"
    and "15 + length body < 65536" and "send_packet ss ps p body = Some (0, out)"
  shows "out = frame p body"
proof -
  obtain b where b: "holds b (frame p body)"
    and "send_packet ss ps p body = map_option (\<lambda>(r, out, rest). (r, out)) (SendProc ss ps b)"
    using send_packet_run [OF assms(1-3)] by blast
  then obtain rest where "SendProc ss ps b = Some (0, out, rest)"
    using assms(4) by (cases "SendProc ss ps b") auto
  then have "send_chunks ss ps (length (frame p body)) b = Some (0, out, rest)"
    using SendProc_holds [OF b] assms(3) by auto
  from send_chunks_sent [OF b this] show ?thesis
    by simp
qed

definition packet_fits :: "packet \<times> u8 list \<Rightarrow> bool" where
  "packet_fits = (\<lambda>(p, body). db_inv (p_buffer p) \<and> 15 + length body \<le> unat (db_size (p_buffer p)) \<and>
     15 + length body < 65535)"

definition packet_sent :: "packet \<times> u8 list \<Rightarrow> u8 list \<Rightarrow> bool" where
  "packet_sent = (\<lambda>(p, body) out. \<exists>ss ps. send_packet ss ps p body = Some (0, out))"

lemma packets_sent_stream:
  "list_all packet_fits l \<Longrightarrow> list_all2 packet_sent l outs \<Longrightarrow>
   concat outs = concat (map (\<lambda>(h, body). pkg_message h body) (map (\<lambda>(p, body). (head_of_packet p, body)) l))"
proof (induction l arbitrary: outs)
  case Nil
  then show ?case by simp
next
  case (Cons m l)
  obtain p body out outs' where m: "m = (p, body)" and outs: "outs = out # outs'"
    using Cons.prems(2) by (cases m, cases outs) auto
  then have "out = frame p body"
    using Cons.prems send_packet_frame [of p body] by (auto simp: packet_fits_def packet_sent_def)
  then show ?case
    using Cons by (simp add: m outs frame_is_message)
qed

text \<open>
  C1: what a server sends through its packet and session classes is what the gateway hands to its
  handlers. When a server has sent the messages \<open>l\<close> over one connection, with whatever partial sends,
  and the gateway has received some front part of those bytes in whatever pieces, its handlers have
  been given exactly the first of those messages, each with the header fields of its packet, its true
  length and its body, in order. Nothing is lost and nothing is kept back that is complete: the bytes
  held and those still to come are together the messages not yet given, the bytes held are fewer than
  the next message has, and when everything has arrived every message has been given.
\<close>

theorem server_messages_reach_gateway:
  assumes "list_all packet_fits l" and "list_all2 packet_sent l outs" and "bs @ tail = concat outs"
    and "recv_run s0 bs ms s" and "cs_recv s0 = []"
    and "cs_connType s0 = INSIDE_TCP_STREAM \<or> cs_connType s0 = OUTSIDE_TCP_STREAM"
  shows "\<exists>n \<le> length l. ms = map (\<lambda>(p, body). pkg_message (head_of_packet p) body) (take n l) \<and>
    cs_recv s @ tail = concat (map (\<lambda>(p, body). pkg_message (head_of_packet p) body) (drop n l)) \<and>
    (if n < length l then length (cs_recv s) < 15 + length (snd (l ! n)) \<and> tail \<noteq> []
     else cs_recv s = [] \<and> tail = [])"
proof -
  let ?h = "\<lambda>(p, body). (head_of_packet p, body)"
  have small: "\<forall>(h, body) \<in> set (map ?h l). length body < 65520"
    using assms(1) by (auto simp: list_all_iff packet_fits_def)
  have sp: "split_frames bs = (ms, cs_recv s)"
    using recv_run_split [OF assms(4-6)] by blast
  have stream: "bs @ tail = concat (map (\<lambda>(h, body). pkg_message h body) (map ?h l))"
    unfolding assms(3) by (rule packets_sent_stream [OF assms(1,2)])
  obtain n where n: "n \<le> length (map ?h l)" "ms = map (\<lambda>(h, body). pkg_message h body) (take n (map ?h l))"
      "cs_recv s @ tail = concat (map (\<lambda>(h, body). pkg_message h body) (drop n (map ?h l)))"
      "if n < length (map ?h l) then length (cs_recv s) < 15 + length (snd (map ?h l ! n)) \<and> tail \<noteq> []
       else cs_recv s = [] \<and> tail = []"
    using split_frames_count [OF sp small stream] by blast
  have maps: "map (\<lambda>(h, body). pkg_message h body) (map ?h k) = map (\<lambda>(p, body). pkg_message (head_of_packet p) body) k" for k
    by (induction k) auto
  have "if n < length l then length (cs_recv s) < 15 + length (snd (l ! n)) \<and> tail \<noteq> [] else cs_recv s = [] \<and> tail = []"
    using n(4) by (simp add: case_prod_unfold split: if_splits)
  moreover have "n \<le> length l"
    using n(1) by simp
  ultimately show ?thesis
    using n(2,3) unfolding take_map drop_map maps by blast
qed

lemma packet_sent_whole:
  assumes "packet_fits (p, body)"
  shows "packet_sent (p, body) (frame p body)"
proof -
  have inv: "db_inv (p_buffer p)" "15 + length body \<le> unat (db_size (p_buffer p))" and len: "15 + length body < 65536"
    using assms by (simp_all add: packet_fits_def)
  let ?ss = "[Sent (15 + length body)]"
  obtain b where b: "holds b (frame p body)" and run: "send_packet ?ss [] p body =
      map_option (\<lambda>(r, out, rest). (r, out)) (SendProc ?ss [] b)"
    using send_packet_run [OF inv len, of ?ss "[]"] by auto
  have "send_packet ?ss [] p body = Some (0, frame p body)"
    unfolding run using send_whole [OF b, of "15 + length body" "[]" "[]"] len by simp
  then show ?thesis
    by (auto simp: packet_sent_def)
qed

text \<open>The first of two messages and sixteen of the seventeen bytes of the second have arrived.\<close>

theorem server_messages_reach_gateway_witness:
  "\<exists>s. recv_run demo_session (frame demo_packet [9] @ take 16 (frame demo_packet [7, 8]))
      [pkg_message (head_of_packet demo_packet) [9]] s \<and>
    cs_recv s @ drop 16 (frame demo_packet [7, 8]) = pkg_message (head_of_packet demo_packet) [7, 8]"
proof -
  let ?l = "[(demo_packet, [9]), (demo_packet, [7, 8])] :: (packet \<times> u8 list) list"
  let ?bs = "frame demo_packet [9] @ take 16 (frame demo_packet [7, 8])" and ?tail = "drop 16 (frame demo_packet [7, 8])"
  have fits: "list_all packet_fits ?l"
    using db_inv_demo by (simp add: packet_fits_def)
  then have sent: "list_all2 packet_sent ?l [frame demo_packet [9], frame demo_packet [7, 8]]"
    by (simp add: packet_sent_whole)
  have len: "length ?bs = 32" "length ?tail = 1"
    by simp_all
  then have "?bs \<noteq> []" "length ?bs \<le> 65535"
    unfolding length_greater_0_conv [symmetric] by simp_all
  then obtain ms s where run: "recv_run demo_session ?bs ms s"
    using demo_recv by blast
  have "cs_recv demo_session = []" "cs_connType demo_session = OUTSIDE_TCP_STREAM"
    by (simp_all add: demo_session_def ConnectSession_new_def)
  then have start: "cs_recv demo_session = []"
      "cs_connType demo_session = INSIDE_TCP_STREAM \<or> cs_connType demo_session = OUTSIDE_TCP_STREAM"
    by simp_all
  have "?bs @ ?tail = concat [frame demo_packet [9], frame demo_packet [7, 8]]"
    by simp
  from server_messages_reach_gateway [OF fits sent this run start] obtain n where n: "n \<le> length ?l"
      "ms = map (\<lambda>(p, body). pkg_message (head_of_packet p) body) (take n ?l)"
      "cs_recv s @ ?tail = concat (map (\<lambda>(p, body). pkg_message (head_of_packet p) body) (drop n ?l))"
      "if n < length ?l then length (cs_recv s) < 15 + length (snd (?l ! n)) \<and> ?tail \<noteq> [] else cs_recv s = [] \<and> ?tail = []"
    by blast
  have "n = 1"
  proof (rule ccontr)
    assume ne: "n \<noteq> 1"
    have "n < 2"
      using n(1,4) len(2) by (cases "n = 2") auto
    then have "n = 0"
      using ne by linarith
    then have "length (cs_recv s) < 16" "length (cs_recv s) + 1 = 33"
      using n(4) len(2) arg_cong [OF n(3), of length] by simp_all
    then show False
      by linarith
  qed
  then show ?thesis
    using run n(2,3) by auto
qed

section \<open>Registration\<close>

lemma bytes_of_word_u8: "bytes_of_word (Suc 0) (w :: u8) = [w]"
  by (simp add: bytes_of_word_def)

text \<open>The packet \<^verbatim>\<open>Register\<close> fills, without its buffer.\<close>

definition register_header :: "packet \<Rightarrow> packet" where
  "register_header junk = junk\<lparr>p_Length := ucast PACKET_HEADER_LENGTH, p_Direction := DIRECT_S_S_REQ,
     p_SvrType := 0, p_SvrSeq := 0, p_MsgType := MSGTYPE_GW_SVRCONNECT, p_UniqID := 0\<rparr>"

lemma register_packet_frame:
  assumes "length mem = 1024"
  shows "\<exists>pkt. register_packet junk mem p = Some pkt \<and>
    holds (p_buffer pkt) (frame (register_header junk) [px_svrType p, px_svrSeq p])"
proof -
  let ?pkt = "(register_header junk)\<lparr>p_buffer := DataBuffer_new 1024 mem\<rparr>"
  have inv: "db_inv (p_buffer ?pkt)" "unat (db_size (p_buffer ?pkt)) = 1024"
    using assms by (simp_all add: db_inv_def DataBuffer_new_def)
  let ?b1 = "append_db (header_bytes ?pkt) (Reset (p_buffer ?pkt))"
  have pack: "PackHeader ?pkt = Some (True, ?pkt\<lparr>p_buffer := ?b1\<rparr>)"
    using inv by (intro PackHeader_append) simp_all
  have b1: "holds ?b1 (header_bytes ?pkt)" "space ?b1 = 1009" "db_inv ?b1" "db_read ?b1 = 0"
    using inv holds_append [OF holds_Reset, of "p_buffer ?pkt" "header_bytes ?pkt"]
    by (simp_all add: wire space_Reset db_inv_Reset) (simp add: Reset_def)
  have w1: "Write [x] ?b1 = Some (0, append_db [x] ?b1)" for x
    using b1 by (intro Write_append) simp_all
  have w2: "Write [y] (append_db [x] ?b1) = Some (0, append_db [x, y] ?b1)" for x y
  proof -
    have "Write [y] (append_db [x] ?b1) = Some (0, append_db [y] (append_db [x] ?b1))"
      using b1 by (intro Write_append) (simp_all add: wire)
    moreover have "append_db [y] (append_db [x] ?b1) = append_db ([x] @ [y]) ?b1"
      using b1 by (intro append_append) simp_all
    ultimately show ?thesis
      by simp
  qed
  let ?body = "[px_svrType p, px_svrSeq p]"
  have "holds (append_db ?body ?b1) (header_bytes ?pkt @ ?body)"
    using b1 by (intro holds_append) simp_all
  moreover have "db_read (append_db ?body ?b1) = 0"
    using b1(4) by simp
  ultimately obtain b where upd: "UpdatePacketLength (?pkt\<lparr>p_buffer := append_db ?body ?b1\<rparr>) =
      Some (True, ?pkt\<lparr>p_buffer := append_db ?body ?b1, p_Length := of_nat (15 + length ?body), p_buffer := b\<rparr>)"
    and b: "holds b (frame ?pkt ?body)"
    using UpdatePacketLength_holds [of "?pkt\<lparr>p_buffer := append_db ?body ?b1\<rparr>" ?pkt ?body] by auto
  have "register_packet junk mem p = Some (?pkt\<lparr>p_buffer := append_db ?body ?b1,
      p_Length := of_nat (15 + length ?body), p_buffer := b\<rparr>)"
    using pack w1 w2 upd by (simp add: register_packet_def register_header_def bytes_of_word_u8)
  moreover have "frame ?pkt ?body = frame (register_header junk) ?body"
    by (simp add: frame_def header_bytes_def)
  ultimately show ?thesis
    using b by simp
qed

lemma gw_send_open:
  assumes "cs_closeFlag (sess req g) = 0" and "gw_sends g = []"
  shows "gw_send req b g = (int (length b), g\<lparr>gw_heap := (gw_heap g)(req := (sess req g)\<lparr>cs_trySendNum := 0\<rparr>),
    gw_out := gw_out g @ [(cs_connID (sess req g), b)]\<rparr>)"
  using assms by (simp add: gw_send_def SendMsg_def Let_def)

text \<open>The answer of the gateway to a registration.\<close>

lemma ProcessS2G_register:
  assumes "cs_closeFlag (sess req g) = 0" and "gw_sends g = []" and "ty \<noteq> 0" and "sq \<noteq> 0"
    and "m = pkg_message h [ty, sq]" and "usMsgType h = MSGTYPE_GW_SVRCONNECT" and "ucDirection h = DIRECT_S_S_REQ"
    and "g' = ProcessS2G now req m g"
  shows "gw_out g' = gw_out g @ [(cs_connID (sess req g), pkg_message (h\<lparr>ucDirection := DIRECT_S_S_RESP\<rparr>)
      (bytes_of_word 4 (if 0 < srv_fd ty sq g then ERR_SYSTEM_SVRLOGINED else 0 :: u32)))]"
    and "srv_fd ty sq g' = (if 0 < srv_fd ty sq g then srv_fd ty sq g else CONNECTION_FD (cs_connID (sess req g)))"
proof -
  have h: "pkg_unpacket m = h\<lparr>usPkgLen := 17\<rparr>"
    using unpacket_message [of h "[ty, sq]" "[]"] assms(5) by simp
  have body: "drop 15 m = [ty, sq]" "drop 16 m = [sq]"
    by (simp add: assms(5)) (simp add: assms(5) pkg_message_def)
  have byte: "word_of_bytes [w] = w" for w :: u8
    by (simp add: word_of_bytes_def)
  have msg: "pkg_message (h\<lparr>usPkgLen := 17, ucDirection := d\<rparr>) b = pkg_message (h\<lparr>ucDirection := d\<rparr>) b" for d b
    by (simp add: pkg_message_def)
  have id: "srv_fd ty sq (g\<lparr>gw_heap := x, gw_out := y\<rparr>) = srv_fd ty sq g" for x y
    by (simp add: srv_fd_def)
  show "gw_out g' = gw_out g @ [(cs_connID (sess req g), pkg_message (h\<lparr>ucDirection := DIRECT_S_S_RESP\<rparr>)
      (bytes_of_word 4 (if 0 < srv_fd ty sq g then ERR_SYSTEM_SVRLOGINED else 0 :: u32)))]"
    using assms(3,4,6,7)
    by (simp add: assms(8) ProcessS2G_def h body byte check_srv_scope_def gw_send_open [OF assms(1,2)]
        compose_message PkgBuff_GetSize_def Let_def msg upd_sess_def set_srv_fd_def)
  show "srv_fd ty sq g' = (if 0 < srv_fd ty sq g then srv_fd ty sq g else CONNECTION_FD (cs_connID (sess req g)))"
    using assms(3,4,6,7)
    by (simp add: assms(8) ProcessS2G_def h body byte check_srv_scope_def gw_send_open [OF assms(1,2)]
        compose_message PkgBuff_GetSize_def Let_def msg upd_sess_def set_srv_fd_def id)
      (simp add: srv_fd_def sess_def)
qed

text \<open>
  C4: server and gateway agree on a registration. The bytes \<^verbatim>\<open>Register\<close> sends, handled
  by the gateway on an open server connection, give the slot of the server's type and sequence number
  to that connection when it was free and leave it alone when it was taken; and the answer the gateway
  sends, received and processed by the server, marks the server registered exactly when it got the slot.
\<close>

theorem registration_handshake:
  assumes "length mem = 1024" and "register_packet junk mem p = Some pkt"
    and "px_svrType p \<noteq> 0" and "px_svrSeq p \<noteq> 0"
    and "cs_closeFlag (sess req g) = 0" and "gw_sends g = []"
    and "free = (srv_fd (px_svrType p) (px_svrSeq p) g \<le> 0)"
    and "g' = ProcessS2G now req (unread (p_buffer pkt)) g"
    and "\<not> gc_Registered c"
  shows "srv_fd (px_svrType p) (px_svrSeq p) g' =
      (if free then CONNECTION_FD (cs_connID (sess req g)) else srv_fd (px_svrType p) (px_svrSeq p) g) \<and>
    fst (last (gw_out g')) = cs_connID (sess req g) \<and>
    OnProcess c (parse junk' (snd (last (gw_out g')))) = (c\<lparr>gc_Registered := free\<rparr>, None)"
proof -
  let ?q = "register_header junk" and ?body = "[px_svrType p, px_svrSeq p]"
  let ?code = "if 0 < srv_fd (px_svrType p) (px_svrSeq p) g then ERR_SYSTEM_SVRLOGINED else 0 :: u32"
  have "unread (p_buffer pkt) = pkg_message (head_of_packet ?q) ?body"
    using register_packet_frame [OF assms(1), of junk p] assms(2) by (auto simp: holds_def frame_is_message)
  note reg = ProcessS2G_register [OF assms(5,6,3,4) this _ _ assms(8)]
  let ?ans = "?q\<lparr>p_Direction := DIRECT_S_S_RESP\<rparr>"
  have head: "usMsgType (head_of_packet ?q) = MSGTYPE_GW_SVRCONNECT" "ucDirection (head_of_packet ?q) = DIRECT_S_S_REQ"
    by (simp_all add: head_of_packet_def register_header_def)
  have "pkg_message ((head_of_packet ?q)\<lparr>ucDirection := DIRECT_S_S_RESP\<rparr>) b = frame ?ans b" for b
    by (simp add: frame_is_message head_of_packet_def)
  then have out: "last (gw_out g') = (cs_connID (sess req g), frame ?ans (bytes_of_word 4 ?code))"
    using reg(1) [OF head] by simp
  have "holds (p_buffer (parse junk' (frame ?ans (bytes_of_word 4 ?code)))) (bytes_of_word 4 ?code @ [])"
    using parse_frame(3) [of "bytes_of_word 4 ?code"] by simp
  from holds_Read [OF this] have rd: "\<exists>b. Read 4 (p_buffer (parse junk' (frame ?ans (bytes_of_word 4 ?code)))) =
      Some (bytes_of_word 4 ?code, b)"
    by auto
  have ty: "p_MsgType (parse junk' (frame ?ans (bytes_of_word 4 ?code))) = MSGTYPE_GW_SVRCONNECT"
    using parse_frame(4) [of "bytes_of_word 4 ?code"] by (simp add: register_header_def)
  have "OnProcess c (parse junk' (frame ?ans (bytes_of_word 4 ?code))) = (c\<lparr>gc_Registered := (?code = 0)\<rparr>, None)"
    using rd ty assms(9) by (auto simp: OnProcess_def word_of_bytes_u32)
  moreover have "(?code = 0) = free"
    by (simp add: assms(7) ERR_SYSTEM_SVRLOGINED_def)
  ultimately show ?thesis
    using reg(2) [OF head] out by (simp add: assms(7))
qed

theorem registration_handshake_witness:
  "\<exists>pkt g'. register_packet demo_packet (replicate 1024 0) demo_proxy = Some pkt \<and>
    g' = ProcessS2G 100 5 (unread (p_buffer pkt)) (demo_routed\<lparr>gw_srv := \<lambda>_. - 1\<rparr>) \<and>
    srv_fd 1 1 g' = 11 \<and>
    OnProcess (demo_conn\<lparr>gc_Registered := False\<rparr>) (parse demo_packet (snd (last (gw_out g')))) = (demo_conn, None)"
proof -
  let ?g = "demo_routed\<lparr>gw_srv := \<lambda>_. - 1\<rparr>"
  obtain pkt where pkt: "register_packet demo_packet (replicate 1024 0) demo_proxy = Some pkt"
    using register_packet_frame [of "replicate 1024 0" demo_packet demo_proxy] by auto
  have ty: "px_svrType demo_proxy = 1" "px_svrSeq demo_proxy = 1"
    by (simp_all add: demo_proxy_def)
  have g: "cs_closeFlag (sess 5 ?g) = 0" "gw_sends ?g = []" "srv_fd 1 1 ?g \<le> 0"
    "cs_connID (sess 5 ?g) = CONNECTION_ID 5 90 11"
    by (simp_all add: sess_def demo_routed_def ConnectSession_new_def AppGwSvc_new_def srv_fd_def)
  have c: "\<not> gc_Registered (demo_conn\<lparr>gc_Registered := False\<rparr>)" "demo_conn\<lparr>gc_Registered := True\<rparr> = demo_conn"
    by (simp_all add: demo_conn_def)
  from registration_handshake [OF _ pkt _ _ g(1,2) refl refl c(1), of 100 demo_packet] g(3,4) ty c(2) pkt
    connection_id_fd [of 11 5 90]
  show ?thesis
    by simp
qed

end
